(* ===== verification/Rust_Prelude.thy ===== *)
theory Rust_Prelude
  imports Complex_Main "HOL-Library.Word" "HOL-Library.Sublist" "HOL-Library.Char_ord"
    "HOL-Library.List_Lexorder" "HOL-Library.Signed_Division"
begin

text \<open>
  The prelude of the Aegiscudo development: what the components use of Rust and of its
  standard library.

  \<^item> A \<^verbatim>\<open>Result<T, E>\<close> is the sum \<open>'e + 'a\<close> (\<open>Inl\<close> the error), threaded with
    \<open>res_bind\<close> where the code writes \<^verbatim>\<open>?\<close>; an \<^verbatim>\<open>Option\<close> is an \<open>option\<close>.
  \<^item> A \<^verbatim>\<open>String\<close> or \<^verbatim>\<open>&str\<close> is a \<open>string\<close> read as its UTF-8 bytes, so that
    \<open>length\<close> is \<^verbatim>\<open>str::len\<close>; the \<^verbatim>\<open>str\<close> methods the code calls are the functions
    below, with their out-of-range and no-match behaviour written out.
  \<^item> A \<^verbatim>\<open>serde_json::Value\<close> is a \<open>json\<close>; an object is the list of its fields in key
    order, as \<^verbatim>\<open>serde_json::Map\<close> iterates.
  \<^item> A \<^verbatim>\<open>Uuid\<close> is a 128-bit word, a \<^verbatim>\<open>DateTime<Utc>\<close> or an \<^verbatim>\<open>Instant\<close> a number of
    nanoseconds, a (finite) \<^verbatim>\<open>f64\<close> the rational number it denotes: the code only compares
    such numbers, and comparison of finite floats is comparison of those rationals.

  The lemmas of the last section are the facts on strings, lists and results that the
  components share.
\<close>

section \<open>Collections of rewrite rules\<close>

named_theorems result_simps \<open>unfolding of the result combinators\<close>
named_theorems str_simps \<open>characteristic facts of the string operations\<close>

section \<open>Results, identifiers, time\<close>

type_synonym ('e, 'a) result = "'e + 'a"
type_synonym uuid = "128 word"
type_synonym timestamp = int
type_synonym f64 = rat

definition res_bind :: "('e, 'a) result \<Rightarrow> ('a \<Rightarrow> ('e, 'b) result) \<Rightarrow> ('e, 'b) result" where
  "res_bind m f = (case m of Inl e \<Rightarrow> Inl e | Inr a \<Rightarrow> f a)"

definition res_map :: "('a \<Rightarrow> 'b) \<Rightarrow> ('e, 'a) result \<Rightarrow> ('e, 'b) result" where
  "res_map f m = (case m of Inl e \<Rightarrow> Inl e | Inr a \<Rightarrow> Inr (f a))"

definition map_err :: "('e \<Rightarrow> 'd) \<Rightarrow> ('e, 'a) result \<Rightarrow> ('d, 'a) result" where
  "map_err f m = (case m of Inl e \<Rightarrow> Inl (f e) | Inr a \<Rightarrow> Inr a)"

text \<open>Collecting an iterator of results: the first error, or all the values.\<close>

fun res_collect :: "('a \<Rightarrow> ('e, 'b) result) \<Rightarrow> 'a list \<Rightarrow> ('e, 'b list) result" where
  "res_collect f [] = Inr []"
| "res_collect f (x # xs) = res_bind (f x) (\<lambda>y. res_bind (res_collect f xs) (\<lambda>ys. Inr (y # ys)))"

definition ok_or :: "'e \<Rightarrow> 'a option \<Rightarrow> ('e, 'a) result" where
  "ok_or e x = (case x of None \<Rightarrow> Inl e | Some a \<Rightarrow> Inr a)"

definition res_ok :: "('e, 'a) result \<Rightarrow> 'a option" where
  "res_ok m = (case m of Inl _ \<Rightarrow> None | Inr a \<Rightarrow> Some a)"

definition is_none_or :: "('a \<Rightarrow> bool) \<Rightarrow> 'a option \<Rightarrow> bool" where
  "is_none_or p x = (case x of None \<Rightarrow> True | Some a \<Rightarrow> p a)"

definition is_some_and :: "('a \<Rightarrow> bool) \<Rightarrow> 'a option \<Rightarrow> bool" where
  "is_some_and p x = (case x of None \<Rightarrow> False | Some a \<Rightarrow> p a)"

definition opt_filter :: "('a \<Rightarrow> bool) \<Rightarrow> 'a option \<Rightarrow> 'a option" where
  "opt_filter p x = (case x of None \<Rightarrow> None | Some a \<Rightarrow> if p a then Some a else None)"

definition unwrap_or :: "'a \<Rightarrow> 'a option \<Rightarrow> 'a" where
  "unwrap_or d x = (case x of None \<Rightarrow> d | Some a \<Rightarrow> a)"

fun find_map :: "('a \<Rightarrow> 'b option) \<Rightarrow> 'a list \<Rightarrow> 'b option" where
  "find_map f [] = None"
| "find_map f (x # xs) = (case f x of Some y \<Rightarrow> Some y | None \<Rightarrow> find_map f xs)"

section \<open>Bytes and strings\<close>

definition ascii_lower_char :: "char \<Rightarrow> char" where
  "ascii_lower_char c =
     (if 65 \<le> (of_char c :: nat) \<and> (of_char c :: nat) \<le> 90 then char_of ((of_char c :: nat) + 32) else c)"

definition to_ascii_lowercase :: "string \<Rightarrow> string" where
  "to_ascii_lowercase s = map ascii_lower_char s"

definition is_ascii_digit :: "char \<Rightarrow> bool" where
  "is_ascii_digit c = (48 \<le> (of_char c :: nat) \<and> (of_char c :: nat) \<le> 57)"

definition is_ascii_lowercase :: "char \<Rightarrow> bool" where
  "is_ascii_lowercase c = (97 \<le> (of_char c :: nat) \<and> (of_char c :: nat) \<le> 122)"

definition is_ascii_uppercase :: "char \<Rightarrow> bool" where
  "is_ascii_uppercase c = (65 \<le> (of_char c :: nat) \<and> (of_char c :: nat) \<le> 90)"

definition is_ascii_alphanumeric :: "char \<Rightarrow> bool" where
  "is_ascii_alphanumeric c = (is_ascii_digit c \<or> is_ascii_lowercase c \<or> is_ascii_uppercase c)"

definition is_ascii_hexdigit :: "char \<Rightarrow> bool" where
  "is_ascii_hexdigit c =
     (is_ascii_digit c \<or> (97 \<le> (of_char c :: nat) \<and> (of_char c :: nat) \<le> 102)
       \<or> (65 \<le> (of_char c :: nat) \<and> (of_char c :: nat) \<le> 70))"

fun strip_prefix :: "string \<Rightarrow> string \<Rightarrow> string option" where
  "strip_prefix [] s = Some s"
| "strip_prefix (p # ps) [] = None"
| "strip_prefix (p # ps) (c # cs) = (if p = c then strip_prefix ps cs else None)"

definition strip_suffix :: "string \<Rightarrow> string \<Rightarrow> string option" where
  "strip_suffix p s = map_option rev (strip_prefix (rev p) (rev s))"

definition starts_with :: "string \<Rightarrow> string \<Rightarrow> bool" where
  "starts_with p s = (strip_prefix p s \<noteq> None)"

definition ends_with :: "string \<Rightarrow> string \<Rightarrow> bool" where
  "ends_with p s = (strip_suffix p s \<noteq> None)"

fun str_contains :: "string \<Rightarrow> string \<Rightarrow> bool" where
  "str_contains p [] = (p = [])"
| "str_contains p (c # cs) = (starts_with p (c # cs) \<or> str_contains p cs)"

text \<open>\<^verbatim>\<open>str::replace\<close> with a non-empty pattern: the matches do not overlap and are taken from
  the left. The code never passes an empty pattern.\<close>

function str_replace :: "string \<Rightarrow> string \<Rightarrow> string \<Rightarrow> string" where
  "str_replace p w [] = []"
| "str_replace p w (c # cs) =
     (case strip_prefix p (c # cs) of
        None \<Rightarrow> c # str_replace p w cs
      | Some rest \<Rightarrow> if length rest < length (c # cs) then w @ str_replace p w rest
                     else c # str_replace p w cs)"
  by pat_completeness auto
termination
  by (relation "measure (\<lambda>(p, w, s). length s)") auto

fun split_on :: "char \<Rightarrow> string \<Rightarrow> string list" where
  "split_on c [] = [[]]"
| "split_on c (x # xs) =
     (if x = c then [] # split_on c xs
      else (case split_on c xs of [] \<Rightarrow> [[x]] | h # t \<Rightarrow> (x # h) # t))"

fun str_join :: "string \<Rightarrow> string list \<Rightarrow> string" where
  "str_join sep [] = []"
| "str_join sep [x] = x"
| "str_join sep (x # y # zs) = x @ sep @ str_join sep (y # zs)"

fun split_once :: "char \<Rightarrow> string \<Rightarrow> (string \<times> string) option" where
  "split_once c [] = None"
| "split_once c (x # xs) =
     (if x = c then Some ([], xs)
      else map_option (\<lambda>(a, b). (x # a, b)) (split_once c xs))"

definition rsplit_once :: "char \<Rightarrow> string \<Rightarrow> (string \<times> string) option" where
  "rsplit_once c s = map_option (\<lambda>(a, b). (rev b, rev a)) (split_once c (rev s))"

definition trim_start_matches :: "char \<Rightarrow> string \<Rightarrow> string" where
  "trim_start_matches c s = dropWhile (\<lambda>x. x = c) s"

definition trim_end_matches :: "char \<Rightarrow> string \<Rightarrow> string" where
  "trim_end_matches c s = rev (dropWhile (\<lambda>x. x = c) (rev s))"

definition trim_matches :: "char \<Rightarrow> string \<Rightarrow> string" where
  "trim_matches c s = trim_end_matches c (trim_start_matches c s)"

text \<open>\<^verbatim>\<open>str::trim\<close> removes the characters with the Unicode property White\_Space. They are
  listed by their UTF-8 encodings, as the numbers of their bytes.\<close>

definition whitespace_encodings :: "nat list list" where
  "whitespace_encodings =
     [[9], [10], [11], [12], [13], [32], [194, 133], [194, 160], [225, 154, 128]]
     @ map (\<lambda>b. [226, 128, b]) [128, 129, 130, 131, 132, 133, 134, 135, 136, 137, 138, 168, 169, 175]
     @ [[226, 129, 159], [227, 128, 128]]"

definition whitespace_chars :: "string list" where
  "whitespace_chars = map (map char_of) whitespace_encodings"

function trim_start_any :: "string list \<Rightarrow> string \<Rightarrow> string" where
  "trim_start_any ws s =
     (case find_map (\<lambda>w. strip_prefix w s) ws of
        None \<Rightarrow> s
      | Some rest \<Rightarrow> if length rest < length s then trim_start_any ws rest else s)"
  by pat_completeness auto
termination
  by (relation "measure (\<lambda>(ws, s). length s)") auto

declare trim_start_any.simps [simp del]

definition str_trim_start :: "string \<Rightarrow> string" where
  "str_trim_start s = trim_start_any whitespace_chars s"

definition str_trim_end :: "string \<Rightarrow> string" where
  "str_trim_end s = rev (trim_start_any (map rev whitespace_chars) (rev s))"

definition str_trim :: "string \<Rightarrow> string" where
  "str_trim s = str_trim_end (str_trim_start s)"

text \<open>\<^verbatim>\<open>str::parse\<close> to an unsigned integer of \<open>bits\<close> bits: an optional \<^verbatim>\<open>+\<close>, at least one
  digit, no other character, and a value in range.\<close>

fun digits_value :: "nat \<Rightarrow> string \<Rightarrow> nat option" where
  "digits_value acc [] = Some acc"
| "digits_value acc (c # cs) =
     (if is_ascii_digit c then digits_value (10 * acc + (of_char c - 48)) cs else None)"

definition parse_unsigned :: "nat \<Rightarrow> string \<Rightarrow> nat option" where
  "parse_unsigned bits s =
     (let ds = (case s of [] \<Rightarrow> [] | c # cs \<Rightarrow> if c = CHR ''+'' then cs else s) in
      if ds = [] then None
      else opt_filter (\<lambda>n. n < 2 ^ bits) (digits_value 0 ds))"

text \<open>Decimal display of an unsigned integer.\<close>

function show_nat :: "nat \<Rightarrow> string" where
  "show_nat n = (if n < 10 then [char_of (48 + n)] else show_nat (n div 10) @ [char_of (48 + n mod 10)])"
  by pat_completeness auto
termination
  by (relation "measure id") auto

declare show_nat.simps [simp del]

section \<open>JSON values\<close>

datatype json =
    JNull
  | JBool bool
  | JNumber rat
  | JString string
  | JArray "json list"
  | JObject "(string \<times> json) list"

definition json_get :: "string \<Rightarrow> json \<Rightarrow> json option" where
  "json_get k v = (case v of JObject m \<Rightarrow> map_of m k | _ \<Rightarrow> None)"

definition as_str :: "json \<Rightarrow> string option" where
  "as_str v = (case v of JString s \<Rightarrow> Some s | _ \<Rightarrow> None)"

definition as_array :: "json \<Rightarrow> json list option" where
  "as_array v = (case v of JArray xs \<Rightarrow> Some xs | _ \<Rightarrow> None)"

definition as_object :: "json \<Rightarrow> (string \<times> json) list option" where
  "as_object v = (case v of JObject m \<Rightarrow> Some m | _ \<Rightarrow> None)"

definition get_str :: "string \<Rightarrow> json \<Rightarrow> string option" where
  "get_str k v = Option.bind (json_get k v) as_str"

definition get_array :: "string \<Rightarrow> json \<Rightarrow> json list option" where
  "get_array k v = Option.bind (json_get k v) as_array"

text \<open>A \<^verbatim>\<open>BTreeSet\<close> in the order of its iteration.\<close>

definition btree_set :: "'a::linorder list \<Rightarrow> 'a list" where
  "btree_set xs = sort (remdups xs)"

section \<open>Shared lemmas\<close>

lemma as_object_Some: "as_object v = Some m \<longleftrightarrow> v = JObject m"
  by (cases v) (auto simp: as_object_def)

lemma res_bind_simps [simp, result_simps]:
  "res_bind (Inl e) f = Inl e" "res_bind (Inr a) f = f a"
  by (simp_all add: res_bind_def)

lemma res_map_simps [simp, result_simps]:
  "res_map g (Inl e) = Inl e" "res_map g (Inr a) = Inr (g a)"
  by (simp_all add: res_map_def)

lemma map_err_simps [simp, result_simps]:
  "map_err g (Inl e) = Inl (g e)" "map_err g (Inr a) = Inr a"
  by (simp_all add: map_err_def)

lemma map_err_Inr: "map_err g m = Inr a \<longleftrightarrow> m = Inr a"
  by (cases m) simp_all

lemma ok_or_simps [simp, result_simps]: "ok_or e None = Inl e" "ok_or e (Some a) = Inr a"
  by (simp_all add: ok_or_def)

lemma res_ok_simps [simp, result_simps]: "res_ok (Inl e) = None" "res_ok (Inr a) = Some a"
  by (simp_all add: res_ok_def)

lemma is_none_or_simps [simp]: "is_none_or p None" "is_none_or p (Some a) = p a"
  by (simp_all add: is_none_or_def)

lemma is_some_and_simps [simp]: "\<not> is_some_and p None" "is_some_and p (Some a) = p a"
  by (simp_all add: is_some_and_def)

lemma opt_filter_simps [simp]:
  "opt_filter p None = None" "opt_filter p (Some a) = (if p a then Some a else None)"
  by (simp_all add: opt_filter_def)

lemma unwrap_or_simps [simp]: "unwrap_or d None = d" "unwrap_or d (Some a) = a"
  by (simp_all add: unwrap_or_def)

lemma res_bind_eq_Inr: "res_bind m f = Inr b \<longleftrightarrow> (\<exists>a. m = Inr a \<and> f a = Inr b)"
  by (cases m) auto

lemma res_bind_assoc: "res_bind (res_bind m f) g = res_bind m (\<lambda>x. res_bind (f x) g)"
  by (cases m) auto

lemma res_map_bind: "res_map g (res_bind m f) = res_bind m (\<lambda>x. res_map g (f x))"
  by (cases m) auto

lemma find_map_Some_in: "find_map f xs = Some y \<Longrightarrow> \<exists>x \<in> set xs. f x = Some y"
  by (induction xs) (auto split: option.splits)

lemma find_map_None: "find_map f xs = None \<longleftrightarrow> (\<forall>x \<in> set xs. f x = None)"
  by (induction xs) (auto split: option.splits)

subsection \<open>Prefixes, suffixes, substrings\<close>

lemma strip_prefix_Some [str_simps]: "strip_prefix p s = Some r \<longleftrightarrow> s = p @ r"
  by (induction p s rule: strip_prefix.induct) auto

lemma strip_prefix_append [simp]: "strip_prefix p (p @ r) = Some r"
  by (simp add: strip_prefix_Some)

lemma strip_prefix_None: "strip_prefix p s = None \<longleftrightarrow> \<not> prefix p s"
  by (induction p s rule: strip_prefix.induct) auto

lemma starts_with_iff [str_simps]: "starts_with p s \<longleftrightarrow> prefix p s"
  by (simp add: starts_with_def strip_prefix_None)

lemma starts_with_Cons [simp]:
  "starts_with [] s" "starts_with (p # ps) [] = False"
  "starts_with (p # ps) (c # cs) = (p = c \<and> starts_with ps cs)"
  by (auto simp: starts_with_def)

lemma strip_suffix_Some [str_simps]: "strip_suffix p s = Some r \<longleftrightarrow> s = r @ p"
proof -
  have "strip_suffix p s = Some r \<longleftrightarrow> rev s = rev p @ rev r"
    by (auto simp: strip_suffix_def strip_prefix_Some)
  also have "\<dots> \<longleftrightarrow> s = r @ p"
    by (metis rev_append rev_rev_ident)
  finally show ?thesis .
qed

lemma strip_suffix_append [simp]: "strip_suffix p (r @ p) = Some r"
  by (simp add: strip_suffix_Some)

lemma ends_with_iff [str_simps]: "ends_with p s \<longleftrightarrow> suffix p s"
  by (auto simp: ends_with_def strip_suffix_Some suffix_def)

lemma str_contains_iff [str_simps]: "str_contains p s \<longleftrightarrow> sublist p s"
proof (induction s)
  case Nil
  show ?case by simp
next
  case (Cons c cs)
  have "sublist p (c # cs) \<longleftrightarrow> prefix p (c # cs) \<or> sublist p cs"
    by (simp add: sublist_Cons_right)
  with Cons show ?case by (simp add: starts_with_iff del: starts_with_Cons)
qed

lemma str_contains_char: "str_contains [c] s \<longleftrightarrow> c \<in> set s"
  by (induction s) auto

subsection \<open>Splitting and joining\<close>

lemma split_on_not_Nil [simp]: "split_on c s \<noteq> []"
  by (induction s) (auto split: list.splits)

lemma split_on_no_sep: "seg \<in> set (split_on c s) \<Longrightarrow> c \<notin> set seg"
proof (induction s arbitrary: seg)
  case Nil
  then show ?case by simp
next
  case (Cons x xs)
  show ?case
  proof (cases "split_on c xs")
    case Nil
    then show ?thesis by simp
  next
    case (Cons h t)
    with Cons.prems Cons.IH show ?thesis by (auto split: if_splits)
  qed
qed

lemma join_split_on [simp]: "str_join [c] (split_on c s) = s"
proof (induction s)
  case Nil
  show ?case by simp
next
  case (Cons x xs)
  show ?case
  proof (cases "split_on c xs")
    case Nil
    then show ?thesis by simp
  next
    case (Cons h t)
    with Cons.IH show ?thesis by (cases t) auto
  qed
qed

lemma split_on_id: "c \<notin> set s \<Longrightarrow> split_on c s = [s]"
  by (induction s) auto

lemma split_on_append: "c \<notin> set a \<Longrightarrow> split_on c (a @ c # b) = a # split_on c b"
  by (induction a) auto

lemma split_on_single: "split_on c s = [t] \<longleftrightarrow> s = t \<and> c \<notin> set t"
proof
  assume "split_on c s = [t]"
  then show "s = t \<and> c \<notin> set t"
    using join_split_on [of c s] split_on_no_sep [of t c s] by simp
next
  assume "s = t \<and> c \<notin> set t"
  then show "split_on c s = [t]" by (simp add: split_on_id)
qed

lemma sep_in_iff_split: "c \<in> set s \<longleftrightarrow> length (split_on c s) \<noteq> 1"
proof -
  have "length (split_on c s) = 1 \<longleftrightarrow> (\<exists>t. split_on c s = [t])"
    by (simp add: length_Suc_conv)
  then show ?thesis by (auto simp: split_on_single)
qed

lemma split_on_pair: "split_on c s = [a, b] \<longleftrightarrow> s = a @ c # b \<and> c \<notin> set a \<and> c \<notin> set b"
proof
  assume *: "split_on c s = [a, b]"
  then have "s = a @ c # b" using join_split_on [of c s] by simp
  with * show "s = a @ c # b \<and> c \<notin> set a \<and> c \<notin> set b"
    using split_on_no_sep [of _ c s] by simp
qed (simp add: split_on_append split_on_id)

lemma split_once_Some [str_simps]: "split_once c s = Some (a, b) \<longleftrightarrow> s = a @ c # b \<and> c \<notin> set a"
proof (induction s arbitrary: a)
  case Nil
  show ?case by simp
next
  case (Cons x xs)
  show ?case by (cases a) (auto simp: Cons.IH)
qed

lemma split_once_None: "c \<notin> set s \<Longrightarrow> split_once c s = None"
  by (induction s) auto

lemma split_once_append: "c \<notin> set a \<Longrightarrow> split_once c (a @ c # b) = Some (a, b)"
  by (simp add: split_once_Some)

lemma rsplit_once_append: "c \<notin> set b \<Longrightarrow> rsplit_once c (a @ c # b) = Some (a, b)"
  by (simp add: rsplit_once_def split_once_append)

lemma rsplit_once_None: "c \<notin> set s \<Longrightarrow> rsplit_once c s = None"
  by (simp add: rsplit_once_def split_once_None)

lemma split_on_append_split: "split_on c (a @ c # b) = split_on c a @ split_on c b"
  by (induction a) (auto split: list.split)

subsection \<open>Trimming\<close>

lemma trim_start_matches_hd: "trim_start_matches c s = [] \<or> hd (trim_start_matches c s) \<noteq> c"
  unfolding trim_start_matches_def using hd_dropWhile by blast

lemma trim_end_matches_last: "trim_end_matches c s = [] \<or> last (trim_end_matches c s) \<noteq> c"
  unfolding trim_end_matches_def using hd_dropWhile [of "\<lambda>x. x = c" "rev s"]
  by (auto simp: last_rev)

lemma trim_end_matches_prefix: "prefix (trim_end_matches c s) s"
  unfolding trim_end_matches_def by (metis suffix_dropWhile suffix_to_prefix rev_rev_ident)

lemma set_trim_end_matches: "set (trim_end_matches c s) \<subseteq> set s"
  by (rule set_mono_prefix [OF trim_end_matches_prefix])

lemma set_trim_start_matches: "set (trim_start_matches c s) \<subseteq> set s"
  unfolding trim_start_matches_def by (auto dest: set_dropWhileD)

lemma set_trim_matches: "set (trim_matches c s) \<subseteq> set s"
  unfolding trim_matches_def using set_trim_end_matches set_trim_start_matches by blast

lemma trim_matches_last: "trim_matches c s = [] \<or> last (trim_matches c s) \<noteq> c"
  unfolding trim_matches_def by (rule trim_end_matches_last)

lemma trim_matches_hd: "trim_matches c s = [] \<or> hd (trim_matches c s) \<noteq> c"
proof -
  let ?t = "trim_start_matches c s"
  have "prefix (trim_matches c s) ?t"
    unfolding trim_matches_def by (rule trim_end_matches_prefix)
  then show ?thesis
    using trim_start_matches_hd [of c s] by (auto elim!: prefixE)
qed

lemma trim_matches_id:
  assumes "s = [] \<or> (hd s \<noteq> c \<and> last s \<noteq> c)"
  shows "trim_matches c s = s"
proof (cases s)
  case Nil
  then show ?thesis by (simp add: trim_matches_def trim_end_matches_def trim_start_matches_def)
next
  case (Cons x xs)
  with assms have 1: "trim_start_matches c s = s" by (simp add: trim_start_matches_def)
  from Cons assms have "rev s \<noteq> []" "hd (rev s) \<noteq> c" by (auto simp: hd_append hd_rev)
  then have "dropWhile (\<lambda>x. x = c) (rev s) = rev s" by (cases "rev s") auto
  with 1 show ?thesis by (simp add: trim_matches_def trim_end_matches_def)
qed

lemma trim_matches_idem [simp]: "trim_matches c (trim_matches c s) = trim_matches c s"
  by (rule trim_matches_id) (use trim_matches_hd trim_matches_last in blast)

subsection \<open>Letter case\<close>

lemma of_char_lower: "(of_char (ascii_lower_char c) :: nat) =
    (if 65 \<le> (of_char c :: nat) \<and> (of_char c :: nat) \<le> 90 then of_char c + 32 else of_char c)"
  by (simp add: ascii_lower_char_def)

lemma ascii_lower_char_idem [simp]: "ascii_lower_char (ascii_lower_char c) = ascii_lower_char c"
  by (simp add: ascii_lower_char_def)

lemma to_ascii_lowercase_idem [simp]:
  "to_ascii_lowercase (to_ascii_lowercase s) = to_ascii_lowercase s"
  by (simp add: to_ascii_lowercase_def)

lemma length_to_ascii_lowercase [simp]: "length (to_ascii_lowercase s) = length s"
  by (simp add: to_ascii_lowercase_def)

lemma lower_not_upper [simp]: "\<not> is_ascii_uppercase (ascii_lower_char c)"
  by (simp add: is_ascii_uppercase_def of_char_lower)

lemma ascii_lower_char_id: "\<not> is_ascii_uppercase c \<Longrightarrow> ascii_lower_char c = c"
  by (auto simp: ascii_lower_char_def is_ascii_uppercase_def)

lemma to_ascii_lowercase_id:
  "(\<And>c. c \<in> set s \<Longrightarrow> \<not> is_ascii_uppercase c) \<Longrightarrow> to_ascii_lowercase s = s"
  by (simp add: to_ascii_lowercase_def map_idI ascii_lower_char_id)

subsection \<open>Replacing\<close>

lemma set_str_replace: "set (str_replace p w s) \<subseteq> set s \<union> set w"
proof (induction p w s rule: str_replace.induct)
  case (2 p w c cs)
  show ?case
  proof (cases "strip_prefix p (c # cs)")
    case None
    with 2 show ?thesis by auto
  next
    case (Some rest)
    then have "set rest \<subseteq> set (c # cs)" by (auto simp: strip_prefix_Some)
    with 2 Some show ?thesis by (auto split: if_splits)
  qed
qed simp

lemma str_replace_not_Nil: "s \<noteq> [] \<Longrightarrow> w \<noteq> [] \<Longrightarrow> str_replace p w s \<noteq> []"
  by (cases s) (auto split: option.split)

lemma str_replace_id: "c \<notin> set s \<Longrightarrow> str_replace (c # p) w s = s"
  by (induction s) auto

subsection \<open>Trimming white space\<close>

definition graphic_char :: "char \<Rightarrow> bool" where
  "graphic_char c = (33 \<le> (of_char c :: nat) \<and> (of_char c :: nat) \<le> 126)"

lemma whitespace_not_graphic:
  "list_all (\<lambda>w. w \<noteq> [] \<and> \<not> graphic_char (hd w) \<and> \<not> graphic_char (last w)) whitespace_chars"
  by (simp add: whitespace_chars_def whitespace_encodings_def graphic_char_def)

lemma trim_start_any_id:
  assumes "\<And>w. w \<in> set ws \<Longrightarrow> w \<noteq> [] \<and> (s = [] \<or> hd w \<noteq> hd s)"
  shows "trim_start_any ws s = s"
proof -
  have "strip_prefix w s = None" if "w \<in> set ws" for w
    using assms [OF that] by (cases w; cases s) auto
  then have "find_map (\<lambda>w. strip_prefix w s) ws = None" by (simp add: find_map_None)
  then show ?thesis by (simp add: trim_start_any.simps)
qed

lemma str_trim_id:
  assumes "s \<noteq> []" "graphic_char (hd s)" "graphic_char (last s)"
  shows "str_trim s = s"
proof -
  have ws: "w \<noteq> [] \<and> \<not> graphic_char (hd w) \<and> \<not> graphic_char (last w)" if "w \<in> set whitespace_chars" for w
    using whitespace_not_graphic that by (simp add: list_all_iff)
  have "str_trim_start s = s"
    unfolding str_trim_start_def by (rule trim_start_any_id) (metis ws assms(2))
  moreover have "trim_start_any (map rev whitespace_chars) (rev s) = rev s"
  proof (rule trim_start_any_id)
    fix w assume "w \<in> set (map rev whitespace_chars)"
    then obtain v where "v \<in> set whitespace_chars" "w = rev v" by auto
    with ws [of v] assms(3) show "w \<noteq> [] \<and> (rev s = [] \<or> hd w \<noteq> hd (rev s))"
      by (metis hd_rev rev_is_Nil_conv)
  qed
  ultimately show ?thesis by (simp add: str_trim_def str_trim_end_def)
qed

lemma trim_start_any_suffix: "suffix (trim_start_any ws s) s"
proof (induction ws s rule: trim_start_any.induct)
  case (1 ws s)
  show ?case
  proof (cases "find_map (\<lambda>w. strip_prefix w s) ws")
    case (Some rest)
    then obtain w where "strip_prefix w s = Some rest" by (auto dest: find_map_Some_in)
    then have "suffix rest s" by (auto simp: strip_prefix_Some suffix_def)
    with 1 [OF Some] Some show ?thesis
      by (auto simp: trim_start_any.simps [of ws s] intro: suffix_order.trans)
  qed (simp add: trim_start_any.simps)
qed

lemma trim_start_any_trimmed:
  assumes "list_all (\<lambda>w. w \<noteq> []) ws"
  shows "find_map (\<lambda>w. strip_prefix w (trim_start_any ws s)) ws = None"
  using assms
proof (induction ws s rule: trim_start_any.induct)
  case (1 ws s)
  show ?case
  proof (cases "find_map (\<lambda>w. strip_prefix w s) ws")
    case (Some rest)
    then obtain w where "w \<in> set ws" "strip_prefix w s = Some rest" by (auto dest: find_map_Some_in)
    with 1(2) have "length rest < length s" by (auto simp: strip_prefix_Some list_all_iff)
    with 1(1) [OF Some _ 1(2)] Some show ?thesis by (simp add: trim_start_any.simps [of ws s])
  qed (simp add: trim_start_any.simps)
qed

lemma trim_start_any_fixed: "find_map (\<lambda>w. strip_prefix w s) ws = None \<Longrightarrow> trim_start_any ws s = s"
  by (simp add: trim_start_any.simps)

lemma str_trim_idem: "str_trim (str_trim s) = str_trim s"
proof -
  have ne: "list_all (\<lambda>w. w \<noteq> []) whitespace_chars" "list_all (\<lambda>w. w \<noteq> []) (map rev whitespace_chars)"
    using whitespace_not_graphic by (auto simp: list_all_iff)
  define u where "u = str_trim_start s"
  have start: "find_map (\<lambda>w. strip_prefix w u) whitespace_chars = None"
    unfolding u_def str_trim_start_def by (rule trim_start_any_trimmed [OF ne(1)])
  have "prefix (str_trim_end u) u"
    using trim_start_any_suffix [of "map rev whitespace_chars" "rev u"] by (simp add: str_trim_end_def suffix_to_prefix)
  with start have "find_map (\<lambda>w. strip_prefix w (str_trim_end u)) whitespace_chars = None"
    by (simp add: find_map_None strip_prefix_None) (meson prefix_order.trans)
  then have "str_trim_start (str_trim_end u) = str_trim_end u"
    unfolding str_trim_start_def by (rule trim_start_any_fixed)
  moreover have "str_trim_end (str_trim_end u) = str_trim_end u"
    using trim_start_any_fixed [OF trim_start_any_trimmed [OF ne(2), of "rev u"]] by (simp add: str_trim_end_def)
  ultimately show ?thesis by (simp add: str_trim_def u_def)
qed

subsection \<open>Decimal numbers\<close>

lemma digits_value_append:
  "digits_value acc (s @ t) = Option.bind (digits_value acc s) (\<lambda>n. digits_value n t)"
  by (induction acc s rule: digits_value.induct) auto

lemma digits_value_show: "digits_value 0 (show_nat n) = Some n"
proof (induction n rule: less_induct)
  case (less n)
  show ?case
  proof (cases "n < 10")
    case True
    then show ?thesis by (subst show_nat.simps) (simp add: is_ascii_digit_def)
  next
    case False
    have "digits_value 0 (show_nat (n div 10)) = Some (n div 10)" by (rule less) (use False in simp)
    with False show ?thesis
      by (subst show_nat.simps) (simp add: digits_value_append is_ascii_digit_def)
  qed
qed

lemma show_nat_inj: "show_nat a = show_nat b \<longleftrightarrow> a = b"
  by (metis digits_value_show option.inject)

lemma show_nat_digits: "c \<in> set (show_nat n) \<Longrightarrow> is_ascii_digit c"
proof (induction n rule: less_induct)
  case (less n)
  show ?case
  proof (cases "n < 10")
    case True
    with less.prems show ?thesis by (subst (asm) show_nat.simps) (simp add: is_ascii_digit_def)
  next
    case False
    from less.prems False have "c \<in> set (show_nat (n div 10)) \<or> c = char_of (48 + n mod 10)"
      by (subst (asm) show_nat.simps) auto
    with less.IH [of "n div 10"] False show ?thesis by (auto simp: is_ascii_digit_def)
  qed
qed

lemma show_nat_not_Nil [simp]: "show_nat n \<noteq> []"
  by (subst show_nat.simps) simp

end
