(* ===== verification/Core_Types.thy ===== *)
theory Core_Types
  imports Rust_Prelude
begin

text \<open>
  The shared data model, \<^verbatim>\<open>crates/aegiscudo-core/src/lib.rs\<close>: package ecosystems and
  coordinates with their package URL, artifact digests, policy decisions and modes, analysis
  jobs, static and sandbox evidence, attestation evidence with its SLSA fields, feed states.
  A struct is a record whose fields carry a short prefix of the struct's name; an enum is a
  datatype with the source's constructors.
\<close>

section \<open>Ecosystems and coordinates\<close>

datatype PackageEcosystem =
    Npm | Pypi | Cargo | Maven | DockerOci | GenericHttp | GithubActions | VscodeExtension

fun ecosystem_display :: "PackageEcosystem \<Rightarrow> string" where
  "ecosystem_display Npm = ''npm''"
| "ecosystem_display Pypi = ''pypi''"
| "ecosystem_display Cargo = ''cargo''"
| "ecosystem_display Maven = ''maven''"
| "ecosystem_display DockerOci = ''docker-oci''"
| "ecosystem_display GenericHttp = ''generic-http''"
| "ecosystem_display GithubActions = ''githubactions''"
| "ecosystem_display VscodeExtension = ''vscode-extension''"

datatype ParsePackageEcosystemError = ParsePackageEcosystemError string

definition ecosystem_from_str :: "string \<Rightarrow> (ParsePackageEcosystemError, PackageEcosystem) result" where
  "ecosystem_from_str v =
     (if v = ''npm'' then Inr Npm
      else if v = ''pypi'' then Inr Pypi
      else if v = ''cargo'' then Inr Cargo
      else if v = ''maven'' then Inr Maven
      else if v = ''docker-oci'' then Inr DockerOci
      else if v = ''generic-http'' then Inr GenericHttp
      else if v = ''githubactions'' then Inr GithubActions
      else if v = ''vscode-extension'' then Inr VscodeExtension
      else Inl (ParsePackageEcosystemError v))"

record PackageCoordinate =
  pc_ecosystem :: PackageEcosystem
  pc_name :: string
  pc_version :: "string option"
  pc_namespace :: "string option"

definition coordinate_new ::
  "PackageEcosystem \<Rightarrow> string \<Rightarrow> string option \<Rightarrow> string option \<Rightarrow> PackageCoordinate" where
  "coordinate_new e n v ns = \<lparr>pc_ecosystem = e, pc_name = n, pc_version = v, pc_namespace = ns\<rparr>"

definition purl_package_path :: "PackageCoordinate \<Rightarrow> string" where
  "purl_package_path c =
     (case pc_namespace c of
        Some ns \<Rightarrow> if ns \<noteq> [] then ns @ ''/'' @ pc_name c else pc_name c
      | None \<Rightarrow> pc_name c)"

definition purl :: "PackageCoordinate \<Rightarrow> string" where
  "purl c =
     (case pc_version c of
        Some v \<Rightarrow> ''pkg:'' @ ecosystem_display (pc_ecosystem c) @ ''/'' @ purl_package_path c @ ''@'' @ v
      | None \<Rightarrow> ''pkg:'' @ ecosystem_display (pc_ecosystem c) @ ''/'' @ purl_package_path c)"

section \<open>Artifact digests\<close>

datatype DigestAlgorithm = Sha256

datatype DigestError = InvalidSha256Length | InvalidHex

record ArtifactDigest =
  dg_algorithm :: DigestAlgorithm
  dg_hex :: string

record ArtifactDigestRepr =
  dr_algorithm :: DigestAlgorithm
  dr_hex :: string

definition digest_new :: "DigestAlgorithm \<Rightarrow> string \<Rightarrow> (DigestError, ArtifactDigest) result" where
  "digest_new algorithm hex_value =
     (let normalized = to_ascii_lowercase hex_value in
      case algorithm of Sha256 \<Rightarrow>
        if length normalized \<noteq> 64 then Inl InvalidSha256Length
        else if \<not> list_all is_ascii_hexdigit normalized then Inl InvalidHex
        else Inr \<lparr>dg_algorithm = algorithm, dg_hex = normalized\<rparr>)"

definition digest_sha256 :: "string \<Rightarrow> (DigestError, ArtifactDigest) result" where
  "digest_sha256 hex_value = digest_new Sha256 hex_value"

definition digest_serialize :: "ArtifactDigest \<Rightarrow> ArtifactDigestRepr" where
  "digest_serialize d = \<lparr>dr_algorithm = dg_algorithm d, dr_hex = dg_hex d\<rparr>"

definition digest_deserialize :: "ArtifactDigestRepr \<Rightarrow> (DigestError, ArtifactDigest) result" where
  "digest_deserialize r = digest_new (dr_algorithm r) (dr_hex r)"

text \<open>The shape every digest built by \<^const>\<open>digest_new\<close> has: 64 lowercase hexadecimal digits.\<close>

definition digest_wf :: "ArtifactDigest \<Rightarrow> bool" where
  "digest_wf d = (length (dg_hex d) = 64 \<and>
     list_all (\<lambda>c. is_ascii_hexdigit c \<and> \<not> is_ascii_uppercase c) (dg_hex d))"

section \<open>Decisions, modes, snapshots\<close>

datatype PolicyDecision =
    Allow
  | AllowWithWarning
  | QuarantinePendingAnalysis
  | BlockKnownMalicious
  | BlockPolicyViolation
  | RequireHitlApproval
  | FallbackToApprovedCandidate

datatype PolicyMode = ModeShadow | ModeWarn | ModeEnforce

definition default_policy_mode :: PolicyMode where
  "default_policy_mode = ModeEnforce"

fun is_blocking :: "PolicyDecision \<Rightarrow> bool" where
  "is_blocking QuarantinePendingAnalysis = True"
| "is_blocking BlockKnownMalicious = True"
| "is_blocking BlockPolicyViolation = True"
| "is_blocking RequireHitlApproval = True"
| "is_blocking _ = False"

record PolicySnapshot =
  ps_id :: uuid
  ps_tenant_id :: uuid
  ps_version :: string
  ps_effective_at :: timestamp
  ps_immutable_rule_hash :: ArtifactDigest

section \<open>Analysis jobs and evidence\<close>

datatype JobState =
    Queued | Fetching | StaticRunning | SandboxPending | SandboxRunning | AiPending
  | Finalizing | Completed | Failed | Cancelled

record AnalysisJob =
  aj_id :: uuid
  aj_tenant_id :: uuid
  aj_registry_config_id :: uuid
  aj_coordinate :: PackageCoordinate
  aj_artifact_digest :: ArtifactDigest
  aj_source_url :: string
  aj_policy_snapshot_id :: uuid
  aj_state :: JobState
  aj_retry_count :: "16 word"
  aj_trace_id :: string
  aj_created_at :: timestamp
  aj_updated_at :: timestamp

datatype Severity = SevInfo | SevLow | SevMedium | SevHigh | SevCritical

record IndicatorDetails =
  id_destination :: "string option"
  id_destination_encoding :: "string option"
  id_destination_raw :: "string option"
  id_payload_hint :: "string option"

record StaticIndicator =
  si_indicator_type :: string
  si_severity :: Severity
  si_file_path :: string
  si_start_line :: "32 word"
  si_end_line :: "32 word"
  si_redacted :: bool
  si_summary :: string
  si_details :: "IndicatorDetails option"

record StaticEvidence =
  se_artifact_digest :: ArtifactDigest
  se_analyzer_version :: string
  se_rule_set_version :: string
  se_indicators :: "StaticIndicator list"

datatype FeedState = Fresh | Stale | Degraded | Unavailable

section \<open>Advisory-only AI explanations\<close>

text \<open>The field attributes of \<^verbatim>\<open>AiExplanation::advisory_only\<close>: what is written is always
  \<^verbatim>\<open>true\<close>, and reading \<^verbatim>\<open>false\<close> fails.\<close>

definition serialize_advisory_only :: "bool \<Rightarrow> bool" where
  "serialize_advisory_only value = True"

definition deserialize_advisory_only :: "bool \<Rightarrow> (string, bool) result" where
  "deserialize_advisory_only value = (if value then Inr True else Inl ''advisory_only must be true'')"

section \<open>Attestation evidence\<close>

datatype AttestationResult = AttPass | AttFail | AttMissing | AttUnverifiable

definition SLSA_VSA_PREDICATE_TYPE :: string where
  "SLSA_VSA_PREDICATE_TYPE = ''https://slsa.dev/verification_summary/v1''"

datatype AttestationEvidenceValidationError =
    SlsaFieldsRequirePassingResult
  | SlsaBuildLevelMismatch
  | VsaFieldsRequireVsaPredicate

record AttestationEvidence =
  ae_coordinate :: PackageCoordinate
  ae_artifact_digest :: ArtifactDigest
  ae_attestation_type :: string
  ae_predicate_type :: string
  ae_issuer :: string
  ae_subject_digest :: ArtifactDigest
  ae_result :: AttestationResult
  ae_verified_at :: timestamp
  ae_verifier_version :: string
  ae_raw_document_digest :: ArtifactDigest
  ae_slsa_verified_levels :: "string list"
  ae_slsa_build_level :: "nat option"
  ae_slsa_version :: "string option"
  ae_vsa_verifier_id :: "string option"
  ae_vsa_resource_uri :: "string option"
  ae_vsa_policy_uri :: "string option"
  ae_vsa_dependency_levels :: "(string \<times> nat) list"

definition has_vsa_fields :: "AttestationEvidence \<Rightarrow> bool" where
  "has_vsa_fields e =
     (ae_vsa_verifier_id e \<noteq> None \<or> ae_vsa_resource_uri e \<noteq> None
       \<or> ae_vsa_policy_uri e \<noteq> None \<or> ae_vsa_dependency_levels e \<noteq> [])"

definition has_slsa_or_vsa_fields :: "AttestationEvidence \<Rightarrow> bool" where
  "has_slsa_or_vsa_fields e =
     (ae_slsa_verified_levels e \<noteq> [] \<or> ae_slsa_build_level e \<noteq> None
       \<or> ae_slsa_version e \<noteq> None \<or> has_vsa_fields e)"

definition slsa_build_level_from_verified_level :: "string \<Rightarrow> nat option" where
  "slsa_build_level_from_verified_level level =
     (case strip_prefix ''SLSA_BUILD_LEVEL_'' level of
        None \<Rightarrow> None
      | Some value \<Rightarrow>
          if value = ''UNEVALUATED'' then None
          else (case parse_unsigned 8 value of
                  None \<Rightarrow> None
                | Some parsed \<Rightarrow> if parsed \<le> 3 then Some parsed else None))"

definition slsa_build_level_from_verified_levels :: "string list \<Rightarrow> nat option" where
  "slsa_build_level_from_verified_levels levels =
     (let found = List.map_filter slsa_build_level_from_verified_level levels
      in if found = [] then None else Some (fold max found 0))"

definition validate_slsa_fields ::
  "AttestationEvidence \<Rightarrow> (AttestationEvidenceValidationError, unit) result" where
  "validate_slsa_fields e =
     (if has_slsa_or_vsa_fields e \<and> ae_result e \<noteq> AttPass
      then Inl SlsaFieldsRequirePassingResult
      else (case ae_slsa_build_level e of
              Some level \<Rightarrow>
                if slsa_build_level_from_verified_levels (ae_slsa_verified_levels e) \<noteq> Some level
                then Inl SlsaBuildLevelMismatch
                else if has_vsa_fields e \<and> ae_predicate_type e \<noteq> SLSA_VSA_PREDICATE_TYPE
                then Inl VsaFieldsRequireVsaPredicate
                else Inr ()
            | None \<Rightarrow>
                if has_vsa_fields e \<and> ae_predicate_type e \<noteq> SLSA_VSA_PREDICATE_TYPE
                then Inl VsaFieldsRequireVsaPredicate
                else Inr ()))"

definition deserialize_slsa_build_level_option :: "nat option \<Rightarrow> (string, nat option) result" where
  "deserialize_slsa_build_level_option value =
     (case value of
        Some level \<Rightarrow>
          if level > 3 then Inl ''slsa_build_level must be an integer from 0 through 3'' else Inr value
      | None \<Rightarrow> Inr value)"

section \<open>Lemmas\<close>

subsection \<open>Ecosystem names\<close>

lemma ecosystem_display_no_slash: "CHR ''/'' \<notin> set (ecosystem_display e)"
  by (cases e) simp_all

lemma ecosystem_from_str_display: "ecosystem_from_str (ecosystem_display e) = Inr e"
  by (cases e) (simp_all add: ecosystem_from_str_def)

lemma ecosystem_from_str_Inr: "ecosystem_from_str s = Inr e \<Longrightarrow> s = ecosystem_display e"
  by (auto simp: ecosystem_from_str_def split: if_splits)

lemma ecosystem_display_inj: "ecosystem_display a = ecosystem_display b \<longleftrightarrow> a = b"
  by (metis Inr_inject ecosystem_from_str_display)

subsection \<open>Digests\<close>

lemma hexdigit_lower: "is_ascii_hexdigit (ascii_lower_char c) \<longleftrightarrow> is_ascii_hexdigit c"
proof -
  define n where "n = (of_char c :: nat)"
  have "(of_char (ascii_lower_char c) :: nat) = (if 65 \<le> n \<and> n \<le> 90 then n + 32 else n)"
    by (simp add: of_char_lower n_def)
  then show ?thesis
    unfolding is_ascii_hexdigit_def is_ascii_digit_def n_def [symmetric] by presburger
qed

lemma list_all_hexdigit_lower:
  "list_all is_ascii_hexdigit (to_ascii_lowercase s) \<longleftrightarrow> list_all is_ascii_hexdigit s"
  by (simp add: to_ascii_lowercase_def list_all_iff hexdigit_lower)

lemma digest_new_Inr:
  "digest_new a s = Inr d \<longleftrightarrow>
     length s = 64 \<and> list_all is_ascii_hexdigit s \<and> d = \<lparr>dg_algorithm = a, dg_hex = to_ascii_lowercase s\<rparr>"
  by (cases a) (auto simp: digest_new_def Let_def list_all_hexdigit_lower)

lemma digest_new_wf: "digest_new a s = Inr d \<Longrightarrow> digest_wf d"
  by (auto simp: digest_new_Inr digest_wf_def list_all_iff to_ascii_lowercase_def hexdigit_lower)

lemma digest_wf_lower: "digest_wf d \<Longrightarrow> to_ascii_lowercase (dg_hex d) = dg_hex d"
  by (rule to_ascii_lowercase_id) (auto simp: digest_wf_def list_all_iff)

subsection \<open>SLSA levels\<close>

lemma slsa_level_le_3: "slsa_build_level_from_verified_level s = Some n \<Longrightarrow> n \<le> 3"
  by (auto simp: slsa_build_level_from_verified_level_def split: option.splits if_splits)

lemma fold_max_ge: "(acc::nat) \<le> fold max xs acc"
proof (induction xs arbitrary: acc)
  case (Cons x xs)
  have "max x acc \<le> fold max xs (max x acc)" by (rule Cons.IH)
  then show ?case by simp
qed simp

lemma fold_max_in: "fold max xs (acc::nat) \<in> insert acc (set xs)"
proof (induction xs arbitrary: acc)
  case (Cons x xs)
  have "fold max xs (max x acc) \<in> insert (max x acc) (set xs)" by (rule Cons.IH)
  moreover have "max x acc = x \<or> max x acc = acc" by linarith
  ultimately show ?case by auto
qed simp

lemma fold_max_upper: "x \<in> set xs \<Longrightarrow> x \<le> fold max xs (acc::nat)"
proof (induction xs arbitrary: acc)
  case (Cons y ys)
  show ?case
  proof (cases "x = y")
    case True
    have "max y acc \<le> fold max ys (max y acc)" by (rule fold_max_ge)
    with True show ?thesis by simp
  next
    case False
    with Cons show ?thesis by simp
  qed
qed simp

lemma set_map_filter: "set (List.map_filter f xs) = {y. \<exists>x \<in> set xs. f x = Some y}"
  by (induction xs) (auto simp: List.map_filter_def split: option.splits)

lemma slsa_levels_Some:
  assumes "slsa_build_level_from_verified_levels ls = Some n"
  shows "\<exists>l \<in> set ls. slsa_build_level_from_verified_level l = Some n"
    and "l \<in> set ls \<Longrightarrow> slsa_build_level_from_verified_level l = Some m \<Longrightarrow> m \<le> n"
proof -
  let ?f = "List.map_filter slsa_build_level_from_verified_level ls"
  from assms have ne: "?f \<noteq> []" and n: "n = fold max ?f 0"
    by (auto simp: slsa_build_level_from_verified_levels_def Let_def split: if_splits)
  have "n \<in> insert 0 (set ?f)" unfolding n by (rule fold_max_in)
  moreover have "n = 0 \<Longrightarrow> 0 \<in> set ?f"
  proof -
    assume 0: "n = 0"
    from ne obtain x where x: "x \<in> set ?f" by (cases ?f) auto
    then have "x \<le> n" unfolding n by (rule fold_max_upper)
    with x 0 show "0 \<in> set ?f" by simp
  qed
  ultimately have "n \<in> set ?f" by auto
  then show "\<exists>l \<in> set ls. slsa_build_level_from_verified_level l = Some n"
    by (auto simp: set_map_filter)
next
  assume "l \<in> set ls" "slsa_build_level_from_verified_level l = Some m"
  then have "m \<in> set (List.map_filter slsa_build_level_from_verified_level ls)"
    by (auto simp: set_map_filter)
  then have "m \<le> fold max (List.map_filter slsa_build_level_from_verified_level ls) 0"
    by (rule fold_max_upper)
  with assms show "m \<le> n"
    by (auto simp: slsa_build_level_from_verified_levels_def Let_def split: if_splits)
qed

section \<open>Properties\<close>

text \<open>The only constructor of digests accepts exactly 64 hexadecimal digits, in either case,
  and yields a well-formed digest in lower case; serialising that digest and reading it back
  gives it again, so that the serde path cannot smuggle in a malformed digest.\<close>

lemma digest_roundtrip:
  assumes "digest_new a s = Inr d"
  shows "length s = 64 \<and> list_all is_ascii_hexdigit s \<and> digest_wf d
    \<and> dg_hex d = to_ascii_lowercase s \<and> digest_deserialize (digest_serialize d) = Inr d"
proof -
  have wf: "digest_wf d" using assms by (rule digest_new_wf)
  then have "digest_deserialize (digest_serialize d) = Inr d"
    using digest_wf_lower [OF wf]
    by (simp add: digest_deserialize_def digest_serialize_def digest_new_Inr digest_wf_def list_all_iff)
  with wf assms show ?thesis by (simp add: digest_new_Inr)
qed

lemma digest_roundtrip_witness:
  "digest_deserialize (digest_serialize \<lparr>dg_algorithm = Sha256, dg_hex = replicate 64 CHR ''a''\<rparr>)
     = Inr \<lparr>dg_algorithm = Sha256, dg_hex = replicate 64 CHR ''a''\<rparr>"
proof -
  have "digest_new Sha256 (replicate 64 CHR ''A'') =
      Inr \<lparr>dg_algorithm = Sha256, dg_hex = replicate 64 CHR ''a''\<rparr>"
    by code_simp
  from digest_roundtrip [OF this] show ?thesis by blast
qed

text \<open>Attestation evidence passes validation exactly when provenance fields come only with a
  passing result, a stated build level is the highest level among the verified levels (and so
  at most 3), and VSA fields come only with the VSA predicate type.\<close>

lemma validate_slsa_fields_ok:
  "validate_slsa_fields e = Inr () \<longleftrightarrow>
     (has_slsa_or_vsa_fields e \<longrightarrow> ae_result e = AttPass)
     \<and> (\<forall>n. ae_slsa_build_level e = Some n \<longrightarrow>
          n \<le> 3 \<and> (\<exists>l \<in> set (ae_slsa_verified_levels e). slsa_build_level_from_verified_level l = Some n)
          \<and> (\<forall>l \<in> set (ae_slsa_verified_levels e). \<forall>m.
               slsa_build_level_from_verified_level l = Some m \<longrightarrow> m \<le> n))
     \<and> (has_vsa_fields e \<longrightarrow> ae_predicate_type e = SLSA_VSA_PREDICATE_TYPE)"
proof -
  have level: "slsa_build_level_from_verified_levels ls = Some n \<longleftrightarrow>
      n \<le> 3 \<and> (\<exists>l \<in> set ls. slsa_build_level_from_verified_level l = Some n)
      \<and> (\<forall>l \<in> set ls. \<forall>m. slsa_build_level_from_verified_level l = Some m \<longrightarrow> m \<le> n)" for ls n
  proof
    assume "slsa_build_level_from_verified_levels ls = Some n"
    from slsa_levels_Some [OF this] show "n \<le> 3
        \<and> (\<exists>l \<in> set ls. slsa_build_level_from_verified_level l = Some n)
        \<and> (\<forall>l \<in> set ls. \<forall>m. slsa_build_level_from_verified_level l = Some m \<longrightarrow> m \<le> n)"
      by (auto dest: slsa_level_le_3)
  next
    assume *: "n \<le> 3 \<and> (\<exists>l \<in> set ls. slsa_build_level_from_verified_level l = Some n)
        \<and> (\<forall>l \<in> set ls. \<forall>m. slsa_build_level_from_verified_level l = Some m \<longrightarrow> m \<le> n)"
    then have "List.map_filter slsa_build_level_from_verified_level ls \<noteq> []"
      using set_map_filter [of slsa_build_level_from_verified_level ls] by force
    then obtain k where k: "slsa_build_level_from_verified_levels ls = Some k"
      by (simp add: slsa_build_level_from_verified_levels_def Let_def)
    from slsa_levels_Some [OF k] * have "k \<le> n" "n \<le> k" by auto
    with k show "slsa_build_level_from_verified_levels ls = Some n" by simp
  qed
  show ?thesis
    by (cases "ae_slsa_build_level e") (auto simp: validate_slsa_fields_def level [symmetric] split: if_splits)
qed

definition sample_coordinate :: PackageCoordinate where
  "sample_coordinate = coordinate_new Npm ''left-pad'' (Some ''1.3.0'') None"

definition sample_digest :: ArtifactDigest where
  "sample_digest = \<lparr>dg_algorithm = Sha256, dg_hex = replicate 64 CHR ''a''\<rparr>"

definition sample_evidence :: AttestationEvidence where
  "sample_evidence =
     \<lparr>ae_coordinate = sample_coordinate, ae_artifact_digest = sample_digest,
      ae_attestation_type = ''slsa'', ae_predicate_type = SLSA_VSA_PREDICATE_TYPE, ae_issuer = ''ci'',
      ae_subject_digest = sample_digest, ae_result = AttPass, ae_verified_at = 0,
      ae_verifier_version = ''1'', ae_raw_document_digest = sample_digest,
      ae_slsa_verified_levels = [''SLSA_BUILD_LEVEL_1'', ''SLSA_BUILD_LEVEL_3'', ''SLSA_BUILD_LEVEL_9''],
      ae_slsa_build_level = Some 3, ae_slsa_version = None, ae_vsa_verifier_id = Some ''v'',
      ae_vsa_resource_uri = None, ae_vsa_policy_uri = None, ae_vsa_dependency_levels = []\<rparr>"

lemma validate_slsa_fields_ok_witness:
  "validate_slsa_fields sample_evidence = Inr ()
   \<and> ae_slsa_build_level sample_evidence = Some 3 \<and> ae_result sample_evidence = AttPass"
proof -
  have 1: "slsa_build_level_from_verified_level ''SLSA_BUILD_LEVEL_1'' = Some 1"
    "slsa_build_level_from_verified_level ''SLSA_BUILD_LEVEL_3'' = Some 3"
    "slsa_build_level_from_verified_level ''SLSA_BUILD_LEVEL_9'' = None"
    by code_simp+
  have "validate_slsa_fields sample_evidence = Inr ()"
    unfolding validate_slsa_fields_ok by (simp add: sample_evidence_def 1)
  then show ?thesis by (simp add: sample_evidence_def)
qed

text \<open>Displaying an ecosystem and parsing it back is the identity, nothing but the eight display
  names parses, and every other string is reported back in the error.\<close>

lemma ecosystem_roundtrip:
  "ecosystem_from_str (ecosystem_display e) = Inr e
   \<and> (ecosystem_from_str s = Inr e \<longleftrightarrow> s = ecosystem_display e)
   \<and> ((\<forall>f. s \<noteq> ecosystem_display f) \<longleftrightarrow> ecosystem_from_str s = Inl (ParsePackageEcosystemError s))"
proof -
  have 1: "ecosystem_from_str s = Inr f \<longleftrightarrow> s = ecosystem_display f" for f
    using ecosystem_from_str_display ecosystem_from_str_Inr by metis
  have 2: "(\<exists>f. ecosystem_from_str s = Inr f) \<or> ecosystem_from_str s = Inl (ParsePackageEcosystemError s)"
    by (auto simp: ecosystem_from_str_def)
  show ?thesis using 1 2 ecosystem_from_str_display by auto
qed

end
