(* ===== verification/Redaction.thy ===== *)
theory Redaction
  imports Core_Types
begin

text \<open>
  The two guards that keep secrets out of records: the validation of audit metadata in
  \<^verbatim>\<open>crates/aegiscudo-core/src/lib.rs\<close> (\<^verbatim>\<open>validate_audit_metadata\<close> and its helpers) and the
  redaction of logged values in \<^verbatim>\<open>crates/aegiscudo-telemetry/src/lib.rs\<close>
  (\<^verbatim>\<open>redact_value\<close>, \<^verbatim>\<open>redact_metadata\<close>). A \<^verbatim>\<open>Metadata\<close> map is the list of its entries in
  key order. Core folds keys with Unicode \<^verbatim>\<open>str::to_lowercase\<close>, which is the parameter
  \<open>lower\<close>: the standard library documents that it is ASCII lowercase on ASCII strings, and
  that is all the lemmas use of it.
\<close>

type_synonym metadata = "(string \<times> json) list"

section \<open>Sensitive keys of audit metadata\<close>

definition SENSITIVE_METADATA_KEY_FRAGMENTS :: "string list" where
  "SENSITIVE_METADATA_KEY_FRAGMENTS =
     [''api_key'', ''apikey'', ''auth_header'', ''authorization'', ''client_secret'', ''cookie'',
      ''credential'', ''password'', ''private_key'', ''secret'', ''session'', ''token'']"

definition SENSITIVE_METADATA_EXACT_KEYS :: "string list" where
  "SENSITIVE_METADATA_EXACT_KEYS = [''env'', ''environ'', ''environment'']"

definition SAFE_REFERENCE_KEYS :: "string list" where
  "SAFE_REFERENCE_KEYS = [''credential_ref'', ''credential_id'']"

definition is_sensitive_metadata_key :: "(string \<Rightarrow> string) \<Rightarrow> string \<Rightarrow> bool" where
  "is_sensitive_metadata_key lower key =
     (let normalized = str_replace ''-'' ''_'' (lower key) in
      if List.member SAFE_REFERENCE_KEYS normalized then False
      else List.member SENSITIVE_METADATA_EXACT_KEYS normalized
        \<or> list_ex (\<lambda>fragment. str_contains fragment normalized) SENSITIVE_METADATA_KEY_FRAGMENTS)"

fun find_sensitive_metadata_value_path :: "(string \<Rightarrow> string) \<Rightarrow> json \<Rightarrow> string \<Rightarrow> string option"
  and find_sensitive_metadata_path :: "(string \<Rightarrow> string) \<Rightarrow> metadata \<Rightarrow> string \<Rightarrow> string option"
  and find_sensitive_item_path :: "(string \<Rightarrow> string) \<Rightarrow> json list \<Rightarrow> nat \<Rightarrow> string \<Rightarrow> string option"
where
  "find_sensitive_metadata_value_path lower (JObject m) pre = find_sensitive_metadata_path lower m pre"
| "find_sensitive_metadata_value_path lower (JArray items) pre = find_sensitive_item_path lower items 0 pre"
| "find_sensitive_metadata_value_path lower _ pre = None"
| "find_sensitive_metadata_path lower [] pre = None"
| "find_sensitive_metadata_path lower ((key, nested) # rest) pre =
     (let path = pre @ ''.'' @ key in
      if is_sensitive_metadata_key lower key then Some path
      else (case find_sensitive_metadata_value_path lower nested path of
              Some nested_path \<Rightarrow> Some nested_path
            | None \<Rightarrow> find_sensitive_metadata_path lower rest pre))"
| "find_sensitive_item_path lower [] index pre = None"
| "find_sensitive_item_path lower (nested # rest) index pre =
     (case find_sensitive_metadata_value_path lower nested (pre @ ''['' @ show_nat index @ '']'') of
        Some nested_path \<Rightarrow> Some nested_path
      | None \<Rightarrow> find_sensitive_item_path lower rest (Suc index) pre)"

definition validate_audit_metadata :: "(string \<Rightarrow> string) \<Rightarrow> metadata \<Rightarrow> (string, unit) result" where
  "validate_audit_metadata lower m =
     (case find_sensitive_metadata_path lower m ''metadata'' of
        Some path \<Rightarrow> Inl (''audit metadata contains sensitive key: '' @ path)
      | None \<Rightarrow> Inr ())"

definition deserialize_audit_metadata :: "(string \<Rightarrow> string) \<Rightarrow> metadata \<Rightarrow> (string, metadata) result" where
  "deserialize_audit_metadata lower m =
     res_bind (validate_audit_metadata lower m) (\<lambda>_. Inr m)"

section \<open>Redaction of logged values\<close>

definition SENSITIVE_KEYS :: "string list" where
  "SENSITIVE_KEYS =
     [''authorization'', ''cookie'', ''credential'', ''password'', ''secret'', ''token'',
      ''api_key'', ''apikey'', ''access_key'', ''private_key'']"

definition is_sensitive_key :: "string \<Rightarrow> bool" where
  "is_sensitive_key key =
     (let normalized = str_replace ''-'' ''_'' (to_ascii_lowercase key) in
      list_ex (\<lambda>needle. str_contains needle normalized) SENSITIVE_KEYS)"

definition redacted_marker :: json where
  "redacted_marker = JString ''[REDACTED]''"

fun redact_value :: "json \<Rightarrow> json"
  and redact_fields :: "metadata \<Rightarrow> metadata"
  and redact_items :: "json list \<Rightarrow> json list"
where
  "redact_value (JObject m) = JObject (redact_fields m)"
| "redact_value (JArray values) = JArray (redact_items values)"
| "redact_value v = v"
| "redact_fields [] = []"
| "redact_fields ((key, nested) # rest) =
     (if is_sensitive_key key then (key, redacted_marker) else (key, redact_value nested))
     # redact_fields rest"
| "redact_items [] = []"
| "redact_items (v # rest) = redact_value v # redact_items rest"

definition redact_metadata :: "metadata \<Rightarrow> metadata" where
  "redact_metadata m =
     map (\<lambda>(key, value). if is_sensitive_key key then (key, redacted_marker)
                          else (key, redact_value value)) m"

section \<open>Reference notions\<close>

text \<open>All keys that occur in a value, at any depth.\<close>

fun value_keys :: "json \<Rightarrow> string list"
  and field_keys :: "metadata \<Rightarrow> string list"
  and item_keys :: "json list \<Rightarrow> string list"
where
  "value_keys (JObject m) = field_keys m"
| "value_keys (JArray vs) = item_keys vs"
| "value_keys _ = []"
| "field_keys [] = []"
| "field_keys ((k, v) # rest) = k # value_keys v @ field_keys rest"
| "item_keys [] = []"
| "item_keys (v # rest) = value_keys v @ item_keys rest"

text \<open>Access paths into a value.\<close>

datatype step = Field string | Item nat

fun value_at :: "json \<Rightarrow> step list \<Rightarrow> json option" where
  "value_at v [] = Some v"
| "value_at (JObject m) (Field k # p) = (case map_of m k of None \<Rightarrow> None | Some w \<Rightarrow> value_at w p)"
| "value_at (JArray vs) (Item i # p) = (if i < length vs then value_at (vs ! i) p else None)"
| "value_at _ (_ # _) = None"

fun step_sensitive :: "step \<Rightarrow> bool" where
  "step_sensitive (Field k) = is_sensitive_key k"
| "step_sensitive (Item i) = False"

definition is_leaf :: "json \<Rightarrow> bool" where
  "is_leaf v = (case v of JObject _ \<Rightarrow> False | JArray _ \<Rightarrow> False | _ \<Rightarrow> True)"

section \<open>Lemmas\<close>

lemma find_sensitive_None:
  "find_sensitive_metadata_value_path lower v pre = None
     \<longleftrightarrow> (\<forall>k \<in> set (value_keys v). \<not> is_sensitive_metadata_key lower k)"
  "find_sensitive_metadata_path lower m pre = None
     \<longleftrightarrow> (\<forall>k \<in> set (field_keys m). \<not> is_sensitive_metadata_key lower k)"
  "find_sensitive_item_path lower vs i pre = None
     \<longleftrightarrow> (\<forall>k \<in> set (item_keys vs). \<not> is_sensitive_metadata_key lower k)"
  by (induction lower v pre and lower m pre and lower vs i pre
      rule: find_sensitive_metadata_value_path_find_sensitive_metadata_path_find_sensitive_item_path.induct)
    (auto simp: Let_def split: option.splits)

lemma redact_fields_map:
  "redact_fields m =
     map (\<lambda>(key, value). if is_sensitive_key key then (key, redacted_marker)
                          else (key, redact_value value)) m"
  by (induction m) auto

lemma redact_metadata_fields: "redact_metadata m = redact_fields m"
  by (simp add: redact_metadata_def redact_fields_map)

lemma redact_items_map: "redact_items vs = map redact_value vs"
  by (induction vs) auto

lemma map_of_redact_fields:
  "map_of (redact_fields m) k =
     (if is_sensitive_key k then map_option (\<lambda>_. redacted_marker) (map_of m k)
      else map_option redact_value (map_of m k))"
  by (induction m) auto

lemma redact_marker [simp]: "redact_value redacted_marker = redacted_marker"
  by (simp add: redacted_marker_def)

lemma redact_leaf: "is_leaf v \<Longrightarrow> redact_value v = v"
  by (cases v) (auto simp: is_leaf_def)

lemma redact_idem:
  "redact_value (redact_value v) = redact_value v"
  "redact_fields (redact_fields m) = redact_fields m"
  "redact_items (redact_items vs) = redact_items vs"
  by (induction v and m and vs rule: redact_value_redact_fields_redact_items.induct) auto

lemma value_at_redact:
  "list_all (\<lambda>s. \<not> step_sensitive s) p \<Longrightarrow>
     value_at (redact_value v) p = map_option redact_value (value_at v p)"
proof (induction v p rule: value_at.induct)
  case (2 m k p)
  then show ?case by (cases "map_of m k") (auto simp: map_of_redact_fields)
next
  case (3 vs i p)
  then show ?case by (auto simp: redact_items_map)
qed auto

lemma value_at_append:
  "value_at v (p @ q) = (case value_at v p of None \<Rightarrow> None | Some w \<Rightarrow> value_at w q)"
  by (induction v p rule: value_at.induct) (auto split: option.splits)

lemma value_at_marker: "value_at redacted_marker q = (if q = [] then Some redacted_marker else None)"
  by (cases q) (auto simp: redacted_marker_def)

lemma value_at_redact_step:
  assumes "is_sensitive_key k"
  shows "value_at (redact_value v) (Field k # q) =
    (if q = [] then map_option (\<lambda>_. redacted_marker) (value_at v [Field k]) else None)"
proof (cases v)
  case (JObject m)
  with assms show ?thesis by (cases "map_of m k") (auto simp: map_of_redact_fields value_at_marker)
qed (auto simp: value_at_marker)

section \<open>Properties\<close>

text \<open>Audit metadata is accepted exactly when no key at any depth, through nested objects and
  arrays, is sensitive; deserialisation lets nothing else through and returns accepted
  metadata unchanged.\<close>

lemma audit_metadata_accepted_iff:
  "(validate_audit_metadata lower m = Inr () \<longleftrightarrow>
      (\<forall>k \<in> set (field_keys m). \<not> is_sensitive_metadata_key lower k))
   \<and> (deserialize_audit_metadata lower m = Inr m' \<longleftrightarrow>
      m' = m \<and> (\<forall>k \<in> set (field_keys m). \<not> is_sensitive_metadata_key lower k))"
proof -
  have "validate_audit_metadata lower m = Inr () \<longleftrightarrow>
      (\<forall>k \<in> set (field_keys m). \<not> is_sensitive_metadata_key lower k)"
    by (simp add: validate_audit_metadata_def find_sensitive_None(2) [of lower m "''metadata''", symmetric]
        split: option.split)
  then show ?thesis by (auto simp: deserialize_audit_metadata_def res_bind_eq_Inr)
qed

lemma audit_metadata_accepted_iff_witness:
  "validate_audit_metadata to_ascii_lowercase
     [(''request'', JArray [JNull, JObject [(''X-Session-Id'', JString ''42'')]])] \<noteq> Inr ()
   \<and> validate_audit_metadata to_ascii_lowercase [(''Credential-Ref'', JObject [(''path'', JNull)])] = Inr ()"
proof -
  have 1: "is_sensitive_metadata_key to_ascii_lowercase ''X-Session-Id''"
    by code_simp
  have 2: "\<not> is_sensitive_metadata_key to_ascii_lowercase ''Credential-Ref''"
    "\<not> is_sensitive_metadata_key to_ascii_lowercase ''path''"
    by code_simp+
  show ?thesis
    using audit_metadata_accepted_iff [of to_ascii_lowercase
        "[(''request'', JArray [JNull, JObject [(''X-Session-Id'', JString ''42'')]])]" "[]"]
      audit_metadata_accepted_iff [of to_ascii_lowercase "[(''Credential-Ref'', JObject [(''path'', JNull)])]" "[]"]
    by (simp add: 1 2)
qed

text \<open>Redaction of metadata, seen along every access path. Where the path first meets a
  sensitive key the marker stands, and nothing below it can be reached; a scalar reached
  through no sensitive key is kept as it is; redacting twice changes nothing.\<close>

lemma redaction_hides_and_keeps:
  assumes "list_all (\<lambda>s. \<not> step_sensitive s) p"
  shows "(is_sensitive_key k \<longrightarrow>
       value_at (JObject (redact_metadata m)) (p @ Field k # q) =
         (if q = [] then map_option (\<lambda>_. redacted_marker) (value_at (JObject m) (p @ [Field k])) else None))
     \<and> (value_at (JObject m) p = Some v \<and> is_leaf v \<longrightarrow> value_at (JObject (redact_metadata m)) p = Some v)
     \<and> redact_metadata (redact_metadata m) = redact_metadata m"
proof (intro conjI impI)
  have eq: "JObject (redact_metadata m) = redact_value (JObject m)"
    by (simp add: redact_metadata_fields)
  note at_p = value_at_redact [OF assms, of "JObject m"]
  show "value_at (JObject (redact_metadata m)) (p @ Field k # q) =
      (if q = [] then map_option (\<lambda>_. redacted_marker) (value_at (JObject m) (p @ [Field k])) else None)"
    if "is_sensitive_key k"
    unfolding eq value_at_append at_p using that
    by (cases "value_at (JObject m) p") (simp_all only: option.simps option.map value_at_redact_step if_cancel)
  show "value_at (JObject (redact_metadata m)) p = Some v"
    if "value_at (JObject m) p = Some v \<and> is_leaf v"
    unfolding eq at_p using that by (simp add: redact_leaf)
  show "redact_metadata (redact_metadata m) = redact_metadata m"
    by (simp add: redact_metadata_fields redact_idem)
qed

lemma redaction_hides_and_keeps_witness:
  "value_at (JObject (redact_metadata [(''http'', JArray [JObject [(''Api-Key'', JString ''s3cr3t'')]])]))
     [Field ''http'', Item 0, Field ''Api-Key''] = Some redacted_marker"
proof -
  have s: "is_sensitive_key ''Api-Key''" and n: "\<not> is_sensitive_key ''http''"
    by code_simp+
  have "list_all (\<lambda>s. \<not> step_sensitive s) [Field ''http'', Item 0]" by (simp add: n)
  from redaction_hides_and_keeps [OF this, of "''Api-Key''"
      "[(''http'', JArray [JObject [(''Api-Key'', JString ''s3cr3t'')]])]" "[]"] s
  show ?thesis by simp
qed

end
