(* ===== verification/Protocol_Names.thy ===== *)
theory Protocol_Names
  imports Core_Types
begin

text \<open>
  The wire protocol between Mosquito Net and the Triage Counter,
  \<^verbatim>\<open>crates/aegiscudo-protocol/src/lib.rs\<close>: the request and response structures, and the
  normalisation of npm and PyPI package names into coordinates.
\<close>

section \<open>Requests and responses\<close>

datatype NormalizationError = EmptyName | UnsafePath | InvalidScopedPackage

datatype PackageRequestKind = KindMetadata | KindArtifact

record NormalizedPackageRequest =
  nr_kind :: PackageRequestKind
  nr_tenant_id :: uuid
  nr_registry_config_id :: uuid
  nr_policy_profile_id :: uuid
  nr_coordinate :: PackageCoordinate
  nr_trace_id :: string
  nr_requested_digest :: "ArtifactDigest option"
  nr_source_url :: "string option"
  nr_explicit_version_or_integrity :: bool

record NormalizedQueryRequest =
  nq_kind :: PackageRequestKind
  nq_tenant_id :: uuid
  nq_policy_profile_id :: uuid
  nq_coordinate :: PackageCoordinate
  nq_trace_id :: string
  nq_requested_digest :: "ArtifactDigest option"
  nq_explicit_version_or_integrity :: bool

record DecisionQueryRequest =
  dq_tenant_id :: uuid
  dq_policy_profile_id :: uuid
  dq_request :: NormalizedQueryRequest

record DecisionRequest =
  rq_tenant_id :: uuid
  rq_registry_config_id :: uuid
  rq_policy_profile_id :: uuid
  rq_request :: NormalizedPackageRequest

record DecisionResponse =
  rs_decision :: PolicyDecision
  rs_tenant_id :: uuid
  rs_policy_profile_id :: uuid
  rs_policy_snapshot_id :: uuid
  rs_mode :: PolicyMode
  rs_feed_state :: FeedState
  rs_feed_snapshot_age_seconds :: nat
  rs_trace_id :: string
  rs_rationale :: "string list"
  rs_fallback_coordinate :: "PackageCoordinate option"
  rs_create_analysis_job :: bool

record AdvisoryHeaderPayload =
  ah_decision :: PolicyDecision
  ah_trace_id :: string
  ah_message :: string

section \<open>Name normalisation\<close>

definition reject_unsafe_path :: "string \<Rightarrow> (NormalizationError, unit) result" where
  "reject_unsafe_path value =
     (if starts_with ''/'' value
        \<or> list_ex (\<lambda>segment. segment = ''..'' \<or> segment = ''.'' \<or> segment = []) (split_on CHR ''/'' value)
        \<or> str_contains [CHR 0x5C] value
      then Inl UnsafePath else Inr ())"

definition percent_decode_npm :: "string \<Rightarrow> string" where
  "percent_decode_npm s =
     str_replace ''%2F'' ''/'' (str_replace ''%2f'' ''/'' (str_replace ''%40'' ''@'' s))"

definition normalize_npm_name :: "string \<Rightarrow> (NormalizationError, PackageCoordinate) result" where
  "normalize_npm_name raw_path =
     (let trimmed = trim_matches CHR ''/'' raw_path in
      res_bind (reject_unsafe_path trimmed) (\<lambda>_.
        if trimmed = [] then Inl EmptyName
        else
          let decoded = percent_decode_npm trimmed in
          if starts_with ''@'' decoded then
            (case split_on CHR ''/'' decoded of
               [] \<Rightarrow> Inl InvalidScopedPackage
             | [scope] \<Rightarrow> Inl InvalidScopedPackage
             | scope # name # rest \<Rightarrow>
                 if rest \<noteq> [] \<or> length scope \<le> 1 \<or> name = [] then Inl InvalidScopedPackage
                 else Inr (coordinate_new Npm name None (Some (trim_start_matches CHR ''@'' scope))))
          else if str_contains ''/'' decoded then Inl InvalidScopedPackage
          else Inr (coordinate_new Npm decoded None None)))"

definition is_pypi_separator :: "char \<Rightarrow> bool" where
  "is_pypi_separator c = (c = CHR ''-'' \<or> c = CHR ''_'' \<or> c = CHR ''.'')"

fun pypi_canonical_loop :: "string \<Rightarrow> bool \<Rightarrow> string" where
  "pypi_canonical_loop [] previous_separator = []"
| "pypi_canonical_loop (c # cs) previous_separator =
     (if is_pypi_separator c then
        (if \<not> previous_separator then CHR ''-'' # pypi_canonical_loop cs True
         else pypi_canonical_loop cs previous_separator)
      else ascii_lower_char c # pypi_canonical_loop cs False)"

definition canonicalize_pypi_name :: "string \<Rightarrow> (NormalizationError, string) result" where
  "canonicalize_pypi_name raw_name =
     (let trimmed = trim_matches CHR ''/'' (str_trim raw_name) in
      res_bind (reject_unsafe_path trimmed) (\<lambda>_.
        if trimmed = [] then Inl EmptyName
        else Inr (trim_matches CHR ''-'' (pypi_canonical_loop trimmed False))))"

definition pypi_coordinate :: "string \<Rightarrow> string option \<Rightarrow> (NormalizationError, PackageCoordinate) result" where
  "pypi_coordinate raw_name version =
     res_bind (canonicalize_pypi_name raw_name) (\<lambda>name. Inr (coordinate_new Pypi name version None))"

section \<open>Lemmas\<close>

lemma reject_unsafe_path_Inr:
  "reject_unsafe_path v = Inr u \<longleftrightarrow>
     \<not> starts_with ''/'' v
     \<and> (\<forall>seg \<in> set (split_on CHR ''/'' v). seg \<noteq> ''..'' \<and> seg \<noteq> ''.'' \<and> seg \<noteq> [])
     \<and> CHR 0x5C \<notin> set v"
  by (auto simp: reject_unsafe_path_def list_ex_iff str_contains_char)

lemma reject_unsafe_path_Inl: "reject_unsafe_path v = Inl e \<Longrightarrow> e = UnsafePath"
  by (auto simp: reject_unsafe_path_def split: if_splits)

lemma reject_unsafe_path_empty: "reject_unsafe_path [] = Inl UnsafePath"
  by (simp add: reject_unsafe_path_def)

text \<open>The empty segment of the empty path is itself unsafe, so the emptiness tests that follow
  the path check never succeed.\<close>

lemma reject_unsafe_path_nonempty: "reject_unsafe_path v = Inr u \<Longrightarrow> v \<noteq> []"
  using reject_unsafe_path_empty by auto

subsection \<open>The canonical form of PyPI names\<close>

definition pypi_canonical_char :: "char \<Rightarrow> bool" where
  "pypi_canonical_char c = (\<not> is_ascii_uppercase c \<and> c \<noteq> CHR ''_'' \<and> c \<noteq> CHR ''.'')"

fun no_double_dash :: "string \<Rightarrow> bool" where
  "no_double_dash (a # b # cs) = (\<not> (a = CHR ''-'' \<and> b = CHR ''-'') \<and> no_double_dash (b # cs))"
| "no_double_dash _ = True"

definition pypi_canonical :: "string \<Rightarrow> bool" where
  "pypi_canonical s =
     (list_all pypi_canonical_char s \<and> no_double_dash s
       \<and> (s = [] \<or> (hd s \<noteq> CHR ''-'' \<and> last s \<noteq> CHR ''-'')))"

lemma lower_char_fixed:
  assumes "\<not> (65 \<le> n \<and> n \<le> 90)" and "\<not> (97 \<le> n \<and> n \<le> 122)" and "n = (of_char d :: nat)"
  shows "ascii_lower_char c = d \<longleftrightarrow> c = d"
proof -
  define m where "m = (of_char c :: nat)"
  have "ascii_lower_char c = d \<longleftrightarrow> (of_char (ascii_lower_char c) :: nat) = of_char d"
    by (simp only: of_char_eq_iff)
  also have "\<dots> \<longleftrightarrow> (if 65 \<le> m \<and> m \<le> 90 then m + 32 else m) = n"
    unfolding of_char_lower m_def [symmetric] assms(3) [symmetric] ..
  also have "\<dots> \<longleftrightarrow> m = n" using assms(1,2) by presburger
  also have "\<dots> \<longleftrightarrow> c = d" unfolding m_def assms(3) by (simp only: of_char_eq_iff)
  finally show ?thesis .
qed

lemma lower_separator [simp]: "is_pypi_separator (ascii_lower_char c) \<longleftrightarrow> is_pypi_separator c"
  by (simp add: is_pypi_separator_def lower_char_fixed [where n = 45] lower_char_fixed [where n = 95]
      lower_char_fixed [where n = 46])

lemma loop_chars: "list_all pypi_canonical_char (pypi_canonical_loop s b)"
proof (induction s b rule: pypi_canonical_loop.induct)
  case (2 c cs b)
  have "pypi_canonical_char (ascii_lower_char c)" if "\<not> is_pypi_separator c"
    using that lower_separator [of c] by (auto simp: pypi_canonical_char_def is_pypi_separator_def)
  moreover have "pypi_canonical_char CHR ''-''"
    by (simp add: pypi_canonical_char_def is_ascii_uppercase_def)
  ultimately show ?case using 2 by simp
qed simp

lemma loop_hd_True: "pypi_canonical_loop s True = [] \<or> hd (pypi_canonical_loop s True) \<noteq> CHR ''-''"
proof (induction s)
  case (Cons c cs)
  have "ascii_lower_char c \<noteq> CHR ''-''" if "\<not> is_pypi_separator c"
    using that lower_separator [of c] by (auto simp: is_pypi_separator_def)
  with Cons show ?case by simp
qed simp

lemma no_double_dash_Cons:
  "no_double_dash (a # s) \<longleftrightarrow> no_double_dash s \<and> \<not> (a = CHR ''-'' \<and> s \<noteq> [] \<and> hd s = CHR ''-'')"
  by (cases s) auto

lemma loop_no_double_dash: "no_double_dash (pypi_canonical_loop s b)"
proof (induction s b rule: pypi_canonical_loop.induct)
  case (2 c cs b)
  have "ascii_lower_char c \<noteq> CHR ''-''" if "\<not> is_pypi_separator c"
    using that lower_separator [of c] by (auto simp: is_pypi_separator_def)
  with 2 loop_hd_True [of cs] show ?case by (auto simp: no_double_dash_Cons)
qed simp

lemma no_double_dash_sublist: "sublist t s \<Longrightarrow> no_double_dash s \<Longrightarrow> no_double_dash t"
proof (induction s arbitrary: t)
  case (Cons a s)
  show ?case
  proof (cases "sublist t s")
    case True
    with Cons show ?thesis by (simp add: no_double_dash_Cons)
  next
    case False
    with Cons.prems(1) have "prefix t (a # s)" by (simp add: sublist_Cons_right)
    with False obtain t' where t: "t = a # t'" and p: "prefix t' s" by (cases t) auto
    from p have "sublist t' s" by simp
    with Cons have "no_double_dash t'" by (simp add: no_double_dash_Cons)
    moreover have "t' \<noteq> [] \<Longrightarrow> hd s = hd t' \<and> s \<noteq> []" using p by (auto simp: prefix_def)
    ultimately show ?thesis using Cons.prems(2) t by (auto simp: no_double_dash_Cons)
  qed
qed simp

lemma trim_matches_sublist: "sublist (trim_matches c s) s"
proof -
  have "prefix (trim_matches c s) (trim_start_matches c s)"
    unfolding trim_matches_def by (rule trim_end_matches_prefix)
  moreover have "suffix (trim_start_matches c s) s"
    unfolding trim_start_matches_def by (rule suffix_dropWhile)
  ultimately show ?thesis by (meson prefix_imp_sublist suffix_imp_sublist sublist_order.order_trans)
qed

lemma canonicalize_pypi_name_canonical:
  assumes "canonicalize_pypi_name raw = Inr n"
  shows "pypi_canonical n"
proof -
  from assms obtain t where n: "n = trim_matches CHR ''-'' (pypi_canonical_loop t False)"
    by (auto simp: canonicalize_pypi_name_def Let_def res_bind_eq_Inr split: if_splits)
  have "list_all pypi_canonical_char n"
    using loop_chars [of t False] set_trim_matches [of "CHR ''-''" "pypi_canonical_loop t False"]
    by (auto simp: n list_all_iff)
  moreover have "no_double_dash n"
    unfolding n by (rule no_double_dash_sublist [OF trim_matches_sublist loop_no_double_dash])
  ultimately show ?thesis
    using trim_matches_hd trim_matches_last by (auto simp: pypi_canonical_def n)
qed

text \<open>On a canonical name the loop is the identity.\<close>

lemma canonical_loop_id:
  assumes "list_all pypi_canonical_char s" "no_double_dash s"
    and "b \<longrightarrow> s = [] \<or> hd s \<noteq> CHR ''-''"
  shows "pypi_canonical_loop s b = s"
  using assms
proof (induction s b rule: pypi_canonical_loop.induct)
  case (2 c cs b)
  show ?case
  proof (cases "c = CHR ''-''")
    case True
    with 2 show ?thesis by (auto simp: is_pypi_separator_def no_double_dash_Cons)
  next
    case False
    with "2.prems" have sep: "\<not> is_pypi_separator c" and low: "ascii_lower_char c = c"
      by (auto simp: is_pypi_separator_def pypi_canonical_char_def ascii_lower_char_id)
    from "2.IH"(3) [OF sep] "2.prems" have "pypi_canonical_loop cs False = cs"
      by (simp add: no_double_dash_Cons)
    with sep low show ?thesis by simp
  qed
qed simp

lemma canonical_name_fixed:
  assumes "pypi_canonical n"
  shows "trim_matches CHR ''-'' (pypi_canonical_loop n False) = n"
proof -
  from assms have "pypi_canonical_loop n False = n"
    by (intro canonical_loop_id) (auto simp: pypi_canonical_def)
  with assms show ?thesis by (auto simp: pypi_canonical_def intro!: trim_matches_id)
qed

section \<open>Properties\<close>

definition plain_name :: "string \<Rightarrow> bool" where
  "plain_name s =
     (s \<noteq> [] \<and> s \<noteq> ''.'' \<and> s \<noteq> ''..''
       \<and> list_all (\<lambda>c. c \<noteq> CHR ''/'' \<and> c \<noteq> CHR ''%'' \<and> c \<noteq> CHR ''@'' \<and> c \<noteq> CHR 0x5C) s)"

lemma percent_decode_npm_id: "CHR ''%'' \<notin> set s \<Longrightarrow> percent_decode_npm s = s"
  by (simp add: percent_decode_npm_def str_replace_id)

lemma percent_decode_npm_not_Nil: "s \<noteq> [] \<Longrightarrow> percent_decode_npm s \<noteq> []"
  by (simp add: percent_decode_npm_def str_replace_not_Nil)

lemma set_percent_decode_npm: "set (percent_decode_npm s) \<subseteq> set s \<union> {CHR ''/'', CHR ''@''}"
  unfolding percent_decode_npm_def
  using set_str_replace [of "''%2F''" "''/''"] set_str_replace [of "''%2f''" "''/''"]
    set_str_replace [of "''%40''" "''@''" s]
  by fastforce

lemma plain_name_edges: "plain_name s \<Longrightarrow> trim_matches CHR ''/'' s = s"
  using hd_in_set [of s] last_in_set [of s]
  by (intro trim_matches_id) (auto simp: plain_name_def list_all_iff)

lemma plain_nameD:
  assumes "plain_name s"
  shows "s \<noteq> []" "CHR ''/'' \<notin> set s" "CHR ''%'' \<notin> set s" "CHR ''@'' \<notin> set s" "CHR 0x5C \<notin> set s"
    "s \<noteq> ''.''" "s \<noteq> ''..''"
  using assms by (auto simp: plain_name_def list_all_iff)

lemma not_starts_with_char: "c \<notin> set s \<Longrightarrow> \<not> starts_with [c] s"
  by (cases s) auto

lemma plain_name_safe: "plain_name s \<Longrightarrow> reject_unsafe_path s = Inr ()"
  unfolding reject_unsafe_path_Inr
  by (simp add: plain_nameD split_on_id not_starts_with_char)

lemma normalize_npm_plain:
  "plain_name name \<Longrightarrow> normalize_npm_name name = Inr (coordinate_new Npm name None None)"
  by (simp add: normalize_npm_name_def Let_def plain_name_edges plain_name_safe percent_decode_npm_id
      str_contains_char plain_nameD not_starts_with_char)

lemma normalize_npm_scoped:
  assumes s: "plain_name scope" and n: "plain_name name"
  shows "normalize_npm_name (''@'' @ scope @ ''/'' @ name) = Inr (coordinate_new Npm name None (Some scope))"
proof -
  let ?raw = "''@'' @ scope @ ''/'' @ name"
  have split: "split_on CHR ''/'' ?raw = [''@'' @ scope, name]"
    by (simp add: split_on_append split_on_id plain_nameD [OF s] plain_nameD [OF n])
  have "last name \<noteq> CHR ''/''"
    by (metis last_in_set plain_nameD(1,2) n)
  then have trim: "trim_matches CHR ''/'' ?raw = ?raw"
    by (intro trim_matches_id) (simp add: plain_nameD [OF n])
  have safe: "reject_unsafe_path ?raw = Inr ()"
    unfolding reject_unsafe_path_Inr split by (simp add: plain_nameD [OF s] plain_nameD [OF n])
  have "dropWhile (\<lambda>x. x = CHR ''@'') scope = scope"
    using plain_nameD(4) [OF s] by (cases scope) auto
  moreover have "percent_decode_npm ?raw = ?raw"
    by (intro percent_decode_npm_id) (simp add: plain_nameD [OF s] plain_nameD [OF n])
  ultimately show ?thesis
    using split trim safe plain_nameD(1) [OF s] plain_nameD(1) [OF n]
    by (simp add: normalize_npm_name_def Let_def trim_start_matches_def Suc_le_eq)
qed

lemma normalize_npm_cases:
  assumes "normalize_npm_name raw = Inr c"
  obtains (Scoped) decoded scope name where
      "split_on CHR ''/'' decoded = [scope, name]" "name \<noteq> []" "CHR 0x5C \<notin> set decoded"
      "c = coordinate_new Npm name None (Some (trim_start_matches CHR ''@'' scope))"
  | (Plain) decoded where "decoded \<noteq> []" "CHR ''/'' \<notin> set decoded" "CHR 0x5C \<notin> set decoded"
      "c = coordinate_new Npm decoded None None"
proof -
  let ?t = "trim_matches CHR ''/'' raw" and ?d = "percent_decode_npm (trim_matches CHR ''/'' raw)"
  from assms have safe: "reject_unsafe_path ?t = Inr ()" and ne: "?t \<noteq> []"
    by (auto simp: normalize_npm_name_def Let_def res_bind_eq_Inr split: if_splits)
  have bs: "CHR 0x5C \<notin> set ?d"
    using safe set_percent_decode_npm [of ?t] by (auto simp: reject_unsafe_path_Inr)
  have dne: "?d \<noteq> []" using ne by (rule percent_decode_npm_not_Nil)
  from assms safe ne have "if starts_with ''@'' ?d then
      \<exists>scope name. split_on CHR ''/'' ?d = [scope, name] \<and> name \<noteq> []
        \<and> c = coordinate_new Npm name None (Some (trim_start_matches CHR ''@'' scope))
      else CHR ''/'' \<notin> set ?d \<and> c = coordinate_new Npm ?d None None"
    by (auto simp: normalize_npm_name_def Let_def str_contains_char split: if_splits list.splits)
  then show thesis using bs dne that by (auto split: if_splits)
qed

lemma normalize_npm_shape:
  assumes "normalize_npm_name raw = Inr c"
  shows "pc_ecosystem c = Npm \<and> pc_version c = None \<and> pc_name c \<noteq> []
      \<and> CHR ''/'' \<notin> set (pc_name c) \<and> CHR 0x5C \<notin> set (pc_name c)
      \<and> (\<forall>ns. pc_namespace c = Some ns \<longrightarrow> CHR ''/'' \<notin> set ns \<and> CHR 0x5C \<notin> set ns
           \<and> (ns = [] \<or> hd ns \<noteq> CHR ''@''))"
  using assms
proof (cases rule: normalize_npm_cases)
  case (Scoped decoded sc nm)
  from Scoped(1) have d: "decoded = sc @ CHR ''/'' # nm" "CHR ''/'' \<notin> set sc" "CHR ''/'' \<notin> set nm"
    by (auto simp: split_on_pair)
  with Scoped(2-4) set_trim_start_matches [of "CHR ''@''" sc] trim_start_matches_hd [of "CHR ''@''" sc]
  show ?thesis by (auto simp: coordinate_new_def)
qed (auto simp: coordinate_new_def)

text \<open>Every npm name that normalises gives an npm coordinate without a version whose name is
  not empty and whose name and scope contain neither a slash nor a backslash, the scope without
  its at sign; and normalising a plain name, with or without a plain scope, gives exactly that
  name and scope.\<close>

lemma npm_name_normal_form:
  "(normalize_npm_name raw = Inr c \<longrightarrow>
      pc_ecosystem c = Npm \<and> pc_version c = None \<and> pc_name c \<noteq> []
      \<and> CHR ''/'' \<notin> set (pc_name c) \<and> CHR 0x5C \<notin> set (pc_name c)
      \<and> (\<forall>ns. pc_namespace c = Some ns \<longrightarrow> CHR ''/'' \<notin> set ns \<and> CHR 0x5C \<notin> set ns
           \<and> (ns = [] \<or> hd ns \<noteq> CHR ''@'')))
   \<and> (plain_name name \<longrightarrow> normalize_npm_name name = Inr (coordinate_new Npm name None None))
   \<and> (plain_name scope \<and> plain_name name \<longrightarrow>
      normalize_npm_name (''@'' @ scope @ ''/'' @ name) = Inr (coordinate_new Npm name None (Some scope)))"
  using normalize_npm_shape [of raw c] normalize_npm_plain [of name] normalize_npm_scoped [of scope name]
  by blast

lemma npm_name_normal_form_witness:
  "normalize_npm_name ''left-pad'' = Inr (coordinate_new Npm ''left-pad'' None None)
   \<and> normalize_npm_name ''@types/node'' = Inr (coordinate_new Npm ''node'' None (Some ''types''))"
proof -
  have "plain_name ''left-pad''" "plain_name ''types''" "plain_name ''node''"
    by (simp_all add: plain_name_def)
  with npm_name_normal_form [of "[]" _ "''left-pad''" "[]"] npm_name_normal_form [of "[]" _ "''node''" "''types''"]
  show ?thesis by simp
qed

text \<open>The check against path traversal runs before percent decoding, so a name with an encoded
  slash reaches a coordinate named with two dots although the same name written with a plain
  slash is rejected.\<close>

lemma npm_encoded_traversal_accepted:
  "normalize_npm_name ''@scope%2f..'' = Inr (coordinate_new Npm ''..'' None (Some ''scope''))
   \<and> normalize_npm_name ''@scope/..'' = Inl UnsafePath"
  by code_simp

text \<open>A PyPI name that canonicalises is in canonical form (lower case, single hyphens for runs
  of separators, none at the ends), and canonicalisation leaves every canonical name of
  graphic ASCII characters without slash or backslash unchanged: it is a normal form.\<close>

lemma pypi_name_canonical:
  "(canonicalize_pypi_name raw = Inr n \<longrightarrow> pypi_canonical n)
   \<and> (pypi_canonical s \<and> s \<noteq> [] \<and> list_all (\<lambda>c. graphic_char c \<and> c \<noteq> CHR ''/'' \<and> c \<noteq> CHR 0x5C) s
      \<longrightarrow> canonicalize_pypi_name s = Inr s)"
proof (intro conjI impI)
  show "canonicalize_pypi_name raw = Inr n \<Longrightarrow> pypi_canonical n"
    by (rule canonicalize_pypi_name_canonical)
  assume *: "pypi_canonical s \<and> s \<noteq> [] \<and> list_all (\<lambda>c. graphic_char c \<and> c \<noteq> CHR ''/'' \<and> c \<noteq> CHR 0x5C) s"
  then have ne: "s \<noteq> []" and sl: "CHR ''/'' \<notin> set s" and bs: "CHR 0x5C \<notin> set s" and dot: "CHR ''.'' \<notin> set s"
    and gr: "graphic_char (hd s)" "graphic_char (last s)"
    by (auto simp: list_all_iff pypi_canonical_def pypi_canonical_char_def)
  have "str_trim s = s" using ne gr by (rule str_trim_id)
  moreover have "trim_matches CHR ''/'' s = s"
    using hd_in_set [OF ne] last_in_set [OF ne] sl by (intro trim_matches_id) auto
  moreover have "reject_unsafe_path s = Inr ()"
    using ne sl bs dot by (cases s) (auto simp: reject_unsafe_path_Inr split_on_id)
  ultimately show "canonicalize_pypi_name s = Inr s"
    using * ne by (simp add: canonicalize_pypi_name_def canonical_name_fixed)
qed

lemma pypi_name_canonical_witness:
  "canonicalize_pypi_name ''zope-interface'' = Inr ''zope-interface''"
proof -
  have "pypi_canonical ''zope-interface''"
    "list_all (\<lambda>c. graphic_char c \<and> c \<noteq> CHR ''/'' \<and> c \<noteq> CHR 0x5C) ''zope-interface''"
    by (simp_all add: pypi_canonical_def pypi_canonical_char_def is_ascii_uppercase_def graphic_char_def)
  with pypi_name_canonical [of "[]" "[]" "''zope-interface''"] show ?thesis by simp
qed

end
