(* ===== verification/Policy_Engine.thy ===== *)
theory Policy_Engine
  imports Protocol_Names
begin

text \<open>
  The deterministic decision engine, \<^verbatim>\<open>crates/aegiscudo-policy/src/lib.rs\<close>:
  \<^verbatim>\<open>PolicyInput\<close>, the Scorecard aggregation and \<^verbatim>\<open>DecisionEngine::evaluate\<close>. The mutable
  \<^verbatim>\<open>rationale\<close> vector is threaded as a list that the branches append to. The second half
  gives the reference reading of the engine, an ordered table of rules of which the first
  that applies decides, and the lemmas that relate the two.
\<close>

section \<open>Input\<close>

datatype VulnerabilityPolicyAction = VulnWarn | VulnBlock

datatype SignalPolicyAction = SignalAllow | SignalWarn | SignalBlock | SignalHitl

record PolicyInput =
  pi_tenant_id :: uuid
  pi_policy_profile_id :: uuid
  pi_policy_snapshot_id :: uuid
  pi_coordinate :: PackageCoordinate
  pi_trace_id :: string
  pi_mode :: PolicyMode
  pi_known_safe_verdict :: bool
  pi_known_malicious :: bool
  pi_vulnerable_above_threshold :: bool
  pi_vulnerable_above_threshold_action :: VulnerabilityPolicyAction
  pi_minimum_release_age_violation :: bool
  pi_install_script_detected :: bool
  pi_dependency_confusion_risk :: bool
  pi_typosquat_risk :: bool
  pi_artifact_digest_reputation_risk :: bool
  pi_cross_ecosystem_ioc_correlation_risk :: bool
  pi_static_analysis_score_violation :: bool
  pi_dynamic_sandbox_policy_violation :: bool
  pi_github_to_registry_publish_gap_risk :: bool
  pi_trusted_publisher_identity_mismatch :: bool
  pi_scorecard_code_review_risk :: bool
  pi_scorecard_branch_protection_risk :: bool
  pi_scorecard_ci_cd_risk :: bool
  pi_scorecard_maintained_risk :: bool
  pi_scorecard_signed_releases_risk :: bool
  pi_scorecard_code_review_action :: SignalPolicyAction
  pi_scorecard_branch_protection_action :: SignalPolicyAction
  pi_scorecard_ci_cd_action :: SignalPolicyAction
  pi_scorecard_maintained_action :: SignalPolicyAction
  pi_scorecard_signed_releases_action :: SignalPolicyAction
  pi_provenance_or_signature_verification_failed :: bool
  pi_missing_or_failed_attestation :: bool
  pi_ai_agent_injection_indicator :: bool
  pi_maintainer_account_age_risk :: bool
  pi_recent_maintainer_change_risk :: bool
  pi_new_maintainer_ratio_risk :: bool
  pi_unknown_artifact :: bool
  pi_hitl_required :: bool
  pi_active_override :: bool
  pi_emergency_bypass :: bool
  pi_fallback_eligible :: bool
  pi_fallback_candidate :: "PackageCoordinate option"
  pi_feed_state :: FeedState
  pi_feed_snapshot_age_seconds :: nat

section \<open>Scorecard aggregation\<close>

definition scorecard_checks :: "PolicyInput \<Rightarrow> (bool \<times> SignalPolicyAction \<times> string) list" where
  "scorecard_checks i =
     [(pi_scorecard_code_review_risk i, pi_scorecard_code_review_action i,
       ''OpenSSF Scorecard code review check indicates incomplete review coverage''),
      (pi_scorecard_branch_protection_risk i, pi_scorecard_branch_protection_action i,
       ''OpenSSF Scorecard branch protection check indicates incomplete protection''),
      (pi_scorecard_ci_cd_risk i, pi_scorecard_ci_cd_action i,
       ''OpenSSF Scorecard CI/CD check indicates incomplete CI protections''),
      (pi_scorecard_maintained_risk i, pi_scorecard_maintained_action i,
       ''OpenSSF Scorecard maintained check indicates weak maintenance posture''),
      (pi_scorecard_signed_releases_risk i, pi_scorecard_signed_releases_action i,
       ''OpenSSF Scorecard signed releases check indicates unsigned or inconsistently signed releases'')]"

text \<open>The loop over the checks: the flags \<^verbatim>\<open>warn\<close>, \<^verbatim>\<open>hitl\<close>, \<^verbatim>\<open>block\<close> and the rationale.\<close>

fun scorecard_loop ::
  "(bool \<times> SignalPolicyAction \<times> string) list \<Rightarrow> bool \<Rightarrow> bool \<Rightarrow> bool \<Rightarrow> string list
     \<Rightarrow> bool \<times> bool \<times> bool \<times> string list"
where
  "scorecard_loop [] warn hitl block rationale = (warn, hitl, block, rationale)"
| "scorecard_loop ((risk, action, message) # rest) warn hitl block rationale =
     (if \<not> risk \<or> action = SignalAllow then scorecard_loop rest warn hitl block rationale
      else let rationale' = rationale @ [message] in
        (case action of
           SignalAllow \<Rightarrow> scorecard_loop rest warn hitl block rationale'
         | SignalWarn \<Rightarrow> scorecard_loop rest True hitl block rationale'
         | SignalBlock \<Rightarrow> scorecard_loop rest warn hitl True rationale'
         | SignalHitl \<Rightarrow> scorecard_loop rest warn True block rationale'))"

definition scorecard_policy_outcome ::
  "PolicyInput \<Rightarrow> string list \<Rightarrow> PolicyDecision option \<times> string list" where
  "scorecard_policy_outcome i rationale =
     (case scorecard_loop (scorecard_checks i) False False False rationale of
        (warn, hitl, block, rationale') \<Rightarrow>
          (if block then Some BlockPolicyViolation
           else if hitl then Some RequireHitlApproval
           else if warn then Some AllowWithWarning
           else None, rationale'))"

section \<open>The decision engine\<close>

text \<open>\<^verbatim>\<open>if c { rationale.push(m) }\<close>.\<close>

definition push_if :: "bool \<Rightarrow> string \<Rightarrow> string list \<Rightarrow> string list" where
  "push_if c m r = (if c then r @ [m] else r)"

definition policy_violation_signal :: "PolicyInput \<Rightarrow> bool" where
  "policy_violation_signal i =
     (pi_dependency_confusion_risk i \<or> pi_typosquat_risk i
       \<or> pi_artifact_digest_reputation_risk i \<or> pi_cross_ecosystem_ioc_correlation_risk i
       \<or> pi_static_analysis_score_violation i \<or> pi_dynamic_sandbox_policy_violation i
       \<or> pi_github_to_registry_publish_gap_risk i \<or> pi_ai_agent_injection_indicator i
       \<or> pi_minimum_release_age_violation i \<or> pi_maintainer_account_age_risk i
       \<or> pi_recent_maintainer_change_risk i \<or> pi_new_maintainer_ratio_risk i)"

definition policy_violation_rationale :: "PolicyInput \<Rightarrow> string list \<Rightarrow> string list" where
  "policy_violation_rationale i r0 =
     (let r1 = push_if (pi_dependency_confusion_risk i) ''dependency confusion namespace risk'' r0;
          r2 = push_if (pi_typosquat_risk i) ''typosquatting similarity risk'' r1;
          r3 = push_if (pi_artifact_digest_reputation_risk i) ''artifact digest reputation risk'' r2;
          r4 = push_if (pi_cross_ecosystem_ioc_correlation_risk i) ''cross-ecosystem IOC correlation risk'' r3;
          r5 = push_if (pi_static_analysis_score_violation i)
                 ''static analysis score exceeded the configured policy threshold'' r4;
          r6 = push_if (pi_dynamic_sandbox_policy_violation i)
                 ''dynamic sandbox result exceeded the configured policy threshold'' r5;
          r7 = push_if (pi_github_to_registry_publish_gap_risk i)
                 ''GitHub-to-registry publish gap risk matched policy'' r6;
          r8 = push_if (pi_ai_agent_injection_indicator i) ''AI agent instruction injection indicator'' r7;
          r9 = push_if (pi_minimum_release_age_violation i) ''minimum release age policy violation'' r8;
          r10 = push_if (pi_maintainer_account_age_risk i) ''maintainer account age risk'' r9;
          r11 = push_if (pi_recent_maintainer_change_risk i) ''recent maintainer change risk'' r10
      in push_if (pi_new_maintainer_ratio_risk i) ''new maintainer publishing ratio risk'' r11)"

definition review_signal :: "PolicyInput \<Rightarrow> bool" where
  "review_signal i =
     (pi_install_script_detected i \<or> pi_trusted_publisher_identity_mismatch i
       \<or> pi_provenance_or_signature_verification_failed i \<or> pi_missing_or_failed_attestation i)"

definition review_rationale :: "PolicyInput \<Rightarrow> string list \<Rightarrow> string list" where
  "review_rationale i r0 =
     (let r1 = push_if (pi_install_script_detected i) ''install or lifecycle script requires review'' r0;
          r2 = push_if (pi_trusted_publisher_identity_mismatch i)
                 ''Trusted Publisher identity did not match expected CI/CD publisher'' r1;
          r3 = push_if (pi_provenance_or_signature_verification_failed i)
                 ''provenance or registry signature verification failed or was unavailable'' r2
      in push_if (pi_missing_or_failed_attestation i)
           ''attestation is missing, failed, or unverifiable'' r3)"

type_synonym engine_outcome = "PolicyDecision \<times> PackageCoordinate option \<times> bool \<times> string list"

definition engine_outcome :: "PolicyInput \<Rightarrow> engine_outcome" where
  "engine_outcome i =
     (if pi_active_override i \<or> pi_emergency_bypass i then
        (AllowWithWarning, None, False, [''time-bound override or emergency bypass is active''])
      else if pi_known_malicious i then
        (BlockKnownMalicious, None, False, [''known malicious package or artifact match''])
      else if pi_known_safe_verdict i then
        (Allow, None, False, [''previous safe organizational verdict matched''])
      else if policy_violation_signal i then
        (BlockPolicyViolation, None, False, policy_violation_rationale i [])
      else if pi_hitl_required i then
        (RequireHitlApproval, None, False, [''human approval is required by policy''])
      else if pi_fallback_eligible i \<and> pi_fallback_candidate i \<noteq> None then
        (FallbackToApprovedCandidate, pi_fallback_candidate i, False,
         [''eligible resolver metadata flow can use approved fallback candidate''])
      else if pi_unknown_artifact i then
        (QuarantinePendingAnalysis, None, True, [''unknown artifact requires asynchronous analysis''])
      else if pi_vulnerable_above_threshold i then
        (case pi_vulnerable_above_threshold_action i of
           VulnWarn \<Rightarrow> AllowWithWarning | VulnBlock \<Rightarrow> BlockPolicyViolation, None, False,
         [''known vulnerability exceeded the configured policy threshold''])
      else (case scorecard_policy_outcome i [] of
          (Some scorecard_decision, rationale) \<Rightarrow> (scorecard_decision, None, False, rationale)
        | (None, rationale) \<Rightarrow>
            if review_signal i then (AllowWithWarning, None, False, review_rationale i rationale)
            else (Allow, None, False, rationale @ [''no blocking policy signal matched''])))"

definition evaluate :: "PolicyInput \<Rightarrow> DecisionResponse" where
  "evaluate i =
     (case engine_outcome i of (decision, fallback_coordinate, create_analysis_job, rationale) \<Rightarrow>
       \<lparr>rs_decision = decision,
        rs_tenant_id = pi_tenant_id i,
        rs_policy_profile_id = pi_policy_profile_id i,
        rs_policy_snapshot_id = pi_policy_snapshot_id i,
        rs_mode = pi_mode i,
        rs_feed_state = pi_feed_state i,
        rs_feed_snapshot_age_seconds = pi_feed_snapshot_age_seconds i,
        rs_trace_id = pi_trace_id i,
        rs_rationale = rationale,
        rs_fallback_coordinate = fallback_coordinate,
        rs_create_analysis_job = create_analysis_job\<rparr>)"

section \<open>Reference reading\<close>

text \<open>The Scorecard checks that count are those with a risk and an action other than allow;
  the strictest of their actions decides.\<close>

definition active_checks :: "PolicyInput \<Rightarrow> (bool \<times> SignalPolicyAction \<times> string) list" where
  "active_checks i = filter (\<lambda>(risk, action, message). risk \<and> action \<noteq> SignalAllow) (scorecard_checks i)"

definition active_actions :: "PolicyInput \<Rightarrow> SignalPolicyAction set" where
  "active_actions i = (\<lambda>(risk, action, message). action) ` set (active_checks i)"

definition scorecard_decision :: "PolicyInput \<Rightarrow> PolicyDecision option" where
  "scorecard_decision i =
     (if SignalBlock \<in> active_actions i then Some BlockPolicyViolation
      else if SignalHitl \<in> active_actions i then Some RequireHitlApproval
      else if SignalWarn \<in> active_actions i then Some AllowWithWarning
      else None)"

text \<open>An ordered rule table: the first rule whose condition holds gives the decision.\<close>

definition vulnerability_decision :: "PolicyInput \<Rightarrow> PolicyDecision" where
  "vulnerability_decision i =
     (case pi_vulnerable_above_threshold_action i of
        VulnWarn \<Rightarrow> AllowWithWarning | VulnBlock \<Rightarrow> BlockPolicyViolation)"

definition decision_rules :: "PolicyInput \<Rightarrow> (bool \<times> PolicyDecision) list" where
  "decision_rules i =
     [(pi_active_override i \<or> pi_emergency_bypass i, AllowWithWarning),
      (pi_known_malicious i, BlockKnownMalicious),
      (pi_known_safe_verdict i, Allow),
      (policy_violation_signal i, BlockPolicyViolation),
      (pi_hitl_required i, RequireHitlApproval),
      (pi_fallback_eligible i \<and> pi_fallback_candidate i \<noteq> None, FallbackToApprovedCandidate),
      (pi_unknown_artifact i, QuarantinePendingAnalysis),
      (pi_vulnerable_above_threshold i, vulnerability_decision i),
      (SignalBlock \<in> active_actions i, BlockPolicyViolation),
      (SignalHitl \<in> active_actions i, RequireHitlApproval),
      (SignalWarn \<in> active_actions i, AllowWithWarning),
      (review_signal i, AllowWithWarning)]"

fun first_rule :: "(bool \<times> 'd) list \<Rightarrow> 'd \<Rightarrow> 'd" where
  "first_rule [] d = d"
| "first_rule ((c, x) # rest) d = (if c then x else first_rule rest d)"

section \<open>Lemmas\<close>

lemma scorecard_loop_eq:
  "scorecard_loop cs warn hitl block rationale =
     (let act = filter (\<lambda>(risk, action, message). risk \<and> action \<noteq> SignalAllow) cs;
          acts = (\<lambda>(risk, action, message). action) ` set act
      in (warn \<or> SignalWarn \<in> acts, hitl \<or> SignalHitl \<in> acts, block \<or> SignalBlock \<in> acts,
          rationale @ map (\<lambda>(risk, action, message). message) act))"
proof (induction cs warn hitl block rationale rule: scorecard_loop.induct)
  case (2 risk action message rest warn hitl block rationale)
  then show ?case by (cases "\<not> risk \<or> action = SignalAllow"; cases action) (auto simp: Let_def)
qed simp

lemma scorecard_policy_outcome_eq:
  "scorecard_policy_outcome i rationale =
     (scorecard_decision i, rationale @ map (\<lambda>(risk, action, message). message) (active_checks i))"
  by (simp add: scorecard_policy_outcome_def scorecard_loop_eq Let_def scorecard_decision_def
      active_actions_def active_checks_def)

lemma active_actions_not_allow: "SignalAllow \<notin> active_actions i"
  by (auto simp: active_actions_def active_checks_def)

lemma scorecard_decision_None: "scorecard_decision i = None \<longleftrightarrow> active_checks i = []"
proof -
  have "scorecard_decision i = None \<longleftrightarrow> active_actions i = {}"
  proof
    assume *: "scorecard_decision i = None"
    show "active_actions i = {}"
    proof (rule ccontr)
      assume "active_actions i \<noteq> {}"
      then obtain a where a: "a \<in> active_actions i" by auto
      with * active_actions_not_allow [of i] show False
        by (cases a) (auto simp: scorecard_decision_def split: if_splits)
    qed
  qed (simp add: scorecard_decision_def)
  then show ?thesis by (auto simp: active_actions_def)
qed

lemma push_if_not_Nil: "push_if c m r = [] \<longleftrightarrow> r = [] \<and> \<not> c"
  by (simp add: push_if_def)

lemma policy_violation_rationale_Nil:
  "policy_violation_rationale i r = [] \<longleftrightarrow> r = [] \<and> \<not> policy_violation_signal i"
  by (simp add: policy_violation_rationale_def Let_def push_if_not_Nil policy_violation_signal_def)

lemma review_rationale_Nil: "review_rationale i r = [] \<longleftrightarrow> r = [] \<and> \<not> review_signal i"
  by (simp add: review_rationale_def Let_def push_if_not_Nil review_signal_def)

lemma evaluate_simps [simp]:
  "rs_decision (evaluate i) = fst (engine_outcome i)"
  "rs_fallback_coordinate (evaluate i) = fst (snd (engine_outcome i))"
  "rs_create_analysis_job (evaluate i) = fst (snd (snd (engine_outcome i)))"
  "rs_rationale (evaluate i) = snd (snd (snd (engine_outcome i)))"
  "rs_tenant_id (evaluate i) = pi_tenant_id i"
  "rs_policy_profile_id (evaluate i) = pi_policy_profile_id i"
  "rs_policy_snapshot_id (evaluate i) = pi_policy_snapshot_id i"
  "rs_mode (evaluate i) = pi_mode i"
  "rs_feed_state (evaluate i) = pi_feed_state i"
  "rs_feed_snapshot_age_seconds (evaluate i) = pi_feed_snapshot_age_seconds i"
  "rs_trace_id (evaluate i) = pi_trace_id i"
  by (simp_all add: evaluate_def split: prod.split)

lemma fst_engine_outcome: "fst (engine_outcome i) = first_rule (decision_rules i) Allow"
  by (auto simp: engine_outcome_def decision_rules_def scorecard_policy_outcome_eq
      scorecard_decision_def vulnerability_decision_def)

lemma engine_outcome_job:
  "fst (snd (snd (engine_outcome i))) \<longleftrightarrow> fst (engine_outcome i) = QuarantinePendingAnalysis"
  by (auto simp: engine_outcome_def scorecard_policy_outcome_eq scorecard_decision_def
      split: VulnerabilityPolicyAction.splits if_splits)

lemma engine_outcome_fallback:
  "fst (snd (engine_outcome i)) =
     (if fst (engine_outcome i) = FallbackToApprovedCandidate then pi_fallback_candidate i else None)"
  by (auto simp: engine_outcome_def scorecard_policy_outcome_eq scorecard_decision_def
      split: VulnerabilityPolicyAction.splits if_splits)

lemma engine_outcome_fallback_Some:
  "fst (engine_outcome i) = FallbackToApprovedCandidate \<Longrightarrow> pi_fallback_candidate i \<noteq> None"
  by (auto simp: engine_outcome_def scorecard_policy_outcome_eq scorecard_decision_def
      split: VulnerabilityPolicyAction.splits if_splits)

lemma engine_outcome_rationale: "snd (snd (snd (engine_outcome i))) \<noteq> []"
  using scorecard_decision_None [of i]
  by (auto simp: engine_outcome_def scorecard_policy_outcome_eq policy_violation_rationale_Nil
      review_rationale_Nil split: option.split)

section \<open>Properties\<close>


text \<open>A response is consistent with itself and with its input: an analysis job is requested
  exactly for a quarantine, a fallback coordinate is present exactly for a fallback decision and
  is then the candidate of the input, the rationale is never empty, and the identity, mode and
  feed fields are those of the input.\<close>

lemma engine_response_consistent:
  "(rs_create_analysis_job (evaluate i) \<longleftrightarrow> rs_decision (evaluate i) = QuarantinePendingAnalysis)
   \<and> (rs_decision (evaluate i) = FallbackToApprovedCandidate \<longleftrightarrow> rs_fallback_coordinate (evaluate i) \<noteq> None)
   \<and> (rs_fallback_coordinate (evaluate i) = None \<or> rs_fallback_coordinate (evaluate i) = pi_fallback_candidate i)
   \<and> rs_rationale (evaluate i) \<noteq> []
   \<and> rs_tenant_id (evaluate i) = pi_tenant_id i \<and> rs_policy_profile_id (evaluate i) = pi_policy_profile_id i
   \<and> rs_policy_snapshot_id (evaluate i) = pi_policy_snapshot_id i \<and> rs_mode (evaluate i) = pi_mode i
   \<and> rs_trace_id (evaluate i) = pi_trace_id i \<and> rs_feed_state (evaluate i) = pi_feed_state i
   \<and> rs_feed_snapshot_age_seconds (evaluate i) = pi_feed_snapshot_age_seconds i"
  using engine_outcome_job [of i] engine_outcome_fallback [of i] engine_outcome_fallback_Some [of i]
    engine_outcome_rationale [of i] by auto

text \<open>The Scorecard pass decides by the strictest action among the checks that are at risk
  (block over human approval over warn, allow never counting) and records the message of each
  such check, in table order, after what was recorded before.\<close>

lemma scorecard_strictest_action:
  "scorecard_policy_outcome i rationale =
     (if SignalBlock \<in> active_actions i then Some BlockPolicyViolation
      else if SignalHitl \<in> active_actions i then Some RequireHitlApproval
      else if SignalWarn \<in> active_actions i then Some AllowWithWarning else None,
      rationale @ map (\<lambda>(risk, action, message). message) (active_checks i))
   \<and> ((SignalBlock \<notin> active_actions i \<and> SignalHitl \<notin> active_actions i \<and> SignalWarn \<notin> active_actions i)
        = (active_checks i = []))"
proof
  show "(SignalBlock \<notin> active_actions i \<and> SignalHitl \<notin> active_actions i \<and> SignalWarn \<notin> active_actions i)
        = (active_checks i = [])"
    using scorecard_decision_None [of i] by (simp add: scorecard_decision_def split: if_splits)
qed (simp add: scorecard_policy_outcome_eq scorecard_decision_def)

text \<open>The vulnerability rule masks the Scorecard rules. When no earlier rule applies and a
  Scorecard check at risk is configured to block, the artifact is blocked; the same artifact
  with, in addition, a vulnerability above a threshold whose action is warn is allowed with a
  warning. The additional risk weakens the decision.\<close>

lemma vulnerability_masks_scorecard_block:
  assumes "\<not> pi_active_override i" "\<not> pi_emergency_bypass i" "\<not> pi_known_malicious i"
    "\<not> pi_known_safe_verdict i" "\<not> policy_violation_signal i" "\<not> pi_hitl_required i"
    "\<not> pi_fallback_eligible i" "\<not> pi_unknown_artifact i"
    "pi_vulnerable_above_threshold_action i = VulnWarn" "SignalBlock \<in> active_actions i"
  shows "rs_decision (evaluate (i\<lparr>pi_vulnerable_above_threshold := False\<rparr>)) = BlockPolicyViolation
    \<and> rs_decision (evaluate (i\<lparr>pi_vulnerable_above_threshold := True\<rparr>)) = AllowWithWarning"
proof -
  have "active_actions (i\<lparr>pi_vulnerable_above_threshold := b\<rparr>) = active_actions i"
    and "policy_violation_signal (i\<lparr>pi_vulnerable_above_threshold := b\<rparr>) = policy_violation_signal i" for b
    by (simp_all add: active_actions_def active_checks_def scorecard_checks_def policy_violation_signal_def)
  with assms show ?thesis
    by (simp add: fst_engine_outcome decision_rules_def vulnerability_decision_def)
qed

definition quiet_input :: PolicyInput where
  "quiet_input =
     \<lparr>pi_tenant_id = 1, pi_policy_profile_id = 2, pi_policy_snapshot_id = 3,
      pi_coordinate = sample_coordinate, pi_trace_id = ''t'', pi_mode = ModeEnforce,
      pi_known_safe_verdict = False, pi_known_malicious = False, pi_vulnerable_above_threshold = False,
      pi_vulnerable_above_threshold_action = VulnWarn, pi_minimum_release_age_violation = False,
      pi_install_script_detected = False, pi_dependency_confusion_risk = False, pi_typosquat_risk = False,
      pi_artifact_digest_reputation_risk = False, pi_cross_ecosystem_ioc_correlation_risk = False,
      pi_static_analysis_score_violation = False, pi_dynamic_sandbox_policy_violation = False,
      pi_github_to_registry_publish_gap_risk = False, pi_trusted_publisher_identity_mismatch = False,
      pi_scorecard_code_review_risk = False, pi_scorecard_branch_protection_risk = False,
      pi_scorecard_ci_cd_risk = False, pi_scorecard_maintained_risk = False,
      pi_scorecard_signed_releases_risk = True, pi_scorecard_code_review_action = SignalWarn,
      pi_scorecard_branch_protection_action = SignalWarn, pi_scorecard_ci_cd_action = SignalWarn,
      pi_scorecard_maintained_action = SignalWarn, pi_scorecard_signed_releases_action = SignalBlock,
      pi_provenance_or_signature_verification_failed = False, pi_missing_or_failed_attestation = False,
      pi_ai_agent_injection_indicator = False, pi_maintainer_account_age_risk = False,
      pi_recent_maintainer_change_risk = False, pi_new_maintainer_ratio_risk = False,
      pi_unknown_artifact = False, pi_hitl_required = False, pi_active_override = False,
      pi_emergency_bypass = False, pi_fallback_eligible = False, pi_fallback_candidate = None,
      pi_feed_state = Fresh, pi_feed_snapshot_age_seconds = 0\<rparr>"

lemma vulnerability_masks_scorecard_block_witness:
  "rs_decision (evaluate (quiet_input\<lparr>pi_vulnerable_above_threshold := False\<rparr>)) = BlockPolicyViolation
   \<and> rs_decision (evaluate (quiet_input\<lparr>pi_vulnerable_above_threshold := True\<rparr>)) = AllowWithWarning"
  by (rule vulnerability_masks_scorecard_block)
    (simp_all add: quiet_input_def policy_violation_signal_def active_actions_def active_checks_def
      scorecard_checks_def)

end
