(* ===== verification/Signals.thy ===== *)
theory Signals
  imports Policy_Engine
begin

text \<open>
  How the Triage Counter turns stored evidence into policy signals: the free functions and the
  configuration types of \<^verbatim>\<open>services/triage-counter/src/repository.rs\<close>. Policy documents,
  vulnerability thresholds, attestation, static-analysis and sandbox evidence, behavioural
  fingerprints, indicator candidates, Scorecard checks, feed snapshots and overrides.

  A \<^verbatim>\<open>BTreeSet\<close> of strings is the sorted list of its elements (byte order); a
  \<^verbatim>\<open>HashSet\<close> whose iteration order is never observed is the list of its elements in
  insertion order. The derived serde reader of a policy document is a parameter of the
  repository; here the document is already read.
\<close>

section \<open>Policy configuration\<close>

datatype VulnerabilitySeverity = VSLow | VSMedium | VSHigh | VSCritical

fun severity_rank :: "VulnerabilitySeverity \<Rightarrow> nat" where
  "severity_rank VSLow = 0"
| "severity_rank VSMedium = 1"
| "severity_rank VSHigh = 2"
| "severity_rank VSCritical = 3"

text \<open>The derived \<^verbatim>\<open>Ord\<close>: the order of the constructors.\<close>

instantiation VulnerabilitySeverity :: linorder
begin

definition less_eq_VulnerabilitySeverity :: "VulnerabilitySeverity \<Rightarrow> VulnerabilitySeverity \<Rightarrow> bool" where
  "less_eq_VulnerabilitySeverity a b = (severity_rank a \<le> severity_rank b)"

definition less_VulnerabilitySeverity :: "VulnerabilitySeverity \<Rightarrow> VulnerabilitySeverity \<Rightarrow> bool" where
  "less_VulnerabilitySeverity a b = (severity_rank a < severity_rank b)"

instance
proof
  fix a b :: VulnerabilitySeverity
  show "a \<le> b \<Longrightarrow> b \<le> a \<Longrightarrow> a = b"
    by (cases a; cases b) (simp_all add: less_eq_VulnerabilitySeverity_def)
qed (auto simp: less_eq_VulnerabilitySeverity_def less_VulnerabilitySeverity_def)

end

definition severity_from_db :: "string \<Rightarrow> VulnerabilitySeverity option" where
  "severity_from_db value =
     (let v = to_ascii_lowercase value in
      if v = ''low'' then Some VSLow
      else if v = ''medium'' then Some VSMedium
      else if v = ''high'' then Some VSHigh
      else if v = ''critical'' then Some VSCritical
      else None)"

record KnownVulnerabilityThreshold =
  kt_severity_floor :: VulnerabilitySeverity
  kt_kev_override :: bool
  kt_epss_probability_floor :: "f64 option"

definition default_threshold :: KnownVulnerabilityThreshold where
  "default_threshold =
     \<lparr>kt_severity_floor = VSHigh, kt_kev_override = True, kt_epss_probability_floor = None\<rparr>"

record ScorecardCheckPolicy =
  sc_min_score :: f64
  sc_action :: SignalPolicyAction

definition default_check_policy :: ScorecardCheckPolicy where
  "default_check_policy = \<lparr>sc_min_score = 10, sc_action = SignalWarn\<rparr>"

record ScorecardPolicyConfiguration =
  sp_code_review :: ScorecardCheckPolicy
  sp_branch_protection :: ScorecardCheckPolicy
  sp_ci_cd :: ScorecardCheckPolicy
  sp_maintained :: ScorecardCheckPolicy
  sp_signed_releases :: ScorecardCheckPolicy

definition default_scorecard :: ScorecardPolicyConfiguration where
  "default_scorecard =
     \<lparr>sp_code_review = default_check_policy, sp_branch_protection = default_check_policy,
      sp_ci_cd = default_check_policy, sp_maintained = default_check_policy,
      sp_signed_releases = default_check_policy\<rparr>"

record PolicySignalConfiguration =
  pg_known_vulnerability_threshold :: KnownVulnerabilityThreshold
  pg_vulnerable_above_threshold_action :: VulnerabilityPolicyAction
  pg_scorecard :: ScorecardPolicyConfiguration

definition default_signal_configuration :: PolicySignalConfiguration where
  "default_signal_configuration =
     \<lparr>pg_known_vulnerability_threshold = default_threshold,
      pg_vulnerable_above_threshold_action = VulnWarn, pg_scorecard = default_scorecard\<rparr>"

section \<open>Errors of the policy repository\<close>

text \<open>The payloads of the wrapped library errors (serde, sqlx) are their display strings.\<close>

datatype PolicyRepositoryError =
    ProfileNotFound
  | SnapshotNotFound
  | InvalidPolicyMode
  | RegistryConfigNotFound
  | InconsistentDecisionRequest
  | RegistryPolicyMismatch
  | InvalidPolicyDocument string
  | InvalidSnapshotHash DigestError
  | InconsistentDecisionResponse
  | InvalidFeedSnapshotAge
  | MissingArtifactDigestForAnalysisJob
  | MissingArtifactSourceUrlForAnalysisJob
  | UnsupportedPolicyRuleAction string string
  | Database string

section \<open>Policy documents\<close>

datatype PolicyDocumentRuleAction =
    RuleAllow | RuleWarn | RuleQuarantine | RuleBlock | RuleHitl | RuleFallback

fun rule_action_as_str :: "PolicyDocumentRuleAction \<Rightarrow> string" where
  "rule_action_as_str RuleAllow = ''allow''"
| "rule_action_as_str RuleWarn = ''warn''"
| "rule_action_as_str RuleQuarantine = ''quarantine''"
| "rule_action_as_str RuleBlock = ''block''"
| "rule_action_as_str RuleHitl = ''hitl''"
| "rule_action_as_str RuleFallback = ''fallback''"

record PolicyDocumentRule =
  pr_signal :: string
  pr_action :: PolicyDocumentRuleAction
  pr_enabled :: bool

record PolicyDocumentScorecardThresholds =
  pt_code_review :: f64
  pt_branch_protection :: f64
  pt_ci_cd :: f64
  pt_maintained :: f64
  pt_signed_releases :: f64

record PolicyDocumentSignalConfiguration =
  pd_known_vulnerability_threshold :: KnownVulnerabilityThreshold
  pd_scorecard_thresholds :: PolicyDocumentScorecardThresholds
  pd_rules :: "PolicyDocumentRule list"

definition scorecard_action_from_document_rules ::
  "PolicyDocumentRule list \<Rightarrow> string \<Rightarrow> (PolicyRepositoryError, SignalPolicyAction) result" where
  "scorecard_action_from_document_rules rules signal =
     (case find (\<lambda>rule. pr_signal rule = signal) (rev rules) of
        None \<Rightarrow> Inr SignalAllow
      | Some rule \<Rightarrow>
          if \<not> pr_enabled rule then Inr SignalAllow
          else (case pr_action rule of
                  RuleAllow \<Rightarrow> Inr SignalAllow
                | RuleWarn \<Rightarrow> Inr SignalWarn
                | RuleBlock \<Rightarrow> Inr SignalBlock
                | RuleHitl \<Rightarrow> Inr SignalHitl
                | action \<Rightarrow> Inl (UnsupportedPolicyRuleAction signal (rule_action_as_str action))))"

definition vulnerability_action_from_document_rules ::
  "PolicyDocumentRule list \<Rightarrow> (PolicyRepositoryError, VulnerabilityPolicyAction) result" where
  "vulnerability_action_from_document_rules rules =
     (case find (\<lambda>rule. pr_enabled rule \<and> pr_signal rule = ''vulnerable_above_threshold'') (rev rules) of
        None \<Rightarrow> Inr VulnWarn
      | Some rule \<Rightarrow>
          (case pr_action rule of
             RuleWarn \<Rightarrow> Inr VulnWarn
           | RuleBlock \<Rightarrow> Inr VulnBlock
           | action \<Rightarrow> Inl (UnsupportedPolicyRuleAction (pr_signal rule) (rule_action_as_str action))))"

definition policy_signal_configuration_from_document ::
  "(json \<Rightarrow> (string, PolicyDocumentSignalConfiguration) result) \<Rightarrow> json
     \<Rightarrow> (PolicyRepositoryError, PolicySignalConfiguration) result" where
  "policy_signal_configuration_from_document from_value document =
     res_bind (map_err InvalidPolicyDocument (from_value document)) (\<lambda>parsed.
     res_bind (vulnerability_action_from_document_rules (pd_rules parsed)) (\<lambda>vulnerable_action.
     res_bind (scorecard_action_from_document_rules (pd_rules parsed) ''scorecard_code_review_risk'') (\<lambda>a1.
     res_bind (scorecard_action_from_document_rules (pd_rules parsed) ''scorecard_branch_protection_risk'') (\<lambda>a2.
     res_bind (scorecard_action_from_document_rules (pd_rules parsed) ''scorecard_ci_cd_risk'') (\<lambda>a3.
     res_bind (scorecard_action_from_document_rules (pd_rules parsed) ''scorecard_maintained_risk'') (\<lambda>a4.
     res_bind (scorecard_action_from_document_rules (pd_rules parsed) ''scorecard_signed_releases_risk'') (\<lambda>a5.
       let th = pd_scorecard_thresholds parsed in
       Inr \<lparr>pg_known_vulnerability_threshold = pd_known_vulnerability_threshold parsed,
            pg_vulnerable_above_threshold_action = vulnerable_action,
            pg_scorecard =
              \<lparr>sp_code_review = \<lparr>sc_min_score = pt_code_review th, sc_action = a1\<rparr>,
               sp_branch_protection = \<lparr>sc_min_score = pt_branch_protection th, sc_action = a2\<rparr>,
               sp_ci_cd = \<lparr>sc_min_score = pt_ci_cd th, sc_action = a3\<rparr>,
               sp_maintained = \<lparr>sc_min_score = pt_maintained th, sc_action = a4\<rparr>,
               sp_signed_releases = \<lparr>sc_min_score = pt_signed_releases th, sc_action = a5\<rparr>\<rparr>\<rparr>)))))))"

section \<open>Vulnerabilities and attestations\<close>

record VulnerabilityMatchRecord =
  vm_advisory_id :: string
  vm_severity :: "VulnerabilitySeverity option"
  vm_epss_probability :: "f64 option"
  vm_cisa_kev :: bool

definition vulnerability_match_exceeds_threshold ::
  "VulnerabilityMatchRecord \<Rightarrow> KnownVulnerabilityThreshold \<Rightarrow> bool" where
  "vulnerability_match_exceeds_threshold m t =
     (if kt_kev_override t \<and> vm_cisa_kev m then True
      else if (case (kt_epss_probability_floor t, vm_epss_probability m) of
                 (Some epss_floor, Some epss) \<Rightarrow> epss \<ge> epss_floor | _ \<Rightarrow> False) then True
      else is_some_and (\<lambda>severity. severity \<ge> kt_severity_floor t) (vm_severity m))"

definition attestation_result_from_db :: "string \<Rightarrow> AttestationResult option" where
  "attestation_result_from_db value =
     (let v = to_ascii_lowercase value in
      if v = ''pass'' then Some AttPass
      else if v = ''fail'' then Some AttFail
      else if v = ''missing'' then Some AttMissing
      else if v = ''unverifiable'' then Some AttUnverifiable
      else None)"

record AttestationSignalStatus =
  at_missing_or_failed :: bool
  at_provenance_or_signature_failed :: bool

definition attestation_signal_status_from_records ::
  "(string \<times> string \<times> AttestationResult) list \<Rightarrow> AttestationSignalStatus" where
  "attestation_signal_status_from_records records =
     \<lparr>at_missing_or_failed =
        list_ex (\<lambda>(_, _, result). result \<in> {AttFail, AttMissing, AttUnverifiable}) records,
      at_provenance_or_signature_failed =
        list_ex (\<lambda>(attestation_type, predicate_type, result).
          result \<in> {AttFail, AttMissing, AttUnverifiable}
          \<and> (str_contains ''signature'' attestation_type \<or> str_contains ''provenance'' attestation_type
               \<or> str_contains ''provenance'' predicate_type)) records\<rparr>"

section \<open>Static and sandbox evidence\<close>

definition static_report_has_ai_agent_injection :: "StaticEvidence \<Rightarrow> bool" where
  "static_report_has_ai_agent_injection report =
     list_ex (\<lambda>i. si_indicator_type i = ''ai-agent-injection'') (se_indicators report)"

definition static_report_exceeds_policy_threshold :: "StaticEvidence \<Rightarrow> bool" where
  "static_report_exceeds_policy_threshold report =
     list_ex (\<lambda>i. si_severity i = SevHigh \<or> si_severity i = SevCritical) (se_indicators report)"

definition sandbox_telemetry_phases :: "json \<Rightarrow> json list" where
  "sandbox_telemetry_phases telemetry =
     (case get_array ''phases'' telemetry of
        Some phases \<Rightarrow> phases
      | None \<Rightarrow> unwrap_or [] (as_array telemetry))"

definition sandbox_event_exceeds_policy_threshold :: "json \<Rightarrow> bool" where
  "sandbox_event_exceeds_policy_threshold event =
     (case (get_str ''type'' event, get_str ''severity'' event) of
        (Some t, Some s) \<Rightarrow>
          (t = ''canary-secret-access'' \<and> s = ''critical'')
          \<or> (t = ''ai-canary-file-modified'' \<and> s = ''critical'')
          \<or> (t = ''outbound-network-attempt'' \<and> (s = ''high'' \<or> s = ''critical''))
      | _ \<Rightarrow> False)"

definition sandbox_run_exceeds_policy_threshold :: "json \<Rightarrow> bool" where
  "sandbox_run_exceeds_policy_threshold telemetry =
     list_ex (\<lambda>phase.
       if get_str ''phase'' phase \<in> {Some ''D'', Some ''E'', Some ''G''}
       then is_some_and (list_ex sandbox_event_exceeds_policy_threshold) (get_array ''events'' phase)
       else False) (sandbox_telemetry_phases telemetry)"

section \<open>Behavioural fingerprints and indicator candidates\<close>

definition static_indicator_behavioral_fingerprint_component :: "string \<Rightarrow> string option" where
  "static_indicator_behavioral_fingerprint_component t =
     (if t \<in> {''node-outbound-http'', ''python-outbound-http'', ''java-outbound-http'',
              ''python-import-time-network'', ''rust-raw-network''} then Some ''network_access''
      else if t \<in> {''node-child-process'', ''python-subprocess'', ''shell-exec-sync''}
      then Some ''exec_binary''
      else None)"

definition static_behavioral_fingerprint_components :: "StaticEvidence \<Rightarrow> string list" where
  "static_behavioral_fingerprint_components report =
     btree_set (List.map_filter
       (\<lambda>i. static_indicator_behavioral_fingerprint_component (si_indicator_type i))
       (se_indicators report))"

definition sandbox_event_behavioral_fingerprint_component :: "string \<Rightarrow> string option" where
  "sandbox_event_behavioral_fingerprint_component t =
     (if t = ''outbound-network-attempt'' then Some ''network_access'' else None)"

text \<open>The events of all phases, phases without an array of events being skipped.\<close>

definition telemetry_events :: "json \<Rightarrow> json list" where
  "telemetry_events telemetry =
     concat (map (\<lambda>phase. unwrap_or [] (get_array ''events'' phase)) (sandbox_telemetry_phases telemetry))"

definition sandbox_behavioral_fingerprint_components :: "json \<Rightarrow> string list" where
  "sandbox_behavioral_fingerprint_components telemetry =
     btree_set (List.map_filter
       (\<lambda>event. Option.bind (get_str ''type'' event) sandbox_event_behavioral_fingerprint_component)
       (telemetry_events telemetry))"

definition combined_behavioral_fingerprint_candidates ::
  "string list list \<Rightarrow> string list list \<Rightarrow> string list" where
  "combined_behavioral_fingerprint_candidates static_sets sandbox_sets =
     btree_set (concat (map (\<lambda>static.
       List.map_filter (\<lambda>sandbox.
         let combined = btree_set (static @ sandbox) in
         if combined \<noteq> [] then Some (str_join ''|'' combined) else None) sandbox_sets) static_sets))"

text \<open>The (at most three) candidates one event contributes.\<close>

definition event_destination_candidates :: "json \<Rightarrow> (string \<times> string) list" where
  "event_destination_candidates event =
     (if get_str ''type'' event \<noteq> Some ''outbound-network-attempt'' then []
      else
        (case get_str ''destination_url'' event of
           None \<Rightarrow> []
         | Some url \<Rightarrow> let t = str_trim url in if t \<noteq> [] then [(''url'', t)] else [])
        @ (case get_str ''destination_ip'' event of
             None \<Rightarrow> []
           | Some ip \<Rightarrow> let t = str_trim ip in if t \<noteq> [] then [(''ip'', t)] else [])
        @ (case get_str ''destination_host'' event of
             None \<Rightarrow> []
           | Some host \<Rightarrow>
               let t = to_ascii_lowercase (str_trim host) in
               if t \<noteq> [] \<and> t \<noteq> ''localhost''
                  \<and> \<not> list_all (\<lambda>c. is_ascii_digit c \<or> c = CHR ''.'' \<or> c = CHR '':'') t
               then [(''domain'', t)] else []))"

definition sandbox_destination_ioc_candidates :: "json \<Rightarrow> (string \<times> string) list" where
  "sandbox_destination_ioc_candidates telemetry =
     remdups (concat (map event_destination_candidates (telemetry_events telemetry)))"

section \<open>Package signals\<close>

record PackageSignalStatus =
  st_minimum_release_age_violation :: bool
  st_install_script_detected :: bool
  st_dependency_confusion_risk :: bool
  st_typosquat_risk :: bool
  st_artifact_digest_reputation_risk :: bool
  st_github_to_registry_publish_gap_risk :: bool
  st_trusted_publisher_identity_mismatch :: bool
  st_cross_ecosystem_ioc_correlation_risk :: bool
  st_scorecard_code_review_risk :: bool
  st_scorecard_branch_protection_risk :: bool
  st_scorecard_ci_cd_risk :: bool
  st_scorecard_maintained_risk :: bool
  st_scorecard_signed_releases_risk :: bool
  st_maintainer_account_age_risk :: bool
  st_recent_maintainer_change_risk :: bool
  st_new_maintainer_ratio_risk :: bool
  st_known_malicious :: bool

definition default_signal_status :: PackageSignalStatus where
  "default_signal_status =
     \<lparr>st_minimum_release_age_violation = False, st_install_script_detected = False,
      st_dependency_confusion_risk = False, st_typosquat_risk = False,
      st_artifact_digest_reputation_risk = False, st_github_to_registry_publish_gap_risk = False,
      st_trusted_publisher_identity_mismatch = False, st_cross_ecosystem_ioc_correlation_risk = False,
      st_scorecard_code_review_risk = False, st_scorecard_branch_protection_risk = False,
      st_scorecard_ci_cd_risk = False, st_scorecard_maintained_risk = False,
      st_scorecard_signed_releases_risk = False, st_maintainer_account_age_risk = False,
      st_recent_maintainer_change_risk = False, st_new_maintainer_ratio_risk = False,
      st_known_malicious = False\<rparr>"

definition apply_signal :: "string \<Rightarrow> PackageSignalStatus \<Rightarrow> PackageSignalStatus" where
  "apply_signal signal s =
     (if signal = ''minimum-release-age-violation'' then s\<lparr>st_minimum_release_age_violation := True\<rparr>
      else if signal = ''install-script-detected'' then s\<lparr>st_install_script_detected := True\<rparr>
      else if signal = ''dependency-confusion-risk'' then s\<lparr>st_dependency_confusion_risk := True\<rparr>
      else if signal = ''typosquat-risk'' then s\<lparr>st_typosquat_risk := True\<rparr>
      else if signal = ''artifact-digest-reputation-risk'' then s\<lparr>st_artifact_digest_reputation_risk := True\<rparr>
      else if signal = ''github-to-registry-publish-gap-risk''
      then s\<lparr>st_github_to_registry_publish_gap_risk := True\<rparr>
      else if signal = ''trusted-publisher-identity-mismatch''
      then s\<lparr>st_trusted_publisher_identity_mismatch := True\<rparr>
      else if signal = ''cross-ecosystem-ioc-correlation-risk''
      then s\<lparr>st_cross_ecosystem_ioc_correlation_risk := True\<rparr>
      else if signal = ''maintainer-account-age-risk'' then s\<lparr>st_maintainer_account_age_risk := True\<rparr>
      else if signal = ''recent-maintainer-change-risk'' then s\<lparr>st_recent_maintainer_change_risk := True\<rparr>
      else if signal = ''new-maintainer-ratio-risk'' then s\<lparr>st_new_maintainer_ratio_risk := True\<rparr>
      else if signal = ''known-malicious'' then s\<lparr>st_known_malicious := True\<rparr>
      else s)"

definition package_signal_status_from_signals :: "string list \<Rightarrow> PackageSignalStatus" where
  "package_signal_status_from_signals signals = fold apply_signal signals default_signal_status"

record ScorecardSignalStatus =
  ss_code_review_risk :: bool
  ss_branch_protection_risk :: bool
  ss_ci_cd_risk :: bool
  ss_maintained_risk :: bool
  ss_signed_releases_risk :: bool

definition default_scorecard_status :: ScorecardSignalStatus where
  "default_scorecard_status =
     \<lparr>ss_code_review_risk = False, ss_branch_protection_risk = False, ss_ci_cd_risk = False,
      ss_maintained_risk = False, ss_signed_releases_risk = False\<rparr>"

definition merge_scorecard_signal_status ::
  "PackageSignalStatus \<Rightarrow> ScorecardSignalStatus \<Rightarrow> PackageSignalStatus" where
  "merge_scorecard_signal_status s c =
     s\<lparr>st_scorecard_code_review_risk := st_scorecard_code_review_risk s \<or> ss_code_review_risk c,
       st_scorecard_branch_protection_risk := st_scorecard_branch_protection_risk s \<or> ss_branch_protection_risk c,
       st_scorecard_ci_cd_risk := st_scorecard_ci_cd_risk s \<or> ss_ci_cd_risk c,
       st_scorecard_maintained_risk := st_scorecard_maintained_risk s \<or> ss_maintained_risk c,
       st_scorecard_signed_releases_risk := st_scorecard_signed_releases_risk s \<or> ss_signed_releases_risk c\<rparr>"

definition apply_check ::
  "ScorecardPolicyConfiguration \<Rightarrow> string \<times> f64 \<Rightarrow> ScorecardSignalStatus \<Rightarrow> ScorecardSignalStatus" where
  "apply_check p = (\<lambda>(check_name, score) s.
     let n = to_ascii_lowercase check_name in
     if n = ''code-review'' then s\<lparr>ss_code_review_risk := score < sc_min_score (sp_code_review p)\<rparr>
     else if n = ''branch-protection''
     then s\<lparr>ss_branch_protection_risk := score < sc_min_score (sp_branch_protection p)\<rparr>
     else if n = ''ci-tests'' then s\<lparr>ss_ci_cd_risk := score < sc_min_score (sp_ci_cd p)\<rparr>
     else if n = ''maintained'' then s\<lparr>ss_maintained_risk := score < sc_min_score (sp_maintained p)\<rparr>
     else if n = ''signed-releases''
     then s\<lparr>ss_signed_releases_risk := score < sc_min_score (sp_signed_releases p)\<rparr>
     else s)"

definition scorecard_signal_status_from_checks ::
  "(string \<times> f64) list \<Rightarrow> ScorecardPolicyConfiguration \<Rightarrow> ScorecardSignalStatus" where
  "scorecard_signal_status_from_checks checks p = fold (apply_check p) checks default_scorecard_status"

definition strip_prefix_or :: "string \<Rightarrow> string \<Rightarrow> string" where
  "strip_prefix_or p s = unwrap_or s (strip_prefix p s)"

definition normalize_scorecard_repo_name :: "string \<Rightarrow> string option" where
  "normalize_scorecard_repo_name raw =
     (let t0 = str_trim raw in
      if t0 = [] then None
      else
        let t1 = trim_end_matches CHR ''/'' t0;
            t2 = unwrap_or t1 (strip_suffix ''.git'' t1);
            t3 = strip_prefix_or ''https://'' t2;
            t4 = strip_prefix_or ''http://'' t3;
            t5 = strip_prefix_or ''www.'' t4;
            t6 = strip_prefix_or ''git+'' t5;
            t7 = strip_prefix_or ''https://'' t6;
            t8 = strip_prefix_or ''http://'' t7;
            t9 = strip_prefix_or ''www.'' t8
        in Option.bind (strip_prefix ''github.com/'' t9) (\<lambda>path.
             case filter (\<lambda>segment. segment \<noteq> []) (split_on CHR ''/'' path) of
               owner # repo # _ \<Rightarrow> Some (''github.com/'' @ owner @ ''/'' @ repo)
             | _ \<Rightarrow> None))"

definition scorecard_repo_name_from_project_links :: "json list \<Rightarrow> string option" where
  "scorecard_repo_name_from_project_links links =
     find_map normalize_scorecard_repo_name
       (List.map_filter (\<lambda>link. get_str ''url'' link)
         (filter (\<lambda>link. is_none_or (\<lambda>t. t = ''SOURCE_REPO'') (get_str ''type'' link)) links))"

section \<open>Feed snapshots\<close>

definition MVP_FEED_NAMES :: "string list" where
  "MVP_FEED_NAMES =
     [''osv'', ''ghsa'', ''openssf-malicious-packages'', ''openssf-package-analysis'',
      ''cisa-kev'', ''first-epss'', ''deps.dev'', ''openssf-scorecard'']"

definition FRESH_FEED_MAX_AGE_SECONDS :: nat where
  "FRESH_FEED_MAX_AGE_SECONDS = 24 * 60 * 60"

record FeedSnapshotRecord =
  fr_feed_name :: string
  fr_state :: FeedState
  fr_last_success_at :: "timestamp option"
  fr_created_at :: timestamp

record FeedSnapshotStatus =
  fs_state :: FeedState
  fs_age_seconds :: nat

text \<open>\<^verbatim>\<open>signed_duration_since(t).num_seconds().max(0)\<close>: whole seconds, rounded towards zero.\<close>

definition elapsed_seconds :: "timestamp \<Rightarrow> timestamp \<Rightarrow> nat" where
  "elapsed_seconds now t = nat (max 0 ((now - t) sdiv 1000000000))"

fun merge_feed_state :: "FeedState \<Rightarrow> FeedState \<Rightarrow> FeedState" where
  "merge_feed_state _ Unavailable = Unavailable"
| "merge_feed_state Unavailable _ = Unavailable"
| "merge_feed_state _ Degraded = Degraded"
| "merge_feed_state Degraded _ = Degraded"
| "merge_feed_state _ Stale = Stale"
| "merge_feed_state Stale _ = Stale"
| "merge_feed_state _ _ = Fresh"

definition feed_record_age :: "timestamp \<Rightarrow> FeedSnapshotRecord \<Rightarrow> nat" where
  "feed_record_age now r = elapsed_seconds now (unwrap_or (fr_created_at r) (fr_last_success_at r))"

fun feed_loop :: "FeedSnapshotRecord list \<Rightarrow> timestamp \<Rightarrow> FeedState \<Rightarrow> nat \<Rightarrow> FeedState \<times> nat" where
  "feed_loop [] now state max_age = (state, max_age)"
| "feed_loop (r # rs) now state max_age =
     feed_loop rs now (merge_feed_state state (fr_state r)) (max max_age (feed_record_age now r))"

definition feed_snapshot_status_from_records ::
  "FeedSnapshotRecord list \<Rightarrow> timestamp \<Rightarrow> FeedSnapshotStatus" where
  "feed_snapshot_status_from_records records now =
     (if length records < length MVP_FEED_NAMES
      then \<lparr>fs_state = Unavailable, fs_age_seconds = 0\<rparr>
      else (case feed_loop records now Fresh 0 of (state, max_age) \<Rightarrow>
        \<lparr>fs_state = (if state = Fresh \<and> max_age > FRESH_FEED_MAX_AGE_SECONDS then Stale else state),
         fs_age_seconds = max_age\<rparr>))"

section \<open>Overrides\<close>

record OverrideSignalStatus =
  os_active_override :: bool
  os_emergency_bypass :: bool
  os_hitl_required :: bool

record OverrideRecord =
  or_tenant_id :: uuid
  or_scope :: json
  or_status :: string
  or_expires_at :: timestamp

fun package_request_kind_db_value :: "PackageRequestKind \<Rightarrow> string" where
  "package_request_kind_db_value KindMetadata = ''metadata''"
| "package_request_kind_db_value KindArtifact = ''artifact''"

definition scope_str :: "json \<Rightarrow> string \<Rightarrow> string option" where
  "scope_str scope key = opt_filter (\<lambda>v. v \<noteq> []) (get_str key scope)"

definition scope_matches :: "json \<Rightarrow> string \<Rightarrow> string option \<Rightarrow> bool" where
  "scope_matches scope key actual =
     (case scope_str scope key of Some expected \<Rightarrow> actual = Some expected | None \<Rightarrow> True)"

definition override_scope_matches ::
  "json \<Rightarrow> PackageCoordinate \<Rightarrow> ArtifactDigest option \<Rightarrow> PackageRequestKind \<Rightarrow> bool" where
  "override_scope_matches scope coordinate artifact_digest kind =
     (scope_matches scope ''ecosystem'' (Some (ecosystem_display (pc_ecosystem coordinate)))
      \<and> scope_matches scope ''name'' (Some (pc_name coordinate))
      \<and> scope_matches scope ''namespace'' (pc_namespace coordinate)
      \<and> scope_matches scope ''version'' (pc_version coordinate)
      \<and> scope_matches scope ''digest'' (map_option dg_hex artifact_digest)
      \<and> scope_matches scope ''kind'' (Some (package_request_kind_db_value kind)))"

definition apply_override ::
  "PackageCoordinate \<Rightarrow> ArtifactDigest option \<Rightarrow> PackageRequestKind \<Rightarrow> OverrideRecord
     \<Rightarrow> OverrideSignalStatus \<Rightarrow> OverrideSignalStatus" where
  "apply_override coordinate artifact_digest kind r s =
     (if \<not> override_scope_matches (or_scope r) coordinate artifact_digest kind then s
      else if or_status r = ''pending'' then s\<lparr>os_hitl_required := True\<rparr>
      else if or_status r = ''approved'' then
        (if unwrap_or ''allow'' (scope_str (or_scope r) ''effect'') = ''emergency-bypass''
         then s\<lparr>os_emergency_bypass := True\<rparr> else s\<lparr>os_active_override := True\<rparr>)
      else s)"

definition override_signal_status_from_records ::
  "OverrideRecord list \<Rightarrow> PackageCoordinate \<Rightarrow> ArtifactDigest option \<Rightarrow> PackageRequestKind
     \<Rightarrow> OverrideSignalStatus" where
  "override_signal_status_from_records records coordinate artifact_digest kind =
     fold (apply_override coordinate artifact_digest kind) records
       \<lparr>os_active_override = False, os_emergency_bypass = False, os_hitl_required = False\<rparr>"

section \<open>Database values\<close>

fun client_type_for_request_kind :: "PackageRequestKind \<Rightarrow> string" where
  "client_type_for_request_kind KindMetadata = ''metadata''"
| "client_type_for_request_kind KindArtifact = ''artifact''"

fun policy_decision_db_value :: "PolicyDecision \<Rightarrow> string" where
  "policy_decision_db_value Allow = ''ALLOW''"
| "policy_decision_db_value AllowWithWarning = ''ALLOW_WITH_WARNING''"
| "policy_decision_db_value QuarantinePendingAnalysis = ''QUARANTINE_PENDING_ANALYSIS''"
| "policy_decision_db_value BlockKnownMalicious = ''BLOCK_KNOWN_MALICIOUS''"
| "policy_decision_db_value BlockPolicyViolation = ''BLOCK_POLICY_VIOLATION''"
| "policy_decision_db_value RequireHitlApproval = ''REQUIRE_HITL_APPROVAL''"
| "policy_decision_db_value FallbackToApprovedCandidate = ''FALLBACK_TO_APPROVED_CANDIDATE''"

fun feed_state_db_value :: "FeedState \<Rightarrow> string" where
  "feed_state_db_value Fresh = ''fresh''"
| "feed_state_db_value Stale = ''stale''"
| "feed_state_db_value Degraded = ''degraded''"
| "feed_state_db_value Unavailable = ''unavailable''"

definition feed_state_from_db :: "string \<Rightarrow> (PolicyRepositoryError, FeedState) result" where
  "feed_state_from_db value =
     (if value = ''fresh'' then Inr Fresh
      else if value = ''stale'' then Inr Stale
      else if value = ''degraded'' then Inr Degraded
      else if value = ''unavailable'' then Inr Unavailable
      else Inl (InvalidPolicyDocument ''invalid feed state''))"

definition policy_mode_from_db :: "string \<Rightarrow> (PolicyRepositoryError, PolicyMode) result" where
  "policy_mode_from_db value =
     (if value = ''shadow'' then Inr ModeShadow
      else if value = ''warn'' then Inr ModeWarn
      else if value = ''enforce'' then Inr ModeEnforce
      else Inl InvalidPolicyMode)"

section \<open>Lemmas\<close>

subsection \<open>Sorted sets\<close>

lemma btree_set_sorted [simp]: "sorted (btree_set xs)" "distinct (btree_set xs)" "set (btree_set xs) = set xs"
  by (simp_all add: btree_set_def)

lemma btree_set_Nil [simp]: "btree_set xs = [] \<longleftrightarrow> xs = []"
  by (metis btree_set_sorted(3) set_empty)

subsection \<open>The last rule for a signal decides\<close>

lemma find_rev_last: "find P (rev (xs @ [x])) = (if P x then Some x else find P (rev xs))"
  by simp

lemma find_rev_None: "find P (rev xs) = None \<longleftrightarrow> (\<forall>x \<in> set xs. \<not> P x)"
  by (auto simp: find_None_iff)

subsection \<open>Feed aggregation\<close>

fun feed_rank :: "FeedState \<Rightarrow> nat" where
  "feed_rank Fresh = 0"
| "feed_rank Stale = 1"
| "feed_rank Degraded = 2"
| "feed_rank Unavailable = 3"

lemma feed_rank_inj: "feed_rank a = feed_rank b \<longleftrightarrow> a = b"
  by (cases a; cases b) simp_all

lemma merge_feed_state_rank: "feed_rank (merge_feed_state a b) = max (feed_rank a) (feed_rank b)"
  by (cases a; cases b) simp_all

lemma feed_loop_eq:
  "feed_rank (fst (feed_loop rs now s m)) = fold max (map (feed_rank \<circ> fr_state) rs) (feed_rank s)"
  "snd (feed_loop rs now s m) = fold max (map (feed_record_age now) rs) m"
  by (induction rs now s m rule: feed_loop.induct) (simp_all add: merge_feed_state_rank max.commute)

lemma fold_max_eq_0: "fold max xs (acc::nat) = 0 \<longleftrightarrow> acc = 0 \<and> (\<forall>x \<in> set xs. x = 0)"
proof (induction xs arbitrary: acc)
  case (Cons x xs)
  have "fold max xs (max x acc) = 0 \<longleftrightarrow> max x acc = 0 \<and> (\<forall>y \<in> set xs. y = 0)" by (rule Cons.IH)
  moreover have "max x acc = 0 \<longleftrightarrow> acc = 0 \<and> x = 0" by arith
  ultimately show ?case by auto
qed simp

lemma fold_max_le: "fold max xs (acc::nat) \<le> b \<longleftrightarrow> acc \<le> b \<and> (\<forall>x \<in> set xs. x \<le> b)"
proof (induction xs arbitrary: acc)
  case (Cons x xs)
  have "fold max xs (max x acc) \<le> b \<longleftrightarrow> max x acc \<le> b \<and> (\<forall>y \<in> set xs. y \<le> b)" by (rule Cons.IH)
  then show ?case by auto
qed simp

subsection \<open>Signals and overrides as memberships\<close>

lemma apply_signal_fields:
  "st_known_malicious (apply_signal g s) \<longleftrightarrow> st_known_malicious s \<or> g = ''known-malicious''"
  "st_typosquat_risk (apply_signal g s) \<longleftrightarrow> st_typosquat_risk s \<or> g = ''typosquat-risk''"
  "st_dependency_confusion_risk (apply_signal g s)
     \<longleftrightarrow> st_dependency_confusion_risk s \<or> g = ''dependency-confusion-risk''"
  "st_install_script_detected (apply_signal g s)
     \<longleftrightarrow> st_install_script_detected s \<or> g = ''install-script-detected''"
  "st_minimum_release_age_violation (apply_signal g s)
     \<longleftrightarrow> st_minimum_release_age_violation s \<or> g = ''minimum-release-age-violation''"
  "st_artifact_digest_reputation_risk (apply_signal g s)
     \<longleftrightarrow> st_artifact_digest_reputation_risk s \<or> g = ''artifact-digest-reputation-risk''"
  "st_github_to_registry_publish_gap_risk (apply_signal g s)
     \<longleftrightarrow> st_github_to_registry_publish_gap_risk s \<or> g = ''github-to-registry-publish-gap-risk''"
  "st_trusted_publisher_identity_mismatch (apply_signal g s)
     \<longleftrightarrow> st_trusted_publisher_identity_mismatch s \<or> g = ''trusted-publisher-identity-mismatch''"
  "st_cross_ecosystem_ioc_correlation_risk (apply_signal g s)
     \<longleftrightarrow> st_cross_ecosystem_ioc_correlation_risk s \<or> g = ''cross-ecosystem-ioc-correlation-risk''"
  "st_maintainer_account_age_risk (apply_signal g s)
     \<longleftrightarrow> st_maintainer_account_age_risk s \<or> g = ''maintainer-account-age-risk''"
  "st_recent_maintainer_change_risk (apply_signal g s)
     \<longleftrightarrow> st_recent_maintainer_change_risk s \<or> g = ''recent-maintainer-change-risk''"
  "st_new_maintainer_ratio_risk (apply_signal g s)
     \<longleftrightarrow> st_new_maintainer_ratio_risk s \<or> g = ''new-maintainer-ratio-risk''"
  "st_scorecard_code_review_risk (apply_signal g s) = st_scorecard_code_review_risk s"
  "st_scorecard_branch_protection_risk (apply_signal g s) = st_scorecard_branch_protection_risk s"
  "st_scorecard_ci_cd_risk (apply_signal g s) = st_scorecard_ci_cd_risk s"
  "st_scorecard_maintained_risk (apply_signal g s) = st_scorecard_maintained_risk s"
  "st_scorecard_signed_releases_risk (apply_signal g s) = st_scorecard_signed_releases_risk s"
  by (auto simp: apply_signal_def)

lemma fold_flag:
  assumes "\<And>x s. P (f x s) \<longleftrightarrow> P s \<or> Q x"
  shows "P (fold f xs s) \<longleftrightarrow> P s \<or> (\<exists>x \<in> set xs. Q x)"
  by (induction xs arbitrary: s) (auto simp: assms)

lemma fold_keeps:
  assumes "\<And>x s. g (f x s) = g s"
  shows "g (fold f xs s) = g s"
  by (induction xs arbitrary: s) (auto simp: assms)

lemma override_status_flags:
  "os_active_override (override_signal_status_from_records rs c d k) \<longleftrightarrow>
     (\<exists>r \<in> set rs. override_scope_matches (or_scope r) c d k \<and> or_status r = ''approved''
        \<and> scope_str (or_scope r) ''effect'' \<noteq> Some ''emergency-bypass'')"
  "os_emergency_bypass (override_signal_status_from_records rs c d k) \<longleftrightarrow>
     (\<exists>r \<in> set rs. override_scope_matches (or_scope r) c d k \<and> or_status r = ''approved''
        \<and> scope_str (or_scope r) ''effect'' = Some ''emergency-bypass'')"
  "os_hitl_required (override_signal_status_from_records rs c d k) \<longleftrightarrow>
     (\<exists>r \<in> set rs. override_scope_matches (or_scope r) c d k \<and> or_status r = ''pending'')"
proof -
  have eff: "unwrap_or ''allow'' x = ''emergency-bypass'' \<longleftrightarrow> x = Some ''emergency-bypass''" for x
    by (cases x) auto
  show "os_active_override (override_signal_status_from_records rs c d k) \<longleftrightarrow>
     (\<exists>r \<in> set rs. override_scope_matches (or_scope r) c d k \<and> or_status r = ''approved''
        \<and> scope_str (or_scope r) ''effect'' \<noteq> Some ''emergency-bypass'')"
    unfolding override_signal_status_from_records_def
    by (subst fold_flag [where P = os_active_override and Q = "\<lambda>r. override_scope_matches (or_scope r) c d k
        \<and> or_status r = ''approved'' \<and> scope_str (or_scope r) ''effect'' \<noteq> Some ''emergency-bypass''"])
      (auto simp: apply_override_def eff)
  show "os_emergency_bypass (override_signal_status_from_records rs c d k) \<longleftrightarrow>
     (\<exists>r \<in> set rs. override_scope_matches (or_scope r) c d k \<and> or_status r = ''approved''
        \<and> scope_str (or_scope r) ''effect'' = Some ''emergency-bypass'')"
    unfolding override_signal_status_from_records_def
    by (subst fold_flag [where P = os_emergency_bypass and Q = "\<lambda>r. override_scope_matches (or_scope r) c d k
        \<and> or_status r = ''approved'' \<and> scope_str (or_scope r) ''effect'' = Some ''emergency-bypass''"])
      (auto simp: apply_override_def eff)
  show "os_hitl_required (override_signal_status_from_records rs c d k) \<longleftrightarrow>
     (\<exists>r \<in> set rs. override_scope_matches (or_scope r) c d k \<and> or_status r = ''pending'')"
    unfolding override_signal_status_from_records_def
    by (subst fold_flag [where P = os_hitl_required and Q = "\<lambda>r. override_scope_matches (or_scope r) c d k
        \<and> or_status r = ''pending''"]) (auto simp: apply_override_def)
qed

section \<open>Properties\<close>

text \<open>The aggregated feed status. With fewer records than tracked feeds it is unavailable with
  age zero. Otherwise no record is worse than the reported state or older than the reported
  age, some record has that age, and the state is fresh exactly when every record is fresh and
  at most a day old.\<close>

lemma feed_status_is_worst_record:
  fixes now records
  defines "status \<equiv> feed_snapshot_status_from_records records now"
  shows "if length records < 8 then fs_state status = Unavailable \<and> fs_age_seconds status = 0
    else (\<forall>r \<in> set records. feed_rank (fr_state r) \<le> feed_rank (fs_state status)
             \<and> feed_record_age now r \<le> fs_age_seconds status)
       \<and> (\<exists>r \<in> set records. fs_age_seconds status = feed_record_age now r)
       \<and> (fs_state status = Fresh \<longleftrightarrow>
            (\<forall>r \<in> set records. fr_state r = Fresh \<and> feed_record_age now r \<le> 86400))"
proof (cases "length records < 8")
  case True
  then show ?thesis by (simp add: status_def feed_snapshot_status_from_records_def MVP_FEED_NAMES_def)
next
  case False
  obtain s m where sm: "feed_loop records now Fresh 0 = (s, m)" by fastforce
  have s: "feed_rank s = fold max (map (feed_rank \<circ> fr_state) records) 0"
    and m: "m = fold max (map (feed_record_age now) records) 0"
    using feed_loop_eq [of records now Fresh 0] by (simp_all add: sm)
  have st: "fs_state status = (if s = Fresh \<and> m > 86400 then Stale else s)" "fs_age_seconds status = m"
    using False by (simp_all add: status_def feed_snapshot_status_from_records_def MVP_FEED_NAMES_def sm
        FRESH_FEED_MAX_AGE_SECONDS_def)
  have rank: "feed_rank s \<le> feed_rank (fs_state status)" by (simp add: st)
  have 1: "feed_rank (fr_state r) \<le> feed_rank (fs_state status) \<and> feed_record_age now r \<le> m"
    if "r \<in> set records" for r
    using fold_max_upper [of "feed_rank (fr_state r)" "map (feed_rank \<circ> fr_state) records" 0]
      fold_max_upper [of "feed_record_age now r" "map (feed_record_age now) records" 0] that rank
    by (auto simp: s m)
  have 2: "\<exists>r \<in> set records. m = feed_record_age now r"
  proof -
    from False obtain r0 where r0: "r0 \<in> set records" by (cases records) auto
    have "m \<in> insert 0 (set (map (feed_record_age now) records))" unfolding m by (rule fold_max_in)
    then show ?thesis using 1 [OF r0] r0 by auto
  qed
  have "s = Fresh \<longleftrightarrow> feed_rank s = 0" by (cases s) simp_all
  also have "\<dots> \<longleftrightarrow> (\<forall>r \<in> set records. feed_rank (fr_state r) = 0)"
    unfolding s by (simp add: fold_max_eq_0)
  also have "\<dots> \<longleftrightarrow> (\<forall>r \<in> set records. fr_state r = Fresh)"
    using feed_rank_inj [of _ Fresh] by simp
  finally have "s = Fresh \<longleftrightarrow> (\<forall>r \<in> set records. fr_state r = Fresh)" .
  moreover have "m \<le> 86400 \<longleftrightarrow> (\<forall>r \<in> set records. feed_record_age now r \<le> 86400)"
    by (simp add: m fold_max_le)
  ultimately have 3: "fs_state status = Fresh \<longleftrightarrow>
      (\<forall>r \<in> set records. fr_state r = Fresh \<and> feed_record_age now r \<le> 86400)"
    by (auto simp: st)
  from False 1 2 3 show ?thesis by (simp add: st(2))
qed

definition sample_feeds :: "FeedSnapshotRecord list" where
  "sample_feeds = map (\<lambda>n. \<lparr>fr_feed_name = n, fr_state = Fresh, fr_last_success_at = Some 0,
     fr_created_at = 0\<rparr>) MVP_FEED_NAMES"

lemma feed_status_is_worst_record_witness:
  "fs_state (feed_snapshot_status_from_records sample_feeds 5000000000) = Fresh
   \<and> fs_state (feed_snapshot_status_from_records sample_feeds 90000000000000) \<noteq> Fresh"
proof -
  have "\<not> length sample_feeds < 8" by (simp add: sample_feeds_def MVP_FEED_NAMES_def)
  moreover have "\<forall>r \<in> set sample_feeds. fr_state r = Fresh \<and> feed_record_age 5000000000 r \<le> 86400"
    "\<exists>r \<in> set sample_feeds. \<not> feed_record_age 90000000000000 r \<le> 86400"
    by (simp_all add: sample_feeds_def MVP_FEED_NAMES_def feed_record_age_def elapsed_seconds_def signed_divide_int_def)
  ultimately show ?thesis
    using feed_status_is_worst_record [of sample_feeds 5000000000]
      feed_status_is_worst_record [of sample_feeds 90000000000000] by auto
qed

text \<open>For the Scorecard signals of a policy document the last rule that names the signal
  decides: without one, or if that rule is disabled, the signal is allowed; otherwise allow,
  warn, block and human approval are taken over and quarantine and fallback are errors naming
  the signal and the action.\<close>

lemma last_scorecard_rule_decides:
  "scorecard_action_from_document_rules [] signal = Inr SignalAllow
   \<and> scorecard_action_from_document_rules (rules @ [rule]) signal =
      (if pr_signal rule \<noteq> signal then scorecard_action_from_document_rules rules signal
       else if \<not> pr_enabled rule then Inr SignalAllow
       else (case pr_action rule of
               RuleAllow \<Rightarrow> Inr SignalAllow | RuleWarn \<Rightarrow> Inr SignalWarn
             | RuleBlock \<Rightarrow> Inr SignalBlock | RuleHitl \<Rightarrow> Inr SignalHitl
             | RuleQuarantine \<Rightarrow> Inl (UnsupportedPolicyRuleAction signal ''quarantine'')
             | RuleFallback \<Rightarrow> Inl (UnsupportedPolicyRuleAction signal ''fallback'')))"
  by (simp add: scorecard_action_from_document_rules_def split: PolicyDocumentRuleAction.split)

end
