(* ===== verification/Policy_Repository.thy ===== *)
theory Policy_Repository
  imports Signals
begin

text \<open>
  The policy repository of the Triage Counter, \<^verbatim>\<open>services/triage-counter/src/repository.rs\<close>:
  the in-memory store with every loader and every mutation, and the binding of a request to a
  \<^verbatim>\<open>PolicyInput\<close>.

  \<^item> \<open>PolicyRepositoryOps\<close> is the interface that \<^verbatim>\<open>enum PolicyRepository\<close> dispatches over; the
    binding functions are written against it, so they apply to the Postgres store as well as
    to the in-memory one, \<open>in_memory_ops\<close>.
  \<^item> Each reading of the clock is an argument \<open>clk\<close> indexed by the place where it happens: two
    readings of one request may differ. Fresh identifiers and the serde reader of policy
    documents are arguments too.
  \<^item> A \<^verbatim>\<open>HashMap\<close> is a map; the edges of a dependency snapshot are an association list.
\<close>

section \<open>Stored records\<close>

record LoadedPolicyProfile =
  lp_id :: uuid
  lp_tenant_id :: uuid
  lp_mode :: PolicyMode
  lp_latest_snapshot :: PolicySnapshot
  lp_signal_configuration :: PolicySignalConfiguration

record RegistryPolicyBinding =
  rb_tenant_id :: uuid
  rb_registry_config_id :: uuid
  rb_policy_profile_id :: uuid
  rb_mode :: PolicyMode

record PolicySnapshotDraft =
  sd_tenant_id :: uuid
  sd_policy_profile_id :: uuid
  sd_version :: string
  sd_document :: json
  sd_created_by :: "uuid option"

record PersistedPackageRequest =
  pk_registry_config_id :: uuid
  pk_client_type :: string
  pk_coordinate :: PackageCoordinate
  pk_source_url :: "string option"

record PersistedDecisionRecord =
  dd_tenant_id :: uuid
  dd_package_request :: PersistedPackageRequest
  dd_artifact_digest :: "ArtifactDigest option"
  dd_policy_snapshot_id :: uuid
  dd_decision :: PolicyDecision
  dd_feed_state :: FeedState
  dd_feed_snapshot_age_seconds :: nat
  dd_rationale :: "string list"
  dd_evidence_references :: "string list"
  dd_trace_id :: string

record PackageSignalRecord =
  sg_tenant_id :: uuid
  sg_coordinate :: PackageCoordinate
  sg_artifact_digest :: "ArtifactDigest option"
  sg_signal :: string
  sg_expires_at :: "timestamp option"

record DepsDevPackageRecord =
  dv_coordinate :: PackageCoordinate
  dv_project_links :: "json list"

record DepsDevDependencySnapshotRecord =
  dn_package_purls :: "string list"
  dn_dependency_edges :: "(string \<times> string list) list"

record ScorecardResultRecord =
  sr_repo_name :: string
  sr_checks :: "(string \<times> f64) list"

record CrossEcosystemIocRecord =
  ix_coordinate :: PackageCoordinate
  ix_indicator_type :: string
  ix_indicator_value :: string

record CrossEcosystemIocSnapshotRecord =
  is_feed_name :: string
  is_state :: FeedState
  is_records :: "CrossEcosystemIocRecord list"

record OpenVexStatementRecord =
  ox_tenant_id :: uuid
  ox_vulnerability_id :: string
  ox_product_id :: string
  ox_status :: string
  ox_document_id :: string
  ox_expires_at :: "timestamp option"

record VulnerabilitySignalStatus =
  vs_vulnerable_above_threshold :: bool
  vs_evidence_references :: "string list"
  vs_under_investigation :: bool

record BoundDecisionContext =
  bc_policy_input :: PolicyInput
  bc_evidence_references :: "string list"
  bc_vulnerability_under_investigation :: bool

type_synonym 'x tagged = "uuid \<times> PackageCoordinate \<times> ArtifactDigest option \<times> 'x"

record InMemoryPolicyRepository =
  mr_profiles :: "uuid \<times> uuid \<rightharpoonup> LoadedPolicyProfile"
  mr_registry_bindings :: "uuid \<times> uuid \<rightharpoonup> RegistryPolicyBinding"
  mr_decision_records :: "PersistedDecisionRecord list"
  mr_known_artifacts :: "(uuid \<times> string) set"
  mr_vulnerability_matches :: "VulnerabilityMatchRecord tagged list"
  mr_attestation_records :: "(string \<times> string \<times> AttestationResult) tagged list"
  mr_static_analysis_reports :: "StaticEvidence tagged list"
  mr_sandbox_runs :: "json tagged list"
  mr_override_records :: "OverrideRecord list"
  mr_package_signal_records :: "PackageSignalRecord list"
  mr_deps_dev_package_records :: "DepsDevPackageRecord list"
  mr_deps_dev_dependency_snapshots :: "DepsDevDependencySnapshotRecord list"
  mr_scorecard_result_records :: "ScorecardResultRecord list"
  mr_cross_ecosystem_ioc_snapshots :: "CrossEcosystemIocSnapshotRecord list"
  mr_feed_snapshot_records :: "FeedSnapshotRecord list"
  mr_analysis_jobs :: "AnalysisJob list"
  mr_openvex_statements :: "OpenVexStatementRecord list"

definition empty_repository :: InMemoryPolicyRepository where
  "empty_repository =
     \<lparr>mr_profiles = Map.empty, mr_registry_bindings = Map.empty, mr_decision_records = [],
      mr_known_artifacts = {}, mr_vulnerability_matches = [], mr_attestation_records = [],
      mr_static_analysis_reports = [], mr_sandbox_runs = [], mr_override_records = [],
      mr_package_signal_records = [], mr_deps_dev_package_records = [],
      mr_deps_dev_dependency_snapshots = [], mr_scorecard_result_records = [],
      mr_cross_ecosystem_ioc_snapshots = [], mr_feed_snapshot_records = [],
      mr_analysis_jobs = [], mr_openvex_statements = []\<rparr>"

section \<open>Clock readings\<close>

text \<open>\<^verbatim>\<open>load_known_malicious_match\<close> reads the clock once per record it inspects.\<close>

datatype clock_site =
    AtPackageSignals | AtTransitive | AtKnownMalicious nat | AtFeeds | AtVulnerabilities | AtOverrides

type_synonym clock = "clock_site \<Rightarrow> timestamp"

section \<open>Mutations\<close>

definition upsert_profile :: "LoadedPolicyProfile \<Rightarrow> InMemoryPolicyRepository \<Rightarrow> InMemoryPolicyRepository" where
  "upsert_profile p r = r\<lparr>mr_profiles := (mr_profiles r)((lp_tenant_id p, lp_id p) \<mapsto> p)\<rparr>"

definition upsert_registry_binding ::
  "RegistryPolicyBinding \<Rightarrow> InMemoryPolicyRepository \<Rightarrow> InMemoryPolicyRepository" where
  "upsert_registry_binding b r =
     r\<lparr>mr_registry_bindings := (mr_registry_bindings r)((rb_tenant_id b, rb_registry_config_id b) \<mapsto> b)\<rparr>"

definition remember_artifact ::
  "uuid \<Rightarrow> ArtifactDigest \<Rightarrow> InMemoryPolicyRepository \<Rightarrow> InMemoryPolicyRepository" where
  "remember_artifact tenant digest r =
     r\<lparr>mr_known_artifacts := insert (tenant, dg_hex digest) (mr_known_artifacts r)\<rparr>"

text \<open>\<^verbatim>\<open>serde_json::to_vec\<close> and \<^verbatim>\<open>hex::encode(Sha256::digest(_))\<close> are the arguments.\<close>

definition immutable_rule_hash ::
  "(json \<Rightarrow> (string, string) result) \<Rightarrow> (string \<Rightarrow> string) \<Rightarrow> json
     \<Rightarrow> (PolicyRepositoryError, ArtifactDigest) result" where
  "immutable_rule_hash to_vec sha256_hex document =
     res_bind (map_err InvalidPolicyDocument (to_vec document)) (\<lambda>serialized.
       map_err InvalidSnapshotHash (digest_sha256 (sha256_hex serialized)))"

definition create_snapshot ::
  "(json \<Rightarrow> (string, string) result) \<Rightarrow> (string \<Rightarrow> string)
     \<Rightarrow> (json \<Rightarrow> (string, PolicyDocumentSignalConfiguration) result) \<Rightarrow> uuid \<Rightarrow> timestamp
     \<Rightarrow> PolicySnapshotDraft \<Rightarrow> InMemoryPolicyRepository
     \<Rightarrow> (PolicyRepositoryError, PolicySnapshot) result \<times> InMemoryPolicyRepository" where
  "create_snapshot to_vec sha256_hex from_value fresh now draft r =
     (case immutable_rule_hash to_vec sha256_hex (sd_document draft) of
        Inl e \<Rightarrow> (Inl e, r)
      | Inr rule_hash \<Rightarrow>
          let snapshot = \<lparr>ps_id = fresh, ps_tenant_id = sd_tenant_id draft, ps_version = sd_version draft,
                          ps_effective_at = now, ps_immutable_rule_hash = rule_hash\<rparr>;
              key = (sd_tenant_id draft, sd_policy_profile_id draft)
          in (case mr_profiles r key of
                None \<Rightarrow> (Inl ProfileNotFound, r)
              | Some profile \<Rightarrow>
                  let profile1 = profile\<lparr>lp_latest_snapshot := snapshot\<rparr>;
                      r1 = r\<lparr>mr_profiles := (mr_profiles r)(key \<mapsto> profile1)\<rparr>
                  in (case policy_signal_configuration_from_document from_value (sd_document draft) of
                        Inl e \<Rightarrow> (Inl e, r1)
                      | Inr configuration \<Rightarrow>
                          (Inr snapshot,
                           r1\<lparr>mr_profiles := (mr_profiles r1)
                                (key \<mapsto> profile1\<lparr>lp_signal_configuration := configuration\<rparr>)\<rparr>))))"

definition persisted_decision_record_with_evidence_references ::
  "DecisionRequest \<Rightarrow> DecisionResponse \<Rightarrow> string list
     \<Rightarrow> (PolicyRepositoryError, PersistedDecisionRecord) result" where
  "persisted_decision_record_with_evidence_references request response evidence =
     (if rs_tenant_id response \<noteq> rq_tenant_id request
        \<or> rs_policy_profile_id response \<noteq> rq_policy_profile_id request
        \<or> rs_trace_id response \<noteq> nr_trace_id (rq_request request)
      then Inl InconsistentDecisionResponse
      else Inr
        \<lparr>dd_tenant_id = rq_tenant_id request,
         dd_package_request =
           \<lparr>pk_registry_config_id = rq_registry_config_id request,
            pk_client_type = client_type_for_request_kind (nr_kind (rq_request request)),
            pk_coordinate = nr_coordinate (rq_request request),
            pk_source_url = nr_source_url (rq_request request)\<rparr>,
         dd_artifact_digest = nr_requested_digest (rq_request request),
         dd_policy_snapshot_id = rs_policy_snapshot_id response,
         dd_decision = rs_decision response,
         dd_feed_state = rs_feed_state response,
         dd_feed_snapshot_age_seconds = rs_feed_snapshot_age_seconds response,
         dd_rationale = rs_rationale response,
         dd_evidence_references = evidence,
         dd_trace_id = rs_trace_id response\<rparr>)"

definition persist_evaluated_decision_record ::
  "DecisionRequest \<Rightarrow> DecisionResponse \<Rightarrow> string list \<Rightarrow> InMemoryPolicyRepository
     \<Rightarrow> (PolicyRepositoryError, unit) result \<times> InMemoryPolicyRepository" where
  "persist_evaluated_decision_record request response evidence r =
     (case persisted_decision_record_with_evidence_references request response evidence of
        Inl e \<Rightarrow> (Inl e, r)
      | Inr record \<Rightarrow> (Inr (), r\<lparr>mr_decision_records := mr_decision_records r @ [record]\<rparr>))"

text \<open>\<open>fresh\<close> is the new identifier, \<open>created\<close> and \<open>updated\<close> the two clock readings.\<close>

definition create_analysis_job_if_needed ::
  "uuid \<Rightarrow> timestamp \<Rightarrow> timestamp \<Rightarrow> DecisionRequest \<Rightarrow> DecisionResponse \<Rightarrow> InMemoryPolicyRepository
     \<Rightarrow> (PolicyRepositoryError, AnalysisJob option) result \<times> InMemoryPolicyRepository" where
  "create_analysis_job_if_needed fresh created updated request response r =
     (if \<not> rs_create_analysis_job response then (Inr None, r)
      else (case nr_requested_digest (rq_request request) of
        None \<Rightarrow> (Inl MissingArtifactDigestForAnalysisJob, r)
      | Some artifact_digest \<Rightarrow>
          (case nr_source_url (rq_request request) of
             None \<Rightarrow> (Inl MissingArtifactSourceUrlForAnalysisJob, r)
           | Some source_url \<Rightarrow>
               let job = \<lparr>aj_id = fresh, aj_tenant_id = rq_tenant_id request,
                          aj_registry_config_id = rq_registry_config_id request,
                          aj_coordinate = nr_coordinate (rq_request request),
                          aj_artifact_digest = artifact_digest, aj_source_url = source_url,
                          aj_policy_snapshot_id = rs_policy_snapshot_id response,
                          aj_state = Queued, aj_retry_count = 0,
                          aj_trace_id = rs_trace_id response,
                          aj_created_at = created, aj_updated_at = updated\<rparr>
               in (Inr (Some job), r\<lparr>mr_analysis_jobs := mr_analysis_jobs r @ [job]\<rparr>))))"

section \<open>Loaders\<close>

definition load_profile ::
  "InMemoryPolicyRepository \<Rightarrow> uuid \<Rightarrow> uuid \<Rightarrow> (PolicyRepositoryError, LoadedPolicyProfile) result" where
  "load_profile r tenant profile = ok_or ProfileNotFound (mr_profiles r (tenant, profile))"

definition load_registry_policy_binding ::
  "InMemoryPolicyRepository \<Rightarrow> uuid \<Rightarrow> uuid \<Rightarrow> (PolicyRepositoryError, RegistryPolicyBinding) result" where
  "load_registry_policy_binding r tenant config =
     ok_or RegistryConfigNotFound (mr_registry_bindings r (tenant, config))"

definition load_artifact_exists ::
  "InMemoryPolicyRepository \<Rightarrow> uuid \<Rightarrow> ArtifactDigest \<Rightarrow> (PolicyRepositoryError, bool) result" where
  "load_artifact_exists r tenant digest = Inr ((tenant, dg_hex digest) \<in> mr_known_artifacts r)"

text \<open>A package signal without a digest applies to every artifact of the coordinate.\<close>

definition signal_applies ::
  "uuid \<Rightarrow> PackageCoordinate \<Rightarrow> ArtifactDigest option \<Rightarrow> PackageSignalRecord \<Rightarrow> bool" where
  "signal_applies tenant coordinate digest s =
     (sg_tenant_id s = tenant \<and> sg_coordinate s = coordinate
      \<and> is_none_or (\<lambda>d. digest = Some d) (sg_artifact_digest s))"

definition load_known_malicious_match ::
  "clock \<Rightarrow> InMemoryPolicyRepository \<Rightarrow> uuid \<Rightarrow> PackageCoordinate \<Rightarrow> ArtifactDigest option
     \<Rightarrow> (PolicyRepositoryError, bool) result" where
  "load_known_malicious_match clk r tenant coordinate digest =
     Inr (list_ex (\<lambda>(k, s).
       signal_applies tenant coordinate digest s
       \<and> sg_signal s = ''known-malicious''
       \<and> is_none_or (\<lambda>e. e > clk (AtKnownMalicious k)) (sg_expires_at s))
       (List.enumerate 0 (mr_package_signal_records r)))"

text \<open>The worklist of the transitive dependencies: \<open>pending\<close> is a stack whose top is its last
  element.\<close>

function closure_loop ::
  "(string \<times> string list) list \<Rightarrow> string list \<Rightarrow> string set \<Rightarrow> string set" where
  "closure_loop edges pending reachable =
     (if pending = [] then reachable
      else
        let purl = last pending; rest = butlast pending in
        if purl \<in> reachable then closure_loop edges rest reachable
        else closure_loop edges
               (case map_of edges purl of Some children \<Rightarrow> rest @ children | None \<Rightarrow> rest)
               (insert purl reachable))"
  by pat_completeness auto
termination
proof (relation "inv_image (less_than <*lex*> less_than)
    (\<lambda>(edges, pending, reachable). (card (fst ` set edges - reachable), length pending))",
    goal_cases)
  case 1
  show ?case by auto
next
  case (2 edges pending reachable purl rest)
  then show ?case by (simp add: length_greater_0_conv)
next
  case (3 edges pending reachable purl rest)
  show ?case
  proof (cases "map_of edges purl")
    case None
    then have "purl \<notin> fst ` set edges" by (simp add: map_of_eq_None_iff)
    then have "fst ` set edges - insert purl reachable = fst ` set edges - reachable" by auto
    with None 3 show ?thesis by (simp add: length_greater_0_conv)
  next
    case (Some children)
    then have "purl \<in> fst ` set edges" by (metis map_of_eq_None_iff option.distinct(1))
    with 3(4) have "fst ` set edges - insert purl reachable \<subset> fst ` set edges - reachable"
      by blast
    then have "card (fst ` set edges - insert purl reachable) < card (fst ` set edges - reachable)"
      by (intro psubset_card_mono) auto
    then show ?thesis by simp
  qed
qed

declare closure_loop.simps [simp del]

definition reachable_dependency_purls :: "(string \<times> string list) list \<Rightarrow> string \<Rightarrow> string set" where
  "reachable_dependency_purls edges package_purl =
     closure_loop edges (unwrap_or [] (map_of edges package_purl)) {}"

definition load_transitive_dependency_signals ::
  "clock \<Rightarrow> InMemoryPolicyRepository \<Rightarrow> uuid \<Rightarrow> PackageCoordinate \<Rightarrow> string list" where
  "load_transitive_dependency_signals clk r tenant coordinate =
     (if pc_version coordinate = None then []
      else
        let package_purl = purl coordinate in
        (case find (\<lambda>s. package_purl \<in> set (dn_package_purls s)
                        \<or> map_of (dn_dependency_edges s) package_purl \<noteq> None)
                (rev (mr_deps_dev_dependency_snapshots r)) of
           None \<Rightarrow> []
         | Some snapshot \<Rightarrow>
             let reachable = reachable_dependency_purls (dn_dependency_edges snapshot) package_purl in
             if reachable = {} then []
             else map sg_signal (filter (\<lambda>s.
                    sg_tenant_id s = tenant \<and> sg_artifact_digest s = None
                    \<and> is_none_or (\<lambda>e. e > clk AtTransitive) (sg_expires_at s)
                    \<and> purl (sg_coordinate s) \<in> reachable) (mr_package_signal_records r))))"

text \<open>The newest usable snapshot of each feed; only the set of its records is observed.\<close>

fun latest_by_feed ::
  "CrossEcosystemIocSnapshotRecord list \<Rightarrow> (string \<times> CrossEcosystemIocRecord list) list
     \<Rightarrow> (string \<times> CrossEcosystemIocRecord list) list" where
  "latest_by_feed [] acc = acc"
| "latest_by_feed (s # ss) acc =
     (if is_state s = Unavailable then latest_by_feed ss acc
      else if map_of acc (is_feed_name s) \<noteq> None then latest_by_feed ss acc
      else latest_by_feed ss (acc @ [(is_feed_name s, is_records s)]))"

definition latest_ioc_records :: "InMemoryPolicyRepository \<Rightarrow> CrossEcosystemIocRecord list" where
  "latest_ioc_records r = concat (map snd (latest_by_feed (rev (mr_cross_ecosystem_ioc_snapshots r)) []))"

text \<open>Evidence matches a request when tenant and coordinate agree and, if the request names a
  digest, the evidence carries that digest.\<close>

definition evidence_applies ::
  "uuid \<Rightarrow> PackageCoordinate \<Rightarrow> ArtifactDigest option \<Rightarrow> 'x tagged \<Rightarrow> bool" where
  "evidence_applies tenant coordinate digest = (\<lambda>(t, c, d, x).
     t = tenant \<and> c = coordinate \<and> (case digest of Some want \<Rightarrow> d = Some want | None \<Rightarrow> True))"

definition evidence_payload :: "'x tagged \<Rightarrow> 'x" where
  "evidence_payload = (\<lambda>(t, c, d, x). x)"

definition matching_evidence ::
  "uuid \<Rightarrow> PackageCoordinate \<Rightarrow> ArtifactDigest option \<Rightarrow> 'x tagged list \<Rightarrow> 'x list" where
  "matching_evidence tenant coordinate digest xs =
     map evidence_payload (filter (evidence_applies tenant coordinate digest) xs)"

definition indicator_is_cross_ecosystem ::
  "CrossEcosystemIocRecord list \<Rightarrow> string \<Rightarrow> string \<Rightarrow> bool" where
  "indicator_is_cross_ecosystem records indicator_type indicator_value =
     list_ex (\<lambda>current.
       ix_indicator_type current = indicator_type \<and> ix_indicator_value current = indicator_value
       \<and> list_ex (\<lambda>peer.
           ix_indicator_type peer = ix_indicator_type current
           \<and> ix_indicator_value peer = ix_indicator_value current
           \<and> pc_ecosystem (ix_coordinate peer) \<noteq> pc_ecosystem (ix_coordinate current)) records) records"

definition load_sandbox_destination_ioc_risk ::
  "InMemoryPolicyRepository \<Rightarrow> uuid \<Rightarrow> PackageCoordinate \<Rightarrow> ArtifactDigest option
     \<Rightarrow> CrossEcosystemIocRecord list \<Rightarrow> bool" where
  "load_sandbox_destination_ioc_risk r tenant coordinate digest records =
     list_ex (\<lambda>(t, v). indicator_is_cross_ecosystem records t v)
       (remdups (concat (map sandbox_destination_ioc_candidates
          (matching_evidence tenant coordinate digest (mr_sandbox_runs r)))))"

definition load_behavioral_fingerprint_ioc_risk ::
  "InMemoryPolicyRepository \<Rightarrow> uuid \<Rightarrow> PackageCoordinate \<Rightarrow> ArtifactDigest option
     \<Rightarrow> CrossEcosystemIocRecord list \<Rightarrow> bool" where
  "load_behavioral_fingerprint_ioc_risk r tenant coordinate digest records =
     (let static_sets = filter (\<lambda>s. s \<noteq> []) (map static_behavioral_fingerprint_components
            (matching_evidence tenant coordinate digest (mr_static_analysis_reports r)));
          sandbox_sets = filter (\<lambda>s. s \<noteq> []) (map sandbox_behavioral_fingerprint_components
            (matching_evidence tenant coordinate digest (mr_sandbox_runs r)))
      in list_ex (\<lambda>fingerprint.
           indicator_is_cross_ecosystem records ''behavioral-fingerprint'' fingerprint)
           (combined_behavioral_fingerprint_candidates static_sets sandbox_sets))"

definition load_cross_ecosystem_ioc_risk ::
  "InMemoryPolicyRepository \<Rightarrow> uuid \<Rightarrow> PackageCoordinate \<Rightarrow> ArtifactDigest option \<Rightarrow> bool" where
  "load_cross_ecosystem_ioc_risk r tenant coordinate digest =
     (let records = latest_ioc_records r in
      list_ex (\<lambda>current.
        pc_ecosystem (ix_coordinate current) = pc_ecosystem coordinate
        \<and> pc_namespace (ix_coordinate current) = pc_namespace coordinate
        \<and> pc_name (ix_coordinate current) = pc_name coordinate
        \<and> (pc_version coordinate = None \<or> pc_version (ix_coordinate current) = None
             \<or> pc_version (ix_coordinate current) = pc_version coordinate)
        \<and> list_ex (\<lambda>peer.
            pc_ecosystem (ix_coordinate peer) \<noteq> pc_ecosystem (ix_coordinate current)
            \<and> ix_indicator_type peer = ix_indicator_type current
            \<and> ix_indicator_value peer = ix_indicator_value current) records) records
      \<or> load_sandbox_destination_ioc_risk r tenant coordinate digest records
      \<or> load_behavioral_fingerprint_ioc_risk r tenant coordinate digest records)"

definition load_scorecard_signal_status ::
  "InMemoryPolicyRepository \<Rightarrow> PackageCoordinate \<Rightarrow> ScorecardPolicyConfiguration \<Rightarrow> ScorecardSignalStatus" where
  "load_scorecard_signal_status r coordinate policy =
     (case find_map (\<lambda>p. scorecard_repo_name_from_project_links (dv_project_links p))
             (filter (\<lambda>p.
                pc_ecosystem (dv_coordinate p) = pc_ecosystem coordinate
                \<and> pc_namespace (dv_coordinate p) = pc_namespace coordinate
                \<and> pc_name (dv_coordinate p) = pc_name coordinate
                \<and> (pc_version coordinate = None \<or> pc_version (dv_coordinate p) = pc_version coordinate))
              (rev (mr_deps_dev_package_records r))) of
        None \<Rightarrow> default_scorecard_status
      | Some repo_name \<Rightarrow>
          (case find (\<lambda>s. sr_repo_name s = repo_name) (rev (mr_scorecard_result_records r)) of
             None \<Rightarrow> default_scorecard_status
           | Some scorecard \<Rightarrow> scorecard_signal_status_from_checks (sr_checks scorecard) policy))"

definition load_package_signal_status ::
  "clock \<Rightarrow> InMemoryPolicyRepository \<Rightarrow> uuid \<Rightarrow> PackageCoordinate \<Rightarrow> ArtifactDigest option
     \<Rightarrow> ScorecardPolicyConfiguration \<Rightarrow> (PolicyRepositoryError, PackageSignalStatus) result" where
  "load_package_signal_status clk r tenant coordinate digest policy =
     (let direct = map sg_signal (filter (\<lambda>s. signal_applies tenant coordinate digest s
             \<and> is_none_or (\<lambda>e. e > clk AtPackageSignals) (sg_expires_at s)) (mr_package_signal_records r));
          signals = direct @ load_transitive_dependency_signals clk r tenant coordinate;
          status = package_signal_status_from_signals signals;
          status1 = status\<lparr>st_cross_ecosystem_ioc_correlation_risk :=
             st_cross_ecosystem_ioc_correlation_risk status
             \<or> load_cross_ecosystem_ioc_risk r tenant coordinate digest\<rparr>
      in Inr (merge_scorecard_signal_status status1 (load_scorecard_signal_status r coordinate policy)))"

definition load_feed_snapshot_status ::
  "clock \<Rightarrow> InMemoryPolicyRepository \<Rightarrow> uuid \<Rightarrow> (PolicyRepositoryError, FeedSnapshotStatus) result" where
  "load_feed_snapshot_status clk r tenant =
     Inr (feed_snapshot_status_from_records (mr_feed_snapshot_records r) (clk AtFeeds))"

definition load_fallback_candidate ::
  "InMemoryPolicyRepository \<Rightarrow> uuid \<Rightarrow> PackageCoordinate
     \<Rightarrow> (PolicyRepositoryError, PackageCoordinate option) result" where
  "load_fallback_candidate r tenant coordinate =
     Inr (map_option (\<lambda>d. pk_coordinate (dd_package_request d))
       (find (\<lambda>d. dd_tenant_id d = tenant \<and> dd_decision d = Allow
            \<and> pc_ecosystem (pk_coordinate (dd_package_request d)) = pc_ecosystem coordinate
            \<and> pc_namespace (pk_coordinate (dd_package_request d)) = pc_namespace coordinate
            \<and> pc_name (pk_coordinate (dd_package_request d)) = pc_name coordinate
            \<and> pc_version (pk_coordinate (dd_package_request d)) \<noteq> None)
          (rev (mr_decision_records r))))"

definition active_statements ::
  "timestamp \<Rightarrow> uuid \<Rightarrow> string \<Rightarrow> string \<Rightarrow> OpenVexStatementRecord list \<Rightarrow> OpenVexStatementRecord list" where
  "active_statements now tenant advisory product_id statements =
     filter (\<lambda>s. ox_tenant_id s = tenant \<and> ox_vulnerability_id s = advisory
       \<and> ox_product_id s = product_id \<and> is_none_or (\<lambda>e. e > now) (ox_expires_at s)) statements"

definition statement_suppresses :: "OpenVexStatementRecord \<Rightarrow> bool" where
  "statement_suppresses s = (ox_status s = ''fixed'' \<or> ox_status s = ''not_affected'')"

definition push_reference :: "string \<Rightarrow> string list \<Rightarrow> string list" where
  "push_reference d refs = (if d \<in> set refs then refs else refs @ [d])"

fun vulnerability_loop ::
  "timestamp \<Rightarrow> uuid \<Rightarrow> string \<Rightarrow> OpenVexStatementRecord list \<Rightarrow> KnownVulnerabilityThreshold
     \<Rightarrow> VulnerabilityMatchRecord list \<Rightarrow> bool \<Rightarrow> bool \<Rightarrow> string list \<Rightarrow> bool \<times> bool \<times> string list"
where
  "vulnerability_loop now tenant product_id openvex threshold [] vulnerable investigating refs =
     (vulnerable, investigating, refs)"
| "vulnerability_loop now tenant product_id openvex threshold (m # ms) vulnerable investigating refs =
     (let active = active_statements now tenant (vm_advisory_id m) product_id openvex in
      if list_ex statement_suppresses active then
        vulnerability_loop now tenant product_id openvex threshold ms vulnerable investigating
          (fold (\<lambda>s acc. if statement_suppresses s then push_reference (ox_document_id s) acc else acc)
            active refs)
      else
        vulnerability_loop now tenant product_id openvex threshold ms
          (vulnerable \<or> vulnerability_match_exceeds_threshold m threshold)
          (investigating \<or> list_ex (\<lambda>s. ox_status s = ''under_investigation'') active) refs)"

definition load_vulnerability_signal_status ::
  "clock \<Rightarrow> InMemoryPolicyRepository \<Rightarrow> uuid \<Rightarrow> PackageCoordinate \<Rightarrow> ArtifactDigest option
     \<Rightarrow> KnownVulnerabilityThreshold \<Rightarrow> (PolicyRepositoryError, VulnerabilitySignalStatus) result" where
  "load_vulnerability_signal_status clk r tenant coordinate digest threshold =
     (case vulnerability_loop (clk AtVulnerabilities) tenant (purl coordinate) (mr_openvex_statements r)
             threshold (matching_evidence tenant coordinate digest (mr_vulnerability_matches r))
             False False [] of
        (vulnerable, investigating, refs) \<Rightarrow>
          Inr \<lparr>vs_vulnerable_above_threshold = vulnerable, vs_evidence_references = sort refs,
               vs_under_investigation = investigating\<rparr>)"

definition load_vulnerable_above_threshold ::
  "clock \<Rightarrow> InMemoryPolicyRepository \<Rightarrow> uuid \<Rightarrow> PackageCoordinate \<Rightarrow> ArtifactDigest option
     \<Rightarrow> KnownVulnerabilityThreshold \<Rightarrow> (PolicyRepositoryError, bool) result" where
  "load_vulnerable_above_threshold clk r tenant coordinate digest threshold =
     res_bind (load_vulnerability_signal_status clk r tenant coordinate digest threshold)
       (\<lambda>status. Inr (vs_vulnerable_above_threshold status))"

definition load_attestation_signal_status ::
  "InMemoryPolicyRepository \<Rightarrow> uuid \<Rightarrow> PackageCoordinate \<Rightarrow> ArtifactDigest option
     \<Rightarrow> (PolicyRepositoryError, AttestationSignalStatus) result" where
  "load_attestation_signal_status r tenant coordinate digest =
     Inr (attestation_signal_status_from_records
       (matching_evidence tenant coordinate digest (mr_attestation_records r)))"

definition load_ai_agent_injection_indicator ::
  "InMemoryPolicyRepository \<Rightarrow> uuid \<Rightarrow> PackageCoordinate \<Rightarrow> ArtifactDigest option
     \<Rightarrow> (PolicyRepositoryError, bool) result" where
  "load_ai_agent_injection_indicator r tenant coordinate digest =
     Inr (list_ex static_report_has_ai_agent_injection
       (matching_evidence tenant coordinate digest (mr_static_analysis_reports r)))"

definition load_static_analysis_score_violation ::
  "InMemoryPolicyRepository \<Rightarrow> uuid \<Rightarrow> PackageCoordinate \<Rightarrow> ArtifactDigest option
     \<Rightarrow> (PolicyRepositoryError, bool) result" where
  "load_static_analysis_score_violation r tenant coordinate digest =
     Inr (list_ex static_report_exceeds_policy_threshold
       (matching_evidence tenant coordinate digest (mr_static_analysis_reports r)))"

definition load_dynamic_sandbox_policy_violation ::
  "InMemoryPolicyRepository \<Rightarrow> uuid \<Rightarrow> PackageCoordinate \<Rightarrow> ArtifactDigest option
     \<Rightarrow> (PolicyRepositoryError, bool) result" where
  "load_dynamic_sandbox_policy_violation r tenant coordinate digest =
     Inr (list_ex sandbox_run_exceeds_policy_threshold
       (matching_evidence tenant coordinate digest (mr_sandbox_runs r)))"

definition override_is_live :: "timestamp \<Rightarrow> uuid \<Rightarrow> OverrideRecord \<Rightarrow> bool" where
  "override_is_live now tenant ov =
     (or_tenant_id ov = tenant \<and> (or_status ov = ''pending'' \<or> or_status ov = ''approved'')
      \<and> or_expires_at ov > now)"

definition load_override_signal_status ::
  "clock \<Rightarrow> InMemoryPolicyRepository \<Rightarrow> uuid \<Rightarrow> PackageCoordinate \<Rightarrow> ArtifactDigest option
     \<Rightarrow> PackageRequestKind \<Rightarrow> (PolicyRepositoryError, OverrideSignalStatus) result" where
  "load_override_signal_status clk r tenant coordinate digest kind =
     Inr (override_signal_status_from_records
       (filter (\<lambda>ov. override_is_live (clk AtOverrides) tenant ov
                    \<and> override_scope_matches (or_scope ov) coordinate digest kind) (mr_override_records r))
       coordinate digest kind)"

definition load_known_safe_verdict ::
  "InMemoryPolicyRepository \<Rightarrow> uuid \<Rightarrow> PackageCoordinate \<Rightarrow> ArtifactDigest option
     \<Rightarrow> (PolicyRepositoryError, bool) result" where
  "load_known_safe_verdict r tenant coordinate digest =
     Inr (case find (\<lambda>d. dd_tenant_id d = tenant
                 \<and> pk_coordinate (dd_package_request d) = coordinate
                 \<and> (case digest of Some want \<Rightarrow> dd_artifact_digest d = Some want | None \<Rightarrow> True))
               (rev (mr_decision_records r)) of
            Some d \<Rightarrow> dd_decision d = Allow
          | None \<Rightarrow> False)"

section \<open>Lemmas\<close>

subsection \<open>The worklist computes the transitive dependencies\<close>

definition dependency_edge :: "(string \<times> string list) list \<Rightarrow> (string \<times> string) set" where
  "dependency_edge edges = {(a, b). \<exists>children. map_of edges a = Some children \<and> b \<in> set children}"

lemma dependency_edge_Image: "dependency_edge edges `` {a} = set (unwrap_or [] (map_of edges a))"
  by (cases "map_of edges a") (auto simp: dependency_edge_def)

lemma rtrancl_Image_step: "E\<^sup>* `` {a} = insert a (E\<^sup>* `` (E `` {a}))"
  by (auto intro: converse_rtrancl_into_rtrancl elim: converse_rtranclE)

lemma rtrancl_Image_closed:
  assumes "E `` R \<subseteq> R \<union> P"
  shows "E\<^sup>* `` R \<subseteq> R \<union> E\<^sup>* `` P"
proof (rule subsetI)
  fix y assume "y \<in> E\<^sup>* `` R"
  then obtain x where "x \<in> R" "(x, y) \<in> E\<^sup>*" by auto
  from this(2,1) show "y \<in> R \<union> E\<^sup>* `` P"
  proof (induction rule: rtrancl_induct)
    case (step y z)
    from step.IH [OF step.prems] show ?case
    proof
      assume "y \<in> R"
      with step.hyps(2) assms have "z \<in> R \<union> P" by blast
      then show ?thesis by auto
    next
      assume "y \<in> E\<^sup>* `` P"
      with step.hyps(2) show ?thesis by (meson ImageE ImageI UnI2 rtrancl.rtrancl_into_rtrancl)
    qed
  qed simp
qed

lemma closure_loop_eq:
  assumes "dependency_edge edges `` reachable \<subseteq> reachable \<union> set pending"
  shows "closure_loop edges pending reachable = reachable \<union> (dependency_edge edges)\<^sup>* `` set pending"
  using assms
proof (induction edges pending reachable rule: closure_loop.induct)
  case (1 edges pending reachable)
  let ?E = "dependency_edge edges"
  show ?case
  proof (cases "pending = []")
    case True
    then show ?thesis by (simp add: closure_loop.simps)
  next
    case False
    let ?p = "last pending" and ?rest = "butlast pending"
    have split: "set pending = insert ?p (set ?rest)"
      by (metis False append_butlast_last_id list.set(1) list.simps(15) rotate1.simps(2) set_rotate1)
    show ?thesis
    proof (cases "?p \<in> reachable")
      case True
      with 1(3) split have inv: "?E `` reachable \<subseteq> reachable \<union> set ?rest" by auto
      have "closure_loop edges pending reachable = closure_loop edges ?rest reachable"
        using False True by (subst closure_loop.simps) (simp add: Let_def)
      also have "\<dots> = reachable \<union> ?E\<^sup>* `` set ?rest"
        by (rule 1(1) [OF False refl refl True inv])
      also have "\<dots> = reachable \<union> ?E\<^sup>* `` set pending"
        using rtrancl_Image_closed [OF inv] True split by auto
      finally show ?thesis .
    next
      case new: False
      let ?next = "case map_of edges ?p of Some children \<Rightarrow> ?rest @ children | None \<Rightarrow> ?rest"
      have set_next: "set ?next = set ?rest \<union> ?E `` {?p}"
        unfolding dependency_edge_Image by (cases "map_of edges ?p") auto
      have inv: "?E `` insert ?p reachable \<subseteq> insert ?p reachable \<union> set ?next"
        using 1(3) unfolding set_next split by blast
      have "closure_loop edges pending reachable = closure_loop edges ?next (insert ?p reachable)"
        using False new by (subst closure_loop.simps) (simp add: Let_def)
      also have "\<dots> = insert ?p reachable \<union> ?E\<^sup>* `` set ?next"
        by (rule 1(2) [OF False refl refl new inv])
      also have "\<dots> = reachable \<union> ?E\<^sup>* `` set pending"
        unfolding set_next split insert_is_Un [of ?p "set ?rest"] Image_Un rtrancl_Image_step [of ?E ?p]
        by blast
      finally show ?thesis .
    qed
  qed
qed

lemma reachable_dependency_purls_eq:
  "reachable_dependency_purls edges p = (dependency_edge edges)\<^sup>+ `` {p}"
proof -
  have "reachable_dependency_purls edges p = (dependency_edge edges)\<^sup>* `` (dependency_edge edges `` {p})"
    unfolding reachable_dependency_purls_def dependency_edge_Image by (subst closure_loop_eq) auto
  also have "\<dots> = (dependency_edge edges)\<^sup>+ `` {p}"
    by (auto simp: trancl_unfold_left)
  finally show ?thesis .
qed

subsection \<open>Vulnerabilities\<close>

definition match_suppressed ::
  "timestamp \<Rightarrow> uuid \<Rightarrow> string \<Rightarrow> OpenVexStatementRecord list \<Rightarrow> VulnerabilityMatchRecord \<Rightarrow> bool" where
  "match_suppressed now tenant product_id openvex m =
     list_ex statement_suppresses (active_statements now tenant (vm_advisory_id m) product_id openvex)"

definition suppressing_documents ::
  "timestamp \<Rightarrow> uuid \<Rightarrow> string \<Rightarrow> OpenVexStatementRecord list \<Rightarrow> VulnerabilityMatchRecord \<Rightarrow> string set" where
  "suppressing_documents now tenant product_id openvex m =
     ox_document_id ` {s \<in> set (active_statements now tenant (vm_advisory_id m) product_id openvex).
       statement_suppresses s}"

lemma fold_push_reference:
  "set (fold (\<lambda>s acc. if P s then push_reference (f s) acc else acc) ss refs) =
     set refs \<union> f ` {s \<in> set ss. P s}"
  "distinct refs \<Longrightarrow> distinct (fold (\<lambda>s acc. if P s then push_reference (f s) acc else acc) ss refs)"
  by (induction ss arbitrary: refs) (auto simp: push_reference_def)

lemma vulnerability_status_total:
  "\<exists>status. load_vulnerability_signal_status clk r tenant coordinate digest threshold = Inr status"
  by (simp add: load_vulnerability_signal_status_def split: prod.split)

lemma vulnerability_loop_eq:
  "vulnerability_loop now t p vex th ms v u refs = (v', u', refs') \<Longrightarrow>
     v' = (v \<or> (\<exists>m \<in> set ms. \<not> match_suppressed now t p vex m \<and> vulnerability_match_exceeds_threshold m th))
     \<and> u' = (u \<or> (\<exists>m \<in> set ms. \<not> match_suppressed now t p vex m
          \<and> list_ex (\<lambda>s. ox_status s = ''under_investigation'') (active_statements now t (vm_advisory_id m) p vex)))
     \<and> set refs' = set refs \<union> (\<Union>m \<in> set ms. suppressing_documents now t p vex m)
     \<and> (distinct refs \<longrightarrow> distinct refs')"
proof (induction now t p vex th ms v u refs rule: vulnerability_loop.induct)
  case (1 now t p vex th v u refs)
  then show ?case by simp
next
  case (2 now t p vex th m ms v u refs)
  let ?active = "active_statements now t (vm_advisory_id m) p vex"
  show ?case
  proof (cases "list_ex statement_suppresses ?active")
    case True
    with 2(1) [OF refl True] 2(3) show ?thesis
      by (auto simp: Let_def match_suppressed_def suppressing_documents_def fold_push_reference)
  next
    case False
    then have "suppressing_documents now t p vex m = {}"
      by (auto simp: suppressing_documents_def list_ex_iff)
    with 2(2) [OF refl False] 2(3) False show ?thesis
      by (auto simp: Let_def match_suppressed_def)
  qed
qed

section \<open>Properties\<close>

lemma load_transitive_dependency_signals_eq:
  assumes "pc_version c \<noteq> None"
    and "find (\<lambda>s. purl c \<in> set (dn_package_purls s) \<or> map_of (dn_dependency_edges s) (purl c) \<noteq> None)
           (rev (mr_deps_dev_dependency_snapshots r)) = Some snapshot"
  shows "set (load_transitive_dependency_signals clk r t c) =
    sg_signal ` {s \<in> set (mr_package_signal_records r). sg_tenant_id s = t \<and> sg_artifact_digest s = None
      \<and> is_none_or (\<lambda>e. e > clk AtTransitive) (sg_expires_at s)
      \<and> (purl c, purl (sg_coordinate s)) \<in> (dependency_edge (dn_dependency_edges snapshot))\<^sup>+}"
proof -
  let ?R = "reachable_dependency_purls (dn_dependency_edges snapshot) (purl c)"
  have R: "p \<in> ?R \<longleftrightarrow> (purl c, p) \<in> (dependency_edge (dn_dependency_edges snapshot))\<^sup>+" for p
    by (simp add: reachable_dependency_purls_eq)
  have "set (load_transitive_dependency_signals clk r t c) = sg_signal `
      {s \<in> set (mr_package_signal_records r). sg_tenant_id s = t \<and> sg_artifact_digest s = None
        \<and> is_none_or (\<lambda>e. e > clk AtTransitive) (sg_expires_at s) \<and> purl (sg_coordinate s) \<in> ?R}"
    using assms by (auto simp: load_transitive_dependency_signals_def Let_def)
  then show ?thesis by (simp add: R)
qed

text \<open>The worklist over the newest dependency snapshot that knows the package ends and visits
  exactly the packages reachable over one or more dependency edges; the signals inherited by a
  versioned package are exactly the live, digest-free signals of its tenant on those packages.\<close>

lemma transitive_signals_exact:
  assumes "pc_version c \<noteq> None"
    and "find (\<lambda>s. purl c \<in> set (dn_package_purls s) \<or> map_of (dn_dependency_edges s) (purl c) \<noteq> None)
           (rev (mr_deps_dev_dependency_snapshots r)) = Some snapshot"
  shows "reachable_dependency_purls (dn_dependency_edges snapshot) (purl c)
      = (dependency_edge (dn_dependency_edges snapshot))\<^sup>+ `` {purl c}
    \<and> set (load_transitive_dependency_signals clk r t c) =
      sg_signal ` {s \<in> set (mr_package_signal_records r). sg_tenant_id s = t \<and> sg_artifact_digest s = None
        \<and> is_none_or (\<lambda>e. e > clk AtTransitive) (sg_expires_at s)
        \<and> (purl c, purl (sg_coordinate s)) \<in> (dependency_edge (dn_dependency_edges snapshot))\<^sup>+}"
  using load_transitive_dependency_signals_eq [OF assms] by (simp add: reachable_dependency_purls_eq)

definition sample_dependency :: PackageCoordinate where
  "sample_dependency = coordinate_new Npm ''evil'' (Some ''9.9.9'') None"

definition sample_middle :: PackageCoordinate where
  "sample_middle = coordinate_new Npm ''middle'' (Some ''1.0.0'') None"

definition sample_snapshot :: DepsDevDependencySnapshotRecord where
  "sample_snapshot =
     \<lparr>dn_package_purls = [purl sample_coordinate],
      dn_dependency_edges = [(purl sample_coordinate, [purl sample_middle]),
        (purl sample_middle, [purl sample_dependency, purl sample_coordinate])]\<rparr>"

definition sample_signal :: PackageSignalRecord where
  "sample_signal =
     \<lparr>sg_tenant_id = 1, sg_coordinate = sample_dependency, sg_artifact_digest = None,
      sg_signal = ''known-malicious'', sg_expires_at = Some 100\<rparr>"

definition sample_dependency_repository :: InMemoryPolicyRepository where
  "sample_dependency_repository = empty_repository\<lparr>mr_package_signal_records := [sample_signal],
     mr_deps_dev_dependency_snapshots := [sample_snapshot]\<rparr>"

lemma sample_dependency_reached:
  "(purl sample_coordinate, purl sample_dependency) \<in> (dependency_edge (dn_dependency_edges sample_snapshot))\<^sup>+"
proof -
  have "purl sample_middle \<noteq> purl sample_coordinate" by code_simp
  then have "(purl sample_coordinate, purl sample_middle) \<in> dependency_edge (dn_dependency_edges sample_snapshot)"
    "(purl sample_middle, purl sample_dependency) \<in> dependency_edge (dn_dependency_edges sample_snapshot)"
    by (simp_all add: dependency_edge_def sample_snapshot_def)
  then show ?thesis by (meson r_into_trancl trancl_trans)
qed

lemma sample_snapshot_found:
  "find (\<lambda>s. purl sample_coordinate \<in> set (dn_package_purls s)
       \<or> map_of (dn_dependency_edges s) (purl sample_coordinate) \<noteq> None) [sample_snapshot] = Some sample_snapshot"
  by (simp add: sample_snapshot_def)

lemma transitive_signals_exact_witness:
  "''known-malicious'' \<in> set (load_transitive_dependency_signals (\<lambda>_. 5) sample_dependency_repository 1 sample_coordinate)"
proof -
  have "pc_version sample_coordinate \<noteq> None"
    by (simp add: sample_coordinate_def coordinate_new_def)
  moreover have "find (\<lambda>s. purl sample_coordinate \<in> set (dn_package_purls s)
       \<or> map_of (dn_dependency_edges s) (purl sample_coordinate) \<noteq> None)
      (rev (mr_deps_dev_dependency_snapshots sample_dependency_repository)) = Some sample_snapshot"
    using sample_snapshot_found by (simp add: sample_dependency_repository_def)
  ultimately have eq: "set (load_transitive_dependency_signals (\<lambda>_. 5) sample_dependency_repository 1 sample_coordinate) =
      sg_signal ` {s \<in> set (mr_package_signal_records sample_dependency_repository). sg_tenant_id s = 1
        \<and> sg_artifact_digest s = None \<and> is_none_or (\<lambda>e. e > 5) (sg_expires_at s)
        \<and> (purl sample_coordinate, purl (sg_coordinate s)) \<in> (dependency_edge (dn_dependency_edges sample_snapshot))\<^sup>+}"
    using transitive_signals_exact [of sample_coordinate sample_dependency_repository sample_snapshot "\<lambda>_. 5" 1]
    by blast
  have name: "sg_signal sample_signal = ''known-malicious''" by (simp add: sample_signal_def)
  have mem: "sample_signal \<in> {s \<in> set (mr_package_signal_records sample_dependency_repository). sg_tenant_id s = 1
        \<and> sg_artifact_digest s = None \<and> is_none_or (\<lambda>e. e > 5) (sg_expires_at s)
        \<and> (purl sample_coordinate, purl (sg_coordinate s)) \<in> (dependency_edge (dn_dependency_edges sample_snapshot))\<^sup>+}"
    using sample_dependency_reached by (simp add: sample_dependency_repository_def sample_signal_def)
  from imageI [OF mem, of sg_signal, unfolded name] show ?thesis unfolding eq .
qed

text \<open>The vulnerability status of a request. The threshold is exceeded exactly when some
  matching vulnerability that no live OpenVEX statement declares fixed or not affected exceeds
  it; the investigation flag likewise; the evidence references are the sorted set of the
  documents that suppressed a match, each once.\<close>

lemma vulnerability_status_exact:
  assumes "load_vulnerability_signal_status clk r t c d th = Inr status"
  shows "(vs_vulnerable_above_threshold status \<longleftrightarrow>
      (\<exists>m \<in> set (matching_evidence t c d (mr_vulnerability_matches r)).
         \<not> match_suppressed (clk AtVulnerabilities) t (purl c) (mr_openvex_statements r) m
         \<and> vulnerability_match_exceeds_threshold m th))
    \<and> (vs_under_investigation status \<longleftrightarrow>
      (\<exists>m \<in> set (matching_evidence t c d (mr_vulnerability_matches r)).
         \<not> match_suppressed (clk AtVulnerabilities) t (purl c) (mr_openvex_statements r) m
         \<and> list_ex (\<lambda>s. ox_status s = ''under_investigation'')
             (active_statements (clk AtVulnerabilities) t (vm_advisory_id m) (purl c) (mr_openvex_statements r))))
    \<and> set (vs_evidence_references status) =
      (\<Union>m \<in> set (matching_evidence t c d (mr_vulnerability_matches r)).
         suppressing_documents (clk AtVulnerabilities) t (purl c) (mr_openvex_statements r) m)
    \<and> sorted (vs_evidence_references status) \<and> distinct (vs_evidence_references status)"
proof -
  obtain v u refs where l: "vulnerability_loop (clk AtVulnerabilities) t (purl c) (mr_openvex_statements r) th
      (matching_evidence t c d (mr_vulnerability_matches r)) False False [] = (v, u, refs)"
    by (metis prod_cases3)
  with assms have "status = \<lparr>vs_vulnerable_above_threshold = v, vs_evidence_references = sort refs,
      vs_under_investigation = u\<rparr>"
    by (simp add: load_vulnerability_signal_status_def)
  with vulnerability_loop_eq [OF l] show ?thesis by simp
qed

definition sample_vulnerability :: VulnerabilityMatchRecord where
  "sample_vulnerability =
     \<lparr>vm_advisory_id = ''GHSA-1'', vm_severity = Some VSCritical, vm_epss_probability = None, vm_cisa_kev = False\<rparr>"

definition sample_vex :: OpenVexStatementRecord where
  "sample_vex =
     \<lparr>ox_tenant_id = 1, ox_vulnerability_id = ''GHSA-1'', ox_product_id = purl sample_coordinate,
      ox_status = ''not_affected'', ox_document_id = ''vex-7'', ox_expires_at = Some 100\<rparr>"

definition sample_vulnerable_repository :: InMemoryPolicyRepository where
  "sample_vulnerable_repository = empty_repository\<lparr>
     mr_vulnerability_matches := [(1, sample_coordinate, None, sample_vulnerability)],
     mr_openvex_statements := [sample_vex]\<rparr>"

lemma vulnerability_status_exact_witness:
  "(\<exists>status. load_vulnerability_signal_status (\<lambda>_. 5) sample_vulnerable_repository 1 sample_coordinate None
       default_threshold = Inr status \<and> \<not> vs_vulnerable_above_threshold status
       \<and> set (vs_evidence_references status) = {''vex-7''})
   \<and> (\<exists>status. load_vulnerability_signal_status (\<lambda>_. 100) sample_vulnerable_repository 1 sample_coordinate None
       default_threshold = Inr status \<and> vs_vulnerable_above_threshold status)"
proof -
  obtain s1 where s1: "load_vulnerability_signal_status (\<lambda>_. 5) sample_vulnerable_repository 1
      sample_coordinate None default_threshold = Inr s1"
    using vulnerability_status_total by blast
  obtain s2 where s2: "load_vulnerability_signal_status (\<lambda>_. 100) sample_vulnerable_repository 1
      sample_coordinate None default_threshold = Inr s2"
    using vulnerability_status_total by blast
  note defs = sample_vulnerable_repository_def matching_evidence_def evidence_applies_def evidence_payload_def
    match_suppressed_def suppressing_documents_def active_statements_def statement_suppresses_def
    sample_vex_def sample_vulnerability_def default_threshold_def vulnerability_match_exceeds_threshold_def
    less_eq_VulnerabilitySeverity_def
  from vulnerability_status_exact [OF s1] have "\<not> vs_vulnerable_above_threshold s1" by (simp add: defs)
  moreover have "set (vs_evidence_references s1) = {''vex-7''}"
  proof -
    have "active_statements 5 1 ''GHSA-1'' (purl sample_coordinate) [sample_vex] = [sample_vex]"
      "statement_suppresses sample_vex" "ox_document_id sample_vex = ''vex-7''"
      by (simp_all add: active_statements_def statement_suppresses_def sample_vex_def)
    then have "suppressing_documents 5 1 (purl sample_coordinate) [sample_vex] sample_vulnerability = {''vex-7''}"
      by (auto simp: suppressing_documents_def sample_vulnerability_def)
    with vulnerability_status_exact [OF s1] show ?thesis
      by (simp add: sample_vulnerable_repository_def matching_evidence_def evidence_applies_def
          evidence_payload_def)
  qed
  moreover from vulnerability_status_exact [OF s2] have "vs_vulnerable_above_threshold s2" by (simp add: defs)
  ultimately show ?thesis using s1 s2 by blast
qed

text \<open>An override counts only while it is live. The override, bypass and approval flags of a
  request are set exactly by the unexpired records of its tenant whose scope matches the
  request and whose status is approved, approved with the bypass effect, or pending.\<close>

lemma override_status_exact:
  "\<exists>status. load_override_signal_status clk r t c d k = Inr status
     \<and> (os_active_override status \<longleftrightarrow> (\<exists>x \<in> set (mr_override_records r). or_tenant_id x = t
          \<and> or_expires_at x > clk AtOverrides \<and> override_scope_matches (or_scope x) c d k
          \<and> or_status x = ''approved'' \<and> scope_str (or_scope x) ''effect'' \<noteq> Some ''emergency-bypass''))
     \<and> (os_emergency_bypass status \<longleftrightarrow> (\<exists>x \<in> set (mr_override_records r). or_tenant_id x = t
          \<and> or_expires_at x > clk AtOverrides \<and> override_scope_matches (or_scope x) c d k
          \<and> or_status x = ''approved'' \<and> scope_str (or_scope x) ''effect'' = Some ''emergency-bypass''))
     \<and> (os_hitl_required status \<longleftrightarrow> (\<exists>x \<in> set (mr_override_records r). or_tenant_id x = t
          \<and> or_expires_at x > clk AtOverrides \<and> override_scope_matches (or_scope x) c d k
          \<and> or_status x = ''pending''))"
  unfolding load_override_signal_status_def override_is_live_def
  by (intro exI conjI, rule refl) (auto simp: override_status_flags)

text \<open>Publishing a policy snapshot. On success the profile carries the new snapshot and the
  configuration read from its document; if the document is rejected only after the snapshot was
  stored, the call reports the error but the profile already names the new snapshot while it
  still enforces the configuration of the old one.\<close>

lemma create_snapshot_effects:
  assumes "create_snapshot to_vec sha256_hex from_value fresh now draft r = (result, r')"
    and "mr_profiles r (sd_tenant_id draft, sd_policy_profile_id draft) = Some profile"
    and "immutable_rule_hash to_vec sha256_hex (sd_document draft) = Inr rule_hash"
  shows "\<exists>profile'. mr_profiles r' (sd_tenant_id draft, sd_policy_profile_id draft) = Some profile'
    \<and> ps_id (lp_latest_snapshot profile') = fresh
    \<and> (case policy_signal_configuration_from_document from_value (sd_document draft) of
         Inr cfg \<Rightarrow> result = Inr (lp_latest_snapshot profile') \<and> lp_signal_configuration profile' = cfg
       | Inl e \<Rightarrow> result = Inl e \<and> lp_signal_configuration profile' = lp_signal_configuration profile)"
  using assms by (auto simp: create_snapshot_def Let_def split: sum.splits)

definition sample_profile :: LoadedPolicyProfile where
  "sample_profile =
     \<lparr>lp_id = 2, lp_tenant_id = 1, lp_mode = ModeEnforce,
      lp_latest_snapshot = \<lparr>ps_id = 3, ps_tenant_id = 1, ps_version = ''1'', ps_effective_at = 0,
        ps_immutable_rule_hash = sample_digest\<rparr>,
      lp_signal_configuration = default_signal_configuration\<rparr>"

definition rejected_document :: PolicyDocumentSignalConfiguration where
  "rejected_document =
     \<lparr>pd_known_vulnerability_threshold = default_threshold,
      pd_scorecard_thresholds = \<lparr>pt_code_review = 10, pt_branch_protection = 10, pt_ci_cd = 10,
        pt_maintained = 10, pt_signed_releases = 10\<rparr>,
      pd_rules = [\<lparr>pr_signal = ''vulnerable_above_threshold'', pr_action = RuleQuarantine, pr_enabled = True\<rparr>]\<rparr>"

lemma create_snapshot_effects_witness:
  "\<exists>r' profile'. create_snapshot (\<lambda>_. Inr []) (\<lambda>_. replicate 64 CHR ''a'') (\<lambda>_. Inr rejected_document) 77 5
      \<lparr>sd_tenant_id = 1, sd_policy_profile_id = 2, sd_version = ''2'', sd_document = JNull, sd_created_by = None\<rparr>
      (upsert_profile sample_profile empty_repository)
    = (Inl (UnsupportedPolicyRuleAction ''vulnerable_above_threshold'' ''quarantine''), r')
    \<and> mr_profiles r' (1, 2) = Some profile' \<and> ps_id (lp_latest_snapshot profile') = 77
    \<and> lp_signal_configuration profile' = default_signal_configuration"
proof -
  let ?draft = "\<lparr>sd_tenant_id = 1, sd_policy_profile_id = 2, sd_version = ''2'', sd_document = JNull, sd_created_by = None\<rparr>"
  let ?r = "upsert_profile sample_profile empty_repository"
  obtain result r' where c: "create_snapshot (\<lambda>_. Inr []) (\<lambda>_. replicate 64 CHR ''a'')
      (\<lambda>_. Inr rejected_document) 77 5 ?draft ?r = (result, r')" by fastforce
  have h: "immutable_rule_hash (\<lambda>_. Inr []) (\<lambda>_. replicate 64 CHR ''a'') (sd_document ?draft) = Inr sample_digest"
    by code_simp
  have d: "policy_signal_configuration_from_document (\<lambda>_. Inr rejected_document) JNull
      = Inl (UnsupportedPolicyRuleAction ''vulnerable_above_threshold'' ''quarantine'')"
    by (simp add: policy_signal_configuration_from_document_def vulnerability_action_from_document_rules_def
        rejected_document_def)
  have p: "mr_profiles ?r (sd_tenant_id ?draft, sd_policy_profile_id ?draft) = Some sample_profile"
    by (simp add: upsert_profile_def sample_profile_def)
  from create_snapshot_effects [OF c p h] d c show ?thesis by (auto simp: sample_profile_def)
qed

end
