(* ===== verification/Request_Binding.thy ===== *)
theory Request_Binding
  imports Policy_Repository
begin

text \<open>
  The binding of a decision, simulation or query request to the input of the decision engine,
  \<^verbatim>\<open>impl PolicyRepository\<close> of \<^verbatim>\<open>services/triage-counter/src/repository.rs\<close>. The operations that
  \<^verbatim>\<open>enum PolicyRepository\<close> dispatches to one of its two stores are the fields of
  \<open>PolicyRepositoryOps\<close>; \<open>in_memory_ops\<close> is the in-memory arm of that dispatch. The locale
  \<open>policy_backend\<close> states the one law between two operations that the code relies on when it
  treats its two binding paths alike, and is interpreted on the in-memory store.
\<close>

section \<open>The store interface\<close>

record PolicyRepositoryOps =
  op_load_profile ::
    "uuid \<Rightarrow> uuid \<Rightarrow> (PolicyRepositoryError, LoadedPolicyProfile) result"
  op_load_registry_policy_binding ::
    "uuid \<Rightarrow> uuid \<Rightarrow> (PolicyRepositoryError, RegistryPolicyBinding) result"
  op_load_artifact_exists ::
    "uuid \<Rightarrow> ArtifactDigest \<Rightarrow> (PolicyRepositoryError, bool) result"
  op_load_known_malicious_match ::
    "uuid \<Rightarrow> PackageCoordinate \<Rightarrow> ArtifactDigest option \<Rightarrow> (PolicyRepositoryError, bool) result"
  op_load_package_signal_status ::
    "uuid \<Rightarrow> PackageCoordinate \<Rightarrow> ArtifactDigest option \<Rightarrow> ScorecardPolicyConfiguration \<Rightarrow> (PolicyRepositoryError, PackageSignalStatus) result"
  op_load_feed_snapshot_status ::
    "uuid \<Rightarrow> (PolicyRepositoryError, FeedSnapshotStatus) result"
  op_load_fallback_candidate ::
    "uuid \<Rightarrow> PackageCoordinate \<Rightarrow> (PolicyRepositoryError, PackageCoordinate option) result"
  op_load_vulnerable_above_threshold ::
    "uuid \<Rightarrow> PackageCoordinate \<Rightarrow> ArtifactDigest option \<Rightarrow> KnownVulnerabilityThreshold \<Rightarrow> (PolicyRepositoryError, bool) result"
  op_load_vulnerability_signal_status ::
    "uuid \<Rightarrow> PackageCoordinate \<Rightarrow> ArtifactDigest option \<Rightarrow> KnownVulnerabilityThreshold \<Rightarrow> (PolicyRepositoryError, VulnerabilitySignalStatus) result"
  op_load_attestation_signal_status ::
    "uuid \<Rightarrow> PackageCoordinate \<Rightarrow> ArtifactDigest option \<Rightarrow> (PolicyRepositoryError, AttestationSignalStatus) result"
  op_load_ai_agent_injection_indicator ::
    "uuid \<Rightarrow> PackageCoordinate \<Rightarrow> ArtifactDigest option \<Rightarrow> (PolicyRepositoryError, bool) result"
  op_load_static_analysis_score_violation ::
    "uuid \<Rightarrow> PackageCoordinate \<Rightarrow> ArtifactDigest option \<Rightarrow> (PolicyRepositoryError, bool) result"
  op_load_dynamic_sandbox_policy_violation ::
    "uuid \<Rightarrow> PackageCoordinate \<Rightarrow> ArtifactDigest option \<Rightarrow> (PolicyRepositoryError, bool) result"
  op_load_override_signal_status ::
    "uuid \<Rightarrow> PackageCoordinate \<Rightarrow> ArtifactDigest option \<Rightarrow> PackageRequestKind \<Rightarrow> (PolicyRepositoryError, OverrideSignalStatus) result"
  op_load_known_safe_verdict ::
    "uuid \<Rightarrow> PackageCoordinate \<Rightarrow> ArtifactDigest option \<Rightarrow> (PolicyRepositoryError, bool) result"

definition in_memory_ops :: "clock \<Rightarrow> InMemoryPolicyRepository \<Rightarrow> PolicyRepositoryOps" where
  "in_memory_ops clk r =
     \<lparr>op_load_profile = load_profile r,
      op_load_registry_policy_binding = load_registry_policy_binding r,
      op_load_artifact_exists = load_artifact_exists r,
      op_load_known_malicious_match = load_known_malicious_match clk r,
      op_load_package_signal_status = load_package_signal_status clk r,
      op_load_feed_snapshot_status = load_feed_snapshot_status clk r,
      op_load_fallback_candidate = load_fallback_candidate r,
      op_load_vulnerable_above_threshold = load_vulnerable_above_threshold clk r,
      op_load_vulnerability_signal_status = load_vulnerability_signal_status clk r,
      op_load_attestation_signal_status = load_attestation_signal_status r,
      op_load_ai_agent_injection_indicator = load_ai_agent_injection_indicator r,
      op_load_static_analysis_score_violation = load_static_analysis_score_violation r,
      op_load_dynamic_sandbox_policy_violation = load_dynamic_sandbox_policy_violation r,
      op_load_override_signal_status = load_override_signal_status clk r,
      op_load_known_safe_verdict = load_known_safe_verdict r\<rparr>"

section \<open>Binding\<close>

record RequestContextView =
  rv_kind :: PackageRequestKind
  rv_coordinate :: PackageCoordinate
  rv_trace_id :: string
  rv_requested_digest :: "ArtifactDigest option"
  rv_explicit_version_or_integrity :: bool

definition context_matches :: "DecisionRequest \<Rightarrow> bool" where
  "context_matches request =
     (\<not> (rq_tenant_id request \<noteq> nr_tenant_id (rq_request request)
       \<or> rq_registry_config_id request \<noteq> nr_registry_config_id (rq_request request)
       \<or> rq_policy_profile_id request \<noteq> nr_policy_profile_id (rq_request request)))"

definition bound_decision_context ::
  "PolicyRepositoryOps \<Rightarrow> DecisionRequest \<Rightarrow> (PolicyRepositoryError, BoundDecisionContext) result" where
  "bound_decision_context ops request =
     (let req = rq_request request; tenant_id = rq_tenant_id request;
          policy_profile_id = rq_policy_profile_id request;
          coordinate = nr_coordinate req; digest = nr_requested_digest req in
     res_bind (op_load_profile ops tenant_id policy_profile_id) (\<lambda>profile.
     res_bind (case digest of
                   Some artifact_digest \<Rightarrow> op_load_artifact_exists ops tenant_id artifact_digest
                 | None \<Rightarrow> Inr False) (\<lambda>artifact_exists.
     res_bind (op_load_package_signal_status ops tenant_id coordinate digest
                 (pg_scorecard (lp_signal_configuration profile))) (\<lambda>status.
     res_bind (if st_known_malicious status then Inr True
                 else op_load_known_malicious_match ops tenant_id coordinate digest) (\<lambda>known_malicious.
     res_bind (op_load_feed_snapshot_status ops tenant_id) (\<lambda>feeds.
     res_bind (op_load_known_safe_verdict ops tenant_id coordinate digest) (\<lambda>known_safe_verdict.
     res_bind (op_load_vulnerability_signal_status ops tenant_id coordinate digest
                 (pg_known_vulnerability_threshold (lp_signal_configuration profile))) (\<lambda>vulnerability.
     res_bind (op_load_attestation_signal_status ops tenant_id coordinate digest) (\<lambda>attestation.
     res_bind (op_load_static_analysis_score_violation ops tenant_id coordinate digest) (\<lambda>static_analysis_score_violation.
     res_bind (op_load_dynamic_sandbox_policy_violation ops tenant_id coordinate digest) (\<lambda>dynamic_sandbox_policy_violation.
     res_bind (op_load_ai_agent_injection_indicator ops tenant_id coordinate digest) (\<lambda>ai_agent_injection_indicator.
     res_bind (op_load_override_signal_status ops tenant_id coordinate digest (nr_kind req)) (\<lambda>override.
     res_bind (if nr_kind req = KindMetadata \<and> \<not> nr_explicit_version_or_integrity req \<and> pc_ecosystem coordinate = Npm
                 then op_load_fallback_candidate ops tenant_id coordinate else Inr None) (\<lambda>fallback_candidate.
       Inr \<lparr>bc_policy_input =
                     \<lparr>pi_tenant_id = tenant_id,
                      pi_policy_profile_id = policy_profile_id,
                      pi_policy_snapshot_id = ps_id (lp_latest_snapshot profile),
                      pi_coordinate = coordinate,
                      pi_trace_id = nr_trace_id req,
                      pi_mode = lp_mode profile,
                      pi_known_safe_verdict = known_safe_verdict,
                      pi_known_malicious = known_malicious,
                      pi_vulnerable_above_threshold = vs_vulnerable_above_threshold vulnerability,
                      pi_vulnerable_above_threshold_action = pg_vulnerable_above_threshold_action (lp_signal_configuration profile),
                      pi_minimum_release_age_violation = st_minimum_release_age_violation status,
                      pi_install_script_detected = st_install_script_detected status,
                      pi_dependency_confusion_risk = st_dependency_confusion_risk status,
                      pi_typosquat_risk = st_typosquat_risk status,
                      pi_artifact_digest_reputation_risk = st_artifact_digest_reputation_risk status,
                      pi_cross_ecosystem_ioc_correlation_risk = st_cross_ecosystem_ioc_correlation_risk status,
                      pi_static_analysis_score_violation = static_analysis_score_violation,
                      pi_dynamic_sandbox_policy_violation = dynamic_sandbox_policy_violation,
                      pi_github_to_registry_publish_gap_risk = st_github_to_registry_publish_gap_risk status,
                      pi_trusted_publisher_identity_mismatch = st_trusted_publisher_identity_mismatch status,
                      pi_scorecard_code_review_risk = st_scorecard_code_review_risk status,
                      pi_scorecard_branch_protection_risk = st_scorecard_branch_protection_risk status,
                      pi_scorecard_ci_cd_risk = st_scorecard_ci_cd_risk status,
                      pi_scorecard_maintained_risk = st_scorecard_maintained_risk status,
                      pi_scorecard_signed_releases_risk = st_scorecard_signed_releases_risk status,
                      pi_scorecard_code_review_action = sc_action (sp_code_review (pg_scorecard (lp_signal_configuration profile))),
                      pi_scorecard_branch_protection_action = sc_action (sp_branch_protection (pg_scorecard (lp_signal_configuration profile))),
                      pi_scorecard_ci_cd_action = sc_action (sp_ci_cd (pg_scorecard (lp_signal_configuration profile))),
                      pi_scorecard_maintained_action = sc_action (sp_maintained (pg_scorecard (lp_signal_configuration profile))),
                      pi_scorecard_signed_releases_action = sc_action (sp_signed_releases (pg_scorecard (lp_signal_configuration profile))),
                      pi_provenance_or_signature_verification_failed = at_provenance_or_signature_failed attestation,
                      pi_missing_or_failed_attestation = at_missing_or_failed attestation,
                      pi_ai_agent_injection_indicator = ai_agent_injection_indicator,
                      pi_maintainer_account_age_risk = st_maintainer_account_age_risk status,
                      pi_recent_maintainer_change_risk = st_recent_maintainer_change_risk status,
                      pi_new_maintainer_ratio_risk = st_new_maintainer_ratio_risk status,
                      pi_unknown_artifact = (digest \<noteq> None \<and> \<not> artifact_exists),
                      pi_hitl_required = os_hitl_required override,
                      pi_active_override = os_active_override override,
                      pi_emergency_bypass = os_emergency_bypass override,
                      pi_fallback_eligible = (fallback_candidate \<noteq> None),
                      pi_fallback_candidate = fallback_candidate,
                      pi_feed_state = fs_state feeds,
                      pi_feed_snapshot_age_seconds = fs_age_seconds feeds\<rparr>,
            bc_evidence_references = vs_evidence_references vulnerability,
            bc_vulnerability_under_investigation = vs_under_investigation vulnerability\<rparr>))))))))))))))"

definition bind_request_with_context ::
  "PolicyRepositoryOps \<Rightarrow> DecisionRequest \<Rightarrow> bool \<Rightarrow> (PolicyRepositoryError, BoundDecisionContext) result" where
  "bind_request_with_context ops request allow_profile_override =
     (if \<not> context_matches request then Inl InconsistentDecisionRequest
      else res_bind (op_load_registry_policy_binding ops (rq_tenant_id request) (rq_registry_config_id request))
        (\<lambda>binding.
          if \<not> allow_profile_override \<and> rb_policy_profile_id binding \<noteq> rq_policy_profile_id request
          then Inl RegistryPolicyMismatch
          else bound_decision_context ops request))"

definition bind_request_for_profile ::
  "PolicyRepositoryOps \<Rightarrow> uuid \<Rightarrow> uuid \<Rightarrow> RequestContextView \<Rightarrow> (PolicyRepositoryError, PolicyInput) result" where
  "bind_request_for_profile ops tenant_id policy_profile_id request =
     (let coordinate = rv_coordinate request; digest = rv_requested_digest request in
     res_bind (op_load_profile ops tenant_id policy_profile_id) (\<lambda>profile.
     res_bind (case digest of
                   Some artifact_digest \<Rightarrow> op_load_artifact_exists ops tenant_id artifact_digest
                 | None \<Rightarrow> Inr False) (\<lambda>artifact_exists.
     res_bind (op_load_package_signal_status ops tenant_id coordinate digest
                 (pg_scorecard (lp_signal_configuration profile))) (\<lambda>status.
     res_bind (if st_known_malicious status then Inr True
                 else op_load_known_malicious_match ops tenant_id coordinate digest) (\<lambda>known_malicious.
     res_bind (op_load_feed_snapshot_status ops tenant_id) (\<lambda>feeds.
     res_bind (op_load_known_safe_verdict ops tenant_id coordinate digest) (\<lambda>known_safe_verdict.
     res_bind (op_load_vulnerable_above_threshold ops tenant_id coordinate digest
                 (pg_known_vulnerability_threshold (lp_signal_configuration profile))) (\<lambda>vulnerable_above_threshold.
     res_bind (op_load_attestation_signal_status ops tenant_id coordinate digest) (\<lambda>attestation.
     res_bind (op_load_static_analysis_score_violation ops tenant_id coordinate digest) (\<lambda>static_analysis_score_violation.
     res_bind (op_load_dynamic_sandbox_policy_violation ops tenant_id coordinate digest) (\<lambda>dynamic_sandbox_policy_violation.
     res_bind (op_load_ai_agent_injection_indicator ops tenant_id coordinate digest) (\<lambda>ai_agent_injection_indicator.
     res_bind (op_load_override_signal_status ops tenant_id coordinate digest (rv_kind request)) (\<lambda>override.
     res_bind (if rv_kind request = KindMetadata \<and> \<not> rv_explicit_version_or_integrity request \<and> pc_ecosystem coordinate = Npm
                 then op_load_fallback_candidate ops tenant_id coordinate else Inr None) (\<lambda>fallback_candidate.
       Inr \<lparr>pi_tenant_id = tenant_id,
            pi_policy_profile_id = policy_profile_id,
            pi_policy_snapshot_id = ps_id (lp_latest_snapshot profile),
            pi_coordinate = coordinate,
            pi_trace_id = rv_trace_id request,
            pi_mode = lp_mode profile,
            pi_known_safe_verdict = known_safe_verdict,
            pi_known_malicious = known_malicious,
            pi_vulnerable_above_threshold = vulnerable_above_threshold,
            pi_vulnerable_above_threshold_action = pg_vulnerable_above_threshold_action (lp_signal_configuration profile),
            pi_minimum_release_age_violation = st_minimum_release_age_violation status,
            pi_install_script_detected = st_install_script_detected status,
            pi_dependency_confusion_risk = st_dependency_confusion_risk status,
            pi_typosquat_risk = st_typosquat_risk status,
            pi_artifact_digest_reputation_risk = st_artifact_digest_reputation_risk status,
            pi_cross_ecosystem_ioc_correlation_risk = st_cross_ecosystem_ioc_correlation_risk status,
            pi_static_analysis_score_violation = static_analysis_score_violation,
            pi_dynamic_sandbox_policy_violation = dynamic_sandbox_policy_violation,
            pi_github_to_registry_publish_gap_risk = st_github_to_registry_publish_gap_risk status,
            pi_trusted_publisher_identity_mismatch = st_trusted_publisher_identity_mismatch status,
            pi_scorecard_code_review_risk = st_scorecard_code_review_risk status,
            pi_scorecard_branch_protection_risk = st_scorecard_branch_protection_risk status,
            pi_scorecard_ci_cd_risk = st_scorecard_ci_cd_risk status,
            pi_scorecard_maintained_risk = st_scorecard_maintained_risk status,
            pi_scorecard_signed_releases_risk = st_scorecard_signed_releases_risk status,
            pi_scorecard_code_review_action = sc_action (sp_code_review (pg_scorecard (lp_signal_configuration profile))),
            pi_scorecard_branch_protection_action = sc_action (sp_branch_protection (pg_scorecard (lp_signal_configuration profile))),
            pi_scorecard_ci_cd_action = sc_action (sp_ci_cd (pg_scorecard (lp_signal_configuration profile))),
            pi_scorecard_maintained_action = sc_action (sp_maintained (pg_scorecard (lp_signal_configuration profile))),
            pi_scorecard_signed_releases_action = sc_action (sp_signed_releases (pg_scorecard (lp_signal_configuration profile))),
            pi_provenance_or_signature_verification_failed = at_provenance_or_signature_failed attestation,
            pi_missing_or_failed_attestation = at_missing_or_failed attestation,
            pi_ai_agent_injection_indicator = ai_agent_injection_indicator,
            pi_maintainer_account_age_risk = st_maintainer_account_age_risk status,
            pi_recent_maintainer_change_risk = st_recent_maintainer_change_risk status,
            pi_new_maintainer_ratio_risk = st_new_maintainer_ratio_risk status,
            pi_unknown_artifact = (digest \<noteq> None \<and> \<not> artifact_exists),
            pi_hitl_required = os_hitl_required override,
            pi_active_override = os_active_override override,
            pi_emergency_bypass = os_emergency_bypass override,
            pi_fallback_eligible = (fallback_candidate \<noteq> None),
            pi_fallback_candidate = fallback_candidate,
            pi_feed_state = fs_state feeds,
            pi_feed_snapshot_age_seconds = fs_age_seconds feeds\<rparr>))))))))))))))"

definition bind_request ::
  "PolicyRepositoryOps \<Rightarrow> DecisionRequest \<Rightarrow> bool \<Rightarrow> (PolicyRepositoryError, PolicyInput) result" where
  "bind_request ops request allow_profile_override =
     (if \<not> context_matches request then Inl InconsistentDecisionRequest
      else res_bind (op_load_registry_policy_binding ops (rq_tenant_id request) (rq_registry_config_id request))
        (\<lambda>binding.
          if \<not> allow_profile_override \<and> rb_policy_profile_id binding \<noteq> rq_policy_profile_id request
          then Inl RegistryPolicyMismatch
          else bind_request_for_profile ops (rq_tenant_id request) (rq_policy_profile_id request)
            \<lparr>rv_kind = nr_kind (rq_request request),
             rv_coordinate = nr_coordinate (rq_request request),
             rv_trace_id = nr_trace_id (rq_request request),
             rv_requested_digest = nr_requested_digest (rq_request request),
             rv_explicit_version_or_integrity = nr_explicit_version_or_integrity (rq_request request)\<rparr>))"

definition bind_query_request ::
  "PolicyRepositoryOps \<Rightarrow> DecisionQueryRequest \<Rightarrow> (PolicyRepositoryError, PolicyInput) result" where
  "bind_query_request ops request =
     (if dq_tenant_id request \<noteq> nq_tenant_id (dq_request request)
        \<or> dq_policy_profile_id request \<noteq> nq_policy_profile_id (dq_request request)
      then Inl InconsistentDecisionRequest
      else bind_request_for_profile ops (dq_tenant_id request) (dq_policy_profile_id request)
        \<lparr>rv_kind = nq_kind (dq_request request),
         rv_coordinate = nq_coordinate (dq_request request),
         rv_trace_id = nq_trace_id (dq_request request),
         rv_requested_digest = nq_requested_digest (dq_request request),
         rv_explicit_version_or_integrity = nq_explicit_version_or_integrity (dq_request request)\<rparr>)"

definition bind_decision_request ::
  "PolicyRepositoryOps \<Rightarrow> DecisionRequest \<Rightarrow> (PolicyRepositoryError, PolicyInput) result" where
  "bind_decision_request ops request = bind_request ops request False"

definition bind_simulation_request ::
  "PolicyRepositoryOps \<Rightarrow> DecisionRequest \<Rightarrow> (PolicyRepositoryError, PolicyInput) result" where
  "bind_simulation_request ops request = bind_request ops request True"

definition bind_evaluation_context ::
  "PolicyRepositoryOps \<Rightarrow> DecisionRequest \<Rightarrow> (PolicyRepositoryError, BoundDecisionContext) result" where
  "bind_evaluation_context ops request = bind_request_with_context ops request False"

definition bind_simulation_context ::
  "PolicyRepositoryOps \<Rightarrow> DecisionRequest \<Rightarrow> (PolicyRepositoryError, BoundDecisionContext) result" where
  "bind_simulation_context ops request = bind_request_with_context ops request True"

section \<open>The law between the two vulnerability loaders\<close>

lemma res_bind_res_map: "res_bind (res_map g m) f = res_bind m (\<lambda>x. f (g x))"
  by (cases m) simp_all

lemma res_map_if: "res_map g (if b then x else y) = (if b then res_map g x else res_map g y)"
  by simp

locale policy_backend =
  fixes ops :: PolicyRepositoryOps
  assumes vulnerable_is_status:
    "op_load_vulnerable_above_threshold ops t c d th =
       res_map vs_vulnerable_above_threshold (op_load_vulnerability_signal_status ops t c d th)"
begin

lemma bound_context_input:
  "res_map bc_policy_input (bound_decision_context ops request) =
     bind_request_for_profile ops (rq_tenant_id request) (rq_policy_profile_id request)
       \<lparr>rv_kind = nr_kind (rq_request request),
        rv_coordinate = nr_coordinate (rq_request request),
        rv_trace_id = nr_trace_id (rq_request request),
        rv_requested_digest = nr_requested_digest (rq_request request),
        rv_explicit_version_or_integrity = nr_explicit_version_or_integrity (rq_request request)\<rparr>"
  unfolding bound_decision_context_def bind_request_for_profile_def Let_def
  by (simp only: res_map_bind vulnerable_is_status res_bind_res_map res_map_simps
      RequestContextView.simps BoundDecisionContext.simps)

lemma context_input:
  "res_map bc_policy_input (bind_request_with_context ops request b) = bind_request ops request b"
  by (simp add: bind_request_with_context_def bind_request_def res_map_bind res_map_if
      bound_context_input cong: if_cong)

end

interpretation memory: policy_backend "in_memory_ops clk r" for clk r
proof
  show "op_load_vulnerable_above_threshold (in_memory_ops clk r) t c d th =
      res_map vs_vulnerable_above_threshold
        (op_load_vulnerability_signal_status (in_memory_ops clk r) t c d th)" for t c d th
    by (cases "load_vulnerability_signal_status clk r t c d th")
      (simp_all add: in_memory_ops_def load_vulnerable_above_threshold_def)
qed

section \<open>What the in-memory store binds\<close>

text \<open>The shape of a query with the context of a decision request.\<close>

definition query_of :: "DecisionRequest \<Rightarrow> DecisionQueryRequest" where
  "query_of request =
     \<lparr>dq_tenant_id = rq_tenant_id request,
      dq_policy_profile_id = rq_policy_profile_id request,
      dq_request =
        \<lparr>nq_kind = nr_kind (rq_request request), nq_tenant_id = nr_tenant_id (rq_request request),
         nq_policy_profile_id = nr_policy_profile_id (rq_request request),
         nq_coordinate = nr_coordinate (rq_request request),
         nq_trace_id = nr_trace_id (rq_request request),
         nq_requested_digest = nr_requested_digest (rq_request request),
         nq_explicit_version_or_integrity = nr_explicit_version_or_integrity (rq_request request)\<rparr>\<rparr>"

definition unexpired :: "timestamp \<Rightarrow> timestamp option \<Rightarrow> bool" where
  "unexpired now e = is_none_or (\<lambda>t. t > now) e"

text \<open>The signal that decides \<^verbatim>\<open>known_malicious\<close>: a direct one, or one on a dependency.\<close>

definition malicious_signal ::
  "timestamp \<Rightarrow> InMemoryPolicyRepository \<Rightarrow> uuid \<Rightarrow> PackageCoordinate \<Rightarrow> ArtifactDigest option \<Rightarrow> bool" where
  "malicious_signal now r tenant coordinate digest =
     ((\<exists>s \<in> set (mr_package_signal_records r). signal_applies tenant coordinate digest s
         \<and> sg_signal s = ''known-malicious'' \<and> unexpired now (sg_expires_at s))
      \<or> ''known-malicious'' \<in> set (load_transitive_dependency_signals (\<lambda>_. now) r tenant coordinate))"

lemma list_ex_enumerate: "list_ex (\<lambda>(k, x). P x) (List.enumerate n xs) = list_ex P xs"
  by (induction xs arbitrary: n) auto

lemma load_known_malicious_match_const:
  "load_known_malicious_match (\<lambda>_. now) r tenant coordinate digest =
     Inr (\<exists>s \<in> set (mr_package_signal_records r). signal_applies tenant coordinate digest s
         \<and> sg_signal s = ''known-malicious'' \<and> unexpired now (sg_expires_at s))"
  unfolding load_known_malicious_match_def list_ex_enumerate by (simp add: list_ex_iff unexpired_def)

lemma package_signal_known_malicious:
  "st_known_malicious (package_signal_status_from_signals signals) \<longleftrightarrow> ''known-malicious'' \<in> set signals"
  unfolding package_signal_status_from_signals_def
  by (subst fold_flag [where P = st_known_malicious and Q = "\<lambda>g. g = ''known-malicious''"])
    (simp_all only: apply_signal_fields, auto simp: default_signal_status_def)

lemma load_package_signal_status_malicious:
  assumes "load_package_signal_status clk r tenant coordinate digest policy = Inr status"
  shows "st_known_malicious status \<longleftrightarrow>
     (\<exists>s \<in> set (mr_package_signal_records r). signal_applies tenant coordinate digest s
        \<and> sg_signal s = ''known-malicious'' \<and> unexpired (clk AtPackageSignals) (sg_expires_at s))
     \<or> ''known-malicious'' \<in> set (load_transitive_dependency_signals clk r tenant coordinate)"
proof -
  have "st_known_malicious status \<longleftrightarrow> st_known_malicious (package_signal_status_from_signals
      (map sg_signal (filter (\<lambda>s. signal_applies tenant coordinate digest s
         \<and> is_none_or (\<lambda>e. e > clk AtPackageSignals) (sg_expires_at s)) (mr_package_signal_records r))
       @ load_transitive_dependency_signals clk r tenant coordinate))"
    using assms by (auto simp: load_package_signal_status_def Let_def merge_scorecard_signal_status_def)
  then show ?thesis
    unfolding package_signal_known_malicious by (simp add: unexpired_def image_iff Bex_def conj_ac eq_commute)
qed

subsection \<open>The in-memory loaders never fail\<close>

lemma res_bind_total: "\<not> isl m \<Longrightarrow> res_bind m f = f (projr m)"
  by (cases m) simp_all

lemma not_isl_if: "\<not> isl a \<Longrightarrow> \<not> isl b \<Longrightarrow> \<not> isl (if c then a else b)"
  by simp

lemma not_isl_option: "\<not> isl a \<Longrightarrow> (\<And>x. \<not> isl (f x)) \<Longrightarrow> \<not> isl (case_option a f y)"
  by (cases y) simp_all

lemma loaders_total:
  "\<not> isl (load_artifact_exists r t d)"
  "\<not> isl (load_known_malicious_match clk r t c dg)"
  "\<not> isl (load_package_signal_status clk r t c dg policy)"
  "\<not> isl (load_feed_snapshot_status clk r t)"
  "\<not> isl (load_fallback_candidate r t c)"
  "\<not> isl (load_vulnerability_signal_status clk r t c dg threshold)"
  "\<not> isl (load_attestation_signal_status r t c dg)"
  "\<not> isl (load_ai_agent_injection_indicator r t c dg)"
  "\<not> isl (load_static_analysis_score_violation r t c dg)"
  "\<not> isl (load_dynamic_sandbox_policy_violation r t c dg)"
  "\<not> isl (load_override_signal_status clk r t c dg k)"
  "\<not> isl (load_known_safe_verdict r t c dg)"
  by (simp_all add: load_artifact_exists_def load_known_malicious_match_def
      load_package_signal_status_def Let_def load_feed_snapshot_status_def load_fallback_candidate_def
      load_vulnerability_signal_status_def load_attestation_signal_status_def
      load_ai_agent_injection_indicator_def load_static_analysis_score_violation_def
      load_dynamic_sandbox_policy_violation_def load_override_signal_status_def
      load_known_safe_verdict_def split: prod.split)

lemmas total_bind = res_bind_total loaders_total not_isl_if not_isl_option

text \<open>What a request binds to once its profile is found.\<close>

abbreviation bound_context ::
  "clock \<Rightarrow> InMemoryPolicyRepository \<Rightarrow> DecisionRequest \<Rightarrow> BoundDecisionContext" where
  "bound_context clk r request \<equiv> projr (bound_decision_context (in_memory_ops clk r) request)"

abbreviation bound_input ::
  "clock \<Rightarrow> InMemoryPolicyRepository \<Rightarrow> DecisionRequest \<Rightarrow> PolicyInput" where
  "bound_input clk r request \<equiv> bc_policy_input (bound_context clk r request)"

lemma bound_decision_context_memory:
  assumes "mr_profiles r (rq_tenant_id request, rq_policy_profile_id request) = Some profile"
  shows "bound_decision_context (in_memory_ops clk r) request = Inr (bound_context clk r request)"
    and "pi_tenant_id (bound_input clk r request) = rq_tenant_id request"
    and "pi_policy_profile_id (bound_input clk r request) = rq_policy_profile_id request"
    and "pi_policy_snapshot_id (bound_input clk r request) = ps_id (lp_latest_snapshot profile)"
    and "pi_trace_id (bound_input clk r request) = nr_trace_id (rq_request request)"
    and "pi_coordinate (bound_input clk r request) = nr_coordinate (rq_request request)"
    and "pi_mode (bound_input clk r request) = lp_mode profile"
  by (simp_all add: bound_decision_context_def Let_def in_memory_ops_def load_profile_def assms total_bind)

lemma bound_signals_memory:
  fixes r clk request
  defines "t \<equiv> rq_tenant_id request" and "c \<equiv> nr_coordinate (rq_request request)"
    and "d \<equiv> nr_requested_digest (rq_request request)" and "k \<equiv> nr_kind (rq_request request)"
  assumes profile: "mr_profiles r (rq_tenant_id request, rq_policy_profile_id request) = Some profile"
  shows "pi_known_malicious (bound_input clk r request) \<longleftrightarrow>
      st_known_malicious (projr (load_package_signal_status clk r t c d
        (pg_scorecard (lp_signal_configuration profile))))
      \<or> projr (load_known_malicious_match clk r t c d)"
    and "pi_active_override (bound_input clk r request) =
      os_active_override (projr (load_override_signal_status clk r t c d k))"
    and "pi_emergency_bypass (bound_input clk r request) =
      os_emergency_bypass (projr (load_override_signal_status clk r t c d k))"
    and "pi_unknown_artifact (bound_input clk r request) \<longleftrightarrow>
      (\<exists>x. d = Some x \<and> (t, dg_hex x) \<notin> mr_known_artifacts r)"
    and "pi_feed_state (bound_input clk r request) =
      fs_state (feed_snapshot_status_from_records (mr_feed_snapshot_records r) (clk AtFeeds))"
    and "pi_vulnerable_above_threshold (bound_input clk r request) =
      vs_vulnerable_above_threshold (projr (load_vulnerability_signal_status clk r t c d
        (pg_known_vulnerability_threshold (lp_signal_configuration profile))))"
  unfolding t_def c_def d_def k_def
  by (simp_all add: bound_decision_context_def Let_def in_memory_ops_def load_profile_def profile total_bind
      load_feed_snapshot_status_def load_artifact_exists_def split: option.split)

section \<open>Tenant isolation\<close>

text \<open>The store with the data of every other tenant erased; dependency, Scorecard, indicator and
  feed data belong to no tenant.\<close>

definition evidence_tenant :: "'x tagged \<Rightarrow> uuid" where
  "evidence_tenant = fst"

definition restrict_tenant :: "uuid \<Rightarrow> InMemoryPolicyRepository \<Rightarrow> InMemoryPolicyRepository" where
  "restrict_tenant t r =
     r\<lparr>mr_profiles := (\<lambda>(u, p). if u = t then mr_profiles r (u, p) else None),
       mr_registry_bindings := (\<lambda>(u, c). if u = t then mr_registry_bindings r (u, c) else None),
       mr_decision_records := filter (\<lambda>d. dd_tenant_id d = t) (mr_decision_records r),
       mr_known_artifacts := {a \<in> mr_known_artifacts r. fst a = t},
       mr_vulnerability_matches := filter (\<lambda>x. evidence_tenant x = t) (mr_vulnerability_matches r),
       mr_attestation_records := filter (\<lambda>x. evidence_tenant x = t) (mr_attestation_records r),
       mr_static_analysis_reports := filter (\<lambda>x. evidence_tenant x = t) (mr_static_analysis_reports r),
       mr_sandbox_runs := filter (\<lambda>x. evidence_tenant x = t) (mr_sandbox_runs r),
       mr_override_records := filter (\<lambda>x. or_tenant_id x = t) (mr_override_records r),
       mr_package_signal_records := filter (\<lambda>x. sg_tenant_id x = t) (mr_package_signal_records r),
       mr_openvex_statements := filter (\<lambda>x. ox_tenant_id x = t) (mr_openvex_statements r),
       mr_analysis_jobs := []\<rparr>"

lemma find_rev_filter:
  assumes "\<And>x. P x \<Longrightarrow> Q x"
  shows "find P (rev (filter Q xs)) = find P (rev xs)"
proof -
  have "find P (filter Q ys) = find P ys" for ys
    by (induction ys) (use assms in auto)
  then show ?thesis by (simp add: rev_filter)
qed

lemma filter_filter_imp:
  assumes "\<And>x. P x \<Longrightarrow> Q x"
  shows "filter P (filter Q xs) = filter P xs"
  by (induction xs) (use assms in auto)

lemma matching_evidence_restrict:
  "matching_evidence t c d (filter (\<lambda>x. evidence_tenant x = t) xs) = matching_evidence t c d xs"
  unfolding matching_evidence_def
  by (subst filter_filter_imp) (auto simp: evidence_applies_def evidence_tenant_def)

lemma active_statements_restrict:
  "active_statements now t a p (filter (\<lambda>x. ox_tenant_id x = t) xs) = active_statements now t a p xs"
  unfolding active_statements_def by (subst filter_filter_imp) auto

lemma vulnerability_loop_restrict:
  "vulnerability_loop now t p (filter (\<lambda>x. ox_tenant_id x = t) vex) th ms v u refs =
     vulnerability_loop now t p vex th ms v u refs"
  by (induction now t p vex th ms v u refs rule: vulnerability_loop.induct)
    (simp_all add: active_statements_restrict Let_def)

lemma transitive_signals_restrict:
  "load_transitive_dependency_signals clk (restrict_tenant t r) t c =
     load_transitive_dependency_signals clk r t c"
  unfolding load_transitive_dependency_signals_def restrict_tenant_def
  by (auto simp: filter_filter_imp Let_def split: option.split)

lemma loaders_restrict:
  "load_profile (restrict_tenant t r) t p = load_profile r t p"
  "load_registry_policy_binding (restrict_tenant t r) t g = load_registry_policy_binding r t g"
  "load_artifact_exists (restrict_tenant t r) t = load_artifact_exists r t"
  "load_feed_snapshot_status clk (restrict_tenant t r) t = load_feed_snapshot_status clk r t"
  "load_vulnerability_signal_status clk (restrict_tenant t r) t c d th =
     load_vulnerability_signal_status clk r t c d th"
  "load_attestation_signal_status (restrict_tenant t r) t c d = load_attestation_signal_status r t c d"
  "load_ai_agent_injection_indicator (restrict_tenant t r) t c d = load_ai_agent_injection_indicator r t c d"
  "load_static_analysis_score_violation (restrict_tenant t r) t c d =
     load_static_analysis_score_violation r t c d"
  "load_dynamic_sandbox_policy_violation (restrict_tenant t r) t c d =
     load_dynamic_sandbox_policy_violation r t c d"
  "load_override_signal_status clk (restrict_tenant t r) t c d k = load_override_signal_status clk r t c d k"
  by (simp_all add: restrict_tenant_def load_profile_def load_registry_policy_binding_def
      load_artifact_exists_def fun_eq_iff load_feed_snapshot_status_def
      load_vulnerability_signal_status_def vulnerability_loop_restrict matching_evidence_restrict
      load_attestation_signal_status_def load_ai_agent_injection_indicator_def
      load_static_analysis_score_violation_def load_dynamic_sandbox_policy_violation_def
      load_override_signal_status_def override_is_live_def filter_filter_imp)

lemma history_restrict:
  "load_fallback_candidate (restrict_tenant t r) t c = load_fallback_candidate r t c"
  "load_known_safe_verdict (restrict_tenant t r) t c d = load_known_safe_verdict r t c d"
proof -
  have "mr_decision_records (restrict_tenant t r) = filter (\<lambda>d. dd_tenant_id d = t) (mr_decision_records r)"
    by (simp add: restrict_tenant_def)
  then show "load_fallback_candidate (restrict_tenant t r) t c = load_fallback_candidate r t c"
    and "load_known_safe_verdict (restrict_tenant t r) t c d = load_known_safe_verdict r t c d"
    unfolding load_fallback_candidate_def load_known_safe_verdict_def
    by (simp_all only:) (subst find_rev_filter; simp)+
qed

lemma load_package_signal_status_restrict:
  "load_package_signal_status clk (restrict_tenant t r) t c d policy =
     load_package_signal_status clk r t c d policy"
proof -
  have "filter (\<lambda>s. signal_applies t c d s \<and> is_none_or (\<lambda>e. e > clk AtPackageSignals) (sg_expires_at s))
          (mr_package_signal_records (restrict_tenant t r)) =
        filter (\<lambda>s. signal_applies t c d s \<and> is_none_or (\<lambda>e. e > clk AtPackageSignals) (sg_expires_at s))
          (mr_package_signal_records r)"
    by (simp add: restrict_tenant_def filter_filter_imp signal_applies_def)
  moreover have "load_cross_ecosystem_ioc_risk (restrict_tenant t r) t c d
      = load_cross_ecosystem_ioc_risk r t c d"
    by (simp add: load_cross_ecosystem_ioc_risk_def load_sandbox_destination_ioc_risk_def
        load_behavioral_fingerprint_ioc_risk_def latest_ioc_records_def restrict_tenant_def
        matching_evidence_restrict)
  moreover have "load_scorecard_signal_status (restrict_tenant t r) c policy
      = load_scorecard_signal_status r c policy"
    by (simp add: load_scorecard_signal_status_def restrict_tenant_def cong: option.case_cong)
  ultimately show ?thesis
    unfolding load_package_signal_status_def by (simp add: transitive_signals_restrict)
qed

lemma load_known_malicious_match_restrict:
  "load_known_malicious_match (\<lambda>_. now) (restrict_tenant t r) t c d =
     load_known_malicious_match (\<lambda>_. now) r t c d"
  by (auto simp: load_known_malicious_match_const restrict_tenant_def signal_applies_def)

section \<open>Properties\<close>


text \<open>A query binds like a simulation. For a consistent request through a known registry, the
  query with the same context gets the input that the simulation gets, errors included.\<close>

lemma query_binds_like_simulation:
  assumes "context_matches request"
    and "mr_registry_bindings r (rq_tenant_id request, rq_registry_config_id request) = Some binding"
  shows "bind_query_request (in_memory_ops clk r) (query_of request) =
    bind_simulation_request (in_memory_ops clk r) request"
proof -
  have "load_registry_policy_binding r (rq_tenant_id request) (rq_registry_config_id request) = Inr binding"
    using assms(2) by (simp add: load_registry_policy_binding_def)
  moreover have "op_load_registry_policy_binding (in_memory_ops clk r) = load_registry_policy_binding r"
    by (simp add: in_memory_ops_def)
  ultimately show ?thesis
    using assms(1)
    by (simp add: bind_query_request_def bind_simulation_request_def bind_request_def query_of_def
        context_matches_def)
qed

definition sample_request :: DecisionRequest where
  "sample_request =
     \<lparr>rq_tenant_id = 1, rq_registry_config_id = 4, rq_policy_profile_id = 2,
      rq_request =
        \<lparr>nr_kind = KindArtifact, nr_tenant_id = 1, nr_registry_config_id = 4, nr_policy_profile_id = 2,
         nr_coordinate = sample_coordinate, nr_trace_id = ''trace-1'',
         nr_requested_digest = Some sample_digest, nr_source_url = Some ''https://registry/left-pad'',
         nr_explicit_version_or_integrity = True\<rparr>\<rparr>"

definition sample_binding :: RegistryPolicyBinding where
  "sample_binding =
     \<lparr>rb_tenant_id = 1, rb_registry_config_id = 4, rb_policy_profile_id = 2, rb_mode = ModeEnforce\<rparr>"

definition sample_repository :: InMemoryPolicyRepository where
  "sample_repository =
     upsert_registry_binding sample_binding (upsert_profile sample_profile empty_repository)"

lemma sample_repository_facts:
  "mr_profiles sample_repository (1, 2) = Some sample_profile"
  "mr_registry_bindings sample_repository (1, 4) = Some sample_binding"
  "context_matches sample_request"
  "rq_tenant_id sample_request = 1" "rq_policy_profile_id sample_request = 2"
  "rq_registry_config_id sample_request = 4"
  by (simp_all add: sample_repository_def upsert_registry_binding_def upsert_profile_def sample_binding_def
      sample_profile_def context_matches_def sample_request_def)

lemma query_binds_like_simulation_witness:
  "bind_query_request (in_memory_ops (\<lambda>_. 5) sample_repository) (query_of sample_request) =
     bind_simulation_request (in_memory_ops (\<lambda>_. 5) sample_repository) sample_request"
  by (rule query_binds_like_simulation [of _ _ sample_binding]) (simp_all add: sample_repository_facts)

text \<open>When binding over the in-memory store succeeds and how it fails, in this order: a request
  inconsistent with its normalised part, an unknown registry, a registry bound to another
  profile (unless simulating), an unknown profile; in every other case it succeeds and the input
  carries the identity of the request and the mode and snapshot of the profile.\<close>

lemma memory_binding_outcome:
  "case bind_request_with_context (in_memory_ops clk r) request b of
     Inl e \<Rightarrow> e =
       (if \<not> context_matches request then InconsistentDecisionRequest
        else if mr_registry_bindings r (rq_tenant_id request, rq_registry_config_id request) = None
        then RegistryConfigNotFound
        else if \<not> b \<and> map_option rb_policy_profile_id
             (mr_registry_bindings r (rq_tenant_id request, rq_registry_config_id request))
             \<noteq> Some (rq_policy_profile_id request)
        then RegistryPolicyMismatch else ProfileNotFound)
   | Inr ctx \<Rightarrow>
       context_matches request
       \<and> (\<exists>binding profile.
            mr_registry_bindings r (rq_tenant_id request, rq_registry_config_id request) = Some binding
            \<and> (\<not> b \<longrightarrow> rb_policy_profile_id binding = rq_policy_profile_id request)
            \<and> mr_profiles r (rq_tenant_id request, rq_policy_profile_id request) = Some profile
            \<and> pi_tenant_id (bc_policy_input ctx) = rq_tenant_id request
            \<and> pi_policy_profile_id (bc_policy_input ctx) = rq_policy_profile_id request
            \<and> pi_policy_snapshot_id (bc_policy_input ctx) = ps_id (lp_latest_snapshot profile)
            \<and> pi_mode (bc_policy_input ctx) = lp_mode profile
            \<and> pi_coordinate (bc_policy_input ctx) = nr_coordinate (rq_request request)
            \<and> pi_trace_id (bc_policy_input ctx) = nr_trace_id (rq_request request))"
proof -
  have op: "op_load_registry_policy_binding (in_memory_ops clk r) = load_registry_policy_binding r"
    by (simp add: in_memory_ops_def)
  show ?thesis
  proof (cases "mr_profiles r (rq_tenant_id request, rq_policy_profile_id request)")
    case None
    then have "bound_decision_context (in_memory_ops clk r) request = Inl ProfileNotFound"
      by (simp add: bound_decision_context_def Let_def in_memory_ops_def load_profile_def)
    then show ?thesis
      by (cases "mr_registry_bindings r (rq_tenant_id request, rq_registry_config_id request)")
        (simp_all add: bind_request_with_context_def op load_registry_policy_binding_def)
  next
    case (Some profile)
    obtain ctx where c: "bound_decision_context (in_memory_ops clk r) request = Inr ctx"
      using bound_decision_context_memory(1) [OF Some] by blast
    note fields = bound_decision_context_memory(2-7) [OF Some, of clk, unfolded c sum.sel]
    show ?thesis
      by (cases "mr_registry_bindings r (rq_tenant_id request, rq_registry_config_id request)")
        (auto simp: bind_request_with_context_def op load_registry_policy_binding_def c fields Some)
  qed
qed

lemma memory_binding_outcome_witness:
  "\<exists>ctx. bind_request_with_context (in_memory_ops (\<lambda>_. 5) sample_repository) sample_request False = Inr ctx
     \<and> pi_policy_snapshot_id (bc_policy_input ctx) = 3 \<and> pi_mode (bc_policy_input ctx) = ModeEnforce"
proof -
  have p: "mr_profiles sample_repository (rq_tenant_id sample_request, rq_policy_profile_id sample_request)
      = Some sample_profile" by (simp add: sample_repository_facts)
  have "op_load_registry_policy_binding (in_memory_ops (\<lambda>_. 5) sample_repository)
      = load_registry_policy_binding sample_repository" by (simp add: in_memory_ops_def)
  moreover obtain ctx where "bound_decision_context (in_memory_ops (\<lambda>_. 5) sample_repository) sample_request = Inr ctx"
    using bound_decision_context_memory(1) [OF p] by blast
  ultimately have b: "bind_request_with_context (in_memory_ops (\<lambda>_. 5) sample_repository) sample_request False = Inr ctx"
    by (simp add: bind_request_with_context_def load_registry_policy_binding_def sample_repository_facts
        sample_binding_def)
  have "pi_policy_snapshot_id (bc_policy_input ctx) = 3 \<and> pi_mode (bc_policy_input ctx) = ModeEnforce"
    using memory_binding_outcome [where clk = "\<lambda>_. 5" and r = sample_repository and request = sample_request
        and b = False] by (simp add: b sample_repository_facts sample_profile_def)
  with b show ?thesis by blast
qed

text \<open>C5: tenants are isolated. What a request binds to depends only on the data of its own tenant
  and on the shared feed data: erasing the profiles, registry bindings, decisions, artifacts,
  evidence, signals, overrides and statements of every other tenant changes nothing.\<close>

theorem tenant_isolation:
  "bind_request_with_context (in_memory_ops (\<lambda>_. now) (restrict_tenant (rq_tenant_id request) r)) request b =
     bind_request_with_context (in_memory_ops (\<lambda>_. now) r) request b"
  unfolding bind_request_with_context_def bound_decision_context_def in_memory_ops_def Let_def
    PolicyRepositoryOps.simps loaders_restrict history_restrict load_package_signal_status_restrict
    load_known_malicious_match_restrict
  by (rule refl)

end
