(* ===== verification/Expiring_Store.thy ===== *)
theory Expiring_Store
  imports Rust_Prelude
begin

text \<open>
  The contract of the caches with deadlines: the decision cache of the Triage Counter and the
  decision, metadata and artifact caches of Mosquito Net. An entry is stored under a key with
  a deadline, replaces the previous entry of that key, and is returned while the deadline is
  in the future. The consequences for a sequence of stores are proved once here; every cache of
  the model interprets the locale.
\<close>

section \<open>Stores in sequence\<close>

text \<open>The last pair for a key in a list of stores.\<close>

definition last_store :: "('k \<times> 'v \<times> timestamp) list \<Rightarrow> 'k \<Rightarrow> ('v \<times> timestamp) option" where
  "last_store evs k = map_of (rev evs) k"

lemma last_store_snoc:
  "last_store (evs @ [(k', v, e)]) k = (if k = k' then Some (v, e) else last_store evs k)"
  by (simp add: last_store_def)

lemma last_store_mem: "last_store evs k = Some (v, e) \<Longrightarrow> (k, v, e) \<in> set evs"
  unfolding last_store_def by (drule map_of_SomeD) simp

locale expiring_store =
  fixes store :: "'k \<Rightarrow> 'v \<Rightarrow> timestamp \<Rightarrow> 's \<Rightarrow> 's"
    and fetch :: "timestamp \<Rightarrow> 'k \<Rightarrow> 's \<Rightarrow> 'v option"
  assumes fetch_same: "fetch now k (store k v e s) = (if e > now then Some v else None)"
    and fetch_other: "k \<noteq> k' \<Longrightarrow> fetch now k (store k' v e s) = fetch now k s"
begin

lemma fetch_run:
  "fetch now k (fold (\<lambda>(k, v, e). store k v e) evs s) =
     (case last_store evs k of
        None \<Rightarrow> fetch now k s
      | Some (v, e) \<Rightarrow> if e > now then Some v else None)"
proof (induction evs rule: rev_induct)
  case Nil
  show ?case by (simp add: last_store_def)
next
  case (snoc x evs)
  obtain k' v e where x: "x = (k', v, e)" by (cases x)
  show ?case
  proof (cases "k = k'")
    case True
    then show ?thesis by (simp add: x last_store_snoc fetch_same)
  next
    case False
    with snoc show ?thesis by (simp add: x last_store_snoc fetch_other)
  qed
qed

text \<open>A hit comes from a store of that key whose deadline has not passed.\<close>

lemma fetch_run_hit:
  assumes "fetch now k s = None" "fetch now k (fold (\<lambda>(k, v, e). store k v e) evs s) = Some v"
  shows "\<exists>e. (k, v, e) \<in> set evs \<and> e > now"
  using assms by (auto simp: fetch_run split: option.splits if_splits) (metis last_store_mem)

lemma fetch_expires: "e \<le> now \<Longrightarrow> fetch now k (store k v e s) = None"
  by (simp add: fetch_same)

end

end
