(* ===== verification/Triage_Service.thy ===== *)
theory Triage_Service
  imports Request_Binding Expiring_Store
begin

text \<open>
  The Triage Counter service, \<^verbatim>\<open>services/triage-counter/src/lib.rs\<close>: the decision cache, the
  evaluate, simulate and query operations over the in-memory repository, their HTTP handlers
  with the mapping of errors to statuses, and the service as a state machine whose steps are
  whole requests.

  A handler takes the locks of the cache and of the repository one after the other; the model
  runs each request as one step. The clock readings and the identifier a request draws are the
  fields of \<open>service_env\<close>. The display of a \<^verbatim>\<open>Uuid\<close> is the argument \<open>show_uuid\<close>; what the
  cache keys need of it is \<open>uuid_display_ok\<close>. The Prometheus registry is the list of the
  observations made.
\<close>

section \<open>The decision cache\<close>

record CachedDecision =
  cd_response :: DecisionResponse
  cd_evidence_references :: "string list"
  cd_expires_at :: timestamp

record DecisionCache =
  dc_entries :: "string \<rightharpoonup> CachedDecision"
  dc_ttl :: timestamp

definition cache_new :: "timestamp \<Rightarrow> DecisionCache" where
  "cache_new ttl = \<lparr>dc_entries = Map.empty, dc_ttl = ttl\<rparr>"

definition cache_get :: "timestamp \<Rightarrow> string \<Rightarrow> DecisionCache \<Rightarrow> CachedDecision option" where
  "cache_get now cache_key c = opt_filter (\<lambda>entry. cd_expires_at entry > now) (dc_entries c cache_key)"

definition cache_put ::
  "timestamp \<Rightarrow> string \<Rightarrow> DecisionResponse \<Rightarrow> string list \<Rightarrow> DecisionCache \<Rightarrow> DecisionCache" where
  "cache_put now cache_key response evidence c =
     c\<lparr>dc_entries := (dc_entries c)(cache_key \<mapsto>
        \<lparr>cd_response = response, cd_evidence_references = evidence, cd_expires_at = now + dc_ttl c\<rparr>)\<rparr>"

section \<open>Service state\<close>

datatype MetricEvent =
    CacheObserved uuid uuid string
  | DecisionObserved uuid uuid PolicyDecision FeedState

record AppState =
  as_policy_repository :: InMemoryPolicyRepository
  as_decision_cache :: DecisionCache
  as_metrics :: "MetricEvent list"

definition second :: timestamp where
  "second = 1000000000"

definition app_state_new :: "InMemoryPolicyRepository \<Rightarrow> AppState" where
  "app_state_new r =
     \<lparr>as_policy_repository = r, as_decision_cache = cache_new (30 * second), as_metrics = []\<rparr>"

record service_env =
  ev_clk :: clock
  ev_lookup_now :: timestamp
  ev_store_now :: timestamp
  ev_job_id :: uuid
  ev_job_created_at :: timestamp
  ev_job_updated_at :: timestamp

section \<open>Cache keys\<close>

definition decision_cache_key :: "(uuid \<Rightarrow> string) \<Rightarrow> DecisionRequest \<Rightarrow> string" where
  "decision_cache_key show_uuid request =
     show_uuid (rq_tenant_id request) @ '':'' @ show_uuid (rq_registry_config_id request) @ '':''
     @ (case nr_kind (rq_request request) of KindMetadata \<Rightarrow> ''metadata'' | KindArtifact \<Rightarrow> ''artifact'')
     @ '':'' @ purl (nr_coordinate (rq_request request)) @ '':''
     @ unwrap_or ''none'' (map_option dg_hex (nr_requested_digest (rq_request request)))"

definition decision_query_cache_key :: "(uuid \<Rightarrow> string) \<Rightarrow> DecisionQueryRequest \<Rightarrow> string" where
  "decision_query_cache_key show_uuid request =
     ''query:'' @ show_uuid (dq_tenant_id request) @ '':'' @ show_uuid (dq_policy_profile_id request) @ '':''
     @ (case nq_kind (dq_request request) of KindMetadata \<Rightarrow> ''metadata'' | KindArtifact \<Rightarrow> ''artifact'')
     @ '':'' @ (case nq_requested_digest (dq_request request) of
          Some digest \<Rightarrow> purl (nq_coordinate (dq_request request)) @ '':'' @ dg_hex digest
        | None \<Rightarrow> purl (nq_coordinate (dq_request request)))"

section \<open>Operations\<close>

record EvaluatedDecision =
  ed_response :: DecisionResponse
  ed_evidence_references :: "string list"

definition append_openvex_rationale :: "DecisionResponse \<Rightarrow> string \<Rightarrow> DecisionResponse" where
  "append_openvex_rationale response note =
     (if \<not> list_ex (\<lambda>r. r = note) (rs_rationale response)
      then response\<lparr>rs_rationale := rs_rationale response @ [note]\<rparr> else response)"

definition openvex_note :: string where
  "openvex_note = ''vulnerability is under investigation per VEX statement''"

definition evaluate_with_policy_repository_with_context ::
  "service_env \<Rightarrow> DecisionRequest \<Rightarrow> InMemoryPolicyRepository
     \<Rightarrow> (PolicyRepositoryError, EvaluatedDecision) result \<times> InMemoryPolicyRepository" where
  "evaluate_with_policy_repository_with_context env request r =
     (case bind_evaluation_context (in_memory_ops (ev_clk env) r) request of
        Inl e \<Rightarrow> (Inl e, r)
      | Inr bound \<Rightarrow>
          let evidence = bc_evidence_references bound;
              response0 = evaluate (bc_policy_input bound);
              response = (if bc_vulnerability_under_investigation bound
                          then append_openvex_rationale response0 openvex_note else response0)
          in (case persist_evaluated_decision_record request response evidence r of
                (Inl e, r1) \<Rightarrow> (Inl e, r1)
              | (Inr _, r1) \<Rightarrow>
                  (case create_analysis_job_if_needed (ev_job_id env) (ev_job_created_at env)
                          (ev_job_updated_at env) request response r1 of
                     (Inl e, r2) \<Rightarrow> (Inl e, r2)
                   | (Inr _, r2) \<Rightarrow>
                       (Inr \<lparr>ed_response = response, ed_evidence_references = evidence\<rparr>, r2))))"

definition evaluate_with_state ::
  "(uuid \<Rightarrow> string) \<Rightarrow> service_env \<Rightarrow> DecisionRequest \<Rightarrow> AppState
     \<Rightarrow> (PolicyRepositoryError, DecisionResponse) result \<times> AppState" where
  "evaluate_with_state show_uuid env request st =
     (let cache_key = decision_cache_key show_uuid request in
      case cache_get (ev_lookup_now env) cache_key (as_decision_cache st) of
        Some cached \<Rightarrow>
          let response = (cd_response cached)\<lparr>rs_trace_id := nr_trace_id (rq_request request)\<rparr>;
              st1 = st\<lparr>as_metrics := as_metrics st
                @ [CacheObserved (rq_tenant_id request) (rq_registry_config_id request) ''hit'']\<rparr>
          in (case persist_evaluated_decision_record request response (cd_evidence_references cached)
                     (as_policy_repository st1) of
                (Inl e, r1) \<Rightarrow> (Inl e, st1\<lparr>as_policy_repository := r1\<rparr>)
              | (Inr _, r1) \<Rightarrow> (Inr response, st1\<lparr>as_policy_repository := r1\<rparr>))
      | None \<Rightarrow>
          let st1 = st\<lparr>as_metrics := as_metrics st
                @ [CacheObserved (rq_tenant_id request) (rq_registry_config_id request) ''miss'']\<rparr>
          in (case evaluate_with_policy_repository_with_context env request (as_policy_repository st1) of
                (Inl e, r1) \<Rightarrow> (Inl e, st1\<lparr>as_policy_repository := r1\<rparr>)
              | (Inr evaluated, r1) \<Rightarrow>
                  (Inr (ed_response evaluated),
                   st1\<lparr>as_policy_repository := r1,
                       as_decision_cache := cache_put (ev_store_now env) cache_key
                         (ed_response evaluated) (ed_evidence_references evaluated)
                         (as_decision_cache st1)\<rparr>)))"

definition simulate_with_state ::
  "(uuid \<Rightarrow> string) \<Rightarrow> service_env \<Rightarrow> DecisionRequest \<Rightarrow> AppState
     \<Rightarrow> (PolicyRepositoryError, DecisionResponse) result \<times> AppState" where
  "simulate_with_state show_uuid env request st =
     (let cache_key = decision_cache_key show_uuid request in
      case cache_get (ev_lookup_now env) cache_key (as_decision_cache st) of
        Some cached \<Rightarrow>
          (Inr ((cd_response cached)\<lparr>rs_trace_id := nr_trace_id (rq_request request)\<rparr>), st)
      | None \<Rightarrow>
          (case bind_simulation_context (in_memory_ops (ev_clk env) (as_policy_repository st)) request of
             Inl e \<Rightarrow> (Inl e, st)
           | Inr bound \<Rightarrow>
               let response = evaluate (bc_policy_input bound)
               in (Inr response,
                   st\<lparr>as_decision_cache := cache_put (ev_store_now env) cache_key response
                        (bc_evidence_references bound) (as_decision_cache st)\<rparr>)))"

definition query_with_policy_repository ::
  "clock \<Rightarrow> DecisionQueryRequest \<Rightarrow> InMemoryPolicyRepository
     \<Rightarrow> (PolicyRepositoryError, DecisionResponse) result" where
  "query_with_policy_repository clk request r =
     res_bind (bind_query_request (in_memory_ops clk r) request) (\<lambda>bound_input. Inr (evaluate bound_input))"

definition query_with_state ::
  "(uuid \<Rightarrow> string) \<Rightarrow> service_env \<Rightarrow> DecisionQueryRequest \<Rightarrow> AppState
     \<Rightarrow> (PolicyRepositoryError, DecisionResponse) result \<times> AppState" where
  "query_with_state show_uuid env request st =
     (let cache_key = decision_query_cache_key show_uuid request in
      case cache_get (ev_lookup_now env) cache_key (as_decision_cache st) of
        Some cached \<Rightarrow>
          (Inr ((cd_response cached)\<lparr>rs_trace_id := nq_trace_id (dq_request request)\<rparr>), st)
      | None \<Rightarrow>
          (case query_with_policy_repository (ev_clk env) request (as_policy_repository st) of
             Inl e \<Rightarrow> (Inl e, st)
           | Inr response \<Rightarrow>
               (Inr response,
                st\<lparr>as_decision_cache := cache_put (ev_store_now env) cache_key response []
                     (as_decision_cache st)\<rparr>)))"

section \<open>HTTP handlers\<close>

definition api_error_response :: "PolicyRepositoryError \<Rightarrow> nat \<times> string" where
  "api_error_response e =
     (case e of
        ProfileNotFound \<Rightarrow> (404, ''policy profile or snapshot was not found'')
      | SnapshotNotFound \<Rightarrow> (404, ''policy profile or snapshot was not found'')
      | RegistryConfigNotFound \<Rightarrow> (404, ''registry configuration was not found'')
      | InconsistentDecisionRequest \<Rightarrow> (400, ''decision request policy context is invalid'')
      | RegistryPolicyMismatch \<Rightarrow> (400, ''decision request policy context is invalid'')
      | InconsistentDecisionResponse \<Rightarrow> (500, ''decision persistence context is invalid'')
      | InvalidFeedSnapshotAge \<Rightarrow> (500, ''decision persistence context is invalid'')
      | MissingArtifactDigestForAnalysisJob \<Rightarrow> (500, ''decision persistence context is invalid'')
      | MissingArtifactSourceUrlForAnalysisJob \<Rightarrow> (500, ''decision persistence context is invalid'')
      | InvalidPolicyDocument _ \<Rightarrow> (500, ''policy snapshot is invalid'')
      | InvalidPolicyMode \<Rightarrow> (500, ''policy snapshot is invalid'')
      | UnsupportedPolicyRuleAction _ _ \<Rightarrow> (500, ''policy snapshot is invalid'')
      | InvalidSnapshotHash _ \<Rightarrow> (500, ''policy snapshot is invalid'')
      | Database _ \<Rightarrow> (503, ''policy repository is unavailable''))"

definition evaluate_decision ::
  "(uuid \<Rightarrow> string) \<Rightarrow> service_env \<Rightarrow> DecisionRequest \<Rightarrow> AppState
     \<Rightarrow> (nat \<times> string, DecisionResponse) result \<times> AppState" where
  "evaluate_decision show_uuid env request st =
     (case evaluate_with_state show_uuid env request st of
        (Inl e, st1) \<Rightarrow> (Inl (api_error_response e), st1)
      | (Inr response, st1) \<Rightarrow>
          (Inr response,
           st1\<lparr>as_metrics := as_metrics st1
             @ [DecisionObserved (rq_tenant_id request) (rq_registry_config_id request)
                  (rs_decision response) (rs_feed_state response)]\<rparr>))"

definition simulate_decision ::
  "(uuid \<Rightarrow> string) \<Rightarrow> service_env \<Rightarrow> DecisionRequest \<Rightarrow> AppState
     \<Rightarrow> (nat \<times> string, DecisionResponse) result \<times> AppState" where
  "simulate_decision show_uuid env request st =
     (case simulate_with_state show_uuid env request st of (r, st1) \<Rightarrow> (map_err api_error_response r, st1))"

definition query_decision ::
  "(uuid \<Rightarrow> string) \<Rightarrow> service_env \<Rightarrow> DecisionQueryRequest \<Rightarrow> AppState
     \<Rightarrow> (nat \<times> string, DecisionResponse) result \<times> AppState" where
  "query_decision show_uuid env request st =
     (case query_with_state show_uuid env request st of (r, st1) \<Rightarrow> (map_err api_error_response r, st1))"

datatype triage_request =
    EvaluateRequest DecisionRequest
  | SimulateRequest DecisionRequest
  | QueryRequest DecisionQueryRequest

definition handle ::
  "(uuid \<Rightarrow> string) \<Rightarrow> service_env \<Rightarrow> triage_request \<Rightarrow> AppState
     \<Rightarrow> (nat \<times> string, DecisionResponse) result \<times> AppState" where
  "handle show_uuid env request st =
     (case request of
        EvaluateRequest q \<Rightarrow> evaluate_decision show_uuid env q st
      | SimulateRequest q \<Rightarrow> simulate_decision show_uuid env q st
      | QueryRequest q \<Rightarrow> query_decision show_uuid env q st)"

text \<open>The states the service reaches: requests and repository writes of other processes in any
  order.\<close>

inductive reachable :: "(uuid \<Rightarrow> string) \<Rightarrow> AppState \<Rightarrow> bool" for show_uuid where
  start: "reachable show_uuid (app_state_new r)"
| request: "reachable show_uuid st \<Longrightarrow> handle show_uuid env q st = (result, st') \<Longrightarrow> reachable show_uuid st'"
| repository: "reachable show_uuid st \<Longrightarrow> reachable show_uuid (st\<lparr>as_policy_repository := r\<rparr>)"

inductive_cases reachable_requestE: "reachable show_uuid st"

section \<open>The cache is an expiring store\<close>

definition cache_store :: "string \<Rightarrow> DecisionResponse \<times> string list \<Rightarrow> timestamp \<Rightarrow> DecisionCache \<Rightarrow> DecisionCache" where
  "cache_store k v e c = cache_put (e - dc_ttl c) k (fst v) (snd v) c"

definition cache_fetch :: "timestamp \<Rightarrow> string \<Rightarrow> DecisionCache \<Rightarrow> (DecisionResponse \<times> string list) option" where
  "cache_fetch now k c = map_option (\<lambda>d. (cd_response d, cd_evidence_references d)) (cache_get now k c)"

interpretation decisions: expiring_store cache_store cache_fetch
  by unfold_locales (simp_all add: cache_store_def cache_fetch_def cache_put_def cache_get_def)

lemma cache_get_put:
  "cache_get now k (cache_put t k' resp refs c) =
     (if k = k' then (if t + dc_ttl c > now
        then Some \<lparr>cd_response = resp, cd_evidence_references = refs, cd_expires_at = t + dc_ttl c\<rparr> else None)
      else cache_get now k c)"
  by (simp add: cache_get_def cache_put_def)

section \<open>Keys determine their parts\<close>

definition uuid_display_ok :: "(uuid \<Rightarrow> string) \<Rightarrow> bool" where
  "uuid_display_ok show_uuid =
     (inj show_uuid \<and> (\<forall>u. CHR '':'' \<notin> set (show_uuid u)) \<and> (\<forall>u. show_uuid u \<noteq> ''query''))"

lemma colon_prefix_eq:
  assumes "a @ CHR '':'' # b = a' @ CHR '':'' # b'" "CHR '':'' \<notin> set a" "CHR '':'' \<notin> set a'"
  shows "a = a' \<and> b = b'"
proof -
  have "split_once CHR '':'' (a @ CHR '':'' # b) = Some (a, b)" using assms(2) by (simp add: split_once_Some)
  moreover have "split_once CHR '':'' (a' @ CHR '':'' # b') = Some (a', b')"
    using assms(3) by (simp add: split_once_Some)
  ultimately have "Some (a, b) = Some (a', b')" by (metis assms(1))
  then show ?thesis by simp
qed

lemma colon_suffix_eq:
  assumes "a @ CHR '':'' # b = a' @ CHR '':'' # b'" "CHR '':'' \<notin> set b" "CHR '':'' \<notin> set b'"
  shows "a = a' \<and> b = b'"
proof -
  have "rev (a @ CHR '':'' # b) = rev (a' @ CHR '':'' # b')" using assms(1) by (rule arg_cong)
  then have "rev b @ CHR '':'' # rev a = rev b' @ CHR '':'' # rev a'" by simp
  then have "rev b = rev b' \<and> rev a = rev a'" by (rule colon_prefix_eq) (use assms(2,3) in simp_all)
  then show ?thesis by simp
qed

lemma decision_cache_key_parts:
  assumes show_ok: "uuid_display_ok show_uuid"
    and eq: "decision_cache_key show_uuid q = decision_cache_key show_uuid q'"
  shows "rq_tenant_id q = rq_tenant_id q' \<and> rq_registry_config_id q = rq_registry_config_id q'
    \<and> nr_kind (rq_request q) = nr_kind (rq_request q')
    \<and> purl (nr_coordinate (rq_request q)) @ '':''
        @ unwrap_or ''none'' (map_option dg_hex (nr_requested_digest (rq_request q)))
      = purl (nr_coordinate (rq_request q')) @ '':''
        @ unwrap_or ''none'' (map_option dg_hex (nr_requested_digest (rq_request q')))"
proof -
  let ?k = "\<lambda>q. case nr_kind (rq_request q) of KindMetadata \<Rightarrow> ''metadata'' | KindArtifact \<Rightarrow> ''artifact''"
  let ?rest = "\<lambda>q. purl (nr_coordinate (rq_request q)) @ '':''
        @ unwrap_or ''none'' (map_option dg_hex (nr_requested_digest (rq_request q)))"
  have nc: "CHR '':'' \<notin> set (show_uuid u)" for u using show_ok by (simp add: uuid_display_ok_def)
  have kc: "CHR '':'' \<notin> set (?k q)" for q by (cases "nr_kind (rq_request q)") simp_all
  from eq have 1: "show_uuid (rq_tenant_id q) @ CHR '':'' # show_uuid (rq_registry_config_id q) @ CHR '':''
        # ?k q @ CHR '':'' # ?rest q =
      show_uuid (rq_tenant_id q') @ CHR '':'' # show_uuid (rq_registry_config_id q') @ CHR '':''
        # ?k q' @ CHR '':'' # ?rest q'"
    by (simp add: decision_cache_key_def)
  from colon_prefix_eq [OF 1 nc nc]
  have t: "show_uuid (rq_tenant_id q) = show_uuid (rq_tenant_id q')"
    and 2: "show_uuid (rq_registry_config_id q) @ CHR '':'' # ?k q @ CHR '':'' # ?rest q =
      show_uuid (rq_registry_config_id q') @ CHR '':'' # ?k q' @ CHR '':'' # ?rest q'" by auto
  from colon_prefix_eq [OF 2 nc nc]
  have g: "show_uuid (rq_registry_config_id q) = show_uuid (rq_registry_config_id q')"
    and 3: "?k q @ CHR '':'' # ?rest q = ?k q' @ CHR '':'' # ?rest q'" by auto
  from colon_prefix_eq [OF 3 kc kc] have k: "?k q = ?k q'" and rest: "?rest q = ?rest q'" by auto
  from k have "nr_kind (rq_request q) = nr_kind (rq_request q')"
    by (cases "nr_kind (rq_request q)"; cases "nr_kind (rq_request q')") simp_all
  with t g rest show_ok show ?thesis by (auto simp: uuid_display_ok_def inj_eq)
qed

lemma query_cache_key_parts:
  assumes show_ok: "uuid_display_ok show_uuid"
    and eq: "decision_query_cache_key show_uuid q = decision_query_cache_key show_uuid q'"
  shows "dq_tenant_id q = dq_tenant_id q' \<and> dq_policy_profile_id q = dq_policy_profile_id q'"
proof -
  have nc: "CHR '':'' \<notin> set (show_uuid u)" for u using show_ok by (simp add: uuid_display_ok_def)
  from eq obtain b b' where 1: "show_uuid (dq_tenant_id q) @ CHR '':'' # show_uuid (dq_policy_profile_id q)
        @ CHR '':'' # b = show_uuid (dq_tenant_id q') @ CHR '':'' # show_uuid (dq_policy_profile_id q')
        @ CHR '':'' # b'"
    by (auto simp: decision_query_cache_key_def)
  from colon_prefix_eq [OF 1 nc nc]
  have t: "show_uuid (dq_tenant_id q) = show_uuid (dq_tenant_id q')"
    and 2: "show_uuid (dq_policy_profile_id q) @ CHR '':'' # b
      = show_uuid (dq_policy_profile_id q') @ CHR '':'' # b'" by auto
  from colon_prefix_eq [OF 2 nc nc] t show_ok show ?thesis by (auto simp: uuid_display_ok_def inj_eq)
qed

lemma query_key_not_decision_key:
  assumes "uuid_display_ok show_uuid"
  shows "decision_query_cache_key show_uuid q \<noteq> decision_cache_key show_uuid q'"
proof
  assume "decision_query_cache_key show_uuid q = decision_cache_key show_uuid q'"
  then obtain b b' where "''query'' @ CHR '':'' # b = show_uuid (rq_tenant_id q') @ CHR '':'' # b'"
    by (auto simp: decision_query_cache_key_def decision_cache_key_def)
  from colon_prefix_eq [OF this] assms show False by (auto simp: uuid_display_ok_def)
qed

section \<open>What an operation changes\<close>

lemma persist_cases:
  assumes "persist_evaluated_decision_record q resp refs r = (res, r1)"
  obtains (Error) "res = Inl InconsistentDecisionResponse" "r1 = r"
      "\<not> (rs_tenant_id resp = rq_tenant_id q \<and> rs_policy_profile_id resp = rq_policy_profile_id q
         \<and> rs_trace_id resp = nr_trace_id (rq_request q))"
  | (Stored) rec where "res = Inr ()" "r1 = r\<lparr>mr_decision_records := mr_decision_records r @ [rec]\<rparr>"
      "rs_tenant_id resp = rq_tenant_id q" "rs_policy_profile_id resp = rq_policy_profile_id q"
      "rs_trace_id resp = nr_trace_id (rq_request q)"
      "persisted_decision_record_with_evidence_references q resp refs = Inr rec"
  using assms
  by (auto simp: persist_evaluated_decision_record_def
      persisted_decision_record_with_evidence_references_def split: if_splits)

lemma persisted_record_fields:
  assumes "persisted_decision_record_with_evidence_references q resp refs = Inr rec"
  shows "dd_tenant_id rec = rq_tenant_id q" "dd_decision rec = rs_decision resp"
    "dd_trace_id rec = nr_trace_id (rq_request q)" "dd_evidence_references rec = refs"
    "dd_policy_snapshot_id rec = rs_policy_snapshot_id resp" "dd_rationale rec = rs_rationale resp"
    "pk_coordinate (dd_package_request rec) = nr_coordinate (rq_request q)"
    "dd_artifact_digest rec = nr_requested_digest (rq_request q)"
  using assms by (auto simp: persisted_decision_record_with_evidence_references_def split: if_splits)

lemma job_cases:
  assumes "create_analysis_job_if_needed fresh created updated q resp r = (res, r1)"
  obtains (NotNeeded) "\<not> rs_create_analysis_job resp" "res = Inr None" "r1 = r"
  | (Missing) e where "rs_create_analysis_job resp" "res = Inl e" "r1 = r"
      "e = MissingArtifactDigestForAnalysisJob \<or> e = MissingArtifactSourceUrlForAnalysisJob"
  | (Queued) job where "rs_create_analysis_job resp" "res = Inr (Some job)"
      "r1 = r\<lparr>mr_analysis_jobs := mr_analysis_jobs r @ [job]\<rparr>"
      "aj_state job = JobState.Queued" "aj_retry_count job = 0" "aj_id job = fresh"
      "aj_tenant_id job = rq_tenant_id q" "aj_coordinate job = nr_coordinate (rq_request q)"
      "nr_requested_digest (rq_request q) = Some (aj_artifact_digest job)"
      "nr_source_url (rq_request q) = Some (aj_source_url job)"
      "aj_policy_snapshot_id job = rs_policy_snapshot_id resp"
proof (cases "rs_create_analysis_job resp")
  case False
  with assms show thesis by (intro NotNeeded) (auto simp: create_analysis_job_if_needed_def)
next
  case need: True
  show thesis
  proof (cases "nr_requested_digest (rq_request q)")
    case None
    with need assms show thesis by (intro Missing) (auto simp: create_analysis_job_if_needed_def)
  next
    case digest: (Some d)
    show thesis
    proof (cases "nr_source_url (rq_request q)")
      case None
      with need digest assms show thesis by (intro Missing) (auto simp: create_analysis_job_if_needed_def)
    next
      case (Some url)
      with need digest assms obtain job where "res = Inr (Some job)"
        "r1 = r\<lparr>mr_analysis_jobs := mr_analysis_jobs r @ [job]\<rparr>"
        and job: "job = \<lparr>aj_id = fresh, aj_tenant_id = rq_tenant_id q,
          aj_registry_config_id = rq_registry_config_id q, aj_coordinate = nr_coordinate (rq_request q),
          aj_artifact_digest = d, aj_source_url = url, aj_policy_snapshot_id = rs_policy_snapshot_id resp,
          aj_state = JobState.Queued, aj_retry_count = 0, aj_trace_id = rs_trace_id resp,
          aj_created_at = created, aj_updated_at = updated\<rparr>"
        by (auto simp: create_analysis_job_if_needed_def Let_def)
      then show thesis by (intro Queued [of job]) (simp_all add: need digest Some)
    qed
  qed
qed

lemma append_openvex_simps [simp]:
  "rs_decision (append_openvex_rationale resp n) = rs_decision resp"
  "rs_tenant_id (append_openvex_rationale resp n) = rs_tenant_id resp"
  "rs_policy_profile_id (append_openvex_rationale resp n) = rs_policy_profile_id resp"
  "rs_policy_snapshot_id (append_openvex_rationale resp n) = rs_policy_snapshot_id resp"
  "rs_trace_id (append_openvex_rationale resp n) = rs_trace_id resp"
  "rs_create_analysis_job (append_openvex_rationale resp n) = rs_create_analysis_job resp"
  by (simp_all add: append_openvex_rationale_def)

text \<open>The response an evaluation computes for a bound request.\<close>

definition evaluated_response :: "BoundDecisionContext \<Rightarrow> DecisionResponse" where
  "evaluated_response bound =
     (if bc_vulnerability_under_investigation bound
      then append_openvex_rationale (evaluate (bc_policy_input bound)) openvex_note
      else evaluate (bc_policy_input bound))"

lemma evaluated_response_simps [simp]:
  "rs_decision (evaluated_response b) = rs_decision (evaluate (bc_policy_input b))"
  "rs_tenant_id (evaluated_response b) = pi_tenant_id (bc_policy_input b)"
  "rs_policy_profile_id (evaluated_response b) = pi_policy_profile_id (bc_policy_input b)"
  "rs_trace_id (evaluated_response b) = pi_trace_id (bc_policy_input b)"
  "rs_create_analysis_job (evaluated_response b) = rs_create_analysis_job (evaluate (bc_policy_input b))"
  by (simp_all add: evaluated_response_def del: evaluate_simps(1,2,3,4))

text \<open>A bound context carries the identity of its request.\<close>

lemma bind_request_with_context_memory:
  assumes "bind_request_with_context (in_memory_ops clk r) q b = Inr ctx"
  shows "context_matches q"
    and "\<exists>binding. mr_registry_bindings r (rq_tenant_id q, rq_registry_config_id q) = Some binding
           \<and> (b \<or> rb_policy_profile_id binding = rq_policy_profile_id q)"
    and "\<exists>profile. mr_profiles r (rq_tenant_id q, rq_policy_profile_id q) = Some profile"
    and "bound_decision_context (in_memory_ops clk r) q = Inr ctx"
proof -
  from assms obtain binding where cm: "context_matches q"
    and bi: "load_registry_policy_binding r (rq_tenant_id q) (rq_registry_config_id q) = Inr binding"
    and ok: "b \<or> rb_policy_profile_id binding = rq_policy_profile_id q"
    and bd: "bound_decision_context (in_memory_ops clk r) q = Inr ctx"
    by (auto simp: bind_request_with_context_def res_bind_eq_Inr in_memory_ops_def split: if_splits)
  show "context_matches q" by (rule cm)
  show "\<exists>binding. mr_registry_bindings r (rq_tenant_id q, rq_registry_config_id q) = Some binding
           \<and> (b \<or> rb_policy_profile_id binding = rq_policy_profile_id q)"
    using bi ok by (cases "mr_registry_bindings r (rq_tenant_id q, rq_registry_config_id q)")
      (auto simp: load_registry_policy_binding_def)
  show "\<exists>profile. mr_profiles r (rq_tenant_id q, rq_policy_profile_id q) = Some profile"
  proof (cases "mr_profiles r (rq_tenant_id q, rq_policy_profile_id q)")
    case None
    then have "load_profile r (rq_tenant_id q) (rq_policy_profile_id q) = Inl ProfileNotFound"
      by (simp add: load_profile_def)
    then have "bound_decision_context (in_memory_ops clk r) q = Inl ProfileNotFound"
      by (simp add: bound_decision_context_def Let_def in_memory_ops_def)
    with bd show ?thesis by simp
  qed auto
  show "bound_decision_context (in_memory_ops clk r) q = Inr ctx" by (rule bd)
qed

lemma bound_context_identity:
  assumes "bind_request_with_context (in_memory_ops clk r) q b = Inr ctx"
  shows "pi_tenant_id (bc_policy_input ctx) = rq_tenant_id q"
    "pi_policy_profile_id (bc_policy_input ctx) = rq_policy_profile_id q"
    "pi_trace_id (bc_policy_input ctx) = nr_trace_id (rq_request q)"
proof -
  from bind_request_with_context_memory(3) [OF assms] obtain profile
    where p: "mr_profiles r (rq_tenant_id q, rq_policy_profile_id q) = Some profile" by auto
  from bind_request_with_context_memory(4) [OF assms] have "ctx = bound_context clk r q" by simp
  with bound_decision_context_memory(2,3,5) [OF p, of clk]
  show "pi_tenant_id (bc_policy_input ctx) = rq_tenant_id q"
    "pi_policy_profile_id (bc_policy_input ctx) = rq_policy_profile_id q"
    "pi_trace_id (bc_policy_input ctx) = nr_trace_id (rq_request q)" by auto
qed

lemma unknown_artifact_has_digest:
  assumes "bind_request_with_context (in_memory_ops clk r) q b = Inr ctx"
    and "rs_create_analysis_job (evaluate (bc_policy_input ctx))"
  shows "\<exists>d. nr_requested_digest (rq_request q) = Some d"
proof -
  from bind_request_with_context_memory(3) [OF assms(1)] obtain profile
    where p: "mr_profiles r (rq_tenant_id q, rq_policy_profile_id q) = Some profile" by auto
  from bind_request_with_context_memory(4) [OF assms(1)] have c: "ctx = bound_context clk r q" by simp
  from assms(2) have "pi_unknown_artifact (bc_policy_input ctx)"
    by (auto simp: engine_outcome_def split: option.splits if_splits prod.splits)
  with bound_signals_memory(4) [OF p, of clk] c show ?thesis by auto
qed

section \<open>Operations, case by case\<close>

lemma query_bound_identity:
  assumes "bind_request_for_profile ops t p v = Inr i"
  shows "pi_tenant_id i = t \<and> pi_policy_profile_id i = p \<and> pi_trace_id i = rv_trace_id v"
  using assms unfolding bind_request_for_profile_def Let_def res_bind_eq_Inr by clarsimp

lemma evaluate_hit:
  assumes "cache_get (ev_lookup_now env) (decision_cache_key show_uuid q) (as_decision_cache st) = Some cached"
    and "evaluate_with_state show_uuid env q st = (res, st')"
  shows "as_decision_cache st' = as_decision_cache st"
    and "mr_analysis_jobs (as_policy_repository st') = mr_analysis_jobs (as_policy_repository st)"
    and "res = Inr resp \<Longrightarrow> resp = (cd_response cached)\<lparr>rs_trace_id := nr_trace_id (rq_request q)\<rparr>"
    and "res = Inl e \<Longrightarrow> e = InconsistentDecisionResponse
           \<and> as_policy_repository st' = as_policy_repository st
           \<and> \<not> (rs_tenant_id (cd_response cached) = rq_tenant_id q
                \<and> rs_policy_profile_id (cd_response cached) = rq_policy_profile_id q)"
    and "res = Inr resp \<Longrightarrow> rs_tenant_id resp = rq_tenant_id q \<and> rs_policy_profile_id resp = rq_policy_profile_id q
           \<and> (\<exists>rec. persisted_decision_record_with_evidence_references q resp (cd_evidence_references cached) = Inr rec
              \<and> mr_decision_records (as_policy_repository st') = mr_decision_records (as_policy_repository st) @ [rec])"
proof -
  let ?resp = "(cd_response cached)\<lparr>rs_trace_id := nr_trace_id (rq_request q)\<rparr>"
  obtain pres r1 where p: "persist_evaluated_decision_record q ?resp (cd_evidence_references cached)
      (as_policy_repository st) = (pres, r1)" by fastforce
  have cases: "(\<exists>e. pres = Inl e \<and> res = Inl e) \<or> (pres = Inr () \<and> res = Inr ?resp)"
    and repo: "as_policy_repository st' = r1" and cache: "as_decision_cache st' = as_decision_cache st"
    using assms p by (auto simp: evaluate_with_state_def Let_def split: sum.splits prod.splits)
  show "as_decision_cache st' = as_decision_cache st" by (rule cache)
  from p show "mr_analysis_jobs (as_policy_repository st') = mr_analysis_jobs (as_policy_repository st)"
    by (cases rule: persist_cases) (simp_all add: repo)
  show "res = Inr resp \<Longrightarrow> resp = ?resp" using cases by auto
  from p show "res = Inl e \<Longrightarrow> e = InconsistentDecisionResponse
           \<and> as_policy_repository st' = as_policy_repository st
           \<and> \<not> (rs_tenant_id (cd_response cached) = rq_tenant_id q
                \<and> rs_policy_profile_id (cd_response cached) = rq_policy_profile_id q)"
    using cases repo by (cases rule: persist_cases) auto
  from p show "res = Inr resp \<Longrightarrow> rs_tenant_id resp = rq_tenant_id q \<and> rs_policy_profile_id resp = rq_policy_profile_id q
           \<and> (\<exists>rec. persisted_decision_record_with_evidence_references q resp (cd_evidence_references cached) = Inr rec
              \<and> mr_decision_records (as_policy_repository st') = mr_decision_records (as_policy_repository st) @ [rec])"
    using cases repo by (cases rule: persist_cases) auto
qed

text \<open>A miss that succeeds: the bound context, the record, the job and the cache entry.\<close>

lemma evaluate_miss:
  assumes "cache_get (ev_lookup_now env) (decision_cache_key show_uuid q) (as_decision_cache st) = None"
    and "evaluate_with_state show_uuid env q st = (Inr resp, st')"
  obtains ctx rec jobs where
    "bind_request_with_context (in_memory_ops (ev_clk env) (as_policy_repository st)) q False = Inr ctx"
    "resp = evaluated_response ctx"
    "persisted_decision_record_with_evidence_references q resp (bc_evidence_references ctx) = Inr rec"
    "as_policy_repository st' = (as_policy_repository st)\<lparr>
       mr_decision_records := mr_decision_records (as_policy_repository st) @ [rec],
       mr_analysis_jobs := mr_analysis_jobs (as_policy_repository st) @ jobs\<rparr>"
    "if rs_create_analysis_job resp
     then \<exists>job. jobs = [job] \<and> aj_state job = JobState.Queued \<and> aj_tenant_id job = rq_tenant_id q
            \<and> aj_coordinate job = nr_coordinate (rq_request q)
            \<and> nr_requested_digest (rq_request q) = Some (aj_artifact_digest job)
            \<and> nr_source_url (rq_request q) = Some (aj_source_url job)
            \<and> aj_policy_snapshot_id job = rs_policy_snapshot_id resp
     else jobs = []"
    "as_decision_cache st' = cache_put (ev_store_now env) (decision_cache_key show_uuid q) resp
       (bc_evidence_references ctx) (as_decision_cache st)"
proof -
  let ?r = "as_policy_repository st"
  from assms obtain ev r1 where e:
      "evaluate_with_policy_repository_with_context env q ?r = (Inr ev, r1)"
    and resp: "resp = ed_response ev" and repo: "as_policy_repository st' = r1"
    and cache: "as_decision_cache st' = cache_put (ev_store_now env) (decision_cache_key show_uuid q)
        (ed_response ev) (ed_evidence_references ev) (as_decision_cache st)"
    by (auto simp: evaluate_with_state_def Let_def split: sum.splits prod.splits)
  from e obtain ctx r2 where
      b: "bind_request_with_context (in_memory_ops (ev_clk env) ?r) q False = Inr ctx"
    and p: "persist_evaluated_decision_record q (evaluated_response ctx) (bc_evidence_references ctx) ?r = (Inr (), r2)"
    and j: "\<exists>jo. create_analysis_job_if_needed (ev_job_id env) (ev_job_created_at env) (ev_job_updated_at env)
        q (evaluated_response ctx) r2 = (Inr jo, r1)"
    and ev: "ev = \<lparr>ed_response = evaluated_response ctx, ed_evidence_references = bc_evidence_references ctx\<rparr>"
    by (auto simp: evaluate_with_policy_repository_with_context_def bind_evaluation_context_def Let_def
        evaluated_response_def [symmetric] split: sum.splits prod.splits)
  from p obtain rec where
      rec: "persisted_decision_record_with_evidence_references q (evaluated_response ctx) (bc_evidence_references ctx) = Inr rec"
    and r2: "r2 = ?r\<lparr>mr_decision_records := mr_decision_records ?r @ [rec]\<rparr>"
    by (cases rule: persist_cases) auto
  from j obtain jo where "create_analysis_job_if_needed (ev_job_id env) (ev_job_created_at env)
      (ev_job_updated_at env) q (evaluated_response ctx) r2 = (Inr jo, r1)" by auto
  then show thesis
  proof (cases rule: job_cases)
    case NotNeeded
    then show thesis using that [OF b, of rec "[]"] rec r2 resp ev repo cache by simp
  next
    case (Queued job)
    then show thesis using that [OF b, of rec "[job]"] rec r2 resp ev repo cache by simp
  qed simp
qed

lemma evaluate_miss_error_cache:
  assumes "cache_get (ev_lookup_now env) (decision_cache_key show_uuid q) (as_decision_cache st) = None"
    and "evaluate_with_state show_uuid env q st = (Inl e, st')"
  shows "as_decision_cache st' = as_decision_cache st"
  using assms by (auto simp: evaluate_with_state_def Let_def split: sum.splits prod.splits)

section \<open>The cache invariant\<close>

definition cache_inv :: "(uuid \<Rightarrow> string) \<Rightarrow> AppState \<Rightarrow> bool" where
  "cache_inv show_uuid st =
     ((\<forall>q cd. dc_entries (as_decision_cache st) (decision_cache_key show_uuid q) = Some cd
         \<longrightarrow> rs_tenant_id (cd_response cd) = rq_tenant_id q)
      \<and> (\<forall>q cd. dc_entries (as_decision_cache st) (decision_query_cache_key show_uuid q) = Some cd
         \<longrightarrow> rs_tenant_id (cd_response cd) = dq_tenant_id q
           \<and> rs_policy_profile_id (cd_response cd) = dq_policy_profile_id q)
      \<and> dc_ttl (as_decision_cache st) = 30 * second)"

lemma cache_inv_same: "as_decision_cache st' = as_decision_cache st \<Longrightarrow> cache_inv show_uuid st \<Longrightarrow> cache_inv show_uuid st'"
  by (simp add: cache_inv_def)

lemma cache_put_entry:
  assumes "dc_entries (cache_put t k resp refs c) k' = Some cd"
  shows "(k' = k \<and> cd_response cd = resp) \<or> (k' \<noteq> k \<and> dc_entries c k' = Some cd)"
  using assms by (cases "k' = k") (auto simp: cache_put_def)

lemma cache_inv_put:
  assumes inv: "cache_inv show_uuid st"
    and st': "as_decision_cache st' = cache_put t k resp refs (as_decision_cache st)"
    and d: "\<And>q. decision_cache_key show_uuid q = k \<Longrightarrow> rs_tenant_id resp = rq_tenant_id q"
    and q: "\<And>q. decision_query_cache_key show_uuid q = k \<Longrightarrow>
          rs_tenant_id resp = dq_tenant_id q \<and> rs_policy_profile_id resp = dq_policy_profile_id q"
  shows "cache_inv show_uuid st'"
  unfolding cache_inv_def st'
proof (intro conjI allI impI)
  show "dc_ttl (cache_put t k resp refs (as_decision_cache st)) = 30 * second"
    using inv by (simp add: cache_inv_def cache_put_def)
next
  fix q' cd
  assume "dc_entries (cache_put t k resp refs (as_decision_cache st)) (decision_cache_key show_uuid q') = Some cd"
  from cache_put_entry [OF this] show "rs_tenant_id (cd_response cd) = rq_tenant_id q'"
    using inv d by (metis cache_inv_def)
next
  fix q' cd
  assume "dc_entries (cache_put t k resp refs (as_decision_cache st)) (decision_query_cache_key show_uuid q') = Some cd"
  from cache_put_entry [OF this] have "rs_tenant_id (cd_response cd) = dq_tenant_id q'
      \<and> rs_policy_profile_id (cd_response cd) = dq_policy_profile_id q'"
    using inv q by (metis cache_inv_def)
  then show "rs_tenant_id (cd_response cd) = dq_tenant_id q'"
    and "rs_policy_profile_id (cd_response cd) = dq_policy_profile_id q'" by auto
qed

lemma cache_inv_put_decision:
  assumes "uuid_display_ok show_uuid" "cache_inv show_uuid st" "rs_tenant_id resp = rq_tenant_id q"
    and "as_decision_cache st' = cache_put t (decision_cache_key show_uuid q) resp refs (as_decision_cache st)"
  shows "cache_inv show_uuid st'"
proof (rule cache_inv_put [OF assms(2,4)])
  fix q' assume "decision_cache_key show_uuid q' = decision_cache_key show_uuid q"
  from decision_cache_key_parts [OF assms(1) this] assms(3) show "rs_tenant_id resp = rq_tenant_id q'" by simp
next
  fix q' assume "decision_query_cache_key show_uuid q' = decision_cache_key show_uuid q"
  with query_key_not_decision_key [OF assms(1), of q' q]
  show "rs_tenant_id resp = dq_tenant_id q' \<and> rs_policy_profile_id resp = dq_policy_profile_id q'" by blast
qed

lemma cache_inv_put_query:
  assumes "uuid_display_ok show_uuid" "cache_inv show_uuid st" "rs_tenant_id resp = dq_tenant_id q"
    and "rs_policy_profile_id resp = dq_policy_profile_id q"
    and "as_decision_cache st' = cache_put t (decision_query_cache_key show_uuid q) resp refs (as_decision_cache st)"
  shows "cache_inv show_uuid st'"
proof (rule cache_inv_put [OF assms(2,5)])
  fix q' assume "decision_cache_key show_uuid q' = decision_query_cache_key show_uuid q"
  with query_key_not_decision_key [OF assms(1), of q q'] show "rs_tenant_id resp = rq_tenant_id q'" by simp
next
  fix q' assume "decision_query_cache_key show_uuid q' = decision_query_cache_key show_uuid q"
  from query_cache_key_parts [OF assms(1) this] assms(3,4)
  show "rs_tenant_id resp = dq_tenant_id q' \<and> rs_policy_profile_id resp = dq_policy_profile_id q'" by simp
qed

lemma cache_get_entry: "cache_get now k c = Some cd \<Longrightarrow> dc_entries c k = Some cd"
  by (cases "dc_entries c k") (auto simp: cache_get_def split: if_splits)

lemma evaluate_with_state_inv:
  assumes "uuid_display_ok show_uuid" "cache_inv show_uuid st"
    and "evaluate_with_state show_uuid env q st = (res, st')"
  shows "cache_inv show_uuid st'"
    and "res = Inr resp \<Longrightarrow> rs_tenant_id resp = rq_tenant_id q \<and> rs_policy_profile_id resp = rq_policy_profile_id q
           \<and> rs_trace_id resp = nr_trace_id (rq_request q)"
proof (induct "cache_get (ev_lookup_now env) (decision_cache_key show_uuid q) (as_decision_cache st)")
  case (Some cached)
  note hit = evaluate_hit [OF Some [symmetric] assms(3)]
  { case 1 show ?case using hit(1) assms(2) by (rule cache_inv_same) }
  { case 2 then show ?case using hit(3,5) by simp }
next
  case None
  note miss = None [symmetric]
  { case 1
    show ?case
    proof (cases res)
      case (Inl e)
      with assms(3) evaluate_miss_error_cache [OF miss] show ?thesis
        using assms(2) by (metis cache_inv_same)
    next
      case (Inr resp)
      with assms(3) have e: "evaluate_with_state show_uuid env q st = (Inr resp, st')" by simp
      from miss e show ?thesis
      proof (rule evaluate_miss)
        fix ctx rec jobs
        assume b: "bind_request_with_context (in_memory_ops (ev_clk env) (as_policy_repository st)) q False = Inr ctx"
          and r: "resp = evaluated_response ctx"
          and c: "as_decision_cache st' = cache_put (ev_store_now env) (decision_cache_key show_uuid q) resp
            (bc_evidence_references ctx) (as_decision_cache st)"
        show ?thesis
          by (rule cache_inv_put_decision [OF assms(1,2) _ c]) (simp add: r bound_context_identity(1) [OF b])
      qed
    qed }
  { case 2
    with assms(3) have e: "evaluate_with_state show_uuid env q st = (Inr resp, st')" by simp
    from miss e show ?case by (rule evaluate_miss) (use bound_context_identity in auto) }
qed

lemma simulate_with_state_inv:
  assumes "uuid_display_ok show_uuid" "cache_inv show_uuid st"
    and "simulate_with_state show_uuid env q st = (res, st')"
  shows "cache_inv show_uuid st'"
    and "res = Inr resp \<Longrightarrow> rs_tenant_id resp = rq_tenant_id q \<and> rs_trace_id resp = nr_trace_id (rq_request q)"
    and "as_policy_repository st' = as_policy_repository st"
proof -
  let ?k = "decision_cache_key show_uuid q"
  have "cache_inv show_uuid st' \<and> (\<forall>resp. res = Inr resp \<longrightarrow> rs_tenant_id resp = rq_tenant_id q
      \<and> rs_trace_id resp = nr_trace_id (rq_request q)) \<and> as_policy_repository st' = as_policy_repository st"
  proof (cases "cache_get (ev_lookup_now env) ?k (as_decision_cache st)")
    case (Some cached)
    with cache_get_entry [OF Some] assms(2,3) show ?thesis
      by (auto simp: simulate_with_state_def Let_def cache_inv_def)
  next
    case miss: None
    show ?thesis
    proof (cases "bind_simulation_context (in_memory_ops (ev_clk env) (as_policy_repository st)) q")
      case (Inl e)
      with miss assms(2,3) show ?thesis by (auto simp: simulate_with_state_def Let_def)
    next
      case (Inr ctx)
      then have "bind_request_with_context (in_memory_ops (ev_clk env) (as_policy_repository st)) q True = Inr ctx"
        by (simp add: bind_simulation_context_def)
      note id = bound_context_identity [OF this]
      from miss Inr assms(3) have res: "res = Inr (evaluate (bc_policy_input ctx))"
        and st': "st' = st\<lparr>as_decision_cache := cache_put (ev_store_now env) ?k (evaluate (bc_policy_input ctx))
            (bc_evidence_references ctx) (as_decision_cache st)\<rparr>"
        by (auto simp: simulate_with_state_def Let_def)
      have "cache_inv show_uuid st'"
        by (rule cache_inv_put_decision [OF assms(1,2), of "evaluate (bc_policy_input ctx)" q])
          (simp_all add: id st')
      with id res st' show ?thesis by simp
    qed
  qed
  then show "cache_inv show_uuid st'" "as_policy_repository st' = as_policy_repository st"
    "res = Inr resp \<Longrightarrow> rs_tenant_id resp = rq_tenant_id q \<and> rs_trace_id resp = nr_trace_id (rq_request q)"
    by auto
qed

lemma query_with_state_inv:
  assumes "uuid_display_ok show_uuid" "cache_inv show_uuid st"
    and "query_with_state show_uuid env q st = (res, st')"
  shows "cache_inv show_uuid st'"
    and "res = Inr resp \<Longrightarrow> rs_tenant_id resp = dq_tenant_id q
           \<and> rs_policy_profile_id resp = dq_policy_profile_id q \<and> rs_trace_id resp = nq_trace_id (dq_request q)"
    and "as_policy_repository st' = as_policy_repository st"
proof -
  let ?k = "decision_query_cache_key show_uuid q"
  have "cache_inv show_uuid st' \<and> (\<forall>resp. res = Inr resp \<longrightarrow> rs_tenant_id resp = dq_tenant_id q
      \<and> rs_policy_profile_id resp = dq_policy_profile_id q
      \<and> rs_trace_id resp = nq_trace_id (dq_request q)) \<and> as_policy_repository st' = as_policy_repository st"
  proof (cases "cache_get (ev_lookup_now env) ?k (as_decision_cache st)")
    case (Some cached)
    with cache_get_entry [OF Some] assms(2,3) show ?thesis
      by (auto simp: query_with_state_def Let_def cache_inv_def)
  next
    case miss: None
    show ?thesis
    proof (cases "bind_query_request (in_memory_ops (ev_clk env) (as_policy_repository st)) q")
      case (Inl e)
      with miss assms(2,3) show ?thesis
        by (auto simp: query_with_state_def query_with_policy_repository_def Let_def)
    next
      case (Inr i)
      from query_bound_identity [of "in_memory_ops (ev_clk env) (as_policy_repository st)"] Inr
      have "pi_tenant_id i = dq_tenant_id q \<and> pi_policy_profile_id i = dq_policy_profile_id q
          \<and> pi_trace_id i = nq_trace_id (dq_request q)"
        by (force simp: bind_query_request_def split: if_splits)
      note id = this
      from miss Inr assms(3) have res: "res = Inr (evaluate i)"
        and st': "st' = st\<lparr>as_decision_cache := cache_put (ev_store_now env) ?k (evaluate i) []
            (as_decision_cache st)\<rparr>"
        by (auto simp: query_with_state_def query_with_policy_repository_def Let_def)
      have "cache_inv show_uuid st'"
        by (rule cache_inv_put_query [OF assms(1,2), of "evaluate i" q]) (simp_all add: id st')
      with id res st' show ?thesis by simp
    qed
  qed
  then show "cache_inv show_uuid st'" "as_policy_repository st' = as_policy_repository st"
    "res = Inr resp \<Longrightarrow> rs_tenant_id resp = dq_tenant_id q
       \<and> rs_policy_profile_id resp = dq_policy_profile_id q \<and> rs_trace_id resp = nq_trace_id (dq_request q)"
    by auto
qed

lemma handle_inv:
  assumes "uuid_display_ok show_uuid" "cache_inv show_uuid st" "handle show_uuid env q st = (res, st')"
  shows "cache_inv show_uuid st'"
proof (cases q)
  case (EvaluateRequest x)
  obtain r s where e: "evaluate_with_state show_uuid env x st = (r, s)" by fastforce
  with assms(3) EvaluateRequest have "as_decision_cache st' = as_decision_cache s"
    by (auto simp: handle_def evaluate_decision_def split: sum.splits)
  with evaluate_with_state_inv(1) [OF assms(1,2) e] show ?thesis by (metis cache_inv_same)
next
  case (SimulateRequest x)
  obtain r s where e: "simulate_with_state show_uuid env x st = (r, s)" by fastforce
  with simulate_with_state_inv(1) [OF assms(1,2) e] assms(3) SimulateRequest show ?thesis
    by (auto simp: handle_def simulate_decision_def)
next
  case (QueryRequest x)
  obtain r s where e: "query_with_state show_uuid env x st = (r, s)" by fastforce
  with query_with_state_inv(1) [OF assms(1,2) e] assms(3) QueryRequest show ?thesis
    by (auto simp: handle_def query_decision_def)
qed

lemma reachable_cache_inv:
  assumes "uuid_display_ok show_uuid" "reachable show_uuid st"
  shows "cache_inv show_uuid st"
  using assms(2)
proof (induction rule: reachable.induct)
  case (start r)
  show ?case by (simp add: cache_inv_def app_state_new_def cache_new_def)
next
  case (request st env q result st')
  from handle_inv [OF assms(1) request.IH request.hyps(2)] show ?case .
next
  case (repository st r)
  show ?case by (rule cache_inv_same [OF _ repository.IH]) simp
qed

lemma evaluate_succeeds:
  assumes "cache_get (ev_lookup_now env) (decision_cache_key show_uuid q) (as_decision_cache st) = None"
    and b: "bind_request_with_context (in_memory_ops (ev_clk env) (as_policy_repository st)) q False = Inr ctx"
    and "nr_source_url (rq_request q) = Some url"
  shows "\<exists>resp st'. evaluate_with_state show_uuid env q st = (Inr resp, st')"
proof -
  let ?resp = "evaluated_response ctx" and ?r = "as_policy_repository st"
  obtain rec where p: "persist_evaluated_decision_record q ?resp (bc_evidence_references ctx) ?r =
      (Inr (), ?r\<lparr>mr_decision_records := mr_decision_records ?r @ [rec]\<rparr>)"
    using bound_context_identity [OF b]
    by (auto simp: persist_evaluated_decision_record_def persisted_decision_record_with_evidence_references_def)
  obtain jo r2 where "create_analysis_job_if_needed (ev_job_id env) (ev_job_created_at env) (ev_job_updated_at env)
      q ?resp (?r\<lparr>mr_decision_records := mr_decision_records ?r @ [rec]\<rparr>) = (Inr jo, r2)"
    using unknown_artifact_has_digest [OF b] assms(3)
    by (cases "rs_create_analysis_job ?resp")
      (auto simp: create_analysis_job_if_needed_def Let_def evaluated_response_simps(5)
        simp del: evaluate_simps(3))
  with assms(1) b p have "evaluate_with_policy_repository_with_context env q ?r
      = (Inr \<lparr>ed_response = ?resp, ed_evidence_references = bc_evidence_references ctx\<rparr>, r2)"
    by (simp add: evaluate_with_policy_repository_with_context_def bind_evaluation_context_def Let_def
        evaluated_response_def [symmetric])
  with assms(1) show ?thesis by (simp add: evaluate_with_state_def Let_def)
qed

section \<open>Properties\<close>

definition decimal_uuid :: "uuid \<Rightarrow> string" where
  "decimal_uuid u = show_nat (unat u)"

lemma decimal_uuid_ok: "uuid_display_ok decimal_uuid"
  unfolding uuid_display_ok_def
proof (intro conjI allI)
  show "inj decimal_uuid" by (simp add: inj_def decimal_uuid_def show_nat_inj word_unat_eq_iff)
  show "CHR '':'' \<notin> set (decimal_uuid u)" for u
    using show_nat_digits [of "CHR '':''"] by (auto simp: decimal_uuid_def is_ascii_digit_def)
  show "decimal_uuid u \<noteq> ''query''" for u
    using show_nat_digits [of "CHR ''q''" "unat u"] by (auto simp: decimal_uuid_def is_ascii_digit_def)
qed

definition sample_env :: service_env where
  "sample_env = \<lparr>ev_clk = \<lambda>_. 5, ev_lookup_now = 5, ev_store_now = 6, ev_job_id = 99,
     ev_job_created_at = 7, ev_job_updated_at = 8\<rparr>"

definition sample_state :: AppState where
  "sample_state = app_state_new sample_repository"

text \<open>C4: in every state the service can reach, under any interleaving of evaluations, simulations,
  queries and writes to the store by others, a response carries the tenant and the trace
  identifier of the request that gets it, also when it comes from the shared cache; an evaluation
  and a query get the policy profile of their request as well.\<close>

theorem responses_match_requests:
  assumes "uuid_display_ok show_uuid" "reachable show_uuid st"
    and "handle show_uuid env q st = (Inr resp, st')"
  shows "case q of
      EvaluateRequest x \<Rightarrow> rs_tenant_id resp = rq_tenant_id x \<and> rs_trace_id resp = nr_trace_id (rq_request x)
        \<and> rs_policy_profile_id resp = rq_policy_profile_id x
    | SimulateRequest x \<Rightarrow> rs_tenant_id resp = rq_tenant_id x \<and> rs_trace_id resp = nr_trace_id (rq_request x)
    | QueryRequest x \<Rightarrow> rs_tenant_id resp = dq_tenant_id x \<and> rs_trace_id resp = nq_trace_id (dq_request x)
        \<and> rs_policy_profile_id resp = dq_policy_profile_id x"
proof -
  note inv = reachable_cache_inv [OF assms(1,2)]
  show ?thesis
  proof (cases q)
    case (EvaluateRequest x)
    with assms(3) obtain s where "evaluate_with_state show_uuid env x st = (Inr resp, s)"
      by (auto simp: handle_def evaluate_decision_def split: prod.splits sum.splits)
    from evaluate_with_state_inv(2) [OF assms(1) inv this] EvaluateRequest show ?thesis by simp
  next
    case (SimulateRequest x)
    obtain r s where s: "simulate_with_state show_uuid env x st = (r, s)" by fastforce
    with assms(3) SimulateRequest have "r = Inr resp"
      by (cases r) (auto simp: handle_def simulate_decision_def)
    with simulate_with_state_inv(2) [OF assms(1) inv s] SimulateRequest show ?thesis by simp
  next
    case (QueryRequest x)
    obtain r s where s: "query_with_state show_uuid env x st = (r, s)" by fastforce
    with assms(3) QueryRequest have "r = Inr resp"
      by (cases r) (auto simp: handle_def query_decision_def)
    with query_with_state_inv(2) [OF assms(1) inv s] QueryRequest show ?thesis by simp
  qed
qed

lemma sample_bound:
  "\<exists>ctx. bind_request_with_context (in_memory_ops clk sample_repository) sample_request b = Inr ctx"
proof -
  have p: "mr_profiles sample_repository (rq_tenant_id sample_request, rq_policy_profile_id sample_request)
      = Some sample_profile" by (simp add: sample_repository_facts)
  have "op_load_registry_policy_binding (in_memory_ops clk sample_repository)
      = load_registry_policy_binding sample_repository" by (simp add: in_memory_ops_def)
  moreover obtain ctx where "bound_decision_context (in_memory_ops clk sample_repository) sample_request = Inr ctx"
    using bound_decision_context_memory(1) [OF p] by blast
  ultimately show ?thesis
    by (simp add: bind_request_with_context_def load_registry_policy_binding_def sample_repository_facts
        sample_binding_def)
qed

lemma sample_source_url: "nr_source_url (rq_request sample_request) = Some ''https://registry/left-pad''"
  by (simp add: sample_request_def)

lemma sample_miss: "cache_get now key (as_decision_cache sample_state) = None"
  by (simp add: sample_state_def app_state_new_def cache_new_def cache_get_def)

lemma sample_state_inv: "cache_inv decimal_uuid sample_state"
  by (rule reachable_cache_inv [OF decimal_uuid_ok]) (simp add: sample_state_def reachable.start)

lemma sample_simulates:
  "\<exists>resp st1. simulate_with_state decimal_uuid sample_env sample_request sample_state = (Inr resp, st1)
     \<and> rs_policy_profile_id resp = 2"
proof -
  obtain ctx where b: "bind_request_with_context (in_memory_ops (ev_clk sample_env)
      (as_policy_repository sample_state)) sample_request True = Inr ctx"
    using sample_bound by (auto simp: sample_state_def app_state_new_def)
  then have "\<exists>st1. simulate_with_state decimal_uuid sample_env sample_request sample_state
       = (Inr (evaluate (bc_policy_input ctx)), st1)"
    by (simp add: simulate_with_state_def Let_def sample_miss bind_simulation_context_def)
  moreover have "rs_policy_profile_id (evaluate (bc_policy_input ctx)) = 2"
    using bound_context_identity(2) [OF b] by (simp add: sample_repository_facts)
  ultimately show ?thesis by blast
qed

lemma sample_simulation:
  "\<exists>resp st'. handle decimal_uuid sample_env (SimulateRequest sample_request) sample_state = (Inr resp, st')"
proof -
  obtain resp st1 where "simulate_with_state decimal_uuid sample_env sample_request sample_state
       = (Inr resp, st1)" using sample_simulates by blast
  then show ?thesis by (simp add: handle_def simulate_decision_def)
qed

theorem responses_match_requests_witness:
  "\<exists>resp st'. handle decimal_uuid sample_env (SimulateRequest sample_request) sample_state = (Inr resp, st')
     \<and> rs_tenant_id resp = 1 \<and> rs_trace_id resp = ''trace-1''"
proof -
  obtain resp st' where h: "handle decimal_uuid sample_env (SimulateRequest sample_request) sample_state
      = (Inr resp, st')" using sample_simulation by blast
  have "reachable decimal_uuid sample_state" unfolding sample_state_def by (rule reachable.start)
  from responses_match_requests [OF decimal_uuid_ok this h] h show ?thesis
    by (auto simp: sample_request_def)
qed

text \<open>C6: an evaluation that is not served from the cache binds the request, decides, appends
  exactly one decision record that carries the decision, the trace and the evidence, appends
  exactly one queued analysis job for the requested artifact if the decision asks for one and
  none otherwise, and leaves the response in the cache for thirty seconds.\<close>

theorem evaluation_effects:
  assumes "cache_inv show_uuid st"
    and "cache_get (ev_lookup_now env) (decision_cache_key show_uuid q) (as_decision_cache st) = None"
    and "evaluate_with_state show_uuid env q st = (Inr resp, st')"
  shows "\<exists>ctx rec jobs.
    bind_request_with_context (in_memory_ops (ev_clk env) (as_policy_repository st)) q False = Inr ctx
    \<and> rs_decision resp = rs_decision (evaluate (bc_policy_input ctx))
    \<and> mr_decision_records (as_policy_repository st') = mr_decision_records (as_policy_repository st) @ [rec]
    \<and> dd_decision rec = rs_decision resp \<and> dd_trace_id rec = nr_trace_id (rq_request q)
    \<and> dd_evidence_references rec = bc_evidence_references ctx
    \<and> pk_coordinate (dd_package_request rec) = nr_coordinate (rq_request q)
    \<and> mr_analysis_jobs (as_policy_repository st') = mr_analysis_jobs (as_policy_repository st) @ jobs
    \<and> (if rs_decision resp = QuarantinePendingAnalysis
       then \<exists>job. jobs = [job] \<and> aj_state job = JobState.Queued \<and> aj_tenant_id job = rq_tenant_id q
              \<and> nr_requested_digest (rq_request q) = Some (aj_artifact_digest job)
              \<and> nr_source_url (rq_request q) = Some (aj_source_url job)
       else jobs = [])
    \<and> (\<forall>now. map_option cd_response (cache_get now (decision_cache_key show_uuid q) (as_decision_cache st')) =
         (if now < ev_store_now env + 30 * second then Some resp else None))"
  using assms(2,3)
proof (rule evaluate_miss)
  fix ctx rec jobs
  assume b: "bind_request_with_context (in_memory_ops (ev_clk env) (as_policy_repository st)) q False = Inr ctx"
    and r: "resp = evaluated_response ctx"
    and rec: "persisted_decision_record_with_evidence_references q resp (bc_evidence_references ctx) = Inr rec"
    and repo: "as_policy_repository st' = (as_policy_repository st)\<lparr>
       mr_decision_records := mr_decision_records (as_policy_repository st) @ [rec],
       mr_analysis_jobs := mr_analysis_jobs (as_policy_repository st) @ jobs\<rparr>"
    and jobs: "if rs_create_analysis_job resp
       then \<exists>job. jobs = [job] \<and> aj_state job = JobState.Queued \<and> aj_tenant_id job = rq_tenant_id q
              \<and> aj_coordinate job = nr_coordinate (rq_request q)
              \<and> nr_requested_digest (rq_request q) = Some (aj_artifact_digest job)
              \<and> nr_source_url (rq_request q) = Some (aj_source_url job)
              \<and> aj_policy_snapshot_id job = rs_policy_snapshot_id resp
       else jobs = []"
    and cache: "as_decision_cache st' = cache_put (ev_store_now env) (decision_cache_key show_uuid q) resp
       (bc_evidence_references ctx) (as_decision_cache st)"
  have "rs_create_analysis_job resp \<longleftrightarrow> rs_decision resp = QuarantinePendingAnalysis"
    by (simp add: r engine_outcome_job)
  moreover have "map_option cd_response (cache_get now (decision_cache_key show_uuid q) (as_decision_cache st')) =
      (if now < ev_store_now env + 30 * second then Some resp else None)" for now
    using assms(1) by (simp add: cache cache_get_put cache_inv_def)
  moreover have "rs_decision resp = rs_decision (evaluate (bc_policy_input ctx))" by (simp add: r)
  ultimately show ?thesis
    using b repo jobs persisted_record_fields [OF rec] by (intro exI [of _ ctx] exI [of _ rec] exI [of _ jobs]) auto
qed

theorem evaluation_effects_witness:
  "\<exists>resp st' rec. evaluate_with_state decimal_uuid sample_env sample_request sample_state = (Inr resp, st')
     \<and> mr_decision_records (as_policy_repository st') = [rec] \<and> dd_trace_id rec = ''trace-1''"
proof -
  obtain ctx where b: "bind_request_with_context (in_memory_ops (ev_clk sample_env)
      (as_policy_repository sample_state)) sample_request False = Inr ctx"
    using sample_bound by (auto simp: sample_state_def app_state_new_def)
  obtain resp st' where e: "evaluate_with_state decimal_uuid sample_env sample_request sample_state = (Inr resp, st')"
    using evaluate_succeeds [OF sample_miss b] sample_source_url by blast
  from evaluation_effects [OF sample_state_inv sample_miss e] e show ?thesis
    by (auto simp: sample_state_def app_state_new_def sample_repository_def upsert_registry_binding_def
        upsert_profile_def empty_repository_def sample_request_def)
qed

text \<open>An evaluation served from the cache returns the cached response under the trace of the
  request and appends one decision record, but queues no analysis job, even when the response
  says that one was requested; it fails, and changes nothing in the store, exactly when the
  cached response belongs to another tenant or policy profile.\<close>

lemma cache_hit_effects:
  assumes "cache_get (ev_lookup_now env) (decision_cache_key show_uuid q) (as_decision_cache st) = Some cached"
    and "evaluate_with_state show_uuid env q st = (result, st')"
  shows "mr_analysis_jobs (as_policy_repository st') = mr_analysis_jobs (as_policy_repository st)
    \<and> as_decision_cache st' = as_decision_cache st
    \<and> (if rs_tenant_id (cd_response cached) = rq_tenant_id q
          \<and> rs_policy_profile_id (cd_response cached) = rq_policy_profile_id q
       then result = Inr ((cd_response cached)\<lparr>rs_trace_id := nr_trace_id (rq_request q)\<rparr>)
          \<and> (\<exists>rec. mr_decision_records (as_policy_repository st')
                = mr_decision_records (as_policy_repository st) @ [rec]
              \<and> dd_decision rec = rs_decision (cd_response cached) \<and> dd_trace_id rec = nr_trace_id (rq_request q))
       else result = Inl InconsistentDecisionResponse \<and> as_policy_repository st' = as_policy_repository st)"
proof (cases result)
  case (Inl e)
  with evaluate_hit(1,2,4) [OF assms] show ?thesis by auto
next
  case (Inr resp)
  note hit = evaluate_hit [OF assms]
  from hit(3) [OF Inr] hit(5) [OF Inr] obtain rec where
      resp: "resp = (cd_response cached)\<lparr>rs_trace_id := nr_trace_id (rq_request q)\<rparr>"
    and ids: "rs_tenant_id resp = rq_tenant_id q" "rs_policy_profile_id resp = rq_policy_profile_id q"
    and rec: "persisted_decision_record_with_evidence_references q resp (cd_evidence_references cached) = Inr rec"
      "mr_decision_records (as_policy_repository st') = mr_decision_records (as_policy_repository st) @ [rec]"
    by auto
  from persisted_record_fields(2,3) [OF rec(1)] rec(2) resp ids hit(1,2) Inr show ?thesis by auto
qed

lemma cache_hit_effects_witness:
  "\<exists>result st'. evaluate_with_state decimal_uuid sample_env sample_request
       (sample_state\<lparr>as_decision_cache := cache_put 0 (decision_cache_key decimal_uuid sample_request)
          (evaluate quiet_input) [] (as_decision_cache sample_state)\<rparr>) = (result, st')
     \<and> result = Inr ((evaluate quiet_input)\<lparr>rs_trace_id := ''trace-1''\<rparr>)
     \<and> mr_analysis_jobs (as_policy_repository st') = []"
proof -
  let ?st = "sample_state\<lparr>as_decision_cache := cache_put 0 (decision_cache_key decimal_uuid sample_request)
          (evaluate quiet_input) [] (as_decision_cache sample_state)\<rparr>"
  obtain result st' where e: "evaluate_with_state decimal_uuid sample_env sample_request ?st = (result, st')"
    by fastforce
  have g: "cache_get (ev_lookup_now sample_env) (decision_cache_key decimal_uuid sample_request) (as_decision_cache ?st)
      = Some \<lparr>cd_response = evaluate quiet_input, cd_evidence_references = [], cd_expires_at = 30 * second\<rparr>"
    by (simp add: cache_get_put sample_state_def app_state_new_def cache_new_def sample_env_def second_def)
  have "rs_tenant_id (evaluate quiet_input) = 1" "rs_policy_profile_id (evaluate quiet_input) = 2"
    by (simp_all add: quiet_input_def)
  with cache_hit_effects [OF g e] e show ?thesis
    by (simp add: sample_repository_facts) (simp add: sample_request_def sample_state_def app_state_new_def
        sample_repository_def upsert_registry_binding_def upsert_profile_def empty_repository_def)
qed

text \<open>Simulation and query never write to the store: no decision record, no analysis job, no
  other change; the shared decision cache is all they may change.\<close>

lemma simulation_and_query_keep_store:
  "as_policy_repository (snd (simulate_with_state show_uuid env q st)) = as_policy_repository st
   \<and> as_policy_repository (snd (query_with_state show_uuid env q' st)) = as_policy_repository st
   \<and> as_metrics (snd (simulate_with_state show_uuid env q st)) = as_metrics st"
  by (auto simp: simulate_with_state_def query_with_state_def Let_def split: option.split sum.split)

text \<open>A simulation is not free of side effects on later decisions. Its response enters the cache
  that evaluations read, under a key without the policy profile. An evaluation of the same
  package within thirty seconds queues no analysis job, whatever the simulated response asks
  for; and if the simulation was for another policy profile the evaluation fails.\<close>

lemma simulation_changes_evaluation:
  assumes "cache_inv show_uuid st"
    and "cache_get (ev_lookup_now env) (decision_cache_key show_uuid q) (as_decision_cache st) = None"
    and "simulate_with_state show_uuid env q st = (Inr resp, st1)"
    and "decision_cache_key show_uuid q' = decision_cache_key show_uuid q"
    and "ev_lookup_now env' < ev_store_now env + 30 * second"
    and "evaluate_with_state show_uuid env' q' st1 = (result, st2)"
  shows "mr_analysis_jobs (as_policy_repository st2) = mr_analysis_jobs (as_policy_repository st)
    \<and> (rs_policy_profile_id resp \<noteq> rq_policy_profile_id q' \<longrightarrow> result = Inl InconsistentDecisionResponse)"
proof -
  from assms(2,3) obtain refs where c: "as_decision_cache st1 =
      cache_put (ev_store_now env) (decision_cache_key show_uuid q) resp refs (as_decision_cache st)"
    and repo: "as_policy_repository st1 = as_policy_repository st"
    by (auto simp: simulate_with_state_def Let_def split: sum.splits)
  from assms(1,5) have g: "cache_get (ev_lookup_now env') (decision_cache_key show_uuid q') (as_decision_cache st1)
      = Some \<lparr>cd_response = resp, cd_evidence_references = refs, cd_expires_at = ev_store_now env + 30 * second\<rparr>"
    by (simp add: c cache_get_put assms(4) cache_inv_def)
  show ?thesis
  proof (cases result)
    case (Inl e)
    with evaluate_hit(2,4) [OF g assms(6)] repo show ?thesis by auto
  next
    case (Inr x)
    with evaluate_hit(2,3,5) [OF g assms(6)] repo show ?thesis by auto
  qed
qed

lemma simulation_changes_evaluation_witness:
  "\<exists>resp st1 st2. simulate_with_state decimal_uuid sample_env sample_request sample_state = (Inr resp, st1)
     \<and> evaluate_with_state decimal_uuid sample_env (sample_request\<lparr>rq_policy_profile_id := 3\<rparr>) st1
         = (Inl InconsistentDecisionResponse, st2)"
proof -
  obtain resp st1 where s: "simulate_with_state decimal_uuid sample_env sample_request sample_state
      = (Inr resp, st1)" and p: "rs_policy_profile_id resp = 2"
    using sample_simulates by blast
  obtain result st2 where e: "evaluate_with_state decimal_uuid sample_env
      (sample_request\<lparr>rq_policy_profile_id := 3\<rparr>) st1 = (result, st2)" by fastforce
  have "decision_cache_key decimal_uuid (sample_request\<lparr>rq_policy_profile_id := 3\<rparr>)
      = decision_cache_key decimal_uuid sample_request"
    by (simp add: decision_cache_key_def)
  moreover have "ev_lookup_now sample_env < ev_store_now sample_env + 30 * second"
    by (simp add: sample_env_def second_def)
  ultimately have "result = Inl InconsistentDecisionResponse"
    using simulation_changes_evaluation [OF sample_state_inv sample_miss s _ _ e] p by simp
  with s e show ?thesis by blast
qed

lemma decision_cache_key_separates:
  assumes "uuid_display_ok show_uuid"
    and "decision_cache_key show_uuid q = decision_cache_key show_uuid q'"
    and "\<forall>d. nr_requested_digest (rq_request q) = Some d \<longrightarrow> digest_wf d"
    and "\<forall>d. nr_requested_digest (rq_request q') = Some d \<longrightarrow> digest_wf d"
  shows "rq_tenant_id q = rq_tenant_id q' \<and> rq_registry_config_id q = rq_registry_config_id q'
    \<and> nr_kind (rq_request q) = nr_kind (rq_request q')
    \<and> purl (nr_coordinate (rq_request q)) = purl (nr_coordinate (rq_request q'))
    \<and> map_option dg_hex (nr_requested_digest (rq_request q)) = map_option dg_hex (nr_requested_digest (rq_request q'))"
proof -
  let ?h = "\<lambda>q. unwrap_or ''none'' (map_option dg_hex (nr_requested_digest (rq_request q)))"
  have hex: "CHR '':'' \<notin> set (dg_hex d)" if "digest_wf d" for d
    using that by (auto simp: digest_wf_def list_all_iff is_ascii_hexdigit_def is_ascii_digit_def)
  have nc: "CHR '':'' \<notin> set (?h x)" if "\<forall>d. nr_requested_digest (rq_request x) = Some d \<longrightarrow> digest_wf d" for x
    using that hex by (cases "nr_requested_digest (rq_request x)") auto
  note parts = decision_cache_key_parts [OF assms(1,2)]
  from parts have "purl (nr_coordinate (rq_request q)) @ CHR '':'' # ?h q
      = purl (nr_coordinate (rq_request q')) @ CHR '':'' # ?h q'" by simp
  from colon_suffix_eq [OF this nc [OF assms(3)] nc [OF assms(4)]]
  have p: "purl (nr_coordinate (rq_request q)) = purl (nr_coordinate (rq_request q'))" and h: "?h q = ?h q'" by auto
  have len: "dg_hex d \<noteq> ''none''" if "digest_wf d" for d using that by (auto simp: digest_wf_def)
  from h have "map_option dg_hex (nr_requested_digest (rq_request q))
      = map_option dg_hex (nr_requested_digest (rq_request q'))"
    using assms(3,4) len
    by (cases "nr_requested_digest (rq_request q)"; cases "nr_requested_digest (rq_request q')") auto
  with p parts show ?thesis by blast
qed

text \<open>Cache keys keep requests apart: two requests share a decision key only if they agree on
  tenant, registry, kind, package URL and digest, and no query key is a decision key. The policy
  profile is not part of the key.\<close>

lemma decision_key_separates:
  assumes "uuid_display_ok show_uuid"
    and "decision_cache_key show_uuid q = decision_cache_key show_uuid q'"
    and "\<forall>d. nr_requested_digest (rq_request q) = Some d \<longrightarrow> digest_wf d"
    and "\<forall>d. nr_requested_digest (rq_request q') = Some d \<longrightarrow> digest_wf d"
  shows "rq_tenant_id q = rq_tenant_id q' \<and> rq_registry_config_id q = rq_registry_config_id q'
    \<and> nr_kind (rq_request q) = nr_kind (rq_request q')
    \<and> purl (nr_coordinate (rq_request q)) = purl (nr_coordinate (rq_request q'))
    \<and> map_option dg_hex (nr_requested_digest (rq_request q)) = map_option dg_hex (nr_requested_digest (rq_request q'))
    \<and> (\<forall>x. decision_query_cache_key show_uuid x \<noteq> decision_cache_key show_uuid q)"
  using decision_cache_key_separates [OF assms] query_key_not_decision_key [OF assms(1)] by blast

lemma decision_key_separates_witness:
  "\<forall>x. decision_query_cache_key decimal_uuid x \<noteq> decision_cache_key decimal_uuid sample_request"
proof -
  have "digest_wf sample_digest" by code_simp
  then show ?thesis
    using decision_key_separates [OF decimal_uuid_ok, of sample_request sample_request]
    by (simp add: sample_request_def)
qed

end
