(* ===== verification/Registry_Config.thy ===== *)
theory Registry_Config
  imports Core_Types "HOL-Library.Multiset"
begin

text \<open>
  The registry configurations of Mosquito Net, \<^verbatim>\<open>services/mosquito-net/src/registry_config.rs\<close>:
  validation and normalisation of a configuration, the store with its replacement and the
  resolution of a proxy path to the configuration with the longest matching mount, and the
  reload handler of \<^verbatim>\<open>services/mosquito-net/src/lib.rs\<close>. \<^verbatim>\<open>Url::parse\<close> is the argument
  \<open>parse_url\<close>; its result is the record of the accessors the code reads. The Postgres
  repository is the argument of the reload handler that gives the loaded configurations.
\<close>

section \<open>Configurations\<close>

datatype RegistryAdapter =
    AdapterNpm | AdapterPypi | AdapterCargo | AdapterMaven | AdapterDockerOci | AdapterGenericHttp

fun is_proxy_supported :: "RegistryAdapter \<Rightarrow> bool" where
  "is_proxy_supported AdapterDockerOci = False"
| "is_proxy_supported _ = True"

datatype CredentialAuthType = AuthNone | AuthBasic | AuthBearer | AuthMtls

record RegistryConfig =
  rg_id :: uuid
  rg_tenant_id :: uuid
  rg_name :: string
  rg_adapter :: RegistryAdapter
  rg_upstream_url :: string
  rg_cargo_allowed_download_origins :: "string list"
  rg_mount_path :: string
  rg_auth_type :: CredentialAuthType
  rg_credential_ref :: "uuid option"
  rg_credential_env_var :: "string option"
  rg_mode :: PolicyMode
  rg_policy_profile_id :: uuid
  rg_cache_ttl_seconds :: int
  rg_verify_upstream_tls :: bool

record ResolvedRegistryConfig =
  rv_config :: RegistryConfig
  rv_upstream_path :: string

datatype RegistryConfigError =
    InvalidAdapter
  | InvalidAuthType
  | InvalidCredentialConfiguration
  | InvalidMode
  | InvalidMountPath
  | DuplicateMountPath
  | InvalidUpstreamUrl
  | InvalidCargoAllowedDownloadOrigin
  | InsecureAuthenticatedUpstream
  | RegistryDatabase string

record url =
  url_scheme :: string
  url_username :: string
  url_password :: "string option"
  url_host :: "string option"
  url_port :: "nat option"
  url_path :: string
  url_query :: "string option"
  url_fragment :: "string option"

section \<open>Database values\<close>

definition adapter_from_db :: "string \<Rightarrow> (RegistryConfigError, RegistryAdapter) result" where
  "adapter_from_db value =
     (if value = ''npm'' then Inr AdapterNpm
      else if value = ''pypi'' then Inr AdapterPypi
      else if value = ''cargo'' then Inr AdapterCargo
      else if value = ''maven'' then Inr AdapterMaven
      else if value = ''docker-oci'' then Inr AdapterDockerOci
      else if value = ''generic-http'' then Inr AdapterGenericHttp
      else Inl InvalidAdapter)"

definition auth_type_from_db :: "string \<Rightarrow> (RegistryConfigError, CredentialAuthType) result" where
  "auth_type_from_db value =
     (if value = ''none'' then Inr AuthNone
      else if value = ''basic'' then Inr AuthBasic
      else if value = ''bearer'' then Inr AuthBearer
      else if value = ''mtls'' then Inr AuthMtls
      else Inl InvalidAuthType)"

definition mode_from_db :: "string \<Rightarrow> (RegistryConfigError, PolicyMode) result" where
  "mode_from_db value =
     (if value = ''shadow'' then Inr ModeShadow
      else if value = ''warn'' then Inr ModeWarn
      else if value = ''enforce'' then Inr ModeEnforce
      else Inl InvalidMode)"

text \<open>A row of the configuration query; the enumerations are text there.\<close>

record registry_row =
  row_id :: uuid
  row_tenant_id :: uuid
  row_name :: string
  row_adapter :: string
  row_upstream_url :: string
  row_cargo_allowed_download_origins :: "string list"
  row_mount_path :: string
  row_auth_type :: string
  row_credential_ref :: "uuid option"
  row_credential_env_var :: "string option"
  row_mode :: string
  row_policy_profile_id :: uuid
  row_cache_ttl_seconds :: int
  row_verify_upstream_tls :: bool

definition registry_config_from_row :: "registry_row \<Rightarrow> (RegistryConfigError, RegistryConfig) result" where
  "registry_config_from_row row =
     res_bind (adapter_from_db (row_adapter row)) (\<lambda>adapter.
     res_bind (auth_type_from_db (row_auth_type row)) (\<lambda>auth_type.
     res_bind (mode_from_db (row_mode row)) (\<lambda>mode.
       Inr \<lparr>rg_id = row_id row, rg_tenant_id = row_tenant_id row, rg_name = row_name row,
            rg_adapter = adapter, rg_upstream_url = row_upstream_url row,
            rg_cargo_allowed_download_origins = row_cargo_allowed_download_origins row,
            rg_mount_path = row_mount_path row, rg_auth_type = auth_type,
            rg_credential_ref = row_credential_ref row, rg_credential_env_var = row_credential_env_var row,
            rg_mode = mode, rg_policy_profile_id = row_policy_profile_id row,
            rg_cache_ttl_seconds = row_cache_ttl_seconds row,
            rg_verify_upstream_tls = row_verify_upstream_tls row\<rparr>)))"

text \<open>\<open>rows\<close> is the outcome of the query.\<close>

definition load_enabled_configs ::
  "(string, registry_row list) result \<Rightarrow> (RegistryConfigError, RegistryConfig list) result" where
  "load_enabled_configs rows =
     res_bind (map_err RegistryDatabase rows) (res_collect registry_config_from_row)"

section \<open>Validation\<close>

definition mount_char :: "char \<Rightarrow> bool" where
  "mount_char c = (is_ascii_alphanumeric c \<or> c = CHR ''_'' \<or> c = CHR ''-'')"

definition normalized_mount :: "string \<Rightarrow> (RegistryConfigError, string) result" where
  "normalized_mount mount_path =
     (let trimmed = str_trim mount_path in
      if \<not> starts_with ''/'' trimmed \<or> ends_with ''/'' trimmed \<or> str_contains ''//'' trimmed
      then Inl InvalidMountPath
      else
        let without_slashes = trim_start_matches CHR ''/'' trimmed;
            effective = unwrap_or without_slashes (strip_prefix ''proxy/'' without_slashes)
        in if effective = []
              \<or> list_ex (\<lambda>segment. segment = [] \<or> \<not> list_all mount_char segment) (split_on CHR ''/'' effective)
           then Inl InvalidMountPath
           else Inr effective)"

definition validate_upstream_url ::
  "(string \<Rightarrow> url option) \<Rightarrow> string \<Rightarrow> CredentialAuthType \<Rightarrow> (RegistryConfigError, unit) result" where
  "validate_upstream_url parse_url upstream_url auth_type =
     (case parse_url upstream_url of
        None \<Rightarrow> Inl InvalidUpstreamUrl
      | Some parsed \<Rightarrow>
          if \<not> (url_scheme parsed = ''http'' \<or> url_scheme parsed = ''https'')
             \<or> url_username parsed \<noteq> [] \<or> url_password parsed \<noteq> None
          then Inl InvalidUpstreamUrl
          else if url_scheme parsed = ''http'' \<and> auth_type \<noteq> AuthNone
          then Inl InsecureAuthenticatedUpstream
          else Inr ())"

definition validate_credential_configuration ::
  "CredentialAuthType \<Rightarrow> uuid option \<Rightarrow> (RegistryConfigError, unit) result" where
  "validate_credential_configuration auth_type credential_ref =
     (case (auth_type, credential_ref) of
        (AuthNone, None) \<Rightarrow> Inr ()
      | (AuthBasic, Some _) \<Rightarrow> Inr ()
      | (AuthBearer, Some _) \<Rightarrow> Inr ()
      | (AuthMtls, Some _) \<Rightarrow> Inr ()
      | _ \<Rightarrow> Inl InvalidCredentialConfiguration)"

definition normalize_allowed_origin ::
  "(string \<Rightarrow> url option) \<Rightarrow> string \<Rightarrow> (RegistryConfigError, string) result" where
  "normalize_allowed_origin parse_url origin =
     (case parse_url origin of
        None \<Rightarrow> Inl InvalidCargoAllowedDownloadOrigin
      | Some parsed \<Rightarrow>
          if \<not> (url_scheme parsed = ''http'' \<or> url_scheme parsed = ''https'')
             \<or> url_host parsed = None \<or> url_username parsed \<noteq> [] \<or> url_password parsed \<noteq> None
             \<or> url_query parsed \<noteq> None \<or> url_fragment parsed \<noteq> None \<or> url_path parsed \<noteq> ''/''
          then Inl InvalidCargoAllowedDownloadOrigin
          else res_bind (ok_or InvalidCargoAllowedDownloadOrigin (url_host parsed)) (\<lambda>host.
            Inr (url_scheme parsed @ ''://'' @ host
              @ (case url_port parsed of Some port \<Rightarrow> '':'' @ show_nat port | None \<Rightarrow> []))))"

text \<open>The loop over the allowed origins: each is normalised, later duplicates are dropped.\<close>

fun normalize_origins ::
  "(string \<Rightarrow> url option) \<Rightarrow> string list \<Rightarrow> string list \<Rightarrow> (RegistryConfigError, string list) result" where
  "normalize_origins parse_url [] normalized = Inr normalized"
| "normalize_origins parse_url (origin # rest) normalized =
     res_bind (normalize_allowed_origin parse_url origin) (\<lambda>n.
       normalize_origins parse_url rest (if n \<in> set normalized then normalized else normalized @ [n]))"

definition normalize_registry_config ::
  "(string \<Rightarrow> url option) \<Rightarrow> RegistryConfig \<Rightarrow> (RegistryConfigError, RegistryConfig) result" where
  "normalize_registry_config parse_url config =
     res_bind (validate_upstream_url parse_url (rg_upstream_url config) (rg_auth_type config)) (\<lambda>_.
     res_bind (validate_credential_configuration (rg_auth_type config) (rg_credential_ref config)) (\<lambda>_.
     res_bind (normalize_origins parse_url (rg_cargo_allowed_download_origins config) []) (\<lambda>origins.
       Inr (config\<lparr>rg_cargo_allowed_download_origins := origins\<rparr>))))"

fun validate_configs ::
  "(string \<Rightarrow> url option) \<Rightarrow> RegistryConfig list \<Rightarrow> string set \<Rightarrow> (RegistryConfigError, RegistryConfig list) result"
where
  "validate_configs parse_url [] seen_mounts = Inr []"
| "validate_configs parse_url (config # rest) seen_mounts =
     res_bind (normalize_registry_config parse_url config) (\<lambda>config'.
     res_bind (normalized_mount (rg_mount_path config')) (\<lambda>mount.
       if mount \<in> seen_mounts then Inl DuplicateMountPath
       else res_bind (validate_configs parse_url rest (insert mount seen_mounts)) (\<lambda>configs.
         Inr (config' # configs))))"

definition mount_length :: "RegistryConfig \<Rightarrow> nat" where
  "mount_length config =
     (case normalized_mount (rg_mount_path config) of Inl _ \<Rightarrow> 0 | Inr mount \<Rightarrow> length mount)"

definition validate_and_sort_configs ::
  "(string \<Rightarrow> url option) \<Rightarrow> RegistryConfig list \<Rightarrow> (RegistryConfigError, RegistryConfig list) result" where
  "validate_and_sort_configs parse_url configs =
     res_bind (validate_configs parse_url configs {}) (\<lambda>validated.
       Inr (sort_key (\<lambda>config. - int (mount_length config)) validated))"

section \<open>The store\<close>

type_synonym RegistryConfigStore = "RegistryConfig list"

definition store_new ::
  "(string \<Rightarrow> url option) \<Rightarrow> RegistryConfig list \<Rightarrow> (RegistryConfigError, RegistryConfigStore) result" where
  "store_new parse_url configs = validate_and_sort_configs parse_url configs"

definition load_enabled ::
  "(string \<Rightarrow> url option) \<Rightarrow> (string, registry_row list) result
     \<Rightarrow> (RegistryConfigError, RegistryConfigStore) result" where
  "load_enabled parse_url rows = res_bind (load_enabled_configs rows) (store_new parse_url)"

definition replace_configs ::
  "(string \<Rightarrow> url option) \<Rightarrow> RegistryConfig list \<Rightarrow> RegistryConfigStore
     \<Rightarrow> (RegistryConfigError, unit) result \<times> RegistryConfigStore" where
  "replace_configs parse_url configs store =
     (case validate_and_sort_configs parse_url configs of
        Inl e \<Rightarrow> (Inl e, store)
      | Inr validated \<Rightarrow> (Inr (), validated))"

definition resolve_with :: "string \<Rightarrow> RegistryConfig \<Rightarrow> ResolvedRegistryConfig option" where
  "resolve_with normalized_proxy_path config =
     (case normalized_mount (rg_mount_path config) of
        Inl _ \<Rightarrow> None
      | Inr mount \<Rightarrow>
          if normalized_proxy_path = mount then Some \<lparr>rv_config = config, rv_upstream_path = []\<rparr>
          else map_option (\<lambda>upstream_path. \<lparr>rv_config = config, rv_upstream_path = upstream_path\<rparr>)
                 (strip_prefix (mount @ ''/'') normalized_proxy_path))"

definition resolve :: "RegistryConfigStore \<Rightarrow> string \<Rightarrow> ResolvedRegistryConfig option" where
  "resolve store proxy_path = find_map (resolve_with (trim_matches CHR ''/'' proxy_path)) store"

text \<open>The reload handler: \<open>repository\<close> is the outcome of the query, if there is a repository. The answer is
  a status with the number of configurations.\<close>

definition reload_registry_configs ::
  "(string \<Rightarrow> url option) \<Rightarrow> (string, registry_row list) result option \<Rightarrow> RegistryConfigStore
     \<Rightarrow> (nat \<times> nat option) \<times> RegistryConfigStore" where
  "reload_registry_configs parse_url repository store =
     (case repository of
        None \<Rightarrow> ((503, None), store)
      | Some rows \<Rightarrow>
          (case load_enabled_configs rows of
             Inl e \<Rightarrow> ((503, None), store)
           | Inr configs \<Rightarrow>
               (case replace_configs parse_url configs store of
                  (Inl e, store') \<Rightarrow> ((500, None), store')
                | (Inr _, store') \<Rightarrow> ((200, Some (length store')), store'))))"

section \<open>What a valid store satisfies\<close>

definition config_ok :: "(string \<Rightarrow> url option) \<Rightarrow> RegistryConfig \<Rightarrow> bool" where
  "config_ok parse_url c =
     ((\<exists>u. parse_url (rg_upstream_url c) = Some u \<and> (url_scheme u = ''http'' \<or> url_scheme u = ''https'')
        \<and> url_username u = [] \<and> url_password u = None \<and> (rg_auth_type c \<noteq> AuthNone \<longrightarrow> url_scheme u = ''https''))
      \<and> (rg_auth_type c = AuthNone \<longleftrightarrow> rg_credential_ref c = None)
      \<and> (\<exists>m. normalized_mount (rg_mount_path c) = Inr m)
      \<and> distinct (rg_cargo_allowed_download_origins c))"

definition mount_of :: "RegistryConfig \<Rightarrow> string" where
  "mount_of c = (case normalized_mount (rg_mount_path c) of Inr m \<Rightarrow> m | Inl _ \<Rightarrow> [])"

definition store_ok :: "(string \<Rightarrow> url option) \<Rightarrow> RegistryConfigStore \<Rightarrow> bool" where
  "store_ok parse_url store =
     ((\<forall>c \<in> set store. config_ok parse_url c) \<and> distinct (map mount_of store)
      \<and> sorted_wrt (\<lambda>a b. length (mount_of b) \<le> length (mount_of a)) store)"

text \<open>A mount matches a path that equals it or continues it after a slash.\<close>

definition mount_matches :: "string \<Rightarrow> string \<Rightarrow> bool" where
  "mount_matches mount path = (path = mount \<or> prefix (mount @ ''/'') path)"

section \<open>Lemmas\<close>

lemma normalize_origins_distinct:
  "normalize_origins parse_url os ns = Inr r \<Longrightarrow> distinct ns \<Longrightarrow> distinct r"
proof (induction parse_url os ns rule: normalize_origins.induct)
  case (2 parse_url origin rest normalized)
  then obtain n where "normalize_origins parse_url rest
      (if n \<in> set normalized then normalized else normalized @ [n]) = Inr r"
    by (auto simp only: normalize_origins.simps res_bind_eq_Inr)
  moreover have "distinct (if n \<in> set normalized then normalized else normalized @ [n])"
    using 2(3) by simp
  ultimately show ?case by (rule 2(1))
qed simp

lemma normalize_registry_config_ok:
  assumes "normalize_registry_config parse_url c = Inr c'" "normalized_mount (rg_mount_path c') = Inr m"
  shows "config_ok parse_url c' \<and> rg_mount_path c' = rg_mount_path c"
proof -
  from assms(1) obtain os where u: "validate_upstream_url parse_url (rg_upstream_url c) (rg_auth_type c) = Inr ()"
    and v: "validate_credential_configuration (rg_auth_type c) (rg_credential_ref c) = Inr ()"
    and os: "normalize_origins parse_url (rg_cargo_allowed_download_origins c) [] = Inr os"
    and c': "c' = c\<lparr>rg_cargo_allowed_download_origins := os\<rparr>"
    by (auto simp: normalize_registry_config_def res_bind_eq_Inr)
  from v have "rg_auth_type c = AuthNone \<longleftrightarrow> rg_credential_ref c = None"
    by (auto simp: validate_credential_configuration_def split: CredentialAuthType.splits option.splits)
  moreover from u have "\<exists>u. parse_url (rg_upstream_url c) = Some u
      \<and> (url_scheme u = ''http'' \<or> url_scheme u = ''https'') \<and> url_username u = [] \<and> url_password u = None
      \<and> (rg_auth_type c \<noteq> AuthNone \<longrightarrow> url_scheme u = ''https'')"
    by (auto simp: validate_upstream_url_def split: option.splits if_splits)
  ultimately show ?thesis
    using assms(2) normalize_origins_distinct [OF os] by (simp add: config_ok_def c')
qed

lemma validate_configs_ok:
  assumes "validate_configs parse_url cs seen = Inr r"
  shows "(\<forall>c \<in> set r. config_ok parse_url c) \<and> distinct (map mount_of r) \<and> mount_of ` set r \<inter> seen = {}"
  using assms
proof (induction parse_url cs seen arbitrary: r rule: validate_configs.induct)
  case (2 parse_url c cs seen)
  from 2(2) obtain c' m r' where n: "normalize_registry_config parse_url c = Inr c'"
    and m: "normalized_mount (rg_mount_path c') = Inr m" and new: "m \<notin> seen"
    and r': "validate_configs parse_url cs (insert m seen) = Inr r'" and r: "r = c' # r'"
    by (auto simp: res_bind_eq_Inr split: if_splits)
  from 2(1) [OF new r'] have "(\<forall>c \<in> set r'. config_ok parse_url c)" "distinct (map mount_of r')"
    "mount_of ` set r' \<inter> insert m seen = {}" by auto
  moreover have "mount_of c' = m" by (simp add: mount_of_def m)
  ultimately show ?case using normalize_registry_config_ok [OF n m] new by (auto simp: r)
qed simp

lemma mount_length_of: "config_ok parse_url c \<Longrightarrow> mount_length c = length (mount_of c)"
  by (auto simp: config_ok_def mount_length_def mount_of_def)

lemma validate_and_sort_ok:
  assumes "validate_and_sort_configs parse_url cs = Inr store"
  shows "store_ok parse_url store"
proof -
  from assms obtain r where r: "validate_configs parse_url cs {} = Inr r"
    and s: "store = sort_key (\<lambda>c. - int (mount_length c)) r"
    by (auto simp: validate_and_sort_configs_def res_bind_eq_Inr)
  note ok = validate_configs_ok [OF r]
  have set: "set store = set r" by (simp add: s)
  have "distinct store" using ok by (simp add: s distinct_map)
  moreover have "inj_on mount_of (set store)" using ok by (simp add: set distinct_map)
  ultimately have "distinct (map mount_of store)" by (simp add: distinct_map)
  moreover have "sorted (map (\<lambda>c. - int (mount_length c)) store)" unfolding s by (rule sorted_sort_key)
  then have "sorted_wrt (\<lambda>a b. mount_length b \<le> mount_length a) store" by (simp add: sorted_map)
  then have "sorted_wrt (\<lambda>a b. length (mount_of b) \<le> length (mount_of a)) store"
  proof (rule sorted_wrt_mono_rel [rotated])
    fix x y assume "x \<in> set store" "y \<in> set store" "mount_length y \<le> mount_length x"
    moreover have "mount_length c = length (mount_of c)" if "c \<in> set store" for c
      using ok set that by (intro mount_length_of [of parse_url]) simp
    ultimately show "length (mount_of y) \<le> length (mount_of x)" by simp
  qed
  ultimately show ?thesis using ok set by (simp add: store_ok_def)
qed

lemma resolve_with_Some:
  assumes "config_ok parse_url c"
  shows "resolve_with path c = Some r \<longleftrightarrow>
    rv_config r = c \<and> ((path = mount_of c \<and> rv_upstream_path r = []) \<or>
      path = mount_of c @ ''/'' @ rv_upstream_path r)"
proof -
  from assms obtain m where m: "normalized_mount (rg_mount_path c) = Inr m" "mount_of c = m"
    by (auto simp: config_ok_def mount_of_def)
  show ?thesis
    by (cases r) (auto simp: resolve_with_def m strip_prefix_Some)
qed

lemma resolve_with_None:
  assumes "config_ok parse_url c"
  shows "resolve_with path c = None \<longleftrightarrow> \<not> mount_matches (mount_of c) path"
proof -
  from assms obtain m where m: "normalized_mount (rg_mount_path c) = Inr m" "mount_of c = m"
    by (auto simp: config_ok_def mount_of_def)
  show ?thesis
    by (auto simp: resolve_with_def m mount_matches_def strip_prefix_None)
qed

lemma mount_matches_same_length:
  assumes "mount_matches a path" "mount_matches b path" "length a = length b"
  shows "a = b"
proof -
  have "prefix a path" "prefix b path" using assms by (auto simp: mount_matches_def prefix_def)
  with assms(3) show ?thesis by (auto simp: prefix_def append_eq_append_conv)
qed

lemma find_map_split:
  "find_map f xs = Some y \<longleftrightarrow> (\<exists>us x vs. xs = us @ x # vs \<and> f x = Some y \<and> (\<forall>u \<in> set us. f u = None))"
proof (induction xs)
  case (Cons a xs)
  show ?case
  proof (cases "f a")
    case None
    have "(\<exists>us x vs. a # xs = us @ x # vs \<and> f x = Some y \<and> (\<forall>u \<in> set us. f u = None)) \<longleftrightarrow>
      (\<exists>us x vs. xs = us @ x # vs \<and> f x = Some y \<and> (\<forall>u \<in> set us. f u = None))"
      (is "?l \<longleftrightarrow> ?r")
    proof
      assume ?l
      then obtain us x vs where "a # xs = us @ x # vs" "f x = Some y" "\<forall>u \<in> set us. f u = None" by blast
      with None show ?r by (cases us) auto
    next
      assume ?r
      then obtain us x vs where "xs = us @ x # vs" "f x = Some y" "\<forall>u \<in> set us. f u = None" by blast
      with None show ?l by (intro exI [of _ "a # us"]) auto
    qed
    with None Cons show ?thesis by simp
  next
    case (Some z)
    have "(\<exists>us x vs. a # xs = us @ x # vs \<and> f x = Some y \<and> (\<forall>u \<in> set us. f u = None)) \<longleftrightarrow> z = y"
    proof
      assume "\<exists>us x vs. a # xs = us @ x # vs \<and> f x = Some y \<and> (\<forall>u \<in> set us. f u = None)"
      then obtain us x vs where "a # xs = us @ x # vs" "f x = Some y" "\<forall>u \<in> set us. f u = None" by blast
      with Some show "z = y" by (cases us) auto
    next
      assume "z = y"
      with Some show "\<exists>us x vs. a # xs = us @ x # vs \<and> f x = Some y \<and> (\<forall>u \<in> set us. f u = None)"
        by (intro exI [of _ "[]"] exI [of _ a] exI [of _ xs]) simp
    qed
    with Some show ?thesis by simp
  qed
qed simp

text \<open>In a valid store the first match is the longest one.\<close>

lemma resolve_longest:
  assumes ok: "store_ok parse_url store"
  shows "resolve store path = Some r \<longleftrightarrow>
    rv_config r \<in> set store
    \<and> ((trim_matches CHR ''/'' path = mount_of (rv_config r) \<and> rv_upstream_path r = []) \<or>
       trim_matches CHR ''/'' path = mount_of (rv_config r) @ ''/'' @ rv_upstream_path r)
    \<and> (\<forall>c \<in> set store. mount_matches (mount_of c) (trim_matches CHR ''/'' path)
         \<longrightarrow> length (mount_of c) \<le> length (mount_of (rv_config r)))"
    (is "_ \<longleftrightarrow> ?in \<and> ?hit \<and> ?max")
proof
  let ?p = "trim_matches CHR ''/'' path"
  assume "resolve store path = Some r"
  then obtain us x vs where s: "store = us @ x # vs" and x: "resolve_with ?p x = Some r"
    and us: "\<forall>u \<in> set us. resolve_with ?p u = None"
    unfolding resolve_def find_map_split by blast
  have okx: "config_ok parse_url c" if "c \<in> set store" for c using ok that by (simp add: store_ok_def)
  have h: "rv_config r = x \<and> ((?p = mount_of x \<and> rv_upstream_path r = []) \<or> ?p = mount_of x @ ''/'' @ rv_upstream_path r)"
    using x resolve_with_Some [OF okx] s by simp
  have "length (mount_of c) \<le> length (mount_of x)"
    if "c \<in> set store" "mount_matches (mount_of c) ?p" for c
  proof -
    have "c \<notin> set us" using us resolve_with_None [OF okx [OF that(1)]] that(2) by blast
    with that(1) s have "c = x \<or> c \<in> set vs" by auto
    then show ?thesis using ok s by (auto simp: store_ok_def sorted_wrt_append)
  qed
  with h s show "?in \<and> ?hit \<and> ?max" by auto
next
  let ?p = "trim_matches CHR ''/'' path"
  assume *: "?in \<and> ?hit \<and> ?max"
  have okx: "config_ok parse_url c" if "c \<in> set store" for c using ok that by (simp add: store_ok_def)
  let ?c = "rv_config r"
  have c: "resolve_with ?p ?c = Some r" using * resolve_with_Some [OF okx] by blast
  from * obtain us vs where s: "store = us @ ?c # vs" by (meson split_list)
  have mc: "mount_matches (mount_of ?c) ?p" using * by (auto simp: mount_matches_def)
  have "resolve_with ?p u = None" if u: "u \<in> set us" for u
  proof (rule ccontr)
    assume "resolve_with ?p u \<noteq> None"
    then have mu: "mount_matches (mount_of u) ?p" using resolve_with_None [OF okx] u s by auto
    have "length (mount_of ?c) \<le> length (mount_of u)"
      using ok s u by (auto simp: store_ok_def sorted_wrt_append)
    moreover have "length (mount_of u) \<le> length (mount_of ?c)" using * mu u s by auto
    ultimately have "mount_of u = mount_of ?c" by (intro mount_matches_same_length [OF mu mc]) simp
    moreover have "mount_of u \<in> mount_of ` set us" using u by simp
    moreover have "distinct (map mount_of (us @ ?c # vs))" using ok unfolding s store_ok_def by blast
    ultimately show False by simp
  qed
  with c s show "resolve store path = Some r" unfolding resolve_def find_map_split by blast
qed

lemma resolve_None:
  assumes "store_ok parse_url store"
  shows "resolve store path = None \<longleftrightarrow>
    (\<forall>c \<in> set store. \<not> mount_matches (mount_of c) (trim_matches CHR ''/'' path))"
proof -
  have "config_ok parse_url c" if "c \<in> set store" for c using assms that by (simp add: store_ok_def)
  then show ?thesis unfolding resolve_def find_map_None using resolve_with_None by blast
qed

section \<open>Properties\<close>

text \<open>C11: a proxy path resolves to the configuration with the longest mount that equals the path or
  continues with a slash, with the rest as the upstream path; it resolves to nothing exactly when
  no mount matches; and the order in which the configurations were loaded does not matter.\<close>

theorem resolve_is_longest_mount:
  assumes "store_new parse_url configs = Inr store"
  shows "(resolve store path = Some r \<longleftrightarrow>
      rv_config r \<in> set store
      \<and> ((trim_matches CHR ''/'' path = mount_of (rv_config r) \<and> rv_upstream_path r = []) \<or>
         trim_matches CHR ''/'' path = mount_of (rv_config r) @ ''/'' @ rv_upstream_path r)
      \<and> (\<forall>c \<in> set store. mount_matches (mount_of c) (trim_matches CHR ''/'' path)
           \<longrightarrow> length (mount_of c) \<le> length (mount_of (rv_config r))))
    \<and> (resolve store path = None \<longleftrightarrow>
      (\<forall>c \<in> set store. \<not> mount_matches (mount_of c) (trim_matches CHR ''/'' path)))
    \<and> (store_new parse_url configs' = Inr store' \<and> set store' = set store \<longrightarrow> resolve store' path = resolve store path)"
proof -
  have ok: "store_ok parse_url store" using assms validate_and_sort_ok by (simp add: store_new_def)
  have "resolve store' path = resolve store path"
    if "store_new parse_url configs' = Inr store'" "set store' = set store"
  proof -
    have ok': "store_ok parse_url store'" using that(1) validate_and_sort_ok by (simp add: store_new_def)
    have "resolve store' path = Some x \<longleftrightarrow> resolve store path = Some x" for x
      unfolding resolve_longest [OF ok] resolve_longest [OF ok'] that(2) by (rule refl)
    then show ?thesis by (cases "resolve store path") (metis not_None_eq)+
  qed
  with resolve_longest [OF ok] resolve_None [OF ok] show ?thesis by blast
qed

definition sample_url :: "string \<Rightarrow> url option" where
  "sample_url s = Some \<lparr>url_scheme = ''https'', url_username = [], url_password = None,
     url_host = Some ''registry.npmjs.org'', url_port = None, url_path = ''/'', url_query = None,
     url_fragment = None\<rparr>"

definition sample_config :: "uuid \<Rightarrow> string \<Rightarrow> RegistryConfig" where
  "sample_config i mount =
     \<lparr>rg_id = i, rg_tenant_id = 1, rg_name = ''npm'', rg_adapter = AdapterNpm,
      rg_upstream_url = ''https://registry.npmjs.org'', rg_cargo_allowed_download_origins = [],
      rg_mount_path = mount, rg_auth_type = AuthNone, rg_credential_ref = None, rg_credential_env_var = None,
      rg_mode = ModeEnforce, rg_policy_profile_id = 2, rg_cache_ttl_seconds = 60, rg_verify_upstream_tls = True\<rparr>"

lemma sample_mounts:
  "normalized_mount ''/proxy/npm'' = Inr ''npm''" "normalized_mount ''/npm/team'' = Inr ''npm/team''"
  "normalized_mount ''/npm'' = Inr ''npm''"
proof -
  have t: "str_trim ''/proxy/npm'' = ''/proxy/npm''" "str_trim ''/npm/team'' = ''/npm/team''"
    "str_trim ''/npm'' = ''/npm''"
    by (rule str_trim_id; simp add: graphic_char_def)+
  note defs = normalized_mount_def t starts_with_def ends_with_def strip_suffix_def trim_start_matches_def
    mount_char_def is_ascii_alphanumeric_def is_ascii_lowercase_def is_ascii_uppercase_def is_ascii_digit_def
  show "normalized_mount ''/proxy/npm'' = Inr ''npm''" by (simp add: defs)
  show "normalized_mount ''/npm/team'' = Inr ''npm/team''" by (simp add: defs)
  show "normalized_mount ''/npm'' = Inr ''npm''" by (simp add: defs)
qed

lemma sample_normalized: "normalize_registry_config sample_url (sample_config i m) = Inr (sample_config i m)"
  by (simp add: normalize_registry_config_def validate_upstream_url_def validate_credential_configuration_def
      sample_url_def sample_config_def)

lemma sample_mount_path [simp]: "rg_mount_path (sample_config i m) = m"
  by (simp add: sample_config_def)

lemma sample_store:
  "store_new sample_url [sample_config 1 ''/proxy/npm'', sample_config 2 ''/npm/team'']
     = Inr [sample_config 2 ''/npm/team'', sample_config 1 ''/proxy/npm'']"
  by (simp add: store_new_def validate_and_sort_configs_def sample_normalized sample_mounts mount_length_def)

theorem resolve_is_longest_mount_witness:
  "resolve [sample_config 2 ''/npm/team'', sample_config 1 ''/proxy/npm''] ''/npm/team/left-pad''
     = Some \<lparr>rv_config = sample_config 2 ''/npm/team'', rv_upstream_path = ''left-pad''\<rparr>"
proof -
  have m: "mount_of (sample_config 2 ''/npm/team'') = ''npm/team''" "mount_of (sample_config 1 ''/proxy/npm'') = ''npm''"
    by (simp_all add: mount_of_def sample_mounts)
  have t: "trim_matches CHR ''/'' ''/npm/team/left-pad'' = ''npm/team/left-pad''" by code_simp
  from resolve_is_longest_mount [OF sample_store, of "''/npm/team/left-pad''"
      "\<lparr>rv_config = sample_config 2 ''/npm/team'', rv_upstream_path = ''left-pad''\<rparr>"]
  show ?thesis by (simp add: m t)
qed

text \<open>Every replacement of the configurations either installs a store whose configurations are all
  valid (http or https upstream without credentials in the URL, https whenever credentials are
  used, a credential reference exactly when the authentication type needs one, a valid mount), with
  pairwise different mounts, the longest first, or reports the error and leaves the store as it was;
  the reload endpoint answers success exactly in the first case.\<close>

lemma replacement_keeps_store_valid:
  assumes "store_ok parse_url store"
  shows "(case replace_configs parse_url configs store of
      (Inr _, store') \<Rightarrow> store_ok parse_url store' \<and> length store' = length configs
    | (Inl e, store') \<Rightarrow> store' = store)
    \<and> store_ok parse_url (snd (reload_registry_configs parse_url repository store))
    \<and> (fst (fst (reload_registry_configs parse_url repository store)) \<noteq> 200 \<longrightarrow>
        snd (reload_registry_configs parse_url repository store) = store)"
proof -
  have len: "length r = length cs" if "validate_configs parse_url cs seen = Inr r" for cs seen r
    using that by (induction parse_url cs seen arbitrary: r rule: validate_configs.induct)
      (auto simp: res_bind_eq_Inr split: if_splits)
  have r: "case replace_configs parse_url cs store of
      (Inr _, store') \<Rightarrow> store_ok parse_url store' \<and> length store' = length cs
    | (Inl e, store') \<Rightarrow> store' = store" for cs
  proof (cases "validate_and_sort_configs parse_url cs")
    case (Inr v)
    then have "length v = length cs"
      by (auto simp: validate_and_sort_configs_def res_bind_eq_Inr len)
    with Inr validate_and_sort_ok [OF Inr] show ?thesis by (simp add: replace_configs_def)
  qed (simp add: replace_configs_def)
  have "store_ok parse_url (snd (reload_registry_configs parse_url repository store))
    \<and> (fst (fst (reload_registry_configs parse_url repository store)) \<noteq> 200 \<longrightarrow>
        snd (reload_registry_configs parse_url repository store) = store)"
  proof (cases repository)
    case (Some rows)
    show ?thesis
    proof (cases "load_enabled_configs rows")
      case (Inr cs)
      with Some r [of cs] assms show ?thesis
        by (auto simp: reload_registry_configs_def split: prod.splits sum.splits)
    qed (use Some assms in \<open>simp add: reload_registry_configs_def\<close>)
  qed (use assms in \<open>simp add: reload_registry_configs_def\<close>)
  with r [of configs] show ?thesis by simp
qed

definition sample_row :: "uuid \<Rightarrow> string \<Rightarrow> registry_row" where
  "sample_row i mount =
     \<lparr>row_id = i, row_tenant_id = 1, row_name = ''npm'', row_adapter = ''npm'',
      row_upstream_url = ''https://registry.npmjs.org'', row_cargo_allowed_download_origins = [],
      row_mount_path = mount, row_auth_type = ''none'', row_credential_ref = None,
      row_credential_env_var = None, row_mode = ''enforce'', row_policy_profile_id = 2,
      row_cache_ttl_seconds = 60, row_verify_upstream_tls = True\<rparr>"

lemma sample_row_config: "registry_config_from_row (sample_row i m) = Inr (sample_config i m)"
  by (simp add: registry_config_from_row_def adapter_from_db_def auth_type_from_db_def mode_from_db_def
      sample_row_def sample_config_def)

lemma replacement_keeps_store_valid_witness:
  "snd (reload_registry_configs sample_url
     (Some (Inr [sample_row 1 ''/proxy/npm'', sample_row 2 ''/npm''])) []) = []"
proof -
  have "fst (fst (reload_registry_configs sample_url
     (Some (Inr [sample_row 1 ''/proxy/npm'', sample_row 2 ''/npm''])) [])) = 500"
    by (simp add: reload_registry_configs_def load_enabled_configs_def sample_row_config replace_configs_def
        validate_and_sort_configs_def sample_normalized sample_mounts)
  moreover have "store_ok sample_url []" by (simp add: store_ok_def)
  ultimately show ?thesis
    using replacement_keeps_store_valid [of sample_url "[]" "[]"
        "Some (Inr [sample_row 1 ''/proxy/npm'', sample_row 2 ''/npm''])"] by simp
qed

end
