(* ===== verification/Triage_Client.thy ===== *)
theory Triage_Client
  imports Protocol_Names Registry_Config
begin

text \<open>
  The client Mosquito Net uses to ask the Triage Counter for a decision,
  \<^verbatim>\<open>services/mosquito-net/src/triage_client.rs\<close>. The HTTP client is the argument \<open>send\<close>: the answer to
  the \<open>n\<close>-th request the loop sends, a transport error or a status with a body that decodes or does
  not. \<^verbatim>\<open>Url::parse\<close> and \<^verbatim>\<open>Url::join\<close> are the arguments \<open>parse_url\<close> and \<open>join_url\<close>, and \<open>build\<close> is the
  outcome of building the HTTP client.
\<close>

section \<open>Errors and answers\<close>

type_synonym status = nat

definition is_success :: "status \<Rightarrow> bool" where
  "is_success s = (200 \<le> s \<and> s < 300)"

definition is_server_error :: "status \<Rightarrow> bool" where
  "is_server_error s = (500 \<le> s \<and> s < 600)"

record transport_error =
  te_is_connect :: bool
  te_is_timeout :: bool

datatype TriageClientError =
    InvalidBaseUrl
  | UnavailableStatus status
  | UnavailableTransport transport_error
  | NonRetryableStatus status
  | InvalidResponse transport_error
  | ResponseContextMismatch
  | ClientSetup transport_error

fun is_outage :: "TriageClientError \<Rightarrow> bool" where
  "is_outage (UnavailableStatus _) = True"
| "is_outage (UnavailableTransport _) = True"
| "is_outage (ClientSetup _) = True"
| "is_outage _ = False"

datatype http_answer =
    Answered status "(transport_error, DecisionResponse) result"
  | Failed transport_error

section \<open>The client\<close>

record TriageClient =
  tc_evaluate_url :: url
  tc_max_retries :: "8 word"

definition triage_client_new ::
  "(string \<Rightarrow> url option) \<Rightarrow> (url \<Rightarrow> string \<Rightarrow> url option) \<Rightarrow> (transport_error, unit) result
     \<Rightarrow> string \<Rightarrow> 8 word \<Rightarrow> (TriageClientError, TriageClient) result" where
  "triage_client_new parse_url join_url build base_url max_retries =
     res_bind (ok_or InvalidBaseUrl (parse_url base_url)) (\<lambda>base.
       if \<not> (url_scheme base = ''http'' \<or> url_scheme base = ''https'')
          \<or> url_username base \<noteq> [] \<or> url_password base \<noteq> None
       then Inl InvalidBaseUrl
       else res_bind (ok_or InvalidBaseUrl (join_url base ''/v1/decisions/evaluate'')) (\<lambda>evaluate_url.
         case build of
           Inl e \<Rightarrow> Inl (ClientSetup e)
         | Inr _ \<Rightarrow> Inr \<lparr>tc_evaluate_url = evaluate_url, tc_max_retries = max_retries\<rparr>))"

definition validate_response_context ::
  "DecisionRequest \<Rightarrow> DecisionResponse \<Rightarrow> (TriageClientError, unit) result" where
  "validate_response_context request response =
     (if rs_tenant_id response \<noteq> rq_tenant_id request
         \<or> rs_policy_profile_id response \<noteq> rq_policy_profile_id request
         \<or> rs_trace_id response \<noteq> nr_trace_id (rq_request request)
      then Inl ResponseContextMismatch
      else Inr ())"

text \<open>Below the bound the counter does not wrap.\<close>

lemma attempt_step: "(attempt :: 8 word) < m \<Longrightarrow> unat (attempt + 1) = Suc (unat attempt)"
proof -
  assume "attempt < m"
  moreover have "unat m < 2 ^ 8" using unsigned_less [of m] by simp
  ultimately show ?thesis by (simp add: word_less_nat_alt unat_word_ariths)
qed

text \<open>The loop of \<^verbatim>\<open>TriageClient::evaluate\<close>: \<open>attempt\<close> is its eight-bit counter, \<open>n\<close> the number of
  requests already sent. The result carries the number of requests sent in all.\<close>

function evaluate_loop ::
  "8 word \<Rightarrow> (nat \<Rightarrow> http_answer) \<Rightarrow> DecisionRequest \<Rightarrow> 8 word \<Rightarrow> nat
     \<Rightarrow> (TriageClientError, DecisionResponse) result \<times> nat" where
  "evaluate_loop max_retries send request attempt n =
     (case send n of
        Answered st body \<Rightarrow>
          if is_success st then
            ((case body of
                Inl e \<Rightarrow> Inl (InvalidResponse e)
              | Inr decision \<Rightarrow> res_bind (validate_response_context request decision) (\<lambda>_. Inr decision)), Suc n)
          else if is_server_error st \<and> attempt < max_retries then
            evaluate_loop max_retries send request (attempt + 1) (Suc n)
          else if is_server_error st then (Inl (UnavailableStatus st), Suc n)
          else (Inl (NonRetryableStatus st), Suc n)
      | Failed e \<Rightarrow>
          if attempt < max_retries then
            (if \<not> te_is_connect e \<and> \<not> te_is_timeout e then (Inl (InvalidResponse e), Suc n)
             else evaluate_loop max_retries send request (attempt + 1) (Suc n))
          else if te_is_connect e \<or> te_is_timeout e then (Inl (UnavailableTransport e), Suc n)
          else (Inl (InvalidResponse e), Suc n))"
  by pat_completeness auto

termination
  by (relation "measure (\<lambda>(m, send, request, attempt, n). unat m - unat attempt)")
    (auto simp: attempt_step word_less_nat_alt)

declare evaluate_loop.simps [simp del]

definition client_evaluate ::
  "TriageClient \<Rightarrow> (nat \<Rightarrow> http_answer) \<Rightarrow> DecisionRequest
     \<Rightarrow> (TriageClientError, DecisionResponse) result \<times> nat" where
  "client_evaluate client send request = evaluate_loop (tc_max_retries client) send request 0 0"

section \<open>What one answer means\<close>

text \<open>An answer after which the loop asks again while attempts are left.\<close>

fun retryable :: "http_answer \<Rightarrow> bool" where
  "retryable (Answered st body) = (\<not> is_success st \<and> is_server_error st)"
| "retryable (Failed e) = (te_is_connect e \<or> te_is_timeout e)"

text \<open>The result the loop returns for the answer it does not retry.\<close>

fun final_result :: "DecisionRequest \<Rightarrow> http_answer \<Rightarrow> (TriageClientError, DecisionResponse) result" where
  "final_result request (Answered st body) =
     (if is_success st then
        (case body of
           Inl e \<Rightarrow> Inl (InvalidResponse e)
         | Inr decision \<Rightarrow> res_bind (validate_response_context request decision) (\<lambda>_. Inr decision))
      else if is_server_error st then Inl (UnavailableStatus st)
      else Inl (NonRetryableStatus st))"
| "final_result request (Failed e) =
     (if te_is_connect e \<or> te_is_timeout e then Inl (UnavailableTransport e) else Inl (InvalidResponse e))"

lemma evaluate_loop_unfold:
  "evaluate_loop m send request attempt n =
     (if retryable (send n) \<and> attempt < m then evaluate_loop m send request (attempt + 1) (Suc n)
      else (final_result request (send n), Suc n))"
  by (subst evaluate_loop.simps) (simp split: http_answer.split)

text \<open>The loop answers with the first answer that is not retryable, or with the last one when the
  attempts are used up.\<close>

lemma evaluate_loop_scan:
  assumes "unat m - unat attempt = d"
  shows "\<exists>k \<le> d. evaluate_loop m send request attempt n = (final_result request (send (n + k)), Suc (n + k))
    \<and> (\<forall>i < k. retryable (send (n + i))) \<and> (k < d \<longrightarrow> \<not> retryable (send (n + k)))"
  using assms
proof (induction d arbitrary: attempt n)
  case 0
  then have "\<not> attempt < m" by (simp add: word_less_nat_alt)
  then show ?case by (simp add: evaluate_loop_unfold)
next
  case (Suc d)
  then have lt: "attempt < m" by (simp add: word_less_nat_alt)
  show ?case
  proof (cases "retryable (send n)")
    case True
    from Suc(2) lt have "unat m - unat (attempt + 1) = d" by (simp add: attempt_step)
    from Suc(1) [OF this, of "Suc n"] obtain k where k: "k \<le> d"
      "evaluate_loop m send request (attempt + 1) (Suc n) = (final_result request (send (Suc n + k)), Suc (Suc n + k))"
      "\<forall>i < k. retryable (send (Suc n + i))" "k < d \<longrightarrow> \<not> retryable (send (Suc n + k))" by blast
    have "\<forall>i < Suc k. retryable (send (n + i))"
      using True k(3) by (auto simp: less_Suc_eq_0_disj)
    with k True lt show ?thesis
      by (intro exI [of _ "Suc k"]) (simp add: evaluate_loop_unfold [of m send request attempt n])
  next
    case False
    then show ?thesis by (intro exI [of _ 0]) (simp add: evaluate_loop_unfold [of m send request attempt n])
  qed
qed

lemma final_result_Inr:
  "final_result request a = Inr d \<longleftrightarrow> (\<exists>st. a = Answered st (Inr d) \<and> is_success st
     \<and> rs_tenant_id d = rq_tenant_id request \<and> rs_policy_profile_id d = rq_policy_profile_id request
     \<and> rs_trace_id d = nr_trace_id (rq_request request))"
  by (cases a) (auto simp: validate_response_context_def res_bind_eq_Inr split: sum.splits if_splits)

lemma final_result_outage:
  "(\<exists>e. final_result request a = Inl e \<and> is_outage e) \<longleftrightarrow> retryable a"
proof (cases a)
  case (Answered st body)
  have "res_bind (validate_response_context request d) (\<lambda>_. Inr d) = Inl e \<Longrightarrow> \<not> is_outage e" for d e
    by (auto simp: validate_response_context_def split: if_splits)
  with Answered show ?thesis by (auto split: sum.splits if_splits)
qed simp

section \<open>Properties\<close>

text \<open>C8: asking the Triage Counter always ends after at most one request more than the configured
  number of retries, with the verdict on the answer of the last request it sent; every earlier answer
  was a server error or a connection failure. It returns a decision exactly when that answer is a
  successful status with a decision for the tenant, the profile and the trace of the request, and it
  reports an outage exactly when all the allowed attempts failed.\<close>

theorem client_evaluate_outcome:
  "\<exists>k \<le> unat (tc_max_retries client).
     client_evaluate client send request = (final_result request (send k), Suc k)
     \<and> (\<forall>i < k. retryable (send i))
     \<and> (\<forall>d. fst (client_evaluate client send request) = Inr d \<longleftrightarrow>
          (\<exists>st. send k = Answered st (Inr d) \<and> is_success st \<and> rs_tenant_id d = rq_tenant_id request
             \<and> rs_policy_profile_id d = rq_policy_profile_id request
             \<and> rs_trace_id d = nr_trace_id (rq_request request)))
     \<and> ((\<exists>e. fst (client_evaluate client send request) = Inl e \<and> is_outage e) \<longleftrightarrow>
          k = unat (tc_max_retries client) \<and> (\<forall>i \<le> unat (tc_max_retries client). retryable (send i)))"
proof -
  let ?m = "unat (tc_max_retries client)"
  from evaluate_loop_scan [of "tc_max_retries client" 0 ?m send request 0]
  obtain k where k: "k \<le> ?m" "client_evaluate client send request = (final_result request (send k), Suc k)"
    "\<forall>i < k. retryable (send i)" "k < ?m \<longrightarrow> \<not> retryable (send k)"
    unfolding client_evaluate_def by auto
  have "(\<exists>e. final_result request (send k) = Inl e \<and> is_outage e) \<longleftrightarrow>
      k = ?m \<and> (\<forall>i \<le> ?m. retryable (send i))"
    unfolding final_result_outage using k by (metis le_neq_implies_less order_refl)
  with k final_result_Inr show ?thesis by (intro exI [of _ k]) auto
qed

theorem client_evaluate_outcome_witness:
  "\<forall>u body request. \<exists>k \<le> 1.
     client_evaluate \<lparr>tc_evaluate_url = u, tc_max_retries = 1\<rparr> (\<lambda>_. Answered 503 body) request
       = (Inl (UnavailableStatus 503), Suc k)"
proof (intro allI)
  fix u :: url and body :: "(transport_error, DecisionResponse) result" and request :: DecisionRequest
  show "\<exists>k \<le> 1. client_evaluate \<lparr>tc_evaluate_url = u, tc_max_retries = 1\<rparr> (\<lambda>_. Answered 503 body) request
       = (Inl (UnavailableStatus 503), Suc k)"
    using client_evaluate_outcome
      [of "\<lparr>tc_evaluate_url = u, tc_max_retries = 1\<rparr>" "\<lambda>_. Answered 503 body" request]
    by (auto simp: is_success_def is_server_error_def)
qed

end
