(* ===== verification/Adapter_Paths.thy ===== *)
theory Adapter_Paths
  imports Triage_Client
begin

text \<open>
  How Mosquito Net reads a proxied path: the request context of each registry adapter (metadata or
  artifact, the package coordinate, whether a version is pinned), the routes of the Cargo download
  and API proxies, and the decision request built from a context, all of
  \<^verbatim>\<open>services/mosquito-net/src/lib.rs\<close>. \<^verbatim>\<open>semver::Version::parse\<close> is the argument \<open>semver_ok\<close> and
  \<^verbatim>\<open>Url::parse\<close> the argument \<open>parse_url\<close>. Rejections carry the HTTP status the code returns.
\<close>

section \<open>Segments\<close>

type_synonym request_context = "PackageRequestKind \<times> PackageCoordinate \<times> bool"

definition segments :: "string \<Rightarrow> string list" where
  "segments path = filter (\<lambda>segment. segment \<noteq> []) (split_on CHR ''/'' path)"

definition decode_registry_path :: "string \<Rightarrow> string" where
  "decode_registry_path upstream_path =
     str_replace ''%2F'' ''/'' (str_replace ''%2f'' ''/''
       (str_replace ''%40'' ''@'' (trim_matches CHR ''/'' upstream_path)))"

definition bad_request :: status where
  "bad_request = 400"

definition not_implemented :: status where
  "not_implemented = 501"

section \<open>npm\<close>

definition npm_package_path :: "string \<Rightarrow> string option" where
  "npm_package_path decoded_path =
     (case segments decoded_path of
        [] \<Rightarrow> None
      | first # rest \<Rightarrow>
          if starts_with ''@'' first then
            (case rest of [] \<Rightarrow> None | second # _ \<Rightarrow> Some (first @ ''/'' @ second))
          else Some first)"

definition npm_metadata_path_has_explicit_version :: "string \<Rightarrow> string \<Rightarrow> bool" where
  "npm_metadata_path_has_explicit_version decoded_path package_path =
     is_some_and (\<lambda>tail. tail \<noteq> [] \<and> \<not> starts_with ''-/'' tail)
       (Option.bind (strip_prefix package_path decoded_path) (strip_prefix ''/''))"

definition npm_tarball_version :: "string \<Rightarrow> string \<Rightarrow> string option" where
  "npm_tarball_version decoded_path package_name =
     Option.bind (strip_suffix ''.tgz'' (last (split_on CHR ''/'' decoded_path))) (\<lambda>filename.
       opt_filter (\<lambda>version. version \<noteq> []) (strip_prefix (package_name @ ''-'') filename))"

definition npm_request_context :: "string \<Rightarrow> (status, request_context) result" where
  "npm_request_context upstream_path =
     (let decoded = decode_registry_path upstream_path in
      res_bind (ok_or bad_request (npm_package_path decoded)) (\<lambda>package_path.
      res_bind (map_err (\<lambda>_. bad_request) (normalize_npm_name package_path)) (\<lambda>coordinate.
        let kind = (if str_contains ''/-/'' decoded then KindArtifact else KindMetadata);
            coordinate' = (case npm_tarball_version decoded (pc_name coordinate) of
                Some version \<Rightarrow>
                  if kind = KindArtifact then coordinate\<lparr>pc_version := Some version\<rparr> else coordinate
              | None \<Rightarrow> coordinate);
            explicit = (kind = KindArtifact \<or> npm_metadata_path_has_explicit_version decoded package_path)
        in Inr (kind, coordinate', explicit))))"

definition npm_fallback_may_rewrite_metadata :: "string \<Rightarrow> bool" where
  "npm_fallback_may_rewrite_metadata upstream_path =
     (case npm_request_context upstream_path of
        Inl _ \<Rightarrow> False
      | Inr (kind, _, explicit) \<Rightarrow> kind = KindMetadata \<and> \<not> explicit)"

definition upstream_path_for_decision :: "ResolvedRegistryConfig \<Rightarrow> DecisionResponse \<Rightarrow> string" where
  "upstream_path_for_decision resolved decision =
     (case rs_fallback_coordinate decision of
        Some candidate \<Rightarrow>
          if rg_adapter (rv_config resolved) = AdapterNpm
             \<and> rs_decision decision = FallbackToApprovedCandidate
             \<and> npm_fallback_may_rewrite_metadata (rv_upstream_path resolved)
          then
            (case pc_namespace candidate of
               Some namespace \<Rightarrow>
                 if namespace \<noteq> [] then ''@'' @ namespace @ ''/'' @ pc_name candidate else pc_name candidate
             | None \<Rightarrow> pc_name candidate)
          else rv_upstream_path resolved
      | None \<Rightarrow> rv_upstream_path resolved)"

section \<open>PyPI\<close>

definition pypi_coordinate_from_distribution_filename :: "string \<Rightarrow> PackageCoordinate option" where
  "pypi_coordinate_from_distribution_filename file_name =
     (let normalized_file = hd (split_on CHR ''#'' file_name);
          parts =
            (case strip_suffix ''.whl'' normalized_file of
               Some stem \<Rightarrow>
                 (case split_on CHR ''-'' stem of name # version # _ \<Rightarrow> Some (name, version) | _ \<Rightarrow> None)
             | None \<Rightarrow>
                 (case strip_suffix ''.tar.gz'' normalized_file of
                    Some stem \<Rightarrow> rsplit_once CHR ''-'' stem
                  | None \<Rightarrow>
                      (case strip_suffix ''.zip'' normalized_file of
                         Some stem \<Rightarrow> rsplit_once CHR ''-'' stem
                       | None \<Rightarrow> None)))
      in Option.bind parts (\<lambda>(name, version).
           map_option (\<lambda>canonical. coordinate_new Pypi canonical (Some version) None)
             (res_ok (canonicalize_pypi_name name))))"

definition pypi_request_context :: "string \<Rightarrow> (status, request_context) result" where
  "pypi_request_context upstream_path =
     (let normalized = trim_matches CHR ''/'' (decode_registry_path upstream_path) in
      case Option.bind (strip_prefix ''simple/'' normalized)
             (\<lambda>path. find (\<lambda>segment. segment \<noteq> []) (split_on CHR ''/'' path)) of
        Some project_name \<Rightarrow>
          res_bind (map_err (\<lambda>_. bad_request) (canonicalize_pypi_name project_name)) (\<lambda>canonical.
            Inr (KindMetadata, coordinate_new Pypi canonical None None, False))
      | None \<Rightarrow>
          res_bind (ok_or bad_request (opt_filter (\<lambda>segment. segment \<noteq> [])
              (Some (last (split_on CHR ''/'' normalized))))) (\<lambda>file_name.
          res_bind (ok_or bad_request (pypi_coordinate_from_distribution_filename file_name)) (\<lambda>coordinate.
            Inr (KindArtifact, coordinate, True))))"

section \<open>Cargo\<close>

definition CARGO_DL_PROXY_PREFIX :: string where
  "CARGO_DL_PROXY_PREFIX = ''__cargo_dl__''"

definition CARGO_API_PROXY_PREFIX :: string where
  "CARGO_API_PROXY_PREFIX = ''__cargo_api__''"

definition cargo_proxy_route_components :: "string \<Rightarrow> string \<Rightarrow> (string \<times> string \<times> string) option" where
  "cargo_proxy_route_components route upstream_path =
     Option.bind (strip_prefix (route @ ''/'') upstream_path) (\<lambda>rest.
     Option.bind (split_once CHR ''/'' rest) (\<lambda>(encoded_base, rest).
     Option.bind (split_once CHR ''/'' rest) (\<lambda>(signature, sfx).
       if sfx \<noteq> [] then Some (encoded_base, signature, sfx) else None)))"

definition cargo_proxy_download_components :: "string \<Rightarrow> (string \<times> string \<times> string) option" where
  "cargo_proxy_download_components upstream_path = cargo_proxy_route_components CARGO_DL_PROXY_PREFIX upstream_path"

definition cargo_proxy_api_components :: "string \<Rightarrow> (string \<times> string \<times> string) option" where
  "cargo_proxy_api_components upstream_path = cargo_proxy_route_components CARGO_API_PROXY_PREFIX upstream_path"

definition cargo_proxy_api_path :: "string \<Rightarrow> bool" where
  "cargo_proxy_api_path upstream_path = (cargo_proxy_api_components upstream_path \<noteq> None)"

definition cargo_name_char :: "char \<Rightarrow> bool" where
  "cargo_name_char c = (is_ascii_lowercase c \<or> is_ascii_digit c \<or> c = CHR ''-'' \<or> c = CHR ''_'')"

definition canonicalize_cargo_name :: "string \<Rightarrow> string option" where
  "canonicalize_cargo_name name =
     (let normalized = to_ascii_lowercase (str_trim name) in
      if normalized = [] then None
      else if list_all cargo_name_char normalized then Some normalized else None)"

definition cargo_registry_api_suffix_supported :: "(string \<Rightarrow> bool) \<Rightarrow> string \<Rightarrow> string \<Rightarrow> bool" where
  "cargo_registry_api_suffix_supported semver_ok method sfx =
     (let crate_ok = (\<lambda>crate_name. canonicalize_cargo_name crate_name \<noteq> None) in
      case segments sfx of
        [a, b, c] \<Rightarrow> method = ''GET'' \<and> a = ''api'' \<and> b = ''v1'' \<and> c = ''crates''
      | [a, b, c, d] \<Rightarrow>
          (method = ''POST'' \<or> method = ''PUT'') \<and> a = ''api'' \<and> b = ''v1'' \<and> c = ''crates'' \<and> d = ''new''
      | [a, b, c, crate_name, e] \<Rightarrow>
          (method = ''GET'' \<or> method = ''PUT'' \<or> method = ''DELETE'')
          \<and> a = ''api'' \<and> b = ''v1'' \<and> c = ''crates'' \<and> e = ''owners'' \<and> crate_ok crate_name
      | [a, b, c, crate_name, version, e] \<Rightarrow>
          a = ''api'' \<and> b = ''v1'' \<and> c = ''crates''
          \<and> ((method = ''DELETE'' \<and> e = ''yank'') \<or> (method = ''PUT'' \<and> e = ''unyank''))
          \<and> crate_ok crate_name \<and> semver_ok version
      | _ \<Rightarrow> False)"

definition cargo_registry_api_request_supported :: "(string \<Rightarrow> bool) \<Rightarrow> string \<Rightarrow> string \<Rightarrow> bool" where
  "cargo_registry_api_request_supported semver_ok method upstream_path =
     (case cargo_proxy_api_components upstream_path of
        None \<Rightarrow> False
      | Some (_, _, sfx) \<Rightarrow> cargo_registry_api_suffix_supported semver_ok method sfx)"

definition cargo_registry_config_path :: "string \<Rightarrow> bool" where
  "cargo_registry_config_path upstream_path =
     (trim_matches CHR ''/'' (decode_registry_path upstream_path) = ''config.json'')"

definition cargo_sparse_index_package_name :: "string \<Rightarrow> string option" where
  "cargo_sparse_index_package_name path =
     (let segs = segments path in
      if segs = [] then None
      else Option.bind (canonicalize_cargo_name (last segs)) (\<lambda>canonical.
        case segs of
          [a, crate_name] \<Rightarrow>
            if (a = ''1'' \<and> length canonical = 1 \<or> a = ''2'' \<and> length canonical = 2) \<and> crate_name = canonical
            then Some canonical else None
        | [a, b, crate_name] \<Rightarrow>
            if crate_name = canonical
               \<and> (a = ''3'' \<and> length canonical = 3 \<and> b = take 1 canonical
                  \<or> length canonical \<ge> 4 \<and> a = take 2 canonical \<and> b = take 2 (drop 2 canonical))
            then Some canonical else None
        | _ \<Rightarrow> None))"

text \<open>The slices of the code are on byte positions: of the empty name they panic, which is \<open>None\<close> here.
  On names of ASCII characters, and the canonical names are, no other slice is out of range.\<close>

definition cargo_sparse_index_path :: "string \<Rightarrow> string option" where
  "cargo_sparse_index_path crate_name =
     (if length crate_name = 1 then Some (''1/'' @ crate_name)
      else if length crate_name = 2 then Some (''2/'' @ crate_name)
      else if length crate_name = 3 then Some (''3/'' @ take 1 crate_name @ ''/'' @ crate_name)
      else if crate_name = [] then None
      else Some (take 2 crate_name @ ''/'' @ take 2 (drop 2 crate_name) @ ''/'' @ crate_name))"

definition cargo_download_coordinate :: "(string \<Rightarrow> bool) \<Rightarrow> string \<Rightarrow> PackageCoordinate option" where
  "cargo_download_coordinate semver_ok path =
     Option.bind (cargo_proxy_download_components path) (\<lambda>(_, _, sfx).
       case segments sfx of
         [crate_name, version, download] \<Rightarrow>
           if download = ''download'' \<and> semver_ok version
           then map_option (\<lambda>n. coordinate_new Cargo n (Some version) None) (canonicalize_cargo_name crate_name)
           else None
       | _ \<Rightarrow> None)"

definition cargo_request_context :: "(string \<Rightarrow> bool) \<Rightarrow> string \<Rightarrow> (status, request_context) result" where
  "cargo_request_context semver_ok upstream_path =
     (let normalized = trim_matches CHR ''/'' (decode_registry_path upstream_path) in
      case cargo_download_coordinate semver_ok normalized of
        Some coordinate \<Rightarrow> Inr (KindArtifact, coordinate, True)
      | None \<Rightarrow>
          res_bind (ok_or bad_request (cargo_sparse_index_package_name normalized)) (\<lambda>crate_name.
            Inr (KindMetadata, coordinate_new Cargo crate_name None None, False)))"

section \<open>Maven\<close>

definition maven_checksum_suffixes :: "string list" where
  "maven_checksum_suffixes = [''.md5'', ''.sha1'', ''.sha256'', ''.sha512'', ''.asc'']"

definition strip_maven_checksum_suffix :: "string \<Rightarrow> string" where
  "strip_maven_checksum_suffix filename =
     unwrap_or filename (find_map (\<lambda>sfx. strip_suffix sfx filename) maven_checksum_suffixes)"

definition is_maven_checksum_or_signature_file :: "string \<Rightarrow> bool" where
  "is_maven_checksum_or_signature_file filename =
     list_ex (\<lambda>sfx. ends_with sfx filename) maven_checksum_suffixes"

definition is_maven_metadata_file :: "string \<Rightarrow> bool" where
  "is_maven_metadata_file filename = (strip_maven_checksum_suffix filename = ''maven-metadata.xml'')"

definition maven_request_context :: "string \<Rightarrow> (status, request_context) result" where
  "maven_request_context upstream_path =
     (let segs = segments (trim_matches CHR ''/'' (decode_registry_path upstream_path));
          n = length segs;
          filename = segs ! (n - 1)
      in
      if n < 3 then Inl bad_request
      else if is_maven_metadata_file filename then
        (let snapshot = (n \<ge> 4 \<and> ends_with ''SNAPSHOT'' (segs ! (n - 2)));
             artifact_id = (if snapshot then segs ! (n - 3) else segs ! (n - 2));
             version = (if snapshot then Some (segs ! (n - 2)) else None);
             group_segments = (if snapshot then take (n - 3) segs else take (n - 2) segs)
         in Inr (KindMetadata, coordinate_new Maven artifact_id version (Some (str_join ''.'' group_segments)),
                 version \<noteq> None))
      else if n \<ge> 4 then
        (let version = segs ! (n - 2);
             artifact_id = segs ! (n - 3);
             group_id = str_join ''.'' (take (n - 3) segs);
             ext = last (split_on CHR ''.'' (strip_maven_checksum_suffix filename));
             kind = (if is_maven_checksum_or_signature_file filename then KindMetadata
                     else if ext = ''jar'' \<or> ext = ''aar'' \<or> ext = ''war'' \<or> ext = ''ear'' then KindArtifact
                     else KindMetadata)
         in Inr (kind, coordinate_new Maven artifact_id (Some version) (Some group_id), True))
      else
        Inr (KindMetadata, coordinate_new Maven (segs ! (n - 2)) None (Some (str_join ''.'' (take (n - 2) segs))),
             False))"

section \<open>Generic HTTP and dispatch\<close>

definition generic_http_request_context ::
  "(string \<Rightarrow> url option) \<Rightarrow> string \<Rightarrow> string option \<Rightarrow> (status, request_context) result" where
  "generic_http_request_context parse_url upstream_path source_url =
     (let name = trim_matches CHR ''/'' (decode_registry_path upstream_path) in
      if name = [] then Inl bad_request
      else Inr (KindArtifact,
        coordinate_new GenericHttp name None (Option.bind (Option.bind source_url parse_url) url_host), True))"

definition decision_request_for_adapter ::
  "(string \<Rightarrow> bool) \<Rightarrow> (string \<Rightarrow> url option) \<Rightarrow> uuid \<Rightarrow> uuid \<Rightarrow> uuid \<Rightarrow> RegistryAdapter \<Rightarrow> string
     \<Rightarrow> string option \<Rightarrow> string \<Rightarrow> (status, DecisionRequest) result" where
  "decision_request_for_adapter semver_ok parse_url tenant_id registry_config_id policy_profile_id adapter
       trace_id source_url upstream_path =
     res_bind
       (case adapter of
          AdapterNpm \<Rightarrow> npm_request_context upstream_path
        | AdapterPypi \<Rightarrow> pypi_request_context upstream_path
        | AdapterCargo \<Rightarrow> cargo_request_context semver_ok upstream_path
        | AdapterGenericHttp \<Rightarrow> generic_http_request_context parse_url upstream_path source_url
        | AdapterMaven \<Rightarrow> maven_request_context upstream_path
        | AdapterDockerOci \<Rightarrow> Inl not_implemented)
       (\<lambda>(kind, coordinate, explicit).
          Inr \<lparr>rq_tenant_id = tenant_id, rq_registry_config_id = registry_config_id,
               rq_policy_profile_id = policy_profile_id,
               rq_request =
                 \<lparr>nr_kind = kind, nr_tenant_id = tenant_id, nr_registry_config_id = registry_config_id,
                  nr_policy_profile_id = policy_profile_id, nr_coordinate = coordinate, nr_trace_id = trace_id,
                  nr_requested_digest = None, nr_source_url = source_url,
                  nr_explicit_version_or_integrity = explicit\<rparr>\<rparr>)"

definition normalize_for_adapter :: "(string \<Rightarrow> bool) \<Rightarrow> RegistryAdapter \<Rightarrow> string \<Rightarrow> string option" where
  "normalize_for_adapter semver_ok adapter upstream_path =
     (case adapter of
        AdapterNpm \<Rightarrow>
          map_option purl (Option.bind (npm_package_path (decode_registry_path upstream_path))
            (\<lambda>path. res_ok (normalize_npm_name path)))
      | AdapterPypi \<Rightarrow> map_option (\<lambda>(_, c, _). purl c) (res_ok (pypi_request_context upstream_path))
      | AdapterCargo \<Rightarrow> map_option (\<lambda>(_, c, _). purl c) (res_ok (cargo_request_context semver_ok upstream_path))
      | AdapterMaven \<Rightarrow> map_option (\<lambda>(_, c, _). purl c) (res_ok (maven_request_context upstream_path))
      | AdapterDockerOci \<Rightarrow> None
      | AdapterGenericHttp \<Rightarrow> None)"

section \<open>Decoding\<close>

lemma str_replace_append_id: "c \<notin> set a \<Longrightarrow> str_replace (c # p) w (a @ b) = a @ str_replace (c # p) w b"
  by (induction a) auto

text \<open>Nothing is decoded in a part of the path without a percent sign.\<close>

lemma decode_registry_path_append:
  assumes "trim_matches CHR ''/'' (a @ b) = a @ b" and "CHR ''%'' \<notin> set a"
  shows "decode_registry_path (a @ b) = a @ percent_decode_npm b"
  using assms by (simp add: decode_registry_path_def percent_decode_npm_def str_replace_append_id)

lemma decode_registry_path_id:
  assumes "trim_matches CHR ''/'' a = a" and "CHR ''%'' \<notin> set a"
  shows "decode_registry_path a = a"
  using decode_registry_path_append [of a "[]"] assms by (simp add: percent_decode_npm_def)

lemma segments_append:
  assumes "CHR ''/'' \<notin> set n" "n \<noteq> []"
  shows "segments (n @ CHR ''/'' # rest) = n # segments rest"
  using assms by (simp add: segments_def split_on_append split_on_id)

lemma segments_single: "CHR ''/'' \<notin> set n \<Longrightarrow> n \<noteq> [] \<Longrightarrow> segments n = [n]"
  by (simp add: segments_def split_on_id)

section \<open>Cargo index paths\<close>

lemma cargo_name_chars:
  assumes "cargo_name_char c"
  shows "c \<noteq> CHR ''/''" "c \<noteq> CHR ''%''" "graphic_char c" "ascii_lower_char c = c"
  using assms
  by (auto simp: cargo_name_char_def is_ascii_lowercase_def is_ascii_digit_def graphic_char_def
      is_ascii_uppercase_def intro!: ascii_lower_char_id)

lemma canonicalize_cargo_name_fixed:
  assumes "n \<noteq> []" and "list_all cargo_name_char n"
  shows "canonicalize_cargo_name n = Some n"
proof -
  have "cargo_name_char (hd n)" "cargo_name_char (last n)" using assms by (auto simp: list_all_iff)
  then have "str_trim n = n" using assms(1) by (intro str_trim_id cargo_name_chars)
  moreover have "to_ascii_lowercase n = n"
    using assms(2) by (auto simp: to_ascii_lowercase_def list_all_iff cargo_name_chars intro!: map_idI)
  ultimately show ?thesis using assms by (simp add: canonicalize_cargo_name_def Let_def)
qed

lemma canonicalize_cargo_name_Some:
  "canonicalize_cargo_name s = Some n \<Longrightarrow> n \<noteq> [] \<and> list_all cargo_name_char n"
  by (auto simp: canonicalize_cargo_name_def Let_def split: if_splits)

lemma cargo_names_no_slash: "list_all cargo_name_char n \<Longrightarrow> CHR ''/'' \<notin> set n \<and> CHR ''%'' \<notin> set n"
  by (auto simp: list_all_iff dest: cargo_name_chars(1,2))

lemma list_all_take_drop: "list_all P n \<Longrightarrow> list_all P (take k n) \<and> list_all P (drop k n)"
  by (auto simp: list_all_iff dest: in_set_takeD in_set_dropD)

text \<open>The index path of a canonical name: its segments, and that nothing in it is decoded or trimmed.\<close>

lemma index_path_shape:
  assumes n: "n \<noteq> []" "CHR ''/'' \<notin> set n" "CHR ''%'' \<notin> set n"
    and a: "a \<noteq> []" "CHR ''/'' \<notin> set a" "CHR ''%'' \<notin> set a"
  shows "segments (a @ CHR ''/'' # n) = [a, n]"
    "trim_matches CHR ''/'' (a @ CHR ''/'' # n) = a @ CHR ''/'' # n"
    "CHR ''%'' \<notin> set (a @ CHR ''/'' # n)"
  and "b \<noteq> [] \<Longrightarrow> CHR ''/'' \<notin> set b \<Longrightarrow> segments (a @ CHR ''/'' # b @ CHR ''/'' # n) = [a, b, n]"
    "b \<noteq> [] \<Longrightarrow> trim_matches CHR ''/'' (a @ CHR ''/'' # b @ CHR ''/'' # n) = a @ CHR ''/'' # b @ CHR ''/'' # n"
proof -
  have "hd a \<noteq> CHR ''/''" "last n \<noteq> CHR ''/''" using n a by (metis hd_in_set, metis last_in_set)
  then show "trim_matches CHR ''/'' (a @ CHR ''/'' # n) = a @ CHR ''/'' # n"
    "trim_matches CHR ''/'' (a @ CHR ''/'' # b @ CHR ''/'' # n) = a @ CHR ''/'' # b @ CHR ''/'' # n"
    using n(1) a(1) by (auto intro!: trim_matches_id)
qed (use assms in \<open>simp_all add: segments_append segments_single\<close>)

lemma cargo_name_length:
  assumes "n \<noteq> ([] :: string)"
  obtains "length n = 1" | "length n = 2" | "length n = 3" | "4 \<le> length n"
proof -
  have "0 < length n" using assms by simp
  then have "length n = 1 \<or> length n = 2 \<or> length n = 3 \<or> 4 \<le> length n" by arith
  then show thesis using that by blast
qed

lemma cargo_sparse_index_path_segments:
  assumes "n \<noteq> []" and "list_all cargo_name_char n"
  shows "\<exists>p. cargo_sparse_index_path n = Some p
    \<and> segments p = (if length n = 1 then [''1'', n] else if length n = 2 then [''2'', n]
        else if length n = 3 then [''3'', take 1 n, n] else [take 2 n, take 2 (drop 2 n), n])
    \<and> trim_matches CHR ''/'' p = p \<and> CHR ''%'' \<notin> set p
    \<and> CHR ''/'' \<in> set (take 3 p)"
proof -
  have n: "n \<noteq> []" "CHR ''/'' \<notin> set n" "CHR ''%'' \<notin> set n" using cargo_names_no_slash assms by auto
  have t: "CHR ''/'' \<notin> set (take k n)" "CHR ''%'' \<notin> set (take k n)"
    "CHR ''/'' \<notin> set (take k (drop j n))" "CHR ''%'' \<notin> set (take k (drop j n))" for k j
    using n by (auto dest: in_set_takeD in_set_dropD)
  show ?thesis
  proof (cases rule: cargo_name_length [OF assms(1)])
    case 1
    with index_path_shape(1-3) [OF n, of "''1''"] show ?thesis
      by (intro exI [of _ "''1'' @ CHR ''/'' # n"]) (auto simp: cargo_sparse_index_path_def)
  next
    case 2
    with index_path_shape(1-3) [OF n, of "''2''"] show ?thesis
      by (intro exI [of _ "''2'' @ CHR ''/'' # n"]) (auto simp: cargo_sparse_index_path_def)
  next
    case 3
    then have p: "cargo_sparse_index_path n = Some (''3'' @ CHR ''/'' # take 1 n @ CHR ''/'' # n)" "take 1 n \<noteq> []"
      using n(1) by (simp_all add: cargo_sparse_index_path_def)
    with 3 index_path_shape(4,5) [OF n, of "''3''" "take 1 n"] n t [of 1] show ?thesis
      by (intro exI [of _ "''3'' @ CHR ''/'' # take 1 n @ CHR ''/'' # n"]) auto
  next
    case 4
    then have p: "cargo_sparse_index_path n = Some (take 2 n @ CHR ''/'' # take 2 (drop 2 n) @ CHR ''/'' # n)"
      "take 2 n \<noteq> []" "take 2 (drop 2 n) \<noteq> []" by (auto simp: cargo_sparse_index_path_def)
    with 4 index_path_shape(4,5) [OF n, of "take 2 n" "take 2 (drop 2 n)"] n t show ?thesis
      by (intro exI [of _ "take 2 n @ CHR ''/'' # take 2 (drop 2 n) @ CHR ''/'' # n"]) auto
  qed
qed

lemma cargo_sparse_index_package_name_path:
  assumes "n \<noteq> []" and "list_all cargo_name_char n" and "cargo_sparse_index_path n = Some p"
  shows "cargo_sparse_index_package_name p = Some n"
proof -
  from cargo_sparse_index_path_segments [OF assms(1,2)] assms(3)
  have "segments p = (if length n = 1 then [''1'', n] else if length n = 2 then [''2'', n]
        else if length n = 3 then [''3'', take 1 n, n] else [take 2 n, take 2 (drop 2 n), n])" by auto
  with canonicalize_cargo_name_fixed [OF assms(1,2)] show ?thesis
    by (cases rule: cargo_name_length [OF assms(1)]) (auto simp: cargo_sparse_index_package_name_def Let_def)
qed

lemma cargo_sparse_index_package_name_Some:
  assumes "cargo_sparse_index_package_name q = Some n"
  shows "n \<noteq> [] \<and> list_all cargo_name_char n \<and> cargo_sparse_index_path n = Some (str_join ''/'' (segments q))"
proof -
  let ?s = "segments q"
  obtain c where ne: "?s \<noteq> []" and c: "canonicalize_cargo_name (last ?s) = Some c"
    using assms by (auto simp: cargo_sparse_index_package_name_def Let_def bind_eq_Some_conv split: if_splits)
  have "c = n \<and> cargo_sparse_index_path n = Some (str_join ''/'' ?s)"
    using assms c
    by (cases ?s; cases "tl ?s"; cases "tl (tl ?s)"; cases "tl (tl (tl ?s))")
      (auto simp: cargo_sparse_index_package_name_def cargo_sparse_index_path_def split: if_splits)
  with canonicalize_cargo_name_Some [OF c] show ?thesis by simp
qed

lemma cargo_download_coordinate_Some:
  assumes "cargo_download_coordinate semver_ok q = Some c"
  shows "pc_name c \<noteq> [] \<and> list_all cargo_name_char (pc_name c)
    \<and> (\<exists>v. pc_version c = Some v \<and> semver_ok v) \<and> starts_with (CARGO_DL_PROXY_PREFIX @ ''/'') q"
proof -
  from assms obtain e sg sfx where comp: "cargo_proxy_download_components q = Some (e, sg, sfx)"
    and m: "(case segments sfx of
         [crate_name, version, download] \<Rightarrow>
           if download = ''download'' \<and> semver_ok version
           then map_option (\<lambda>n. coordinate_new Cargo n (Some version) None) (canonicalize_cargo_name crate_name)
           else None
       | _ \<Rightarrow> None) = Some c"
    by (auto simp: cargo_download_coordinate_def bind_eq_Some_conv)
  let ?s = "segments sfx"
  from m obtain n name v where n: "canonicalize_cargo_name name = Some n"
    and c: "c = coordinate_new Cargo n (Some v) None" "semver_ok v"
    by (cases ?s; cases "tl ?s"; cases "tl (tl ?s)"; cases "tl (tl (tl ?s))") (auto split: if_splits)
  from comp have "starts_with (CARGO_DL_PROXY_PREFIX @ ''/'') q"
    by (auto simp: cargo_proxy_download_components_def cargo_proxy_route_components_def bind_eq_Some_conv
        strip_prefix_Some starts_with_iff)
  with canonicalize_cargo_name_Some [OF n] c show ?thesis by (simp add: coordinate_new_def)
qed

section \<open>What the adapters read of a path\<close>

lemma trim_matches_append:
  assumes "a \<noteq> []" "hd a \<noteq> c" "last a \<noteq> c"
  shows "\<exists>r. trim_matches c (a @ b) = a @ r \<and> prefix r b"
proof -
  have start: "trim_start_matches c (a @ b) = a @ b"
    using assms by (cases a) (simp_all add: trim_start_matches_def)
  have "dropWhile (\<lambda>x. x = c) (rev a) = rev a" using assms by (cases a rule: rev_cases) auto
  moreover have "dropWhile (\<lambda>x. x = c) (rev b @ rev a) =
      (if \<forall>x \<in> set b. x = c then dropWhile (\<lambda>x. x = c) (rev a) else dropWhile (\<lambda>x. x = c) (rev b) @ rev a)"
    by (auto simp: dropWhile_append)
  ultimately have "trim_end_matches c (a @ b) = a @ (if \<forall>x \<in> set b. x = c then [] else trim_end_matches c b)"
    by (auto simp: trim_end_matches_def)
  then show ?thesis
    unfolding trim_matches_def start using trim_end_matches_prefix [of c b]
    by (intro exI [of _ "if \<forall>x \<in> set b. x = c then [] else trim_end_matches c b"]) auto
qed

lemma pypi_context_first_segment:
  assumes "p \<noteq> []" "CHR ''/'' \<notin> set p" "CHR ''%'' \<notin> set p" "r = [] \<or> hd r = CHR ''/''"
  shows "pypi_request_context (''simple/'' @ p @ r) =
    res_bind (map_err (\<lambda>_. bad_request) (canonicalize_pypi_name p)) (\<lambda>canonical.
      Inr (KindMetadata, coordinate_new Pypi canonical None None, False))"
proof -
  let ?a = "''simple/'' @ p"
  have "last p \<noteq> CHR ''/''" using assms(1,2) by (metis last_in_set)
  then have edge: "?a \<noteq> []" "hd ?a \<noteq> CHR ''/''" "last ?a \<noteq> CHR ''/''" "CHR ''%'' \<notin> set ?a"
    using assms by auto
  have sep: "x = [] \<or> hd x = CHR ''/''" if "prefix x y" "y = [] \<or> hd y = CHR ''/''" for x y
    using that by (cases x) (auto simp: prefix_def)
  obtain r1 where r1: "trim_matches CHR ''/'' (?a @ r) = ?a @ r1" "prefix r1 r"
    using trim_matches_append [OF edge(1-3), of r] by blast
  have dec: "decode_registry_path (?a @ r) = ?a @ percent_decode_npm r1"
    using r1 edge(4) by (simp add: decode_registry_path_def percent_decode_npm_def str_replace_append_id)
  have r1s: "r1 = [] \<or> hd r1 = CHR ''/''" using sep [OF r1(2) assms(4)] .
  then have "percent_decode_npm r1 = [] \<or> hd (percent_decode_npm r1) = CHR ''/''"
    by (cases r1) (auto simp: percent_decode_npm_def)
  moreover obtain r2 where r2: "trim_matches CHR ''/'' (?a @ percent_decode_npm r1) = ?a @ r2"
    "prefix r2 (percent_decode_npm r1)"
    using trim_matches_append [OF edge(1-3)] by blast
  ultimately have r2s: "r2 = [] \<or> hd r2 = CHR ''/''" using sep by blast
  have "find (\<lambda>s. s \<noteq> []) (split_on CHR ''/'' (p @ r2)) = Some p"
    using r2s assms(1,2) by (cases r2) (auto simp: split_on_id split_on_append)
  then show ?thesis
    using dec r2(1) by (simp add: pypi_request_context_def)
qed

lemma npm_context_first_segment:
  assumes "plain_name n" "rest \<noteq> []" "last rest \<noteq> CHR ''/''"
  shows "\<exists>v. npm_request_context (n @ ''/-/'' @ rest) =
    Inr (KindArtifact, (coordinate_new Npm n None None)\<lparr>pc_version := v\<rparr>, True)"
proof -
  note n = plain_nameD [OF assms(1)]
  have "hd n \<noteq> CHR ''/''" using n by (metis hd_in_set)
  then have t: "trim_matches CHR ''/'' ((n @ ''/-/'') @ rest) = (n @ ''/-/'') @ rest"
    using assms(2,3) n(1) by (intro trim_matches_id) auto
  let ?d = "n @ ''/-/'' @ percent_decode_npm rest"
  have d: "decode_registry_path (n @ ''/-/'' @ rest) = ?d"
    using decode_registry_path_append [OF t] n(3) by simp
  have "npm_package_path ?d = Some n"
    using n segments_append [OF n(2,1), of "''-/'' @ percent_decode_npm rest"]
    by (simp add: npm_package_path_def not_starts_with_char)
  moreover have "str_contains ''/-/'' ?d" unfolding str_contains_iff sublist_def by blast
  ultimately show ?thesis
    using normalize_npm_plain [OF assms(1)] d
    by (cases "npm_tarball_version ?d n")
      (auto simp: npm_request_context_def coordinate_new_def intro!: exI [of _ None])
qed

section \<open>Properties\<close>

text \<open>The package a path is decided for is read from its first segments alone. Whatever follows
  the name of an unscoped npm package and \<open>/-/\<close>, the request is for an artifact of that package, and
  whatever follows the project segment of a PyPI index path, the request is for that project. Dot
  segments that would lead the upstream URL to another package are not rejected and do not change
  the coordinate.\<close>

lemma coordinate_from_first_segment:
  "(plain_name n \<and> rest \<noteq> [] \<and> last rest \<noteq> CHR ''/'' \<longrightarrow>
      (\<exists>v. npm_request_context (n @ ''/-/'' @ rest) =
         Inr (KindArtifact, (coordinate_new Npm n None None)\<lparr>pc_version := v\<rparr>, True)))
   \<and> (p \<noteq> [] \<and> CHR ''/'' \<notin> set p \<and> CHR ''%'' \<notin> set p \<longrightarrow>
      pypi_request_context (''simple/'' @ p @ ''/'' @ rest) = pypi_request_context (''simple/'' @ p))"
proof (intro conjI impI)
  assume "p \<noteq> [] \<and> CHR ''/'' \<notin> set p \<and> CHR ''%'' \<notin> set p"
  then show "pypi_request_context (''simple/'' @ p @ ''/'' @ rest) = pypi_request_context (''simple/'' @ p)"
    using pypi_context_first_segment [of p "''/'' @ rest"] pypi_context_first_segment [of p "[]"] by simp
qed (use npm_context_first_segment in blast)

lemma coordinate_from_first_segment_witness:
  "(\<exists>v. npm_request_context ''lodash/-/../../evil/-/evil-1.0.0.tgz'' =
      Inr (KindArtifact, (coordinate_new Npm ''lodash'' None None)\<lparr>pc_version := v\<rparr>, True))
   \<and> pypi_request_context ''simple/requests/../../evil/-/evil-1.0.0.tgz'' = pypi_request_context ''simple/requests''"
  using coordinate_from_first_segment [of "''lodash''" "''../../evil/-/evil-1.0.0.tgz''" "''requests''"]
  by (simp add: plain_name_def)

lemma request_context_errors:
  "npm_request_context path = Inl s \<Longrightarrow> s = bad_request"
  "pypi_request_context path = Inl s \<Longrightarrow> s = bad_request"
  "cargo_request_context semver_ok path = Inl s \<Longrightarrow> s = bad_request"
  "maven_request_context path = Inl s \<Longrightarrow> s = bad_request"
  "generic_http_request_context parse_url path source = Inl s \<Longrightarrow> s = bad_request"
  by (auto simp: npm_request_context_def pypi_request_context_def cargo_request_context_def
      maven_request_context_def generic_http_request_context_def Let_def res_bind_def map_err_def ok_or_def
      split: option.splits sum.splits if_splits)

lemma decision_request_error_status:
  "decision_request_for_adapter semver_ok parse_url t r p adapter trace source path = Inl s
     \<Longrightarrow> s = bad_request \<or> s = not_implemented"
  by (cases adapter)
    (use request_context_errors in \<open>auto simp: decision_request_for_adapter_def res_bind_def split: sum.splits\<close>)

text \<open>Every decision request that a path gives is consistent: it carries the tenant, registry,
  profile, trace and source it was built for, inside and outside; a request for an artifact always counts as pinned, so that no fallback may replace it;
  and no digest is claimed yet. Otherwise the path is answered with status 400, or 501 for container
  registries.\<close>

lemma decision_request_consistent:
  "(decision_request_for_adapter semver_ok parse_url t r p adapter trace source path = Inr q \<longrightarrow>
      rq_tenant_id q = t \<and> rq_registry_config_id q = r \<and> rq_policy_profile_id q = p
      \<and> nr_tenant_id (rq_request q) = t \<and> nr_registry_config_id (rq_request q) = r
      \<and> nr_policy_profile_id (rq_request q) = p \<and> nr_trace_id (rq_request q) = trace
      \<and> nr_source_url (rq_request q) = source \<and> nr_requested_digest (rq_request q) = None
      \<and> (nr_kind (rq_request q) = KindArtifact \<longrightarrow> nr_explicit_version_or_integrity (rq_request q))
      \<and> adapter \<noteq> AdapterDockerOci)
   \<and> (decision_request_for_adapter semver_ok parse_url t r p adapter trace source path = Inl s \<longrightarrow>
      (if adapter = AdapterDockerOci then s = not_implemented else s = bad_request))"
proof -
  have npm: "e" if "npm_request_context path = Inr (KindArtifact, c, e)" for c e
    using that by (auto simp: npm_request_context_def Let_def res_bind_eq_Inr)
  have pypi: "e" if "pypi_request_context path = Inr (KindArtifact, c, e)" for c e
    using that by (auto simp: pypi_request_context_def Let_def res_bind_eq_Inr split: option.splits)
  have cargo: "e" if "cargo_request_context semver_ok path = Inr (KindArtifact, c, e)" for c e
    using that by (auto simp: cargo_request_context_def Let_def res_bind_eq_Inr split: option.splits)
  have maven: "e" if "maven_request_context path = Inr (KindArtifact, c, e)" for c e
    using that by (auto simp: maven_request_context_def Let_def split: if_splits)
  have generic: "e" if "generic_http_request_context parse_url path source = Inr (KindArtifact, c, e)" for c e
    using that by (auto simp: generic_http_request_context_def Let_def split: if_splits)
  show ?thesis
    by (cases adapter)
      (use npm pypi cargo maven generic request_context_errors in
        \<open>auto simp: decision_request_for_adapter_def res_bind_def split: sum.splits\<close>)
qed

lemma decision_request_consistent_witness:
  "\<forall>s. decision_request_for_adapter (\<lambda>_. True) (\<lambda>_. None) 1 2 3 AdapterDockerOci ''t'' None ''x'' = Inl s
     \<longleftrightarrow> s = not_implemented"
  using decision_request_consistent [of "\<lambda>_. True" "\<lambda>_. None" 1 2 3 AdapterDockerOci "''t''" None "''x''"]
  by (auto simp: decision_request_for_adapter_def)

text \<open>The sparse index paths of Cargo and the crate names determine each other. The index path
  computed for a canonical crate name is read back as a metadata request for that crate; every
  path read as a metadata request is the index path of its crate, up to repeated slashes; and the
  name of every Cargo request is canonical, so that computing its index path never panics.\<close>

lemma cargo_index_roundtrip:
  "(n \<noteq> [] \<and> list_all cargo_name_char n \<longrightarrow>
      (\<exists>p. cargo_sparse_index_path n = Some p
         \<and> cargo_request_context semver_ok p = Inr (KindMetadata, coordinate_new Cargo n None None, False)))
   \<and> (cargo_request_context semver_ok q = Inr (KindMetadata, c, e) \<longrightarrow>
      cargo_sparse_index_path (pc_name c)
        = Some (str_join ''/'' (segments (trim_matches CHR ''/'' (decode_registry_path q)))))
   \<and> (cargo_request_context semver_ok q = Inr (k, c, e) \<longrightarrow> cargo_sparse_index_path (pc_name c) \<noteq> None)"
proof (intro conjI impI)
  assume n: "n \<noteq> [] \<and> list_all cargo_name_char n"
  with cargo_sparse_index_path_segments [of n] obtain p where p: "cargo_sparse_index_path n = Some p"
    and t: "trim_matches CHR ''/'' p = p" "CHR ''%'' \<notin> set p" and sl: "CHR ''/'' \<in> set (take 3 p)" by blast
  have "\<not> starts_with (CARGO_DL_PROXY_PREFIX @ ''/'') p"
    using sl by (auto simp: CARGO_DL_PROXY_PREFIX_def starts_with_iff prefix_def)
  then have "cargo_download_coordinate semver_ok p = None"
    using cargo_download_coordinate_Some [of semver_ok p] by (cases "cargo_download_coordinate semver_ok p") auto
  then show "\<exists>p. cargo_sparse_index_path n = Some p
      \<and> cargo_request_context semver_ok p = Inr (KindMetadata, coordinate_new Cargo n None None, False)"
    using p t n cargo_sparse_index_package_name_path [OF _ _ p]
    by (intro exI [of _ p]) (simp add: cargo_request_context_def decode_registry_path_id)
next
  assume "cargo_request_context semver_ok q = Inr (KindMetadata, c, e)"
  then show "cargo_sparse_index_path (pc_name c)
        = Some (str_join ''/'' (segments (trim_matches CHR ''/'' (decode_registry_path q))))"
    using cargo_sparse_index_package_name_Some
    by (auto simp: cargo_request_context_def Let_def res_bind_eq_Inr coordinate_new_def ok_or_def
        split: option.splits)
next
  assume "cargo_request_context semver_ok q = Inr (k, c, e)"
  then have "pc_name c \<noteq> [] \<and> list_all cargo_name_char (pc_name c)"
    using cargo_sparse_index_package_name_Some cargo_download_coordinate_Some
    by (auto simp: cargo_request_context_def Let_def res_bind_eq_Inr coordinate_new_def ok_or_def
        split: option.splits)
  then show "cargo_sparse_index_path (pc_name c) \<noteq> None" using cargo_sparse_index_path_segments by fastforce
qed

lemma cargo_index_roundtrip_witness:
  "\<exists>p. cargo_sparse_index_path ''serde'' = Some p
     \<and> cargo_request_context (\<lambda>_. True) p = Inr (KindMetadata, coordinate_new Cargo ''serde'' None None, False)"
  using cargo_index_roundtrip [of "''serde''" "\<lambda>_. True"]
  by (simp add: cargo_name_char_def is_ascii_lowercase_def)

end
