(* ===== verification/Byte_Text.thy ===== *)
theory Byte_Text
  imports Rust_Prelude
begin

text \<open>
  The parts of the Rust standard library on bytes and text that the proxy uses beyond
  \<^verbatim>\<open>Rust_Prelude\<close>: UTF-8 validity and lossy decoding, lines, white-space separated words and the
  search for a substring. Strings are lists of bytes.
\<close>

section \<open>UTF-8\<close>

definition is_continuation :: "nat \<Rightarrow> bool" where
  "is_continuation b = (0x80 \<le> b \<and> b \<le> 0xBF)"

definition byte_in :: "nat \<Rightarrow> nat \<Rightarrow> nat list \<Rightarrow> nat \<Rightarrow> bool" where
  "byte_in lo hi bs i = (i < length bs \<and> lo \<le> bs ! i \<and> bs ! i \<le> hi)"

text \<open>The first sequence of a non-empty text: whether it is a character, and how many bytes it takes.
  An ill-formed sequence takes the longest prefix that could begin a character, or one byte.\<close>

definition utf8_step :: "nat list \<Rightarrow> bool \<times> nat" where
  "utf8_step bs =
     (let b = bs ! 0;
          cont = byte_in 0x80 0xBF bs
      in if b < 0x80 then (True, 1)
         else if 0xC2 \<le> b \<and> b \<le> 0xDF then (if cont 1 then (True, 2) else (False, 1))
         else if 0xE0 \<le> b \<and> b \<le> 0xEF then
           (if \<not> byte_in (if b = 0xE0 then 0xA0 else 0x80) (if b = 0xED then 0x9F else 0xBF) bs 1 then (False, 1)
            else if cont 2 then (True, 3) else (False, 2))
         else if 0xF0 \<le> b \<and> b \<le> 0xF4 then
           (if \<not> byte_in (if b = 0xF0 then 0x90 else 0x80) (if b = 0xF4 then 0x8F else 0xBF) bs 1 then (False, 1)
            else if \<not> cont 2 then (False, 2)
            else if cont 3 then (True, 4) else (False, 3))
         else (False, 1))"

lemma utf8_step_pos: "0 < snd (utf8_step bs)"
  by (simp add: utf8_step_def Let_def)

lemma utf8_step_drop: "(ok, n) = utf8_step bs \<Longrightarrow> 0 < n"
  using utf8_step_pos [of bs] by (metis snd_conv)

definition bytes_of :: "string \<Rightarrow> nat list" where
  "bytes_of s = map of_char s"

text \<open>\<^verbatim>\<open>String::from_utf8\<close> succeeds on these texts.\<close>

function utf8_ok :: "string \<Rightarrow> bool" where
  "utf8_ok s =
     (if s = [] then True
      else case utf8_step (bytes_of s) of (ok, n) \<Rightarrow> ok \<and> utf8_ok (drop n s))"
  by pat_completeness auto
termination
  by (relation "measure length") (auto dest: utf8_step_drop)

declare utf8_ok.simps [simp del]

definition replacement_char :: string where
  "replacement_char = map char_of [0xEF :: nat, 0xBF, 0xBD]"

text \<open>\<^verbatim>\<open>String::from_utf8_lossy\<close>.\<close>

function from_utf8_lossy :: "string \<Rightarrow> string" where
  "from_utf8_lossy s =
     (if s = [] then []
      else case utf8_step (bytes_of s) of
        (ok, n) \<Rightarrow> (if ok then take n s else replacement_char) @ from_utf8_lossy (drop n s))"
  by pat_completeness auto
termination
  by (relation "measure length") (auto dest: utf8_step_drop)

declare from_utf8_lossy.simps [simp del]

section \<open>Lines and words\<close>

definition strip_carriage_return :: "string \<Rightarrow> string" where
  "strip_carriage_return line = unwrap_or line (strip_suffix [CHR 0x0D] line)"

text \<open>\<^verbatim>\<open>str::lines\<close>: a final line end does not start another line, and a carriage return before a line
  feed belongs to the line end.\<close>

fun lines :: "string \<Rightarrow> string list" where
  "lines text =
     (let parts = split_on CHR 0x0A text;
          complete = map strip_carriage_return (butlast parts)
      in if last parts = [] then complete else complete @ [last parts])"

text \<open>The first word of \<^verbatim>\<open>str::split_whitespace\<close> of a trimmed text: what stands before the first white space.\<close>

fun before_any :: "string list \<Rightarrow> string \<Rightarrow> string" where
  "before_any ws [] = []"
| "before_any ws (c # cs) =
     (if list_ex (\<lambda>w. starts_with w (c # cs)) ws then [] else c # before_any ws cs)"

definition first_word :: "string \<Rightarrow> string option" where
  "first_word text =
     (let w = before_any whitespace_chars (str_trim_start text) in if w = [] then None else Some w)"

text \<open>\<^verbatim>\<open>str::find\<close> with a string pattern: the text before the first occurrence, and the text from it on.\<close>

fun split_before :: "string \<Rightarrow> string \<Rightarrow> (string \<times> string) option" where
  "split_before pat [] = (if pat = [] then Some ([], []) else None)"
| "split_before pat (c # cs) =
     (if starts_with pat (c # cs) then Some ([], c # cs)
      else map_option (\<lambda>(a, b). (c # a, b)) (split_before pat cs))"

lemma split_before_Some: "split_before pat s = Some (a, b) \<Longrightarrow> s = a @ b \<and> starts_with pat b"
  by (induction pat s arbitrary: a b rule: split_before.induct) (auto split: if_splits)

lemma split_before_None: "split_before pat s = None \<longleftrightarrow> \<not> str_contains pat s"
  by (induction pat s rule: split_before.induct) auto

lemma length_split_before: "split_before pat s = Some (a, b) \<Longrightarrow> length a + length b = length s"
  by (drule split_before_Some) auto

lemma strip_carriage_return_id: "CHR 0x0D \<notin> set s \<Longrightarrow> strip_carriage_return s = s"
  by (auto simp: strip_carriage_return_def unwrap_or_def strip_suffix_Some split: option.splits)

end
