(* ===== verification/Upstream_Urls.thy ===== *)
theory Upstream_Urls
  imports Adapter_Paths Byte_Text "HOL-Library.AList"
begin

text \<open>
  The URLs, headers and limits of Mosquito Net's upstream requests,
  \<^verbatim>\<open>services/mosquito-net/src/lib.rs\<close>: the errors with their statuses, the request URLs, the signed
  bases through which Cargo downloads and API calls are routed back to the proxy with the check of
  their origins, the rewriting of registry URLs, the copying and redaction of headers, the
  credentials and the artifact size limit. The libraries the code calls are the fields of the record
  \<open>proxy_lib\<close>.
\<close>

section \<open>Libraries\<close>

type_synonym header_map = "(string \<times> string) list"

record proxy_lib =
  lib_parse_url :: "string \<Rightarrow> url option"
  lib_join_url :: "url \<Rightarrow> string \<Rightarrow> url option"
  lib_set_path :: "url \<Rightarrow> string \<Rightarrow> url"
  lib_set_query :: "url \<Rightarrow> string option \<Rightarrow> url"
  lib_url_string :: "url \<Rightarrow> string"
  lib_port_or_known_default :: "url \<Rightarrow> nat option"
  lib_semver_ok :: "string \<Rightarrow> bool"
  lib_hmac_sha256 :: "string \<Rightarrow> string \<Rightarrow> string"
  lib_sha256 :: "string \<Rightarrow> string"
  lib_sha1 :: "string \<Rightarrow> string"
  lib_hex_encode :: "string \<Rightarrow> string"
  lib_base64_url_encode :: "string \<Rightarrow> string"
  lib_base64_url_decode :: "string \<Rightarrow> string option"
  lib_base64_encode :: "string \<Rightarrow> string"
  lib_uuid_bytes :: "uuid \<Rightarrow> string"
  lib_show_uuid :: "uuid \<Rightarrow> string"
  lib_header_to_str :: "string \<Rightarrow> string option"
  lib_header_from_str :: "string \<Rightarrow> string option"
  lib_json_parse :: "string \<Rightarrow> json option"
  lib_json_print :: "json \<Rightarrow> string"
  lib_env_var :: "string \<Rightarrow> string option"

section \<open>Errors\<close>

datatype UpstreamProxyError =
    ProxyInvalidUpstreamUrl
  | ProxyRequest transport_error
  | ProxyBody transport_error
  | ProxyJson
  | ProxyDigest DigestError
  | CandidateTriage TriageClientError
  | InvalidCandidateDecisionMode
  | InvalidCargoSparseMetadata
  | InvalidCargoRegistryConfig
  | InvalidCargoArtifactDigest
  | UnsupportedCargoDownloadRedirect
  | MavenChecksumMismatch
  | ArtifactTooLarge
  | MissingCredentialReference
  | UnsupportedAuthType
  | ResponseBuild

fun upstream_error_status :: "UpstreamProxyError \<Rightarrow> status" where
  "upstream_error_status ArtifactTooLarge = 413"
| "upstream_error_status _ = 502"

section \<open>Headers\<close>

text \<open>Header names are lower case. A lookup takes the first value, an insertion replaces all values.\<close>

definition header_get :: "string \<Rightarrow> header_map \<Rightarrow> string option" where
  "header_get name headers = map_of headers name"

definition header_remove :: "string \<Rightarrow> header_map \<Rightarrow> header_map" where
  "header_remove name headers = filter (\<lambda>(n, _). n \<noteq> name) headers"

definition header_insert :: "string \<Rightarrow> string \<Rightarrow> header_map \<Rightarrow> header_map" where
  "header_insert name value headers = header_remove name headers @ [(name, value)]"

definition redact_sensitive_upstream_headers :: "header_map \<Rightarrow> header_map" where
  "redact_sensitive_upstream_headers headers =
     fold header_remove
       [''authorization'', ''cookie'', ''set-cookie'', ''www-authenticate'', ''proxy-authorization''] headers"

definition copy_cargo_api_request_headers :: "header_map \<Rightarrow> header_map \<Rightarrow> header_map" where
  "copy_cargo_api_request_headers from to =
     fold (\<lambda>(name, value) to.
         if name = ''accept'' \<or> name = ''authorization'' \<or> name = ''content-type'' \<or> name = ''user-agent''
            \<or> starts_with ''cargo-'' name
         then header_insert name value to else to)
       from to"

definition copy_safe_upstream_headers :: "header_map \<Rightarrow> header_map \<Rightarrow> header_map" where
  "copy_safe_upstream_headers from to =
     fold (\<lambda>header to. case header_get header from of
           Some value \<Rightarrow> header_insert header value to | None \<Rightarrow> to)
       [''content-type'', ''cache-control'', ''etag'', ''last-modified''] to"

definition proxy_base_url :: "proxy_lib \<Rightarrow> header_map \<Rightarrow> string" where
  "proxy_base_url lib headers =
     (let proto = unwrap_or ''http'' (opt_filter (\<lambda>value. value = ''http'' \<or> value = ''https'')
            (Option.bind (header_get ''x-forwarded-proto'' headers) (lib_header_to_str lib)));
          host = unwrap_or ''localhost'' (Option.bind (header_get ''host'' headers) (lib_header_to_str lib))
      in proto @ ''://'' @ host)"

definition enforce_artifact_size_limit ::
  "proxy_lib \<Rightarrow> nat \<Rightarrow> header_map \<Rightarrow> nat option \<Rightarrow> (UpstreamProxyError, unit) result" where
  "enforce_artifact_size_limit lib max_artifact_bytes headers actual_size =
     (let declared = Option.bind (Option.bind (header_get ''content-length'' headers) (lib_header_to_str lib))
            (parse_unsigned 64)
      in if is_some_and (\<lambda>content_length. content_length > max_artifact_bytes) declared then Inl ArtifactTooLarge
         else if is_some_and (\<lambda>size. size > max_artifact_bytes) actual_size then Inl ArtifactTooLarge
         else Inr ())"

section \<open>Request URLs\<close>

definition with_directory_path :: "proxy_lib \<Rightarrow> url \<Rightarrow> url" where
  "with_directory_path lib base =
     (if ends_with ''/'' (url_path base) then base
      else lib_set_path lib base (trim_end_matches CHR ''/'' (url_path base) @ ''/''))"

definition upstream_request_url :: "proxy_lib \<Rightarrow> string \<Rightarrow> string \<Rightarrow> (UpstreamProxyError, url) result" where
  "upstream_request_url lib base_url upstream_path =
     res_bind (ok_or ProxyInvalidUpstreamUrl (lib_parse_url lib base_url)) (\<lambda>base.
       ok_or ProxyInvalidUpstreamUrl
         (lib_join_url lib (with_directory_path lib base) (trim_start_matches CHR ''/'' upstream_path)))"

definition upstream_request_url_with_query ::
  "proxy_lib \<Rightarrow> string \<Rightarrow> string \<Rightarrow> string option \<Rightarrow> (UpstreamProxyError, url) result" where
  "upstream_request_url_with_query lib base_url upstream_path query =
     res_bind (upstream_request_url lib base_url upstream_path) (\<lambda>url.
       Inr (lib_set_query lib url (opt_filter (\<lambda>value. value \<noteq> []) query)))"

definition normalized_mount_path :: "string \<Rightarrow> string" where
  "normalized_mount_path mount_path = trim_end_matches CHR ''/'' mount_path @ ''/''"

text \<open>The loops that strip leading parent and current directory segments.\<close>

fun strip_repeatedly :: "nat \<Rightarrow> string \<Rightarrow> string \<Rightarrow> string" where
  "strip_repeatedly 0 pat s = s"
| "strip_repeatedly (Suc n) pat s =
     (case strip_prefix pat s of Some stripped \<Rightarrow> strip_repeatedly n pat stripped | None \<Rightarrow> s)"

definition rewrite_registry_url :: "proxy_lib \<Rightarrow> string \<Rightarrow> string \<Rightarrow> string \<Rightarrow> string" where
  "rewrite_registry_url lib mount_path proxy_base original =
     (let mount = normalized_mount_path mount_path in
      case lib_parse_url lib original of
        Some parsed \<Rightarrow>
          proxy_base @ mount @ trim_start_matches CHR ''/'' (url_path parsed)
            @ (case url_query parsed of Some query \<Rightarrow> ''?'' @ query | None \<Rightarrow> [])
            @ (case url_fragment parsed of Some fragment \<Rightarrow> ''#'' @ fragment | None \<Rightarrow> [])
      | None \<Rightarrow>
          if starts_with ''/'' original then proxy_base @ mount @ trim_start_matches CHR ''/'' original
          else
            let normalized = strip_repeatedly (length original) ''./''
                  (strip_repeatedly (length original) ''../'' original)
            in proxy_base @ mount @ trim_start_matches CHR ''/'' normalized)"

section \<open>Cargo bases\<close>

definition cargo_signature_message :: "proxy_lib \<Rightarrow> string \<Rightarrow> uuid \<Rightarrow> string \<Rightarrow> string" where
  "cargo_signature_message lib domain config_id original =
     domain @ lib_uuid_bytes lib config_id @ '':'' @ original"

definition cargo_proxy_base_signature :: "proxy_lib \<Rightarrow> string \<Rightarrow> string \<Rightarrow> uuid \<Rightarrow> string \<Rightarrow> string" where
  "cargo_proxy_base_signature lib key domain config_id original =
     lib_hex_encode lib (lib_hmac_sha256 lib key (cargo_signature_message lib domain config_id original))"

definition cargo_download_base_signature :: "proxy_lib \<Rightarrow> string \<Rightarrow> uuid \<Rightarrow> string \<Rightarrow> string" where
  "cargo_download_base_signature lib key config_id original =
     cargo_proxy_base_signature lib key ''cargo-dl-base:'' config_id original"

definition cargo_api_base_signature :: "proxy_lib \<Rightarrow> string \<Rightarrow> uuid \<Rightarrow> string \<Rightarrow> string" where
  "cargo_api_base_signature lib key config_id original =
     cargo_proxy_base_signature lib key ''cargo-api-base:'' config_id original"

definition decode_cargo_proxy_base :: "proxy_lib \<Rightarrow> string \<Rightarrow> (UpstreamProxyError, string) result" where
  "decode_cargo_proxy_base lib encoded_base =
     res_bind (ok_or InvalidCargoRegistryConfig (lib_base64_url_decode lib encoded_base)) (\<lambda>original_base.
       if utf8_ok original_base then Inr original_base else Inl InvalidCargoRegistryConfig)"

definition validated_cargo_upstream_base :: "proxy_lib \<Rightarrow> string \<Rightarrow> (UpstreamProxyError, url) result" where
  "validated_cargo_upstream_base lib upstream_base_url =
     res_bind (ok_or InvalidCargoRegistryConfig (lib_parse_url lib upstream_base_url)) (\<lambda>upstream_base.
       Inr (with_directory_path lib upstream_base))"

definition validate_cargo_download_url :: "url \<Rightarrow> (UpstreamProxyError, unit) result" where
  "validate_cargo_download_url u =
     (if \<not> (url_scheme u = ''http'' \<or> url_scheme u = ''https'') \<or> url_host u = None
         \<or> url_username u \<noteq> [] \<or> url_password u \<noteq> None
      then Inl InvalidCargoRegistryConfig else Inr ())"

definition same_origin_url :: "proxy_lib \<Rightarrow> url \<Rightarrow> url \<Rightarrow> bool" where
  "same_origin_url lib left right =
     (url_scheme left = url_scheme right \<and> url_host left = url_host right
      \<and> lib_port_or_known_default lib left = lib_port_or_known_default lib right)"

definition canonical_cargo_origin :: "url \<Rightarrow> (UpstreamProxyError, string) result" where
  "canonical_cargo_origin u =
     res_bind (validate_cargo_download_url u) (\<lambda>_.
     res_bind (ok_or InvalidCargoRegistryConfig (url_host u)) (\<lambda>host.
       Inr (url_scheme u @ ''://'' @ host
         @ (case url_port u of Some port \<Rightarrow> '':'' @ show_nat port | None \<Rightarrow> []))))"

definition cargo_download_origin_allowed ::
  "proxy_lib \<Rightarrow> string \<Rightarrow> string list \<Rightarrow> url \<Rightarrow> (UpstreamProxyError, bool) result" where
  "cargo_download_origin_allowed lib upstream_base_url allowed u =
     res_bind (validated_cargo_upstream_base lib upstream_base_url) (\<lambda>upstream_base.
       if same_origin_url lib u upstream_base then Inr True
       else res_bind (canonical_cargo_origin u) (\<lambda>origin. Inr (list_ex (\<lambda>a. a = origin) allowed)))"

definition cargo_download_uses_primary_origin ::
  "proxy_lib \<Rightarrow> string \<Rightarrow> url \<Rightarrow> (UpstreamProxyError, bool) result" where
  "cargo_download_uses_primary_origin lib upstream_base_url u =
     res_bind (validated_cargo_upstream_base lib upstream_base_url) (\<lambda>upstream_base.
       Inr (same_origin_url lib u upstream_base))"

definition resolve_cargo_base ::
  "proxy_lib \<Rightarrow> string \<Rightarrow> string \<Rightarrow> (UpstreamProxyError, url) result" where
  "resolve_cargo_base lib upstream_base_url original =
     res_bind (validated_cargo_upstream_base lib upstream_base_url) (\<lambda>upstream_base.
     res_bind (case lib_parse_url lib original of
          Some parsed \<Rightarrow> Inr parsed
        | None \<Rightarrow> ok_or InvalidCargoRegistryConfig (lib_join_url lib upstream_base original)) (\<lambda>resolved.
     res_bind (validate_cargo_download_url resolved) (\<lambda>_. Inr resolved)))"

definition resolve_registry_local_cargo_base ::
  "proxy_lib \<Rightarrow> string \<Rightarrow> string \<Rightarrow> (UpstreamProxyError, url) result" where
  "resolve_registry_local_cargo_base lib upstream_base_url original =
     res_bind (resolve_cargo_base lib upstream_base_url original) (\<lambda>resolved.
     res_bind (validated_cargo_upstream_base lib upstream_base_url) (\<lambda>upstream_base.
       if \<not> same_origin_url lib resolved upstream_base then Inl InvalidCargoRegistryConfig else Inr resolved))"

definition resolve_cargo_download_base ::
  "proxy_lib \<Rightarrow> string \<Rightarrow> string list \<Rightarrow> string \<Rightarrow> (UpstreamProxyError, url) result" where
  "resolve_cargo_download_base lib upstream_base_url allowed original =
     res_bind (resolve_cargo_base lib upstream_base_url original) (\<lambda>resolved.
     res_bind (cargo_download_origin_allowed lib upstream_base_url allowed resolved) (\<lambda>ok.
       if \<not> ok then Inl InvalidCargoRegistryConfig else Inr resolved))"

definition cargo_rewritten_download_base ::
  "proxy_lib \<Rightarrow> string \<Rightarrow> uuid \<Rightarrow> string \<Rightarrow> string \<Rightarrow> string \<Rightarrow> string list \<Rightarrow> string
     \<Rightarrow> (UpstreamProxyError, string) result" where
  "cargo_rewritten_download_base lib key config_id mount_path proxy_base upstream_base_url allowed original =
     res_bind (resolve_cargo_download_base lib upstream_base_url allowed original) (\<lambda>_.
       Inr (proxy_base @ normalized_mount_path mount_path @ CARGO_DL_PROXY_PREFIX @ ''/''
         @ lib_base64_url_encode lib original @ ''/'' @ cargo_download_base_signature lib key config_id original))"

definition cargo_rewritten_api_base ::
  "proxy_lib \<Rightarrow> string \<Rightarrow> uuid \<Rightarrow> string \<Rightarrow> string \<Rightarrow> string \<Rightarrow> string
     \<Rightarrow> (UpstreamProxyError, string) result" where
  "cargo_rewritten_api_base lib key config_id mount_path proxy_base upstream_base_url original =
     res_bind (resolve_registry_local_cargo_base lib upstream_base_url original) (\<lambda>_.
       Inr (proxy_base @ normalized_mount_path mount_path @ CARGO_API_PROXY_PREFIX @ ''/''
         @ lib_base64_url_encode lib original @ ''/'' @ cargo_api_base_signature lib key config_id original))"

definition adapter_upstream_request_url ::
  "proxy_lib \<Rightarrow> string \<Rightarrow> uuid \<Rightarrow> RegistryAdapter \<Rightarrow> string \<Rightarrow> string list \<Rightarrow> string
     \<Rightarrow> (UpstreamProxyError, url) result" where
  "adapter_upstream_request_url lib key config_id adapter base_url allowed upstream_path =
     (case (if adapter = AdapterCargo then cargo_proxy_download_components upstream_path else None) of
        Some (encoded_base, signature, sfx) \<Rightarrow>
          res_bind (decode_cargo_proxy_base lib encoded_base) (\<lambda>original_base.
            if signature \<noteq> cargo_download_base_signature lib key config_id original_base
            then Inl InvalidCargoRegistryConfig
            else res_bind (resolve_cargo_download_base lib base_url allowed original_base) (\<lambda>u.
              Inr (lib_set_path lib u (trim_end_matches CHR ''/'' (url_path u) @ ''/'' @ sfx))))
      | None \<Rightarrow> upstream_request_url lib base_url upstream_path)"

definition max_overlap :: "string list \<Rightarrow> string list \<Rightarrow> nat" where
  "max_overlap base_segments suffix_segments =
     unwrap_or 0 (find (\<lambda>overlap. drop (length base_segments - overlap) base_segments = take overlap suffix_segments)
       (rev [0..<Suc (min (length base_segments) (length suffix_segments))]))"

definition join_registry_path_with_suffix :: "string \<Rightarrow> string \<Rightarrow> string" where
  "join_registry_path_with_suffix base_path sfx =
     (let base_segments = segments base_path; suffix_segments = segments sfx;
          joined_segments = base_segments @ drop (max_overlap base_segments suffix_segments) suffix_segments
      in if joined_segments = [] then ''/'' else ''/'' @ str_join ''/'' joined_segments)"

definition cargo_api_request_url ::
  "proxy_lib \<Rightarrow> string \<Rightarrow> uuid \<Rightarrow> string \<Rightarrow> string \<Rightarrow> string option \<Rightarrow> (UpstreamProxyError, url) result" where
  "cargo_api_request_url lib key config_id upstream_base_url upstream_path query =
     (case cargo_proxy_api_components upstream_path of
        None \<Rightarrow> Inl InvalidCargoRegistryConfig
      | Some (encoded_base, signature, sfx) \<Rightarrow>
          res_bind (decode_cargo_proxy_base lib encoded_base) (\<lambda>original_base.
            if signature \<noteq> cargo_api_base_signature lib key config_id original_base
            then Inl InvalidCargoRegistryConfig
            else res_bind (resolve_registry_local_cargo_base lib upstream_base_url original_base) (\<lambda>u.
              let u' = lib_set_path lib u (join_registry_path_with_suffix (url_path u) sfx);
                  merged_query =
                    (case (opt_filter (\<lambda>v. v \<noteq> []) (url_query u'), opt_filter (\<lambda>v. v \<noteq> []) query) of
                       (Some base_query, Some request_query) \<Rightarrow> Some (base_query @ ''&'' @ request_query)
                     | (Some base_query, None) \<Rightarrow> Some base_query
                     | (None, Some request_query) \<Rightarrow> Some request_query
                     | (None, None) \<Rightarrow> None)
              in Inr (lib_set_query lib u' merged_query))))"

definition cargo_api_proxy_mount_path :: "string \<Rightarrow> string \<Rightarrow> string option" where
  "cargo_api_proxy_mount_path mount_path upstream_path =
     map_option (\<lambda>(encoded_base, signature, _).
         trim_end_matches CHR ''/'' mount_path @ ''/'' @ CARGO_API_PROXY_PREFIX @ ''/'' @ encoded_base @ ''/'' @ signature)
       (cargo_proxy_api_components upstream_path)"

definition rewrite_cargo_registry_config ::
  "proxy_lib \<Rightarrow> string \<Rightarrow> uuid \<Rightarrow> string \<Rightarrow> string \<Rightarrow> string \<Rightarrow> string list \<Rightarrow> string
     \<Rightarrow> (UpstreamProxyError, string) result" where
  "rewrite_cargo_registry_config lib key config_id mount_path proxy_base upstream_base_url allowed body =
     res_bind (ok_or ProxyJson (lib_json_parse lib body)) (\<lambda>payload.
       case payload of
         JObject object \<Rightarrow>
           res_bind (ok_or InvalidCargoRegistryConfig (Option.bind (map_of object ''dl'') as_str)) (\<lambda>dl.
             if str_contains ''{'' dl \<or> str_contains ''}'' dl then Inl InvalidCargoRegistryConfig
             else res_bind (cargo_rewritten_download_base lib key config_id mount_path proxy_base
                 upstream_base_url allowed dl) (\<lambda>dl'.
               let object' = AList.update ''dl'' (JString dl') object in
               case map_of object' ''api'' of
                 None \<Rightarrow> Inr (lib_json_print lib (JObject object'))
               | Some value \<Rightarrow>
                   res_bind (ok_or InvalidCargoRegistryConfig (as_str value)) (\<lambda>api.
                     if str_contains ''{'' api \<or> str_contains ''}'' api then Inl InvalidCargoRegistryConfig
                     else res_bind (cargo_rewritten_api_base lib key config_id mount_path proxy_base
                         upstream_base_url api) (\<lambda>api'.
                       Inr (lib_json_print lib (JObject (AList.update ''api'' (JString api') object')))))))
       | _ \<Rightarrow> Inl InvalidCargoRegistryConfig)"

section \<open>Requests and credentials\<close>

record upstream_request =
  ur_verify_tls :: bool
  ur_method :: string
  ur_url :: url
  ur_headers :: header_map
  ur_body :: string

text \<open>The client for a registry, with the method and the URL of the request.\<close>

definition upstream_client :: "ResolvedRegistryConfig \<Rightarrow> string \<Rightarrow> url \<Rightarrow> upstream_request" where
  "upstream_client resolved method u =
     \<lparr>ur_verify_tls = rg_verify_upstream_tls (rv_config resolved), ur_method = method, ur_url = u,
      ur_headers = [], ur_body = []\<rparr>"

definition upstream_credential_value :: "proxy_lib \<Rightarrow> ResolvedRegistryConfig \<Rightarrow> (UpstreamProxyError, string) result" where
  "upstream_credential_value lib resolved =
     res_bind (ok_or MissingCredentialReference (rg_credential_env_var (rv_config resolved))) (\<lambda>env_var.
       ok_or MissingCredentialReference (lib_env_var lib env_var))"

definition inject_upstream_credentials ::
  "proxy_lib \<Rightarrow> upstream_request \<Rightarrow> ResolvedRegistryConfig \<Rightarrow> (UpstreamProxyError, upstream_request) result" where
  "inject_upstream_credentials lib request resolved =
     (case rg_auth_type (rv_config resolved) of
        AuthNone \<Rightarrow> Inr request
      | AuthBearer \<Rightarrow>
          res_bind (upstream_credential_value lib resolved) (\<lambda>credential.
            Inr (request\<lparr>ur_headers := header_insert ''authorization'' (''Bearer '' @ credential) (ur_headers request)\<rparr>))
      | AuthBasic \<Rightarrow>
          res_bind (upstream_credential_value lib resolved) (\<lambda>credential.
            Inr (request\<lparr>ur_headers := header_insert ''authorization''
              (''Basic '' @ lib_base64_encode lib credential) (ur_headers request)\<rparr>))
      | AuthMtls \<Rightarrow> Inl UnsupportedAuthType)"

section \<open>Lemmas\<close>

lemma header_get_insert: "header_get n (header_insert m v hs) = (if n = m then Some v else header_get n hs)"
proof -
  have "map_of (filter (\<lambda>(n, _). n \<noteq> m) hs) n = (if n = m then None else map_of hs n)"
    by (induction hs) auto
  then show ?thesis
    by (cases "map_of hs n") (simp_all add: header_get_def header_insert_def header_remove_def map_add_def)
qed

lemma header_get_remove: "header_get n (header_remove m hs) = (if n = m then None else header_get n hs)"
  unfolding header_get_def header_remove_def by (induction hs) auto

text \<open>The origins a Cargo download may use.\<close>

definition cargo_origin_permitted :: "proxy_lib \<Rightarrow> string \<Rightarrow> string list \<Rightarrow> url \<Rightarrow> bool" where
  "cargo_origin_permitted lib upstream_base_url allowed u =
     (\<exists>b. validated_cargo_upstream_base lib upstream_base_url = Inr b
        \<and> (same_origin_url lib u b \<or> (\<exists>o'. canonical_cargo_origin u = Inr o' \<and> o' \<in> set allowed)))"

lemma cargo_download_origin_allowed_iff:
  "cargo_download_origin_allowed lib base allowed u = Inr True \<longleftrightarrow> cargo_origin_permitted lib base allowed u"
  by (auto simp: cargo_download_origin_allowed_def cargo_origin_permitted_def res_bind_eq_Inr list_ex_iff
      split: if_splits)

lemma resolve_cargo_download_base_permitted:
  assumes "resolve_cargo_download_base lib base allowed original = Inr u"
  shows "cargo_origin_permitted lib base allowed u \<and> validate_cargo_download_url u = Inr ()"
  using assms cargo_download_origin_allowed_iff [of lib base allowed u]
  by (auto simp: resolve_cargo_download_base_def resolve_cargo_base_def res_bind_eq_Inr split: if_splits)

lemma cargo_proxy_route_components_path:
  assumes "CHR ''/'' \<notin> set e" "CHR ''/'' \<notin> set sg" "sfx \<noteq> []"
  shows "cargo_proxy_route_components route (route @ ''/'' @ e @ ''/'' @ sg @ ''/'' @ sfx) = Some (e, sg, sfx)"
proof -
  have "strip_prefix (route @ ''/'') (route @ ''/'' @ e @ ''/'' @ sg @ ''/'' @ sfx) = Some (e @ ''/'' @ sg @ ''/'' @ sfx)"
    by (simp add: strip_prefix_Some)
  moreover have "split_once CHR ''/'' (e @ ''/'' @ sg @ ''/'' @ sfx) = Some (e, sg @ ''/'' @ sfx)"
    "split_once CHR ''/'' (sg @ ''/'' @ sfx) = Some (sg, sfx)"
    using assms by (simp_all add: split_once_Some)
  ultimately show ?thesis using assms(3) by (simp add: cargo_proxy_route_components_def)
qed

text \<open>The signed message determines whether the base is for downloads or for the API, the registry, and
  the base: a signature of one cannot serve for another.\<close>

lemma cargo_signature_messages_distinct:
  assumes "length (lib_uuid_bytes lib i) = 16" "length (lib_uuid_bytes lib j) = 16"
    and "lib_uuid_bytes lib i = lib_uuid_bytes lib j \<Longrightarrow> i = j"
    and "d \<in> {''cargo-dl-base:'', ''cargo-api-base:''}" "d' \<in> {''cargo-dl-base:'', ''cargo-api-base:''}"
  shows "cargo_signature_message lib d i x = cargo_signature_message lib d' j y \<longleftrightarrow> d = d' \<and> i = j \<and> x = y"
  using assms by (auto simp: cargo_signature_message_def)

section \<open>Properties\<close>

text \<open>The signed Cargo download routes. The base that the rewritten registry configuration hands
  out starts at the proxy and its mount, and a download under it goes to the original base; and a
  download route of any registry is followed only if its signature is the keyed hash of exactly this
  registry and base, and then only to an origin of the upstream or of the registry's list, over http or
  https and without credentials in the URL.\<close>

lemma cargo_download_routes:
  assumes decode: "\<And>x. lib_base64_url_decode lib (lib_base64_url_encode lib x) = Some x"
    and slashes: "\<And>x. CHR ''/'' \<notin> set (lib_base64_url_encode lib x)" "\<And>x. CHR ''/'' \<notin> set (lib_hex_encode lib x)"
  shows "(cargo_rewritten_download_base lib key i mount proxy_base base allowed original = Inr r
      \<and> utf8_ok original \<and> sfx \<noteq> [] \<longrightarrow>
      (\<exists>route u. r = proxy_base @ normalized_mount_path mount @ route
        \<and> resolve_cargo_download_base lib base allowed original = Inr u
        \<and> adapter_upstream_request_url lib key i AdapterCargo base allowed (route @ ''/'' @ sfx) =
            Inr (lib_set_path lib u (trim_end_matches CHR ''/'' (url_path u) @ ''/'' @ sfx))))
   \<and> (cargo_proxy_download_components path = Some (e, sg, tail)
      \<and> adapter_upstream_request_url lib key i AdapterCargo base allowed path = Inr v \<longrightarrow>
      (\<exists>original u. lib_base64_url_decode lib e = Some original
        \<and> sg = cargo_download_base_signature lib key i original
        \<and> cargo_origin_permitted lib base allowed u \<and> validate_cargo_download_url u = Inr ()
        \<and> v = lib_set_path lib u (trim_end_matches CHR ''/'' (url_path u) @ ''/'' @ tail)))"
proof (intro conjI impI)
  assume *: "cargo_rewritten_download_base lib key i mount proxy_base base allowed original = Inr r
      \<and> utf8_ok original \<and> sfx \<noteq> []"
  let ?e = "lib_base64_url_encode lib original" and ?s = "cargo_download_base_signature lib key i original"
  let ?route = "CARGO_DL_PROXY_PREFIX @ ''/'' @ ?e @ ''/'' @ ?s"
  from * obtain u where u: "resolve_cargo_download_base lib base allowed original = Inr u"
    and r: "r = proxy_base @ normalized_mount_path mount @ ?route"
    by (auto simp: cargo_rewritten_download_base_def res_bind_eq_Inr)
  have "CHR ''/'' \<notin> set ?s"
    using slashes(2) by (simp add: cargo_download_base_signature_def cargo_proxy_base_signature_def)
  then have "cargo_proxy_download_components (?route @ ''/'' @ sfx) = Some (?e, ?s, sfx)"
    using cargo_proxy_route_components_path [of ?e ?s sfx CARGO_DL_PROXY_PREFIX] slashes(1) *
    by (simp add: cargo_proxy_download_components_def)
  then have "adapter_upstream_request_url lib key i AdapterCargo base allowed (?route @ ''/'' @ sfx) =
            Inr (lib_set_path lib u (trim_end_matches CHR ''/'' (url_path u) @ ''/'' @ sfx))"
    using u * decode by (simp add: adapter_upstream_request_url_def decode_cargo_proxy_base_def)
  with u r show "\<exists>route u. r = proxy_base @ normalized_mount_path mount @ route
        \<and> resolve_cargo_download_base lib base allowed original = Inr u
        \<and> adapter_upstream_request_url lib key i AdapterCargo base allowed (route @ ''/'' @ sfx) =
            Inr (lib_set_path lib u (trim_end_matches CHR ''/'' (url_path u) @ ''/'' @ sfx))" by blast
next
  assume "cargo_proxy_download_components path = Some (e, sg, tail)
      \<and> adapter_upstream_request_url lib key i AdapterCargo base allowed path = Inr v"
  then show "\<exists>original u. lib_base64_url_decode lib e = Some original
        \<and> sg = cargo_download_base_signature lib key i original
        \<and> cargo_origin_permitted lib base allowed u \<and> validate_cargo_download_url u = Inr ()
        \<and> v = lib_set_path lib u (trim_end_matches CHR ''/'' (url_path u) @ ''/'' @ tail)"
    by (auto simp: adapter_upstream_request_url_def decode_cargo_proxy_base_def res_bind_eq_Inr ok_or_def
        split: if_splits option.splits dest!: resolve_cargo_download_base_permitted)
qed

text \<open>Libraries for examples: URLs are their text with a fixed https origin, encodings are the identity.\<close>

definition plain_url :: "string \<Rightarrow> url" where
  "plain_url path = \<lparr>url_scheme = ''https'', url_username = [], url_password = None,
     url_host = Some ''index.crates.io'', url_port = None, url_path = path, url_query = None, url_fragment = None\<rparr>"

definition hex_nibbles :: "string \<Rightarrow> string" where
  "hex_nibbles s = concat (map (\<lambda>c. map (\<lambda>n. char_of (97 + n :: nat)) [of_char c div 16, of_char c mod 16]) s)"

fun unhex_nibbles :: "string \<Rightarrow> string option" where
  "unhex_nibbles [] = Some []"
| "unhex_nibbles [c] = None"
| "unhex_nibbles (a # b # cs) =
     map_option (\<lambda>r. char_of (16 * (of_char a - 97) + (of_char b - 97) :: nat) # r) (unhex_nibbles cs)"

definition sample_lib :: proxy_lib where
  "sample_lib =
     \<lparr>lib_parse_url = (\<lambda>s. case strip_prefix ''https://index.crates.io'' s of
          Some path \<Rightarrow> Some (plain_url (if path = [] then ''/'' else path)) | None \<Rightarrow> None),
      lib_join_url = (\<lambda>base path. Some (base\<lparr>url_path := url_path base @ path\<rparr>)),
      lib_set_path = (\<lambda>u path. u\<lparr>url_path := path\<rparr>), lib_set_query = (\<lambda>u q. u\<lparr>url_query := q\<rparr>),
      lib_url_string = (\<lambda>u. ''https://index.crates.io'' @ url_path u), lib_port_or_known_default = (\<lambda>_. Some 443),
      lib_semver_ok = (\<lambda>v. v \<noteq> []), lib_hmac_sha256 = (\<lambda>key message. key @ message),
      lib_sha256 = (\<lambda>body. replicate 32 CHR ''a''), lib_sha1 = (\<lambda>body. replicate 20 CHR ''a''),
      lib_hex_encode = hex_nibbles, lib_base64_url_encode = hex_nibbles, lib_base64_url_decode = unhex_nibbles,
      lib_base64_encode = hex_nibbles, lib_uuid_bytes = (\<lambda>i. replicate 16 CHR ''u''),
      lib_show_uuid = (\<lambda>i. show_nat (unat i)), lib_header_to_str = Some, lib_header_from_str = Some,
      lib_json_parse = (\<lambda>_. None), lib_json_print = (\<lambda>_. []), lib_env_var = (\<lambda>_. None)\<rparr>"

lemma nibble_less: "(of_char c :: nat) div 16 < 16" "(of_char c :: nat) mod 16 < 16"
proof -
  have "(of_char c :: nat) < 16 * 16" by simp
  then show "(of_char c :: nat) div 16 < 16" by (rule less_mult_imp_div_less)
qed simp

lemma unhex_hex_nibbles: "unhex_nibbles (hex_nibbles s) = Some s"
proof (induction s)
  case (Cons c cs)
  let ?n = "of_char c :: nat"
  have "(97 + ?n div 16) mod 256 = 97 + ?n div 16" using nibble_less(1) [of c] by simp
  then have "16 * (of_char (char_of (97 + ?n div 16)) - 97) + (of_char (char_of (97 + ?n mod 16)) - 97) = ?n"
    by (simp add: of_char_of)
  with Cons show ?case by (simp add: hex_nibbles_def)
qed (simp add: hex_nibbles_def)

lemma hex_nibbles_no_slash: "CHR ''/'' \<notin> set (hex_nibbles s)"
proof (induction s)
  case (Cons c cs)
  have "char_of (97 + k :: nat) \<noteq> CHR ''/''" if "k < 16" for k
  proof
    assume "char_of (97 + k) = CHR ''/''"
    then have "(of_char (char_of (97 + k) :: char) :: nat) = of_char CHR ''/''" by (rule arg_cong)
    with that show False by (simp add: of_char_of)
  qed
  from this [OF nibble_less(1)] this [OF nibble_less(2)] Cons show ?case
    by (simp add: hex_nibbles_def eq_commute)
qed (simp add: hex_nibbles_def)

lemma cargo_download_routes_witness:
  "\<exists>route u. cargo_rewritten_download_base sample_lib ''key'' 1 ''/crates'' ''http://proxy''
        ''https://index.crates.io/'' [] ''https://index.crates.io/api'' = Inr (''http://proxy/crates/'' @ route)
     \<and> adapter_upstream_request_url sample_lib ''key'' 1 AdapterCargo ''https://index.crates.io/'' []
         (route @ ''/serde/1.0.0/download'') = Inr u \<and> url_path u = ''/api/serde/1.0.0/download''"
proof -
  let ?o = "''https://index.crates.io/api''" and ?b = "''https://index.crates.io/''"
  have lib: "\<And>x. lib_base64_url_decode sample_lib (lib_base64_url_encode sample_lib x) = Some x"
    "\<And>x. CHR ''/'' \<notin> set (lib_base64_url_encode sample_lib x)" "\<And>x. CHR ''/'' \<notin> set (lib_hex_encode sample_lib x)"
    by (simp_all add: sample_lib_def unhex_hex_nibbles hex_nibbles_no_slash)
  have base: "resolve_cargo_download_base sample_lib ?b [] ?o = Inr (plain_url ''/api'')"
    by (simp add: resolve_cargo_download_base_def resolve_cargo_base_def validated_cargo_upstream_base_def
        cargo_download_origin_allowed_def validate_cargo_download_url_def same_origin_url_def with_directory_path_def
        ends_with_def strip_suffix_def sample_lib_def plain_url_def)
  have mount: "normalized_mount_path ''/crates'' = ''/crates/''"
    by (simp add: normalized_mount_path_def trim_end_matches_def)
  obtain r where r: "cargo_rewritten_download_base sample_lib ''key'' 1 ''/crates'' ''http://proxy'' ?b [] ?o = Inr r"
    by (simp add: cargo_rewritten_download_base_def base)
  moreover have "utf8_ok ?o" by code_simp
  ultimately obtain route u where "r = ''http://proxy'' @ ''/crates/'' @ route" "u = plain_url ''/api''"
    "adapter_upstream_request_url sample_lib ''key'' 1 AdapterCargo ?b [] (route @ ''/'' @ ''serde/1.0.0/download'') =
       Inr (lib_set_path sample_lib u (trim_end_matches CHR ''/'' (url_path u) @ ''/'' @ ''serde/1.0.0/download''))"
    using conjunct1 [OF cargo_download_routes [OF lib, of "''key''" 1 "''/crates''" "''http://proxy''" ?b "[]" ?o r
        "''serde/1.0.0/download''"]] mount base by auto
  with r show ?thesis
    by (intro exI [of _ route]) (simp add: sample_lib_def plain_url_def trim_end_matches_def)
qed

end
