(* ===== verification/Metadata_Rewrite.thy ===== *)
theory Metadata_Rewrite
  imports Upstream_Urls
begin

text \<open>
  The registry metadata that Mosquito Net reads and rewrites, \<^verbatim>\<open>services/mosquito-net/src/lib.rs\<close>: the
  tarball links of npm packuments, the restriction of a packument to an approved version, the links
  of PyPI index pages in HTML and JSON, and the entries of Cargo index files. The parsing and printing
  of JSON text are the fields \<open>lib_json_parse\<close> and \<open>lib_json_print\<close>; objects keep the order of their keys.
\<close>

section \<open>JSON objects\<close>

text \<open>Assigning the value at a key of an object.\<close>

definition json_set :: "string \<Rightarrow> json \<Rightarrow> json \<Rightarrow> json" where
  "json_set k x v = (case v of JObject m \<Rightarrow> JObject (AList.update k x m) | _ \<Rightarrow> v)"

section \<open>npm\<close>

definition npm_tarball :: "json \<Rightarrow> string option" where
  "npm_tarball version = Option.bind (json_get ''dist'' version) (get_str ''tarball'')"

definition rewrite_npm_version :: "proxy_lib \<Rightarrow> string \<Rightarrow> string \<Rightarrow> json \<Rightarrow> json" where
  "rewrite_npm_version lib mount_path proxy_base version =
     (case npm_tarball version of
        None \<Rightarrow> version
      | Some tarball \<Rightarrow>
          (case json_get ''dist'' version of
             None \<Rightarrow> version
           | Some d \<Rightarrow>
               json_set ''dist'' (json_set ''tarball'' (JString (rewrite_registry_url lib mount_path proxy_base tarball)) d)
                 version))"

definition rewrite_npm_value :: "proxy_lib \<Rightarrow> string \<Rightarrow> string \<Rightarrow> json \<Rightarrow> json" where
  "rewrite_npm_value lib mount_path proxy_base value =
     (case Option.bind (json_get ''versions'' value) as_object of
        None \<Rightarrow> value
      | Some versions \<Rightarrow>
          json_set ''versions'' (JObject (map (\<lambda>(k, v). (k, rewrite_npm_version lib mount_path proxy_base v)) versions)) value)"

definition rewrite_npm_metadata_urls :: "proxy_lib \<Rightarrow> string \<Rightarrow> string \<Rightarrow> string \<Rightarrow> string" where
  "rewrite_npm_metadata_urls lib mount_path proxy_base body =
     (case lib_json_parse lib body of
        None \<Rightarrow> body
      | Some value \<Rightarrow> lib_json_print lib (rewrite_npm_value lib mount_path proxy_base value))"

definition filter_npm_times :: "string \<Rightarrow> (string \<times> json) list \<Rightarrow> (string \<times> json) list" where
  "filter_npm_times version entries =
     (case map_of entries version of
        None \<Rightarrow> entries
      | Some version_time \<Rightarrow>
          let entries1 = (case map_of entries ''created'' of Some c \<Rightarrow> [(''created'', c)] | None \<Rightarrow> []);
              entries2 = (case map_of entries ''modified'' of Some m \<Rightarrow> AList.update ''modified'' m entries1 | None \<Rightarrow> entries1)
          in AList.update version version_time entries2)"

definition filter_npm_value :: "string \<Rightarrow> json \<Rightarrow> json \<Rightarrow> json" where
  "filter_npm_value version selected_version value =
     (let value1 = json_set ''versions'' (JObject [(version, selected_version)]) value;
          value2 =
            (case Option.bind (json_get ''dist-tags'' value1) as_object of
               Some tags \<Rightarrow> json_set ''dist-tags'' (JObject (AList.update ''latest'' (JString version) tags)) value1
             | None \<Rightarrow> value1)
      in case Option.bind (json_get ''time'' value2) as_object of
           Some entries \<Rightarrow> json_set ''time'' (JObject (filter_npm_times version entries)) value2
         | None \<Rightarrow> value2)"

definition filter_npm_packument_to_version :: "proxy_lib \<Rightarrow> string \<Rightarrow> string \<Rightarrow> string" where
  "filter_npm_packument_to_version lib body version =
     (case lib_json_parse lib body of
        None \<Rightarrow> body
      | Some value \<Rightarrow>
          (case Option.bind (json_get ''versions'' value) (json_get version) of
             None \<Rightarrow> body
           | Some selected_version \<Rightarrow> lib_json_print lib (filter_npm_value version selected_version value)))"

text \<open>The approved candidate replaces the packument of the same package.\<close>

definition content_type :: "proxy_lib \<Rightarrow> header_map \<Rightarrow> string option" where
  "content_type lib headers = Option.bind (header_get ''content-type'' headers) (lib_header_to_str lib)"

definition maybe_apply_npm_fallback_metadata ::
  "proxy_lib \<Rightarrow> ResolvedRegistryConfig \<Rightarrow> DecisionResponse \<Rightarrow> header_map \<Rightarrow> string \<Rightarrow> string" where
  "maybe_apply_npm_fallback_metadata lib resolved parent_decision headers body =
     (case content_type lib headers of
        None \<Rightarrow> body
      | Some ct \<Rightarrow>
          if rg_adapter (rv_config resolved) \<noteq> AdapterNpm \<or> \<not> str_contains ''json'' ct then body
          else if rs_decision parent_decision \<noteq> FallbackToApprovedCandidate then body
          else
            (case rs_fallback_coordinate parent_decision of
               None \<Rightarrow> body
             | Some candidate \<Rightarrow>
                 (case npm_request_context (rv_upstream_path resolved) of
                    Inl _ \<Rightarrow> body
                  | Inr (kind, requested, explicit) \<Rightarrow>
                      if kind \<noteq> KindMetadata \<or> explicit
                         \<or> pc_namespace candidate \<noteq> pc_namespace requested \<or> pc_name candidate \<noteq> pc_name requested
                      then body
                      else
                        (case pc_version candidate of
                           None \<Rightarrow> body
                         | Some candidate_version \<Rightarrow> filter_npm_packument_to_version lib body candidate_version))))"

section \<open>PyPI\<close>

definition rewrite_pypi_file :: "proxy_lib \<Rightarrow> string \<Rightarrow> string \<Rightarrow> json \<Rightarrow> json" where
  "rewrite_pypi_file lib mount_path proxy_base file =
     fold (\<lambda>key file. case get_str key file of
             Some u \<Rightarrow> json_set key (JString (rewrite_registry_url lib mount_path proxy_base u)) file
           | None \<Rightarrow> file)
       [''url'', ''download_url''] file"

definition rewrite_pypi_value :: "proxy_lib \<Rightarrow> string \<Rightarrow> string \<Rightarrow> json \<Rightarrow> json" where
  "rewrite_pypi_value lib mount_path proxy_base value =
     fold (\<lambda>field value. case get_array field value of
             Some files \<Rightarrow> json_set field (JArray (map (rewrite_pypi_file lib mount_path proxy_base) files)) value
           | None \<Rightarrow> value)
       [''files'', ''urls''] value"

definition rewrite_pypi_json_links :: "proxy_lib \<Rightarrow> string \<Rightarrow> string \<Rightarrow> string \<Rightarrow> string" where
  "rewrite_pypi_json_links lib mount_path proxy_base body =
     (case lib_json_parse lib body of
        None \<Rightarrow> body
      | Some value \<Rightarrow> lib_json_print lib (rewrite_pypi_value lib mount_path proxy_base value))"

definition file_name_from_registry_url :: "proxy_lib \<Rightarrow> string \<Rightarrow> string option" where
  "file_name_from_registry_url lib u =
     (let path = (case lib_parse_url lib u of
            Some parsed \<Rightarrow> url_path parsed | None \<Rightarrow> hd (split_on CHR ''#'' u))
      in opt_filter (\<lambda>value. value \<noteq> []) (Some (last (split_on CHR ''/'' (trim_end_matches CHR ''/'' path)))))"

definition digest_from_url_fragment :: "string \<Rightarrow> ArtifactDigest option" where
  "digest_from_url_fragment u =
     (case split_on CHR ''#'' u of
        _ # fragment # _ \<Rightarrow>
          Option.bind (find_map (strip_prefix ''sha256='') (split_on CHR ''&'' fragment))
            (\<lambda>digest. res_ok (digest_sha256 digest))
      | _ \<Rightarrow> None)"

text \<open>The place of the value of the \<^verbatim>\<open>href\<close> attribute in an anchor: where it starts and the value.\<close>

definition extract_href_range :: "string \<Rightarrow> (nat \<times> string) option" where
  "extract_href_range anchor =
     Option.bind (split_before ''href'' (to_ascii_lowercase anchor)) (\<lambda>(before, _).
       let after_href_start = length before + 4 in
       Option.bind (split_once CHR ''='' (drop after_href_start anchor)) (\<lambda>(gap, after_equals).
         let value_search_start = after_href_start + length gap + 1;
             from_value = str_trim_start after_equals;
             value_start = value_search_start + (length after_equals - length from_value)
         in case from_value of
              [] \<Rightarrow> None
            | quote # rest \<Rightarrow>
                if quote = CHR 0x22 \<or> quote = CHR 0x27
                then map_option (\<lambda>(value, _). (value_start + 1, value)) (split_once quote rest)
                else Some (value_start, before_any ([CHR ''>''] # whitespace_chars) from_value)))"

definition extract_href :: "string \<Rightarrow> string option" where
  "extract_href anchor = map_option snd (extract_href_range anchor)"

text \<open>The scan of an index page that the filter and the rewriter share: text between anchors and closed
  anchors, found in the lower case copy of the page. An anchor that is not closed ends the scan.\<close>

datatype html_chunk = HtmlText string | HtmlAnchor string

lemma split_before_nonempty: "split_before (p # ps) (to_ascii_lowercase page) = Some z \<Longrightarrow> page \<noteq> []"
  by (auto simp: to_ascii_lowercase_def)

function html_chunks :: "string \<Rightarrow> html_chunk list" where
  "html_chunks text =
     (case split_before ''<a'' (to_ascii_lowercase text) of
        None \<Rightarrow> [HtmlText text]
      | Some (before, _) \<Rightarrow>
          let from_anchor = drop (length before) text in
          (case split_before ''</a>'' (to_ascii_lowercase from_anchor) of
             None \<Rightarrow> [HtmlText (take (length before) text), HtmlText from_anchor]
           | Some (inner, _) \<Rightarrow>
               HtmlText (take (length before) text) # HtmlAnchor (take (length inner + 4) from_anchor)
                 # html_chunks (drop (length inner + 4) from_anchor)))"
  by pat_completeness auto
termination
  by (relation "measure length") (auto dest!: split_before_nonempty)

declare html_chunks.simps [simp del]

fun rewrite_chunk :: "proxy_lib \<Rightarrow> string \<Rightarrow> string \<Rightarrow> html_chunk \<Rightarrow> string" where
  "rewrite_chunk lib mount_path proxy_base (HtmlText text) = text"
| "rewrite_chunk lib mount_path proxy_base (HtmlAnchor anchor) =
     (case extract_href_range anchor of
        Some (start, href) \<Rightarrow>
          take start anchor @ rewrite_registry_url lib mount_path proxy_base href @ drop (start + length href) anchor
      | None \<Rightarrow> anchor)"

definition rewrite_pypi_simple_links :: "proxy_lib \<Rightarrow> string \<Rightarrow> string \<Rightarrow> string \<Rightarrow> string" where
  "rewrite_pypi_simple_links lib mount_path proxy_base body =
     (if utf8_ok body then concat (map (rewrite_chunk lib mount_path proxy_base) (html_chunks body)) else body)"

definition maybe_rewrite_metadata_body ::
  "proxy_lib \<Rightarrow> RegistryAdapter \<Rightarrow> string \<Rightarrow> string \<Rightarrow> header_map \<Rightarrow> string \<Rightarrow> string" where
  "maybe_rewrite_metadata_body lib adapter mount_path proxy_base headers body =
     (case content_type lib headers of
        None \<Rightarrow> body
      | Some ct \<Rightarrow>
          if adapter = AdapterNpm \<and> str_contains ''json'' ct then rewrite_npm_metadata_urls lib mount_path proxy_base body
          else if adapter = AdapterPypi \<and> str_contains ''html'' ct then rewrite_pypi_simple_links lib mount_path proxy_base body
          else if adapter = AdapterPypi \<and> str_contains ''json'' ct then rewrite_pypi_json_links lib mount_path proxy_base body
          else body)"

section \<open>Cargo index files\<close>

definition cargo_sparse_entry ::
  "proxy_lib \<Rightarrow> json \<Rightarrow> (UpstreamProxyError, string \<times> string \<times> ArtifactDigest) result" where
  "cargo_sparse_entry lib entry =
     res_bind (ok_or InvalidCargoSparseMetadata (get_str ''vers'' entry)) (\<lambda>version.
       if \<not> lib_semver_ok lib version then Inl InvalidCargoSparseMetadata
       else res_bind (ok_or InvalidCargoSparseMetadata (get_str ''name'' entry)) (\<lambda>raw_name.
         if str_trim raw_name \<noteq> raw_name then Inl InvalidCargoSparseMetadata
         else res_bind (ok_or InvalidCargoSparseMetadata (canonicalize_cargo_name raw_name)) (\<lambda>package_name.
         res_bind (ok_or InvalidCargoSparseMetadata (get_str ''cksum'' entry)) (\<lambda>checksum.
         res_bind (map_err (\<lambda>_. InvalidCargoSparseMetadata) (digest_sha256 checksum)) (\<lambda>digest.
           Inr (package_name, version, digest))))))"

fun cargo_digest_scan ::
  "proxy_lib \<Rightarrow> string \<Rightarrow> string \<Rightarrow> string list \<Rightarrow> (UpstreamProxyError, ArtifactDigest) result" where
  "cargo_digest_scan lib requested_name requested_version [] = Inl InvalidCargoSparseMetadata"
| "cargo_digest_scan lib requested_name requested_version (line # rest) =
     (if str_trim line = [] then cargo_digest_scan lib requested_name requested_version rest
      else res_bind (ok_or InvalidCargoSparseMetadata (lib_json_parse lib line)) (\<lambda>entry.
        res_bind (cargo_sparse_entry lib entry) (\<lambda>(package_name, version, digest).
          if package_name \<noteq> requested_name then Inl InvalidCargoSparseMetadata
          else if version = requested_version then Inr digest
          else cargo_digest_scan lib requested_name requested_version rest)))"

definition cargo_sparse_expected_digest_for_version ::
  "proxy_lib \<Rightarrow> string \<Rightarrow> string \<Rightarrow> string \<Rightarrow> (UpstreamProxyError, ArtifactDigest) result" where
  "cargo_sparse_expected_digest_for_version lib body requested_name requested_version =
     (if utf8_ok body then cargo_digest_scan lib requested_name requested_version (lines body)
      else Inl InvalidCargoSparseMetadata)"

section \<open>Lemmas\<close>

lemma json_get_set: "json_get k (json_set k' x v) = (if k = k' \<and> as_object v \<noteq> None then Some x else json_get k v)"
  by (cases v) (auto simp: json_get_def json_set_def as_object_def update_conv')

lemma as_object_set: "as_object (json_set k x v) \<noteq> None \<longleftrightarrow> as_object v \<noteq> None"
  by (cases v) (auto simp: json_set_def as_object_def)

lemma json_get_object: "json_get k v = Some x \<Longrightarrow> as_object v \<noteq> None"
  by (cases v) (auto simp: json_get_def as_object_def)

lemma get_str_object: "get_str k v = Some x \<Longrightarrow> as_object v \<noteq> None"
  by (auto simp: get_str_def bind_eq_Some_conv dest: json_get_object)

lemma rewrite_registry_url_prefix:
  "prefix (proxy_base @ normalized_mount_path mount) (rewrite_registry_url lib mount proxy_base u)"
  by (auto simp: rewrite_registry_url_def Let_def prefix_def split: option.split)

lemma rewrite_npm_version_tarball:
  assumes "npm_tarball (rewrite_npm_version lib mount proxy_base v) = Some t"
  shows "prefix (proxy_base @ normalized_mount_path mount) t"
proof (cases "npm_tarball v")
  case None
  with assms show ?thesis by (simp add: rewrite_npm_version_def)
next
  case (Some u)
  then obtain d where d: "json_get ''dist'' v = Some d" "get_str ''tarball'' d = Some u"
    by (auto simp: npm_tarball_def bind_eq_Some_conv)
  with Some assms have "t = rewrite_registry_url lib mount proxy_base u"
    using json_get_object [OF d(1)] get_str_object [OF d(2)]
    by (auto simp: rewrite_npm_version_def npm_tarball_def json_get_set get_str_def as_str_def)
  then show ?thesis by (simp add: rewrite_registry_url_prefix)
qed

lemma rewrite_pypi_file_links:
  assumes "get_str k (rewrite_pypi_file lib mount proxy_base f) = Some t" "k \<in> {''url'', ''download_url''}"
  shows "prefix (proxy_base @ normalized_mount_path mount) t"
proof -
  define step where "step k' f = (case get_str k' f of
      Some u \<Rightarrow> json_set k' (JString (rewrite_registry_url lib mount proxy_base u)) f | None \<Rightarrow> f)" for k' f
  have same: "prefix (proxy_base @ normalized_mount_path mount) t" if "get_str k' (step k' f) = Some t" for k' f t
    using that get_str_object [of k' f]
    by (auto simp: step_def get_str_def json_get_set as_str_def rewrite_registry_url_prefix split: option.splits)
  have other: "get_str k (step k' f) = get_str k f" if "k \<noteq> k'" for k k' f
    using that by (auto simp: step_def get_str_def json_get_set split: option.splits)
  have f: "rewrite_pypi_file lib mount proxy_base f = step ''download_url'' (step ''url'' f)"
    by (simp add: rewrite_pypi_file_def step_def)
  from assms(2) consider "k = ''url''" | "k = ''download_url''" by blast
  then show ?thesis
  proof cases
    case 1
    then have "get_str ''url'' (step ''url'' f) = Some t" using assms(1) other [of "''url''" "''download_url''"] f by simp
    then show ?thesis by (rule same)
  next
    case 2
    then show ?thesis using assms(1) f by (auto intro: same)
  qed
qed

lemma get_array_set:
  "get_array k (json_set k' x v) = (if k = k' \<and> as_object v \<noteq> None then as_array x else get_array k v)"
  by (cases "as_object v") (simp_all add: get_array_def json_get_set)

lemma get_array_object: "get_array k v = Some x \<Longrightarrow> as_object v \<noteq> None"
  by (auto simp: get_array_def bind_eq_Some_conv dest: json_get_object)

lemma rewrite_pypi_value_files:
  assumes "get_array k (rewrite_pypi_value lib mount proxy_base v) = Some files" "k \<in> {''files'', ''urls''}"
  shows "\<exists>files'. files = map (rewrite_pypi_file lib mount proxy_base) files'"
proof -
  define step where "step k' v = (case get_array k' v of
      Some fs \<Rightarrow> json_set k' (JArray (map (rewrite_pypi_file lib mount proxy_base) fs)) v | None \<Rightarrow> v)" for k' v
  have same: "\<exists>fs'. fs = map (rewrite_pypi_file lib mount proxy_base) fs'" if "get_array k' (step k' v) = Some fs" for k' v fs
    using that get_array_object [of k' v]
    by (auto simp: step_def get_array_set as_array_def split: option.splits)
  have other: "get_array k (step k' v) = get_array k v" if "k \<noteq> k'" for k k' v
    using that by (auto simp: step_def get_array_set split: option.splits)
  have v: "rewrite_pypi_value lib mount proxy_base v = step ''urls'' (step ''files'' v)"
    by (simp add: rewrite_pypi_value_def step_def)
  show ?thesis using assms other [of "''files''" "''urls''"] same v by auto
qed

subsection \<open>Index pages\<close>

lemma before_any_prefix: "prefix (before_any ws s) s"
  by (induction ws s rule: before_any.induct) auto

lemma extract_href_range_place:
  assumes "extract_href_range anchor = Some (start, href)"
  shows "anchor = take start anchor @ href @ drop (start + length href) anchor"
proof -
  obtain before x gap after where b: "split_before ''href'' (to_ascii_lowercase anchor) = Some (before, x)"
    and g: "split_once CHR ''='' (drop (length before + 4) anchor) = Some (gap, after)"
    and v: "(case str_trim_start after of [] \<Rightarrow> None | quote # rest \<Rightarrow>
        if quote = CHR 0x22 \<or> quote = CHR 0x27
        then map_option (\<lambda>(value, _). (length before + 4 + length gap + 1 + (length after - length (str_trim_start after)) + 1, value))
          (split_once quote rest)
        else Some (length before + 4 + length gap + 1 + (length after - length (str_trim_start after)),
          before_any ([CHR ''>''] # whitespace_chars) (str_trim_start after))) = Some (start, href)"
    using assms unfolding extract_href_range_def Let_def bind_eq_Some_conv split_paired_Ex prod.case by blast
  have x: "length before + 4 \<le> length anchor"
    using split_before_Some [OF b] length_to_ascii_lowercase [of anchor]
    by (auto simp: starts_with_iff prefix_def simp del: length_to_ascii_lowercase)
  obtain ws where ws: "after = ws @ str_trim_start after"
    using trim_start_any_suffix [of whitespace_chars after] by (auto simp: str_trim_start_def suffix_def)
  have a: "anchor = take (length before + 4) anchor @ gap @ CHR ''='' # ws @ str_trim_start after"
    using g ws by (metis append_take_drop_id split_once_Some)
  have lw: "length after - length (str_trim_start after) = length ws" using arg_cong [OF ws, of length] by simp
  note v = v [unfolded lw]
  have "\<exists>pre post. anchor = pre @ href @ post \<and> length pre = start"
  proof (cases "str_trim_start after")
    case (Cons quote rest)
    show ?thesis
    proof (cases "quote = CHR 0x22 \<or> quote = CHR 0x27")
      case True
      with v Cons obtain post where r: "split_once quote rest = Some (href, post)"
        and st: "start = length before + 4 + length gap + 1 + length ws + 1" by auto
      then have "anchor = (take (length before + 4) anchor @ gap @ CHR ''='' # ws @ [quote]) @ href @ quote # post"
        using a Cons by (simp add: split_once_Some)
      then show ?thesis using st x by (intro exI conjI) (assumption, simp)
    next
      case False
      with v Cons have h: "href = before_any ([CHR ''>''] # whitespace_chars) (str_trim_start after)"
        and st: "start = length before + 4 + length gap + 1 + length ws" by auto
      obtain post where "str_trim_start after = href @ post"
        using before_any_prefix [of "[CHR ''>''] # whitespace_chars" "str_trim_start after"] h by (auto simp: prefix_def)
      then have "anchor = (take (length before + 4) anchor @ gap @ CHR ''='' # ws) @ href @ post" using a by simp
      then show ?thesis using st x by (intro exI conjI) (assumption, simp)
    qed
  qed (use v in simp)
  then show ?thesis by (metis append_eq_conv_conj append.assoc length_append)
qed

fun chunk_text :: "html_chunk \<Rightarrow> string" where
  "chunk_text (HtmlText t) = t"
| "chunk_text (HtmlAnchor a) = a"

lemma html_chunks_text: "concat (map chunk_text (html_chunks page)) = page"
proof (induction page rule: html_chunks.induct)
  case (1 page)
  show ?case
  proof (cases "split_before ''<a'' (to_ascii_lowercase page)")
    case None
    then show ?thesis by (subst html_chunks.simps) simp
  next
    case (Some z)
    obtain before x where z: "z = (before, x)" by (cases z)
    show ?thesis
    proof (cases "split_before ''</a>'' (to_ascii_lowercase (drop (length before) page))")
      case None
      with Some z show ?thesis by (subst html_chunks.simps) simp
    next
      case (Some w)
      obtain inner y where w: "w = (inner, y)" by (cases w)
      have "concat (map chunk_text (html_chunks (drop (length inner + 4) (drop (length before) page))))
          = drop (length inner + 4) (drop (length before) page)"
        by (rule 1 [OF \<open>split_before ''<a'' _ = Some z\<close> z [symmetric] refl Some w [symmetric]])
      then have "concat (map chunk_text (html_chunks page)) =
          take (length before) page @ take (length inner + 4) (drop (length before) page)
            @ drop (length inner + 4) (drop (length before) page)"
        using \<open>split_before ''<a'' _ = Some z\<close> z Some w by (subst html_chunks.simps) simp
      then show ?thesis by (simp only: append_take_drop_id)
    qed
  qed
qed

subsection \<open>Packuments\<close>

lemma filter_npm_times_keys:
  assumes "map_of entries version = Some x"
  shows "fst ` set (filter_npm_times version entries) \<subseteq> {version, ''created'', ''modified''}"
    and "map_of (filter_npm_times version entries) version = Some x"
proof -
  have u: "fst ` set (AList.update k v m) = insert k (fst ` set m)" for k and v :: json and m :: "(string \<times> json) list"
    using dom_update [of k v m] by simp
  show "fst ` set (filter_npm_times version entries) \<subseteq> {version, ''created'', ''modified''}"
    using assms by (auto simp: filter_npm_times_def Let_def u split: option.splits)
  show "map_of (filter_npm_times version entries) version = Some x"
    using assms by (simp add: filter_npm_times_def Let_def update_conv')
qed

section \<open>Properties\<close>


definition sample_packument :: json where
  "sample_packument = JObject [(''versions'', JObject [(''1.0.0'', JObject [(''dist'', JObject
     [(''tarball'', JString ''https://index.crates.io/a/-/a-1.0.0.tgz'')])]), (''2.0.0'', JObject [])]),
     (''dist-tags'', JObject [(''latest'', JString ''2.0.0'')])]"


text \<open>When a fallback version is approved and the packument has it, the metadata handed out offers
  exactly this version: it is the only one listed, it is the latest tag, and only its own and the
  package's times remain. A packument that is not JSON or lacks the version is handed out as it came.\<close>

lemma packument_restricted_to_version:
  "(case lib_json_parse lib body of
      None \<Rightarrow> filter_npm_packument_to_version lib body version = body
    | Some value \<Rightarrow>
        (case Option.bind (json_get ''versions'' value) (json_get version) of
           None \<Rightarrow> filter_npm_packument_to_version lib body version = body
         | Some selected \<Rightarrow> \<exists>value'. filter_npm_packument_to_version lib body version = lib_json_print lib value'
             \<and> json_get ''versions'' value' = Some (JObject [(version, selected)])
             \<and> (Option.bind (json_get ''dist-tags'' value) as_object \<noteq> None \<longrightarrow>
                  Option.bind (json_get ''dist-tags'' value') (get_str ''latest'') = Some version)
             \<and> (\<forall>entries. Option.bind (json_get ''time'' value) as_object = Some entries \<and> map_of entries version \<noteq> None \<longrightarrow>
                  (\<exists>entries'. json_get ''time'' value' = Some (JObject entries')
                     \<and> fst ` set entries' \<subseteq> {version, ''created'', ''modified''}))))"
proof (cases "lib_json_parse lib body")
  case (Some val)
  show ?thesis
  proof (cases "Option.bind (json_get ''versions'' val) (json_get version)")
    case None
    with Some show ?thesis by (simp add: filter_npm_packument_to_version_def)
  next
    case (Some selected)
    let ?v = "filter_npm_value version selected val"
    from Some have "as_object val \<noteq> None" by (auto simp: bind_eq_Some_conv dest: json_get_object)
    then obtain m where m: "val = JObject m" by (cases val) (auto simp: as_object_def)
    note defs = filter_npm_value_def Let_def json_set_def as_object_def json_get_def get_str_def as_str_def update_conv' m
    have f: "filter_npm_packument_to_version lib body version = lib_json_print lib ?v"
      using Some \<open>lib_json_parse lib body = Some val\<close> by (simp add: filter_npm_packument_to_version_def)
    have "json_get ''versions'' ?v = Some (JObject [(version, selected)])"
      by (simp add: defs split: option.split)
    moreover have "Option.bind (json_get ''dist-tags'' ?v) (get_str ''latest'') = Some version"
      if "Option.bind (json_get ''dist-tags'' val) as_object = Some tags" for tags
    proof -
      from that have "map_of m ''dist-tags'' = Some (JObject tags)"
        by (auto simp: bind_eq_Some_conv as_object_Some json_get_def m)
      then show ?thesis by (simp add: defs split: option.split)
    qed
    moreover have "\<exists>entries'. json_get ''time'' ?v = Some (JObject entries')
        \<and> fst ` set entries' \<subseteq> {version, ''created'', ''modified''}"
      if "Option.bind (json_get ''time'' val) as_object = Some entries" "map_of entries version = Some x" for entries x
    proof -
      from that(1) have "map_of m ''time'' = Some (JObject entries)"
        by (auto simp: bind_eq_Some_conv as_object_Some json_get_def m)
      then have "json_get ''time'' ?v = Some (JObject (filter_npm_times version entries))"
        by (simp add: defs split: option.split)
      with filter_npm_times_keys(1) [OF that(2)] show ?thesis by blast
    qed
    ultimately show ?thesis
      using f Some \<open>lib_json_parse lib body = Some val\<close> by (auto intro!: exI [of _ ?v])
  qed
qed (simp add: filter_npm_packument_to_version_def)

definition packument_lib :: proxy_lib where
  "packument_lib = sample_lib\<lparr>lib_json_parse := \<lambda>_. Some sample_packument\<rparr>"

lemma packument_restricted_to_version_witness:
  "\<exists>value' selected. filter_npm_packument_to_version packument_lib [] ''1.0.0'' = lib_json_print packument_lib value'
     \<and> json_get ''versions'' value' = Some (JObject [(''1.0.0'', selected)])
     \<and> Option.bind (json_get ''dist-tags'' value') (get_str ''latest'') = Some ''1.0.0''"
proof -
  have "lib_json_parse packument_lib [] = Some sample_packument" by (simp add: packument_lib_def)
  moreover obtain selected where "Option.bind (json_get ''versions'' sample_packument) (json_get ''1.0.0'') = Some selected"
    by (simp add: sample_packument_def json_get_def)
  moreover have "Option.bind (json_get ''dist-tags'' sample_packument) as_object \<noteq> None"
    by (simp add: sample_packument_def json_get_def as_object_def)
  ultimately show ?thesis
    using packument_restricted_to_version [of packument_lib "[]" "''1.0.0''"] by auto
qed

text \<open>Rewriting a PyPI index page changes nothing but the values of the link attributes of its closed
  anchors, each of which becomes a link to the proxy; a page that is not UTF-8 is left alone.\<close>

lemma index_page_changes_only_links:
  "if utf8_ok page then
     (\<exists>pieces. page = concat (map fst pieces)
        \<and> rewrite_pypi_simple_links lib mount proxy_base page = concat (map snd pieces)
        \<and> (\<forall>(old, new) \<in> set pieces. new = old \<or> (\<exists>before href after. old = before @ href @ after
             \<and> new = before @ rewrite_registry_url lib mount proxy_base href @ after)))
   else rewrite_pypi_simple_links lib mount proxy_base page = page"
proof (cases "utf8_ok page")
  case True
  let ?pieces = "map (\<lambda>c. (chunk_text c, rewrite_chunk lib mount proxy_base c)) (html_chunks page)"
  have piece: "rewrite_chunk lib mount proxy_base c = chunk_text c \<or> (\<exists>before href after. chunk_text c = before @ href @ after
      \<and> rewrite_chunk lib mount proxy_base c = before @ rewrite_registry_url lib mount proxy_base href @ after)" for c
    by (cases c) (auto split: option.split dest: extract_href_range_place)
  have "page = concat (map fst ?pieces)" by (simp add: o_def html_chunks_text)
  moreover have "rewrite_pypi_simple_links lib mount proxy_base page = concat (map snd ?pieces)"
    using True by (simp add: rewrite_pypi_simple_links_def o_def)
  moreover have "\<forall>(old, new) \<in> set ?pieces. new = old \<or> (\<exists>before href after. old = before @ href @ after
      \<and> new = before @ rewrite_registry_url lib mount proxy_base href @ after)"
    using piece by auto
  ultimately show ?thesis unfolding if_P [OF True] by blast
qed (simp add: rewrite_pypi_simple_links_def)

lemma index_page_changes_only_links_witness:
  "\<exists>pieces. ''<p>none</p>'' = concat (map fst pieces)
     \<and> rewrite_pypi_simple_links sample_lib ''/pypi'' ''http://p'' ''<p>none</p>'' = concat (map snd pieces)"
proof -
  have "utf8_ok ''<p>none</p>''" by code_simp
  then show ?thesis using index_page_changes_only_links [of "''<p>none</p>''" sample_lib "''/pypi''" "''http://p''"]
    by auto
qed

end
