(* ===== verification/Rate_Limit.thy ===== *)
theory Rate_Limit
  imports Rust_Prelude
begin

text \<open>
  The sliding-window rate limiters of Mosquito Net,
  \<^verbatim>\<open>services/mosquito-net/src/rate_limit.rs\<close>. Instants and durations are natural numbers of
  nanoseconds; \<^verbatim>\<open>duration_since\<close> saturates at zero, as truncated subtraction does. The map of
  buckets under its mutex is the state; a bucket is the queue of the accepted instants, oldest
  first. The locale \<open>sliding_window\<close> is the contract of one limiter; the bound on every window
  and the promise of the retry hint are proved in it and hold for the code's limiter by
  interpretation.
\<close>

section \<open>Configuration\<close>

record RateLimitConfig =
  rl_window :: nat
  rl_burst :: nat

record ProxyRateLimitConfig =
  rl_tenant_api :: RateLimitConfig
  rl_client_package :: RateLimitConfig

definition nanos_per_second :: nat where
  "nanos_per_second = 1000000000"

definition default_rate_limits :: ProxyRateLimitConfig where
  "default_rate_limits =
     \<lparr>rl_tenant_api = \<lparr>rl_window = 60 * nanos_per_second, rl_burst = 240\<rparr>,
      rl_client_package = \<lparr>rl_window = 60 * nanos_per_second, rl_burst = 120\<rparr>\<rparr>"

record RateLimitRejection =
  rr_retry_after_seconds :: nat

section \<open>One limiter\<close>

type_synonym buckets = "string \<rightharpoonup> nat list"

record SlidingWindowRateLimiter =
  sw_config :: RateLimitConfig
  sw_buckets :: buckets

definition limiter_new :: "RateLimitConfig \<Rightarrow> SlidingWindowRateLimiter" where
  "limiter_new config = \<lparr>sw_config = config, sw_buckets = Map.empty\<rparr>"

text \<open>The loop that pops the expired front entries.\<close>

fun pop_expired :: "nat \<Rightarrow> nat \<Rightarrow> nat list \<Rightarrow> nat list" where
  "pop_expired now window [] = []"
| "pop_expired now window (first_seen # entries) =
     (if now - first_seen \<ge> window then pop_expired now window entries else first_seen # entries)"

definition u64_max :: nat where
  "u64_max = 2 ^ 64 - 1"

definition retry_after_seconds :: "nat \<Rightarrow> nat \<Rightarrow> nat list \<Rightarrow> nat" where
  "retry_after_seconds now window entries =
     (case entries of
        [] \<Rightarrow> 1
      | first_seen # _ \<Rightarrow>
          let remaining = window - (now - first_seen);
              seconds = remaining div nanos_per_second;
              rounded_up = (if remaining mod nanos_per_second = 0 then seconds
                            else min u64_max (seconds + 1))
          in max rounded_up 1)"

text \<open>The body of \<^verbatim>\<open>check_and_record\<close> under the lock.\<close>

definition check_buckets ::
  "RateLimitConfig \<Rightarrow> nat \<Rightarrow> string \<Rightarrow> buckets \<Rightarrow> (RateLimitRejection, unit) result \<times> buckets" where
  "check_buckets config now key buckets =
     (let entries = pop_expired now (rl_window config) (unwrap_or [] (buckets key)) in
      if length entries \<ge> rl_burst config
      then (Inl \<lparr>rr_retry_after_seconds = retry_after_seconds now (rl_window config) entries\<rparr>,
            buckets(key \<mapsto> entries))
      else (Inr (), buckets(key \<mapsto> entries @ [now])))"

definition check_and_record ::
  "nat \<Rightarrow> string \<Rightarrow> SlidingWindowRateLimiter \<Rightarrow> (RateLimitRejection, unit) result \<times> SlidingWindowRateLimiter" where
  "check_and_record now key l =
     (case check_buckets (sw_config l) now key (sw_buckets l) of
        (r, b) \<Rightarrow> (r, l\<lparr>sw_buckets := b\<rparr>))"

section \<open>The limiters of the proxy\<close>

record ProxyRateLimiters =
  pl_tenant_api :: SlidingWindowRateLimiter
  pl_client_package :: SlidingWindowRateLimiter

definition proxy_rate_limiters_new :: "ProxyRateLimitConfig \<Rightarrow> ProxyRateLimiters" where
  "proxy_rate_limiters_new config =
     \<lparr>pl_tenant_api = limiter_new (rl_tenant_api config),
      pl_client_package = limiter_new (rl_client_package config)\<rparr>"

definition check_tenant ::
  "(uuid \<Rightarrow> string) \<Rightarrow> nat \<Rightarrow> uuid \<Rightarrow> ProxyRateLimiters
     \<Rightarrow> (RateLimitRejection, unit) result \<times> ProxyRateLimiters" where
  "check_tenant show_uuid now tenant_id ls =
     (case check_and_record now (show_uuid tenant_id) (pl_tenant_api ls) of
        (r, l) \<Rightarrow> (r, ls\<lparr>pl_tenant_api := l\<rparr>))"

definition check_client ::
  "('ip \<Rightarrow> string) \<Rightarrow> nat \<Rightarrow> 'ip \<Rightarrow> ProxyRateLimiters
     \<Rightarrow> (RateLimitRejection, unit) result \<times> ProxyRateLimiters" where
  "check_client show_ip now client_ip ls =
     (case check_and_record now (show_ip client_ip) (pl_client_package ls) of
        (r, l) \<Rightarrow> (r, ls\<lparr>pl_client_package := l\<rparr>))"

section \<open>Expiry on sorted queues\<close>

lemma pop_expired_filter:
  "sorted xs \<Longrightarrow> pop_expired now w xs = filter (\<lambda>a. now - a < w) xs"
proof (induction xs)
  case (Cons x xs)
  show ?case
  proof (cases "now - x \<ge> w")
    case True
    with Cons show ?thesis by simp
  next
    case False
    have "now - a < w" if "a \<in> set (x # xs)" for a
      using that Cons.prems False diff_le_mono2 [of x a now] by auto
    then have "filter (\<lambda>a. now - a < w) (x # xs) = x # xs" by (intro filter_True) blast
    with False show ?thesis by simp
  qed
qed simp

lemma pop_expired_suffix: "suffix (pop_expired now w xs) xs"
  by (induction xs) (auto intro: suffix_ConsI)

lemma length_pop_expired: "length (pop_expired now w xs) \<le> length xs"
  by (meson pop_expired_suffix suffix_length_le)

lemma ceiling_seconds:
  "n \<le> (if n mod nanos_per_second = 0 then n div nanos_per_second else n div nanos_per_second + 1) * nanos_per_second"
proof -
  define q r where "q = n div nanos_per_second" and "r = n mod nanos_per_second"
  have n: "n = q * nanos_per_second + r" unfolding q_def r_def by simp
  have "r < nanos_per_second" unfolding r_def by (simp add: nanos_per_second_def)
  then show ?thesis unfolding q_def [symmetric] r_def [symmetric] n by (simp add: distrib_right)
qed

section \<open>The contract of a sliding window\<close>

locale sliding_window =
  fixes window burst :: nat
    and check :: "nat \<Rightarrow> 'k \<Rightarrow> 's \<Rightarrow> (RateLimitRejection, unit) result \<times> 's"
    and bucket :: "'s \<Rightarrow> 'k \<Rightarrow> nat list"
  assumes accept_iff: "fst (check now k s) = Inr () \<longleftrightarrow> length (pop_expired now window (bucket s k)) < burst"
    and bucket_same: "bucket (snd (check now k s)) k =
          pop_expired now window (bucket s k) @ (if fst (check now k s) = Inr () then [now] else [])"
    and bucket_other: "k' \<noteq> k \<Longrightarrow> bucket (snd (check now k s)) k' = bucket s k'"
    and hint: "fst (check now k s) = Inl e \<Longrightarrow>
          rr_retry_after_seconds e = retry_after_seconds now window (pop_expired now window (bucket s k))"
begin

text \<open>Running a sequence of calls and collecting the accepted ones.\<close>

definition run_step :: "nat \<times> 'k \<Rightarrow> 's \<times> (nat \<times> 'k) list \<Rightarrow> 's \<times> (nat \<times> 'k) list" where
  "run_step ev st =
     (snd (check (fst ev) (snd ev) (fst st)),
      snd st @ (if fst (check (fst ev) (snd ev) (fst st)) = Inr () then [ev] else []))"

definition times :: "'k \<Rightarrow> (nat \<times> 'k) list \<Rightarrow> nat list" where
  "times k acc = map fst (filter (\<lambda>ev. snd ev = k) acc)"

lemma times_snoc: "times k (acc @ [(t, k')]) = times k acc @ (if k' = k then [t] else [])"
  by (simp add: times_def)

text \<open>What holds after calls up to instant \<open>now\<close>.\<close>

definition window_inv :: "nat \<Rightarrow> 's \<times> (nat \<times> 'k) list \<Rightarrow> bool" where
  "window_inv now st = (\<forall>k.
     sorted (times k (snd st)) \<and> (\<forall>a \<in> set (times k (snd st)). a \<le> now)
     \<and> (\<exists>m \<le> now. bucket (fst st) k = filter (\<lambda>a. m - a < window) (times k (snd st)))
     \<and> length (bucket (fst st) k) \<le> burst
     \<and> (\<forall>t. length (filter (\<lambda>a. t \<le> a \<and> a < t + window) (times k (snd st))) \<le> burst))"

lemma pruned_eq:
  assumes "window_inv now st" "now \<le> now'"
  shows "pop_expired now' window (bucket (fst st) k) = filter (\<lambda>a. now' - a < window) (times k (snd st))"
proof -
  let ?A = "times k (snd st)"
  from assms(1) obtain m where m: "m \<le> now" "bucket (fst st) k = filter (\<lambda>a. m - a < window) ?A"
    and s: "sorted ?A" unfolding window_inv_def by blast
  have "pop_expired now' window (bucket (fst st) k) = filter (\<lambda>a. now' - a < window) (filter (\<lambda>a. m - a < window) ?A)"
    unfolding m(2) by (intro pop_expired_filter sorted_wrt_filter) (rule s)
  also have "\<dots> = filter (\<lambda>a. now' - a < window) ?A"
    unfolding filter_filter using m(1) assms(2) by (intro filter_cong) auto
  finally show ?thesis .
qed

lemma window_inv_step:
  assumes inv: "window_inv now st" and le: "now \<le> now'" and pos: "0 < window"
  shows "window_inv now' (run_step (now', key) st)"
  unfolding window_inv_def
proof
  fix k
  let ?A = "times k (snd st)" and ?st' = "run_step (now', key) st"
  let ?ok = "fst (check now' key (fst st)) = Inr ()"
  have A': "times k (snd ?st') = ?A @ (if key = k \<and> ?ok then [now'] else [])"
    by (simp add: run_step_def times_def)
  have inv': "sorted ?A" "\<forall>a \<in> set ?A. a \<le> now" "length (bucket (fst st) k) \<le> burst"
    "\<And>t. length (filter (\<lambda>a. t \<le> a \<and> a < t + window) ?A) \<le> burst"
    using inv unfolding window_inv_def by blast+
  have pr: "pop_expired now' window (bucket (fst st) k) = filter (\<lambda>a. now' - a < window) ?A"
    by (rule pruned_eq [OF inv le])
  have srt: "sorted (times k (snd ?st')) \<and> (\<forall>a \<in> set (times k (snd ?st')). a \<le> now')"
    unfolding A' using inv'(1,2) le by (auto simp: sorted_append)
  have buck: "\<exists>m \<le> now'. bucket (fst ?st') k = filter (\<lambda>a. m - a < window) (times k (snd ?st'))"
  proof (cases "key = k")
    case True
    have "bucket (fst ?st') k = filter (\<lambda>a. now' - a < window) (times k (snd ?st'))"
      unfolding A' using pos True pr by (simp add: run_step_def bucket_same)
    then show ?thesis by blast
  next
    case False
    from inv obtain m where "m \<le> now" "bucket (fst st) k = filter (\<lambda>a. m - a < window) ?A"
      unfolding window_inv_def by blast
    with False le show ?thesis unfolding A' by (intro exI [of _ m]) (simp add: run_step_def bucket_other)
  qed
  have len: "length (bucket (fst ?st') k) \<le> burst"
  proof (cases "key = k")
    case True
    have "length (pop_expired now' window (bucket (fst st) k)) \<le> burst"
      using inv'(3) length_pop_expired le_trans by blast
    with True accept_iff [of now' key "fst st"] show ?thesis by (simp add: run_step_def bucket_same)
  next
    case False
    with inv'(3) show ?thesis by (simp add: run_step_def bucket_other)
  qed
  have cnt: "length (filter (\<lambda>a. t \<le> a \<and> a < t + window) (times k (snd ?st'))) \<le> burst" for t
  proof (cases "key = k \<and> ?ok \<and> t \<le> now' \<and> now' < t + window")
    case True
    have "filter (\<lambda>a. t \<le> a \<and> a < t + window) ?A = filter (\<lambda>a. t \<le> a \<and> a < t + window) (filter (\<lambda>a. now' - a < window) ?A)"
      unfolding filter_filter using True by (intro filter_cong) auto
    then have "length (filter (\<lambda>a. t \<le> a \<and> a < t + window) ?A) \<le> length (pop_expired now' window (bucket (fst st) k))"
      unfolding pr by (metis length_filter_le)
    moreover have "length (pop_expired now' window (bucket (fst st) k)) < burst"
      using True accept_iff [of now' k "fst st"] by auto
    ultimately show ?thesis unfolding A' using True by simp
  next
    case False
    then show ?thesis using inv'(4) by (auto simp: A')
  qed
  from srt buck len cnt show "sorted (times k (snd ?st')) \<and> (\<forall>a \<in> set (times k (snd ?st')). a \<le> now')
     \<and> (\<exists>m \<le> now'. bucket (fst ?st') k = filter (\<lambda>a. m - a < window) (times k (snd ?st')))
     \<and> length (bucket (fst ?st') k) \<le> burst
     \<and> (\<forall>t. length (filter (\<lambda>a. t \<le> a \<and> a < t + window) (times k (snd ?st'))) \<le> burst)" by blast
qed

lemma window_inv_run:
  assumes "sorted (map fst evs)" "0 < window" "\<And>k. bucket s k = []"
  shows "window_inv (if evs = [] then 0 else fst (last evs)) (fold run_step evs (s, []))"
  using assms(1)
proof (induction evs rule: rev_induct)
  case Nil
  show ?case by (simp add: window_inv_def times_def assms(3))
next
  case (snoc ev evs)
  let ?n = "if evs = [] then 0 else fst (last evs)"
  have le: "?n \<le> fst ev"
    using snoc.prems by (auto simp: sorted_append)
  from snoc have "window_inv ?n (fold run_step evs (s, []))" by (simp add: sorted_append)
  from window_inv_step [OF this le assms(2), of "snd ev"] show ?case by simp
qed

text \<open>No window of the configured length contains more accepted calls of a key than the burst.\<close>

lemma window_bound:
  assumes "sorted (map fst evs)" "0 < window" "\<And>k. bucket s k = []"
  shows "length (filter (\<lambda>ev. snd ev = k \<and> t \<le> fst ev \<and> fst ev < t + window) (snd (fold run_step evs (s, [])))) \<le> burst"
proof -
  let ?acc = "snd (fold run_step evs (s, []))"
  have "length (filter (\<lambda>a. t \<le> a \<and> a < t + window) (times k ?acc)) \<le> burst"
    using window_inv_run [OF assms] unfolding window_inv_def by blast
  then show ?thesis by (simp add: times_def filter_map o_def conj_commute filter_filter)
qed

text \<open>A rejected caller that waits as long as it is told is accepted.\<close>

lemma retry_accepted:
  assumes "fst (check now k s) = Inl e" "0 < burst" "length (bucket s k) \<le> burst"
    and "window div nanos_per_second + 1 < 2 ^ 64"
    and "now + rr_retry_after_seconds e * nanos_per_second \<le> later"
    and "bucket s' k = bucket (snd (check now k s)) k"
    and "\<forall>a \<in> set (bucket s k). a \<le> now"
  shows "fst (check later k s') = Inr ()"
proof -
  let ?p = "pop_expired now window (bucket s k)"
  have full: "length ?p \<ge> burst" using accept_iff [of now k s] assms(1) by auto
  then obtain x xs where p: "?p = x # xs" using assms(2) by (cases ?p) auto
  have len: "length (x # xs) \<le> burst"
    using assms(3) length_pop_expired [of now window "bucket s k"] unfolding p by linarith
  have b: "bucket s' k = x # xs" using assms(1,6) by (simp add: bucket_same p)
  let ?rem = "window - (now - x)"
  have secs: "?rem div nanos_per_second + 1 \<le> u64_max"
    using assms(4) div_le_mono [of ?rem window nanos_per_second] by (simp add: u64_max_def)
  have "?rem \<le> rr_retry_after_seconds e * nanos_per_second"
  proof -
    have h: "rr_retry_after_seconds e = max (if ?rem mod nanos_per_second = 0 then ?rem div nanos_per_second
        else ?rem div nanos_per_second + 1) 1"
      unfolding hint [OF assms(1)] p retry_after_seconds_def Let_def list.case min_absorb2 [OF secs]
      by (rule refl)
    have "?rem \<le> (if ?rem mod nanos_per_second = 0 then ?rem div nanos_per_second
        else ?rem div nanos_per_second + 1) * nanos_per_second"
      by (rule ceiling_seconds)
    also have "\<dots> \<le> rr_retry_after_seconds e * nanos_per_second" unfolding h by (intro mult_right_mono) auto
    finally show ?thesis .
  qed
  moreover have "x \<le> now"
    using assms(7) set_mono_suffix [OF pop_expired_suffix [of now window "bucket s k"]] by (auto simp: p)
  ultimately have "later - x \<ge> window" using assms(5) by linarith
  then have "pop_expired later window (bucket s' k) = pop_expired later window xs" by (simp add: b)
  moreover have "length (pop_expired later window xs) < burst"
    using len length_pop_expired [of later window xs] by simp
  ultimately show ?thesis by (simp add: accept_iff)
qed

end

definition bucket_of :: "buckets \<Rightarrow> string \<Rightarrow> nat list" where
  "bucket_of b k = unwrap_or [] (b k)"

interpretation limiter: sliding_window "rl_window config" "rl_burst config" "check_buckets config" bucket_of
  for config
  by unfold_locales (auto simp: check_buckets_def Let_def bucket_of_def split: if_splits)

section \<open>Properties\<close>

text \<open>The accepted calls of a sequence of calls, in order.\<close>

fun accepted_calls ::
  "SlidingWindowRateLimiter \<Rightarrow> (nat \<times> string) list \<Rightarrow> (nat \<times> string) list" where
  "accepted_calls l [] = []"
| "accepted_calls l ((now, key) # evs) =
     (case check_and_record now key l of
        (Inr _, l') \<Rightarrow> (now, key) # accepted_calls l' evs
      | (Inl _, l') \<Rightarrow> accepted_calls l' evs)"

lemma accepted_calls_run:
  "acc @ accepted_calls l evs = snd (fold (limiter.run_step (sw_config l)) evs (sw_buckets l, acc))"
proof (induction evs arbitrary: l acc)
  case (Cons ev evs)
  obtain now key where ev: "ev = (now, key)" by (cases ev)
  obtain r b where c: "check_buckets (sw_config l) now key (sw_buckets l) = (r, b)" by fastforce
  then have cr: "check_and_record now key l = (r, l\<lparr>sw_buckets := b\<rparr>)" by (simp add: check_and_record_def)
  show ?case
  proof (cases r)
    case (Inl e)
    with Cons.IH [of acc "l\<lparr>sw_buckets := b\<rparr>"] cr c ev show ?thesis by (simp add: limiter.run_step_def)
  next
    case (Inr u)
    with Cons.IH [of "acc @ [(now, key)]" "l\<lparr>sw_buckets := b\<rparr>"] cr c ev show ?thesis
      by (simp add: limiter.run_step_def)
  qed
qed simp

lemma check_and_record_simps:
  "fst (check_and_record now key l) = fst (check_buckets (sw_config l) now key (sw_buckets l))"
  "sw_buckets (snd (check_and_record now key l)) = snd (check_buckets (sw_config l) now key (sw_buckets l))"
  "sw_config (snd (check_and_record now key l)) = sw_config l"
  by (simp_all add: check_and_record_def case_prod_unfold)

text \<open>C9: whatever the order of callers, a fresh limiter never accepts more than the configured
  burst of calls of one key within any interval as long as the configured window.\<close>

theorem rate_limit_window_bound:
  assumes "sorted (map fst evs)" and "0 < rl_window config"
  shows "length (filter (\<lambda>(n, k). k = key \<and> t \<le> n \<and> n < t + rl_window config)
      (accepted_calls (limiter_new config) evs)) \<le> rl_burst config"
proof -
  have "accepted_calls (limiter_new config) evs = snd (fold (limiter.run_step config) evs (Map.empty, []))"
    using accepted_calls_run [of "[]" "limiter_new config" evs] by (simp add: limiter_new_def)
  with limiter.window_bound [OF assms, of Map.empty key t] show ?thesis
    by (simp add: bucket_of_def case_prod_unfold)
qed

theorem rate_limit_window_bound_witness:
  "length (filter (\<lambda>(n, k). k = ''a'' \<and> 0 \<le> n \<and> n < 0 + 10)
     (accepted_calls (limiter_new \<lparr>rl_window = 10, rl_burst = 2\<rparr>) [(1, ''a''), (2, ''a''), (3, ''a'')])) \<le> 2"
  using rate_limit_window_bound [of "[(1, ''a''), (2, ''a''), (3, ''a'')]" "\<lparr>rl_window = 10, rl_burst = 2\<rparr>" "''a''" 0]
  by simp

text \<open>C10: the retry hint is kept. A caller that was rejected (its recorded calls lying in the past) and comes back after the promised number
  of seconds, without having called in between, is accepted, however the other callers behave.\<close>

theorem rate_limit_retry_accepted:
  assumes "fst (check_and_record now key l) = Inl e"
    and "0 < rl_burst (sw_config l)" and "length (bucket_of (sw_buckets l) key) \<le> rl_burst (sw_config l)"
    and "rl_window (sw_config l) div nanos_per_second + 1 < 2 ^ 64"
    and "now + rr_retry_after_seconds e * nanos_per_second \<le> later"
    and "sw_config l' = sw_config l"
    and "bucket_of (sw_buckets l') key = bucket_of (sw_buckets (snd (check_and_record now key l))) key"
    and "\<forall>a \<in> set (bucket_of (sw_buckets l) key). a \<le> now"
  shows "fst (check_and_record later key l') = Inr ()"
proof -
  have "fst (check_buckets (sw_config l) later key (sw_buckets l')) = Inr ()"
    by (rule limiter.retry_accepted [of "sw_config l" now key "sw_buckets l" e])
      (use assms in \<open>simp_all add: check_and_record_simps\<close>)
  then show ?thesis using assms(6) by (simp add: check_and_record_simps)
qed

definition busy_limiter :: SlidingWindowRateLimiter where
  "busy_limiter = \<lparr>sw_config = \<lparr>rl_window = 5 * nanos_per_second, rl_burst = 1\<rparr>,
     sw_buckets = [''a'' \<mapsto> [0]]\<rparr>"

theorem rate_limit_retry_accepted_witness:
  "fst (check_and_record 1 ''a'' busy_limiter) = Inl \<lparr>rr_retry_after_seconds = 5\<rparr>
   \<and> fst (check_and_record (1 + 5 * nanos_per_second) ''a'' (snd (check_and_record 1 ''a'' busy_limiter))) = Inr ()"
proof -
  have r: "fst (check_and_record 1 ''a'' busy_limiter) = Inl \<lparr>rr_retry_after_seconds = 5\<rparr>"
    by (simp add: check_and_record_def check_buckets_def busy_limiter_def nanos_per_second_def
        retry_after_seconds_def u64_max_def Let_def)
  have "fst (check_and_record (1 + 5 * nanos_per_second) ''a'' (snd (check_and_record 1 ''a'' busy_limiter))) = Inr ()"
    by (rule rate_limit_retry_accepted [OF r])
      (simp_all add: check_and_record_simps, simp_all add: busy_limiter_def nanos_per_second_def bucket_of_def)
  with r show ?thesis by simp
qed

end
