(* ===== verification/Proxy_State.thy ===== *)
theory Proxy_State
  imports Metadata_Rewrite Rate_Limit Redaction Expiring_Store "HOL-Library.State_Monad"
begin

text \<open>
  The state of Mosquito Net, \<^verbatim>\<open>services/mosquito-net/src/lib.rs\<close>: the application state with its caches,
  limiters and configurations, the audit events, the metrics as the list of their observations, and
  the responses. Handlers are computations of the state monad over \<open>ProxyAppState\<close>. What they read from
  outside is the record \<open>proxy_env\<close>: the answer to the \<open>n\<close>-th upstream request and to the \<open>n\<close>-th request
  to the Triage Counter, and the \<open>n\<close>-th reading of the monotonic clock in nanoseconds; the state lists the
  requests and counts the readings. Elapsed times, which only go to the metrics, and the identifiers and
  times of audit events are left out.
\<close>

section \<open>State\<close>

record ProxyCachedDecision =
  pd_response :: DecisionResponse
  pd_expires_at :: timestamp

record CachedUpstreamResponse =
  cu_status :: status
  cu_headers :: header_map
  cu_body :: string
  cu_expires_at :: timestamp

record ProxyCaches =
  ch_decisions :: "string \<rightharpoonup> ProxyCachedDecision"
  ch_metadata :: "string \<rightharpoonup> CachedUpstreamResponse"
  ch_artifact_by_digest :: "string \<rightharpoonup> CachedUpstreamResponse"
  ch_artifact_digest_by_path :: "string \<rightharpoonup> string"

datatype ProxyMetric =
    ObserveRequest "uuid option" "RegistryAdapter option" status
  | ObserveCache uuid uuid RegistryAdapter string string
  | ObserveTriage uuid uuid RegistryAdapter string
  | ObserveDecision uuid uuid RegistryAdapter PolicyDecision
  | ObserveUpstream uuid uuid RegistryAdapter string status
  | ObserveRateLimit uuid uuid RegistryAdapter string string

record AuditEvent =
  ae_tenant_id :: uuid
  ae_actor :: string
  ae_action :: string
  ae_resource :: string
  ae_trace_id :: string
  ae_metadata :: metadata

record ProxyAppState =
  px_registry_configs :: RegistryConfigStore
  px_triage_client :: TriageClient
  px_cargo_download_mac_key :: string
  px_caches :: ProxyCaches
  px_max_artifact_bytes :: nat
  px_metrics :: "ProxyMetric list"
  px_rate_limiters :: ProxyRateLimiters
  px_audit_events :: "AuditEvent list"
  px_sent :: "upstream_request list"
  px_triage_sent :: "DecisionRequest list"
  px_readings :: nat

record upstream_response =
  us_status :: status
  us_headers :: header_map
  us_body :: "(transport_error, string) result"

record proxy_env =
  pe_lib :: proxy_lib
  pe_lower :: "string \<Rightarrow> string"
  pe_clock :: "nat \<Rightarrow> nat"
  pe_upstream :: "nat \<Rightarrow> upstream_request \<Rightarrow> (transport_error, upstream_response) result"
  pe_triage :: "nat \<Rightarrow> DecisionRequest \<Rightarrow> http_answer"

type_synonym 'a px = "(ProxyAppState, 'a) state"

definition empty_caches :: ProxyCaches where
  "empty_caches = \<lparr>ch_decisions = Map.empty, ch_metadata = Map.empty, ch_artifact_by_digest = Map.empty,
     ch_artifact_digest_by_path = Map.empty\<rparr>"

text \<open>An empty key makes the constructor panic.\<close>

definition proxy_state_new ::
  "RegistryConfigStore \<Rightarrow> TriageClient \<Rightarrow> ProxyRateLimitConfig \<Rightarrow> nat \<Rightarrow> string \<Rightarrow> ProxyAppState option" where
  "proxy_state_new registry_configs triage_client rate_limit_config max_artifact_bytes cargo_download_mac_key =
     (if cargo_download_mac_key = [] then None
      else Some \<lparr>px_registry_configs = registry_configs, px_triage_client = triage_client,
        px_cargo_download_mac_key = cargo_download_mac_key, px_caches = empty_caches,
        px_max_artifact_bytes = max_artifact_bytes, px_metrics = [],
        px_rate_limiters = proxy_rate_limiters_new rate_limit_config, px_audit_events = [], px_sent = [],
        px_triage_sent = [], px_readings = 0\<rparr>)"

section \<open>Effects\<close>

definition reading :: "(ProxyAppState \<Rightarrow> 'a) \<Rightarrow> 'a px" where
  "reading f = State (\<lambda>s. (f s, s))"

definition changing :: "(ProxyAppState \<Rightarrow> ProxyAppState) \<Rightarrow> unit px" where
  "changing f = State (\<lambda>s. ((), f s))"

definition giving :: "'a \<Rightarrow> 'a px" where
  "giving a = State_Monad.return a"

text \<open>The operator \<^verbatim>\<open>?\<close> in an effectful function.\<close>

definition trying :: "('e, 'a) result px \<Rightarrow> ('a \<Rightarrow> ('e, 'b) result px) \<Rightarrow> ('e, 'b) result px" where
  "trying m f = State_Monad.bind m (\<lambda>r. case r of Inl e \<Rightarrow> giving (Inl e) | Inr a \<Rightarrow> f a)"

definition instant_now :: "proxy_env \<Rightarrow> nat px" where
  "instant_now env = do {
     n \<leftarrow> reading px_readings;
     changing (\<lambda>s. s\<lparr>px_readings := Suc n\<rparr>);
     giving (pe_clock env n)
   }"

definition observe :: "ProxyMetric \<Rightarrow> unit px" where
  "observe m = changing (\<lambda>s. s\<lparr>px_metrics := px_metrics s @ [m]\<rparr>)"

definition send_upstream :: "proxy_env \<Rightarrow> upstream_request \<Rightarrow> (UpstreamProxyError, upstream_response) result px" where
  "send_upstream env request = do {
     sent \<leftarrow> reading px_sent;
     changing (\<lambda>s. s\<lparr>px_sent := sent @ [request]\<rparr>);
     giving (map_err ProxyRequest (pe_upstream env (length sent) request))
   }"

definition ask_triage :: "proxy_env \<Rightarrow> DecisionRequest \<Rightarrow> (TriageClientError, DecisionResponse) result px" where
  "ask_triage env request = do {
     client \<leftarrow> reading px_triage_client;
     sent \<leftarrow> reading px_triage_sent;
     let (answer, n) = client_evaluate client (\<lambda>i. pe_triage env (length sent + i) request) request;
     changing (\<lambda>s. s\<lparr>px_triage_sent := sent @ replicate n request\<rparr>);
     giving answer
   }"

section \<open>Caches\<close>

definition sha256_digest :: "proxy_lib \<Rightarrow> string \<Rightarrow> (DigestError, ArtifactDigest) result" where
  "sha256_digest lib bytes = digest_sha256 (lib_hex_encode lib (lib_sha256 lib bytes))"

definition cache_deadline :: "proxy_env \<Rightarrow> int \<Rightarrow> timestamp option px" where
  "cache_deadline env cache_ttl_seconds =
     (if cache_ttl_seconds \<le> 0 then giving None
      else do {
        now \<leftarrow> instant_now env;
        giving (Some (int now + cache_ttl_seconds * int nanos_per_second))
      })"

fun package_request_kind_label :: "PackageRequestKind \<Rightarrow> string" where
  "package_request_kind_label KindMetadata = ''metadata''"
| "package_request_kind_label KindArtifact = ''artifact''"

definition show_bool :: "bool \<Rightarrow> string" where
  "show_bool b = (if b then ''true'' else ''false'')"

definition cache_key_for_decision :: "proxy_lib \<Rightarrow> DecisionRequest \<Rightarrow> string" where
  "cache_key_for_decision lib request =
     lib_show_uuid lib (rq_tenant_id request) @ '':'' @ lib_show_uuid lib (rq_registry_config_id request) @ '':''
       @ package_request_kind_label (nr_kind (rq_request request)) @ '':'' @ purl (nr_coordinate (rq_request request)) @ '':''
       @ unwrap_or ''none'' (map_option dg_hex (nr_requested_digest (rq_request request))) @ '':''
       @ show_bool (nr_explicit_version_or_integrity (rq_request request))"

definition cache_key_for_upstream :: "proxy_lib \<Rightarrow> ResolvedRegistryConfig \<Rightarrow> string option \<Rightarrow> string" where
  "cache_key_for_upstream lib resolved query =
     lib_show_uuid lib (rg_id (rv_config resolved)) @ '':'' @ rv_upstream_path resolved
       @ (case opt_filter (\<lambda>value. value \<noteq> []) query of Some q \<Rightarrow> ''?'' @ q | None \<Rightarrow> [])"

text \<open>Storing and fetching on the maps of the caches.\<close>

definition decision_store ::
  "string \<Rightarrow> DecisionResponse \<Rightarrow> timestamp \<Rightarrow> (string \<rightharpoonup> ProxyCachedDecision) \<Rightarrow> string \<rightharpoonup> ProxyCachedDecision" where
  "decision_store key response expires_at m = m(key \<mapsto> \<lparr>pd_response = response, pd_expires_at = expires_at\<rparr>)"

definition decision_fetch ::
  "timestamp \<Rightarrow> string \<Rightarrow> (string \<rightharpoonup> ProxyCachedDecision) \<Rightarrow> DecisionResponse option" where
  "decision_fetch now key m = map_option pd_response (opt_filter (\<lambda>entry. pd_expires_at entry > now) (m key))"

definition response_store ::
  "string \<Rightarrow> status \<times> header_map \<times> string \<Rightarrow> timestamp \<Rightarrow> (string \<rightharpoonup> CachedUpstreamResponse) \<Rightarrow> string \<rightharpoonup> CachedUpstreamResponse"
where
  "response_store key response expires_at m =
     (case response of (st, headers, body) \<Rightarrow>
        m(key \<mapsto> \<lparr>cu_status = st, cu_headers = headers, cu_body = body, cu_expires_at = expires_at\<rparr>))"

definition response_fetch ::
  "timestamp \<Rightarrow> string \<Rightarrow> (string \<rightharpoonup> CachedUpstreamResponse) \<Rightarrow> (status \<times> header_map \<times> string) option" where
  "response_fetch now key m =
     map_option (\<lambda>entry. (cu_status entry, cu_headers entry, cu_body entry))
       (opt_filter (\<lambda>entry. cu_expires_at entry > now) (m key))"

definition cached_decision :: "proxy_env \<Rightarrow> string \<Rightarrow> DecisionResponse option px" where
  "cached_decision env cache_key = do {
     now \<leftarrow> instant_now env;
     caches \<leftarrow> reading px_caches;
     giving (decision_fetch (int now) cache_key (ch_decisions caches))
   }"

definition observe_cache :: "ResolvedRegistryConfig \<Rightarrow> string \<Rightarrow> string \<Rightarrow> unit px" where
  "observe_cache resolved cache event =
     observe (ObserveCache (rg_tenant_id (rv_config resolved)) (rg_id (rv_config resolved))
       (rg_adapter (rv_config resolved)) cache event)"

definition cache_decision ::
  "proxy_env \<Rightarrow> ResolvedRegistryConfig \<Rightarrow> string \<Rightarrow> DecisionResponse \<Rightarrow> unit px" where
  "cache_decision env resolved cache_key decision = do {
     deadline \<leftarrow> cache_deadline env (rg_cache_ttl_seconds (rv_config resolved));
     case deadline of
       None \<Rightarrow> giving ()
     | Some expires_at \<Rightarrow> do {
         changing (\<lambda>s. s\<lparr>px_caches := (px_caches s)\<lparr>ch_decisions :=
           decision_store cache_key decision expires_at (ch_decisions (px_caches s))\<rparr>\<rparr>);
         observe_cache resolved ''decision'' ''store''
       }
   }"

definition cached_metadata_response :: "proxy_env \<Rightarrow> string \<Rightarrow> (status \<times> header_map \<times> string) option px" where
  "cached_metadata_response env cache_key = do {
     now \<leftarrow> instant_now env;
     caches \<leftarrow> reading px_caches;
     giving (response_fetch (int now) cache_key (ch_metadata caches))
   }"

definition cache_metadata_response ::
  "proxy_env \<Rightarrow> ResolvedRegistryConfig \<Rightarrow> string \<Rightarrow> status \<Rightarrow> header_map \<Rightarrow> string \<Rightarrow> unit px" where
  "cache_metadata_response env resolved cache_key st headers body =
     (if \<not> is_success st then giving ()
      else do {
        deadline \<leftarrow> cache_deadline env (rg_cache_ttl_seconds (rv_config resolved));
        case deadline of
          None \<Rightarrow> giving ()
        | Some expires_at \<Rightarrow> do {
            changing (\<lambda>s. s\<lparr>px_caches := (px_caches s)\<lparr>ch_metadata :=
              response_store cache_key (st, headers, body) expires_at (ch_metadata (px_caches s))\<rparr>\<rparr>);
            observe_cache resolved ''metadata'' ''store''
          }
      })"

definition cached_artifact_response :: "proxy_env \<Rightarrow> string \<Rightarrow> (status \<times> header_map \<times> string) option px" where
  "cached_artifact_response env digest_hex = do {
     now \<leftarrow> instant_now env;
     caches \<leftarrow> reading px_caches;
     giving (response_fetch (int now) digest_hex (ch_artifact_by_digest caches))
   }"

definition cache_artifact_response ::
  "proxy_env \<Rightarrow> ResolvedRegistryConfig \<Rightarrow> string \<Rightarrow> string \<Rightarrow> status \<Rightarrow> header_map \<Rightarrow> string \<Rightarrow> unit px" where
  "cache_artifact_response env resolved cache_key digest_hex st headers body =
     (if \<not> is_success st then giving ()
      else do {
        deadline \<leftarrow> cache_deadline env (rg_cache_ttl_seconds (rv_config resolved));
        case deadline of
          None \<Rightarrow> giving ()
        | Some expires_at \<Rightarrow> do {
            changing (\<lambda>s. s\<lparr>px_caches := (px_caches s)\<lparr>ch_artifact_digest_by_path :=
              (ch_artifact_digest_by_path (px_caches s))(cache_key \<mapsto> digest_hex)\<rparr>\<rparr>);
            changing (\<lambda>s. s\<lparr>px_caches := (px_caches s)\<lparr>ch_artifact_by_digest :=
              response_store digest_hex (st, headers, body) expires_at (ch_artifact_by_digest (px_caches s))\<rparr>\<rparr>);
            observe_cache resolved ''artifact'' ''store''
          }
      })"

interpretation proxy_decisions: expiring_store decision_store decision_fetch
  by unfold_locales (simp_all add: decision_store_def decision_fetch_def)

interpretation proxy_responses: expiring_store response_store response_fetch
  by unfold_locales (auto simp: response_store_def response_fetch_def split: prod.split)

section \<open>Audit events\<close>

fun adapter_json :: "RegistryAdapter \<Rightarrow> json" where
  "adapter_json AdapterNpm = JString ''npm''"
| "adapter_json AdapterPypi = JString ''pypi''"
| "adapter_json AdapterCargo = JString ''cargo''"
| "adapter_json AdapterMaven = JString ''maven''"
| "adapter_json AdapterDockerOci = JString ''docker-oci''"
| "adapter_json AdapterGenericHttp = JString ''generic-http''"

fun mode_json :: "PolicyMode \<Rightarrow> json" where
  "mode_json ModeShadow = JString ''shadow''"
| "mode_json ModeWarn = JString ''warn''"
| "mode_json ModeEnforce = JString ''enforce''"

fun decision_json :: "PolicyDecision \<Rightarrow> json" where
  "decision_json Allow = JString ''ALLOW''"
| "decision_json AllowWithWarning = JString ''ALLOW_WITH_WARNING''"
| "decision_json QuarantinePendingAnalysis = JString ''QUARANTINE_PENDING_ANALYSIS''"
| "decision_json BlockKnownMalicious = JString ''BLOCK_KNOWN_MALICIOUS''"
| "decision_json BlockPolicyViolation = JString ''BLOCK_POLICY_VIOLATION''"
| "decision_json RequireHitlApproval = JString ''REQUIRE_HITL_APPROVAL''"
| "decision_json FallbackToApprovedCandidate = JString ''FALLBACK_TO_APPROVED_CANDIDATE''"

definition SERVICE_NAME :: string where
  "SERVICE_NAME = ''mosquito-net''"

definition build_audit_event :: "uuid \<Rightarrow> string \<Rightarrow> string \<Rightarrow> string \<Rightarrow> metadata \<Rightarrow> AuditEvent" where
  "build_audit_event tenant_id trace_id action resource metadata =
     \<lparr>ae_tenant_id = tenant_id, ae_actor = SERVICE_NAME, ae_action = action, ae_resource = resource,
      ae_trace_id = trace_id, ae_metadata = metadata\<rparr>"

definition inbound_request_audit_event :: "proxy_lib \<Rightarrow> ResolvedRegistryConfig \<Rightarrow> string \<Rightarrow> AuditEvent" where
  "inbound_request_audit_event lib resolved trace_id =
     (let config = rv_config resolved in
      build_audit_event (rg_tenant_id config) trace_id ''proxy.request.received''
        (''registry-config/'' @ lib_show_uuid lib (rg_id config))
        [(''adapter'', adapter_json (rg_adapter config)), (''mode'', mode_json (rg_mode config)),
         (''mount_path'', JString (rg_mount_path config)),
         (''policy_profile_id'', JString (lib_show_uuid lib (rg_policy_profile_id config))),
         (''upstream_path'', JString (rv_upstream_path resolved))])"

definition final_request_audit_event ::
  "proxy_lib \<Rightarrow> ResolvedRegistryConfig \<Rightarrow> string \<Rightarrow> status \<Rightarrow> string \<Rightarrow> PolicyDecision option \<Rightarrow> bool \<Rightarrow> AuditEvent" where
  "final_request_audit_event lib resolved trace_id st outcome decision triage_unavailable =
     (let config = rv_config resolved in
      build_audit_event (rg_tenant_id config) trace_id ''proxy.request.completed''
        (''registry-config/'' @ lib_show_uuid lib (rg_id config))
        ([(''adapter'', adapter_json (rg_adapter config))]
         @ (case decision of Some d \<Rightarrow> [(''decision'', decision_json d)] | None \<Rightarrow> [])
         @ [(''mode'', mode_json (rg_mode config)), (''mount_path'', JString (rg_mount_path config)),
            (''outcome'', JString outcome), (''status_code'', JNumber (of_nat st)),
            (''triage_unavailable'', JBool triage_unavailable), (''upstream_path'', JString (rv_upstream_path resolved))]))"

text \<open>The emitted events are those that pass the metadata guard. That the repository may fail to
  store one is only logged by the code.\<close>

definition emit_proxy_audit_event :: "proxy_env \<Rightarrow> AuditEvent \<Rightarrow> unit px" where
  "emit_proxy_audit_event env event =
     (case validate_audit_metadata (pe_lower env) (ae_metadata event) of
        Inl _ \<Rightarrow> giving ()
      | Inr _ \<Rightarrow> changing (\<lambda>s. s\<lparr>px_audit_events := px_audit_events s @ [event]\<rparr>))"

section \<open>Responses\<close>

datatype response_body = EmptyBody | JsonBody json | BytesBody string

record http_response =
  hr_status :: status
  hr_headers :: header_map
  hr_body :: response_body

definition ADVISORY_HEADER :: string where
  "ADVISORY_HEADER = ''x-aegiscudo-advisory''"

definition TRACE_HEADER :: string where
  "TRACE_HEADER = ''x-aegiscudo-trace-id''"

text \<open>A header is set only if its value is a valid header value.\<close>

definition insert_if_valid :: "proxy_lib \<Rightarrow> string \<Rightarrow> string \<Rightarrow> header_map \<Rightarrow> header_map" where
  "insert_if_valid lib name value headers =
     (case lib_header_from_str lib value of Some v \<Rightarrow> header_insert name v headers | None \<Rightarrow> headers)"

definition with_common_headers :: "proxy_lib \<Rightarrow> http_response \<Rightarrow> string option \<Rightarrow> nat option \<Rightarrow> http_response" where
  "with_common_headers lib response trace_id retry_after =
     (let h1 = (case trace_id of
            Some t \<Rightarrow> insert_if_valid lib TRACE_HEADER t (hr_headers response) | None \<Rightarrow> hr_headers response);
          h2 = (case retry_after of
            Some r \<Rightarrow> insert_if_valid lib ''retry-after'' (show_nat r) h1 | None \<Rightarrow> h1)
      in response\<lparr>hr_headers := h2\<rparr>)"

definition status_response :: "proxy_lib \<Rightarrow> status \<Rightarrow> string option \<Rightarrow> http_response" where
  "status_response lib st trace_id =
     with_common_headers lib \<lparr>hr_status = st, hr_headers = [], hr_body = EmptyBody\<rparr> trace_id None"

definition advisory_header_value :: "proxy_lib \<Rightarrow> AdvisoryHeaderPayload \<Rightarrow> string" where
  "advisory_header_value lib advisory =
     lib_json_print lib (JObject [(''decision'', decision_json (ah_decision advisory)),
       (''trace_id'', JString (ah_trace_id advisory)), (''message'', JString (ah_message advisory))])"

definition json_response ::
  "proxy_lib \<Rightarrow> status \<Rightarrow> json \<Rightarrow> AdvisoryHeaderPayload option \<Rightarrow> string option \<Rightarrow> nat option \<Rightarrow> http_response" where
  "json_response lib st body advisory trace_id retry_after =
     (let headers = [(''content-type'', ''application/json'')];
          headers' = (case advisory of
            Some a \<Rightarrow> insert_if_valid lib ADVISORY_HEADER (advisory_header_value lib a) headers | None \<Rightarrow> headers)
      in with_common_headers lib \<lparr>hr_status = st, hr_headers = headers', hr_body = JsonBody body\<rparr>
           trace_id retry_after)"

definition advisory_payload :: "PolicyDecision \<Rightarrow> string \<Rightarrow> string \<Rightarrow> AdvisoryHeaderPayload" where
  "advisory_payload decision trace_id message = \<lparr>ah_decision = decision, ah_trace_id = trace_id, ah_message = message\<rparr>"

fun advisory_text :: "PolicyDecision \<Rightarrow> string" where
  "advisory_text Allow = ''Triage Counter allowed request''"
| "advisory_text AllowWithWarning = ''Triage Counter allowed request with warning''"
| "advisory_text FallbackToApprovedCandidate = ''Triage Counter selected an approved fallback candidate''"
| "advisory_text QuarantinePendingAnalysis = ''Triage Counter quarantined request pending analysis''"
| "advisory_text BlockKnownMalicious = ''Triage Counter blocked known malicious package''"
| "advisory_text BlockPolicyViolation = ''Triage Counter blocked policy violation''"
| "advisory_text RequireHitlApproval = ''Triage Counter requires human approval''"

definition advisory_message :: "DecisionResponse \<Rightarrow> string" where
  "advisory_message decision = advisory_text (rs_decision decision)"

definition error_body :: "string \<Rightarrow> PolicyDecision \<Rightarrow> string \<Rightarrow> json" where
  "error_body trace_id decision message =
     JObject [(''trace_id'', JString trace_id), (''decision'', decision_json decision), (''message'', JString message)]"

text \<open>The answer of the fail-open outage branch.\<close>

definition dispatch_body :: "proxy_lib \<Rightarrow> ResolvedRegistryConfig \<Rightarrow> string option \<Rightarrow> string \<Rightarrow> json" where
  "dispatch_body lib resolved normalized_name message =
     JObject [(''registry_config_id'', JString (lib_show_uuid lib (rg_id (rv_config resolved)))),
       (''mount_path'', JString (rg_mount_path (rv_config resolved))),
       (''adapter'', adapter_json (rg_adapter (rv_config resolved))),
       (''upstream_path'', JString (rv_upstream_path resolved)),
       (''normalized_name'', (case normalized_name of Some n \<Rightarrow> JString n | None \<Rightarrow> JNull)),
       (''triage_decision'', JNull), (''enforced'', JBool False), (''triage_unavailable'', JBool True),
       (''message'', JString message)]"

definition new_proxy_trace_id :: "proxy_lib \<Rightarrow> uuid \<Rightarrow> string" where
  "new_proxy_trace_id lib fresh = ''mn-'' @ lib_show_uuid lib fresh"

text \<open>The upstream response that is handed on: its status and body, the headers that are safe to copy,
  a rewritten location, and the proxy's own headers. Building it cannot fail.\<close>

definition passthrough_headers :: "proxy_lib \<Rightarrow> header_map \<Rightarrow> string \<Rightarrow> string \<Rightarrow> header_map" where
  "passthrough_headers lib upstream_headers mount_path proxy_base =
     (let headers = copy_safe_upstream_headers upstream_headers [] in
      case Option.bind (header_get ''location'' upstream_headers) (lib_header_to_str lib) of
        Some location \<Rightarrow> insert_if_valid lib ''location'' (rewrite_registry_url lib mount_path proxy_base location) headers
      | None \<Rightarrow> headers)"

definition build_upstream_response ::
  "proxy_lib \<Rightarrow> status \<Rightarrow> header_map \<Rightarrow> string \<Rightarrow> AdvisoryHeaderPayload \<Rightarrow> DecisionResponse \<Rightarrow> string \<Rightarrow> string \<Rightarrow> http_response" where
  "build_upstream_response lib st upstream_headers body advisory decision mount_path proxy_base =
     \<lparr>hr_status = st,
      hr_headers = insert_if_valid lib TRACE_HEADER (rs_trace_id decision)
        (insert_if_valid lib ADVISORY_HEADER (advisory_header_value lib advisory)
          (passthrough_headers lib upstream_headers mount_path proxy_base)),
      hr_body = BytesBody body\<rparr>"

definition build_passthrough_upstream_response ::
  "proxy_lib \<Rightarrow> status \<Rightarrow> header_map \<Rightarrow> string \<Rightarrow> string \<Rightarrow> string \<Rightarrow> string \<Rightarrow> http_response" where
  "build_passthrough_upstream_response lib st upstream_headers body trace_id mount_path proxy_base =
     \<lparr>hr_status = st,
      hr_headers = insert_if_valid lib TRACE_HEADER trace_id
        (passthrough_headers lib upstream_headers mount_path proxy_base),
      hr_body = BytesBody body\<rparr>"

end
