(* ===== verification/Proxy_Logic.thy ===== *)
theory Proxy_Logic
  imports Proxy_State
begin

text \<open>
  How properties of Mosquito Net's computations are proved. \<open>ensures I m R\<close> says that \<open>m\<close> keeps the
  invariant \<open>I\<close> of the state and that \<open>R\<close> holds of its result; \<open>frames p m\<close> says that it leaves the
  part \<open>p\<close> of the state alone, and \<open>silent m\<close> that it emits no audit event. All follow the structure of the computation; the rules are collected in \<open>ensures_intros\<close> and
  \<open>silent_intros\<close>. The invariant of the proxy says where the contents of its caches come from.
\<close>

section \<open>Running a computation\<close>

lemma run_effects [simp]:
  "run_state (giving a) s = (a, s)"
  "run_state (reading f) s = (f s, s)"
  "run_state (changing g) s = ((), g s)"
  by (simp_all add: giving_def reading_def changing_def)

lemma run_bind: "run_state (State_Monad.bind m f) s = run_state (f (fst (run_state m s))) (snd (run_state m s))"
  by (simp add: case_prod_unfold)

lemma run_trying:
  "run_state (trying m f) s =
     (case fst (run_state m s) of
        Inl e \<Rightarrow> (Inl e, snd (run_state m s))
      | Inr a \<Rightarrow> run_state (f a) (snd (run_state m s)))"
  by (simp add: trying_def case_prod_unfold split: sum.split)

section \<open>Invariants and results\<close>

named_theorems ensures_intros \<open>rules that derive ensures from the parts\<close>

definition ensures :: "(ProxyAppState \<Rightarrow> bool) \<Rightarrow> 'a px \<Rightarrow> ('a \<Rightarrow> bool) \<Rightarrow> bool" where
  "ensures I m R = (\<forall>s. I s \<longrightarrow> I (snd (run_state m s)) \<and> R (fst (run_state m s)))"

lemma ensuresD: "ensures I m R \<Longrightarrow> I s \<Longrightarrow> run_state m s = (a, s') \<Longrightarrow> I s' \<and> R a"
  unfolding ensures_def by (metis fst_conv snd_conv)

lemma ensures_weaken: "ensures I m R' \<Longrightarrow> (\<And>a. R' a \<Longrightarrow> R a) \<Longrightarrow> ensures I m R"
  unfolding ensures_def by blast

lemma ensures_bind: "ensures I m R' \<Longrightarrow> (\<And>a. R' a \<Longrightarrow> ensures I (f a) R) \<Longrightarrow> ensures I (State_Monad.bind m f) R"
  unfolding ensures_def run_bind by blast

lemma ensures_trying:
  assumes "ensures I m R'" and "\<And>e. R' (Inl e) \<Longrightarrow> R (Inl e)" and "\<And>a. R' (Inr a) \<Longrightarrow> ensures I (f a) R"
  shows "ensures I (trying m f) R"
  unfolding trying_def using assms by (intro ensures_bind) (auto simp: ensures_def split: sum.split)

lemma ensures_giving: "R a \<Longrightarrow> ensures I (giving a) R"
  by (simp add: ensures_def)

lemma ensures_reading: "(\<And>s. I s \<Longrightarrow> R (f s)) \<Longrightarrow> ensures I (reading f) R"
  by (simp add: ensures_def)

lemma ensures_changing: "(\<And>s. I s \<Longrightarrow> I (g s)) \<Longrightarrow> R () \<Longrightarrow> ensures I (changing g) R"
  by (simp add: ensures_def)

text \<open>When only the invariant matters, the rules need no intermediate result.\<close>

abbreviation keeps :: "(ProxyAppState \<Rightarrow> bool) \<Rightarrow> 'a px \<Rightarrow> bool" where
  "keeps I m \<equiv> ensures I m (\<lambda>_. True)"

lemma keeps_bind [ensures_intros]: "keeps I m \<Longrightarrow> (\<And>a. keeps I (f a)) \<Longrightarrow> keeps I (State_Monad.bind m f)"
  by (rule ensures_bind)

lemma keeps_trying [ensures_intros]: "keeps I m \<Longrightarrow> (\<And>a. keeps I (f a)) \<Longrightarrow> keeps I (trying m f)"
  by (rule ensures_trying)

lemma keeps_giving [ensures_intros]: "keeps I (giving a)"
  by (simp add: ensures_giving)

lemma keeps_reading [ensures_intros]: "keeps I (reading f)"
  by (simp add: ensures_reading)

lemma ensures_if [ensures_intros]:
  "(b \<Longrightarrow> ensures I m R) \<Longrightarrow> (\<not> b \<Longrightarrow> ensures I n R) \<Longrightarrow> ensures I (if b then m else n) R"
  by simp

lemma ensures_option [ensures_intros]:
  "(x = None \<Longrightarrow> ensures I m R) \<Longrightarrow> (\<And>a. x = Some a \<Longrightarrow> ensures I (f a) R)
     \<Longrightarrow> ensures I (case x of None \<Rightarrow> m | Some a \<Rightarrow> f a) R"
  by (cases x) simp_all

lemma ensures_sum [ensures_intros]:
  "(\<And>e. x = Inl e \<Longrightarrow> ensures I (g e) R) \<Longrightarrow> (\<And>a. x = Inr a \<Longrightarrow> ensures I (f a) R)
     \<Longrightarrow> ensures I (case x of Inl e \<Rightarrow> g e | Inr a \<Rightarrow> f a) R"
  by (cases x) simp_all

lemma ensures_prod [ensures_intros]:
  "(\<And>a b. x = (a, b) \<Longrightarrow> ensures I (f a b) R) \<Longrightarrow> ensures I (case x of (a, b) \<Rightarrow> f a b) R"
  by (cases x) simp_all

lemma ensures_Let [ensures_intros]: "(\<And>a. a = x \<Longrightarrow> ensures I (f a) R) \<Longrightarrow> ensures I (let a = x in f a) R"
  by simp

text \<open>What holds of the values of a fallible computation.\<close>

abbreviation returns :: "(ProxyAppState \<Rightarrow> bool) \<Rightarrow> ('e, 'a) result px \<Rightarrow> ('a \<Rightarrow> bool) \<Rightarrow> bool" where
  "returns I m P \<equiv> ensures I m (\<lambda>r. \<forall>a. r = Inr a \<longrightarrow> P a)"

lemma returns_trying [ensures_intros]:
  "keeps I m \<Longrightarrow> (\<And>a. returns I (f a) P) \<Longrightarrow> returns I (trying m f) P"
  by (rule ensures_trying) auto

lemma returns_trying_with: "returns I m P' \<Longrightarrow> (\<And>a. P' a \<Longrightarrow> returns I (f a) P) \<Longrightarrow> returns I (trying m f) P"
  by (rule ensures_trying, assumption) auto

lemma returns_bind [ensures_intros]:
  "keeps I m \<Longrightarrow> (\<And>a. returns I (f a) P) \<Longrightarrow> returns I (State_Monad.bind m f) P"
  by (rule ensures_bind)

lemma returns_giving: "(\<And>a. r = Inr a \<Longrightarrow> P a) \<Longrightarrow> returns I (giving r) P"
  by (simp add: ensures_giving)

lemma map_err_eq_Inr [simp]: "map_err g m = Inr a \<longleftrightarrow> m = Inr a"
  by (cases m) simp_all

lemma ok_or_eq_Inr [simp]: "ok_or e x = Inr a \<longleftrightarrow> x = Some a"
  by (cases x) simp_all

lemma res_ok_eq_Some [simp]: "res_ok m = Some a \<longleftrightarrow> m = Inr a"
  by (cases m) simp_all

section \<open>Parts of the state that do not change\<close>

named_theorems silent_intros \<open>rules that derive that a part of the state does not change\<close>

definition frames :: "(ProxyAppState \<Rightarrow> 'b) \<Rightarrow> 'a px \<Rightarrow> bool" where
  "frames part m = (\<forall>s. part (snd (run_state m s)) = part s)"

abbreviation silent :: "'a px \<Rightarrow> bool" where
  "silent \<equiv> frames px_audit_events"

lemma frames_bind [silent_intros]: "frames p m \<Longrightarrow> (\<And>a. frames p (f a)) \<Longrightarrow> frames p (State_Monad.bind m f)"
  unfolding frames_def run_bind by simp

lemma frames_trying [silent_intros]: "frames p m \<Longrightarrow> (\<And>a. frames p (f a)) \<Longrightarrow> frames p (trying m f)"
  unfolding frames_def run_trying by (simp split: sum.split)

lemma silent_giving [silent_intros]: "frames p (giving a)"
  by (simp add: frames_def)

lemma frames_reading [silent_intros]: "frames p (reading f)"
  by (simp add: frames_def)

lemma frames_changing [silent_intros]: "(\<And>s. p (g s) = p s) \<Longrightarrow> frames p (changing g)"
  by (simp add: frames_def)

lemma frames_if [silent_intros]: "frames p m \<Longrightarrow> frames p n \<Longrightarrow> frames p (if b then m else n)"
  by simp

lemma frames_option [silent_intros]:
  "frames p m \<Longrightarrow> (\<And>a. frames p (f a)) \<Longrightarrow> frames p (case x of None \<Rightarrow> m | Some a \<Rightarrow> f a)"
  by (cases x) simp_all

lemma frames_sum [silent_intros]:
  "(\<And>e. frames p (g e)) \<Longrightarrow> (\<And>a. frames p (f a)) \<Longrightarrow> frames p (case x of Inl e \<Rightarrow> g e | Inr a \<Rightarrow> f a)"
  by (cases x) simp_all

lemma frames_prod [silent_intros]: "(\<And>a b. frames p (f a b)) \<Longrightarrow> frames p (case x of (a, b) \<Rightarrow> f a b)"
  by (cases x) simp_all

lemma frames_Let [silent_intros]: "(\<And>a. frames p (f a)) \<Longrightarrow> frames p (let a = x in f a)"
  by simp

section \<open>The invariant of the proxy\<close>

text \<open>The Triage Counter answered a request with this decision.\<close>

definition answered :: "proxy_env \<Rightarrow> DecisionRequest \<Rightarrow> DecisionResponse \<Rightarrow> bool" where
  "answered env q d =
     (\<exists>n st. pe_triage env n q = Answered st (Inr d) \<and> is_success st \<and> rs_tenant_id d = rq_tenant_id q
        \<and> rs_policy_profile_id d = rq_policy_profile_id q \<and> rs_trace_id d = nr_trace_id (rq_request q))"

definition request_wf :: "DecisionRequest \<Rightarrow> bool" where
  "request_wf q = (\<forall>d. nr_requested_digest (rq_request q) = Some d \<longrightarrow> digest_wf d)"

definition triaged :: "proxy_env \<Rightarrow> string \<Rightarrow> DecisionResponse \<Rightarrow> bool" where
  "triaged env key d =
     (\<exists>q. request_wf q \<and> cache_key_for_decision (pe_lib env) q = key \<and> answered env q d)"

text \<open>An artifact stored under a digest has this digest and is not too large.\<close>

definition artifact_ok :: "proxy_lib \<Rightarrow> nat \<Rightarrow> string \<Rightarrow> string \<Rightarrow> bool" where
  "artifact_ok lib max_bytes digest_hex body =
     (length body \<le> max_bytes \<and> map_option dg_hex (res_ok (sha256_digest lib body)) = Some digest_hex)"

definition proxy_inv :: "proxy_env \<Rightarrow> RegistryConfigStore \<Rightarrow> nat \<Rightarrow> ProxyAppState \<Rightarrow> bool" where
  "proxy_inv env store max_bytes s =
     (px_registry_configs s = store \<and> px_max_artifact_bytes s = max_bytes
      \<and> (\<forall>key e. ch_decisions (px_caches s) key = Some e \<longrightarrow> triaged env key (pd_response e))
      \<and> (\<forall>digest_hex e. ch_artifact_by_digest (px_caches s) digest_hex = Some e \<longrightarrow>
           is_success (cu_status e) \<and> artifact_ok (pe_lib env) max_bytes digest_hex (cu_body e)))"

lemma proxy_inv_frame:
  assumes "px_registry_configs s' = px_registry_configs s" "px_max_artifact_bytes s' = px_max_artifact_bytes s"
    "ch_decisions (px_caches s') = ch_decisions (px_caches s)"
    "ch_artifact_by_digest (px_caches s') = ch_artifact_by_digest (px_caches s)"
    "proxy_inv env store M s"
  shows "proxy_inv env store M s'"
  using assms by (simp add: proxy_inv_def)

section \<open>Effects and caches\<close>

lemma silent_effects [silent_intros]:
  "silent (instant_now env)" "silent (observe metric)" "silent (send_upstream env request)"
  "silent (ask_triage env q)" "silent (observe_cache resolved cache event)"
  unfolding instant_now_def observe_def send_upstream_def ask_triage_def observe_cache_def
  by (intro silent_intros; simp)+

lemma silent_caches [silent_intros]:
  "silent (cache_deadline env ttl)" "silent (cached_decision env key)" "silent (cache_decision env resolved key d)"
  "silent (cached_metadata_response env key)" "silent (cache_metadata_response env resolved key st headers body)"
  "silent (cached_artifact_response env digest_hex)"
  "silent (cache_artifact_response env resolved key digest_hex st headers body)"
  unfolding cache_deadline_def cached_decision_def cache_decision_def cached_metadata_response_def
    cache_metadata_response_def cached_artifact_response_def cache_artifact_response_def
  by (intro silent_intros; simp)+

lemma keeps_changing_frame:
  assumes "\<And>s. px_registry_configs (g s) = px_registry_configs s" "\<And>s. px_max_artifact_bytes (g s) = px_max_artifact_bytes s"
    "\<And>s. ch_decisions (px_caches (g s)) = ch_decisions (px_caches s)"
    "\<And>s. ch_artifact_by_digest (px_caches (g s)) = ch_artifact_by_digest (px_caches s)"
  shows "keeps (proxy_inv env store M) (changing g)"
  by (rule ensures_changing) (use assms proxy_inv_frame in blast, simp)

lemma keeps_effects [ensures_intros]:
  "keeps (proxy_inv env store M) (instant_now env')"
  "keeps (proxy_inv env store M) (observe metric)"
  "keeps (proxy_inv env store M) (send_upstream env' request)"
  "keeps (proxy_inv env store M) (ask_triage env' q)"
  "keeps (proxy_inv env store M) (observe_cache resolved cache event)"
  "keeps (proxy_inv env store M) (emit_proxy_audit_event env' audit_event)"
  unfolding instant_now_def observe_def send_upstream_def ask_triage_def observe_cache_def
    emit_proxy_audit_event_def
  by (intro ensures_intros keeps_changing_frame; simp)+

lemma keeps_caches [ensures_intros]:
  "keeps (proxy_inv env store M) (cache_deadline env' ttl)"
  "keeps (proxy_inv env store M) (cached_decision env' key)"
  "keeps (proxy_inv env store M) (cached_metadata_response env' key)"
  "keeps (proxy_inv env store M) (cache_metadata_response env' resolved key st headers body)"
  "keeps (proxy_inv env store M) (cached_artifact_response env' digest_hex)"
  unfolding cache_deadline_def cached_decision_def cached_metadata_response_def
    cache_metadata_response_def cached_artifact_response_def
  by (intro ensures_intros keeps_changing_frame; simp)+

lemma frames_sent [silent_intros]:
  "frames px_sent (instant_now env)" "frames px_sent (observe metric)" "frames px_sent (observe_cache resolved cache event)"
  "frames px_sent (cache_artifact_response env resolved key digest_hex st headers body)"
  unfolding instant_now_def observe_def observe_cache_def cache_artifact_response_def cache_deadline_def
  by (intro silent_intros; simp)+

text \<open>The Triage Counter answers what it answers.\<close>

lemma ask_triage_answered:
  "ensures (proxy_inv env store M) (ask_triage env q) (\<lambda>r. \<forall>d. r = Inr d \<longrightarrow> answered env q d)"
proof -
  have "answered env q d" if "fst (client_evaluate client (\<lambda>i. pe_triage env (n + i) q) q) = Inr d" for client n d
  proof -
    from evaluate_loop_scan [of "tc_max_retries client" 0 _ "\<lambda>i. pe_triage env (n + i) q" q 0, OF refl]
    obtain k where "client_evaluate client (\<lambda>i. pe_triage env (n + i) q) q
        = (final_result q (pe_triage env (n + k)  q), Suc k)"
      unfolding client_evaluate_def by auto
    with that show ?thesis by (auto simp: answered_def final_result_Inr)
  qed
  moreover have "keeps (proxy_inv env store M) (ask_triage env q)" by (rule keeps_effects)
  ultimately show ?thesis
    unfolding ensures_def by (auto simp: ask_triage_def run_bind case_prod_unfold Let_def)
qed

lemma cached_decision_triaged:
  "ensures (proxy_inv env store M) (cached_decision env key) (\<lambda>o'. \<forall>d. o' = Some d \<longrightarrow> triaged env key d)"
  unfolding cached_decision_def
proof (rule ensures_bind [OF keeps_effects(1)], rule ensures_bind)
  show "ensures (proxy_inv env store M) (reading px_caches)
      (\<lambda>c. \<forall>key e. ch_decisions c key = Some e \<longrightarrow> triaged env key (pd_response e))"
    by (rule ensures_reading) (auto simp: proxy_inv_def)
qed (auto intro!: ensures_giving simp: decision_fetch_def opt_filter_def split: option.splits if_splits)

lemma cache_decision_keeps:
  assumes "triaged env key d"
  shows "keeps (proxy_inv env store M) (cache_decision env' resolved key d)"
  unfolding cache_decision_def
  by (intro ensures_intros ensures_changing)
    (use assms in \<open>auto simp: proxy_inv_def decision_store_def split: if_splits\<close>)

lemma cached_artifact_ok:
  "ensures (proxy_inv env store M) (cached_artifact_response env' digest_hex)
     (\<lambda>o'. \<forall>st h b. o' = Some (st, h, b) \<longrightarrow> is_success st \<and> artifact_ok (pe_lib env) M digest_hex b)"
  unfolding cached_artifact_response_def
proof (rule ensures_bind [OF keeps_effects(1)], rule ensures_bind)
  show "ensures (proxy_inv env store M) (reading px_caches)
      (\<lambda>c. \<forall>k e. ch_artifact_by_digest c k = Some e \<longrightarrow> is_success (cu_status e) \<and> artifact_ok (pe_lib env) M k (cu_body e))"
    by (rule ensures_reading) (auto simp: proxy_inv_def)
qed (auto intro!: ensures_giving simp: response_fetch_def opt_filter_def split: option.splits if_splits)

lemma cache_artifact_keeps:
  assumes "artifact_ok (pe_lib env) M digest_hex body"
  shows "keeps (proxy_inv env store M) (cache_artifact_response env' resolved key digest_hex st headers body)"
  unfolding cache_artifact_response_def
  by (intro ensures_intros ensures_changing)
    (use assms in \<open>auto simp: proxy_inv_def response_store_def split: if_splits\<close>)

end
