(* ===== verification/Artifact_Fetch.thy ===== *)
theory Artifact_Fetch
  imports Proxy_Logic
begin

text \<open>
  How Mosquito Net fetches artifacts, \<^verbatim>\<open>services/mosquito-net/src/lib.rs\<close>: the checksum a Cargo index
  announces, the download that follows Cargo redirects to permitted origins only, the sidecar checksums
  of Maven, and \<^verbatim>\<open>fetch_upstream_artifact\<close>, which runs before the Triage Counter is asked so that the
  decision is about the digest of the bytes at hand.
\<close>

section \<open>Requests\<close>

record PrefetchedArtifact =
  pf_status :: status
  pf_headers :: header_map
  pf_body :: string
  pf_digest :: "ArtifactDigest option"

definition is_redirection :: "status \<Rightarrow> bool" where
  "is_redirection s = (300 \<le> s \<and> s < 400)"

text \<open>A GET request to the upstream with the credentials of the registry.\<close>

definition get_upstream ::
  "proxy_env \<Rightarrow> ResolvedRegistryConfig \<Rightarrow> url \<Rightarrow> (UpstreamProxyError, upstream_response) result px" where
  "get_upstream env resolved u =
     trying (giving (inject_upstream_credentials (pe_lib env) (upstream_client resolved ''GET'' u) resolved))
       (send_upstream env)"

definition response_bytes :: "upstream_response \<Rightarrow> (UpstreamProxyError, string) result" where
  "response_bytes response = map_err ProxyBody (us_body response)"

section \<open>Cargo\<close>

text \<open>The index path of a crate is defined for every canonical name; the code would panic otherwise.\<close>

definition fetch_cargo_expected_digest ::
  "proxy_env \<Rightarrow> ResolvedRegistryConfig \<Rightarrow> PackageCoordinate \<Rightarrow> (UpstreamProxyError, ArtifactDigest) result px" where
  "fetch_cargo_expected_digest env resolved coordinate =
     trying (giving (ok_or InvalidCargoRegistryConfig (pc_version coordinate))) (\<lambda>version.
       let sparse_path = the (cargo_sparse_index_path (pc_name coordinate));
           cache_key = lib_show_uuid (pe_lib env) (rg_id (rv_config resolved)) @ '':'' @ sparse_path
       in do {
         cached \<leftarrow> cached_metadata_response env cache_key;
         trying
           (case cached of
              Some (st, _, body) \<Rightarrow>
                giving (if is_success st then Inr body else Inl InvalidCargoArtifactDigest)
            | None \<Rightarrow>
                trying (giving (upstream_request_url (pe_lib env) (rg_upstream_url (rv_config resolved)) sparse_path)) (\<lambda>u.
                trying (get_upstream env resolved u) (\<lambda>response.
                trying (giving (response_bytes response)) (\<lambda>body. do {
                  cache_metadata_response env resolved cache_key (us_status response) (us_headers response) body;
                  giving (if is_success (us_status response) then Inr body else Inl InvalidCargoArtifactDigest)
                }))))
           (\<lambda>body. giving (cargo_sparse_expected_digest_for_version (pe_lib env) body (pc_name coordinate) version))
       })"

definition MAX_CARGO_DOWNLOAD_REDIRECTS :: nat where
  "MAX_CARGO_DOWNLOAD_REDIRECTS = 4"

text \<open>The loop over the redirects; its first argument counts the requests that are left.\<close>

primrec cargo_redirect_loop ::
  "nat \<Rightarrow> proxy_env \<Rightarrow> ResolvedRegistryConfig \<Rightarrow> url \<Rightarrow> (UpstreamProxyError, upstream_response) result px" where
  "cargo_redirect_loop 0 env resolved current_url = giving (Inl UnsupportedCargoDownloadRedirect)"
| "cargo_redirect_loop (Suc n) env resolved current_url =
     trying (giving (cargo_download_uses_primary_origin (pe_lib env) (rg_upstream_url (rv_config resolved)) current_url)) (\<lambda>primary.
     trying (giving (let request = upstream_client resolved ''GET'' current_url in
         if primary then inject_upstream_credentials (pe_lib env) request resolved else Inr request)) (\<lambda>request.
     trying (send_upstream env request) (\<lambda>response.
       if \<not> is_redirection (us_status response) then giving (Inr response)
       else
         trying (giving (ok_or UnsupportedCargoDownloadRedirect
             (Option.bind (header_get ''location'' (us_headers response)) (lib_header_to_str (pe_lib env))))) (\<lambda>location.
         trying (giving (ok_or UnsupportedCargoDownloadRedirect (lib_join_url (pe_lib env) current_url location))) (\<lambda>next_url.
         trying (giving (cargo_download_origin_allowed (pe_lib env) (rg_upstream_url (rv_config resolved))
             (rg_cargo_allowed_download_origins (rv_config resolved)) next_url)) (\<lambda>allowed.
           if \<not> allowed then giving (Inl UnsupportedCargoDownloadRedirect)
           else cargo_redirect_loop n env resolved next_url))))))"

definition fetch_cargo_download_response ::
  "proxy_env \<Rightarrow> ResolvedRegistryConfig \<Rightarrow> url \<Rightarrow> (UpstreamProxyError, upstream_response) result px" where
  "fetch_cargo_download_response env resolved initial_url =
     cargo_redirect_loop (Suc MAX_CARGO_DOWNLOAD_REDIRECTS) env resolved initial_url"

section \<open>Maven\<close>

definition maven_sha256_hex :: "proxy_lib \<Rightarrow> string \<Rightarrow> string" where
  "maven_sha256_hex lib bytes = lib_hex_encode lib (lib_sha256 lib bytes)"

definition maven_sha1_hex :: "proxy_lib \<Rightarrow> string \<Rightarrow> string" where
  "maven_sha1_hex lib bytes = lib_hex_encode lib (lib_sha1 lib bytes)"

text \<open>The checksum a sidecar file holds, if it is well formed: its first word in lower case.\<close>

definition sidecar_checksum :: "proxy_env \<Rightarrow> string \<Rightarrow> string \<Rightarrow> string option" where
  "sidecar_checksum env sfx sidecar_bytes =
     (let expected = pe_lower env (unwrap_or [] (first_word (str_trim (from_utf8_lossy sidecar_bytes))));
          expected_len = (if sfx = ''.sha256'' then 64 else 40)
      in if expected = [] \<or> length expected \<noteq> expected_len \<or> \<not> list_all is_ascii_hexdigit expected then None
         else Some expected)"

fun verify_sidecars ::
  "proxy_env \<Rightarrow> ResolvedRegistryConfig \<Rightarrow> string \<Rightarrow> (string \<times> (string \<Rightarrow> string)) list
     \<Rightarrow> (UpstreamProxyError, unit) result px" where
  "verify_sidecars env resolved artifact_body [] = giving (Inr ())"
| "verify_sidecars env resolved artifact_body ((sfx, compute) # candidates) =
     trying (giving (upstream_request_url (pe_lib env) (rg_upstream_url (rv_config resolved))
         (rv_upstream_path resolved @ sfx))) (\<lambda>sidecar_url.
     trying (giving (inject_upstream_credentials (pe_lib env) (upstream_client resolved ''GET'' sidecar_url) resolved)) (\<lambda>request.
       do {
         answer \<leftarrow> send_upstream env request;
         case Option.bind (Option.bind (opt_filter (\<lambda>r. is_success (us_status r)) (res_ok answer))
             (\<lambda>r. res_ok (us_body r))) (sidecar_checksum env sfx) of
           None \<Rightarrow> verify_sidecars env resolved artifact_body candidates
         | Some expected \<Rightarrow>
             giving (if compute artifact_body \<noteq> expected then Inl MavenChecksumMismatch else Inr ())
       }))"

definition verify_maven_checksum ::
  "proxy_env \<Rightarrow> ResolvedRegistryConfig \<Rightarrow> string \<Rightarrow> (UpstreamProxyError, unit) result px" where
  "verify_maven_checksum env resolved artifact_body =
     verify_sidecars env resolved artifact_body
       [(''.sha256'', maven_sha256_hex (pe_lib env)), (''.sha1'', maven_sha1_hex (pe_lib env))]"

section \<open>Artifacts\<close>

definition artifact_upstream_url ::
  "proxy_lib \<Rightarrow> string \<Rightarrow> ResolvedRegistryConfig \<Rightarrow> string option \<Rightarrow> (UpstreamProxyError, url) result" where
  "artifact_upstream_url lib key resolved query =
     (let config = rv_config resolved in
      if rg_adapter config = AdapterGenericHttp
      then upstream_request_url_with_query lib (rg_upstream_url config) (rv_upstream_path resolved) query
      else adapter_upstream_request_url lib key (rg_id config) (rg_adapter config) (rg_upstream_url config)
             (rg_cargo_allowed_download_origins config) (rv_upstream_path resolved))"

definition cargo_expected_digest ::
  "proxy_env \<Rightarrow> ResolvedRegistryConfig \<Rightarrow> (UpstreamProxyError, ArtifactDigest option) result px" where
  "cargo_expected_digest env resolved =
     (if rg_adapter (rv_config resolved) = AdapterCargo then
        trying (giving (map_err (\<lambda>_. InvalidCargoRegistryConfig)
            (cargo_request_context (lib_semver_ok (pe_lib env)) (rv_upstream_path resolved)))) (\<lambda>(_, coordinate, _).
        trying (fetch_cargo_expected_digest env resolved coordinate) (\<lambda>digest. giving (Inr (Some digest))))
      else giving (Inr None))"

text \<open>The lookup by path and then by digest, which must be the announced one.\<close>

definition cached_artifact ::
  "proxy_env \<Rightarrow> string \<Rightarrow> ArtifactDigest option \<Rightarrow> (string \<times> status \<times> header_map \<times> string) option px" where
  "cached_artifact env cache_key expected = do {
     caches \<leftarrow> reading px_caches;
     case opt_filter (\<lambda>digest_hex. is_none_or (\<lambda>e. dg_hex e = digest_hex) expected)
         (ch_artifact_digest_by_path caches cache_key) of
       None \<Rightarrow> giving None
     | Some digest_hex \<Rightarrow> do {
         cached \<leftarrow> cached_artifact_response env digest_hex;
         giving (map_option (\<lambda>entry. (digest_hex, entry)) cached)
       }
   }"

definition download_artifact ::
  "proxy_env \<Rightarrow> ResolvedRegistryConfig \<Rightarrow> string \<Rightarrow> url \<Rightarrow> ArtifactDigest option
     \<Rightarrow> (UpstreamProxyError, PrefetchedArtifact) result px" where
  "download_artifact env resolved cache_key upstream_url expected =
     (let config = rv_config resolved in
      trying (if rg_adapter config = AdapterCargo then fetch_cargo_download_response env resolved upstream_url
              else get_upstream env resolved upstream_url) (\<lambda>response. do {
        max_artifact_bytes \<leftarrow> reading px_max_artifact_bytes;
        let st = us_status response;
        let headers = us_headers response;
        trying (giving (enforce_artifact_size_limit (pe_lib env) max_artifact_bytes headers None)) (\<lambda>_.
        trying (giving (response_bytes response)) (\<lambda>body.
        trying (giving (enforce_artifact_size_limit (pe_lib env) max_artifact_bytes headers (Some (length body)))) (\<lambda>_. do {
          observe (ObserveUpstream (rg_tenant_id config) (rg_id config) (rg_adapter config) ''artifact'' st);
          if rg_adapter config = AdapterCargo \<and> \<not> is_success st
          then giving (Inr \<lparr>pf_status = st, pf_headers = headers, pf_body = body, pf_digest = None\<rparr>)
          else
            trying (giving (map_err ProxyDigest (sha256_digest (pe_lib env) body))) (\<lambda>computed.
            trying (giving (case expected of
                Some e \<Rightarrow> if dg_hex computed \<noteq> dg_hex e then Inl InvalidCargoArtifactDigest else Inr e
              | None \<Rightarrow> Inr computed)) (\<lambda>digest.
            trying (if rg_adapter config = AdapterMaven
                \<and> map_option fst (res_ok (maven_request_context (rv_upstream_path resolved))) = Some KindArtifact
              then verify_maven_checksum env resolved body else giving (Inr ())) (\<lambda>_. do {
              cache_artifact_response env resolved cache_key (dg_hex digest) st
                (if rg_adapter config = AdapterGenericHttp then redact_sensitive_upstream_headers headers else headers) body;
              giving (Inr \<lparr>pf_status = st, pf_headers = headers, pf_body = body, pf_digest = Some digest\<rparr>)
            })))
        })))
      }))"

definition fetch_upstream_artifact ::
  "proxy_env \<Rightarrow> ResolvedRegistryConfig \<Rightarrow> string option \<Rightarrow> (UpstreamProxyError, PrefetchedArtifact) result px" where
  "fetch_upstream_artifact env resolved query = do {
     key \<leftarrow> reading px_cargo_download_mac_key;
     let cache_key = cache_key_for_upstream (pe_lib env) resolved query;
     trying (giving (artifact_upstream_url (pe_lib env) key resolved query)) (\<lambda>upstream_url.
     trying (cargo_expected_digest env resolved) (\<lambda>expected. do {
       hit \<leftarrow> cached_artifact env cache_key expected;
       case hit of
         Some (digest_hex, st, headers, body) \<Rightarrow> do {
           observe_cache resolved ''artifact'' ''hit'';
           giving (res_bind (case expected of
                Some e \<Rightarrow> Inr e | None \<Rightarrow> map_err ProxyDigest (digest_sha256 digest_hex)) (\<lambda>digest.
             Inr \<lparr>pf_status = st, pf_headers = headers, pf_body = body, pf_digest = Some digest\<rparr>))
         }
       | None \<Rightarrow> do {
           observe_cache resolved ''artifact'' ''miss'';
           download_artifact env resolved cache_key upstream_url expected
         }
     }))
   }"

section \<open>Lemmas\<close>

lemma silent_get_upstream [silent_intros]: "silent (get_upstream env resolved u)"
  unfolding get_upstream_def by (intro silent_intros)

lemma keeps_get_upstream [ensures_intros]: "keeps (proxy_inv env store M) (get_upstream env' resolved u)"
  unfolding get_upstream_def by (intro ensures_intros)

lemma silent_fetch_cargo_expected_digest [silent_intros]: "silent (fetch_cargo_expected_digest env resolved c)"
  unfolding fetch_cargo_expected_digest_def by (intro silent_intros)

lemma silent_cargo_redirect_loop [silent_intros]: "silent (cargo_redirect_loop n env resolved u)"
  by (induction n arbitrary: u) (simp, intro silent_intros, simp only: cargo_redirect_loop.simps, intro silent_intros)

lemma keeps_cargo_redirect_loop [ensures_intros]:
  "keeps (proxy_inv env store M) (cargo_redirect_loop n env' resolved u)"
proof (induction n arbitrary: u)
  case 0
  show ?case by (simp add: ensures_giving)
next
  case (Suc n)
  show ?case unfolding cargo_redirect_loop.simps by (intro ensures_intros Suc.IH)
qed

lemma silent_verify_sidecars [silent_intros]: "silent (verify_sidecars env resolved body candidates)"
proof (induction candidates)
  case Nil
  show ?case by (simp add: silent_giving)
next
  case (Cons c cs)
  show ?case by (cases c) (simp only: verify_sidecars.simps, intro silent_intros Cons.IH)
qed

lemma keeps_verify_sidecars [ensures_intros]:
  "keeps (proxy_inv env store M) (verify_sidecars env' resolved body candidates)"
proof (induction candidates)
  case Nil
  show ?case by (simp add: ensures_giving)
next
  case (Cons c cs)
  show ?case by (cases c) (simp only: verify_sidecars.simps, intro ensures_intros Cons.IH)
qed

lemma silent_fetch_upstream_artifact [silent_intros]: "silent (fetch_upstream_artifact env resolved query)"
  unfolding fetch_upstream_artifact_def cargo_expected_digest_def cached_artifact_def download_artifact_def
    fetch_cargo_download_response_def verify_maven_checksum_def
  by (intro silent_intros)

lemma keeps_fetch_cargo_download [ensures_intros]:
  "keeps (proxy_inv env store M) (fetch_cargo_download_response env' resolved u)"
  "keeps (proxy_inv env store M) (verify_maven_checksum env' resolved body)"
  unfolding fetch_cargo_download_response_def verify_maven_checksum_def by (intro ensures_intros)+

text \<open>The digest a Cargo index announces is well formed.\<close>

lemma cargo_sparse_entry_digest: "cargo_sparse_entry lib entry = Inr (n, v, d) \<Longrightarrow> digest_wf d"
  by (auto simp: cargo_sparse_entry_def digest_sha256_def res_bind_eq_Inr split: if_splits dest!: digest_new_wf)

lemma cargo_digest_scan_wf: "cargo_digest_scan lib n v ls = Inr d \<Longrightarrow> digest_wf d"
  by (induction ls) (auto simp: res_bind_eq_Inr split: if_splits dest: cargo_sparse_entry_digest)

lemma fetch_cargo_expected_digest_wf:
  "returns (proxy_inv env store M) (fetch_cargo_expected_digest env' resolved c) digest_wf"
  unfolding fetch_cargo_expected_digest_def
  by (intro ensures_intros returns_giving)
    (auto simp: cargo_sparse_expected_digest_for_version_def split: if_splits dest: cargo_digest_scan_wf)

lemma cargo_expected_digest_wf:
  "returns (proxy_inv env store M) (cargo_expected_digest env' resolved)
     (\<lambda>expected. (\<forall>d. expected = Some d \<longrightarrow> digest_wf d) \<and> (expected \<noteq> None \<longleftrightarrow> rg_adapter (rv_config resolved) = AdapterCargo))"
  unfolding cargo_expected_digest_def
  by (intro ensures_if returns_trying keeps_giving ensures_prod returns_trying_with [OF fetch_cargo_expected_digest_wf]
      returns_giving) auto

text \<open>An artifact at hand: it is within the limit and its digest, which is what the Triage Counter will be
  asked about, is the hash of its bytes. Only an unsuccessful Cargo download has no digest.\<close>

definition prefetched_ok :: "proxy_env \<Rightarrow> nat \<Rightarrow> ResolvedRegistryConfig \<Rightarrow> PrefetchedArtifact \<Rightarrow> bool" where
  "prefetched_ok env M resolved pf =
     (case pf_digest pf of
        Some d \<Rightarrow> digest_wf d \<and> artifact_ok (pe_lib env) M (dg_hex d) (pf_body pf)
      | None \<Rightarrow> rg_adapter (rv_config resolved) = AdapterCargo \<and> \<not> is_success (pf_status pf))"

lemma cached_artifact_ok_by_path:
  "ensures (proxy_inv env store M) (cached_artifact env key expected)
     (\<lambda>hit. \<forall>digest_hex st h b. hit = Some (digest_hex, st, h, b) \<longrightarrow>
        artifact_ok (pe_lib env) M digest_hex b \<and> is_none_or (\<lambda>e. dg_hex e = digest_hex) expected)"
  unfolding cached_artifact_def
  by (rule ensures_bind [OF keeps_reading], rule ensures_option, simp add: ensures_giving,
      rule ensures_bind [OF cached_artifact_ok], rule ensures_giving)
    (auto simp: opt_filter_def split: option.splits if_splits)

lemma digest_sha256_of_hex:
  assumes "digest_sha256 h = Inr d" "artifact_ok lib M h b"
  shows "digest_wf d \<and> dg_hex d = h"
proof -
  from assms(2) obtain dd where "digest_new Sha256 (lib_hex_encode lib (lib_sha256 lib b)) = Inr dd" and h: "h = dg_hex dd"
    by (auto simp: artifact_ok_def sha256_digest_def digest_sha256_def)
  then have "digest_wf dd" by (blast dest: digest_new_wf)
  then have "to_ascii_lowercase h = h" by (auto simp: h digest_wf_def list_all_iff to_ascii_lowercase_id)
  moreover have "digest_wf d" using assms(1) digest_new_wf by (simp add: digest_sha256_def)
  ultimately show ?thesis using assms(1) by (simp add: digest_sha256_def digest_new_Inr)
qed

lemma size_limit_ok: "enforce_artifact_size_limit lib M headers (Some n) = Inr a \<Longrightarrow> n \<le> M"
  by (auto simp: enforce_artifact_size_limit_def Let_def split: if_splits)

lemma download_artifact_ok:
  assumes wf: "\<forall>d. expected = Some d \<longrightarrow> digest_wf d"
    and cargo: "expected \<noteq> None \<longleftrightarrow> rg_adapter (rv_config resolved) = AdapterCargo"
  shows "returns (proxy_inv env store M) (download_artifact env resolved key u expected) (prefetched_ok env M resolved)"
proof -
  let ?I = "proxy_inv env store M"
  have max: "ensures ?I (reading px_max_artifact_bytes) (\<lambda>m. m = M)"
    by (rule ensures_reading) (simp add: proxy_inv_def)
  have ok: "artifact_ok (pe_lib env) M (dg_hex digest) body \<and> digest_wf digest"
    if "length body \<le> M" "sha256_digest (pe_lib env) body = Inr computed"
      "(case expected of Some e \<Rightarrow> if dg_hex computed \<noteq> dg_hex e then Inl InvalidCargoArtifactDigest else Inr e
         | None \<Rightarrow> Inr computed) = Inr digest" for body computed digest
    using that wf digest_new_wf
    by (auto simp: artifact_ok_def sha256_digest_def digest_sha256_def split: option.splits if_splits)
  show ?thesis
    unfolding download_artifact_def Let_def
    apply (rule returns_trying)
     apply (intro ensures_intros)
    apply (rule ensures_bind [OF max])
    apply (rule returns_trying [OF keeps_giving])
    apply (rule returns_trying [OF keeps_giving])
    subgoal for response m _ body
      apply (rule returns_trying_with [of _ _ "\<lambda>_. length body \<le> M"])
       apply (rule returns_giving)
       apply (use size_limit_ok in blast)
      apply (rule returns_bind [OF keeps_effects(2)])
      apply (rule ensures_if)
       apply (rule returns_giving)
       apply (auto simp: prefetched_ok_def) []
      apply (rule returns_trying_with [of _ _ "\<lambda>c. sha256_digest (pe_lib env) body = Inr c"])
       apply (rule returns_giving, simp)
      apply (rule returns_trying_with [of _ _ "\<lambda>d. artifact_ok (pe_lib env) M (dg_hex d) body \<and> digest_wf d"])
       apply (rule returns_giving)
       apply (use ok in blast)
      apply (rule returns_trying)
       apply (intro ensures_intros)
      apply (rule returns_bind [OF cache_artifact_keeps])
       apply blast
      apply (rule returns_giving)
      apply (auto simp: prefetched_ok_def)
      done
    done
qed

lemma fetch_upstream_artifact_ok:
  "returns (proxy_inv env store M) (fetch_upstream_artifact env resolved query) (prefetched_ok env M resolved)"
  unfolding fetch_upstream_artifact_def
  apply (rule returns_bind [OF keeps_reading])
  apply (rule ensures_Let)
  apply (rule returns_trying [OF keeps_giving])
  apply (rule returns_trying_with [OF cargo_expected_digest_wf])
  apply (rule ensures_bind [OF cached_artifact_ok_by_path])
  apply (rule ensures_option)
   apply (rule returns_bind [OF keeps_effects(5)])
   apply (rule download_artifact_ok; blast)
  apply (intro ensures_prod returns_bind [OF keeps_effects(5)] returns_giving)
  apply (auto simp: res_bind_eq_Inr prefetched_ok_def split: option.splits dest: digest_sha256_of_hex)
  done

section \<open>Where Cargo downloads go\<close>

text \<open>A request of a Cargo download: its origin is permitted, and it carries the registry's credentials only
  if its origin is the upstream itself.\<close>

definition cargo_request_confined :: "proxy_lib \<Rightarrow> ResolvedRegistryConfig \<Rightarrow> upstream_request \<Rightarrow> bool" where
  "cargo_request_confined lib resolved request =
     (cargo_origin_permitted lib (rg_upstream_url (rv_config resolved))
        (rg_cargo_allowed_download_origins (rv_config resolved)) (ur_url request)
      \<and> (header_get ''authorization'' (ur_headers request) \<noteq> None \<longrightarrow>
           cargo_download_uses_primary_origin lib (rg_upstream_url (rv_config resolved)) (ur_url request) = Inr True))"

text \<open>A computation that sends at most so many requests, all of a kind.\<close>

definition sends :: "(upstream_request \<Rightarrow> bool) \<Rightarrow> nat \<Rightarrow> 'a px \<Rightarrow> bool" where
  "sends P k m = (\<forall>s. \<exists>rs. px_sent (snd (run_state m s)) = px_sent s @ rs \<and> length rs \<le> k \<and> (\<forall>r \<in> set rs. P r))"

lemma sends_giving: "sends P k (giving a)"
  by (simp add: sends_def)

lemma sends_send_upstream: "P request \<Longrightarrow> sends P 1 (send_upstream env request)"
  by (simp add: sends_def send_upstream_def run_bind)

lemma sends_trying_giving: "(\<And>a. r = Inr a \<Longrightarrow> sends P k (f a)) \<Longrightarrow> sends P k (trying (giving r) f)"
  by (cases r) (simp_all add: sends_def run_trying)

lemma sends_trying:
  assumes "sends P 1 m" and f: "\<And>a. sends P k (f a)"
  shows "sends P (Suc k) (trying m f)"
  unfolding sends_def
proof
  fix s
  obtain r s1 where m: "run_state m s = (r, s1)" by (cases "run_state m s")
  with assms(1) obtain rs where rs: "px_sent s1 = px_sent s @ rs" "length rs \<le> 1" "\<forall>r \<in> set rs. P r"
    unfolding sends_def by (metis snd_conv)
  show "\<exists>rs. px_sent (snd (run_state (trying m f) s)) = px_sent s @ rs \<and> length rs \<le> Suc k \<and> (\<forall>r \<in> set rs. P r)"
  proof (cases r)
    case (Inl e)
    with m rs show ?thesis by (intro exI [of _ rs]) (simp add: run_trying)
  next
    case (Inr a)
    from f [of a] obtain rs' where "px_sent (snd (run_state (f a) s1)) = px_sent s1 @ rs'"
      "length rs' \<le> k" "\<forall>r \<in> set rs'. P r" unfolding sends_def by blast
    with m rs Inr show ?thesis by (intro exI [of _ "rs @ rs'"]) (auto simp: run_trying)
  qed
qed

lemma inject_keeps_url: "inject_upstream_credentials lib request resolved = Inr request' \<Longrightarrow> ur_url request' = ur_url request"
  by (auto simp: inject_upstream_credentials_def res_bind_eq_Inr split: CredentialAuthType.splits)

lemma cargo_redirect_loop_sends:
  assumes "cargo_origin_permitted (pe_lib env) (rg_upstream_url (rv_config resolved))
      (rg_cargo_allowed_download_origins (rv_config resolved)) u"
  shows "sends (cargo_request_confined (pe_lib env) resolved) n (cargo_redirect_loop n env resolved u)"
  using assms
proof (induction n arbitrary: u)
  case 0
  show ?case by (simp add: sends_giving)
next
  case (Suc n)
  have confined: "cargo_request_confined (pe_lib env) resolved request"
    if "cargo_download_uses_primary_origin (pe_lib env) (rg_upstream_url (rv_config resolved)) u = Inr primary"
      "(let request = upstream_client resolved ''GET'' u in
         if primary then inject_upstream_credentials (pe_lib env) request resolved else Inr request) = Inr request"
    for primary request
  proof (cases primary)
    case True
    with that have "ur_url request = u" by (auto simp: Let_def upstream_client_def dest: inject_keeps_url)
    with that True Suc.prems show ?thesis by (simp add: cargo_request_confined_def)
  next
    case False
    with that Suc.prems show ?thesis
      by (auto simp: cargo_request_confined_def upstream_client_def header_get_def Let_def)
  qed
  have follow: "sends (cargo_request_confined (pe_lib env) resolved) n
      (if \<not> allowed then giving (Inl UnsupportedCargoDownloadRedirect) else cargo_redirect_loop n env resolved next_url)"
    if "cargo_download_origin_allowed (pe_lib env) (rg_upstream_url (rv_config resolved))
        (rg_cargo_allowed_download_origins (rv_config resolved)) next_url = Inr allowed" for allowed next_url
    using that Suc.IH cargo_download_origin_allowed_iff by (cases allowed) (auto simp: sends_giving)
  show ?case
    unfolding cargo_redirect_loop.simps
    apply (rule sends_trying_giving, rule sends_trying_giving)
    apply (rule sends_trying)
     apply (rule sends_send_upstream)
     apply (rule confined; assumption)
    apply (auto intro!: sends_giving sends_trying_giving follow)
    done
qed

section \<open>Properties\<close>

text \<open>C16: a Cargo download stays where it may go. Following the redirects of a download that starts at a
  permitted origin ends after at most five requests, every one of them to the upstream or to an origin on
  the registry's list, and the credentials of the registry go to the upstream's own origin only.\<close>

theorem cargo_redirects_confined:
  assumes "cargo_origin_permitted (pe_lib env) (rg_upstream_url (rv_config resolved))
      (rg_cargo_allowed_download_origins (rv_config resolved)) u"
    and "run_state (fetch_cargo_download_response env resolved u) s = (r, s')"
  shows "\<exists>rs. px_sent s' = px_sent s @ rs \<and> length rs \<le> 5
    \<and> list_all (cargo_request_confined (pe_lib env) resolved) rs"
proof -
  have "sends (cargo_request_confined (pe_lib env) resolved) 5 (fetch_cargo_download_response env resolved u)"
    using cargo_redirect_loop_sends [OF assms(1), of "Suc 4"]
    by (simp add: fetch_cargo_download_response_def MAX_CARGO_DOWNLOAD_REDIRECTS_def)
  with assms(2) show ?thesis unfolding sends_def list_all_iff by (metis snd_conv)
qed

definition crates_resolved :: ResolvedRegistryConfig where
  "crates_resolved = \<lparr>rv_config = (sample_config 1 ''/crates'')\<lparr>rg_adapter := AdapterCargo,
     rg_upstream_url := ''https://index.crates.io/''\<rparr>, rv_upstream_path = ''se/rd/serde''\<rparr>"

theorem cargo_redirects_confined_witness:
  "\<forall>env s. \<exists>rs. px_sent (snd (run_state (fetch_cargo_download_response (env\<lparr>pe_lib := sample_lib\<rparr>) crates_resolved
       (plain_url ''/serde'')) s)) = px_sent s @ rs \<and> length rs \<le> 5
     \<and> list_all (cargo_request_confined sample_lib crates_resolved) rs"
proof (intro allI)
  fix env :: proxy_env and s :: ProxyAppState
  have "cargo_origin_permitted sample_lib ''https://index.crates.io/'' [] (plain_url ''/serde'')"
    by (simp add: cargo_origin_permitted_def validated_cargo_upstream_base_def validate_cargo_download_url_def
        same_origin_url_def sample_lib_def plain_url_def with_directory_path_def ends_with_def strip_suffix_def)
  then show "\<exists>rs. px_sent (snd (run_state (fetch_cargo_download_response (env\<lparr>pe_lib := sample_lib\<rparr>) crates_resolved
       (plain_url ''/serde'')) s)) = px_sent s @ rs \<and> length rs \<le> 5
     \<and> list_all (cargo_request_confined sample_lib crates_resolved) rs"
    using cargo_redirects_confined [OF _ prod.collapse [symmetric],
        of "env\<lparr>pe_lib := sample_lib\<rparr>" crates_resolved "plain_url ''/serde''" s]
    by (simp add: crates_resolved_def sample_config_def)
qed

text \<open>What an artifact fetch returns, from the cache or from the upstream. In a state whose caches are
  sound, an artifact comes with a well-formed digest that is the SHA-256 hash of its bytes, and it is no
  larger than the limit, unless it is an unsuccessful Cargo download; the caches stay sound.\<close>

lemma fetched_artifact_is_hashed:
  assumes "proxy_inv env store M s"
    and "run_state (fetch_upstream_artifact env resolved query) s = (r, s')"
  shows "proxy_inv env store M s'
    \<and> (r = Inr pf \<longrightarrow>
         (case pf_digest pf of
            Some d \<Rightarrow> digest_wf d \<and> length (pf_body pf) \<le> M
              \<and> (\<exists>h. sha256_digest (pe_lib env) (pf_body pf) = Inr h \<and> dg_hex h = dg_hex d)
          | None \<Rightarrow> rg_adapter (rv_config resolved) = AdapterCargo \<and> \<not> is_success (pf_status pf)))"
  using ensuresD [OF fetch_upstream_artifact_ok assms]
  by (auto simp: prefetched_ok_def artifact_ok_def split: option.splits)

lemma proxy_inv_new: "proxy_state_new store client limits M key = Some s \<Longrightarrow> proxy_inv env store M s"
  by (auto simp: proxy_state_new_def proxy_inv_def empty_caches_def split: if_splits)

lemma fetched_artifact_is_hashed_witness:
  "\<forall>env client limits. \<exists>s. proxy_state_new [] client limits 100 ''key'' = Some s
     \<and> proxy_inv env [] 100 (snd (run_state (fetch_upstream_artifact env crates_resolved None) s))"
proof (intro allI)
  fix env client limits
  obtain s where s: "proxy_state_new [] client limits 100 ''key'' = Some s" by (simp add: proxy_state_new_def)
  then have "proxy_inv env [] 100 (snd (run_state (fetch_upstream_artifact env crates_resolved None) s))"
    using fetched_artifact_is_hashed [OF proxy_inv_new prod.collapse [symmetric]] by blast
  with s show "\<exists>s. proxy_state_new [] client limits 100 ''key'' = Some s
     \<and> proxy_inv env [] 100 (snd (run_state (fetch_upstream_artifact env crates_resolved None) s))" by blast
qed

lemma sent_trying_frames:
  assumes "\<And>t. px_sent (snd (run_state m t)) = px_sent t @ rs" "\<And>a. frames px_sent (f a)"
  shows "px_sent (snd (run_state (trying m f) t)) = px_sent t @ rs"
  using assms by (auto simp: run_trying frames_def split: sum.split)

text \<open>A path that is itself an absolute URL leaves the registry. If joining an absolute URL to the upstream
  base yields that URL, as the URL standard has it, then fetching an npm artifact under such a path that is not
  yet cached sends exactly one request, before any decision is asked for: to that URL, whatever its origin,
  and with the credentials of the registry.\<close>

lemma absolute_path_leaves_registry:
  assumes join: "\<And>base p u. lib_parse_url (pe_lib env) p = Some u \<Longrightarrow> lib_join_url (pe_lib env) base p = Some u"
    and base: "lib_parse_url (pe_lib env) (rg_upstream_url (rv_config resolved)) = Some b"
    and path: "lib_parse_url (pe_lib env) (rv_upstream_path resolved) = Some u" "\<not> starts_with ''/'' (rv_upstream_path resolved)"
    and npm: "rg_adapter (rv_config resolved) = AdapterNpm" "rg_auth_type (rv_config resolved) = AuthBearer"
    and credential: "upstream_credential_value (pe_lib env) resolved = Inr credential"
    and miss: "ch_artifact_digest_by_path (px_caches s) (cache_key_for_upstream (pe_lib env) resolved query) = None"
    and run: "run_state (fetch_upstream_artifact env resolved query) s = (r, s')"
  shows "\<exists>request. px_sent s' = px_sent s @ [request] \<and> ur_url request = u
    \<and> header_get ''authorization'' (ur_headers request) = Some (''Bearer '' @ credential)"
proof -
  define request where "request = (upstream_client resolved ''GET'' u)\<lparr>ur_headers := header_insert ''authorization'' (''Bearer '' @ credential) []\<rparr>"
  have trim: "trim_start_matches CHR ''/'' (rv_upstream_path resolved) = rv_upstream_path resolved"
    using path(2) by (cases "rv_upstream_path resolved") (auto simp: trim_start_matches_def)
  have url: "artifact_upstream_url (pe_lib env) key resolved query = Inr u" for key
    using join [OF path(1)]
    by (simp add: artifact_upstream_url_def adapter_upstream_request_url_def upstream_request_url_def npm base trim)
  have inject: "inject_upstream_credentials (pe_lib env) (upstream_client resolved ''GET'' u) resolved = Inr request"
    by (simp add: inject_upstream_credentials_def npm credential upstream_client_def request_def)
  have get: "px_sent (snd (run_state (get_upstream env resolved u) t)) = px_sent t @ [request]" for t
    by (simp add: get_upstream_def run_trying inject send_upstream_def run_bind)
  have down: "px_sent (snd (run_state (download_artifact env resolved k u None) t)) = px_sent t @ [request]" for k t
    unfolding download_artifact_def Let_def npm
    by simp (rule sent_trying_frames [OF get], intro silent_intros)
  have "px_sent (snd (run_state (fetch_upstream_artifact env resolved query) s)) = px_sent s @ [request]"
    by (simp add: down fetch_upstream_artifact_def run_bind run_trying url cargo_expected_digest_def npm cached_artifact_def miss
        Let_def observe_cache_def observe_def)
  with run have "px_sent s' = px_sent s @ [request]" by simp
  then show ?thesis
    by (auto simp: request_def upstream_client_def header_get_def header_insert_def header_remove_def)
qed

definition web_url :: "string \<Rightarrow> url option" where
  "web_url p = map_option (\<lambda>h. (plain_url ''/'')\<lparr>url_host := Some h\<rparr>) (strip_prefix ''https://'' p)"

definition web_lib :: proxy_lib where
  "web_lib = sample_lib\<lparr>lib_parse_url := web_url,
     lib_join_url := (\<lambda>base p. Some (unwrap_or base (web_url p))), lib_env_var := (\<lambda>_. Some ''secret'')\<rparr>"

definition escaping_path :: ResolvedRegistryConfig where
  "escaping_path = \<lparr>rv_config = (sample_config 1 ''/npm'')\<lparr>rg_auth_type := AuthBearer, rg_credential_env_var := Some ''TOKEN''\<rparr>,
     rv_upstream_path = ''https://evil.example''\<rparr>"

lemma absolute_path_leaves_registry_witness:
  "\<forall>env client limits. \<exists>s request. proxy_state_new [] client limits 100 ''key'' = Some s
     \<and> px_sent (snd (run_state (fetch_upstream_artifact (env\<lparr>pe_lib := web_lib\<rparr>) escaping_path None) s)) = [request]
     \<and> url_host (ur_url request) = Some ''evil.example''
     \<and> header_get ''authorization'' (ur_headers request) = Some ''Bearer secret''"
proof (intro allI)
  fix env :: proxy_env and client limits
  let ?env = "env\<lparr>pe_lib := web_lib\<rparr>"
  obtain s where s: "proxy_state_new [] client limits 100 ''key'' = Some s" by (simp add: proxy_state_new_def)
  then have empty: "px_sent s = []" "px_caches s = empty_caches" by (auto simp: proxy_state_new_def)
  let ?u = "(plain_url ''/'')\<lparr>url_host := Some ''evil.example''\<rparr>"
  have law: "lib_join_url (pe_lib ?env) base p = Some u" if "lib_parse_url (pe_lib ?env) p = Some u" for base p u
    using that by (simp add: web_lib_def)
  have urls: "lib_parse_url (pe_lib ?env) (rg_upstream_url (rv_config escaping_path))
      = Some ((plain_url ''/'')\<lparr>url_host := Some ''registry.npmjs.org''\<rparr>)"
    "lib_parse_url (pe_lib ?env) (rv_upstream_path escaping_path) = Some ?u"
    "\<not> starts_with ''/'' (rv_upstream_path escaping_path)"
    by (simp_all add: web_lib_def web_url_def escaping_path_def sample_config_def)
  have config: "rg_adapter (rv_config escaping_path) = AdapterNpm" "rg_auth_type (rv_config escaping_path) = AuthBearer"
    "upstream_credential_value (pe_lib ?env) escaping_path = Inr ''secret''"
    by (simp_all add: escaping_path_def sample_config_def upstream_credential_value_def web_lib_def)
  have miss: "ch_artifact_digest_by_path (px_caches s) (cache_key_for_upstream (pe_lib ?env) escaping_path None) = None"
    by (simp add: empty empty_caches_def)
  from absolute_path_leaves_registry [OF law urls config miss prod.collapse [symmetric]] obtain request
    where "px_sent (snd (run_state (fetch_upstream_artifact ?env escaping_path None) s)) = px_sent s @ [request]"
      "ur_url request = ?u" "header_get ''authorization'' (ur_headers request) = Some (''Bearer '' @ ''secret'')" by blast
  with s empty show "\<exists>s request. proxy_state_new [] client limits 100 ''key'' = Some s
     \<and> px_sent (snd (run_state (fetch_upstream_artifact ?env escaping_path None) s)) = [request]
     \<and> url_host (ur_url request) = Some ''evil.example''
     \<and> header_get ''authorization'' (ur_headers request) = Some ''Bearer secret''"
    by (intro exI [of _ s] exI [of _ request]) simp
qed

end
