(* ===== verification/Candidate_Filter.thy ===== *)
theory Candidate_Filter
  imports Artifact_Fetch "HOL-Library.Sublist"
begin

text \<open>
  The metadata path of Mosquito Net, \<^verbatim>\<open>services/mosquito-net/src/lib.rs\<close>: every candidate a PyPI or Cargo
  index lists is put to the Triage Counter on its own, the candidates that may not be offered are cut from
  the index, an approved fallback replaces the rest of an npm packument, and the links are rewritten.
  \<^verbatim>\<open>proxy_upstream_get\<close> then answers with the artifact at hand or with the prepared metadata.
\<close>

section \<open>One candidate\<close>

definition candidate_request ::
  "ResolvedRegistryConfig \<Rightarrow> DecisionResponse \<Rightarrow> PackageCoordinate \<Rightarrow> string \<Rightarrow> ArtifactDigest option \<Rightarrow> string option
     \<Rightarrow> DecisionRequest" where
  "candidate_request resolved parent_decision coordinate candidate_id requested_digest source_url =
     \<lparr>rq_tenant_id = rs_tenant_id parent_decision, rq_registry_config_id = rg_id (rv_config resolved),
      rq_policy_profile_id = rs_policy_profile_id parent_decision,
      rq_request = \<lparr>nr_kind = KindArtifact, nr_tenant_id = rs_tenant_id parent_decision,
        nr_registry_config_id = rg_id (rv_config resolved), nr_policy_profile_id = rs_policy_profile_id parent_decision,
        nr_coordinate = coordinate,
        nr_trace_id = rs_trace_id parent_decision @ '':candidate:'' @ candidate_id,
        nr_requested_digest = requested_digest, nr_source_url = source_url,
        nr_explicit_version_or_integrity = True\<rparr>\<rparr>"

definition observe_triage :: "ResolvedRegistryConfig \<Rightarrow> string \<Rightarrow> unit px" where
  "observe_triage resolved outcome =
     observe (ObserveTriage (rg_tenant_id (rv_config resolved)) (rg_id (rv_config resolved))
       (rg_adapter (rv_config resolved)) outcome)"

text \<open>The decision on a candidate, or the early answer of an outage.\<close>

definition candidate_decision ::
  "proxy_env \<Rightarrow> ResolvedRegistryConfig \<Rightarrow> DecisionRequest \<Rightarrow> (UpstreamProxyError, bool + DecisionResponse) result px" where
  "candidate_decision env resolved request = do {
     let cache_key = cache_key_for_decision (pe_lib env) request;
     cached \<leftarrow> cached_decision env cache_key;
     case cached of
       Some decision \<Rightarrow> do {
         observe_cache resolved ''decision'' ''hit'';
         giving (Inr (Inr decision))
       }
     | None \<Rightarrow> do {
         observe_cache resolved ''decision'' ''miss'';
         answer \<leftarrow> ask_triage env request;
         case answer of
           Inr decision \<Rightarrow> do {
             observe_triage resolved ''candidate-success'';
             cache_decision env resolved cache_key decision;
             giving (Inr (Inr decision))
           }
         | Inl e \<Rightarrow>
             if is_outage e then do {
               observe_triage resolved ''candidate-outage'';
               giving (Inr (Inl (rg_mode (rv_config resolved) \<noteq> ModeEnforce)))
             }
             else do {
               observe_triage resolved ''candidate-hard-error'';
               giving (Inl (CandidateTriage e))
             }
       }
   }"

definition candidate_allowed_for_coordinate ::
  "proxy_env \<Rightarrow> ResolvedRegistryConfig \<Rightarrow> DecisionResponse \<Rightarrow> PackageCoordinate \<Rightarrow> string \<Rightarrow> ArtifactDigest option
     \<Rightarrow> string option \<Rightarrow> (UpstreamProxyError, bool) result px" where
  "candidate_allowed_for_coordinate env resolved parent_decision coordinate candidate_id requested_digest source_url =
     trying (candidate_decision env resolved
         (candidate_request resolved parent_decision coordinate candidate_id requested_digest source_url)) (\<lambda>outcome.
       giving (case outcome of
           Inl keep \<Rightarrow> Inr keep
         | Inr decision \<Rightarrow>
             if rs_mode decision \<noteq> rg_mode (rv_config resolved) then Inl InvalidCandidateDecisionMode
             else Inr (\<not> (rg_mode (rv_config resolved) = ModeEnforce \<and> is_blocking (rs_decision decision)))))"

definition candidate_allowed_for_url_with_digest ::
  "proxy_env \<Rightarrow> ResolvedRegistryConfig \<Rightarrow> DecisionResponse \<Rightarrow> string \<Rightarrow> ArtifactDigest option
     \<Rightarrow> (UpstreamProxyError, bool) result px" where
  "candidate_allowed_for_url_with_digest env resolved parent_decision u digest =
     (case file_name_from_registry_url (pe_lib env) u of
        None \<Rightarrow> giving (Inr True)
      | Some file_name \<Rightarrow>
          (case pypi_coordinate_from_distribution_filename file_name of
             None \<Rightarrow> giving (Inr True)
           | Some coordinate \<Rightarrow>
               candidate_allowed_for_coordinate env resolved parent_decision coordinate file_name digest (Some u)))"

definition candidate_allowed_for_url ::
  "proxy_env \<Rightarrow> ResolvedRegistryConfig \<Rightarrow> DecisionResponse \<Rightarrow> string \<Rightarrow> (UpstreamProxyError, bool) result px" where
  "candidate_allowed_for_url env resolved parent_decision u =
     candidate_allowed_for_url_with_digest env resolved parent_decision u (digest_from_url_fragment u)"

definition pypi_json_candidate_allowed ::
  "proxy_env \<Rightarrow> ResolvedRegistryConfig \<Rightarrow> DecisionResponse \<Rightarrow> json \<Rightarrow> (UpstreamProxyError, bool) result px" where
  "pypi_json_candidate_allowed env resolved parent_decision file =
     (case Option.bind (case json_get ''url'' file of Some v \<Rightarrow> Some v | None \<Rightarrow> json_get ''download_url'' file) as_str of
        None \<Rightarrow> giving (Inr True)
      | Some u \<Rightarrow>
          let digest = (case Option.bind (Option.bind (Option.bind (json_get ''hashes'' file) (json_get ''sha256'')) as_str)
                (\<lambda>v. res_ok (digest_sha256 v)) of
              Some d \<Rightarrow> Some d | None \<Rightarrow> digest_from_url_fragment u)
          in candidate_allowed_for_url_with_digest env resolved parent_decision u digest)"

definition cargo_sparse_candidate_allowed ::
  "proxy_env \<Rightarrow> ResolvedRegistryConfig \<Rightarrow> DecisionResponse \<Rightarrow> string \<Rightarrow> json \<Rightarrow> (UpstreamProxyError, bool) result px" where
  "cargo_sparse_candidate_allowed env resolved parent_decision requested_name entry =
     trying (giving (cargo_sparse_entry (pe_lib env) entry)) (\<lambda>(package_name, version, digest).
       if package_name \<noteq> requested_name then giving (Inl InvalidCargoSparseMetadata)
       else candidate_allowed_for_coordinate env resolved parent_decision
              (coordinate_new Cargo package_name (Some version) None) (package_name @ ''@'' @ version) (Some digest) None)"

section \<open>Whole indexes\<close>

fun filter_cargo_lines ::
  "proxy_env \<Rightarrow> ResolvedRegistryConfig \<Rightarrow> DecisionResponse \<Rightarrow> string \<Rightarrow> string list
     \<Rightarrow> (UpstreamProxyError, string list) result px" where
  "filter_cargo_lines env resolved parent_decision requested_name [] = giving (Inr [])"
| "filter_cargo_lines env resolved parent_decision requested_name (line # rest) =
     (if str_trim line = [] then filter_cargo_lines env resolved parent_decision requested_name rest
      else
        trying (giving (ok_or InvalidCargoSparseMetadata (lib_json_parse (pe_lib env) line))) (\<lambda>entry.
        trying (cargo_sparse_candidate_allowed env resolved parent_decision requested_name entry) (\<lambda>allowed.
        trying (filter_cargo_lines env resolved parent_decision requested_name rest) (\<lambda>kept.
          giving (Inr (if allowed then line # kept else kept))))))"

definition join_index_lines :: "string \<Rightarrow> string list \<Rightarrow> string" where
  "join_index_lines text kept =
     (let filtered = str_join [CHR 0x0A] kept in
      if ends_with [CHR 0x0A] text \<and> filtered \<noteq> [] then filtered @ [CHR 0x0A] else filtered)"

definition filter_cargo_sparse_candidates ::
  "proxy_env \<Rightarrow> ResolvedRegistryConfig \<Rightarrow> DecisionResponse \<Rightarrow> string \<Rightarrow> (UpstreamProxyError, string) result px" where
  "filter_cargo_sparse_candidates env resolved parent_decision body =
     (if \<not> utf8_ok body then giving (Inl InvalidCargoSparseMetadata)
      else
        (case cargo_request_context (lib_semver_ok (pe_lib env)) (rv_upstream_path resolved) of
           Inr (KindMetadata, requested, _) \<Rightarrow>
             trying (filter_cargo_lines env resolved parent_decision (pc_name requested) (lines body)) (\<lambda>kept.
               giving (Inr (join_index_lines body kept)))
         | _ \<Rightarrow> giving (Inl InvalidCargoSparseMetadata)))"

fun filter_anchors ::
  "proxy_env \<Rightarrow> ResolvedRegistryConfig \<Rightarrow> DecisionResponse \<Rightarrow> html_chunk list
     \<Rightarrow> (UpstreamProxyError, html_chunk list) result px" where
  "filter_anchors env resolved parent_decision [] = giving (Inr [])"
| "filter_anchors env resolved parent_decision (HtmlText t # rest) =
     trying (filter_anchors env resolved parent_decision rest) (\<lambda>kept. giving (Inr (HtmlText t # kept)))"
| "filter_anchors env resolved parent_decision (HtmlAnchor anchor # rest) =
     trying (case extract_href anchor of
         Some href \<Rightarrow> candidate_allowed_for_url env resolved parent_decision href
       | None \<Rightarrow> giving (Inr True)) (\<lambda>keep.
     trying (filter_anchors env resolved parent_decision rest) (\<lambda>kept.
       giving (Inr (if keep then HtmlAnchor anchor # kept else kept))))"

definition filter_pypi_simple_candidates ::
  "proxy_env \<Rightarrow> ResolvedRegistryConfig \<Rightarrow> DecisionResponse \<Rightarrow> string \<Rightarrow> (UpstreamProxyError, string) result px" where
  "filter_pypi_simple_candidates env resolved parent_decision body =
     (if \<not> utf8_ok body then giving (Inr body)
      else trying (filter_anchors env resolved parent_decision (html_chunks body)) (\<lambda>kept.
        giving (Inr (concat (map chunk_text kept)))))"

fun filter_pypi_files ::
  "proxy_env \<Rightarrow> ResolvedRegistryConfig \<Rightarrow> DecisionResponse \<Rightarrow> json list \<Rightarrow> (UpstreamProxyError, json list) result px" where
  "filter_pypi_files env resolved parent_decision [] = giving (Inr [])"
| "filter_pypi_files env resolved parent_decision (file # rest) =
     trying (pypi_json_candidate_allowed env resolved parent_decision file) (\<lambda>allowed.
     trying (filter_pypi_files env resolved parent_decision rest) (\<lambda>kept.
       giving (Inr (if allowed then file # kept else kept))))"

definition filter_pypi_field ::
  "proxy_env \<Rightarrow> ResolvedRegistryConfig \<Rightarrow> DecisionResponse \<Rightarrow> string \<Rightarrow> json \<Rightarrow> (UpstreamProxyError, json) result px" where
  "filter_pypi_field env resolved parent_decision field value =
     (case get_array field value of
        None \<Rightarrow> giving (Inr value)
      | Some files \<Rightarrow> trying (filter_pypi_files env resolved parent_decision files) (\<lambda>kept.
          giving (Inr (json_set field (JArray kept) value))))"

definition filter_pypi_json_candidates ::
  "proxy_env \<Rightarrow> ResolvedRegistryConfig \<Rightarrow> DecisionResponse \<Rightarrow> string \<Rightarrow> (UpstreamProxyError, string) result px" where
  "filter_pypi_json_candidates env resolved parent_decision body =
     (case lib_json_parse (pe_lib env) body of
        None \<Rightarrow> giving (Inr body)
      | Some value \<Rightarrow>
          trying (filter_pypi_field env resolved parent_decision ''files'' value) (\<lambda>value'.
          trying (filter_pypi_field env resolved parent_decision ''urls'' value') (\<lambda>value''.
            giving (Inr (lib_json_print (pe_lib env) value'')))))"

definition maybe_filter_metadata_body ::
  "proxy_env \<Rightarrow> ResolvedRegistryConfig \<Rightarrow> DecisionResponse \<Rightarrow> header_map \<Rightarrow> string \<Rightarrow> (UpstreamProxyError, string) result px" where
  "maybe_filter_metadata_body env resolved parent_decision headers body =
     (if rg_adapter (rv_config resolved) = AdapterCargo \<and> \<not> cargo_registry_config_path (rv_upstream_path resolved)
      then filter_cargo_sparse_candidates env resolved parent_decision body
      else
        (case content_type (pe_lib env) headers of
           None \<Rightarrow> giving (Inr body)
         | Some ct \<Rightarrow>
             if rg_adapter (rv_config resolved) = AdapterPypi \<and> str_contains ''html'' ct
             then filter_pypi_simple_candidates env resolved parent_decision body
             else if rg_adapter (rv_config resolved) = AdapterPypi \<and> str_contains ''json'' ct
             then filter_pypi_json_candidates env resolved parent_decision body
             else giving (Inr body)))"

definition prepare_metadata_body ::
  "proxy_env \<Rightarrow> ResolvedRegistryConfig \<Rightarrow> DecisionResponse \<Rightarrow> RegistryAdapter \<Rightarrow> string \<Rightarrow> string \<Rightarrow> header_map \<Rightarrow> string
     \<Rightarrow> (UpstreamProxyError, string) result px" where
  "prepare_metadata_body env resolved parent_decision adapter mount_path proxy_base headers body =
     trying (maybe_filter_metadata_body env resolved parent_decision headers body) (\<lambda>filtered.
       giving (Inr (maybe_rewrite_metadata_body (pe_lib env) adapter mount_path proxy_base headers
         (maybe_apply_npm_fallback_metadata (pe_lib env) resolved parent_decision headers filtered))))"

section \<open>The upstream answer\<close>

text \<open>The metadata for a decision, from the cache or from the upstream.\<close>

definition metadata_body ::
  "proxy_env \<Rightarrow> ResolvedRegistryConfig \<Rightarrow> DecisionResponse \<Rightarrow> string \<Rightarrow> status \<Rightarrow> header_map \<Rightarrow> string
     \<Rightarrow> (UpstreamProxyError, string) result px" where
  "metadata_body env resolved decision proxy_base st headers body =
     (if rg_adapter (rv_config resolved) = AdapterCargo \<and> \<not> is_success st then giving (Inr body)
      else prepare_metadata_body env resolved decision (rg_adapter (rv_config resolved))
             (rg_mount_path (rv_config resolved)) proxy_base headers body)"

definition upstream_metadata ::
  "proxy_env \<Rightarrow> ResolvedRegistryConfig \<Rightarrow> DecisionResponse \<Rightarrow> string
     \<Rightarrow> (UpstreamProxyError, status \<times> header_map \<times> string) result px" where
  "upstream_metadata env resolved decision proxy_base = do {
     let config = rv_config resolved;
     let cache_key = cache_key_for_upstream (pe_lib env) resolved None;
     cached \<leftarrow> cached_metadata_response env cache_key;
     case cached of
       Some (st, headers, body) \<Rightarrow> do {
         observe_cache resolved ''metadata'' ''hit'';
         trying (metadata_body env resolved decision proxy_base st headers body) (\<lambda>body'. giving (Inr (st, headers, body')))
       }
     | None \<Rightarrow> do {
         observe_cache resolved ''metadata'' ''miss'';
         key \<leftarrow> reading px_cargo_download_mac_key;
         trying (giving (adapter_upstream_request_url (pe_lib env) key (rg_id config) (rg_adapter config)
             (rg_upstream_url config) (rg_cargo_allowed_download_origins config)
             (upstream_path_for_decision resolved decision))) (\<lambda>u.
         trying (get_upstream env resolved u) (\<lambda>response.
         trying (giving (response_bytes response)) (\<lambda>bytes. do {
           observe (ObserveUpstream (rg_tenant_id config) (rg_id config) (rg_adapter config) ''metadata'' (us_status response));
           trying (metadata_body env resolved decision proxy_base (us_status response) (us_headers response) bytes) (\<lambda>body. do {
             cache_metadata_response env resolved cache_key (us_status response) (us_headers response) bytes;
             giving (Inr (us_status response, us_headers response, body))
           })
         })))
       }
   }"

definition proxy_upstream_get ::
  "proxy_env \<Rightarrow> ResolvedRegistryConfig \<Rightarrow> DecisionResponse \<Rightarrow> AdvisoryHeaderPayload \<Rightarrow> string \<Rightarrow> PrefetchedArtifact option
     \<Rightarrow> (UpstreamProxyError, http_response) result px" where
  "proxy_upstream_get env resolved decision advisory proxy_base prefetched_artifact =
     trying (case prefetched_artifact of
         Some prefetched \<Rightarrow> giving (Inr (pf_status prefetched, pf_headers prefetched, pf_body prefetched))
       | None \<Rightarrow> upstream_metadata env resolved decision proxy_base) (\<lambda>(st, headers, body).
       giving (Inr (build_upstream_response (pe_lib env) st headers body advisory decision
         (rg_mount_path (rv_config resolved)) proxy_base)))"

section \<open>Silence and invariant\<close>

lemma silent_candidate [silent_intros]:
  "silent (candidate_allowed_for_url_with_digest env resolved parent u digest)"
  "silent (cargo_sparse_candidate_allowed env resolved parent name entry)"
  "silent (candidate_allowed_for_url env resolved parent u)"
  unfolding candidate_allowed_for_url_def candidate_allowed_for_url_with_digest_def cargo_sparse_candidate_allowed_def
    candidate_allowed_for_coordinate_def candidate_decision_def observe_triage_def
  by (intro silent_intros)+

lemma silent_filter_cargo_lines [silent_intros]: "silent (filter_cargo_lines env resolved parent name ls)"
  by (induction ls) (simp_all add: silent_giving, intro conjI impI silent_intros)

lemma silent_filter_anchors [silent_intros]: "silent (filter_anchors env resolved parent chunks)"
proof (induction chunks)
  case (Cons c cs)
  then show ?case
    by (cases c) (simp_all only: filter_anchors.simps, (intro silent_intros; assumption)+)
qed (simp add: silent_giving)

lemma silent_filter_pypi_files [silent_intros]: "silent (filter_pypi_files env resolved parent files)"
proof (induction files)
  case (Cons f fs)
  then show ?case by (simp only: filter_pypi_files.simps pypi_json_candidate_allowed_def, intro silent_intros)
qed (simp add: silent_giving)

lemma silent_context [silent_intros]:
  "(\<And>k c e. frames p (f k c e)) \<Longrightarrow> frames p m \<Longrightarrow> frames p (case x of Inr (KindMetadata, c, e) \<Rightarrow> f KindMetadata c e | _ \<Rightarrow> m)"
  by (auto split: sum.split PackageRequestKind.split)

lemma silent_proxy_upstream_get [silent_intros]:
  "silent (proxy_upstream_get env resolved decision advisory proxy_base prefetched)"
  unfolding proxy_upstream_get_def upstream_metadata_def metadata_body_def prepare_metadata_body_def
    maybe_filter_metadata_body_def filter_cargo_sparse_candidates_def filter_pypi_simple_candidates_def
    filter_pypi_json_candidates_def filter_pypi_field_def
  by (intro silent_intros)

text \<open>The Triage Counter let a request pass.\<close>

definition approved :: "proxy_env \<Rightarrow> ResolvedRegistryConfig \<Rightarrow> DecisionRequest \<Rightarrow> bool" where
  "approved env resolved q =
     (\<exists>d. triaged env (cache_key_for_decision (pe_lib env) q) d \<and> rs_mode d = rg_mode (rv_config resolved)
        \<and> \<not> is_blocking (rs_decision d))"

lemma answered_triaged:
  "request_wf q \<Longrightarrow> answered env q d \<Longrightarrow> triaged env (cache_key_for_decision (pe_lib env) q) d"
  by (auto simp: triaged_def)

lemma keeps_observe_triage [ensures_intros]: "keeps (proxy_inv env store M) (observe_triage resolved outcome)"
  unfolding observe_triage_def by (intro ensures_intros)

lemma candidate_decision_triaged:
  assumes "request_wf q"
  shows "returns (proxy_inv env store M) (candidate_decision env resolved q)
    (\<lambda>outcome. case outcome of
        Inl keep \<Rightarrow> keep \<longrightarrow> rg_mode (rv_config resolved) \<noteq> ModeEnforce
      | Inr d \<Rightarrow> triaged env (cache_key_for_decision (pe_lib env) q) d)"
  unfolding candidate_decision_def
  apply (rule ensures_Let)
  apply (rule ensures_bind [OF cached_decision_triaged])
  apply (rule ensures_option)
   apply (rule returns_bind [OF keeps_effects(5)])
   apply (rule ensures_bind [OF ask_triage_answered])
   apply (rule ensures_sum)
    apply (intro ensures_intros returns_giving)
     apply (auto split: sum.splits) [2]
   apply (rule returns_bind [OF keeps_observe_triage])
   apply (rule returns_bind [OF cache_decision_keeps])
    apply (use assms answered_triaged in blast)
   apply (rule returns_giving)
   apply (use assms answered_triaged in auto) []
  apply (rule returns_bind [OF keeps_effects(5)])
  apply (rule returns_giving)
  apply auto
  done

lemma candidate_allowed_approved:
  assumes "\<forall>d. digest = Some d \<longrightarrow> digest_wf d"
  shows "returns (proxy_inv env store M)
    (candidate_allowed_for_coordinate env resolved parent coordinate i digest source)
    (\<lambda>keep. keep \<and> rg_mode (rv_config resolved) = ModeEnforce \<longrightarrow>
       approved env resolved (candidate_request resolved parent coordinate i digest source))"
proof -
  have "request_wf (candidate_request resolved parent coordinate i digest source)"
    using assms by (simp add: request_wf_def candidate_request_def)
  from candidate_decision_triaged [OF this] show ?thesis
    unfolding candidate_allowed_for_coordinate_def
    by (rule returns_trying_with, intro returns_giving)
      (auto simp: approved_def split: sum.splits if_splits)
qed

lemma keeps_weaken: "ensures I m R \<Longrightarrow> keeps I m"
  by (rule ensures_weaken) simp_all

lemma digest_from_url_fragment_wf: "digest_from_url_fragment u = Some d \<Longrightarrow> digest_wf d"
  by (auto simp: digest_from_url_fragment_def digest_sha256_def bind_eq_Some_conv split: list.splits dest: digest_new_wf)

text \<open>What an entry that is kept in enforce mode has: the Triage Counter let it pass, if it is a candidate.\<close>

definition cargo_line_approved ::
  "proxy_env \<Rightarrow> ResolvedRegistryConfig \<Rightarrow> DecisionResponse \<Rightarrow> string \<Rightarrow> string \<Rightarrow> bool" where
  "cargo_line_approved env resolved parent name line =
     (\<exists>entry version digest. lib_json_parse (pe_lib env) line = Some entry
        \<and> cargo_sparse_entry (pe_lib env) entry = Inr (name, version, digest)
        \<and> approved env resolved (candidate_request resolved parent (coordinate_new Cargo name (Some version) None)
             (name @ ''@'' @ version) (Some digest) None))"

definition pypi_url_approved ::
  "proxy_env \<Rightarrow> ResolvedRegistryConfig \<Rightarrow> DecisionResponse \<Rightarrow> string \<Rightarrow> ArtifactDigest option \<Rightarrow> bool" where
  "pypi_url_approved env resolved parent u digest =
     (\<forall>file_name coordinate. file_name_from_registry_url (pe_lib env) u = Some file_name
        \<and> pypi_coordinate_from_distribution_filename file_name = Some coordinate \<longrightarrow>
        approved env resolved (candidate_request resolved parent coordinate file_name digest (Some u)))"

lemma cargo_sparse_candidate_approved:
  "returns (proxy_inv env store M) (cargo_sparse_candidate_allowed env resolved parent name entry)
    (\<lambda>keep. keep \<and> rg_mode (rv_config resolved) = ModeEnforce \<longrightarrow>
       (\<exists>version digest. cargo_sparse_entry (pe_lib env) entry = Inr (name, version, digest)
          \<and> approved env resolved (candidate_request resolved parent (coordinate_new Cargo name (Some version) None)
             (name @ ''@'' @ version) (Some digest) None)))"
proof (cases "cargo_sparse_entry (pe_lib env) entry")
  case (Inl e)
  then show ?thesis by (simp add: cargo_sparse_candidate_allowed_def ensures_def run_trying)
next
  case (Inr x)
  then obtain n v d where x: "cargo_sparse_entry (pe_lib env) entry = Inr (n, v, d)" by (cases x) auto
  then have "digest_wf d" by (rule cargo_sparse_entry_digest)
  then have "returns (proxy_inv env store M)
    (candidate_allowed_for_coordinate env resolved parent (coordinate_new Cargo n (Some v) None) (n @ ''@'' @ v) (Some d) None)
    (\<lambda>keep. keep \<and> rg_mode (rv_config resolved) = ModeEnforce \<longrightarrow>
       approved env resolved (candidate_request resolved parent (coordinate_new Cargo n (Some v) None) (n @ ''@'' @ v) (Some d) None))"
    by (intro candidate_allowed_approved) simp
  with x show ?thesis by (auto simp: cargo_sparse_candidate_allowed_def ensures_def run_trying)
qed

lemma candidate_url_approved:
  assumes "\<forall>d. digest = Some d \<longrightarrow> digest_wf d"
  shows "returns (proxy_inv env store M) (candidate_allowed_for_url_with_digest env resolved parent u digest)
    (\<lambda>keep. keep \<and> rg_mode (rv_config resolved) = ModeEnforce \<longrightarrow> pypi_url_approved env resolved parent u digest)"
  unfolding candidate_allowed_for_url_with_digest_def
  by (intro ensures_intros returns_giving ensures_weaken [OF candidate_allowed_approved [OF assms]])
    (auto simp: pypi_url_approved_def)

lemma filter_cargo_lines_approved:
  "returns (proxy_inv env store M) (filter_cargo_lines env resolved parent name ls)
    (\<lambda>kept. subseq kept ls \<and> (rg_mode (rv_config resolved) = ModeEnforce \<longrightarrow>
       list_all (cargo_line_approved env resolved parent name) kept))"
proof (induction ls)
  case Nil
  show ?case by (simp add: ensures_giving)
next
  case (Cons line rest)
  show ?case
    unfolding filter_cargo_lines.simps
    apply (rule ensures_if)
     apply (rule ensures_weaken [OF Cons.IH], blast)
    apply (rule returns_trying_with [of _ _ "\<lambda>entry. lib_json_parse (pe_lib env) line = Some entry"])
     apply (rule returns_giving, simp)
    apply (rule returns_trying_with [OF cargo_sparse_candidate_approved])
    apply (rule returns_trying_with [OF Cons.IH])
    apply (rule returns_giving)
    apply (auto simp: cargo_line_approved_def)
    done
qed

lemma filter_anchors_approved:
  "returns (proxy_inv env store M) (filter_anchors env resolved parent chunks)
    (\<lambda>kept. subseq kept chunks \<and> (rg_mode (rv_config resolved) = ModeEnforce \<longrightarrow>
       (\<forall>anchor href. HtmlAnchor anchor \<in> set kept \<and> extract_href anchor = Some href \<longrightarrow>
          pypi_url_approved env resolved parent href (digest_from_url_fragment href))))"
proof (induction chunks)
  case Nil
  show ?case by (simp add: ensures_giving)
next
  case (Cons c rest)
  show ?case
  proof (cases c)
    case (HtmlText t)
    show ?thesis
      unfolding HtmlText filter_anchors.simps
      by (rule returns_trying_with [OF Cons.IH], rule returns_giving) auto
  next
    case (HtmlAnchor anchor)
    show ?thesis
      unfolding HtmlAnchor filter_anchors.simps candidate_allowed_for_url_def
      apply (rule returns_trying_with [of _ _ "\<lambda>keep. keep \<and> rg_mode (rv_config resolved) = ModeEnforce \<longrightarrow>
          (\<forall>href. extract_href anchor = Some href \<longrightarrow> pypi_url_approved env resolved parent href (digest_from_url_fragment href))"])
       apply (rule ensures_option)
        apply (rule returns_giving, simp)
       apply (rule ensures_weaken [OF candidate_url_approved])
        apply (use digest_from_url_fragment_wf in blast)
       apply auto []
      apply (rule returns_trying_with [OF Cons.IH])
      apply (rule returns_giving)
      apply (auto split: if_splits)
      done
  qed
qed

lemma keeps_pypi_json_candidate [ensures_intros]:
  "keeps (proxy_inv env store M) (pypi_json_candidate_allowed env resolved parent file)"
  unfolding pypi_json_candidate_allowed_def
  by (intro ensures_intros keeps_weaken [OF candidate_url_approved])
    (auto simp: bind_eq_Some_conv digest_sha256_def split: option.splits
      dest: digest_from_url_fragment_wf digest_new_wf)

lemma keeps_filter_pypi_files [ensures_intros]:
  "keeps (proxy_inv env store M) (filter_pypi_files env resolved parent files)"
proof (induction files)
  case (Cons f fs)
  show ?case unfolding filter_pypi_files.simps by (intro ensures_intros Cons.IH)
qed (simp add: ensures_giving)

lemmas keeps_filters [ensures_intros] = keeps_weaken [OF filter_cargo_lines_approved] keeps_weaken [OF filter_anchors_approved]

lemma keeps_context [ensures_intros]:
  "(\<And>k c e. ensures I (f k c e) R) \<Longrightarrow> ensures I m R
     \<Longrightarrow> ensures I (case x of Inr (KindMetadata, c, e) \<Rightarrow> f KindMetadata c e | _ \<Rightarrow> m) R"
  by (auto split: sum.split PackageRequestKind.split)

lemma keeps_upstream_metadata:
  "keeps (proxy_inv env store M) (upstream_metadata env resolved decision proxy_base)"
  unfolding upstream_metadata_def metadata_body_def prepare_metadata_body_def
    maybe_filter_metadata_body_def filter_cargo_sparse_candidates_def filter_pypi_simple_candidates_def
    filter_pypi_json_candidates_def filter_pypi_field_def
  by (intro ensures_intros)

text \<open>The answer is content of the upstream; for an artifact at hand its own bytes.\<close>

lemma proxy_upstream_get_content:
  "returns (proxy_inv env store M) (proxy_upstream_get env resolved decision advisory proxy_base prefetched)
     (\<lambda>response. \<exists>body. hr_body response = BytesBody body
        \<and> (\<forall>pf. prefetched = Some pf \<longrightarrow> body = pf_body pf \<and> hr_status response = pf_status pf))"
  unfolding proxy_upstream_get_def
proof (rule returns_trying_with)
  show "returns (proxy_inv env store M) (case prefetched of
         Some prefetched \<Rightarrow> giving (Inr (pf_status prefetched, pf_headers prefetched, pf_body prefetched))
       | None \<Rightarrow> upstream_metadata env resolved decision proxy_base)
     (\<lambda>(st, headers, body). \<forall>pf. prefetched = Some pf \<longrightarrow> body = pf_body pf \<and> st = pf_status pf)"
    by (rule ensures_option) (auto intro!: ensures_giving ensures_weaken [OF keeps_upstream_metadata])
qed (auto intro!: returns_giving simp: build_upstream_response_def)

lemma filter_cargo_sparse_approved:
  "returns (proxy_inv env store M) (filter_cargo_sparse_candidates env resolved parent body)
     (\<lambda>out. \<exists>c e kept. cargo_request_context (lib_semver_ok (pe_lib env)) (rv_upstream_path resolved) = Inr (KindMetadata, c, e)
        \<and> subseq kept (lines body) \<and> out = join_index_lines body kept
        \<and> (rg_mode (rv_config resolved) = ModeEnforce \<longrightarrow> list_all (cargo_line_approved env resolved parent (pc_name c)) kept))"
proof (cases "cargo_request_context (lib_semver_ok (pe_lib env)) (rv_upstream_path resolved)")
  case (Inr x)
  obtain k c e where x: "x = (k, c, e)" by (cases x)
  show ?thesis
  proof (cases k)
    case KindMetadata
    have "returns (proxy_inv env store M)
        (trying (filter_cargo_lines env resolved parent (pc_name c) (lines body)) (\<lambda>kept. giving (Inr (join_index_lines body kept))))
        (\<lambda>out. \<exists>kept. subseq kept (lines body) \<and> out = join_index_lines body kept
          \<and> (rg_mode (rv_config resolved) = ModeEnforce \<longrightarrow> list_all (cargo_line_approved env resolved parent (pc_name c)) kept))"
      by (rule returns_trying_with [OF filter_cargo_lines_approved], rule returns_giving) auto
    with Inr show ?thesis
      by (auto simp: filter_cargo_sparse_candidates_def x KindMetadata ensures_giving)
  qed (simp add: filter_cargo_sparse_candidates_def Inr x ensures_giving)
qed (simp add: filter_cargo_sparse_candidates_def ensures_giving)

lemma filter_pypi_simple_approved:
  assumes "utf8_ok body"
  shows "returns (proxy_inv env store M) (filter_pypi_simple_candidates env resolved parent body)
     (\<lambda>out. \<exists>kept. subseq kept (html_chunks body) \<and> out = concat (map chunk_text kept)
        \<and> (rg_mode (rv_config resolved) = ModeEnforce \<longrightarrow>
           (\<forall>anchor href. HtmlAnchor anchor \<in> set kept \<and> extract_href anchor = Some href \<longrightarrow>
              pypi_url_approved env resolved parent href (digest_from_url_fragment href))))"
  unfolding filter_pypi_simple_candidates_def using assms
  by simp (rule returns_trying_with [OF filter_anchors_approved], rule returns_giving, auto)

section \<open>Properties\<close>


end
