(* ===== verification/Proxy_Gateway.thy ===== *)
theory Proxy_Gateway
  imports Candidate_Filter Triage_Service
begin

text \<open>
  The handlers of Mosquito Net, \<^verbatim>\<open>services/mosquito-net/src/lib.rs\<close>: GET, HEAD and the writing methods on
  a proxied path and the reload of the registry configurations, each with its audit events and metrics,
  and the service as a state machine over them. The trace identifier of a request is made from the
  argument \<open>fresh\<close>, the client address is its text. The prologue that the three handlers of a proxied path
  share is written once.
\<close>

section \<open>Answers\<close>

definition observe_request :: "ResolvedRegistryConfig \<Rightarrow> status \<Rightarrow> unit px" where
  "observe_request resolved st =
     observe (ObserveRequest (Some (rg_tenant_id (rv_config resolved))) (Some (rg_adapter (rv_config resolved))) st)"

definition observe_decision :: "ResolvedRegistryConfig \<Rightarrow> PolicyDecision \<Rightarrow> unit px" where
  "observe_decision resolved decision =
     observe (ObserveDecision (rg_tenant_id (rv_config resolved)) (rg_id (rv_config resolved))
       (rg_adapter (rv_config resolved)) decision)"

text \<open>The end of a request: the audit event, the metric and the answer.\<close>

definition finish_request ::
  "proxy_env \<Rightarrow> ResolvedRegistryConfig \<Rightarrow> string \<Rightarrow> status \<Rightarrow> string \<Rightarrow> PolicyDecision option \<Rightarrow> http_response \<Rightarrow> http_response px" where
  "finish_request env resolved trace_id st outcome decision response = do {
     emit_proxy_audit_event env (final_request_audit_event (pe_lib env) resolved trace_id st outcome decision False);
     observe_request resolved st;
     giving response
   }"

definition rate_limited_response ::
  "proxy_env \<Rightarrow> ResolvedRegistryConfig \<Rightarrow> string \<Rightarrow> string \<Rightarrow> string \<Rightarrow> string \<Rightarrow> RateLimitRejection \<Rightarrow> http_response px" where
  "rate_limited_response env resolved trace_id limiter outcome message rejection = do {
     emit_proxy_audit_event env (final_request_audit_event (pe_lib env) resolved trace_id 429 outcome None False);
     observe_request resolved 429;
     observe (ObserveRateLimit (rg_tenant_id (rv_config resolved)) (rg_id (rv_config resolved))
       (rg_adapter (rv_config resolved)) limiter outcome);
     giving (json_response (pe_lib env) 429
       (JObject [(''trace_id'', JString trace_id), (''message'', JString message),
          (''retry_after_seconds'', JNumber (of_nat (rr_retry_after_seconds rejection)))])
       None (Some trace_id) (Some (rr_retry_after_seconds rejection)))
   }"

definition triage_outage_response :: "proxy_env \<Rightarrow> ResolvedRegistryConfig \<Rightarrow> string \<Rightarrow> http_response px" where
  "triage_outage_response env resolved trace_id =
     (let enforce = (rg_mode (rv_config resolved) = ModeEnforce);
          st = (if enforce then 503 else 200);
          decision = (if enforce then QuarantinePendingAnalysis else AllowWithWarning);
          advisory = advisory_payload decision trace_id
            (if enforce then ''Triage Counter unavailable; enforce mode blocks unevaluated request''
             else ''Triage Counter unavailable; warn/shadow mode allowed unevaluated request'');
          body = (if enforce
            then error_body trace_id QuarantinePendingAnalysis
              ''Triage Counter is unavailable and enforce mode blocks unevaluated requests''
            else dispatch_body (pe_lib env) resolved
              (normalize_for_adapter (lib_semver_ok (pe_lib env)) (rg_adapter (rv_config resolved)) (rv_upstream_path resolved))
              ''adapter dispatch scaffold allowed request because warn/shadow mode fails open during Triage outage'')
      in do {
        emit_proxy_audit_event env (final_request_audit_event (pe_lib env) resolved trace_id st
          (if enforce then ''triage-outage-enforce-block'' else ''triage-outage-warn-shadow-fail-open'')
          (Some decision) True);
        observe_triage resolved ''outage'';
        observe_decision resolved decision;
        observe_request resolved st;
        giving (json_response (pe_lib env) st body (Some advisory) (Some trace_id) None)
      })"

definition triage_hard_error_response :: "proxy_env \<Rightarrow> ResolvedRegistryConfig \<Rightarrow> string \<Rightarrow> http_response px" where
  "triage_hard_error_response env resolved trace_id = do {
     emit_proxy_audit_event env (final_request_audit_event (pe_lib env) resolved trace_id 502 ''triage-hard-error''
       (Some QuarantinePendingAnalysis) False);
     observe_triage resolved ''hard-error'';
     observe_decision resolved QuarantinePendingAnalysis;
     observe_request resolved 502;
     giving (json_response (pe_lib env) 502
       (error_body trace_id QuarantinePendingAnalysis
          ''Triage Counter returned invalid policy context and the request was blocked'')
       (Some (advisory_payload QuarantinePendingAnalysis trace_id
          ''Triage Counter returned invalid policy context; request blocked''))
       (Some trace_id) None)
   }"

definition decision_response ::
  "proxy_env \<Rightarrow> ResolvedRegistryConfig \<Rightarrow> DecisionResponse \<Rightarrow> string \<Rightarrow> PrefetchedArtifact option \<Rightarrow> http_response px" where
  "decision_response env resolved decision proxy_base prefetched_artifact =
     (let config = rv_config resolved;
          trace_id = rs_trace_id decision;
          enforced = (rg_mode config = ModeEnforce \<and> is_blocking (rs_decision decision));
          advisory = advisory_payload (rs_decision decision) trace_id (advisory_message decision);
          st = (if enforced then 403 else 200)
      in
      if rs_mode decision \<noteq> rg_mode config then triage_hard_error_response env resolved trace_id
      else do {
        emit_proxy_audit_event env (final_request_audit_event (pe_lib env) resolved trace_id st
          ''triage-decision-applied'' (Some (rs_decision decision)) False);
        observe_triage resolved ''success'';
        observe_decision resolved (rs_decision decision);
        if enforced then do {
          observe_request resolved st;
          giving (json_response (pe_lib env) st
            (error_body trace_id (rs_decision decision) ''Triage Counter returned an enforcing block decision'')
            (Some advisory) (Some trace_id) None)
        }
        else do {
          answer \<leftarrow> proxy_upstream_get env resolved decision advisory proxy_base prefetched_artifact;
          case answer of
            Inr response \<Rightarrow>
              finish_request env resolved trace_id (hr_status response) ''upstream-proxy-completed''
                (Some (rs_decision decision)) response
          | Inl e \<Rightarrow>
              finish_request env resolved trace_id 502 ''upstream-proxy-failed'' (Some (rs_decision decision))
                (json_response (pe_lib env) 502
                  (error_body trace_id QuarantinePendingAnalysis ''upstream registry request failed'')
                  None (Some trace_id) None)
        }
      })"

section \<open>Cargo configuration and API\<close>

definition proxy_cargo_registry_config ::
  "proxy_env \<Rightarrow> ResolvedRegistryConfig \<Rightarrow> string \<Rightarrow> string \<Rightarrow> (UpstreamProxyError, http_response) result px" where
  "proxy_cargo_registry_config env resolved trace_id proxy_base = do {
     let config = rv_config resolved;
     key \<leftarrow> reading px_cargo_download_mac_key;
     trying (giving (adapter_upstream_request_url (pe_lib env) key (rg_id config) (rg_adapter config)
         (rg_upstream_url config) (rg_cargo_allowed_download_origins config) (rv_upstream_path resolved))) (\<lambda>u.
     trying (get_upstream env resolved u) (\<lambda>response.
     trying (giving (response_bytes response)) (\<lambda>body. do {
       observe (ObserveUpstream (rg_tenant_id config) (rg_id config) (rg_adapter config) ''metadata'' (us_status response));
       let passthrough = (\<lambda>b. build_passthrough_upstream_response (pe_lib env) (us_status response) (us_headers response)
             b trace_id (rg_mount_path config) proxy_base);
       giving (if \<not> is_success (us_status response) then Inr (passthrough body)
         else res_bind (rewrite_cargo_registry_config (pe_lib env) key (rg_id config) (rg_mount_path config) proxy_base
             (rg_upstream_url config) (rg_cargo_allowed_download_origins config) body)
           (\<lambda>rewritten. Inr (passthrough rewritten)))
     })))
   }"

definition cargo_registry_config_response ::
  "proxy_env \<Rightarrow> ResolvedRegistryConfig \<Rightarrow> string \<Rightarrow> string \<Rightarrow> http_response px" where
  "cargo_registry_config_response env resolved trace_id proxy_base = do {
     answer \<leftarrow> proxy_cargo_registry_config env resolved trace_id proxy_base;
     case answer of
       Inr response \<Rightarrow>
         finish_request env resolved trace_id (hr_status response) ''upstream-proxy-completed'' None response
     | Inl e \<Rightarrow>
         finish_request env resolved trace_id 502 ''upstream-proxy-failed'' None
           (json_response (pe_lib env) 502
             (error_body trace_id QuarantinePendingAnalysis ''upstream registry request failed'')
             None (Some trace_id) None)
   }"

definition proxy_cargo_registry_api ::
  "proxy_env \<Rightarrow> ResolvedRegistryConfig \<Rightarrow> string \<Rightarrow> string \<Rightarrow> string \<Rightarrow> header_map \<Rightarrow> string \<Rightarrow> string option
     \<Rightarrow> (UpstreamProxyError, http_response) result px" where
  "proxy_cargo_registry_api env resolved trace_id proxy_base method request_headers request_body query = do {
     let config = rv_config resolved;
     max_artifact_bytes \<leftarrow> reading px_max_artifact_bytes;
     key \<leftarrow> reading px_cargo_download_mac_key;
     trying (giving (enforce_artifact_size_limit (pe_lib env) max_artifact_bytes request_headers (Some (length request_body)))) (\<lambda>_.
     trying (giving (ok_or InvalidCargoRegistryConfig
         (cargo_api_proxy_mount_path (rg_mount_path config) (rv_upstream_path resolved)))) (\<lambda>proxy_mount_path.
     trying (giving (cargo_api_request_url (pe_lib env) key (rg_id config) (rg_upstream_url config)
         (rv_upstream_path resolved) query)) (\<lambda>u.
     trying (send_upstream env ((upstream_client resolved method u)\<lparr>
         ur_headers := copy_cargo_api_request_headers request_headers [], ur_body := request_body\<rparr>)) (\<lambda>response.
     trying (giving (response_bytes response)) (\<lambda>body. do {
       observe (ObserveUpstream (rg_tenant_id config) (rg_id config) (rg_adapter config) ''api'' (us_status response));
       giving (Inr (build_passthrough_upstream_response (pe_lib env) (us_status response) (us_headers response) body
         trace_id proxy_mount_path proxy_base))
     })))))
   }"

definition cargo_registry_api_response ::
  "proxy_env \<Rightarrow> ResolvedRegistryConfig \<Rightarrow> string \<Rightarrow> string \<Rightarrow> string \<Rightarrow> header_map \<Rightarrow> string \<Rightarrow> string option \<Rightarrow> http_response px" where
  "cargo_registry_api_response env resolved trace_id proxy_base method request_headers request_body query = do {
     answer \<leftarrow> proxy_cargo_registry_api env resolved trace_id proxy_base method request_headers request_body query;
     case answer of
       Inr response \<Rightarrow>
         finish_request env resolved trace_id (hr_status response) ''upstream-proxy-completed'' None response
     | Inl e \<Rightarrow>
         finish_request env resolved trace_id (upstream_error_status e) ''upstream-proxy-failed'' None
           (status_response (pe_lib env) (upstream_error_status e) (Some trace_id))
   }"

definition unsupported_cargo_api_response :: "proxy_env \<Rightarrow> ResolvedRegistryConfig \<Rightarrow> string \<Rightarrow> http_response px" where
  "unsupported_cargo_api_response env resolved trace_id =
     finish_request env resolved trace_id 404 ''unsupported-cargo-api-path'' None
       (status_response (pe_lib env) 404 (Some trace_id))"

section \<open>Handlers\<close>

definition limited ::
  "proxy_env \<Rightarrow> (nat \<Rightarrow> ProxyRateLimiters \<Rightarrow> (RateLimitRejection, unit) result \<times> ProxyRateLimiters)
     \<Rightarrow> (RateLimitRejection, unit) result px" where
  "limited env check = do {
     now \<leftarrow> instant_now env;
     limiters \<leftarrow> reading px_rate_limiters;
     changing (\<lambda>s. s\<lparr>px_rate_limiters := snd (check now limiters)\<rparr>);
     giving (fst (check now limiters))
   }"

definition not_implemented_response :: "proxy_env \<Rightarrow> ResolvedRegistryConfig \<Rightarrow> string \<Rightarrow> http_response px" where
  "not_implemented_response env resolved trace_id =
     finish_request env resolved trace_id 501 ''adapter-not-implemented'' None
       (status_response (pe_lib env) 501 (Some trace_id))"

text \<open>What the three handlers of a proxied path do first.\<close>

definition with_admission ::
  "proxy_env \<Rightarrow> string \<Rightarrow> string \<Rightarrow> string \<Rightarrow> (ResolvedRegistryConfig \<Rightarrow> http_response px) \<Rightarrow> http_response px" where
  "with_admission env trace_id client_ip proxy_path handler = do {
     store \<leftarrow> reading px_registry_configs;
     case resolve store proxy_path of
       None \<Rightarrow> do {
         observe (ObserveRequest None None 404);
         giving (status_response (pe_lib env) 404 (Some trace_id))
       }
     | Some resolved \<Rightarrow> do {
         emit_proxy_audit_event env (inbound_request_audit_event (pe_lib env) resolved trace_id);
         tenant \<leftarrow> limited env (\<lambda>now. check_tenant (lib_show_uuid (pe_lib env)) now (rg_tenant_id (rv_config resolved)));
         case tenant of
           Inl rejection \<Rightarrow>
             rate_limited_response env resolved trace_id ''tenant-api'' ''tenant-rate-limit-exceeded''
               ''tenant API rate limit exceeded'' rejection
         | Inr _ \<Rightarrow> do {
             client \<leftarrow> limited env (\<lambda>now. check_client (\<lambda>ip. ip) now client_ip);
             case client of
               Inl rejection \<Rightarrow>
                 rate_limited_response env resolved trace_id ''client-package'' ''client-rate-limit-exceeded''
                   ''client package request rate limit exceeded'' rejection
             | Inr _ \<Rightarrow> handler resolved
           }
       }
   }"

text \<open>The decision on a request and the answer it leads to.\<close>

definition decided_response ::
  "proxy_env \<Rightarrow> ResolvedRegistryConfig \<Rightarrow> string \<Rightarrow> string \<Rightarrow> DecisionRequest \<Rightarrow> PrefetchedArtifact option \<Rightarrow> http_response px" where
  "decided_response env resolved trace_id proxy_base decision_request prefetched_artifact = do {
     let decision_cache_key = cache_key_for_decision (pe_lib env) decision_request;
     cached \<leftarrow> cached_decision env decision_cache_key;
     case cached of
       Some decision \<Rightarrow> do {
         observe_cache resolved ''decision'' ''hit'';
         decision_response env resolved (decision\<lparr>rs_trace_id := nr_trace_id (rq_request decision_request)\<rparr>)
           proxy_base prefetched_artifact
       }
     | None \<Rightarrow> do {
         observe_cache resolved ''decision'' ''miss'';
         answer \<leftarrow> ask_triage env decision_request;
         case answer of
           Inr decision \<Rightarrow> do {
             cache_decision env resolved decision_cache_key decision;
             decision_response env resolved decision proxy_base prefetched_artifact
           }
         | Inl e \<Rightarrow>
             if is_outage e then triage_outage_response env resolved trace_id
             else triage_hard_error_response env resolved trace_id
       }
   }"

definition with_digest :: "ArtifactDigest option \<Rightarrow> DecisionRequest \<Rightarrow> DecisionRequest" where
  "with_digest digest request = request\<lparr>rq_request := (rq_request request)\<lparr>nr_requested_digest := digest\<rparr>\<rparr>"

definition package_response ::
  "proxy_env \<Rightarrow> ResolvedRegistryConfig \<Rightarrow> string \<Rightarrow> string \<Rightarrow> string option \<Rightarrow> http_response px" where
  "package_response env resolved trace_id proxy_base request_query = do {
     let config = rv_config resolved;
     key \<leftarrow> reading px_cargo_download_mac_key;
     let source_url = map_option (lib_url_string (pe_lib env))
           (res_ok (artifact_upstream_url (pe_lib env) key resolved request_query));
     case decision_request_for_adapter (lib_semver_ok (pe_lib env)) (lib_parse_url (pe_lib env)) (rg_tenant_id config)
         (rg_id config) (rg_policy_profile_id config) (rg_adapter config) trace_id source_url (rv_upstream_path resolved) of
       Inl st \<Rightarrow>
         finish_request env resolved trace_id st ''request-normalization-failed'' None
           (status_response (pe_lib env) st (Some trace_id))
     | Inr decision_request \<Rightarrow>
         if nr_kind (rq_request decision_request) = KindArtifact then do {
           fetched \<leftarrow> fetch_upstream_artifact env resolved request_query;
           case fetched of
             Inl e \<Rightarrow>
               finish_request env resolved trace_id (upstream_error_status e) ''artifact-prefetch-failed'' None
                 (status_response (pe_lib env) (upstream_error_status e) (Some trace_id))
           | Inr prefetched \<Rightarrow>
               if rg_adapter config = AdapterCargo \<and> \<not> is_success (pf_status prefetched) then
                 finish_request env resolved trace_id (pf_status prefetched) ''upstream-artifact-miss'' None
                   (build_passthrough_upstream_response (pe_lib env) (pf_status prefetched) (pf_headers prefetched)
                     (pf_body prefetched) trace_id (rg_mount_path config) proxy_base)
               else
                 decided_response env resolved trace_id proxy_base (with_digest (pf_digest prefetched) decision_request)
                   (Some prefetched)
         }
         else decided_response env resolved trace_id proxy_base decision_request None
   }"

definition proxy_get ::
  "proxy_env \<Rightarrow> uuid \<Rightarrow> string \<Rightarrow> header_map \<Rightarrow> string option \<Rightarrow> string \<Rightarrow> http_response px" where
  "proxy_get env fresh client_ip headers request_query proxy_path =
     (let trace_id = new_proxy_trace_id (pe_lib env) fresh in
      with_admission env trace_id client_ip proxy_path (\<lambda>resolved.
        let adapter = rg_adapter (rv_config resolved);
            proxy_base = proxy_base_url (pe_lib env) headers
        in
        if \<not> is_proxy_supported adapter then not_implemented_response env resolved trace_id
        else if adapter = AdapterCargo \<and> cargo_registry_config_path (rv_upstream_path resolved) then
          cargo_registry_config_response env resolved trace_id proxy_base
        else if adapter = AdapterCargo \<and> cargo_proxy_api_path (rv_upstream_path resolved) then
          (if \<not> cargo_registry_api_request_supported (lib_semver_ok (pe_lib env)) ''GET'' (rv_upstream_path resolved)
           then unsupported_cargo_api_response env resolved trace_id
           else cargo_registry_api_response env resolved trace_id proxy_base ''GET'' headers [] request_query)
        else package_response env resolved trace_id proxy_base request_query))"

definition proxy_write ::
  "proxy_env \<Rightarrow> uuid \<Rightarrow> string \<Rightarrow> string \<Rightarrow> header_map \<Rightarrow> string option \<Rightarrow> string \<Rightarrow> string \<Rightarrow> http_response px" where
  "proxy_write env fresh method client_ip headers request_query proxy_path body =
     (let trace_id = new_proxy_trace_id (pe_lib env) fresh in
      with_admission env trace_id client_ip proxy_path (\<lambda>resolved.
        let adapter = rg_adapter (rv_config resolved) in
        if \<not> is_proxy_supported adapter then not_implemented_response env resolved trace_id
        else if adapter = AdapterCargo \<and> cargo_proxy_api_path (rv_upstream_path resolved) then
          (if \<not> cargo_registry_api_request_supported (lib_semver_ok (pe_lib env)) method (rv_upstream_path resolved)
           then unsupported_cargo_api_response env resolved trace_id
           else cargo_registry_api_response env resolved trace_id (proxy_base_url (pe_lib env) headers) method headers body
                  request_query)
        else
          finish_request env resolved trace_id 405 ''proxy-method-not-supported'' None
            (status_response (pe_lib env) 405 (Some trace_id))))"

text \<open>The answer to HEAD: the copied headers with the length, a rewritten location and the trace.\<close>

definition head_response :: "proxy_lib \<Rightarrow> ResolvedRegistryConfig \<Rightarrow> string \<Rightarrow> string \<Rightarrow> upstream_response \<Rightarrow> http_response" where
  "head_response lib resolved trace_id proxy_base response =
     (let headers = copy_safe_upstream_headers (us_headers response) [];
          headers1 = (case header_get ''content-length'' (us_headers response) of
              Some l \<Rightarrow> header_insert ''content-length'' l headers | None \<Rightarrow> headers);
          headers2 = (case Option.bind (header_get ''location'' (us_headers response)) (lib_header_to_str lib) of
              Some location \<Rightarrow> insert_if_valid lib ''location''
                (rewrite_registry_url lib (rg_mount_path (rv_config resolved)) proxy_base location) headers1
            | None \<Rightarrow> headers1)
      in \<lparr>hr_status = us_status response, hr_headers = insert_if_valid lib TRACE_HEADER trace_id headers2,
          hr_body = EmptyBody\<rparr>)"

definition proxy_head ::
  "proxy_env \<Rightarrow> uuid \<Rightarrow> string \<Rightarrow> header_map \<Rightarrow> string option \<Rightarrow> string \<Rightarrow> http_response px" where
  "proxy_head env fresh client_ip headers request_query proxy_path =
     (let trace_id = new_proxy_trace_id (pe_lib env) fresh;
          failed = (\<lambda>resolved st. finish_request env resolved trace_id st ''upstream-proxy-failed'' None
            (status_response (pe_lib env) st (Some trace_id)))
      in
      with_admission env trace_id client_ip proxy_path (\<lambda>resolved.
        if rg_adapter (rv_config resolved) \<noteq> AdapterGenericHttp then not_implemented_response env resolved trace_id
        else
          (case upstream_request_url_with_query (pe_lib env) (rg_upstream_url (rv_config resolved))
              (rv_upstream_path resolved) request_query of
             Inl e \<Rightarrow> failed resolved 502
           | Inr u \<Rightarrow>
               (case inject_upstream_credentials (pe_lib env) (upstream_client resolved ''HEAD'' u) resolved of
                  Inl e \<Rightarrow> failed resolved 503
                | Inr request \<Rightarrow> do {
                    answer \<leftarrow> send_upstream env request;
                    case answer of
                      Inl e \<Rightarrow> failed resolved 502
                    | Inr response \<Rightarrow>
                        finish_request env resolved trace_id (us_status response) ''upstream-proxy-completed'' None
                          (head_response (pe_lib env) resolved trace_id (proxy_base_url (pe_lib env) headers) response)
                  }))))"

text \<open>The reload on the state of the service, and the service as a whole.\<close>

definition proxy_reload ::
  "proxy_env \<Rightarrow> (string, registry_row list) result option \<Rightarrow> (nat \<times> nat option) px" where
  "proxy_reload env repository = do {
     store \<leftarrow> reading px_registry_configs;
     let (answer, store') = reload_registry_configs (lib_parse_url (pe_lib env)) repository store;
     changing (\<lambda>s. s\<lparr>px_registry_configs := store'\<rparr>);
     giving answer
   }"

datatype proxy_request =
    ProxyGet uuid string header_map "string option" string
  | ProxyHead uuid string header_map "string option" string
  | ProxyWrite uuid string string header_map "string option" string string

fun request_path :: "proxy_request \<Rightarrow> string" where
  "request_path (ProxyGet fresh ip headers query path) = path"
| "request_path (ProxyHead fresh ip headers query path) = path"
| "request_path (ProxyWrite fresh method ip headers query path body) = path"

fun proxy_handler :: "proxy_env \<Rightarrow> proxy_request \<Rightarrow> http_response px" where
  "proxy_handler env (ProxyGet fresh ip headers query path) = proxy_get env fresh ip headers query path"
| "proxy_handler env (ProxyHead fresh ip headers query path) = proxy_head env fresh ip headers query path"
| "proxy_handler env (ProxyWrite fresh method ip headers query path body) =
     proxy_write env fresh method ip headers query path body"

inductive proxy_reachable :: "proxy_env \<Rightarrow> ProxyAppState \<Rightarrow> bool" for env where
  start: "proxy_state_new store client limits max_bytes key = Some s \<Longrightarrow> proxy_reachable env s"
| request: "proxy_reachable env s \<Longrightarrow> run_state (proxy_handler env request) s = (response, s') \<Longrightarrow> proxy_reachable env s'"
| reload: "proxy_reachable env s \<Longrightarrow> run_state (proxy_reload env rows) s = (answer, s') \<Longrightarrow> proxy_reachable env s'"

section \<open>The invariant\<close>

lemma keeps_finish [ensures_intros]:
  "keeps (proxy_inv env store M) (observe_request resolved st)"
  "keeps (proxy_inv env store M) (observe_decision resolved decision)"
  "keeps (proxy_inv env store M) (finish_request env' resolved trace st outcome decision' response)"
  unfolding observe_request_def observe_decision_def finish_request_def by (intro ensures_intros)+

lemma keeps_limited [ensures_intros]: "keeps (proxy_inv env store M) (limited env' check)"
  unfolding limited_def by (intro ensures_intros keeps_changing_frame) simp_all

lemma keeps_answers [ensures_intros]:
  "keeps (proxy_inv env store M) (rate_limited_response env' resolved trace limiter outcome message rejection)"
  "keeps (proxy_inv env store M) (triage_outage_response env' resolved trace)"
  "keeps (proxy_inv env store M) (triage_hard_error_response env' resolved trace)"
  "keeps (proxy_inv env store M) (unsupported_cargo_api_response env' resolved trace)"
  "keeps (proxy_inv env store M) (not_implemented_response env' resolved trace)"
  "keeps (proxy_inv env store M) (cargo_registry_config_response env' resolved trace proxy_base)"
  "keeps (proxy_inv env store M) (cargo_registry_api_response env' resolved trace proxy_base method headers body query)"
  unfolding rate_limited_response_def triage_outage_response_def triage_hard_error_response_def
    unsupported_cargo_api_response_def not_implemented_response_def cargo_registry_config_response_def
    cargo_registry_api_response_def proxy_cargo_registry_config_def proxy_cargo_registry_api_def
  by (intro ensures_intros)+

lemma ensures_finish: "R response \<Longrightarrow> ensures (proxy_inv env store M) (finish_request env' resolved trace st outcome decision response) R"
  unfolding finish_request_def by (intro ensures_bind [OF keeps_effects(6)] ensures_bind [OF keeps_finish(1)] ensures_giving)

text \<open>Statuses of the answers that are not content.\<close>

lemma response_parts [simp]:
  "hr_status (json_response lib st body advisory trace retry) = st"
  "hr_body (json_response lib st body advisory trace retry) = JsonBody body"
  "hr_status (status_response lib st trace) = st" "hr_body (status_response lib st trace) = EmptyBody"
  "hr_status (build_upstream_response lib st headers b adv d mount base) = st"
  "hr_body (build_upstream_response lib st headers b adv d mount base) = BytesBody b"
  "hr_status (build_passthrough_upstream_response lib st headers b tr mount base) = st"
  "hr_body (build_passthrough_upstream_response lib st headers b tr mount base) = BytesBody b"
  by (simp_all add: json_response_def status_response_def with_common_headers_def Let_def
      build_upstream_response_def build_passthrough_upstream_response_def)

text \<open>An answer that hands something out.\<close>

definition hands_out :: "http_response \<Rightarrow> bool" where
  "hands_out response = (is_success (hr_status response) \<or> (\<exists>body. hr_body response = BytesBody body))"

lemma upstream_error_not_success [simp]: "\<not> is_success (upstream_error_status e)"
  by (cases e) (simp_all add: is_success_def)

lemma triage_hard_not_out:
  "ensures (proxy_inv env store M) (triage_hard_error_response env resolved trace) (\<lambda>response. \<not> hands_out response)"
  unfolding triage_hard_error_response_def
  by (intro ensures_bind [OF keeps_effects(6)] ensures_bind [OF keeps_observe_triage] ensures_bind [OF keeps_finish(2)]
      ensures_bind [OF keeps_finish(1)] ensures_giving) (simp add: hands_out_def is_success_def)

lemma triage_outage_not_out:
  assumes "rg_mode (rv_config resolved) = ModeEnforce"
  shows "ensures (proxy_inv env store M) (triage_outage_response env resolved trace) (\<lambda>response. \<not> hands_out response)"
  unfolding triage_outage_response_def Let_def
  by (intro ensures_bind [OF keeps_effects(6)] ensures_bind [OF keeps_observe_triage] ensures_bind [OF keeps_finish(2)]
      ensures_bind [OF keeps_finish(1)] ensures_giving) (simp add: assms hands_out_def is_success_def)

lemma decision_response_gate:
  assumes "rg_mode (rv_config resolved) = ModeEnforce"
  shows "ensures (proxy_inv env store M) (decision_response env resolved d proxy_base prefetched)
    (\<lambda>response. hands_out response \<longrightarrow> rs_mode d = ModeEnforce \<and> \<not> is_blocking (rs_decision d)
       \<and> (\<exists>body. hr_body response = BytesBody body \<and> (\<forall>pf. prefetched = Some pf \<longrightarrow> body = pf_body pf)))"
  unfolding decision_response_def Let_def
  apply (rule ensures_if)
   apply (rule ensures_weaken [OF triage_hard_not_out], simp)
  apply (rule ensures_bind [OF keeps_effects(6)], rule ensures_bind [OF keeps_observe_triage],
      rule ensures_bind [OF keeps_finish(2)])
  apply (rule ensures_if)
   apply (rule ensures_bind [OF keeps_finish(1)], rule ensures_giving)
   apply (simp add: assms hands_out_def is_success_def)
  apply (rule ensures_bind [OF proxy_upstream_get_content])
  apply (rule ensures_sum; rule ensures_finish)
   apply (simp add: hands_out_def is_success_def)
  apply (use assms in auto)
  done

lemma keeps_decision_response [ensures_intros]:
  "keeps (proxy_inv env store M) (decision_response env resolved d proxy_base prefetched)"
  unfolding decision_response_def
  by (intro ensures_intros keeps_weaken [OF proxy_upstream_get_content])

text \<open>A decision is obtained, and cached, for a well-formed request only.\<close>

lemma decided_response_from:
  assumes wf: "request_wf q"
    and decision: "\<And>d trace. triaged env (cache_key_for_decision (pe_lib env) q) d \<Longrightarrow>
      ensures (proxy_inv env store M) (decision_response env resolved (d\<lparr>rs_trace_id := trace\<rparr>) proxy_base prefetched) R"
    and outage: "ensures (proxy_inv env store M) (triage_outage_response env resolved trace_id) R"
    and hard: "ensures (proxy_inv env store M) (triage_hard_error_response env resolved trace_id) R"
  shows "ensures (proxy_inv env store M) (decided_response env resolved trace_id proxy_base q prefetched) R"
proof -
  have fresh: "ensures (proxy_inv env store M) (decision_response env resolved d proxy_base prefetched) R"
    if "triaged env (cache_key_for_decision (pe_lib env) q) d" for d
    using decision [OF that, of "rs_trace_id d"] by simp
  show ?thesis
    unfolding decided_response_def
    apply (rule ensures_Let)
    apply (rule ensures_bind [OF cached_decision_triaged])
    apply (rule ensures_option)
     apply (rule ensures_bind [OF keeps_effects(5)])
     apply (rule ensures_bind [OF ask_triage_answered])
     apply (rule ensures_sum)
      apply (rule ensures_if [OF outage hard])
     apply (rule ensures_bind [OF cache_decision_keeps])
      apply (use wf answered_triaged in blast)
     apply (rule fresh)
     apply (use wf answered_triaged in blast)
    apply (rule ensures_bind [OF keeps_effects(5)])
    apply (rule decision)
    apply simp
    done
qed

lemma decided_response_gate:
  assumes "request_wf q" "rg_mode (rv_config resolved) = ModeEnforce"
  shows "ensures (proxy_inv env store M) (decided_response env resolved trace_id proxy_base q prefetched)
    (\<lambda>response. hands_out response \<longrightarrow> approved env resolved q
       \<and> (\<exists>body. hr_body response = BytesBody body \<and> (\<forall>pf. prefetched = Some pf \<longrightarrow> body = pf_body pf)))"
proof (rule decided_response_from [OF assms(1)])
  fix d trace
  assume t: "triaged env (cache_key_for_decision (pe_lib env) q) d"
  show "ensures (proxy_inv env store M) (decision_response env resolved (d\<lparr>rs_trace_id := trace\<rparr>) proxy_base prefetched)
      (\<lambda>response. hands_out response \<longrightarrow> approved env resolved q
       \<and> (\<exists>body. hr_body response = BytesBody body \<and> (\<forall>pf. prefetched = Some pf \<longrightarrow> body = pf_body pf)))"
    using t by (intro ensures_weaken [OF decision_response_gate [OF assms(2)]]) (auto simp: approved_def assms(2))
qed (intro ensures_weaken [OF triage_outage_not_out [OF assms(2)]] ensures_weaken [OF triage_hard_not_out]; simp)+

text \<open>The request that a path is decided under: the one the adapter derives from it, with the digest of the
  bytes at hand for an artifact.\<close>

definition path_request :: "proxy_env \<Rightarrow> ResolvedRegistryConfig \<Rightarrow> string \<Rightarrow> DecisionRequest \<Rightarrow> bool" where
  "path_request env resolved trace_id q =
     (\<exists>source_url. decision_request_for_adapter (lib_semver_ok (pe_lib env)) (lib_parse_url (pe_lib env))
        (rg_tenant_id (rv_config resolved)) (rg_id (rv_config resolved)) (rg_policy_profile_id (rv_config resolved))
        (rg_adapter (rv_config resolved)) trace_id source_url (rv_upstream_path resolved) = Inr q)"

definition served_request ::
  "proxy_env \<Rightarrow> nat \<Rightarrow> ResolvedRegistryConfig \<Rightarrow> string \<Rightarrow> string \<Rightarrow> DecisionRequest \<Rightarrow> bool" where
  "served_request env M resolved trace_id body q =
     (\<exists>q0. path_request env resolved trace_id q0
        \<and> (if nr_kind (rq_request q0) = KindArtifact
           then \<exists>d. q = with_digest (Some d) q0 \<and> digest_wf d \<and> artifact_ok (pe_lib env) M (dg_hex d) body
           else q = q0))"

lemma path_request_digest: "path_request env resolved trace q \<Longrightarrow> nr_requested_digest (rq_request q) = None"
  by (auto simp: path_request_def decision_request_for_adapter_def res_bind_eq_Inr)

lemma package_response_gate:
  assumes "rg_mode (rv_config resolved) = ModeEnforce"
  shows "ensures (proxy_inv env store M) (package_response env resolved trace_id proxy_base query)
    (\<lambda>response. hands_out response \<longrightarrow>
       rg_adapter (rv_config resolved) = AdapterCargo \<and> \<not> is_success (hr_status response)
       \<or> (\<exists>body q. hr_body response = BytesBody body \<and> served_request env M resolved trace_id body q \<and> approved env resolved q))"
  (is "ensures ?I _ ?R")
proof -
  have err: "ensures ?I (finish_request env resolved trace_id st outcome None (status_response (pe_lib env) st (Some trace_id))) ?R"
    if "\<not> is_success st" for st outcome
    by (rule ensures_finish) (simp add: hands_out_def that)
  have ctx: "\<not> is_success st" if "decision_request_for_adapter a b c d e f g h i = Inl st" for a b c d e f g h i st
    using decision_request_error_status [OF that] by (auto simp: is_success_def bad_request_def not_implemented_def)
  show ?thesis
    unfolding package_response_def
    apply (rule ensures_Let)
    apply (rule ensures_bind [OF keeps_reading])
    apply (rule ensures_Let)
    apply (rule ensures_sum)
     apply (rule err)
     apply (erule ctx)
    apply (rule ensures_if)
     apply (rule ensures_bind [OF fetch_upstream_artifact_ok])
     apply (rule ensures_sum)
      apply (rule err, simp)
     apply (rule ensures_if)
      apply (rule ensures_finish, simp)
    subgoal for config key source q0 fetched pf
      apply (rule ensures_weaken [OF decided_response_gate [OF _ assms]])
       apply (auto simp: prefetched_ok_def request_wf_def with_digest_def split: option.splits) []
      apply (auto simp: prefetched_ok_def served_request_def path_request_def split: option.splits)
      done
    subgoal premises prems for config key source q0
    proof -
      have q0: "path_request env resolved trace_id q0" using prems by (auto simp: path_request_def)
      then have "request_wf q0" by (simp add: request_wf_def path_request_digest)
      from decided_response_gate [OF this assms] show ?thesis
        by (rule ensures_weaken) (use q0 prems in \<open>auto simp: served_request_def\<close>)
    qed
    done
qed

lemma ensures_with_admission:
  assumes "resolve store path = Some resolved"
    and "\<And>limiter outcome message rejection. ensures (proxy_inv env store M)
      (rate_limited_response env' resolved trace limiter outcome message rejection) R"
    and "ensures (proxy_inv env store M) (handler resolved) R"
  shows "ensures (proxy_inv env store M) (with_admission env' trace ip path handler) R"
proof -
  have store: "ensures (proxy_inv env store M) (reading px_registry_configs) (\<lambda>x. x = store)"
    by (rule ensures_reading) (simp add: proxy_inv_def)
  show ?thesis
    unfolding with_admission_def
    by (rule ensures_bind [OF store], simp add: assms(1))
      (intro ensures_bind [OF keeps_effects(6)] ensures_bind [OF keeps_limited] ensures_sum assms(2,3))
qed

lemma rate_limited_not_out:
  "ensures (proxy_inv env store M) (rate_limited_response env' resolved trace limiter outcome message rejection)
     (\<lambda>response. \<not> hands_out response)"
  unfolding rate_limited_response_def
  by (intro ensures_bind [OF keeps_effects(6)] ensures_bind [OF keeps_finish(1)] ensures_bind [OF keeps_effects(2)]
      ensures_giving) (simp add: hands_out_def is_success_def)

text \<open>Content that is handed out without a decision: the configuration and the API of a Cargo registry, and the
  error pages of its downloads.\<close>

definition cargo_exempt :: "ResolvedRegistryConfig \<Rightarrow> http_response \<Rightarrow> bool" where
  "cargo_exempt resolved response =
     (rg_adapter (rv_config resolved) = AdapterCargo
      \<and> (cargo_registry_config_path (rv_upstream_path resolved) \<or> cargo_proxy_api_path (rv_upstream_path resolved)
         \<or> \<not> is_success (hr_status response)))"

lemma proxy_get_gate:
  assumes res: "resolve store path = Some resolved" and enforce: "rg_mode (rv_config resolved) = ModeEnforce"
  shows "ensures (proxy_inv env store M) (proxy_get env fresh ip headers query path)
    (\<lambda>response. hands_out response \<and> \<not> cargo_exempt resolved response \<longrightarrow>
       (\<exists>body q. hr_body response = BytesBody body
          \<and> served_request env M resolved (new_proxy_trace_id (pe_lib env) fresh) body q \<and> approved env resolved q))"
  (is "ensures ?I _ ?R")
proof -
  have exempt: "ensures ?I m ?R" if "keeps ?I m" "rg_adapter (rv_config resolved) = AdapterCargo"
      "cargo_registry_config_path (rv_upstream_path resolved) \<or> cargo_proxy_api_path (rv_upstream_path resolved)" for m
    by (rule ensures_weaken [OF that(1)]) (use that(2,3) in \<open>auto simp: cargo_exempt_def\<close>)
  have fails: "ensures ?I (finish_request env resolved trace st outcome None (status_response (pe_lib env) st (Some trace))) ?R"
    if "\<not> is_success st" for st outcome trace
    by (rule ensures_finish) (simp add: hands_out_def that)
  have unimplemented: "ensures ?I (not_implemented_response env resolved trace) ?R" for trace
    unfolding not_implemented_response_def by (rule fails) (simp add: is_success_def)
  show ?thesis
    unfolding proxy_get_def
    apply (rule ensures_Let, rule ensures_with_admission [OF res])
     apply (rule ensures_weaken [OF rate_limited_not_out], simp)
    apply (rule ensures_Let, rule ensures_Let, rule ensures_if [OF unimplemented], rule ensures_if)
     apply (rule exempt, rule keeps_answers, simp, simp)
    apply (rule ensures_if)
     apply (rule exempt, intro ensures_intros, simp, simp)
    apply (rule ensures_weaken [OF package_response_gate [OF enforce]])
    apply (auto simp: cargo_exempt_def)
    done
qed

lemma keeps_package_response [ensures_intros]:
  "keeps (proxy_inv env store M) (package_response env resolved trace_id proxy_base query)"
proof -
  let ?I = "proxy_inv env store M"
  have decided: "keeps ?I (decided_response env resolved trace_id proxy_base q prefetched)" if "request_wf q" for q prefetched
    by (rule decided_response_from [OF that]) (intro ensures_intros)+
  show ?thesis
    unfolding package_response_def
    apply (rule ensures_Let, rule ensures_bind [OF keeps_reading], rule ensures_Let, rule ensures_sum, rule keeps_finish)
    apply (rule ensures_if, rule ensures_bind [OF fetch_upstream_artifact_ok], rule ensures_sum, rule keeps_finish)
     apply (rule ensures_if, rule keeps_finish, rule decided)
     apply (auto simp: prefetched_ok_def request_wf_def with_digest_def split: option.splits) []
    apply (rule decided)
    apply (auto simp: request_wf_def decision_request_for_adapter_def res_bind_eq_Inr)
    done
qed

lemma keeps_with_admission [ensures_intros]:
  "(\<And>resolved. keeps (proxy_inv env store M) (handler resolved)) \<Longrightarrow>
   keeps (proxy_inv env store M) (with_admission env' trace ip path handler)"
  unfolding with_admission_def by (intro ensures_intros)

lemma keeps_proxy_handler: "keeps (proxy_inv env store M) (proxy_handler env request)"
proof (cases request)
  case (ProxyGet fresh ip headers query path)
  then show ?thesis by (simp add: proxy_get_def) (intro ensures_intros)
next
  case (ProxyHead fresh ip headers query path)
  then show ?thesis by (simp add: proxy_head_def) (intro ensures_intros)
next
  case (ProxyWrite fresh verb ip headers query path body)
  then show ?thesis by (simp add: proxy_write_def) (intro ensures_intros)
qed

lemma proxy_reachable_inv:
  assumes "proxy_reachable env s"
  shows "proxy_inv env (px_registry_configs s) (px_max_artifact_bytes s) s"
  using assms
proof induction
  case (start store client limits max_bytes key s)
  then have "proxy_inv env store max_bytes s" by (rule proxy_inv_new)
  then show ?case by (simp add: proxy_inv_def)
next
  case (request s request response s')
  from ensuresD [OF keeps_proxy_handler request.IH request.hyps(2)]
  show ?case by (simp add: proxy_inv_def)
next
  case (reload s rows answer s')
  then have "px_caches s' = px_caches s \<and> px_max_artifact_bytes s' = px_max_artifact_bytes s"
    by (auto simp: proxy_reload_def run_bind case_prod_unfold Let_def)
  with reload.IH show ?case by (simp add: proxy_inv_def)
qed

section \<open>Audit\<close>

text \<open>The last audit event says how the request was answered.\<close>

definition completed :: "http_response \<Rightarrow> ProxyAppState \<Rightarrow> bool" where
  "completed response s =
     (\<exists>event earlier. px_audit_events s = earlier @ [event] \<and> ae_action event = ''proxy.request.completed''
        \<and> map_of (ae_metadata event) ''status_code'' = Some (JNumber (of_nat (hr_status response))))"

text \<open>Lower-casing leaves lower-case ASCII alone.\<close>

definition lower_ok :: "(string \<Rightarrow> string) \<Rightarrow> bool" where
  "lower_ok lower = (\<forall>k. list_all (\<lambda>c. is_ascii_lowercase c \<or> c = CHR ''_'') k \<longrightarrow> lower k = k)"

definition reports :: "http_response px \<Rightarrow> bool" where
  "reports m = (\<forall>s. completed (fst (run_state m s)) (snd (run_state m s)))"

definition has_status :: "status \<Rightarrow> http_response px \<Rightarrow> bool" where
  "has_status st m = (\<forall>s. hr_status (fst (run_state m s)) = st)"

lemma has_status_intros:
  "hr_status response = st \<Longrightarrow> has_status st (giving response)"
  "(\<And>a. has_status st (f a)) \<Longrightarrow> has_status st (State_Monad.bind m f)"
  by (simp_all add: has_status_def case_prod_unfold)

named_theorems reports_intros \<open>rules that derive reports from the parts\<close>

lemma reports_bind: "(\<And>a. reports (f a)) \<Longrightarrow> reports (State_Monad.bind m f)"
  unfolding reports_def run_bind by blast

lemma reports_if [reports_intros]: "(b \<Longrightarrow> reports m) \<Longrightarrow> (\<not> b \<Longrightarrow> reports n) \<Longrightarrow> reports (if b then m else n)"
  by simp

lemma reports_option [reports_intros]:
  "reports m \<Longrightarrow> (\<And>a. reports (f a)) \<Longrightarrow> reports (case x of None \<Rightarrow> m | Some a \<Rightarrow> f a)"
  by (cases x) simp_all

lemma reports_sum [reports_intros]:
  "(\<And>e. reports (g e)) \<Longrightarrow> (\<And>a. reports (f a)) \<Longrightarrow> reports (case x of Inl e \<Rightarrow> g e | Inr a \<Rightarrow> f a)"
  by (cases x) simp_all

lemma reports_Let [reports_intros]: "(\<And>a. reports (f a)) \<Longrightarrow> reports (let a = x in f a)"
  by simp

lemma sensitive_key_lower:
  "lower k = k \<Longrightarrow> is_sensitive_metadata_key lower k = is_sensitive_metadata_key (\<lambda>x. x) k"
  by (simp add: is_sensitive_metadata_key_def)

definition final_event_keys :: "string list" where
  "final_event_keys = [''adapter'', ''decision'', ''mode'', ''mount_path'', ''outcome'', ''status_code'',
     ''triage_unavailable'', ''upstream_path'']"

lemma final_event_keys_plain:
  "list_all (\<lambda>k. list_all (\<lambda>c. is_ascii_lowercase c \<or> c = CHR ''_'') k \<and> \<not> is_sensitive_metadata_key (\<lambda>x. x) k)
     final_event_keys"
  by code_simp

lemma adapter_json_keys: "value_keys (adapter_json a) = []"
  by (cases a) simp_all

lemma mode_json_keys: "value_keys (mode_json m) = []"
  by (cases m) simp_all

lemma decision_json_keys: "value_keys (decision_json d) = []"
  by (cases d) simp_all

lemma final_event_accepted:
  assumes "lower_ok lower"
  shows "validate_audit_metadata lower
    (ae_metadata (final_request_audit_event lib resolved trace st outcome decision unavailable)) = Inr ()"
proof -
  let ?m = "ae_metadata (final_request_audit_event lib resolved trace st outcome decision unavailable)"
  have "set (field_keys ?m) \<subseteq> set final_event_keys"
    by (cases decision)
      (simp_all add: final_request_audit_event_def build_audit_event_def Let_def adapter_json_keys mode_json_keys
        decision_json_keys final_event_keys_def)
  moreover have "\<not> is_sensitive_metadata_key lower k" if "k \<in> set final_event_keys" for k
  proof -
    from that final_event_keys_plain have "list_all (\<lambda>c. is_ascii_lowercase c \<or> c = CHR ''_'') k"
      and s: "\<not> is_sensitive_metadata_key (\<lambda>x. x) k" by (auto simp: list_all_iff)
    with assms have "lower k = k" by (simp add: lower_ok_def)
    from sensitive_key_lower [of lower, OF this] s show ?thesis by blast
  qed
  ultimately have "find_sensitive_metadata_path lower ?m ''metadata'' = None"
    unfolding find_sensitive_None(2) by blast
  then show ?thesis by (simp add: validate_audit_metadata_def)
qed

lemma reports_emit:
  assumes "lower_ok (pe_lower env)" "silent m" "has_status st m"
  shows "reports (State_Monad.bind
    (emit_proxy_audit_event env (final_request_audit_event lib resolved trace st outcome decision unavailable)) (\<lambda>_. m))"
  unfolding reports_def
proof
  fix s :: ProxyAppState
  let ?e = "final_request_audit_event lib resolved trace st outcome decision unavailable"
  let ?s = "s\<lparr>px_audit_events := px_audit_events s @ [?e]\<rparr>"
  have "run_state (State_Monad.bind (emit_proxy_audit_event env ?e) (\<lambda>_. m)) s = run_state m ?s"
    by (simp add: emit_proxy_audit_event_def final_event_accepted [OF assms(1)])
  moreover have "px_audit_events (snd (run_state m ?s)) = px_audit_events s @ [?e]"
    using assms(2) by (simp add: frames_def)
  moreover have "ae_action ?e = ''proxy.request.completed''"
    "map_of (ae_metadata ?e) ''status_code'' = Some (JNumber (of_nat st))"
    by (simp_all add: final_request_audit_event_def build_audit_event_def Let_def split: option.split)
  ultimately show "completed (fst (run_state (State_Monad.bind (emit_proxy_audit_event env ?e) (\<lambda>_. m)) s))
      (snd (run_state (State_Monad.bind (emit_proxy_audit_event env ?e) (\<lambda>_. m)) s))"
    using assms(3) by (auto simp: completed_def has_status_def)
qed

lemma silent_observations [silent_intros]:
  "silent (observe_request resolved st)" "silent (observe_decision resolved decision)" "silent (observe_triage resolved outcome)"
  unfolding observe_request_def observe_decision_def observe_triage_def by (intro silent_intros)+

lemma reports_finish [reports_intros]:
  "lower_ok (pe_lower env) \<Longrightarrow> hr_status response = st \<Longrightarrow> reports (finish_request env resolved trace st outcome decision response)"
  unfolding finish_request_def by (intro reports_emit silent_intros has_status_intros)

lemma reports_answers [reports_intros]:
  assumes "lower_ok (pe_lower env)"
  shows "reports (rate_limited_response env resolved trace limiter outcome message rejection)"
    "reports (triage_outage_response env resolved trace)" "reports (triage_hard_error_response env resolved trace)"
    "reports (unsupported_cargo_api_response env resolved trace)" "reports (not_implemented_response env resolved trace)"
  unfolding rate_limited_response_def triage_outage_response_def triage_hard_error_response_def
    unsupported_cargo_api_response_def not_implemented_response_def
  by (intro reports_intros reports_emit [OF assms] silent_intros has_status_intros assms; simp)+

lemma reports_decision_response [reports_intros]:
  assumes "lower_ok (pe_lower env)"
  shows "reports (decision_response env resolved d proxy_base prefetched)"
proof (cases "rg_mode (rv_config resolved) = ModeEnforce \<and> is_blocking (rs_decision d)")
  case True
  then show ?thesis
    unfolding decision_response_def Let_def
    by simp (intro conjI impI reports_answers(3) reports_emit silent_intros has_status_intros assms; simp)
next
  case False
  then show ?thesis
    unfolding decision_response_def Let_def if_not_P [OF False]
    by (intro reports_if reports_answers(3) reports_bind reports_sum reports_finish assms; simp)
qed

lemma reports_with_admission:
  assumes "lower_ok (pe_lower env)" "resolve (px_registry_configs s) path = Some resolved" "\<And>resolved. reports (handler resolved)"
    "run_state (with_admission env trace ip path handler) s = (response, s')"
  shows "completed response s'"
proof -
  let ?rest = "\<lambda>resolved. do {
         emit_proxy_audit_event env (inbound_request_audit_event (pe_lib env) resolved trace);
         tenant \<leftarrow> limited env (\<lambda>now. check_tenant (lib_show_uuid (pe_lib env)) now (rg_tenant_id (rv_config resolved)));
         case tenant of
           Inl rejection \<Rightarrow>
             rate_limited_response env resolved trace ''tenant-api'' ''tenant-rate-limit-exceeded''
               ''tenant API rate limit exceeded'' rejection
         | Inr _ \<Rightarrow> do {
             client \<leftarrow> limited env (\<lambda>now. check_client (\<lambda>ip. ip) now ip);
             case client of
               Inl rejection \<Rightarrow>
                 rate_limited_response env resolved trace ''client-package'' ''client-rate-limit-exceeded''
                   ''client package request rate limit exceeded'' rejection
             | Inr _ \<Rightarrow> handler resolved
           }
       }"
  have "reports (?rest resolved)" for resolved
    by (intro reports_bind reports_sum reports_answers(1) assms(1,3))
  moreover have "run_state (?rest resolved) s = (response, s')"
    using assms(4) by (simp add: with_admission_def assms(2))
  ultimately show ?thesis unfolding reports_def by (metis fst_conv snd_conv)
qed

lemma reports_package_response:
  assumes "lower_ok (pe_lower env)"
  shows "reports (package_response env resolved trace proxy_base query)"
  unfolding package_response_def decided_response_def
  by (intro reports_intros reports_bind assms; simp)

lemma reports_cargo [reports_intros]:
  assumes "lower_ok (pe_lower env)"
  shows "reports (cargo_registry_config_response env resolved trace proxy_base)"
    "reports (cargo_registry_api_response env resolved trace proxy_base method headers body query)"
  unfolding cargo_registry_config_response_def cargo_registry_api_response_def
  by (intro reports_intros reports_bind assms; simp)+

section \<open>Properties\<close>

lemma proxy_key_separates:
  assumes "uuid_display_ok (lib_show_uuid lib)" "cache_key_for_decision lib q = cache_key_for_decision lib q'"
    "request_wf q" "request_wf q'"
  shows "rq_tenant_id q = rq_tenant_id q' \<and> rq_registry_config_id q = rq_registry_config_id q'
    \<and> nr_kind (rq_request q) = nr_kind (rq_request q')
    \<and> purl (nr_coordinate (rq_request q)) = purl (nr_coordinate (rq_request q'))
    \<and> map_option dg_hex (nr_requested_digest (rq_request q)) = map_option dg_hex (nr_requested_digest (rq_request q'))"
proof -
  have key: "cache_key_for_decision lib x = decision_cache_key (lib_show_uuid lib) x @ CHR '':''
      # show_bool (nr_explicit_version_or_integrity (rq_request x))" for x
    by (cases "nr_kind (rq_request x)") (simp_all add: cache_key_for_decision_def decision_cache_key_def)
  have "decision_cache_key (lib_show_uuid lib) q = decision_cache_key (lib_show_uuid lib) q'"
    by (rule conjunct1 [OF colon_suffix_eq [OF assms(2) [unfolded key]]]) (simp_all add: show_bool_def)
  from decision_cache_key_separates [OF assms(1) this] assms(3,4) show ?thesis
    by (simp add: request_wf_def)
qed

text \<open>C2: in enforce mode nothing is handed out that the Triage Counter did not let pass. In every reachable
  state of the proxy, if a GET request is answered with success or with content of the upstream, other than
  the configuration, the API or an error page of a Cargo registry, then the answer is content, and the Triage
  Counter answered, in enforce mode and without a block, a request of this tenant and registry for the package
  of the path; and if the path names an artifact, that request carried the SHA-256 digest of exactly the bytes
  handed out, which are within the size limit. An unavailable Triage Counter, an invalid answer, a wrong
  mode and an exceeded rate limit therefore all fail closed.\<close>

theorem enforced_content_is_approved:
  assumes "proxy_reachable env s" and "uuid_display_ok (lib_show_uuid (pe_lib env))"
    and "resolve (px_registry_configs s) path = Some resolved" and "rg_mode (rv_config resolved) = ModeEnforce"
    and "run_state (proxy_get env fresh ip headers query path) s = (response, s')"
    and "hands_out response" and "\<not> cargo_exempt resolved response"
  shows "\<exists>body q0 q d. hr_body response = BytesBody body
    \<and> path_request env resolved (new_proxy_trace_id (pe_lib env) fresh) q0
    \<and> answered env q d \<and> rs_mode d = ModeEnforce \<and> \<not> is_blocking (rs_decision d)
    \<and> rq_tenant_id q = rg_tenant_id (rv_config resolved) \<and> rq_registry_config_id q = rg_id (rv_config resolved)
    \<and> nr_kind (rq_request q) = nr_kind (rq_request q0)
    \<and> purl (nr_coordinate (rq_request q)) = purl (nr_coordinate (rq_request q0))
    \<and> (nr_kind (rq_request q0) = KindArtifact \<longrightarrow> length body \<le> px_max_artifact_bytes s
         \<and> (\<exists>h. sha256_digest (pe_lib env) body = Inr h
               \<and> map_option dg_hex (nr_requested_digest (rq_request q)) = Some (dg_hex h)))"
proof -
  from ensuresD [OF proxy_get_gate [OF assms(3,4)] proxy_reachable_inv [OF assms(1)] assms(5)] assms(6,7)
  obtain body q1 where body: "hr_body response = BytesBody body"
    and served: "served_request env (px_max_artifact_bytes s) resolved (new_proxy_trace_id (pe_lib env) fresh) body q1"
    and approved: "approved env resolved q1" by blast
  from approved obtain d q where d: "answered env q d" "rs_mode d = ModeEnforce" "\<not> is_blocking (rs_decision d)"
    and q: "request_wf q" "cache_key_for_decision (pe_lib env) q = cache_key_for_decision (pe_lib env) q1"
    using assms(4) by (auto simp: approved_def triaged_def)
  from served obtain q0 where q0: "path_request env resolved (new_proxy_trace_id (pe_lib env) fresh) q0"
    and q1: "if nr_kind (rq_request q0) = KindArtifact
        then \<exists>d. q1 = with_digest (Some d) q0 \<and> digest_wf d \<and> artifact_ok (pe_lib env) (px_max_artifact_bytes s) (dg_hex d) body
        else q1 = q0" by (auto simp: served_request_def)
  have ids: "rq_tenant_id q0 = rg_tenant_id (rv_config resolved)" "rq_registry_config_id q0 = rg_id (rv_config resolved)"
    using q0 by (auto simp: path_request_def decision_request_for_adapter_def res_bind_eq_Inr)
  have "request_wf q1"
    using q1 path_request_digest [OF q0] by (auto simp: request_wf_def with_digest_def split: if_splits)
  from proxy_key_separates [OF assms(2) q(2,1) this] show ?thesis
    using body q0 d ids q1
    by (intro exI [of _ body] exI [of _ q0] exI [of _ q] exI [of _ d])
      (auto simp: with_digest_def artifact_ok_def split: if_splits)
qed

text \<open>C13: what the caches of the proxy hold, in every reachable state. A cached decision was given by the Triage
  Counter, for the tenant, profile and trace it was asked about, to a request with the key it is cached under;
  a cached artifact was a successful answer, its SHA-256 digest is the key it is cached under, and it is
  within the size limit.\<close>

theorem proxy_caches_sound:
  assumes "proxy_reachable env s"
  shows "(case ch_decisions (px_caches s) key of
      None \<Rightarrow> True
    | Some entry \<Rightarrow> \<exists>q. cache_key_for_decision (pe_lib env) q = key \<and> answered env q (pd_response entry))
   \<and> (case ch_artifact_by_digest (px_caches s) digest_hex of
      None \<Rightarrow> True
    | Some artifact \<Rightarrow> is_success (cu_status artifact) \<and> length (cu_body artifact) \<le> px_max_artifact_bytes s
        \<and> (\<exists>d. sha256_digest (pe_lib env) (cu_body artifact) = Inr d \<and> dg_hex d = digest_hex))"
  using proxy_reachable_inv [OF assms]
  by (auto simp: proxy_inv_def triaged_def artifact_ok_def split: option.split)

text \<open>C14: every answer on a configured path is accounted for: when a handler has answered a request whose path
  belongs to a registry, the last audit event of the proxy is the completion event of a request, and the
  status it records is the status of the answer.\<close>

theorem answers_are_audited:
  assumes "lower_ok (pe_lower env)" and "resolve (px_registry_configs s) (request_path request) = Some resolved"
    and "run_state (proxy_handler env request) s = (response, s')"
  shows "completed response s'"
proof (cases request)
  case (ProxyGet fresh ip headers query path)
  from assms ProxyGet show ?thesis
    by (simp add: proxy_get_def Let_def)
      (rule reports_with_admission [OF assms(1)],
        auto intro!: reports_intros reports_package_response assms(1) simp: request_path.simps)
next
  case (ProxyHead fresh ip headers query path)
  from assms ProxyHead show ?thesis
    by (simp add: proxy_head_def Let_def)
      (rule reports_with_admission [OF assms(1)],
        auto intro!: reports_intros reports_bind assms(1) simp: head_response_def Let_def)
next
  case (ProxyWrite fresh verb ip headers query path body)
  from assms ProxyWrite show ?thesis
    by (simp add: proxy_write_def Let_def)
      (rule reports_with_admission [OF assms(1)], auto intro!: reports_intros assms(1))
qed

section \<open>A run of the proxy\<close>

text \<open>A registry in enforce mode, an upstream that has every file and a Triage Counter that allows everything.\<close>

definition allow_decision :: "DecisionRequest \<Rightarrow> DecisionResponse" where
  "allow_decision q = \<lparr>rs_decision = Allow, rs_tenant_id = rq_tenant_id q, rs_policy_profile_id = rq_policy_profile_id q,
     rs_policy_snapshot_id = 9, rs_mode = ModeEnforce, rs_feed_state = Fresh, rs_feed_snapshot_age_seconds = 0,
     rs_trace_id = nr_trace_id (rq_request q), rs_rationale = [], rs_fallback_coordinate = None, rs_create_analysis_job = False\<rparr>"

definition gate_env :: proxy_env where
  "gate_env = \<lparr>pe_lib = web_lib\<lparr>lib_hex_encode := (\<lambda>_. replicate 64 CHR ''a'')\<rparr>, pe_lower = to_ascii_lowercase, pe_clock = (\<lambda>n. n),
     pe_upstream = (\<lambda>n request. Inr \<lparr>us_status = 200, us_headers = [], us_body = Inr ''bytes''\<rparr>),
     pe_triage = (\<lambda>n q. Answered 200 (Inr (allow_decision q)))\<rparr>"

definition gate_resolved :: ResolvedRegistryConfig where
  "gate_resolved = \<lparr>rv_config = (sample_config 1 ''/npm'')\<lparr>rg_adapter := AdapterGenericHttp\<rparr>, rv_upstream_path = ''file''\<rparr>"

definition gate_state :: ProxyAppState where
  "gate_state = the (proxy_state_new [rv_config gate_resolved] \<lparr>tc_evaluate_url = plain_url ''/'', tc_max_retries = 0\<rparr>
     default_rate_limits 100 ''key'')"

lemma gate_started: "proxy_state_new [rv_config gate_resolved] \<lparr>tc_evaluate_url = plain_url ''/'', tc_max_retries = 0\<rparr>
     default_rate_limits 100 ''key'' = Some gate_state"
  by (simp add: gate_state_def proxy_state_new_def)

lemma gate_resolves: "resolve (px_registry_configs gate_state) ''npm/file'' = Some gate_resolved"
proof -
  have t: "trim_matches CHR ''/'' ''npm/file'' = ''npm/file''" by code_simp
  show ?thesis
    by (simp add: gate_state_def proxy_state_new_def resolve_def resolve_with_def gate_resolved_def sample_mounts t)
qed

definition gate_request :: "string \<Rightarrow> string option \<Rightarrow> DecisionRequest" where
  "gate_request trace source = projr (decision_request_for_adapter (lib_semver_ok (pe_lib gate_env)) (lib_parse_url (pe_lib gate_env)) 1 1 2
     AdapterGenericHttp trace source ''file'')"

lemma gate_decision_request:
  "decision_request_for_adapter (lib_semver_ok (pe_lib gate_env)) (lib_parse_url (pe_lib gate_env)) 1 1 2
     AdapterGenericHttp trace source ''file'' = Inr (gate_request trace source)"
  "nr_kind (rq_request (gate_request trace source)) = KindArtifact"
  "rq_tenant_id (gate_request trace source) = 1" "nr_trace_id (rq_request (gate_request trace source)) = trace"
proof -
  have t: "trim_matches CHR ''/'' (decode_registry_path ''file'') = ''file''" by code_simp
  show "decision_request_for_adapter (lib_semver_ok (pe_lib gate_env)) (lib_parse_url (pe_lib gate_env)) 1 1 2
     AdapterGenericHttp trace source ''file'' = Inr (gate_request trace source)"
   "nr_kind (rq_request (gate_request trace source)) = KindArtifact"
  "rq_tenant_id (gate_request trace source) = 1" "nr_trace_id (rq_request (gate_request trace source)) = trace"
    by (simp_all add: gate_request_def decision_request_for_adapter_def generic_http_request_context_def Let_def t)
qed

lemma gate_digest: "\<exists>d. sha256_digest (pe_lib gate_env) b = Inr d"
  by (simp add: sha256_digest_def digest_sha256_def digest_new_Inr gate_env_def web_lib_def list_all_iff is_ascii_hexdigit_def)

lemma gate_config_parts:
  "rg_adapter (rv_config gate_resolved) = AdapterGenericHttp" "rg_mode (rv_config gate_resolved) = ModeEnforce"
  "rg_tenant_id (rv_config gate_resolved) = 1" "rg_id (rv_config gate_resolved) = 1"
  "rg_policy_profile_id (rv_config gate_resolved) = 2" "rv_upstream_path gate_resolved = ''file''"
  "rg_auth_type (rv_config gate_resolved) = AuthNone" "rg_upstream_url (rv_config gate_resolved) = ''https://registry.npmjs.org''"
  by (simp_all add: gate_resolved_def sample_config_def)

lemma gate_fetch:
  assumes "px_caches s = empty_caches" "px_max_artifact_bytes s = 100"
  shows "\<exists>d s1. run_state (fetch_upstream_artifact gate_env gate_resolved None) s =
      (Inr \<lparr>pf_status = 200, pf_headers = [], pf_body = ''bytes'', pf_digest = Some d\<rparr>, s1)
    \<and> ch_decisions (px_caches s1) = Map.empty \<and> px_triage_client s1 = px_triage_client s"
proof -
  obtain d where d: "sha256_digest (pe_lib gate_env) ''bytes'' = Inr d" using gate_digest by blast
  obtain u where u: "artifact_upstream_url (pe_lib gate_env) key gate_resolved None = Inr u" for key
    by (auto simp: artifact_upstream_url_def gate_config_parts upstream_request_url_with_query_def upstream_request_url_def
        gate_env_def web_lib_def web_url_def)
  have send: "run_state (send_upstream gate_env request) t =
      (Inr \<lparr>us_status = 200, us_headers = [], us_body = Inr ''bytes''\<rparr>, t\<lparr>px_sent := px_sent t @ [request]\<rparr>)" for request t
    by (simp add: send_upstream_def run_bind gate_env_def)
  have size: "enforce_artifact_size_limit lib 100 [] x = Inr ()" if "x = None \<or> x = Some 5" for lib x
    using that by (auto simp: enforce_artifact_size_limit_def header_get_def)
  show ?thesis
    by (simp add: fetch_upstream_artifact_def run_bind run_trying Let_def u cargo_expected_digest_def gate_config_parts
        cached_artifact_def assms empty_caches_def observe_cache_def observe_def download_artifact_def get_upstream_def send
        inject_upstream_credentials_def response_bytes_def size d cache_artifact_response_def cache_deadline_def instant_now_def
        is_success_def)
qed

lemma gate_triage:
  "tc_max_retries (px_triage_client s) = 0 \<Longrightarrow> \<exists>s'. run_state (ask_triage gate_env q) s = (Inr (allow_decision q), s')
     \<and> px_caches s' = px_caches s"
proof -
  assume "tc_max_retries (px_triage_client s) = 0"
  then have "client_evaluate (px_triage_client s) (\<lambda>i. pe_triage gate_env (n + i) q) q = (Inr (allow_decision q), 1)" for n
    by (simp add: client_evaluate_def evaluate_loop_unfold gate_env_def is_success_def validate_response_context_def
        allow_decision_def)
  then show ?thesis by (simp add: ask_triage_def run_bind Let_def)
qed

lemma gate_package:
  assumes "px_caches s = empty_caches" "px_max_artifact_bytes s = 100" "tc_max_retries (px_triage_client s) = 0"
  shows "hr_status (fst (run_state (package_response gate_env gate_resolved trace base None) s)) = 200"
proof -
  from gate_fetch [OF assms(1,2)] obtain d s1 where f: "run_state (fetch_upstream_artifact gate_env gate_resolved None) s =
      (Inr \<lparr>pf_status = 200, pf_headers = [], pf_body = ''bytes'', pf_digest = Some d\<rparr>, s1)"
    and s1: "ch_decisions (px_caches s1) = Map.empty" "px_triage_client s1 = px_triage_client s" by blast
  define triage_state where "triage_state q t = snd (run_state (ask_triage gate_env q) t)" for q and t :: ProxyAppState
  have ask: "run_state (ask_triage gate_env q) t = (Inr (allow_decision q), triage_state q t)"
    if "px_triage_client t = px_triage_client s" for q t
    using gate_triage [of t q] assms(3) that by (auto simp: triage_state_def)
  show ?thesis
    by (simp add: package_response_def run_bind Let_def gate_config_parts gate_decision_request f is_success_def
        decided_response_def cached_decision_def instant_now_def s1 decision_fetch_def observe_cache_def observe_def ask
        cache_decision_def cache_deadline_def decision_response_def allow_decision_def proxy_upstream_get_def run_trying
        finish_request_def case_prod_unfold)
qed

lemma gate_admission:
  "\<exists>s1. run_state (with_admission gate_env trace ''ip'' ''npm/file'' handler) gate_state = run_state (handler gate_resolved) s1
     \<and> px_caches s1 = empty_caches \<and> px_max_artifact_bytes s1 = 100 \<and> tc_max_retries (px_triage_client s1) = 0"
proof -
  let ?e = "inbound_request_audit_event (pe_lib gate_env) gate_resolved trace"
  define s0 where "s0 = snd (run_state (emit_proxy_audit_event gate_env ?e) gate_state)"
  have e: "run_state (emit_proxy_audit_event gate_env ?e) gate_state = ((), s0)"
    by (simp add: s0_def prod_eq_iff)
  have s0: "px_caches s0 = empty_caches" "px_max_artifact_bytes s0 = 100" "tc_max_retries (px_triage_client s0) = 0"
    "px_rate_limiters s0 = proxy_rate_limiters_new default_rate_limits"
    by (simp_all add: s0_def emit_proxy_audit_event_def gate_state_def proxy_state_new_def split: sum.split)
  have limited: "fst (run_state (limited gate_env check) t) = fst (check (px_readings t) (px_rate_limiters t))"
      "snd (run_state (limited gate_env check) t) = t\<lparr>px_readings := Suc (px_readings t),
         px_rate_limiters := snd (check (px_readings t) (px_rate_limiters t))\<rparr>" for check t
    by (simp_all add: limited_def instant_now_def run_bind gate_env_def)
  show ?thesis
    by (simp add: with_admission_def run_bind gate_resolves e limited s0 check_tenant_def check_client_def check_and_record_def
        check_buckets_def proxy_rate_limiters_new_def limiter_new_def default_rate_limits_def Let_def case_prod_unfold)
      (rule exI, rule conjI [OF refl], simp add: s0)
qed

lemma gate_run: "hr_status (fst (run_state (proxy_get gate_env 7 ''ip'' [] None ''npm/file'') gate_state)) = 200"
proof -
  have run: "hr_status (fst (run_state (with_admission gate_env trace ''ip'' ''npm/file'' handler) gate_state)) = 200"
    if "handler gate_resolved = package_response gate_env gate_resolved t base None" for trace handler t base
    using gate_admission [of trace handler] gate_package that by auto
  show ?thesis unfolding proxy_get_def Let_def by (rule run) (simp add: gate_config_parts)
qed

definition gate_page :: string where
  "gate_page = ''<a href=a-1.0.tar.gz>a</a>''"

lemma gate_page_parts:
  "html_chunks gate_page = [HtmlText [], HtmlAnchor gate_page, HtmlText []]" "utf8_ok gate_page"
  "extract_href gate_page = Some ''a-1.0.tar.gz''" "digest_from_url_fragment ''a-1.0.tar.gz'' = None"
  by code_simp+

lemma gate_page_candidate:
  "\<exists>c. pypi_coordinate_from_distribution_filename ''a-1.0.tar.gz'' = Some c"
  "file_name_from_registry_url (pe_lib gate_env) ''a-1.0.tar.gz'' = Some ''a-1.0.tar.gz''"
proof -
  have "str_trim ''a'' = ''a''" by (rule str_trim_id) (simp_all add: graphic_char_def)
  then have "canonicalize_pypi_name ''a'' = Inr ''a''" by (simp add: canonicalize_pypi_name_def) code_simp
  moreover have "hd (split_on CHR ''#'' ''a-1.0.tar.gz'') = ''a-1.0.tar.gz''" "rsplit_once CHR ''-'' ''a-1.0'' = Some (''a'', ''1.0'')"
    "strip_suffix ''.whl'' ''a-1.0.tar.gz'' = None" "strip_suffix ''.tar.gz'' ''a-1.0.tar.gz'' = Some ''a-1.0''"
    by code_simp+
  ultimately show "\<exists>c. pypi_coordinate_from_distribution_filename ''a-1.0.tar.gz'' = Some c"
    by (simp add: pypi_coordinate_from_distribution_filename_def)
  have "web_url ''a-1.0.tar.gz'' = None" "last (split_on CHR ''/'' (trim_end_matches CHR ''/'' (hd (split_on CHR ''#'' ''a-1.0.tar.gz'')))) = ''a-1.0.tar.gz''"
    by code_simp+
  then show "file_name_from_registry_url (pe_lib gate_env) ''a-1.0.tar.gz'' = Some ''a-1.0.tar.gz''"
    by (simp add: file_name_from_registry_url_def gate_env_def web_lib_def)
qed

lemma gate_filter:
  "fst (run_state (filter_pypi_simple_candidates gate_env gate_resolved parent gate_page) gate_state) = Inr gate_page"
proof -
  have s: "px_caches gate_state = empty_caches" "tc_max_retries (px_triage_client gate_state) = 0"
    by (simp_all add: gate_state_def proxy_state_new_def)
  define triage_state where "triage_state q t = snd (run_state (ask_triage gate_env q) t)" for q and t :: ProxyAppState
  have ask: "run_state (ask_triage gate_env q) t = (Inr (allow_decision q), triage_state q t)"
    if "px_triage_client t = px_triage_client gate_state" for q t
    using gate_triage [of t q] s(2) that by (auto simp: triage_state_def)
  obtain c where c: "pypi_coordinate_from_distribution_filename ''a-1.0.tar.gz'' = Some c" using gate_page_candidate(1) by blast
  show ?thesis
    by (simp add: filter_pypi_simple_candidates_def gate_page_parts gate_page_candidate(2) run_trying candidate_allowed_for_url_def
        candidate_allowed_for_url_with_digest_def c candidate_allowed_for_coordinate_def candidate_decision_def run_bind
        cached_decision_def instant_now_def s empty_caches_def decision_fetch_def observe_cache_def observe_def ask
        observe_triage_def cache_decision_def cache_deadline_def gate_config_parts allow_decision_def Let_def case_prod_unfold)
qed


lemma gate_lower: "lower_ok (pe_lower gate_env)"
  unfolding lower_ok_def gate_env_def
  by (auto intro!: to_ascii_lowercase_id simp: list_all_iff is_ascii_lowercase_def is_ascii_uppercase_def)

lemma gate_uuids: "uuid_display_ok (lib_show_uuid (pe_lib gate_env))"
proof -
  have "lib_show_uuid (pe_lib gate_env) = decimal_uuid"
    by (simp add: gate_env_def web_lib_def sample_lib_def decimal_uuid_def fun_eq_iff)
  then show ?thesis using decimal_uuid_ok by simp
qed

theorem enforced_content_is_approved_witness:
  "\<exists>body q d. hr_body (fst (run_state (proxy_get gate_env 7 ''ip'' [] None ''npm/file'') gate_state)) = BytesBody body
     \<and> length body \<le> 100 \<and> answered gate_env q d \<and> \<not> is_blocking (rs_decision d) \<and> rq_tenant_id q = 1
     \<and> (\<exists>h. sha256_digest (pe_lib gate_env) body = Inr h
          \<and> map_option dg_hex (nr_requested_digest (rq_request q)) = Some (dg_hex h))"
proof -
  have reach: "proxy_reachable gate_env gate_state" using gate_started by (rule proxy_reachable.start)
  have out: "hands_out (fst (run_state (proxy_get gate_env 7 ''ip'' [] None ''npm/file'') gate_state))"
    "\<not> cargo_exempt gate_resolved (fst (run_state (proxy_get gate_env 7 ''ip'' [] None ''npm/file'') gate_state))"
    using gate_run by (simp_all add: hands_out_def is_success_def cargo_exempt_def gate_config_parts)
  have kind: "nr_kind (rq_request q0) = KindArtifact" if "path_request gate_env gate_resolved trace q0" for trace q0
    using that gate_decision_request(1,2) by (auto simp: path_request_def gate_config_parts)
  have "px_max_artifact_bytes gate_state = 100" by (simp add: gate_state_def proxy_state_new_def)
  with enforced_content_is_approved [OF reach gate_uuids gate_resolves gate_config_parts(2) prod.collapse [symmetric] out] kind
  show ?thesis by (metis gate_config_parts(3))
qed

theorem proxy_caches_sound_witness:
  "\<forall>key. case ch_decisions (px_caches (snd (run_state (proxy_get gate_env 7 ''ip'' [] None ''npm/file'') gate_state))) key of
      None \<Rightarrow> True
    | Some entry \<Rightarrow> \<exists>q. cache_key_for_decision (pe_lib gate_env) q = key \<and> answered gate_env q (pd_response entry)"
proof
  fix key
  have "run_state (proxy_handler gate_env (ProxyGet 7 ''ip'' [] None ''npm/file'')) gate_state =
      (fst (run_state (proxy_get gate_env 7 ''ip'' [] None ''npm/file'') gate_state),
       snd (run_state (proxy_get gate_env 7 ''ip'' [] None ''npm/file'') gate_state))" by simp
  from proxy_reachable.request [OF proxy_reachable.start [OF gate_started] this]
  show "case ch_decisions (px_caches (snd (run_state (proxy_get gate_env 7 ''ip'' [] None ''npm/file'') gate_state))) key of
      None \<Rightarrow> True
    | Some entry \<Rightarrow> \<exists>q. cache_key_for_decision (pe_lib gate_env) q = key \<and> answered gate_env q (pd_response entry)"
    by (rule conjunct1 [OF proxy_caches_sound])
qed

theorem answers_are_audited_witness:
  "\<forall>fresh. completed (fst (run_state (proxy_get gate_env fresh ''ip'' [] None ''npm/file'') gate_state))
     (snd (run_state (proxy_get gate_env fresh ''ip'' [] None ''npm/file'') gate_state))"
  using answers_are_audited [OF gate_lower, of gate_state "ProxyGet fresh ''ip'' [] None ''npm/file''" gate_resolved for fresh]
    gate_resolves by simp

end
