(* ===== verification/Rust_Paths.thy ===== *)
theory Rust_Paths
  imports Byte_Text
begin

text \<open>
  \<^verbatim>\<open>std::path\<close> on Unix as the Surgeon uses it. A path is its text; its components skip empty segments and
  dots, except for a dot at the start. Joining an absolute path replaces the first path.
\<close>

datatype path_component = RootDir | CurDir | ParentDir | Normal string

definition is_absolute :: "string \<Rightarrow> bool" where
  "is_absolute p = (take 1 p = ''/'')"

definition trivial_segment :: "string \<Rightarrow> bool" where
  "trivial_segment s = (s = [] \<or> s = ''.'')"

definition segment_component :: "string \<Rightarrow> path_component" where
  "segment_component s = (if s = ''..'' then ParentDir else Normal s)"

definition path_components :: "string \<Rightarrow> path_component list" where
  "path_components p =
     (if is_absolute p then [RootDir] else if hd (split_on CHR ''/'' p) = ''.'' then [CurDir] else [])
     @ map segment_component (filter (\<lambda>s. \<not> trivial_segment s) (split_on CHR ''/'' p))"

definition path_file_name :: "string \<Rightarrow> string option" where
  "path_file_name p =
     (case rev (path_components p) of Normal s # _ \<Rightarrow> Some s | _ \<Rightarrow> None)"

definition file_extension :: "string \<Rightarrow> string option" where
  "file_extension name =
     (case rsplit_once CHR ''.'' name of
        None \<Rightarrow> None
      | Some (stem, ext) \<Rightarrow> if stem = [] \<or> name = ''..'' then None else Some ext)"

text \<open>\<^verbatim>\<open>path.file_name().and_then(to_str)\<close> and \<^verbatim>\<open>path.extension().and_then(to_str)\<close>.\<close>

definition file_name_str :: "string \<Rightarrow> string option" where
  "file_name_str p = opt_filter utf8_ok (path_file_name p)"

definition extension_str :: "string \<Rightarrow> string option" where
  "extension_str p = opt_filter utf8_ok (Option.bind (path_file_name p) file_extension)"

definition path_push :: "string \<Rightarrow> string \<Rightarrow> string" where
  "path_push dir p =
     (if is_absolute p then p else if dir = [] \<or> last dir = CHR ''/'' then dir @ p else dir @ ''/'' @ p)"

text \<open>The text of a path given by its components.\<close>

fun path_text :: "path_component list \<Rightarrow> string" where
  "path_text (RootDir # cs) = ''/'' @ path_text cs"
| "path_text cs = str_join ''/'' (map (\<lambda>c. case c of CurDir \<Rightarrow> ''.'' | ParentDir \<Rightarrow> ''..'' | Normal s \<Rightarrow> s | RootDir \<Rightarrow> []) cs)"

definition path_parent :: "string \<Rightarrow> string option" where
  "path_parent p =
     (case rev (path_components p) of
        [] \<Rightarrow> None
      | RootDir # _ \<Rightarrow> None
      | _ # rest \<Rightarrow> Some (path_text (rev rest)))"

text \<open>\<^verbatim>\<open>Path::strip_prefix\<close>: the remaining text keeps its inner separators.\<close>

fun drop_segments :: "nat \<Rightarrow> string list \<Rightarrow> string list" where
  "drop_segments 0 segs = dropWhile trivial_segment segs"
| "drop_segments (Suc n) segs =
     (case dropWhile trivial_segment segs of [] \<Rightarrow> [] | _ # rest \<Rightarrow> drop_segments n rest)"

definition path_strip_prefix :: "string \<Rightarrow> string \<Rightarrow> string option" where
  "path_strip_prefix root_dir p =
     (let base = path_components root_dir in
      if prefix base (path_components p)
      then Some (str_join ''/'' (rev (dropWhile trivial_segment (rev
             (drop_segments (length (filter (\<lambda>c. c \<noteq> RootDir \<and> c \<noteq> CurDir) base)) (split_on CHR ''/'' p))))))
      else None)"

section \<open>Joining\<close>

lemma split_on_hd: "hd (split_on c (a @ c # b)) = hd (split_on c a)"
  by (simp add: split_on_append_split)

lemma split_on_trailing: "split_on c (a @ [c]) = split_on c a @ [[]]"
  using split_on_append_split [of c a "[]"] by simp

lemma path_push_segments:
  assumes "dir \<noteq> []" "\<not> is_absolute p"
  shows "filter (\<lambda>s. \<not> trivial_segment s) (split_on CHR ''/'' (path_push dir p)) =
    filter (\<lambda>s. \<not> trivial_segment s) (split_on CHR ''/'' dir) @ filter (\<lambda>s. \<not> trivial_segment s) (split_on CHR ''/'' p)"
proof (cases "last dir = CHR ''/''")
  case True
  with assms(1) obtain d where "dir = d @ ''/''" by (metis append_butlast_last_id)
  with assms(2) show ?thesis
    by (simp add: path_push_def split_on_append_split split_on_trailing trivial_segment_def)
next
  case False
  with assms show ?thesis by (simp add: path_push_def split_on_append_split)
qed

lemma is_absolute_push: "dir \<noteq> [] \<Longrightarrow> \<not> is_absolute p \<Longrightarrow> is_absolute (path_push dir p) = is_absolute dir"
  by (cases dir) (simp_all add: path_push_def is_absolute_def)

lemma segment_components_no_dot [simp]:
  "filter (\<lambda>c. c \<noteq> CurDir) (map segment_component segs) = map segment_component segs"
  by (induction segs) (auto simp: segment_component_def)

lemma path_components_push:
  assumes "is_absolute dir" "\<not> is_absolute p"
  shows "path_components (path_push dir p) = path_components dir @ filter (\<lambda>c. c \<noteq> CurDir) (path_components p)"
proof -
  have dir: "dir \<noteq> []" using assms(1) by (auto simp: is_absolute_def)
  with assms show ?thesis
    by (simp add: path_components_def is_absolute_push path_push_segments)
qed

end
