(* ===== verification/Artifact_Archive.thy ===== *)
theory Artifact_Archive
  imports Rust_Paths Core_Types
begin

text \<open>
  Unpacking of artifacts by the Surgeon, \<^verbatim>\<open>services/surgeon/src/artifact.rs\<close>, with the limits and the path check of
  \<^verbatim>\<open>services/surgeon/src/lib.rs\<close>. An archive is what the tar and zip libraries deliver: a list of entries, each
  with its path, its kind, the size it declares and the results of reading it chunk by chunk. The file system is
  the list of the operations done on it, files and directories given by their components; each operation may
  be refused. What both loops promise is proved once in a locale over their steps.
\<close>

section \<open>Paths and limits\<close>

record ScanLimits =
  max_file_count :: nat
  max_single_file_bytes :: nat
  max_expanded_bytes :: nat

definition default_scan_limits :: ScanLimits where
  "default_scan_limits = \<lparr>max_file_count = 10000, max_single_file_bytes = 2 * 1024 * 1024, max_expanded_bytes = 64 * 1024 * 1024\<rparr>"

definition validate_archive_path :: "string \<Rightarrow> bool" where
  "validate_archive_path p =
     (\<not> is_absolute p \<and> list_all (\<lambda>c. c \<noteq> ParentDir \<and> c \<noteq> RootDir) (path_components p))"

definition safe_join :: "string \<Rightarrow> string \<Rightarrow> (string, string) result" where
  "safe_join root_dir archive_path =
     (if \<not> validate_archive_path archive_path then Inl (''unsafe archive path: '' @ from_utf8_lossy archive_path)
      else Inr (path_push root_dir archive_path))"

definition is_tar_gz_artifact :: "string \<Rightarrow> bool" where
  "is_tar_gz_artifact path =
     (let file_name = unwrap_or [] (file_name_str path) in
      ends_with ''.tgz'' file_name \<or> ends_with ''.tar.gz'' file_name \<or> ends_with ''.crate'' file_name)"

definition is_zip_artifact :: "string \<Rightarrow> bool" where
  "is_zip_artifact path =
     is_some_and (\<lambda>ext. to_ascii_lowercase ext \<in> set [''whl'', ''zip'', ''jar'', ''war'', ''ear'']) (extension_str path)"

definition normalize_manifest_path :: "string \<Rightarrow> string" where
  "normalize_manifest_path path = str_replace [CHR 0x5C] ''/'' (from_utf8_lossy path)"

section \<open>Files\<close>

datatype fs_op =
    CreateDirs "path_component list"
  | CreateFile "path_component list"
  | Append "path_component list" string

text \<open>The error of an operation after a history, if it fails.\<close>

type_synonym file_io = "fs_op list \<Rightarrow> fs_op \<Rightarrow> string option"

definition do_io :: "file_io \<Rightarrow> fs_op \<Rightarrow> fs_op list \<Rightarrow> string option \<times> fs_op list" where
  "do_io io action ops = (case io ops action of Some e \<Rightarrow> (Some e, ops) | None \<Rightarrow> (None, ops @ [action]))"

record ArtifactFileManifestEntry =
  mf_path :: string
  mf_sha256 :: string
  mf_size_bytes :: nat

fun copy_with_digest ::
  "file_io \<Rightarrow> path_component list \<Rightarrow> (string, string) result list \<Rightarrow> string \<Rightarrow> fs_op list \<Rightarrow> (string, string) result \<times> fs_op list" where
  "copy_with_digest io destination [] copied ops = (Inr copied, ops)"
| "copy_with_digest io destination (Inl e # reads) copied ops = (Inl e, ops)"
| "copy_with_digest io destination (Inr chunk # reads) copied ops =
     (if chunk = [] then (Inr copied, ops)
      else case do_io io (Append destination chunk) ops of
          (Some e, ops1) \<Rightarrow> (Inl e, ops1)
        | (None, ops1) \<Rightarrow> copy_with_digest io destination reads (copied @ chunk) ops1)"

section \<open>Unpacking\<close>

record unpack_state =
  up_ops :: "fs_op list"
  up_manifest :: "ArtifactFileManifestEntry list"
  up_file_count :: nat
  up_expanded_bytes :: nat

definition unpack_start :: unpack_state where
  "unpack_start = \<lparr>up_ops = [], up_manifest = [], up_file_count = 0, up_expanded_bytes = 0\<rparr>"

definition checked_add_u64 :: "nat \<Rightarrow> nat \<Rightarrow> nat option" where
  "checked_add_u64 a b = (if a + b < 2 ^ 64 then Some (a + b) else None)"

definition make_directory :: "file_io \<Rightarrow> string \<Rightarrow> unpack_state \<Rightarrow> string option \<times> unpack_state" where
  "make_directory io destination st =
     (case do_io io (CreateDirs (path_components destination)) (up_ops st) of (e, ops) \<Rightarrow> (e, st\<lparr>up_ops := ops\<rparr>))"

text \<open>The parent directory, if the destination has one, the file, and its content.\<close>

definition write_entry ::
  "(string \<Rightarrow> string) \<Rightarrow> file_io \<Rightarrow> string \<Rightarrow> string \<Rightarrow> (string, string) result list \<Rightarrow> unpack_state \<Rightarrow> string option \<times> unpack_state" where
  "write_entry sha256 io destination entry_path reads st =
     (let target = path_components destination;
          (parent_error, ops1) = (if target = [] \<or> last target = RootDir then (None, up_ops st)
            else do_io io (CreateDirs (butlast target)) (up_ops st))
      in case parent_error of
           Some e \<Rightarrow> (Some e, st\<lparr>up_ops := ops1\<rparr>)
         | None \<Rightarrow>
             (case do_io io (CreateFile target) ops1 of
                (Some e, ops2) \<Rightarrow> (Some e, st\<lparr>up_ops := ops2\<rparr>)
              | (None, ops2) \<Rightarrow>
                  (case copy_with_digest io target reads [] ops2 of
                     (Inl e, ops3) \<Rightarrow> (Some e, st\<lparr>up_ops := ops3\<rparr>)
                   | (Inr copied, ops3) \<Rightarrow>
                       (None, st\<lparr>up_ops := ops3, up_manifest := up_manifest st @
                          [\<lparr>mf_path = normalize_manifest_path entry_path, mf_sha256 = sha256 copied,
                            mf_size_bytes = length copied\<rparr>]\<rparr>))))"

text \<open>The accounting and the writing of an entry that is not a directory; it is the same text in both loops.\<close>

definition extract_file ::
  "(string \<Rightarrow> string) \<Rightarrow> file_io \<Rightarrow> ScanLimits \<Rightarrow> string \<Rightarrow> string \<Rightarrow> nat \<Rightarrow> (string, string) result list \<Rightarrow> unpack_state
     \<Rightarrow> string option \<times> unpack_state" where
  "extract_file sha256 io limits destination entry_path file_size reads st =
     (let st1 = st\<lparr>up_file_count := up_file_count st + 1\<rparr> in
      if up_file_count st1 > max_file_count limits then (Some ''scan file count limit exceeded'', st1)
      else if file_size > max_single_file_bytes limits then (Some ''archive entry exceeds single-file limit'', st1)
      else case checked_add_u64 (up_expanded_bytes st1) file_size of
          None \<Rightarrow> (Some ''expanded byte accounting overflow'', st1)
        | Some expanded \<Rightarrow>
            if expanded > max_expanded_bytes limits then (Some ''archive exceeds expanded byte limit'', st1)
            else write_entry sha256 io destination entry_path reads (st1\<lparr>up_expanded_bytes := expanded\<rparr>))"

datatype tar_kind = TarRegular | TarDirectory | TarSymlink | TarHardLink | TarOther

record tar_entry =
  te_kind :: tar_kind
  te_path :: "(string, string) result"
  te_size :: nat
  te_reads :: "(string, string) result list"

record zip_entry =
  ze_name :: string
  ze_unix_mode :: "32 word option"
  ze_is_dir :: bool
  ze_size :: nat
  ze_reads :: "(string, string) result list"

definition tar_step ::
  "(string \<Rightarrow> string) \<Rightarrow> file_io \<Rightarrow> string \<Rightarrow> ScanLimits \<Rightarrow> (string, tar_entry) result \<Rightarrow> unpack_state \<Rightarrow> string option \<times> unpack_state" where
  "tar_step sha256 io unpack_root limits item st =
     (case item of
        Inl e \<Rightarrow> (Some e, st)
      | Inr entry \<Rightarrow>
          if te_kind entry = TarSymlink \<or> te_kind entry = TarHardLink
          then (Some ''symlink or hardlink archive entries are not allowed'', st)
          else case te_path entry of
              Inl e \<Rightarrow> (Some e, st)
            | Inr entry_path \<Rightarrow>
                if \<not> validate_archive_path entry_path
                then (Some (''unsafe archive path: '' @ from_utf8_lossy entry_path), st)
                else case safe_join unpack_root entry_path of
                    Inl e \<Rightarrow> (Some e, st)
                  | Inr destination \<Rightarrow>
                      if te_kind entry = TarDirectory then make_directory io destination st
                      else extract_file sha256 io limits destination entry_path (te_size entry) (te_reads entry) st)"

definition is_zip_symlink :: "zip_entry \<Rightarrow> bool" where
  "is_zip_symlink entry = is_some_and (\<lambda>mode. and mode 0xF000 = 0xA000) (ze_unix_mode entry)"

definition zip_step ::
  "(string \<Rightarrow> string) \<Rightarrow> file_io \<Rightarrow> string \<Rightarrow> ScanLimits \<Rightarrow> (string, zip_entry) result \<Rightarrow> unpack_state \<Rightarrow> string option \<times> unpack_state" where
  "zip_step sha256 io unpack_root limits item st =
     (case item of
        Inl e \<Rightarrow> (Some e, st)
      | Inr entry \<Rightarrow>
          if \<not> validate_archive_path (ze_name entry)
          then (Some (''unsafe archive path: '' @ from_utf8_lossy (ze_name entry)), st)
          else if is_zip_symlink entry then (Some ''symlink archive entries are not allowed'', st)
          else case safe_join unpack_root (ze_name entry) of
              Inl e \<Rightarrow> (Some e, st)
            | Inr destination \<Rightarrow>
                if ze_is_dir entry then make_directory io destination st
                else extract_file sha256 io limits destination (ze_name entry) (ze_size entry) (ze_reads entry) st)"

fun unpack_loop :: "('e \<Rightarrow> unpack_state \<Rightarrow> string option \<times> unpack_state) \<Rightarrow> 'e list \<Rightarrow> unpack_state \<Rightarrow> string option \<times> unpack_state" where
  "unpack_loop step [] st = (None, st)"
| "unpack_loop step (e # es) st =
     (case step e st of (Some err, st1) \<Rightarrow> (Some err, st1) | (None, st1) \<Rightarrow> unpack_loop step es st1)"

definition finish_unpack :: "string option \<times> unpack_state \<Rightarrow> (string, ArtifactFileManifestEntry list) result \<times> fs_op list" where
  "finish_unpack r =
     (case r of (Some e, st) \<Rightarrow> (Inl e, up_ops st) | (None, st) \<Rightarrow> (Inr (up_manifest st), up_ops st))"

definition unpack_tar_gz_bytes ::
  "(string \<Rightarrow> string) \<Rightarrow> file_io \<Rightarrow> (string \<Rightarrow> (string, (string, tar_entry) result list) result) \<Rightarrow> string \<Rightarrow> string \<Rightarrow> ScanLimits
     \<Rightarrow> (string, ArtifactFileManifestEntry list) result \<times> fs_op list" where
  "unpack_tar_gz_bytes sha256 io tar_entries bytes unpack_root limits =
     (case tar_entries bytes of
        Inl e \<Rightarrow> (Inl e, [])
      | Inr items \<Rightarrow> finish_unpack (unpack_loop (tar_step sha256 io unpack_root limits) items unpack_start))"

definition unpack_zip_bytes ::
  "(string \<Rightarrow> string) \<Rightarrow> file_io \<Rightarrow> (string \<Rightarrow> (string, (string, zip_entry) result list) result) \<Rightarrow> string \<Rightarrow> string \<Rightarrow> ScanLimits
     \<Rightarrow> (string, ArtifactFileManifestEntry list) result \<times> fs_op list" where
  "unpack_zip_bytes sha256 io zip_entries bytes unpack_root limits =
     (case zip_entries bytes of
        Inl e \<Rightarrow> (Inl e, [])
      | Inr items \<Rightarrow> finish_unpack (unpack_loop (zip_step sha256 io unpack_root limits) items unpack_start))"

section \<open>Where files go\<close>

definition beneath :: "string \<Rightarrow> path_component list \<Rightarrow> bool" where
  "beneath root_dir target \<longleftrightarrow>
     (\<exists>segments. target = path_components root_dir @ map Normal segments \<and> CHR ''/'' \<notin> set (concat segments))"

text \<open>Files lie beneath the directory; directories do, or are ancestors of it, which exist.\<close>

fun confined :: "string \<Rightarrow> fs_op \<Rightarrow> bool" where
  "confined root_dir (CreateDirs target) = (beneath root_dir target \<or> prefix target (path_components root_dir))"
| "confined root_dir (CreateFile target) = beneath root_dir target"
| "confined root_dir (Append target chunk) = beneath root_dir target"

fun created :: "fs_op \<Rightarrow> nat" where
  "created (CreateFile target) = 1"
| "created _ = 0"

fun written :: "fs_op \<Rightarrow> nat" where
  "written (Append target chunk) = length chunk"
| "written _ = 0"

definition total :: "(fs_op \<Rightarrow> nat) \<Rightarrow> fs_op list \<Rightarrow> nat" where
  "total f ops = sum_list (map f ops)"

lemma total_simps [simp]: "total f [] = 0" "total f (ops @ [action]) = total f ops + f action"
  by (simp_all add: total_def)

lemma safe_join_beneath:
  assumes "is_absolute root_dir" "safe_join root_dir p = Inr destination"
  shows "beneath root_dir (path_components destination)"
proof -
  from assms(2) have p: "validate_archive_path p" and d: "destination = path_push root_dir p"
    by (auto simp: safe_join_def split: if_splits)
  have parts: "path_components p = (if hd (split_on CHR ''/'' p) = ''.'' then [CurDir] else [])
      @ map segment_component (filter (\<lambda>s. \<not> trivial_segment s) (split_on CHR ''/'' p))"
    using p by (simp add: path_components_def validate_archive_path_def)
  let ?segments = "filter (\<lambda>s. \<not> trivial_segment s) (split_on CHR ''/'' p)"
  have "map segment_component ?segments = map Normal ?segments"
    using p parts by (auto simp: validate_archive_path_def list_all_iff segment_component_def)
  then have "filter (\<lambda>c. c \<noteq> CurDir) (path_components p) = map Normal ?segments"
    by (simp add: parts)
  moreover have "CHR ''/'' \<notin> set (concat ?segments)" by (auto dest: split_on_no_sep)
  ultimately show ?thesis
    using p assms(1) unfolding beneath_def d
    by (auto simp: path_components_push validate_archive_path_def intro!: exI [of _ ?segments])
qed

lemma beneath_parent: "beneath root_dir target \<Longrightarrow> confined root_dir (CreateDirs (butlast target))"
proof -
  assume "beneath root_dir target"
  then obtain segments where s: "target = path_components root_dir @ map Normal segments" "CHR ''/'' \<notin> set (concat segments)"
    by (auto simp: beneath_def)
  show ?thesis
  proof (cases segments rule: rev_cases)
    case Nil
    with s show ?thesis by (simp add: prefixeq_butlast)
  next
    case (snoc rest last_one)
    with s have "beneath root_dir (butlast target)"
      unfolding beneath_def by (intro exI [of _ rest]) (simp add: butlast_append)
    then show ?thesis by simp
  qed
qed

section \<open>What copying does\<close>

fun read_content :: "(string, string) result list \<Rightarrow> string" where
  "read_content [] = []"
| "read_content (Inl e # reads) = []"
| "read_content (Inr chunk # reads) = (if chunk = [] then [] else chunk @ read_content reads)"

lemma copy_confined:
  "beneath root_dir target \<Longrightarrow> list_all (confined root_dir) ops \<Longrightarrow>
   list_all (confined root_dir) (snd (copy_with_digest io target reads copied ops))"
  by (induction io target reads copied ops rule: copy_with_digest.induct) (auto simp: do_io_def split: option.splits)

lemma copy_created: "total created (snd (copy_with_digest io target reads copied ops)) = total created ops"
  by (induction io target reads copied ops rule: copy_with_digest.induct) (auto simp: do_io_def split: option.splits)

lemma copy_written:
  "total written (snd (copy_with_digest io target reads copied ops)) \<le> total written ops + length (read_content reads)"
  by (induction io target reads copied ops rule: copy_with_digest.induct) (fastforce simp: do_io_def split: option.splits)+

lemma copy_result: "fst (copy_with_digest io target reads copied ops) = Inr result \<Longrightarrow> result = copied @ read_content reads"
  by (induction io target reads copied ops rule: copy_with_digest.induct) (auto simp: do_io_def split: option.splits if_splits)

lemmas copy_facts = copy_confined copy_created copy_written copy_result

section \<open>The contract of an unpacking step\<close>

definition unpack_inv :: "string \<Rightarrow> ScanLimits \<Rightarrow> unpack_state \<Rightarrow> bool" where
  "unpack_inv root_dir limits st \<longleftrightarrow>
     list_all (confined root_dir) (up_ops st) \<and> total created (up_ops st) \<le> up_file_count st
     \<and> total created (up_ops st) \<le> max_file_count limits"

definition bytes_inv :: "ScanLimits \<Rightarrow> unpack_state \<Rightarrow> bool" where
  "bytes_inv limits st \<longleftrightarrow>
     total written (up_ops st) \<le> up_expanded_bytes st \<and> up_expanded_bytes st \<le> max_expanded_bytes limits
     \<and> list_all (\<lambda>m. mf_size_bytes m \<le> max_single_file_bytes limits) (up_manifest st)"

locale archive_steps =
  fixes step :: "'e \<Rightarrow> unpack_state \<Rightarrow> string option \<times> unpack_state"
    and honest :: "'e \<Rightarrow> bool"
    and listed :: "'e \<Rightarrow> ArtifactFileManifestEntry list"
    and root_dir :: string
    and limits :: ScanLimits
  assumes step_confined: "is_absolute root_dir \<Longrightarrow> unpack_inv root_dir limits st \<Longrightarrow> unpack_inv root_dir limits (snd (step e st))"
    and step_bytes: "honest e \<Longrightarrow> bytes_inv limits st \<Longrightarrow> bytes_inv limits (snd (step e st))"
    and step_manifest: "step e st = (None, st') \<Longrightarrow> up_manifest st' = up_manifest st @ listed e"
begin

lemma loop_confined:
  "is_absolute root_dir \<Longrightarrow> unpack_inv root_dir limits st \<Longrightarrow> unpack_inv root_dir limits (snd (unpack_loop step es st))"
proof (induction es arbitrary: st)
  case (Cons e es)
  from step_confined [OF Cons.prems, of e] Cons.IH Cons.prems(1) show ?case by (auto split: prod.split option.split)
qed simp

lemma loop_bytes: "list_all honest es \<Longrightarrow> bytes_inv limits st \<Longrightarrow> bytes_inv limits (snd (unpack_loop step es st))"
proof (induction es arbitrary: st)
  case (Cons e es)
  from step_bytes [of e st] Cons show ?case by (auto split: prod.split option.split)
qed simp

lemma loop_manifest:
  "unpack_loop step es st = (None, st') \<Longrightarrow> up_manifest st' = up_manifest st @ concat (map listed es)"
  by (induction es arbitrary: st) (auto split: prod.splits option.splits dest: step_manifest)

end

section \<open>Tar and zip fulfil it\<close>

lemma make_directory_inv:
  assumes "beneath root_dir (path_components destination)" "unpack_inv root_dir limits st"
  shows "unpack_inv root_dir limits (snd (make_directory io destination st))"
  using assms by (auto simp: make_directory_def unpack_inv_def do_io_def split: option.split)

lemma make_directory_bytes: "bytes_inv limits (snd (make_directory io destination st)) = bytes_inv limits st"
  by (auto simp: make_directory_def bytes_inv_def do_io_def split: option.split)

lemma make_directory_manifest: "up_manifest (snd (make_directory io destination st)) = up_manifest st"
  by (simp add: make_directory_def split: prod.split)

text \<open>Writing an entry, seen through its last state.\<close>

lemma write_entry_ops:
  obtains ops1 where "ops1 = up_ops st \<or> ops1 = up_ops st @ [CreateDirs (butlast (path_components destination))]"
    and "up_ops (snd (write_entry sha256 io destination entry_path reads st)) = ops1 \<or>
      up_ops (snd (write_entry sha256 io destination entry_path reads st))
        = snd (copy_with_digest io (path_components destination) reads [] (ops1 @ [CreateFile (path_components destination)]))"
proof -
  let ?target = "path_components destination"
  obtain e ops1 where parent: "(if ?target = [] \<or> last ?target = RootDir then (None, up_ops st)
      else do_io io (CreateDirs (butlast ?target)) (up_ops st)) = (e, ops1)" by fastforce
  then have ops1: "ops1 = up_ops st \<or> ops1 = up_ops st @ [CreateDirs (butlast ?target)]"
    by (auto simp: do_io_def split: if_splits option.splits)
  have "up_ops (snd (write_entry sha256 io destination entry_path reads st)) = ops1 \<or>
      up_ops (snd (write_entry sha256 io destination entry_path reads st)) = snd (copy_with_digest io ?target reads [] (ops1 @ [CreateFile ?target]))"
    unfolding write_entry_def Let_def parent by (auto simp: do_io_def split: option.split prod.split sum.split)
  with ops1 that show thesis by blast
qed

lemma write_entry_frame [simp]:
  "up_file_count (snd (write_entry sha256 io destination entry_path reads st)) = up_file_count st"
  "up_expanded_bytes (snd (write_entry sha256 io destination entry_path reads st)) = up_expanded_bytes st"
  by (simp_all add: write_entry_def Let_def split: prod.split option.split sum.split)

lemma write_entry_manifest:
  "up_manifest (snd (write_entry sha256 io destination entry_path reads st)) =
     (case fst (write_entry sha256 io destination entry_path reads st) of
        Some _ \<Rightarrow> up_manifest st
      | None \<Rightarrow> up_manifest st @ [\<lparr>mf_path = normalize_manifest_path entry_path, mf_sha256 = sha256 (read_content reads),
          mf_size_bytes = length (read_content reads)\<rparr>])"
proof -
  let ?target = "path_components destination"
  obtain e1 ops1 where parent: "(if ?target = [] \<or> last ?target = RootDir then (None, up_ops st)
      else do_io io (CreateDirs (butlast ?target)) (up_ops st)) = (e1, ops1)" by fastforce
  obtain e2 ops2 where create: "do_io io (CreateFile ?target) ops1 = (e2, ops2)" by fastforce
  obtain r ops3 where copy: "copy_with_digest io ?target reads [] ops2 = (r, ops3)" by fastforce
  have "r = Inr copied \<Longrightarrow> copied = read_content reads" for copied
    using copy_result [of io ?target reads "[]" ops2 copied] by (simp add: copy)
  then show ?thesis
    unfolding write_entry_def Let_def parent by (cases e1; cases e2; cases r) (simp_all add: create copy)
qed

lemma write_entry_inv:
  assumes "beneath root_dir (path_components destination)" "list_all (confined root_dir) (up_ops st)"
  shows "list_all (confined root_dir) (up_ops (snd (write_entry sha256 io destination entry_path reads st)))"
    and "total created (up_ops (snd (write_entry sha256 io destination entry_path reads st))) \<le> total created (up_ops st) + 1"
proof -
  obtain ops1 where ops1: "ops1 = up_ops st \<or> ops1 = up_ops st @ [CreateDirs (butlast (path_components destination))]"
    and final: "up_ops (snd (write_entry sha256 io destination entry_path reads st)) = ops1 \<or>
      up_ops (snd (write_entry sha256 io destination entry_path reads st))
        = snd (copy_with_digest io (path_components destination) reads [] (ops1 @ [CreateFile (path_components destination)]))"
    by (rule write_entry_ops)
  have "list_all (confined root_dir) ops1" "total created ops1 = total created (up_ops st)"
    using ops1 assms beneath_parent [OF assms(1)] by auto
  with final assms(1) show "list_all (confined root_dir) (up_ops (snd (write_entry sha256 io destination entry_path reads st)))"
    "total created (up_ops (snd (write_entry sha256 io destination entry_path reads st))) \<le> total created (up_ops st) + 1"
    by (auto simp: copy_created intro!: copy_confined)
qed

lemma write_entry_written:
  "total written (up_ops (snd (write_entry sha256 io destination entry_path reads st))) \<le> total written (up_ops st) + length (read_content reads)"
proof -
  obtain ops1 where "ops1 = up_ops st \<or> ops1 = up_ops st @ [CreateDirs (butlast (path_components destination))]"
    and "up_ops (snd (write_entry sha256 io destination entry_path reads st)) = ops1 \<or>
      up_ops (snd (write_entry sha256 io destination entry_path reads st))
        = snd (copy_with_digest io (path_components destination) reads [] (ops1 @ [CreateFile (path_components destination)]))"
    by (rule write_entry_ops)
  then show ?thesis
    using copy_written [of io "path_components destination" reads "[]" "ops1 @ [CreateFile (path_components destination)]"] by auto
qed

lemma extract_file_inv:
  assumes "beneath root_dir (path_components destination)" "unpack_inv root_dir limits st"
  shows "unpack_inv root_dir limits (snd (extract_file sha256 io limits destination entry_path file_size reads st))"
proof -
  have "unpack_inv root_dir limits (snd (write_entry sha256 io destination entry_path reads
      (st\<lparr>up_file_count := up_file_count st + 1, up_expanded_bytes := expanded\<rparr>)))"
    if "up_file_count st + 1 \<le> max_file_count limits" for expanded
  proof -
    let ?st = "st\<lparr>up_file_count := up_file_count st + 1, up_expanded_bytes := expanded\<rparr>"
    have "list_all (confined root_dir) (up_ops ?st)" using assms(2) by (simp add: unpack_inv_def)
    note w = write_entry_inv [OF assms(1) this, of sha256 io entry_path reads]
    then show ?thesis using assms(2) that by (simp add: unpack_inv_def)
  qed
  then show ?thesis
    using assms(2) by (auto simp: extract_file_def Let_def unpack_inv_def split: option.split)
qed

lemma extract_file_bytes:
  assumes "length (read_content reads) \<le> file_size" "bytes_inv limits st"
  shows "bytes_inv limits (snd (extract_file sha256 io limits destination entry_path file_size reads st))"
proof -
  have "bytes_inv limits (snd (write_entry sha256 io destination entry_path reads
      (st\<lparr>up_file_count := up_file_count st + 1, up_expanded_bytes := up_expanded_bytes st + file_size\<rparr>)))"
    if "file_size \<le> max_single_file_bytes limits" "up_expanded_bytes st + file_size \<le> max_expanded_bytes limits"
    using assms that
      write_entry_written [of sha256 io destination entry_path reads
        "st\<lparr>up_file_count := up_file_count st + 1, up_expanded_bytes := up_expanded_bytes st + file_size\<rparr>"]
    by (auto simp: bytes_inv_def write_entry_manifest split: option.split)
  then show ?thesis
    using assms(2) by (auto simp: extract_file_def Let_def bytes_inv_def checked_add_u64_def split: option.split)
qed

definition listed_file :: "(string \<Rightarrow> string) \<Rightarrow> string \<Rightarrow> (string, string) result list \<Rightarrow> ArtifactFileManifestEntry list" where
  "listed_file sha256 entry_path reads =
     [\<lparr>mf_path = normalize_manifest_path entry_path, mf_sha256 = sha256 (read_content reads),
       mf_size_bytes = length (read_content reads)\<rparr>]"

lemma extract_file_manifest:
  assumes "extract_file sha256 io limits destination entry_path file_size reads st = (None, st')"
  shows "up_manifest st' = up_manifest st @ listed_file sha256 entry_path reads"
proof -
  obtain expanded where "write_entry sha256 io destination entry_path reads
      (st\<lparr>up_file_count := up_file_count st + 1, up_expanded_bytes := expanded\<rparr>) = (None, st')"
    using assms by (auto simp: extract_file_def Let_def split: if_splits option.splits)
  with write_entry_manifest [of sha256 io destination entry_path reads "st\<lparr>up_file_count := up_file_count st + 1, up_expanded_bytes := expanded\<rparr>"]
  show ?thesis by (simp add: listed_file_def)
qed

definition tar_honest :: "(string, tar_entry) result \<Rightarrow> bool" where
  "tar_honest item = (case item of Inl _ \<Rightarrow> True | Inr entry \<Rightarrow> length (read_content (te_reads entry)) \<le> te_size entry)"

definition zip_honest :: "(string, zip_entry) result \<Rightarrow> bool" where
  "zip_honest item = (case item of Inl _ \<Rightarrow> True | Inr entry \<Rightarrow> length (read_content (ze_reads entry)) \<le> ze_size entry)"

definition tar_listed :: "(string \<Rightarrow> string) \<Rightarrow> (string, tar_entry) result \<Rightarrow> ArtifactFileManifestEntry list" where
  "tar_listed sha256 item =
     (case item of
        Inr entry \<Rightarrow> if te_kind entry = TarDirectory then []
          else (case te_path entry of Inr entry_path \<Rightarrow> listed_file sha256 entry_path (te_reads entry) | Inl _ \<Rightarrow> [])
      | Inl _ \<Rightarrow> [])"

definition zip_listed :: "(string \<Rightarrow> string) \<Rightarrow> (string, zip_entry) result \<Rightarrow> ArtifactFileManifestEntry list" where
  "zip_listed sha256 item =
     (case item of Inr entry \<Rightarrow> if ze_is_dir entry then [] else listed_file sha256 (ze_name entry) (ze_reads entry) | Inl _ \<Rightarrow> [])"

interpretation tar: archive_steps "tar_step sha256 io root_dir limits" tar_honest "tar_listed sha256" root_dir limits
  for sha256 io root_dir limits
proof unfold_locales
  fix st e assume "is_absolute root_dir" "unpack_inv root_dir limits st"
  then show "unpack_inv root_dir limits (snd (tar_step sha256 io root_dir limits e st))"
    by (auto simp: tar_step_def split: sum.split intro!: make_directory_inv extract_file_inv dest: safe_join_beneath)
next
  fix e st assume "tar_honest e" "bytes_inv limits st"
  then show "bytes_inv limits (snd (tar_step sha256 io root_dir limits e st))"
    by (auto simp: tar_step_def tar_honest_def make_directory_bytes split: sum.split sum.splits intro!: extract_file_bytes)
next
  fix e st st' assume "tar_step sha256 io root_dir limits e st = (None, st')"
  then show "up_manifest st' = up_manifest st @ tar_listed sha256 e"
    using make_directory_manifest
    by (auto simp: tar_step_def tar_listed_def split: sum.splits if_splits dest: extract_file_manifest) (metis snd_conv)
qed

interpretation zipped: archive_steps "zip_step sha256 io root_dir limits" zip_honest "zip_listed sha256" root_dir limits
  for sha256 io root_dir limits
proof unfold_locales
  fix st e assume "is_absolute root_dir" "unpack_inv root_dir limits st"
  then show "unpack_inv root_dir limits (snd (zip_step sha256 io root_dir limits e st))"
    by (auto simp: zip_step_def split: sum.split intro!: make_directory_inv extract_file_inv dest: safe_join_beneath)
next
  fix e st assume "zip_honest e" "bytes_inv limits st"
  then show "bytes_inv limits (snd (zip_step sha256 io root_dir limits e st))"
    by (auto simp: zip_step_def zip_honest_def make_directory_bytes split: sum.split sum.splits intro!: extract_file_bytes)
next
  fix e st st' assume "zip_step sha256 io root_dir limits e st = (None, st')"
  then show "up_manifest st' = up_manifest st @ zip_listed sha256 e"
    using make_directory_manifest
    by (auto simp: zip_step_def zip_listed_def split: sum.splits if_splits dest: extract_file_manifest) (metis snd_conv)
qed

section \<open>Properties of unpacking\<close>

lemma unpack_start_inv [simp]: "unpack_inv root_dir limits unpack_start" "bytes_inv limits unpack_start"
  by (simp_all add: unpack_inv_def bytes_inv_def unpack_start_def)

lemma finish_unpack_ops [simp]: "snd (finish_unpack r) = up_ops (snd r)"
  by (simp add: finish_unpack_def split: prod.split option.split)

lemma finish_unpack_Inr: "fst (finish_unpack r) = Inr manifest \<longleftrightarrow> fst r = None \<and> manifest = up_manifest (snd r)"
  by (auto simp: finish_unpack_def split: prod.split option.split)

text \<open>C20: Whatever an archive contains and wherever unpacking stops, no file is created or written outside of
  the unpack directory, no directory but ancestors of it are made outside, and at most as many files as the limit allows
  are created.\<close>

theorem unpacking_confined:
  assumes "is_absolute unpack_root"
  shows "list_all (confined unpack_root) (snd (unpack_tar_gz_bytes sha256 io tar_entries bytes unpack_root limits))
    \<and> total created (snd (unpack_tar_gz_bytes sha256 io tar_entries bytes unpack_root limits)) \<le> max_file_count limits
    \<and> list_all (confined unpack_root) (snd (unpack_zip_bytes sha256 io zip_entries bytes unpack_root limits))
    \<and> total created (snd (unpack_zip_bytes sha256 io zip_entries bytes unpack_root limits)) \<le> max_file_count limits"
  using tar.loop_confined [OF assms unpack_start_inv(1), of limits sha256 io]
    zipped.loop_confined [OF assms unpack_start_inv(1), of limits sha256 io]
  by (simp add: unpack_tar_gz_bytes_def unpack_zip_bytes_def unpack_inv_def split: sum.split)

text \<open>C21: If no entry delivers more bytes than it declares, then at most the allowed number of bytes is written in
  total; and if unpacking succeeds the manifest lists the files of the archive in order, each with its size, within the
  limit for one file, and the digest of its content.\<close>

theorem unpacking_bounded:
  assumes "tar_entries bytes = Inr tar_items" "zip_entries bytes = Inr zip_items"
    and "list_all tar_honest tar_items" "list_all zip_honest zip_items"
  shows "total written (snd (unpack_tar_gz_bytes sha256 io tar_entries bytes unpack_root limits)) \<le> max_expanded_bytes limits
    \<and> total written (snd (unpack_zip_bytes sha256 io zip_entries bytes unpack_root limits)) \<le> max_expanded_bytes limits
    \<and> (case fst (unpack_tar_gz_bytes sha256 io tar_entries bytes unpack_root limits) of Inl _ \<Rightarrow> True
       | Inr manifest \<Rightarrow> manifest = concat (map (tar_listed sha256) tar_items)
           \<and> list_all (\<lambda>m. mf_size_bytes m \<le> max_single_file_bytes limits) manifest)
    \<and> (case fst (unpack_zip_bytes sha256 io zip_entries bytes unpack_root limits) of Inl _ \<Rightarrow> True
       | Inr manifest \<Rightarrow> manifest = concat (map (zip_listed sha256) zip_items)
           \<and> list_all (\<lambda>m. mf_size_bytes m \<le> max_single_file_bytes limits) manifest)"
proof -
  obtain e1 st1 where tar: "unpack_loop (tar_step sha256 io unpack_root limits) tar_items unpack_start = (e1, st1)" by fastforce
  obtain e2 st2 where zip: "unpack_loop (zip_step sha256 io unpack_root limits) zip_items unpack_start = (e2, st2)" by fastforce
  have "bytes_inv limits st1" using tar.loop_bytes [OF assms(3) unpack_start_inv(2)] tar by (metis snd_conv)
  moreover have "bytes_inv limits st2" using zipped.loop_bytes [OF assms(4) unpack_start_inv(2)] zip by (metis snd_conv)
  moreover have "up_manifest st1 = concat (map (tar_listed sha256) tar_items)" if "e1 = None"
    using tar.loop_manifest [of sha256 io unpack_root limits tar_items unpack_start st1] tar that by (simp add: unpack_start_def)
  moreover have "up_manifest st2 = concat (map (zip_listed sha256) zip_items)" if "e2 = None"
    using zipped.loop_manifest [of sha256 io unpack_root limits zip_items unpack_start st2] zip that by (simp add: unpack_start_def)
  ultimately show ?thesis
    by (cases e1; cases e2) (simp_all add: unpack_tar_gz_bytes_def unpack_zip_bytes_def assms tar zip finish_unpack_def bytes_inv_def)
qed

text \<open>The limits are compared with the size that an entry declares. A zip entry that declares no byte and
  delivers some is written completely, however large it is and whatever the limits, as long as one file is allowed.\<close>

lemma declared_size_decides:
  assumes "ze_size entry = 0" "\<not> ze_is_dir entry" "\<not> is_zip_symlink entry" "ze_name entry = ''bomb''" "ze_reads entry = [Inr chunk]"
    and "max_file_count limits \<noteq> 0" "chunk \<noteq> []"
  shows "total written (snd (unpack_zip_bytes sha256 (\<lambda>_ _. None) (\<lambda>_. Inr [Inr entry]) bytes ''/unpack'' limits)) = length chunk"
proof -
  have "path_components ''bomb'' = [Normal ''bomb'']" "\<not> is_absolute ''bomb''"
    by (simp_all add: path_components_def is_absolute_def trivial_segment_def segment_component_def)
  moreover have "path_components ''/unpack/bomb'' = [RootDir, Normal ''unpack'', Normal ''bomb'']"
    by (simp add: path_components_def is_absolute_def trivial_segment_def segment_component_def)
  ultimately show ?thesis
    using assms
    by (simp add: unpack_zip_bytes_def zip_step_def safe_join_def validate_archive_path_def path_push_def extract_file_def
        unpack_start_def checked_add_u64_def write_entry_def do_io_def total_def Let_def)
qed

definition demo_tar :: "string \<Rightarrow> (string, (string, tar_entry) result list) result" where
  "demo_tar bytes = Inr [Inr \<lparr>te_kind = TarRegular, te_path = Inr ''package/index.js'', te_size = 3, te_reads = [Inr ''abc'']\<rparr>,
     Inr \<lparr>te_kind = TarRegular, te_path = Inr ''../escape'', te_size = 1, te_reads = [Inr ''x'']\<rparr>]"

definition demo_zip :: "string \<Rightarrow> (string, (string, zip_entry) result list) result" where
  "demo_zip bytes = Inr [Inr \<lparr>ze_name = ''a.py'', ze_unix_mode = None, ze_is_dir = False, ze_size = 2, ze_reads = [Inr ''ab'']\<rparr>]"

theorem unpacking_confined_witness:
  "list_all (confined ''/unpack'') (snd (unpack_tar_gz_bytes (\<lambda>_. ''h'') (\<lambda>_ _. None) demo_tar [] ''/unpack'' default_scan_limits))
   \<and> total created (snd (unpack_zip_bytes (\<lambda>_. ''h'') (\<lambda>_ _. None) demo_zip [] ''/unpack'' default_scan_limits)) \<le> 10000"
  using unpacking_confined [of "''/unpack''" "\<lambda>_. ''h''" "\<lambda>_ _. None" demo_tar "[]" default_scan_limits demo_zip]
  by (simp add: is_absolute_def default_scan_limits_def)

theorem unpacking_bounded_witness:
  "total written (snd (unpack_tar_gz_bytes (\<lambda>_. ''h'') (\<lambda>_ _. None) demo_tar [] ''/unpack'' default_scan_limits)) \<le> 64 * 1024 * 1024
   \<and> total written (snd (unpack_zip_bytes (\<lambda>_. ''h'') (\<lambda>_ _. None) demo_zip [] ''/unpack'' default_scan_limits)) \<le> 64 * 1024 * 1024"
  using unpacking_bounded [of demo_tar "[]" _ demo_zip, OF demo_tar_def demo_zip_def, of "\<lambda>_. ''h''" "\<lambda>_ _. None" "''/unpack''" default_scan_limits]
  by (simp add: tar_honest_def zip_honest_def default_scan_limits_def)

lemma declared_size_decides_witness:
  "total written (snd (unpack_zip_bytes (\<lambda>_. ''h'') (\<lambda>_ _. None)
      (\<lambda>_. Inr [Inr \<lparr>ze_name = ''bomb'', ze_unix_mode = None, ze_is_dir = False, ze_size = 0, ze_reads = [Inr ''abc'']\<rparr>])
      [] ''/unpack'' \<lparr>max_file_count = 1, max_single_file_bytes = 0, max_expanded_bytes = 0\<rparr>)) = 3"
  using declared_size_decides [of "\<lparr>ze_name = ''bomb'', ze_unix_mode = None, ze_is_dir = False, ze_size = 0, ze_reads = [Inr ''abc'']\<rparr>"
      "''abc''" "\<lparr>max_file_count = 1, max_single_file_bytes = 0, max_expanded_bytes = 0\<rparr>" "\<lambda>_. ''h''" "[]"]
  by (simp add: is_zip_symlink_def)

end
