(* ===== verification/Scan_Support.thy ===== *)
theory Scan_Support
  imports Artifact_Archive
begin

text \<open>
  The helpers of the static scanner, \<^verbatim>\<open>services/surgeon/src/lib.rs\<close>: indicators, line numbers, the window around a
  match with the destination and payload found in it, the recognition of native code and of Java class files, and
  the strings of binary files. Regular expressions, base64, the logarithm of floats and the parsers are a
  library record; a pattern is its text, written for \<open>rx\<close> with a tilde for each backslash and an at sign for each double quote.
\<close>

section \<open>The library\<close>

datatype toml =
    TString string
  | TBool bool
  | TNumber string
  | TArray "toml list"
  | TTable "(string \<times> toml) list"

datatype xml = XElement string "xml list" | XText string | XOther

datatype js_expr = JsIdentifier string | JsStaticMember js_expr string | JsStringLiteral string | JsOther

datatype js_node =
    CallExpression js_expr "js_expr list" nat
  | NewExpression js_expr nat
  | ImportExpression js_expr nat
  | ImportDeclaration string nat
  | MemberExpression js_expr nat

datatype py_node = PyNode string nat nat nat "py_node list"

datatype java_opcode = JavaMember string string string | JavaNew string | JavaOther

record java_class =
  jc_this_class :: string
  jc_methods :: "(string \<times> (nat \<times> java_opcode) list option list) list"

record scan_lib =
  sl_find_iter :: "string \<Rightarrow> string \<Rightarrow> (nat \<times> nat) list"
  sl_capture :: "string \<Rightarrow> string \<Rightarrow> string option"
  sl_b64_decode :: "string \<Rightarrow> string option"
  sl_log2 :: "f64 \<Rightarrow> f64"
  sl_json :: "string \<Rightarrow> json option"
  sl_toml :: "string \<Rightarrow> (string \<times> toml) list option"
  sl_xml :: "string \<Rightarrow> xml list option"
  sl_js :: "string \<Rightarrow> string \<Rightarrow> js_node list"
  sl_python :: "string \<Rightarrow> py_node option"
  sl_class :: "string \<Rightarrow> java_class option"
  sl_zip :: "string \<Rightarrow> (string, zip_entry) result list option"
  sl_read_file :: "string \<Rightarrow> string option"

text \<open>A pattern, with tildes for its backslashes and at signs for its double quotes; the punctuation of summaries.\<close>

definition rx :: "string \<Rightarrow> string" where
  "rx = map (\<lambda>c. if c = CHR ''~'' then CHR 0x5C else if c = CHR ''@'' then CHR 0x22 else c)"

definition em_dash :: string where
  "em_dash = [CHR 0xE2, CHR 0x80, CHR 0x94]"

definition arrow :: string where
  "arrow = [CHR 0xE2, CHR 0x86, CHR 0x92]"

definition is_match :: "scan_lib \<Rightarrow> string \<Rightarrow> string \<Rightarrow> bool" where
  "is_match lib pat s = (sl_find_iter lib pat s \<noteq> [])"

definition slice :: "string \<Rightarrow> nat \<times> nat \<Rightarrow> string" where
  "slice s bounds = take (snd bounds - fst bounds) (drop (fst bounds) s)"

definition find_text :: "scan_lib \<Rightarrow> string \<Rightarrow> string \<Rightarrow> string option" where
  "find_text lib pat s = (case sl_find_iter lib pat s of [] \<Rightarrow> None | m # _ \<Rightarrow> Some (slice s m))"

section \<open>Indicators\<close>

definition display_path :: "string \<Rightarrow> string \<Rightarrow> string" where
  "display_path root_dir path =
     str_replace [CHR 0x5C] ''/'' (from_utf8_lossy (unwrap_or path (path_strip_prefix root_dir path)))"

definition indicator ::
  "string \<Rightarrow> string \<Rightarrow> string \<Rightarrow> Severity \<Rightarrow> 32 word \<Rightarrow> 32 word \<Rightarrow> string \<Rightarrow> IndicatorDetails option \<Rightarrow> StaticIndicator" where
  "indicator root_dir path indicator_type severity start_line end_line summary details =
     \<lparr>si_indicator_type = indicator_type, si_severity = severity, si_file_path = display_path root_dir path,
      si_start_line = start_line, si_end_line = end_line, si_redacted = True, si_summary = summary, si_details = details\<rparr>"

text \<open>Most indicators stand for the file as a whole.\<close>

definition flag :: "string \<Rightarrow> string \<Rightarrow> string \<Rightarrow> Severity \<Rightarrow> string \<Rightarrow> StaticIndicator" where
  "flag root_dir path indicator_type severity summary = indicator root_dir path indicator_type severity 1 1 summary None"

definition line_number :: "string \<Rightarrow> nat \<Rightarrow> 32 word" where
  "line_number text offset = word_of_nat (length (filter (\<lambda>c. c = CHR 0x0A) (take offset text))) + 1"

section \<open>Destination and payload\<close>

definition is_char_boundary :: "string \<Rightarrow> nat \<Rightarrow> bool" where
  "is_char_boundary text i = (i = 0 \<or> i = length text \<or> i < length text \<and> \<not> is_continuation (of_char (text ! i)))"

definition context_window :: "string \<Rightarrow> nat \<Rightarrow> string" where
  "context_window text pos =
     (let start = unwrap_or 0 (List.find (is_char_boundary text) (rev [0..<pos - 300 + 1]));
          end_raw = min (pos + 500) (length text);
          end_pos = unwrap_or (length text) (List.find (is_char_boundary text) [end_raw..<length text + 1])
      in slice text (start, end_pos))"

definition trim_end_set :: "string \<Rightarrow> string \<Rightarrow> string" where
  "trim_end_set chars s = rev (dropWhile (\<lambda>c. c \<in> set chars) (rev s))"

definition hex_nibble :: "char \<Rightarrow> nat option" where
  "hex_nibble c =
     (let b = (of_char c :: nat) in
      if 48 \<le> b \<and> b \<le> 57 then Some (b - 48)
      else if 97 \<le> b \<and> b \<le> 102 then Some (b - 97 + 10)
      else if 65 \<le> b \<and> b \<le> 70 then Some (b - 65 + 10) else None)"

text \<open>The decoded bytes, and whether any escape was found.\<close>

fun percent_decode_loop :: "string \<Rightarrow> string \<times> bool" where
  "percent_decode_loop [] = ([], False)"
| "percent_decode_loop [a] = ([a], False)"
| "percent_decode_loop [a, b] = ([a, b], False)"
| "percent_decode_loop (a # b # c # rest) =
     (case (if a = CHR ''%'' then (hex_nibble b, hex_nibble c) else (None, None)) of
        (Some hi, Some lo) \<Rightarrow> (case percent_decode_loop rest of (out, _) \<Rightarrow> (char_of (16 * hi + lo) # out, True))
      | _ \<Rightarrow> (case percent_decode_loop (b # c # rest) of (out, changed) \<Rightarrow> (a # out, changed)))"

definition percent_decode_window :: "string \<Rightarrow> string option" where
  "percent_decode_window input =
     (case percent_decode_loop input of (out, changed) \<Rightarrow> if changed \<and> utf8_ok out then Some out else None)"

definition payload_patterns :: "(string \<times> string) list" where
  "payload_patterns =
     [(rx ''~bprocess~.env~b'', ''process.env (Node.js environment variables)''),
      (rx ''~bos~.environ~b'', ''os.environ (Python environment variables)''),
      (rx ''System~.getenv~s*~('', ''System.getenv() (Java environment variables)''),
      (rx ''~bstd::env::|env::vars~s*~(|env::var~s*~('', ''std::env (Rust environment variables)''),
      (rx ''JSON~.stringify~s*~('', ''JSON.stringify (serialized object)''),
      (rx ''~bjson~.dumps~s*~('', ''json.dumps (serialized object)''),
      (rx ''base64~.b64encode~s*~(|~.toString~s*~(~s*[@']base64[@']~s*~)'',
       ''base64-encoded payload'')]"

definition extract_payload_hint :: "scan_lib \<Rightarrow> string \<Rightarrow> string option" where
  "extract_payload_hint lib window =
     map_option snd (List.find (\<lambda>(pat, hint). is_match lib pat window) payload_patterns)"

definition url_pattern :: string where
  "url_pattern = rx ''https?://[^~s@'~~)~]>]+''"

definition percent_pattern :: string where
  "percent_pattern = ''[A-Za-z0-9%._~:/?#@!$&'()*+,;='' @ rx ''~-]{6,}%[0-9A-Fa-f]{2}[^~s@']*''"

text \<open>The four attempts at a destination: its text, its encoding, and the raw text if it was encoded.\<close>

definition plain_destination :: "scan_lib \<Rightarrow> string \<Rightarrow> (string \<times> string \<times> string option) option" where
  "plain_destination lib window =
     map_option (\<lambda>m. (trim_end_set [CHR 0x22, CHR 0x27, CHR '')'', CHR '';'', CHR '','', CHR 0x5C] m, ''plaintext'', None))
       (find_text lib url_pattern window)"

definition base64_destination :: "scan_lib \<Rightarrow> string \<Rightarrow> (string \<times> string \<times> string option) option" where
  "base64_destination lib window =
     find_map (\<lambda>m. let raw = slice window m in
         Option.bind (sl_b64_decode lib raw) (\<lambda>decoded.
           if utf8_ok decoded \<and> str_contains ''://'' decoded
           then Some (trim_end_set [CHR 0x22, CHR 0x27, CHR '')'', CHR '';''] decoded, ''base64-decoded'', Some raw) else None))
       (sl_find_iter lib ''[A-Za-z0-9+/]{20,}={0,2}'' window)"

definition percent_destination :: "scan_lib \<Rightarrow> string \<Rightarrow> (string \<times> string \<times> string option) option" where
  "percent_destination lib window =
     Option.bind (percent_decode_window window) (\<lambda>decoded.
       map_option (\<lambda>m. (trim_end_set [CHR 0x22, CHR 0x27, CHR '')'', CHR '';'', CHR '',''] m, ''url-decoded'',
           find_text lib percent_pattern window))
         (find_text lib url_pattern decoded))"

definition host_port_destination :: "scan_lib \<Rightarrow> string \<Rightarrow> (string \<times> string \<times> string option) option" where
  "host_port_destination lib window =
     map_option (\<lambda>hostport. (hostport, ''plaintext'', None))
       (sl_capture lib (rx ''[@']([a-zA-Z0-9.~-]{3,}:~d{2,5})[@']'') window)"

definition extract_indicator_details :: "scan_lib \<Rightarrow> string \<Rightarrow> IndicatorDetails option" where
  "extract_indicator_details lib window =
     (let found = find_map (\<lambda>attempt. attempt lib window)
            [plain_destination, base64_destination, percent_destination, host_port_destination];
          payload_hint = extract_payload_hint lib window
      in if found \<noteq> None \<or> payload_hint \<noteq> None
         then Some \<lparr>id_destination = map_option fst found, id_destination_encoding = map_option (\<lambda>f. fst (snd f)) found,
           id_destination_raw = Option.bind found (\<lambda>f. snd (snd f)), id_payload_hint = payload_hint\<rparr>
         else None)"

section \<open>Native code and class files\<close>

definition lower_extension :: "string \<Rightarrow> string option" where
  "lower_extension path = map_option to_ascii_lowercase (extension_str path)"

definition is_ignored_build_output_path :: "string \<Rightarrow> string \<Rightarrow> bool \<Rightarrow> bool" where
  "is_ignored_build_output_path root_dir path cargo_source_root =
     (cargo_source_root
      \<and> (case path_components (unwrap_or path (path_strip_prefix root_dir path)) of
           Normal part # _ \<Rightarrow> utf8_ok part \<and> to_ascii_lowercase part = ''target''
         | _ \<Rightarrow> False))"

definition is_vendored_native_source_path :: "string \<Rightarrow> bool" where
  "is_vendored_native_source_path path =
     is_some_and (\<lambda>ext. ext \<in> set [''c'', ''cc'', ''cpp'', ''cxx'', ''h'', ''hpp'', ''hxx'', ''m'', ''mm'', ''s'', ''asm''])
       (lower_extension path)"

definition byte_string :: "nat list \<Rightarrow> string" where
  "byte_string bytes = map char_of bytes"

definition looks_like_native_binary :: "string \<Rightarrow> bool" where
  "looks_like_native_binary bytes =
     list_ex (\<lambda>magic. starts_with magic bytes)
       [[CHR 0x7F] @ ''ELF'', ''MZ'', ''!<arch>'' @ [CHR 0x0A], byte_string [0xFE, 0xED, 0xFA, 0xCE],
        byte_string [0xCE, 0xFA, 0xED, 0xFE], byte_string [0xFE, 0xED, 0xFA, 0xCF],
        byte_string [0xCF, 0xFA, 0xED, 0xFE], byte_string [0xCA, 0xFE, 0xBA, 0xBE]]"

definition u16_be :: "string \<Rightarrow> nat \<Rightarrow> nat" where
  "u16_be bytes i = 256 * of_char (bytes ! i) + of_char (bytes ! (i + 1))"

text \<open>The number of bytes after the tag of a constant; the length of a text is read from its first two.\<close>

definition constant_size :: "string \<Rightarrow> nat \<Rightarrow> nat \<Rightarrow> nat option" where
  "constant_size bytes offset tag =
     (if tag = 1 then (if offset + 2 \<le> length bytes then Some (2 + u16_be bytes offset) else None)
      else if tag \<in> set [3, 4, 9, 10, 11, 12, 17, 18] then Some 4
      else if tag \<in> set [5, 6] then Some 8
      else if tag \<in> set [7, 8, 16, 19, 20] then Some 2
      else if tag = 15 then Some 3 else None)"

text \<open>The loop over the constant pool: where it ends, if it can be read. The index is a 16-bit counter that
  wraps around, as in a build without overflow checks; long constants take two indices.\<close>

function constant_pool_end :: "string \<Rightarrow> 16 word \<Rightarrow> nat \<Rightarrow> 16 word \<Rightarrow> nat option" where
  "constant_pool_end bytes constant_pool_count offset index =
     (if \<not> index < constant_pool_count then Some offset
      else if offset < length bytes
      then let tag = of_char (bytes ! offset) :: nat in
           case constant_size bytes (offset + 1) tag of
             None \<Rightarrow> None
           | Some n \<Rightarrow>
               if offset + 1 + n \<le> length bytes
               then constant_pool_end bytes constant_pool_count (offset + 1 + n)
                      (if tag = 5 \<or> tag = 6 then index + 2 else index + 1)
               else None
      else None)"
  by pat_completeness auto
termination
  by (relation "measure (\<lambda>(bytes, _, offset, _). length bytes - offset)") auto

declare constant_pool_end.simps [simp del]

definition looks_like_java_class_file :: "string \<Rightarrow> string \<Rightarrow> bool" where
  "looks_like_java_class_file path bytes =
     (is_some_and (\<lambda>ext. to_ascii_lowercase ext = ''class'') (extension_str path)
      \<and> 24 \<le> length bytes \<and> starts_with (byte_string [0xCA, 0xFE, 0xBA, 0xBE]) bytes
      \<and> 45 \<le> u16_be bytes 6 \<and> u16_be bytes 6 \<le> 70
      \<and> u16_be bytes 8 \<noteq> 0
      \<and> (case constant_pool_end bytes (word_of_nat (u16_be bytes 8)) 10 1 of
           None \<Rightarrow> False
         | Some offset \<Rightarrow> offset + 8 \<le> length bytes \<and> offset + 8 + u16_be bytes (offset + 6) * 2 \<le> length bytes))"

definition is_bundled_native_artifact :: "string \<Rightarrow> string \<Rightarrow> bool" where
  "is_bundled_native_artifact path bytes =
     (\<not> looks_like_java_class_file path bytes
      \<and> (is_some_and (\<lambda>ext. ext \<in> set [''a'', ''so'', ''dylib'', ''dll'', ''lib'', ''o'', ''obj'', ''rlib'']) (lower_extension path)
         \<or> looks_like_native_binary bytes))"

definition record_native_artifact_indicators :: "string \<Rightarrow> string \<Rightarrow> string \<Rightarrow> bool \<Rightarrow> StaticIndicator list" where
  "record_native_artifact_indicators root_dir path bytes cargo_source_root =
     (if is_ignored_build_output_path root_dir path cargo_source_root then []
      else (if is_vendored_native_source_path path
            then [flag root_dir path ''vendored-native-code'' SevHigh ''vendored native source code detected in package contents'']
            else [])
        @ (if is_bundled_native_artifact path bytes
           then [flag root_dir path ''bundled-native-artifact'' SevHigh
             ''bundled precompiled native library or object file detected in package contents'']
           else []))"

definition is_zip_container :: "string \<Rightarrow> bool" where
  "is_zip_container path =
     is_some_and (\<lambda>ext. ext \<in> set [''jar'', ''war'', ''ear'', ''whl'', ''zip'']) (extension_str path)"

definition is_java_archive :: "string \<Rightarrow> bool" where
  "is_java_archive path =
     is_some_and (\<lambda>ext. to_ascii_lowercase ext \<in> set [''jar'', ''war'', ''ear'']) (extension_str path)"

section \<open>Binary files\<close>

definition printable :: "char \<Rightarrow> bool" where
  "printable c = (32 \<le> (of_char c :: nat) \<and> (of_char c :: nat) < 127)"

fun binary_strings_loop :: "nat \<Rightarrow> string \<Rightarrow> string \<Rightarrow> string" where
  "binary_strings_loop min_len current [] = (if min_len \<le> length current then current else [])"
| "binary_strings_loop min_len current (b # bytes) =
     (if printable b then binary_strings_loop min_len (current @ [b]) bytes
      else (if min_len \<le> length current then current @ [CHR 0x0A] else []) @ binary_strings_loop min_len [] bytes)"

definition extract_binary_strings :: "string \<Rightarrow> nat \<Rightarrow> string" where
  "extract_binary_strings bytes min_len = binary_strings_loop min_len [] bytes"

definition jvm_execution_context :: "string \<Rightarrow> string" where
  "jvm_execution_context method_name =
     (if method_name = ''<clinit>'' \<or> method_name = ''<init>'' then ''[load-time]'' else ''[exposed-api]'')"

fun render_java_opcode :: "java_opcode \<Rightarrow> string option" where
  "render_java_opcode (JavaMember class_name name descriptor) =
     Some (''member '' @ class_name @ ''.'' @ name @ '' '' @ descriptor)"
| "render_java_opcode (JavaNew class_name) = Some (''new '' @ class_name)"
| "render_java_opcode JavaOther = None"

definition disassemble_method :: "string \<times> (nat \<times> java_opcode) list option list \<Rightarrow> string list" where
  "disassemble_method m =
     (let (method_name, codes) = m; ctxt = jvm_execution_context method_name in
      (''method '' @ ctxt @ '' '' @ method_name)
      # concat (map (\<lambda>code. case code of
            None \<Rightarrow> []
          | Some opcodes \<Rightarrow> List.map_filter (\<lambda>(offset, opcode). map_option (\<lambda>rendered.
              ctxt @ '' '' @ method_name @ ''@'' @ show_nat offset @ '' '' @ rendered) (render_java_opcode opcode)) opcodes) codes))"

definition disassemble_java_class :: "scan_lib \<Rightarrow> string \<Rightarrow> string option" where
  "disassemble_java_class lib bytes =
     Option.bind (sl_class lib bytes) (\<lambda>class_file.
       let lines = (''class '' @ jc_this_class class_file) # concat (map disassemble_method (jc_methods class_file)) in
       if 1 < length lines then Some (str_join [CHR 0x0A] lines) else None)"

section \<open>Entropy\<close>

definition byte_frequencies :: "string \<Rightarrow> nat list" where
  "byte_frequencies s = map (\<lambda>b. length (filter (\<lambda>c. of_char c = b) s)) [0..<256]"

definition shannon_entropy :: "scan_lib \<Rightarrow> string \<Rightarrow> f64" where
  "shannon_entropy lib s =
     (if s = [] then 0
      else sum_list (map (\<lambda>c. let p = of_nat c / of_nat (length s) in - (p * sl_log2 lib p)) (filter (\<lambda>c. 0 < c) (byte_frequencies s))))"

definition quoted_pattern :: string where
  "quoted_pattern = rx ''(?:[@'`])([A-Za-z0-9+/=!'' @ ''@#$%^&*()_'' @ rx ''~-~[~]{};:<>,.?/~~|'' @ ''~]{30,})'' @ rx ''(?:[@'`])''"

definition detect_high_entropy_strings :: "scan_lib \<Rightarrow> string \<Rightarrow> string \<Rightarrow> string \<Rightarrow> StaticIndicator list" where
  "detect_high_entropy_strings lib root_dir path text =
     List.map_filter (\<lambda>m.
         let inner = slice text (fst m + 1, snd m - 1) in
         if shannon_entropy lib inner > 9 / 2
         then (let line = line_number text (fst m) in
               Some (indicator root_dir path ''high-entropy-string'' SevHigh line line
                 (''high-entropy string literal '' @ em_dash @ '' possible obfuscated key, token, or payload'') None))
         else None)
       (sl_find_iter lib quoted_pattern text)"

definition looks_like_large_base64 :: "scan_lib \<Rightarrow> string \<Rightarrow> bool" where
  "looks_like_large_base64 lib text = is_match lib ''[A-Za-z0-9+/]{200,}={0,2}'' text"

section \<open>Class files are recognised\<close>

text \<open>Class files as they are written: constants with their tags and contents, then the fixed fields, the
  interfaces and the rest.\<close>

datatype pool_constant = PoolText string | PoolConstant nat string

definition u16_bytes :: "nat \<Rightarrow> string" where
  "u16_bytes n = [char_of (n div 256), char_of (n mod 256)]"

fun encode_constant :: "pool_constant \<Rightarrow> string" where
  "encode_constant (PoolText s) = char_of (1 :: nat) # u16_bytes (length s) @ s"
| "encode_constant (PoolConstant tag payload) = char_of tag # payload"

fun constant_ok :: "pool_constant \<Rightarrow> bool" where
  "constant_ok (PoolText s) = (length s < 2 ^ 16)"
| "constant_ok (PoolConstant tag payload) = (tag \<noteq> 1 \<and> tag < 256 \<and> constant_size [] 0 tag = Some (length payload))"

fun constant_slots :: "pool_constant \<Rightarrow> nat" where
  "constant_slots (PoolText s) = 1"
| "constant_slots (PoolConstant tag payload) = (if tag = 5 \<or> tag = 6 then 2 else 1)"

definition pool_slots :: "pool_constant list \<Rightarrow> nat" where
  "pool_slots constants = sum_list (map constant_slots constants)"

definition class_bytes :: "nat \<Rightarrow> nat \<Rightarrow> pool_constant list \<Rightarrow> nat \<times> nat \<times> nat \<Rightarrow> nat list \<Rightarrow> string \<Rightarrow> string" where
  "class_bytes minor major constants ids interfaces rest =
     byte_string [0xCA, 0xFE, 0xBA, 0xBE] @ u16_bytes minor @ u16_bytes major @ u16_bytes (pool_slots constants + 1)
     @ concat (map encode_constant constants)
     @ (case ids of (access, this, super) \<Rightarrow> u16_bytes access @ u16_bytes this @ u16_bytes super)
     @ u16_bytes (length interfaces) @ concat (map u16_bytes interfaces) @ rest"

lemma length_u16_bytes [simp]: "length (u16_bytes n) = 2"
  by (simp add: u16_bytes_def)

lemma u16_be_bytes: "n < 2 ^ 16 \<Longrightarrow> u16_be (pre @ u16_bytes n @ post) (length pre) = n"
  by (simp add: u16_be_def u16_bytes_def nth_append)

text \<open>Reading one constant at the end of what was read before.\<close>

lemma constant_size_encoded:
  assumes "constant_ok c"
  shows "\<exists>tag payload. encode_constant c = char_of tag # payload \<and> tag < (256 :: nat)
    \<and> constant_size (pre @ encode_constant c @ post) (length pre + 1) tag = Some (length payload)
    \<and> constant_slots c = (if tag = 5 \<or> tag = 6 then 2 else 1)"
proof (cases c)
  case (PoolText s)
  with assms u16_be_bytes [of "length s" "pre @ [char_of (1 :: nat)]" "s @ post"] show ?thesis
    by (intro exI [of _ 1] exI [of _ "u16_bytes (length s) @ s"]) (simp add: constant_size_def)
next
  case (PoolConstant tag payload)
  with assms show ?thesis
    by (intro exI [of _ tag] exI [of _ payload]) (auto simp: constant_size_def split: if_splits)
qed

lemma unat_plus_small:
  fixes i :: "16 word"
  assumes "unat i + n < 2 ^ 16"
  shows "unat (i + word_of_nat n) = unat i + n"
  using assms by (simp add: unat_word_ariths unat_of_nat)

lemma constant_pool_end_encoded:
  assumes "list_all constant_ok constants" "unat index + pool_slots constants = unat count"
  shows "constant_pool_end (pre @ concat (map encode_constant constants) @ post) count (length pre) index
    = Some (length pre + length (concat (map encode_constant constants)))"
  using assms
proof (induction constants arbitrary: pre index)
  case Nil
  then have "index = count" by (simp add: pool_slots_def word_unat_eq_iff)
  then show ?case by (simp add: constant_pool_end.simps [of _ count])
next
  case (Cons c cs)
  let ?rest = "concat (map encode_constant cs) @ post"
  obtain tag payload where c: "encode_constant c = char_of tag # payload" "tag < 256"
    "constant_size (pre @ encode_constant c @ ?rest) (length pre + 1) tag = Some (length payload)"
    "constant_slots c = (if tag = 5 \<or> tag = 6 then 2 else 1)"
    using constant_size_encoded [of c pre ?rest] Cons.prems(1) by auto
  let ?next = "if tag = 5 \<or> tag = 6 then index + 2 else index + 1"
  have total: "unat index + constant_slots c + pool_slots cs = unat count"
    using Cons.prems(2) by (simp add: pool_slots_def)
  have bound: "unat index + constant_slots c < 2 ^ 16" using total unsigned_less [of count, where ?'a = nat] by simp
  have index: "unat ?next = unat index + constant_slots c"
    using unat_plus_small [OF bound] by (auto simp: c(4) split: if_splits)
  have "index < count" using total c(4) by (simp add: word_less_nat_alt split: if_splits)
  then have "constant_pool_end (pre @ encode_constant c @ ?rest) count (length pre) index
      = constant_pool_end ((pre @ encode_constant c) @ ?rest) count (length (pre @ encode_constant c)) ?next"
    using c by (subst constant_pool_end.simps) (simp add: nth_append)
  also have "\<dots> = Some (length (pre @ encode_constant c) + length (concat (map encode_constant cs)))"
    using Cons.prems(1) total index by (intro Cons.IH) simp_all
  finally show ?case by simp
qed

text \<open>Every class file of a supported version whose constant pool has at most 65534 slots is recognised as one,
  and so is not reported as a bundled native binary although it starts with a magic number of such.\<close>

lemma class_files_recognised:
  assumes "extension_str path = Some ext" "to_ascii_lowercase ext = ''class''"
    and "45 \<le> major" "major \<le> 70" "list_all constant_ok constants" "pool_slots constants + 1 < 2 ^ 16" "length interfaces < 2 ^ 16"
    and "24 \<le> length (class_bytes minor major constants ids interfaces rest)"
  shows "looks_like_java_class_file path (class_bytes minor major constants ids interfaces rest)
    \<and> \<not> is_bundled_native_artifact path (class_bytes minor major constants ids interfaces rest)"
proof -
  let ?bytes = "class_bytes minor major constants ids interfaces rest" and ?pool = "concat (map encode_constant constants)"
  let ?count = "pool_slots constants + 1"
  obtain access this super where ids: "ids = (access, this, super)" by (cases ids)
  define header where "header = byte_string [0xCA, 0xFE, 0xBA, 0xBE] @ u16_bytes minor @ u16_bytes major @ u16_bytes ?count"
  define tail where "tail = u16_bytes access @ u16_bytes this @ u16_bytes super @ u16_bytes (length interfaces)
    @ concat (map u16_bytes interfaces) @ rest"
  have bytes: "?bytes = header @ ?pool @ tail" by (simp add: class_bytes_def header_def tail_def ids)
  have header: "length header = 10" by (simp add: header_def byte_string_def)
  have major: "u16_be ?bytes 6 = major"
    using u16_be_bytes [of major "byte_string [0xCA, 0xFE, 0xBA, 0xBE] @ u16_bytes minor" "u16_bytes ?count @ ?pool @ tail"] assms(4)
    by (simp add: bytes header_def byte_string_def)
  have count: "u16_be ?bytes 8 = ?count"
    using u16_be_bytes [OF assms(6), of "byte_string [0xCA, 0xFE, 0xBA, 0xBE] @ u16_bytes minor @ u16_bytes major" "?pool @ tail"]
    by (simp add: bytes header_def byte_string_def)
  have "unat (1 :: 16 word) + pool_slots constants = unat (word_of_nat ?count :: 16 word)"
    using unat_plus_small [of 1 "pool_slots constants"] assms(6) by (simp add: add.commute)
  then have pool: "constant_pool_end ?bytes (word_of_nat ?count) 10 1 = Some (10 + length ?pool)"
    using constant_pool_end_encoded [OF assms(5), of 1 "word_of_nat ?count" header tail] header by (simp add: bytes)
  have interfaces: "u16_be ?bytes (10 + length ?pool + 6) = length interfaces"
    using u16_be_bytes [OF assms(7), of "header @ ?pool @ u16_bytes access @ u16_bytes this @ u16_bytes super"
        "concat (map u16_bytes interfaces) @ rest"] header
    by (simp add: bytes tail_def)
  have size: "10 + length ?pool + 8 + length interfaces * 2 \<le> length ?bytes"
    using header by (simp add: bytes tail_def length_concat o_def sum_list_triv)
  have magic: "starts_with (byte_string [0xCA, 0xFE, 0xBA, 0xBE]) ?bytes"
    by (simp add: bytes header_def starts_with_iff)
  have "looks_like_java_class_file path ?bytes"
    unfolding looks_like_java_class_file_def major count pool option.case
    using assms(1-4,8) magic size interfaces by (simp add: add.commute add.left_commute)
  then show ?thesis by (simp add: is_bundled_native_artifact_def)
qed

lemma class_files_recognised_witness:
  "looks_like_java_class_file ''A.class'' (class_bytes 0 52 [PoolText ''A'', PoolConstant 7 ''ab'', PoolConstant 5 ''12345678''] (33, 2, 0) [] ''rest'')"
proof -
  have "utf8_ok ''class''" by code_simp
  then have "extension_str ''A.class'' = Some ''class''"
    by (simp add: extension_str_def path_file_name_def path_components_def is_absolute_def trivial_segment_def
        segment_component_def file_extension_def rsplit_once_def)
  then show ?thesis
    using class_files_recognised [of "''A.class''" "''class''" 52 "[PoolText ''A'', PoolConstant 7 ''ab'', PoolConstant 5 ''12345678'']"
        "[]" 0 "(33, 2, 0)" "''rest''"]
    by (simp add: to_ascii_lowercase_def ascii_lower_char_def constant_size_def pool_slots_def class_bytes_def byte_string_def)
qed

section \<open>The strings of a binary file\<close>

text \<open>The runs of printable characters, by their own definition.\<close>

fun printable_runs :: "string \<Rightarrow> string list" where
  "printable_runs [] = [[]]"
| "printable_runs (b # bytes) =
     (if printable b then (case printable_runs bytes of [] \<Rightarrow> [[b]] | run # runs \<Rightarrow> (b # run) # runs)
      else [] # printable_runs bytes)"

lemma printable_runs_not_Nil [simp]: "printable_runs bytes \<noteq> []"
  by (induction bytes) (auto split: list.split)

lemma printable_run_chars: "run \<in> set (printable_runs bytes) \<Longrightarrow> c \<in> set run \<Longrightarrow> printable c"
proof (induction bytes arbitrary: run)
  case (Cons b bytes)
  show ?case
  proof (cases "printable_runs bytes")
    case (Cons first others)
    with Cons.IH Cons.prems show ?thesis by (cases "printable b") force+
  qed simp
qed simp

definition long_lines :: "nat \<Rightarrow> string list \<Rightarrow> string" where
  "long_lines min_len runs =
     concat (map (\<lambda>run. if min_len \<le> length run then run @ [CHR 0x0A] else []) (butlast runs))
     @ (if min_len \<le> length (last runs) then last runs else [])"

lemma binary_strings_loop_runs:
  "binary_strings_loop min_len current bytes = long_lines min_len ((current @ hd (printable_runs bytes)) # tl (printable_runs bytes))"
proof (induction bytes arbitrary: current)
  case Nil
  show ?case by (simp add: long_lines_def)
next
  case (Cons b bytes)
  obtain run runs where "printable_runs bytes = run # runs" by (cases "printable_runs bytes") auto
  with Cons show ?case by (simp add: long_lines_def)
qed

lemma long_lines_lines:
  assumes "0 < min_len" "\<forall>run \<in> set runs. \<forall>c \<in> set run. printable c" "runs \<noteq> []"
  shows "lines (long_lines min_len runs) = filter (\<lambda>run. min_len \<le> length run) runs"
  using assms(2,3)
proof (induction runs)
  case (Cons run runs)
  have plain: "CHR 0x0A \<notin> set run" "CHR 0x0D \<notin> set run" using Cons.prems by (auto simp: printable_def)
  show ?case
  proof (cases "runs = []")
    case True
    with plain assms(1) show ?thesis by (auto simp: long_lines_def split_on_id)
  next
    case False
    then have ih: "lines (long_lines min_len runs) = filter (\<lambda>run. min_len \<le> length run) runs" using Cons by simp
    have "long_lines min_len (run # runs) = (if min_len \<le> length run then run @ [CHR 0x0A] else []) @ long_lines min_len runs"
      using False by (simp add: long_lines_def)
    then show ?thesis
      using ih plain False by (auto simp: split_on_append strip_carriage_return_id Let_def)
  qed
qed simp

text \<open>The lines that are scanned of a binary file are exactly its maximal runs of printable characters of at least
  the minimal length, in order.\<close>

lemma binary_strings_are_runs:
  assumes "0 < min_len"
  shows "lines (extract_binary_strings bytes min_len) = filter (\<lambda>run. min_len \<le> length run) (printable_runs bytes)"
proof -
  have "extract_binary_strings bytes min_len = long_lines min_len (printable_runs bytes)"
    by (simp add: extract_binary_strings_def binary_strings_loop_runs)
  moreover have "\<forall>run \<in> set (printable_runs bytes). \<forall>c \<in> set run. printable c" using printable_run_chars by blast
  ultimately show ?thesis using long_lines_lines [OF assms] by simp
qed

lemma binary_strings_are_runs_witness:
  "lines (extract_binary_strings (''abcdefgh'' @ [CHR 0x00] @ ''xy'' @ [CHR 0x01] @ ''third-run'') 6) = [''abcdefgh'', ''third-run'']"
  using binary_strings_are_runs [of 6 "''abcdefgh'' @ [CHR 0x00] @ ''xy'' @ [CHR 0x01] @ ''third-run''"]
  by (simp add: printable_def)

end
