(* ===== verification/Manifest_Scan.thy ===== *)
theory Manifest_Scan
  imports Scan_Support
begin

text \<open>
  The structured scan of package manifests, \<^verbatim>\<open>services/surgeon/src/manifest.rs\<close>: npm, setup.cfg, Maven, Cargo,
  pyproject, wheel metadata and top-level modules. A scan is the list of indicators it appends. JSON, TOML and XML
  are read by the library; a set of strings is listed in order where the code collects a \<^verbatim>\<open>BTreeSet\<close>.
\<close>

section \<open>Values\<close>

definition toml_str :: "toml \<Rightarrow> string option" where
  "toml_str v = (case v of TString s \<Rightarrow> Some s | _ \<Rightarrow> None)"

definition toml_bool :: "toml \<Rightarrow> bool option" where
  "toml_bool v = (case v of TBool b \<Rightarrow> Some b | _ \<Rightarrow> None)"

definition toml_array :: "toml \<Rightarrow> toml list option" where
  "toml_array v = (case v of TArray xs \<Rightarrow> Some xs | _ \<Rightarrow> None)"

definition toml_table :: "toml \<Rightarrow> (string \<times> toml) list option" where
  "toml_table v = (case v of TTable t \<Rightarrow> Some t | _ \<Rightarrow> None)"

definition get_table :: "string \<Rightarrow> (string \<times> toml) list \<Rightarrow> (string \<times> toml) list option" where
  "get_table key table = Option.bind (map_of table key) toml_table"

definition get_string :: "string \<Rightarrow> (string \<times> toml) list \<Rightarrow> string option" where
  "get_string key table = Option.bind (map_of table key) toml_str"

definition plural :: "nat \<Rightarrow> string \<Rightarrow> string \<Rightarrow> string" where
  "plural n one many = (if n = 1 then one else many)"

text \<open>\<^verbatim>\<open>chars().take(n)\<close>.\<close>

fun take_chars :: "nat \<Rightarrow> string \<Rightarrow> string" where
  "take_chars 0 s = []"
| "take_chars (Suc n) [] = []"
| "take_chars (Suc n) (c # cs) =
     c # takeWhile (\<lambda>b. is_continuation (of_char b)) cs @ take_chars n (dropWhile (\<lambda>b. is_continuation (of_char b)) cs)"

definition payload_details :: "string \<Rightarrow> IndicatorDetails" where
  "payload_details hint =
     \<lparr>id_destination = None, id_destination_encoding = None, id_destination_raw = None, id_payload_hint = Some hint\<rparr>"

definition mentions_injection :: "string \<Rightarrow> bool" where
  "mentions_injection lower =
     list_ex (\<lambda>phrase. str_contains phrase lower)
       [''ignore previous instructions'', ''exfiltrate'', ''disable security'', ''send secrets'']"

section \<open>npm\<close>

definition NPM_LIFECYCLE_HOOKS :: "string list" where
  "NPM_LIFECYCLE_HOOKS = [''preinstall'', ''install'', ''postinstall'', ''prepare'', ''prepack'', ''postpack'',
     ''prepublish'', ''prepublishOnly'']"

definition SCRIPT_NETWORK_PATTERNS :: "string list" where
  "SCRIPT_NETWORK_PATTERNS = [''curl '', ''wget '', '' nc '', ''fetch('', ''http.get'', ''http.request'']"

definition scan_npm_script :: "string \<Rightarrow> string \<Rightarrow> string \<times> json \<Rightarrow> StaticIndicator list" where
  "scan_npm_script root_dir path entry =
     (let (name, cmd_val) = entry; cmd = unwrap_or [] (as_str cmd_val) in
      (if name \<in> set NPM_LIFECYCLE_HOOKS
       then [indicator root_dir path ''npm-lifecycle-hook'' SevCritical 1 1
         (''npm lifecycle hook `'' @ name @ ''` detected: executes automatically during installation'')
         (Some (payload_details (take_chars 200 cmd)))]
       else [])
      @ (if list_ex (\<lambda>pat. str_contains pat cmd) SCRIPT_NETWORK_PATTERNS
         then [flag root_dir path ''npm-script-network-call'' SevCritical
           (''npm script `'' @ name @ ''` contains network call '' @ em_dash @ '' `'' @ take_chars 120 cmd @ ''`'')]
         else [])
      @ (if str_contains ''$('' cmd \<or> str_contains ''${'' cmd \<or> (str_contains '' + '' cmd \<and> str_contains ''exec'' cmd)
         then [flag root_dir path ''npm-script-shell-construction'' SevHigh
           ''npm script value uses shell substitution or dynamic command construction'']
         else []))"

definition scan_npm_dependency :: "string \<Rightarrow> string \<Rightarrow> string \<Rightarrow> string \<times> json \<Rightarrow> StaticIndicator list" where
  "scan_npm_dependency root_dir path kind entry =
     (let (name, version_val) = entry; version = unwrap_or [] (as_str version_val) in
      (if (kind = ''dependencies'' \<or> kind = ''optionalDependencies'')
          \<and> list_ex (\<lambda>start. starts_with start version) [''file:'', ''git+'', ''github:'', ''git://'']
       then [flag root_dir path ''npm-non-registry-dependency'' SevHigh
         (''package.json production dependency `'' @ name @ ''` uses a non-registry source: `'' @ version @ ''`'')]
       else [])
      @ (if str_contains ''..'' name \<or> CHR ''$'' \<in> set name \<or> CHR ''`'' \<in> set name
         then [flag root_dir path ''npm-suspicious-dependency-name'' SevCritical
           (''package.json dependency name `'' @ name @ ''` contains suspicious characters'')]
         else []))"

definition dependency_sections :: "json \<Rightarrow> (string \<times> (string \<times> json) list) list" where
  "dependency_sections v =
     List.map_filter (\<lambda>kind. map_option (\<lambda>deps. (kind, deps)) (Option.bind (json_get kind v) as_object))
       [''dependencies'', ''devDependencies'', ''optionalDependencies'', ''peerDependencies'']"

definition scan_package_json :: "scan_lib \<Rightarrow> string \<Rightarrow> string \<Rightarrow> string \<Rightarrow> StaticIndicator list" where
  "scan_package_json lib root_dir path content =
     (case sl_json lib content of
        None \<Rightarrow> [flag root_dir path ''malformed-package-json'' SevMedium
          (''package.json could not be parsed as JSON '' @ em_dash @ '' possible obfuscation or corruption'')]
      | Some v \<Rightarrow>
          (let total_deps = sum_list (map (\<lambda>(_, deps). length deps) (dependency_sections v)) in
           concat (map (scan_npm_script root_dir path) (unwrap_or [] (Option.bind (json_get ''scripts'' v) as_object)))
           @ (if json_get ''bin'' v \<noteq> None
              then [flag root_dir path ''npm-executable-entry-point'' SevMedium
                (''package installs global executables via `bin` field '' @ em_dash @ '' inspect for PATH hijacking'')]
              else [])
           @ (if Option.bind (json_get ''install'' v) as_str \<noteq> None
              then [flag root_dir path ''npm-root-install-field'' SevHigh
                (''package.json contains a top-level `install` field '' @ em_dash
                  @ '' uncommon and potentially used for auto-execution'')]
              else [])
           @ concat (map (\<lambda>(kind, deps). concat (map (scan_npm_dependency root_dir path kind) deps)) (dependency_sections v))
           @ (if total_deps > 100
              then [flag root_dir path ''npm-excessive-dependencies'' SevMedium
                (''package.json declares '' @ show_nat total_deps @ '' total dependencies '' @ em_dash @ '' unusually high count'')]
              else [])))"

section \<open>setup.cfg\<close>

record cfg_sections =
  in_entry_points :: bool
  in_options :: bool

definition scan_cfg_line :: "string \<Rightarrow> string \<Rightarrow> 32 word \<Rightarrow> string \<Rightarrow> cfg_sections \<Rightarrow> StaticIndicator list" where
  "scan_cfg_line root_dir path line_num line st =
     (if in_entry_points st
      then (case split_once CHR ''='' line of
              Some (name, target) \<Rightarrow>
                if str_trim target \<noteq> []
                then [indicator root_dir path ''python-setup-cfg-entry-point'' SevMedium line_num line_num
                  (''setup.cfg entry point `'' @ str_trim name @ ''` '' @ arrow @ '' `'' @ str_trim target @ ''` '' @ em_dash
                    @ '' executes on install'') None]
                else []
            | None \<Rightarrow> [])
      else [])
     @ (if in_options st \<and> starts_with ''setup_requires'' line
        then [indicator root_dir path ''python-setup-cfg-setup-requires'' SevHigh line_num line_num
          (''setup.cfg declares `setup_requires` '' @ em_dash @ '' executes build-time dependencies before install'') None]
        else [])
     @ (if mentions_injection (to_ascii_lowercase line)
        then [indicator root_dir path ''ai-agent-injection'' SevCritical line_num line_num
          ''setup.cfg contains AI-agent injection content'' None]
        else [])"

fun scan_setup_cfg_loop :: "string \<Rightarrow> string \<Rightarrow> nat \<Rightarrow> cfg_sections \<Rightarrow> string list \<Rightarrow> StaticIndicator list" where
  "scan_setup_cfg_loop root_dir path line_no st [] = []"
| "scan_setup_cfg_loop root_dir path line_no st (raw_line # rest) =
     (let line = str_trim raw_line in
      if starts_with ''['' line
      then scan_setup_cfg_loop root_dir path (Suc line_no)
             \<lparr>in_entry_points = starts_with ''[options.entry_points]'' line, in_options = starts_with ''[options]'' line\<rparr> rest
      else (if line = [] \<or> starts_with ''#'' line \<or> starts_with '';'' line then []
            else scan_cfg_line root_dir path (word_of_nat (line_no + 1)) line st)
        @ scan_setup_cfg_loop root_dir path (Suc line_no) st rest)"

definition scan_setup_cfg :: "string \<Rightarrow> string \<Rightarrow> string \<Rightarrow> StaticIndicator list" where
  "scan_setup_cfg root_dir path content =
     scan_setup_cfg_loop root_dir path 0 \<lparr>in_entry_points = False, in_options = False\<rparr> (lines content)"

section \<open>Maven\<close>

text \<open>The elements of a tree in document order, each with the names of its ancestors.\<close>

fun elements :: "string list \<Rightarrow> xml \<Rightarrow> (string list \<times> string \<times> xml list) list" where
  "elements enclosing (XElement name children) = (enclosing, name, children) # concat (map (elements (name # enclosing)) children)"
| "elements enclosing _ = []"

definition element_name :: "xml \<Rightarrow> string option" where
  "element_name node = (case node of XElement name _ \<Rightarrow> Some name | _ \<Rightarrow> None)"

text \<open>\<^verbatim>\<open>Node::text\<close>: the first child if it is a text.\<close>

definition first_child_text :: "xml list \<Rightarrow> string \<Rightarrow> string option" where
  "first_child_text children name =
     (case List.find (\<lambda>child. element_name child = Some name) children of
        Some (XElement _ (XText text # _)) \<Rightarrow> if str_trim text = [] then None else Some (str_trim text)
      | _ \<Rightarrow> None)"

definition scan_pom_project :: "string \<Rightarrow> string \<Rightarrow> string list \<Rightarrow> xml list \<Rightarrow> StaticIndicator list" where
  "scan_pom_project root_dir path enclosing children =
     (let all = concat (map (elements (''project'' # enclosing)) children);
          named = (\<lambda>names. filter (\<lambda>(_, name, _). name \<in> set names) ((enclosing, ''project'', children) # all));
          dependencies = filter (\<lambda>(ancestors, _, _). \<not> list_ex (\<lambda>a. a \<in> set [''plugin'', ''pluginManagement'']) ancestors)
            (named [''dependency'']);
          scopes = List.map_filter (\<lambda>(_, _, cs). opt_filter (\<lambda>scope. scope \<noteq> ''compile'') (first_child_text cs ''scope'')) dependencies;
          classifier_count = length (filter (\<lambda>(_, _, cs). first_child_text cs ''classifier'' \<noteq> None) dependencies);
          plugin_count = length (named [''plugin'']);
          repository_count = length (named [''repository'', ''pluginRepository''])
      in (if dependencies \<noteq> []
          then [flag root_dir path ''maven-dependency'' SevLow
            (''pom.xml declares '' @ show_nat (length dependencies) @ '' dependency or dependencyManagement entr''
              @ plural (length dependencies) ''y'' ''ies'')]
          else [])
       @ (if scopes \<noteq> []
          then [flag root_dir path ''maven-dependency-scope'' SevLow
            (''pom.xml declares '' @ show_nat (length scopes) @ '' non-compile dependency scope entr'' @ plural (length scopes) ''y'' ''ies''
              @ '': '' @ str_join '', '' (btree_set scopes))]
          else [])
       @ (if classifier_count > 0
          then [flag root_dir path ''maven-dependency-classifier'' SevLow
            (''pom.xml declares '' @ show_nat classifier_count @ '' dependency classifier entr'' @ plural classifier_count ''y'' ''ies'' @ '' ''
              @ em_dash @ '' platform-specific or alternate artifact variants require review'')]
          else [])
       @ (if plugin_count > 0
          then [flag root_dir path ''maven-build-plugin'' SevHigh
            (''pom.xml declares '' @ show_nat plugin_count @ '' Maven build plugin entr'' @ plural plugin_count ''y'' ''ies'' @ '' ''
              @ em_dash @ '' plugin code can execute during the build lifecycle'')]
          else [])
       @ (if repository_count > 0
          then [flag root_dir path ''maven-repository-override'' SevHigh
            (''pom.xml declares '' @ show_nat repository_count @ '' custom Maven repositor'' @ plural repository_count ''y'' ''ies'' @ '' ''
              @ em_dash @ '' dependency resolution is widened beyond the default repository set'')]
          else [])
       @ (if list_ex (\<lambda>child. element_name child = Some ''parent'') children
          then [flag root_dir path ''maven-parent-pom'' SevMedium
            (''pom.xml inherits from a parent POM '' @ em_dash @ '' build and dependency policy may be supplied transitively'')]
          else [])
       @ (if named [''relocation''] \<noteq> []
          then [flag root_dir path ''maven-relocation'' SevHigh
            (''pom.xml declares artifact relocation '' @ em_dash
              @ '' coordinates may resolve to a different artifact than requested'')]
          else []))"

definition scan_pom_xml :: "scan_lib \<Rightarrow> string \<Rightarrow> string \<Rightarrow> string \<Rightarrow> StaticIndicator list" where
  "scan_pom_xml lib root_dir path content =
     (case sl_xml lib content of
        None \<Rightarrow> [flag root_dir path ''malformed-pom-xml'' SevMedium
          (''pom.xml could not be parsed as XML '' @ em_dash @ '' possible obfuscation or corruption'')]
      | Some document \<Rightarrow>
          (case List.find (\<lambda>(_, name, _). name = ''project'') (concat (map (elements []) document)) of
             None \<Rightarrow> [flag root_dir path ''malformed-pom-xml'' SevMedium ''pom.xml is missing the Maven `<project>` root element'']
           | Some (enclosing, _, children) \<Rightarrow> scan_pom_project root_dir path enclosing children))"

section \<open>Cargo\<close>

record CargoDependencyAnalysis =
  cd_build_sections :: nat
  cd_dev_sections :: nat
  cd_target_sections :: nat
  cd_optional_names :: "string list"

definition empty_analysis :: CargoDependencyAnalysis where
  "empty_analysis = \<lparr>cd_build_sections = 0, cd_dev_sections = 0, cd_target_sections = 0, cd_optional_names = []\<rparr>"

definition merge_analysis :: "CargoDependencyAnalysis \<Rightarrow> CargoDependencyAnalysis \<Rightarrow> CargoDependencyAnalysis" where
  "merge_analysis a b =
     \<lparr>cd_build_sections = cd_build_sections a + cd_build_sections b, cd_dev_sections = cd_dev_sections a + cd_dev_sections b,
      cd_target_sections = cd_target_sections a + cd_target_sections b,
      cd_optional_names = remdups (cd_optional_names a @ cd_optional_names b)\<rparr>"

record CargoFeatureAnalysis =
  cf_feature_count :: nat
  cf_edge_count :: nat
  cf_optional_edge_count :: nat

definition scan_cargo_dependency :: "string \<Rightarrow> string \<Rightarrow> string \<Rightarrow> string \<times> toml \<Rightarrow> StaticIndicator list" where
  "scan_cargo_dependency root_dir path section_name entry =
     (case toml_table (snd entry) of
        None \<Rightarrow> []
      | Some dependency \<Rightarrow>
          concat (map (\<lambda>(key, indicator_type, words). case get_string key dependency of
              Some target \<Rightarrow> [flag root_dir path indicator_type SevHigh
                (''Cargo.toml `'' @ section_name @ ''` dependency `'' @ fst entry @ ''` resolves from '' @ words @ '' `'' @ target @ ''`'')]
            | None \<Rightarrow> [])
            [(''git'', ''cargo-git-dependency'', ''git source''), (''path'', ''cargo-path-dependency'', ''local path''),
             (''registry'', ''cargo-alternate-registry-dependency'', ''alternate registry'')]))"

definition optional_dependency :: "string \<times> toml \<Rightarrow> bool" where
  "optional_dependency entry =
     (Option.bind (Option.bind (toml_table (snd entry)) (\<lambda>t. map_of t ''optional'')) toml_bool = Some True)"

definition scan_cargo_dependency_table ::
  "string \<Rightarrow> string \<Rightarrow> string \<Rightarrow> (string \<times> toml) list \<Rightarrow> CargoDependencyAnalysis \<times> StaticIndicator list" where
  "scan_cargo_dependency_table root_dir path section_name dependencies =
     (empty_analysis\<lparr>cd_optional_names := remdups (map fst (filter optional_dependency dependencies))\<rparr>,
      concat (map (scan_cargo_dependency root_dir path section_name) dependencies))"

definition dependency_section_names :: "string list" where
  "dependency_section_names = [''dependencies'', ''dev-dependencies'', ''build-dependencies'']"

text \<open>One section of a table: its analysis with the section counted if it is not empty. A section of a target
  table counts as a target section too.\<close>

definition scan_cargo_section ::
  "string \<Rightarrow> string \<Rightarrow> string \<Rightarrow> bool \<Rightarrow> (string \<times> toml) list \<Rightarrow> string \<Rightarrow> CargoDependencyAnalysis \<times> StaticIndicator list" where
  "scan_cargo_section root_dir path prefix_text in_target table kind =
     (case get_table kind table of
        None \<Rightarrow> (empty_analysis, [])
      | Some dependencies \<Rightarrow>
          (let (table_analysis, indicators) = scan_cargo_dependency_table root_dir path (prefix_text @ kind) dependencies;
               counted = empty_analysis\<lparr>cd_build_sections := (if kind = ''build-dependencies'' then 1 else 0),
                 cd_dev_sections := (if kind = ''dev-dependencies'' then 1 else 0),
                 cd_target_sections := (if in_target then 1 else 0)\<rparr>
           in (if dependencies \<noteq> [] then merge_analysis table_analysis counted else table_analysis, indicators)))"

definition scan_cargo_sections ::
  "string \<Rightarrow> string \<Rightarrow> string \<Rightarrow> bool \<Rightarrow> (string \<times> toml) list \<Rightarrow> CargoDependencyAnalysis \<times> StaticIndicator list" where
  "scan_cargo_sections root_dir path prefix_text in_target table =
     (let parts = map (scan_cargo_section root_dir path prefix_text in_target table) dependency_section_names in
      (foldl merge_analysis empty_analysis (map fst parts), concat (map snd parts)))"

definition scan_cargo_target_tables ::
  "string \<Rightarrow> string \<Rightarrow> (string \<times> toml) list \<Rightarrow> CargoDependencyAnalysis \<times> StaticIndicator list" where
  "scan_cargo_target_tables root_dir path targets =
     (let parts = List.map_filter (\<lambda>(target_name, value). map_option (scan_cargo_sections root_dir path (''target.'' @ target_name @ ''.'') True)
            (toml_table value)) targets
      in (foldl merge_analysis empty_analysis (map fst parts), concat (map snd parts)))"

text \<open>Whether a feature reference activates an optional dependency, and the dependency it names with \<^verbatim>\<open>dep:\<close>.\<close>

definition feature_reference_matches_optional_dependency :: "string \<Rightarrow> string list \<Rightarrow> bool \<times> string option" where
  "feature_reference_matches_optional_dependency reference optional_names =
     (let trimmed = str_trim reference;
          reference_body = unwrap_or trimmed (strip_prefix ''dep:'' trimmed);
          is_conditional_forward = (str_contains ''?/'' reference_body \<or> ends_with ''?'' reference_body);
          dependency_name = trim_end_matches CHR ''?''
            (case split_once CHR ''/'' reference_body of Some (name, _) \<Rightarrow> name | None \<Rightarrow> reference_body)
      in (\<not> is_conditional_forward \<and> dependency_name \<in> set optional_names,
          if starts_with ''dep:'' trimmed \<and> dependency_name \<in> set optional_names then Some dependency_name else None))"

definition scan_cargo_features :: "(string \<times> toml) list option \<Rightarrow> string list \<Rightarrow> CargoFeatureAnalysis option" where
  "scan_cargo_features features optional_names =
     (let declared = unwrap_or [] features;
          references = concat (map (\<lambda>(_, values). List.map_filter toml_str (unwrap_or [] (toml_array values))) declared);
          judged = map (\<lambda>reference. feature_reference_matches_optional_dependency reference optional_names) references;
          dep_references = List.map_filter snd judged;
          implicit = length (filter (\<lambda>name. name \<notin> set dep_references) optional_names);
          analysis = \<lparr>cf_feature_count = length declared + implicit, cf_edge_count = length references + implicit,
            cf_optional_edge_count = length (filter fst judged) + implicit\<rparr>
      in if cf_feature_count analysis = 0 then None else Some analysis)"

definition cargo_feature_summary :: "CargoFeatureAnalysis \<Rightarrow> string" where
  "cargo_feature_summary a =
     ''Cargo feature graph defines '' @ show_nat (cf_feature_count a) @ '' feature(s) with '' @ show_nat (cf_edge_count a) @ '' edge(s)''
     @ (if cf_optional_edge_count a > 0
        then ''; '' @ show_nat (cf_optional_edge_count a) @ '' edge(s) activate optional dependencies'' else [])"

definition cargo_build_indicators :: "string \<Rightarrow> string \<Rightarrow> (string \<times> toml) list \<Rightarrow> StaticIndicator list" where
  "cargo_build_indicators root_dir path table =
     (case Option.bind (get_table ''package'' table) (\<lambda>package. map_of package ''build'') of
        Some (TString build_path) \<Rightarrow>
          if str_trim build_path \<noteq> []
          then [flag root_dir path ''cargo-build-script'' SevCritical
            (''Cargo.toml declares build script `'' @ build_path @ ''` '' @ em_dash @ '' executes during cargo build'')]
          else []
      | Some (TBool True) \<Rightarrow> [flag root_dir path ''cargo-build-script'' SevCritical
          (''Cargo.toml enables a build script '' @ em_dash @ '' executes during cargo build'')]
      | _ \<Rightarrow> [])"

definition cargo_analysis_indicators :: "string \<Rightarrow> string \<Rightarrow> CargoDependencyAnalysis \<Rightarrow> StaticIndicator list" where
  "cargo_analysis_indicators root_dir path a =
     (let optional_count = length (cd_optional_names a) in
      (if cd_build_sections a > 0
       then [flag root_dir path ''cargo-build-dependency'' SevHigh
         (''Cargo.toml declares '' @ show_nat (cd_build_sections a) @ '' build-dependency section(s) '' @ em_dash
           @ '' build-time code executes before the crate is compiled'')]
       else [])
      @ (if cd_dev_sections a > 0
         then [flag root_dir path ''cargo-dev-dependency'' SevLow
           (''Cargo.toml declares '' @ show_nat (cd_dev_sections a) @ '' dev-dependency section(s) '' @ em_dash
             @ '' test and tooling code expands the artifact review surface'')]
         else [])
      @ (if cd_optional_names a \<noteq> []
         then [flag root_dir path ''cargo-optional-dependency'' SevLow
           (''Cargo.toml declares '' @ show_nat optional_count @ '' optional dependenc'' @ plural optional_count ''y'' ''ies'' @ '' '' @ em_dash
             @ '' feature flags can activate additional code paths'')]
         else [])
      @ (if cd_target_sections a > 0
         then [flag root_dir path ''cargo-target-specific-dependency'' SevLow
           (''Cargo.toml declares '' @ show_nat (cd_target_sections a) @ '' target-specific dependency section(s) '' @ em_dash
             @ '' platform-specific code paths require review'')]
         else []))"

definition cargo_analysis ::
  "string \<Rightarrow> string \<Rightarrow> (string \<times> toml) list \<Rightarrow> CargoDependencyAnalysis \<times> StaticIndicator list" where
  "cargo_analysis root_dir path table =
     (let (analysis, found) = scan_cargo_sections root_dir path [] False table;
          (target_analysis, target_found) = (case get_table ''target'' table of
             Some targets \<Rightarrow> scan_cargo_target_tables root_dir path targets | None \<Rightarrow> (empty_analysis, []))
      in (merge_analysis analysis target_analysis, found @ target_found))"

definition scan_cargo_toml :: "scan_lib \<Rightarrow> string \<Rightarrow> string \<Rightarrow> string \<Rightarrow> StaticIndicator list" where
  "scan_cargo_toml lib root_dir path content =
     (case sl_toml lib content of
        None \<Rightarrow> [flag root_dir path ''malformed-cargo-toml'' SevMedium
          (''Cargo.toml could not be parsed '' @ em_dash @ '' possible obfuscation or corruption'')]
      | Some table \<Rightarrow>
          (let (analysis, found) = cargo_analysis root_dir path table in
           cargo_build_indicators root_dir path table
           @ (if Option.bind (Option.bind (get_table ''lib'' table) (\<lambda>l. map_of l ''proc-macro'')) toml_bool = Some True
              then [flag root_dir path ''cargo-proc-macro'' SevHigh
                (''Cargo.toml declares a procedural macro crate '' @ em_dash @ '' executes compiler-hosted Rust code at build time'')]
              else [])
           @ found
           @ cargo_analysis_indicators root_dir path analysis
           @ (case scan_cargo_features (get_table ''features'' table) (cd_optional_names analysis) of
                Some features \<Rightarrow> [flag root_dir path ''cargo-feature-graph'' SevLow (cargo_feature_summary features)]
              | None \<Rightarrow> [])
           @ (if map_of table ''patch'' \<noteq> None
              then [flag root_dir path ''cargo-patch-override'' SevHigh
                (''Cargo.toml contains `[patch]` overrides '' @ em_dash @ '' dependency sources are being rewritten'')]
              else [])
           @ (if map_of table ''replace'' \<noteq> None
              then [flag root_dir path ''cargo-replace-override'' SevHigh
                (''Cargo.toml contains `[replace]` overrides '' @ em_dash @ '' dependency identities are being substituted'')]
              else [])))"

section \<open>Cargo.lock\<close>

definition parse_cargo_lock_dependency_entry :: "string \<Rightarrow> (string \<times> string option) option" where
  "parse_cargo_lock_dependency_entry entry =
     (let trimmed = str_trim (case split_before '' ('' entry of Some (first, _) \<Rightarrow> first | None \<Rightarrow> entry) in
      if trimmed = [] then None
      else case rsplit_once CHR '' '' trimmed of
          Some (name, version) \<Rightarrow>
            if str_trim name \<noteq> [] \<and> str_trim version \<noteq> [] \<and> list_ex is_ascii_digit (str_trim version)
            then Some (str_trim name, Some (str_trim version)) else Some (trimmed, None)
        | None \<Rightarrow> Some (trimmed, None))"

definition cargo_lock_local_package_refs :: "toml list \<Rightarrow> (string \<times> string) list \<times> string list" where
  "cargo_lock_local_package_refs packages =
     (let entries = concat (map (\<lambda>package. List.map_filter (\<lambda>dependency. Option.bind (toml_str dependency) parse_cargo_lock_dependency_entry)
            (unwrap_or [] (Option.bind (Option.bind (toml_table package) (\<lambda>t. map_of t ''dependencies'')) toml_array))) packages)
      in (List.map_filter (\<lambda>(name, version). map_option (\<lambda>v. (name, v)) version) entries, map fst entries))"

definition is_default_crates_io_source :: "string \<Rightarrow> bool" where
  "is_default_crates_io_source source =
     (str_contains ''github.com/rust-lang/crates.io-index'' source \<or> str_contains ''index.crates.io'' source)"

definition scan_cargo_lock_package ::
  "string \<Rightarrow> string \<Rightarrow> (string \<times> string) list \<times> string list \<Rightarrow> toml \<Rightarrow> StaticIndicator list" where
  "scan_cargo_lock_package root_dir path local_refs package =
     (case toml_table package of
        None \<Rightarrow> []
      | Some package_table \<Rightarrow>
          (let name = unwrap_or ''unknown'' (get_string ''name'' package_table);
               version = unwrap_or [] (get_string ''version'' package_table);
               label = ''Cargo.lock package `'' @ name @ ''@'' @ version @ ''` resolves from ''
           in case get_string ''source'' package_table of
                None \<Rightarrow>
                  if (name, version) \<in> set (fst local_refs) \<or> name \<in> set (snd local_refs)
                  then [flag root_dir path ''cargo-path-dependency'' SevHigh
                    (label @ ''local path or workspace source with no registry source recorded'')]
                  else []
              | Some source \<Rightarrow>
                  if starts_with ''git+'' source
                  then [flag root_dir path ''cargo-git-dependency'' SevHigh (label @ ''git source `'' @ source @ ''`'')]
                  else if starts_with ''path+'' source
                  then [flag root_dir path ''cargo-path-dependency'' SevHigh (label @ ''local path source `'' @ source @ ''`'')]
                  else if starts_with ''registry+'' source \<and> \<not> is_default_crates_io_source source
                  then [flag root_dir path ''cargo-alternate-registry-dependency'' SevHigh
                    (label @ ''alternate registry source `'' @ source @ ''`'')]
                  else []))"

definition scan_cargo_lock :: "scan_lib \<Rightarrow> string \<Rightarrow> string \<Rightarrow> string \<Rightarrow> StaticIndicator list" where
  "scan_cargo_lock lib root_dir path content =
     (case sl_toml lib content of
        None \<Rightarrow> [flag root_dir path ''malformed-cargo-lock'' SevMedium
          (''Cargo.lock could not be parsed '' @ em_dash @ '' possible obfuscation or corruption'')]
      | Some table \<Rightarrow>
          (case Option.bind (map_of table ''package'') toml_array of
             None \<Rightarrow> []
           | Some packages \<Rightarrow>
               concat (map (scan_cargo_lock_package root_dir path (cargo_lock_local_package_refs packages)) packages)))"

section \<open>Python\<close>

definition known_safe_backends :: "string list" where
  "known_safe_backends = [''setuptools'', ''hatchling'', ''flit_core'', ''maturin'', ''poetry-core'', ''pdm-backend'', ''scikit-build-core'']"

definition requirement_base_name :: "string \<Rightarrow> string" where
  "requirement_base_name req = str_trim (takeWhile (\<lambda>c. c \<notin> set ''[><=;'') req)"

definition scan_build_requirement :: "string \<Rightarrow> string \<Rightarrow> toml \<Rightarrow> StaticIndicator list" where
  "scan_build_requirement root_dir path req =
     (let base_name = requirement_base_name (unwrap_or [] (toml_str req)) in
      if \<not> list_ex (\<lambda>safe. to_ascii_lowercase base_name = to_ascii_lowercase safe) known_safe_backends \<and> base_name \<noteq> []
      then [flag root_dir path ''python-unusual-build-backend'' SevHigh
        (''pyproject.toml build-system requires unknown backend `'' @ base_name @ ''` '' @ em_dash
          @ '' may execute arbitrary code during build'')]
      else [])"

definition scan_pyproject_toml :: "scan_lib \<Rightarrow> string \<Rightarrow> string \<Rightarrow> string \<Rightarrow> StaticIndicator list" where
  "scan_pyproject_toml lib root_dir path content =
     (case sl_toml lib content of
        None \<Rightarrow> [flag root_dir path ''malformed-pyproject-toml'' SevMedium
          (''pyproject.toml could not be parsed '' @ em_dash @ '' possible obfuscation or corruption'')]
      | Some table \<Rightarrow>
          map (\<lambda>(name, target). flag root_dir path ''python-entry-point'' SevMedium
              (''Python entry point `'' @ name @ ''` '' @ arrow @ '' `'' @ unwrap_or [] (toml_str target) @ ''` '' @ em_dash @ '' executes on install''))
            (unwrap_or [] (Option.bind (get_table ''project'' table) (get_table ''scripts'')))
          @ concat (map (scan_build_requirement root_dir path)
              (unwrap_or [] (Option.bind (get_table ''build-system'' table) (\<lambda>b. Option.bind (map_of b ''requires'') toml_array))))
          @ (case Option.bind (get_table ''tool'' table) (get_table ''setuptools'') of
               Some st \<Rightarrow>
                 if map_of st ''cmdclass'' \<noteq> None \<or> map_of st ''package_data'' \<noteq> None
                 then [flag root_dir path ''python-setuptools-custom-hook'' SevHigh
                   (''pyproject.toml contains setuptools custom cmdclass or package_data '' @ em_dash
                     @ '' may execute code at install time'')]
                 else []
             | None \<Rightarrow> []))"

definition normalize_python_import_name :: "string \<Rightarrow> string option" where
  "normalize_python_import_name value =
     (let name = trim_matches CHR '','' (str_trim (unwrap_or [] (first_word (takeWhile (\<lambda>c. c \<noteq> CHR '';'') value)))) in
      if name = [] then None
      else let normalized = str_replace ''-'' ''_'' name in
        if list_all (\<lambda>ch. ch = CHR ''_'' \<or> ch = CHR ''.'' \<or> is_ascii_alphanumeric ch) normalized then Some normalized else None)"

definition emit_python_top_level_module_indicator :: "string \<Rightarrow> string \<Rightarrow> string list \<Rightarrow> StaticIndicator list" where
  "emit_python_top_level_module_indicator root_dir path import_names =
     (if import_names = [] then []
      else let module_list = str_join '', '' (btree_set import_names) in
        [indicator root_dir path ''python-top-level-module-hint'' SevInfo 1 1
          (''Python package declares top-level import module hints: '' @ module_list) (Some (payload_details module_list))])"

definition scan_metadata_line :: "string \<Rightarrow> string \<Rightarrow> string \<Rightarrow> StaticIndicator list" where
  "scan_metadata_line root_dir path line =
     (if (starts_with ''Description:'' line \<or> starts_with ''Summary:'' line) \<and> mentions_injection (to_ascii_lowercase line)
      then [flag root_dir path ''ai-agent-injection'' SevCritical
        ''wheel METADATA description/summary contains AI-agent injection content'']
      else [])"

definition header_values :: "string \<Rightarrow> string list \<Rightarrow> string list" where
  "header_values header ls = map str_trim (List.map_filter (strip_prefix header) ls)"

definition import_name_of_line :: "string \<Rightarrow> string option" where
  "import_name_of_line line =
     Option.bind (case strip_prefix ''Import-Name:'' line of Some v \<Rightarrow> Some v | None \<Rightarrow> strip_prefix ''Import-Namespace:'' line)
       (\<lambda>v. normalize_python_import_name (str_trim v))"

definition scan_wheel_metadata :: "string \<Rightarrow> string \<Rightarrow> string \<Rightarrow> StaticIndicator list" where
  "scan_wheel_metadata root_dir path content =
     (let ls = lines content; home_pages = header_values ''Home-page:'' ls; requires_dist = header_values ''Requires-Dist:'' ls in
      concat (map (scan_metadata_line root_dir path) ls)
      @ (if home_pages \<noteq> [] \<and> \<not> starts_with ''https://'' (last home_pages) \<and> \<not> starts_with ''http://'' (last home_pages)
            \<and> last home_pages \<noteq> []
         then [flag root_dir path ''python-unusual-home-page'' SevLow
           (''wheel METADATA Home-page has unusual scheme: '' @ last home_pages)]
         else [])
      @ (if length requires_dist > 50
         then [flag root_dir path ''python-excessive-dependencies'' SevMedium
           (''wheel METADATA declares '' @ show_nat (length requires_dist) @ '' Requires-Dist entries '' @ em_dash
             @ '' unusually high dependency count'')]
         else [])
      @ emit_python_top_level_module_indicator root_dir path (List.map_filter import_name_of_line ls))"

definition scan_python_top_level_txt :: "string \<Rightarrow> string \<Rightarrow> string \<Rightarrow> StaticIndicator list" where
  "scan_python_top_level_txt root_dir path content =
     emit_python_top_level_module_indicator root_dir path (List.map_filter normalize_python_import_name (lines content))"

end
