(* ===== verification/Ast_Scan.thy ===== *)
theory Ast_Scan
  imports Scan_Support
begin

text \<open>
  The scans over syntax trees, \<^verbatim>\<open>services/surgeon/src/js_ast.rs\<close> and \<^verbatim>\<open>py_ast.rs\<close>. The parsers are the library's: for
  JavaScript the nodes in the order in which the walk visits them, parents first, for Python the tree. A scan is
  the list of indicators it appends.
\<close>

section \<open>JavaScript\<close>

definition DANGEROUS_NODE_BUILTINS :: "(string \<times> Severity) list" where
  "DANGEROUS_NODE_BUILTINS = [(''child_process'', SevCritical), (''vm'', SevCritical), (''cluster'', SevHigh), (''worker_threads'', SevHigh),
     (''net'', SevHigh), (''dgram'', SevHigh), (''dns'', SevHigh), (''http'', SevHigh), (''https'', SevHigh), (''tls'', SevHigh)]"

definition byte_offset_to_line :: "string \<Rightarrow> nat \<Rightarrow> 32 word" where
  "byte_offset_to_line source offset =
     word_of_nat (length (filter (\<lambda>b. b = CHR 0x0A) (take (min offset (length source)) source)) + 1)"

definition first_string_arg :: "js_expr list \<Rightarrow> string option" where
  "first_string_arg args = (case args of JsStringLiteral s # _ \<Rightarrow> Some s | _ \<Rightarrow> None)"

definition js_emit :: "string \<Rightarrow> string \<Rightarrow> string \<Rightarrow> string \<Rightarrow> Severity \<Rightarrow> nat \<Rightarrow> string \<Rightarrow> StaticIndicator" where
  "js_emit root_dir path source indicator_type severity byte_offset summary =
     (let line = byte_offset_to_line source byte_offset in
      indicator root_dir path indicator_type severity line line summary None)"

definition bare_module :: "string \<Rightarrow> string" where
  "bare_module module_name = takeWhile (\<lambda>c. c \<noteq> CHR ''/'') (unwrap_or module_name (strip_prefix ''node:'' module_name))"

definition check_module_import :: "string \<Rightarrow> string \<Rightarrow> string \<Rightarrow> string \<Rightarrow> nat \<Rightarrow> string \<Rightarrow> StaticIndicator list" where
  "check_module_import root_dir path source module_name span_start import_kind =
     (case map_of DANGEROUS_NODE_BUILTINS (bare_module module_name) of
        Some severity \<Rightarrow> [js_emit root_dir path source ''js-ast-dangerous-import'' severity span_start
          (import_kind @ ''('' @ [CHR 0x27] @ module_name @ [CHR 0x27] @ '') '' @ em_dash @ '' dangerous Node.js built-in module'')]
      | None \<Rightarrow> [])"

definition visit_identifier_call :: "string \<Rightarrow> string \<Rightarrow> string \<Rightarrow> string \<Rightarrow> js_expr list \<Rightarrow> nat \<Rightarrow> StaticIndicator list" where
  "visit_identifier_call root_dir path source name args span_start =
     (if name = ''eval''
      then [js_emit root_dir path source ''js-ast-eval'' SevCritical span_start
        (''eval() call detected at AST level '' @ em_dash @ '' executes arbitrary code'')]
      else if name = ''require''
      then (case first_string_arg args of
              Some module_name \<Rightarrow> check_module_import root_dir path source module_name span_start ''require'' | None \<Rightarrow> [])
      else if name \<in> set [''setTimeout'', ''setInterval'', ''setImmediate'']
      then (if is_some_and (\<lambda>code. length code > 8) (first_string_arg args)
            then [js_emit root_dir path source ''js-ast-deferred-string-eval'' SevHigh span_start
              (''timer function invoked with string argument '' @ em_dash @ '' equivalent to eval'')]
            else [])
      else if name \<in> set [''execSync'', ''spawnSync'', ''execFileSync'']
      then [js_emit root_dir path source ''js-ast-shell-exec-sync'' SevCritical span_start
        (''synchronous shell execution function '' @ em_dash @ '' runs before async handlers complete'')]
      else [])"

fun visit_js_node :: "string \<Rightarrow> string \<Rightarrow> string \<Rightarrow> js_node \<Rightarrow> StaticIndicator list" where
  "visit_js_node root_dir path source (CallExpression callee args span_start) =
     (case callee of
        JsIdentifier name \<Rightarrow> visit_identifier_call root_dir path source name args span_start
      | JsStaticMember _ property \<Rightarrow>
          if property = ''require''
          then (case first_string_arg args of
                  Some module_name \<Rightarrow> check_module_import root_dir path source module_name span_start ''member-require'' | None \<Rightarrow> [])
          else []
      | _ \<Rightarrow> [])"
| "visit_js_node root_dir path source (NewExpression callee span_start) =
     (if callee = JsIdentifier ''Function''
      then [js_emit root_dir path source ''js-ast-function-constructor'' SevCritical span_start
        (''new Function() detected at AST level '' @ em_dash @ '' constructs and executes code at runtime'')]
      else [])"
| "visit_js_node root_dir path source (ImportExpression target span_start) =
     (case target of
        JsStringLiteral module_name \<Rightarrow> check_module_import root_dir path source module_name span_start ''dynamic-import''
      | _ \<Rightarrow> [js_emit root_dir path source ''js-ast-dynamic-import'' SevHigh span_start
          (''dynamic import() with computed module name '' @ em_dash @ '' may load code at runtime'')])"
| "visit_js_node root_dir path source (ImportDeclaration module_name span_start) =
     check_module_import root_dir path source module_name span_start ''import''"
| "visit_js_node root_dir path source (MemberExpression member span_start) =
     (if member = JsStaticMember (JsIdentifier ''process'') ''env''
      then [js_emit root_dir path source ''js-ast-process-env'' SevHigh span_start ''process.env access detected at AST level'']
      else [])"

definition scan_js_ast :: "scan_lib \<Rightarrow> string \<Rightarrow> string \<Rightarrow> string \<Rightarrow> StaticIndicator list" where
  "scan_js_ast lib root_dir path source = concat (map (visit_js_node root_dir path source) (sl_js lib path source))"

section \<open>Python\<close>

definition DANGEROUS_STDLIB :: "(string \<times> Severity) list" where
  "DANGEROUS_STDLIB = [(''subprocess'', SevCritical), (''os'', SevHigh), (''sys'', SevHigh), (''socket'', SevHigh), (''http.client'', SevHigh),
     (''urllib.request'', SevHigh), (''urllib.error'', SevHigh), (''multiprocessing'', SevHigh), (''pty'', SevCritical), (''ctypes'', SevCritical),
     (''cffi'', SevHigh), (''builtins'', SevCritical), (''importlib'', SevHigh), (''runpy'', SevHigh), (''code'', SevHigh), (''codeop'', SevHigh),
     (''pickle'', SevHigh), (''shelve'', SevHigh), (''marshal'', SevHigh)]"

definition DANGEROUS_BUILTINS :: "(string \<times> Severity) list" where
  "DANGEROUS_BUILTINS = [(''eval'', SevCritical), (''exec'', SevCritical), (''compile'', SevHigh), (''__import__'', SevCritical), (''open'', SevHigh)]"

fun py_kind :: "py_node \<Rightarrow> string" where
  "py_kind (PyNode kind start_byte end_byte row children) = kind"

fun py_children :: "py_node \<Rightarrow> py_node list" where
  "py_children (PyNode kind start_byte end_byte row children) = children"

fun py_line :: "py_node \<Rightarrow> 32 word" where
  "py_line (PyNode kind start_byte end_byte row children) = word_of_nat (row + 1)"

fun node_text :: "string \<Rightarrow> py_node \<Rightarrow> string" where
  "node_text source (PyNode kind start_byte end_byte row children) = slice source (start_byte, min end_byte (length source))"

definition py_child :: "py_node \<Rightarrow> nat \<Rightarrow> py_node option" where
  "py_child node i = (if i < length (py_children node) then Some (py_children node ! i) else None)"

definition emit_for_module :: "string \<Rightarrow> string \<Rightarrow> py_node \<Rightarrow> string \<Rightarrow> string \<Rightarrow> StaticIndicator list" where
  "emit_for_module root_dir path context_node module_name import_kind =
     (let top_level = takeWhile (\<lambda>c. c \<noteq> CHR ''.'') module_name in
      case List.find (\<lambda>(dangerous, _). top_level = dangerous \<or> module_name = dangerous) DANGEROUS_STDLIB of
        Some (_, severity) \<Rightarrow> [indicator root_dir path ''py-ast-dangerous-import'' severity (py_line context_node) (py_line context_node)
          (''Python '' @ import_kind @ '' of `'' @ module_name @ ''` '' @ em_dash @ '' commonly used for dangerous system access'') None]
      | None \<Rightarrow> [])"

definition check_import_statement :: "string \<Rightarrow> string \<Rightarrow> string \<Rightarrow> py_node \<Rightarrow> StaticIndicator list" where
  "check_import_statement root_dir path source node =
     concat (map (\<lambda>child.
       if py_kind child = ''dotted_name'' \<or> py_kind child = ''aliased_import''
       then (case (if py_kind child = ''aliased_import'' then py_child child 0 else Some child) of
               Some n \<Rightarrow> emit_for_module root_dir path node (node_text source n) ''import'' | None \<Rightarrow> [])
       else []) (py_children node))"

definition check_from_import_statement :: "string \<Rightarrow> string \<Rightarrow> string \<Rightarrow> py_node \<Rightarrow> StaticIndicator list" where
  "check_from_import_statement root_dir path source node =
     (case List.find (\<lambda>child. py_kind child = ''dotted_name'') (py_children node) of
        Some child \<Rightarrow> emit_for_module root_dir path node (node_text source child) ''from-import''
      | None \<Rightarrow> [])"

definition check_call_expression :: "string \<Rightarrow> string \<Rightarrow> string \<Rightarrow> py_node \<Rightarrow> StaticIndicator list" where
  "check_call_expression root_dir path source node =
     (case py_child node 0 of
        None \<Rightarrow> []
      | Some callee \<Rightarrow>
          (let callee_text = node_text source callee; line = py_line node in
           case map_of DANGEROUS_BUILTINS callee_text of
             Some severity \<Rightarrow> [indicator root_dir path ''py-ast-dangerous-call'' severity line line
               (''Python `'' @ callee_text @ ''()` call '' @ em_dash @ '' dangerous built-in used at module or install-time scope'') None]
           | None \<Rightarrow>
               if callee_text = ''getattr''
                  \<and> is_some_and (\<lambda>args. list_ex (\<lambda>word. str_contains word (node_text source args)) [''__import__'', ''exec'', ''eval''])
                      (py_child node 1)
               then [indicator root_dir path ''py-ast-obfuscated-call'' SevCritical line line
                 (''getattr() used to access dangerous built-in '' @ em_dash @ '' common obfuscation pattern'') None]
               else []))"

definition check_py_node :: "string \<Rightarrow> string \<Rightarrow> string \<Rightarrow> py_node \<Rightarrow> StaticIndicator list" where
  "check_py_node root_dir path source node =
     (if py_kind node = ''import_statement'' then check_import_statement root_dir path source node
      else if py_kind node = ''import_from_statement'' then check_from_import_statement root_dir path source node
      else if py_kind node = ''call'' then check_call_expression root_dir path source node
      else [])"

fun walk_node :: "string \<Rightarrow> string \<Rightarrow> string \<Rightarrow> py_node \<Rightarrow> StaticIndicator list" where
  "walk_node root_dir path source (PyNode kind start_byte end_byte row children) =
     check_py_node root_dir path source (PyNode kind start_byte end_byte row children)
     @ concat (map (walk_node root_dir path source) children)"

definition scan_py_ast :: "scan_lib \<Rightarrow> string \<Rightarrow> string \<Rightarrow> string \<Rightarrow> StaticIndicator list" where
  "scan_py_ast lib root_dir path source =
     (case sl_python lib source of None \<Rightarrow> [] | Some node \<Rightarrow> walk_node root_dir path source node)"

section \<open>What the walks reach\<close>

inductive py_descendant :: "py_node \<Rightarrow> py_node \<Rightarrow> bool" where
  self: "py_descendant node node"
| child: "child \<in> set (py_children node) \<Longrightarrow> py_descendant n child \<Longrightarrow> py_descendant n node"

lemma walk_node_checks: "py_descendant n node \<Longrightarrow> set (check_py_node root_dir path source n) \<subseteq> set (walk_node root_dir path source node)"
proof (induction rule: py_descendant.induct)
  case (self node)
  show ?case by (cases node) simp
next
  case (child c node n)
  then show ?case by (cases node) auto
qed

lemma js_node_checked: "node \<in> set (sl_js lib path source) \<Longrightarrow>
    set (visit_js_node root_dir path source node) \<subseteq> set (scan_js_ast lib root_dir path source)"
  by (auto simp: scan_js_ast_def)

text \<open>A call of a dangerous builtin by its plain name, wherever it is nested in a Python file, gives a finding
  on the line of the call, with its severity.\<close>

lemma python_builtin_calls_found:
  assumes "sl_python lib source = Some tree" "py_descendant node tree" "py_kind node = ''call''"
    and "py_child node 0 = Some callee" "(node_text source callee, severity) \<in> set DANGEROUS_BUILTINS"
  shows "\<exists>i \<in> set (scan_py_ast lib root_dir path source). si_indicator_type i = ''py-ast-dangerous-call''
    \<and> si_severity i = severity \<and> si_start_line i = py_line node"
proof -
  have "distinct (map fst DANGEROUS_BUILTINS)" by (simp add: DANGEROUS_BUILTINS_def)
  then have "map_of DANGEROUS_BUILTINS (node_text source callee) = Some severity" using assms(5) by simp
  then obtain summary where check: "check_py_node root_dir path source node =
      [indicator root_dir path ''py-ast-dangerous-call'' severity (py_line node) (py_line node) summary None]"
    using assms(3,4) by (simp add: check_py_node_def check_call_expression_def Let_def)
  show ?thesis
  proof (rule bexI)
    show "indicator root_dir path ''py-ast-dangerous-call'' severity (py_line node) (py_line node) summary None
        \<in> set (scan_py_ast lib root_dir path source)"
      using walk_node_checks [OF assms(2), of root_dir path source] assms(1) check by (simp add: scan_py_ast_def)
  qed (simp add: indicator_def)
qed

text \<open>A comment in the visitor names \<^verbatim>\<open>require.resolve\<close>, but only a property called \<^verbatim>\<open>require\<close> is looked at.\<close>

lemma require_resolve_not_reported:
  "visit_js_node root_dir path source (CallExpression (JsStaticMember (JsIdentifier ''require'') ''resolve'') args span_start) = []"
  by simp

end
