(* ===== verification/Text_Scan.thy ===== *)
theory Text_Scan
  imports Manifest_Scan Ast_Scan
begin

text \<open>
  The scan of one text, \<^verbatim>\<open>scan_text\<close> of \<^verbatim>\<open>services/surgeon/src/lib.rs\<close>: manifests by name, syntax trees by extension,
  the rule table, instructions to AI agents, and encoded or high-entropy content; and the scan of a binary file by
  the text that is extracted from it.
\<close>

section \<open>Rules\<close>

definition scan_rules_code :: "(string \<times> Severity \<times> string \<times> string) list" where
  \<open>scan_rules_code =
     [(''javascript-eval'', SevHigh,
       rx ''~beval~s*~('',
       ''JavaScript eval usage''),
      (''javascript-function-constructor'', SevHigh,
       rx ''~bFunction~s*~('',
       ''JavaScript Function constructor usage''),
      (''node-child-process'', SevHigh,
       rx ''child_process|spawn~s*~(|execFile~s*~(|exec~s*~('',
       ''Node.js child process execution''),
      (''python-exec'', SevHigh,
       rx ''~bexec~s*~('',
       ''Python exec usage''),
      (''python-eval'', SevHigh,
       rx ''~beval~s*~('',
       ''Python eval usage''),
      (''python-subprocess'', SevHigh,
       rx ''~bsubprocess~.|~bos~.system~s*~('',
       ''Python subprocess or shell execution''),
      (''credential-path'', SevCritical,
       rx ''~.npmrc|~.pypirc|~.gitconfig|id_rsa|AWS_ACCESS_KEY_ID|GOOGLE_APPLICATION_CREDENTIALS|KUBECONFIG'',
       ''credential or sensitive config path access''),
      (''worm-cross-package-write'', SevCritical,
       rx ''node_modules/.+write|~.bashrc|~.zshrc|~.profile|~.gitconfig|~.npmrc'',
       ''cross-package or global config write indicator''),
      (''sleeper-trigger'', SevHigh,
       rx ''Date~.now~(|new Date~(|process~.env~.CI|hostname|setTimeout~s*~('',
       ''time, environment, or host gated execution''),
      (''ci-environment-gate'', SevHigh,
       rx ''process~.env~.(?:CI|TRAVIS|GITHUB_ACTIONS|CIRCLECI|JENKINS_URL|BUILD_ID|CI_NAME)|os~.environ~.get~s*~(~s*[@']CI[@']'',
       ''CI environment variable checked at runtime '' @ em_dash @ '' possible sandbox or CI-aware sleeper''),
      (''hostname-gate'', SevHigh,
       rx ''os~.uname~(|os~.hostname~(|socket~.gethostname~(|require~s*~(~s*[@']os[@']~s*~)~s*~.hostname'',
       ''hostname checked at runtime '' @ em_dash @ '' possible host-aware sleeper''),
      (''counter-file-gate'', SevHigh,
       rx ''(?:fs~.readFileSync|open~s*~().*(?:count|trigger|activate|lock|flag).*(?:parseInt|Number~(|int~()'',
       ''file-based counter read '' @ em_dash @ '' possible Nth-invocation sleeper trigger''),
      (''remote-config-gate'', SevHigh,
       rx ''(?:fetch|axios~.get|requests~.get|urllib~.request~.urlopen)~s*~([^)]*(?:config|flag|enable|activate|toggle|feature)'',
       ''remote configuration fetch at runtime '' @ em_dash @ '' possible remote-toggle sleeper''),
      (''npm-install-lifecycle-hook'', SevCritical,
       rx ''@(preinstall|postinstall|install|prepare|prepack|postpack)@~s*:~s*@'',
       ''npm lifecycle hook '' @ em_dash @ '' executes automatically during installation''),
      (''node-outbound-http'', SevHigh,
       rx ''https?~.request~s*~(|https?~.get~s*~('',
       ''Node.js outbound HTTP/HTTPS request''),
      (''node-env-read'', SevHigh,
       rx ''~bprocess~.env~b'',
       ''Node.js environment variable access''),
      (''python-outbound-http'', SevHigh,
       rx ''urllib~.request~.|http~.client~.|requests~.(get|post|put|delete|request)~s*~('',
       ''Python outbound HTTP request''),
      (''python-env-read'', SevHigh,
       rx ''~bos~.environ~b'',
       ''Python environment variable access'')]\<close>

definition scan_rules_platform :: "(string \<times> Severity \<times> string \<times> string) list" where
  \<open>scan_rules_platform =
     [(''java-outbound-http'', SevHigh,
       rx ''HttpURLConnection|openConnection~s*~(~)|new~s+URL~s*~(|java/net/URL~.openConnection|new~s+java/net/URL|java/net/HttpURLConnection'',
       ''Java outbound HTTP connection''),
      (''java-runtime-exec'', SevCritical,
       rx ''Runtime~.getRuntime~s*~(~)~.exec|Runtime~.exec~s*~(|java/lang/Runtime'',
       ''Java runtime process execution''),
      (''java-process-builder'', SevCritical,
       rx ''~bProcessBuilder~b|java/lang/ProcessBuilder'',
       ''Java ProcessBuilder usage''),
      (''java-socket-client'', SevHigh,
       rx ''java/net/Socket|SocketChannel|DatagramSocket|SSLSocket'',
       ''Java socket client or raw network usage''),
      (''java-env-read'', SevHigh,
       rx ''System~.getenv~s*~(|java/lang/System~.getenv'',
       ''Java environment variable access''),
      (''java-reflection-load'', SevHigh,
       rx ''Class~.forName~s*~(|URLClassLoader|Method~.invoke~s*~(|Constructor~.newInstance~s*~(|java/lang/Class~.forName|java/lang/reflect/Method~.invoke|java/lang/reflect/Constructor~.newInstance|java/net/URLClassLoader'',
       ''Java reflection or dynamic class loading''),
      (''java-define-class'', SevCritical,
       rx ''defineClass~s*~(|ClassLoader~.defineClass|Lookup~.defineClass|java/lang/ClassLoader~.defineClass|java/lang/invoke/MethodHandles~$Lookup~.defineClass'',
       ''Java dynamic bytecode definition''),
      (''java-deserialization'', SevHigh,
       rx ''ObjectInputStream|XMLDecoder|readObject~s*~(|readUnshared~s*~(|java/io/ObjectInputStream|java/beans/XMLDecoder'',
       ''Java deserialization API usage''),
      (''java-filesystem-access'', SevHigh,
       rx ''FileInputStream|FileOutputStream|RandomAccessFile|Files~.(?:read|write|copy|move|delete)|Paths~.get~s*~(|java/io/FileInputStream|java/io/FileOutputStream|java/io/RandomAccessFile|java/nio/file/Files~.(?:read|write|copy|move|delete)|java/nio/file/Paths~.get|~.aws/credentials|id_rsa|~.npmrc|~.gitconfig'',
       ''Java filesystem or credential-path access''),
      (''java-jni-load'', SevHigh,
       rx ''System~.loadLibrary~s*~(|System~.load~s*~(|JNI_OnLoad|java/lang/System~.loadLibrary|java/lang/System~.load'',
       ''Java JNI or native library loading''),
      (''java-hardcoded-endpoint-or-token'', SevHigh,
       rx ''https?://[^~s@']+|~b(?:~d{1,3}~.){3}~d{1,3}~b|webhook|AWS_ACCESS_KEY_ID|GOOGLE_APPLICATION_CREDENTIALS|KUBECONFIG'',
       ''Java class embeds hardcoded network endpoints, IPs, webhooks, or credential token names''),
      (''java-static-init'', SevHigh,
       rx ''~bstatic~s*~{'',
       ''Java static initializer '' @ em_dash @ '' executes on class load before any method call''),
      (''rust-raw-network'', SevCritical,
       rx ''TcpStream~s*::~s*connect|TcpListener~s*::~s*bind|UdpSocket~s*::~s*bind'',
       ''raw TCP/UDP socket usage '' @ em_dash @ '' unexpected in library or build-script code''),
      (''rust-env-read'', SevHigh,
       rx ''~bstd::env::|~benv::var~s*~(|~benv::vars~s*~('',
       ''Rust environment variable access '' @ em_dash @ '' potential credential theft or sandbox evasion in build-script or library code''),
      (''hardcoded-npm-token'', SevCritical,
       rx ''npm_[A-Za-z0-9]{36}'',
       ''hardcoded npm registry token''),
      (''hardcoded-github-token'', SevCritical,
       rx ''(?:ghp_|ghs_|gho_|ghr_)[A-Za-z0-9]{36,}|github_pat_[A-Za-z0-9_]{82,}'',
       ''hardcoded GitHub personal access or app token''),
      (''hardcoded-aws-key'', SevCritical,
       rx ''(?:AKIA|ASIA|AROA|AIDA)[0-9A-Z]{16}'',
       ''hardcoded AWS access key ID''),
      (''hardcoded-pypi-token'', SevCritical,
       rx ''pypi-[A-Za-z0-9_~-]{40,}'',
       ''hardcoded PyPI API token''),
      (''hardcoded-gcp-oauth'', SevCritical,
       rx ''ya29~.[A-Za-z0-9_~-]{40,}'',
       ''hardcoded GCP OAuth access token'')]\<close>

definition scan_rules_payload :: "(string \<times> Severity \<times> string \<times> string) list" where
  \<open>scan_rules_payload =
     [(''hardcoded-k8s-serviceaccount-token'', SevCritical,
       rx ''(?:Bearer~s+)[A-Za-z0-9_~-]{80,}~.[A-Za-z0-9_~-]{6,}'',
       ''hardcoded Kubernetes service account bearer token''),
      (''private-key-material'', SevCritical,
       rx ''-----BEGIN (?:RSA |EC |OPENSSH |DSA |PGP )?PRIVATE KEY'',
       ''PEM private key material embedded in source''),
      (''shell-exec-sync'', SevCritical,
       rx ''~bexecSync~s*~(|~bspawnSync~s*~('',
       ''synchronous shell execution '' @ em_dash @ '' blocks and runs before async handlers''),
      (''shell-command-concatenation'', SevHigh,
       rx ''(?:exec|spawn|system)~s*~(~s*(?:[`@'][^`@']*~$~{|[`@'][^`@']*~+~s*[^)]+)'',
       ''shell command string interpolated with variable data''),
      (''hex-escape-sequence'', SevHigh,
       rx ''(?:~~x[0-9a-fA-F]{2}){8,}'',
       ''long sequence of hex escape sequences '' @ em_dash @ '' possible obfuscated payload''),
      (''hex-blob'', SevHigh,
       rx ''(?:[@'`])(?:[0-9a-fA-F]{2}){20,}(?:[@'`])'',
       ''large hex-encoded string literal '' @ em_dash @ '' possible obfuscated payload''),
      (''python-import-time-network'', SevCritical,
       rx ''(?m)^(?:requests|urllib|http~.client|httplib|aiohttp|httpx)~b.*~b(?:get|post|put|delete|open|urlopen|request)~s*~('',
       ''Python network call at module level '' @ em_dash @ '' executes at import time''),
      (''minified-js-payload'', SevHigh,
       rx ''[^~n]{8000,}'',
       ''extremely long single line '' @ em_dash @ '' likely minified or obfuscated payload embedded in source''),
      (''binary-blob-embedded'', SevHigh,
       rx ''~x00{4,}'',
       ''null-byte sequence in source file '' @ em_dash @ '' possible binary blob embedded in text file'')]\<close>

definition scan_rules :: "(string \<times> Severity \<times> string \<times> string) list" where
  "scan_rules = scan_rules_code @ scan_rules_platform @ scan_rules_payload"

definition NETWORK_INDICATOR_TYPES :: "string list" where
  "NETWORK_INDICATOR_TYPES = [''node-outbound-http'', ''python-outbound-http'', ''java-outbound-http'', ''java-socket-client'', ''rust-raw-network'']"

definition apply_rule ::
  "scan_lib \<Rightarrow> string \<Rightarrow> string \<Rightarrow> string \<Rightarrow> string \<times> Severity \<times> string \<times> string \<Rightarrow> StaticIndicator list" where
  "apply_rule lib root_dir path text rule =
     (let (indicator_type, severity, pattern, summary) = rule in
      map (\<lambda>matched.
        let line = line_number text (fst matched);
            details = (if indicator_type \<in> set NETWORK_INDICATOR_TYPES
              then extract_indicator_details lib (context_window text (fst matched)) else None)
        in indicator root_dir path indicator_type severity line line summary details)
        (sl_find_iter lib pattern text))"

section \<open>Files with a role\<close>

definition lower_path :: "string \<Rightarrow> string" where
  "lower_path path = to_ascii_lowercase (from_utf8_lossy path)"

definition ends_as :: "string \<Rightarrow> string \<Rightarrow> bool" where
  "ends_as name lower = (ends_with (''/'' @ name) lower \<or> lower = name)"

definition is_active_cargo_build_script :: "scan_lib \<Rightarrow> string \<Rightarrow> bool" where
  "is_active_cargo_build_script lib path =
     (case file_name_str path of
        None \<Rightarrow> False
      | Some file_name \<Rightarrow>
          ends_with ''.rs'' file_name
          \<and> (case Option.bind (Option.bind (path_parent path) (\<lambda>parent. sl_read_file lib (path_push parent ''Cargo.toml'')))
                (\<lambda>manifest. Option.bind (sl_toml lib manifest) (get_table ''package'')) of
               None \<Rightarrow> False
             | Some package \<Rightarrow>
                 (case map_of package ''build'' of
                    Some (TBool b) \<Rightarrow> b \<and> file_name = ''build.rs''
                  | Some (TString build_path) \<Rightarrow> unwrap_or [] (file_name_str (str_trim build_path)) = file_name
                  | None \<Rightarrow> file_name = ''build.rs''
                  | Some _ \<Rightarrow> False)))"

definition is_agent_instruction_file :: "string \<Rightarrow> bool" where
  "is_agent_instruction_file lower =
     (list_ex (\<lambda>tail. ends_with tail lower)
        [''.cursorrules'', ''agents.md'', ''copilot-instructions.md'', ''readme.md'', ''readme'', ''readme.rst'', ''readme.txt'',
         ''.github/copilot-instructions.md'', ''contributing.md'', ''.windsurfrules'']
      \<or> str_contains ''/.claude/'' lower)"

definition injection_pattern :: string where
  "injection_pattern = ''(?i)(ignore previous instructions|exfiltrate|disable security|send secrets|modify pipeline)''"

definition scan_manifests :: "scan_lib \<Rightarrow> string \<Rightarrow> string \<Rightarrow> string \<Rightarrow> StaticIndicator list" where
  "scan_manifests lib root_dir path text =
     (let lower = lower_path path in
      (if ends_as ''package.json'' lower then scan_package_json lib root_dir path text else [])
      @ (if ends_as ''pom.xml'' lower then scan_pom_xml lib root_dir path text else [])
      @ (if ends_with ''cargo.toml'' lower then scan_cargo_toml lib root_dir path text else [])
      @ (if ends_with ''cargo.lock'' lower then scan_cargo_lock lib root_dir path text else [])
      @ (if is_active_cargo_build_script lib path
         then [flag root_dir path ''cargo-build-script'' SevCritical
           (''Cargo build script file detected '' @ em_dash @ '' executes during cargo build before crate compilation'')]
         else [])
      @ (if ends_with ''pyproject.toml'' lower then scan_pyproject_toml lib root_dir path text else [])
      @ (if ends_with ''setup.cfg'' lower then scan_setup_cfg root_dir path text else [])
      @ (if ends_as ''metadata'' lower \<or> ends_with ''.dist-info/metadata'' lower then scan_wheel_metadata root_dir path text else [])
      @ (if ends_as ''top_level.txt'' lower then scan_python_top_level_txt root_dir path text else []))"

definition scan_syntax_trees :: "scan_lib \<Rightarrow> string \<Rightarrow> string \<Rightarrow> string \<Rightarrow> StaticIndicator list" where
  "scan_syntax_trees lib root_dir path text =
     (let ext = to_ascii_lowercase (unwrap_or [] (extension_str path)) in
      (if ext \<in> set [''js'', ''mjs'', ''cjs'', ''jsx'', ''ts'', ''mts'', ''cts'', ''tsx''] then scan_js_ast lib root_dir path text else [])
      @ (if ext = ''py'' then scan_py_ast lib root_dir path text else []))"

definition scan_text :: "scan_lib \<Rightarrow> string \<Rightarrow> string \<Rightarrow> string \<Rightarrow> StaticIndicator list" where
  "scan_text lib root_dir path text =
     scan_manifests lib root_dir path text
     @ scan_syntax_trees lib root_dir path text
     @ concat (map (apply_rule lib root_dir path text) scan_rules)
     @ (if is_agent_instruction_file (lower_path path) \<and> is_match lib injection_pattern text
        then [flag root_dir path ''ai-agent-injection'' SevCritical
          ''package content attempts to instruct AI tools or alter security behavior'']
        else [])
     @ detect_high_entropy_strings lib root_dir path text
     @ (if looks_like_large_base64 lib text
        then [flag root_dir path ''encoded-payload'' SevMedium ''large base64-like payload detected''] else [])"

definition scan_binary_content :: "scan_lib \<Rightarrow> string \<Rightarrow> string \<Rightarrow> string \<Rightarrow> StaticIndicator list" where
  "scan_binary_content lib root_dir path bytes =
     (if looks_like_java_class_file path bytes
      then (case disassemble_java_class lib bytes of Some disassembly \<Rightarrow> scan_text lib root_dir path disassembly | None \<Rightarrow> [])
      else [])
     @ (let extracted = extract_binary_strings bytes 6 in
        if extracted \<noteq> [] then scan_text lib root_dir path extracted else [])"

text \<open>A file of a directory or of a container, as text or as binary.\<close>

definition scan_bytes :: "scan_lib \<Rightarrow> string \<Rightarrow> string \<Rightarrow> string \<Rightarrow> StaticIndicator list" where
  "scan_bytes lib root_dir path bytes =
     (if utf8_ok bytes then scan_text lib root_dir path bytes else scan_binary_content lib root_dir path bytes)"

section \<open>Lifecycle hooks\<close>

lemma flag_type [simp]: "si_indicator_type (flag root_dir path t sev summary) = t" "si_severity (flag root_dir path t sev summary) = sev"
  by (simp_all add: flag_def indicator_def)

lemma indicator_simps [simp]:
  "si_indicator_type (indicator root_dir path t sev a b summary details) = t"
  "si_severity (indicator root_dir path t sev a b summary details) = sev"
  "si_file_path (indicator root_dir path t sev a b summary details) = display_path root_dir path"
  "si_redacted (indicator root_dir path t sev a b summary details)"
  by (simp_all add: indicator_def)

end
