(* ===== verification/Directory_Scan.thy ===== *)
theory Directory_Scan
  imports Text_Scan
begin

text \<open>
  The scan of an unpacked artifact, \<^verbatim>\<open>scan_directory\<close> and \<^verbatim>\<open>scan_zip_container\<close> of \<^verbatim>\<open>services/surgeon/src/lib.rs\<close> and
  \<^verbatim>\<open>scan_artifact_package\<close> of \<^verbatim>\<open>artifact.rs\<close>. A directory is the tree of its entries in the order in which they are read;
  a node that cannot be read fails with an error. The recursion is shown equal to a pass over the list of all
  files.
\<close>

section \<open>Jar contents\<close>

definition ascii_upper_char :: "char \<Rightarrow> char" where
  "ascii_upper_char c =
     (if 97 \<le> (of_char c :: nat) \<and> (of_char c :: nat) \<le> 122 then char_of ((of_char c :: nat) - 32) else c)"

definition to_ascii_uppercase :: "string \<Rightarrow> string" where
  "to_ascii_uppercase s = map ascii_upper_char s"

definition jar_signature_alias :: "string \<Rightarrow> string \<Rightarrow> string option" where
  "jar_signature_alias entry_name_upper ending =
     opt_filter (\<lambda>stem. stem \<noteq> [] \<and> CHR ''/'' \<notin> set stem)
       (Option.bind (strip_prefix ''META-INF/'' entry_name_upper) (strip_suffix ending))"

definition manifest_line_attributes :: "string \<Rightarrow> string list" where
  "manifest_line_attributes line =
     (let lower = to_ascii_lowercase (str_trim_start line) in
      (if starts_with ''main-class:'' lower then [''Main-Class''] else [])
      @ (if starts_with ''premain-class:'' lower \<or> starts_with ''agent-class:'' lower \<or> starts_with ''launcher-agent-class:'' lower
         then [''Agent-Class''] else [])
      @ (if starts_with ''class-path:'' lower then [''Class-Path''] else [])
      @ (if starts_with ''multi-release:'' lower then [''Multi-Release''] else []))"

definition jar_manifest_attributes :: "string \<Rightarrow> string list" where
  "jar_manifest_attributes text = concat (map manifest_line_attributes (lines text))"

definition jar_service_loader_name :: "string \<Rightarrow> string option" where
  "jar_service_loader_name entry_name =
     (if \<not> starts_with (to_ascii_lowercase ''META-INF/services/'') (to_ascii_lowercase entry_name) then None
      else let name = drop (length ''META-INF/services/'') entry_name in
        if name \<noteq> [] \<and> \<not> ends_with ''/'' name then Some name else None)"

definition is_nested_archive_entry :: "string \<Rightarrow> bool" where
  "is_nested_archive_entry entry_name_lower =
     is_some_and (\<lambda>ext. ext \<in> set [''jar'', ''war'', ''ear'', ''zip'']) (extension_str entry_name_lower)"

definition is_shaded_class_entry :: "string \<Rightarrow> bool" where
  "is_shaded_class_entry entry_name_lower =
     (ends_with ''.class'' entry_name_lower
      \<and> list_ex (\<lambda>segment. segment \<in> set [''shade'', ''shaded'', ''shadow'', ''shadowed'', ''relocated'', ''repackaged''])
          (split_on CHR ''/'' entry_name_lower))"

definition signature_endings :: "string list" where
  "signature_endings = [''.SF'', ''.RSA'', ''.DSA'', ''.EC'']"

definition is_interesting_jar_resource :: "string \<Rightarrow> bool" where
  "is_interesting_jar_resource entry_name_lower =
     (\<not> (entry_name_lower = ''meta-inf/manifest.mf'' \<or> starts_with ''meta-inf/services/'' entry_name_lower
          \<or> is_nested_archive_entry entry_name_lower \<or> ends_with ''.class'' entry_name_lower)
      \<and> \<not> list_ex (\<lambda>ending. jar_signature_alias (to_ascii_uppercase entry_name_lower) ending \<noteq> None) signature_endings
      \<and> is_some_and (\<lambda>ext. ext \<in> set [''properties'', ''xml'', ''json'', ''yaml'', ''yml'', ''conf'', ''ini'', ''txt'', ''sql'', ''sh'', ''bat'', ''ps1''])
          (extension_str entry_name_lower))"

definition summarize_examples :: "string list \<Rightarrow> nat \<Rightarrow> string" where
  "summarize_examples entries max_examples =
     (let all = btree_set entries; shown = take max_examples all; remaining = length all - length shown in
      if remaining = 0 then str_join '', '' shown
      else str_join '', '' shown @ '' (+'' @ show_nat remaining @ '' more)'')"

section \<open>Containers\<close>

record jar_facts =
  jf_manifest_present :: bool
  jf_attributes :: "string list"
  jf_signature_files :: "string list"
  jf_signature_blocks :: "string list"
  jf_services :: "string list"
  jf_nested :: "string list"
  jf_shaded :: "string list"
  jf_resources :: "string list"

definition no_jar_facts :: jar_facts where
  "no_jar_facts = \<lparr>jf_manifest_present = False, jf_attributes = [], jf_signature_files = [], jf_signature_blocks = [],
     jf_services = [], jf_nested = [], jf_shaded = [], jf_resources = []\<rparr>"

definition record_signature :: "string \<Rightarrow> string \<Rightarrow> jar_facts \<Rightarrow> jar_facts" where
  "record_signature upper_name entry_bytes facts =
     (if upper_name = ''META-INF/MANIFEST.MF''
      then facts\<lparr>jf_manifest_present := True,
        jf_attributes := jf_attributes facts @ (if utf8_ok entry_bytes then jar_manifest_attributes entry_bytes else [])\<rparr>
      else case jar_signature_alias upper_name ''.SF'' of
          Some base \<Rightarrow> facts\<lparr>jf_signature_files := jf_signature_files facts @ [base]\<rparr>
        | None \<Rightarrow>
            (case find_map (jar_signature_alias upper_name) [''.RSA'', ''.DSA'', ''.EC''] of
               Some base \<Rightarrow> facts\<lparr>jf_signature_blocks := jf_signature_blocks facts @ [base]\<rparr>
             | None \<Rightarrow> facts))"

definition record_jar_entry :: "string \<Rightarrow> string \<Rightarrow> jar_facts \<Rightarrow> jar_facts" where
  "record_jar_entry entry_name entry_bytes facts =
     (let lower_name = to_ascii_lowercase entry_name;
          signed = record_signature (to_ascii_uppercase entry_name) entry_bytes facts
      in signed\<lparr>
        jf_services := jf_services signed @ (case jar_service_loader_name entry_name of Some n \<Rightarrow> [n] | None \<Rightarrow> []),
        jf_nested := jf_nested signed @ (if is_nested_archive_entry lower_name then [entry_name] else []),
        jf_shaded := jf_shaded signed @ (if is_shaded_class_entry lower_name then [entry_name] else []),
        jf_resources := jf_resources signed @ (if is_interesting_jar_resource lower_name then [entry_name] else [])\<rparr>)"

fun read_to_end :: "(string, string) result list \<Rightarrow> string option" where
  "read_to_end [] = Some []"
| "read_to_end (Inl e # reads) = None"
| "read_to_end (Inr chunk # reads) = (if chunk = [] then Some [] else map_option (\<lambda>rest. chunk @ rest) (read_to_end reads))"

record scan_state =
  sc_file_count :: nat
  sc_digested :: string
  sc_indicators :: "StaticIndicator list"

definition push :: "StaticIndicator list \<Rightarrow> scan_state \<Rightarrow> scan_state" where
  "push found st = st\<lparr>sc_indicators := sc_indicators st @ found\<rparr>"

fun scan_zip_entries ::
  "scan_lib \<Rightarrow> string \<Rightarrow> string \<Rightarrow> ScanLimits \<Rightarrow> (string, zip_entry) result list \<Rightarrow> jar_facts \<Rightarrow> scan_state \<Rightarrow> jar_facts \<times> scan_state" where
  "scan_zip_entries lib root_dir container_path limits [] facts st = (facts, st)"
| "scan_zip_entries lib root_dir container_path limits (Inl e # items) facts st =
     scan_zip_entries lib root_dir container_path limits items facts st"
| "scan_zip_entries lib root_dir container_path limits (Inr entry # items) facts st =
     (let entry_name = ze_name entry in
      if ends_with ''/'' entry_name then scan_zip_entries lib root_dir container_path limits items facts st
      else if str_contains ''../'' entry_name \<or> starts_with ''/'' entry_name
      then scan_zip_entries lib root_dir container_path limits items facts
             (push [flag root_dir container_path ''zip-path-traversal'' SevCritical ''ZIP entry contains path traversal sequence''] st)
      else let st1 = st\<lparr>sc_file_count := sc_file_count st + 1\<rparr> in
        if sc_file_count st1 > max_file_count limits then (facts, st1)
        else if ze_size entry > max_single_file_bytes limits
        then scan_zip_entries lib root_dir container_path limits items facts st1
        else case read_to_end (ze_reads entry) of
            None \<Rightarrow> scan_zip_entries lib root_dir container_path limits items facts st1
          | Some entry_bytes \<Rightarrow>
              let synthetic = path_push container_path entry_name in
              scan_zip_entries lib root_dir container_path limits items
                (if is_java_archive container_path then record_jar_entry entry_name entry_bytes facts else facts)
                (push (record_native_artifact_indicators root_dir synthetic entry_bytes False
                    @ scan_bytes lib root_dir synthetic entry_bytes) st1))"

definition jar_summary :: "string \<Rightarrow> string \<Rightarrow> jar_facts \<Rightarrow> StaticIndicator list" where
  "jar_summary root_dir container_path facts =
     (let verified_aliases = filter (\<lambda>a. a \<in> set (jf_signature_blocks facts)) (btree_set (jf_signature_files facts));
          listed = (\<lambda>entries indicator_type severity words. if entries \<noteq> []
            then [flag root_dir container_path indicator_type severity (words @ summarize_examples entries 3)] else [])
      in (if jf_manifest_present facts
          then [flag root_dir container_path ''jar-manifest-structure'' SevLow
            (if jf_attributes facts = [] then ''JAR manifest present''
             else ''JAR manifest present with attributes: '' @ str_join '', '' (btree_set (jf_attributes facts)))]
          else [])
       @ listed (jf_services facts) ''jar-service-loader-entry'' SevMedium ''JAR declares service loader entries: ''
       @ listed (jf_nested facts) ''jar-nested-archive'' SevMedium ''JAR contains nested archives: ''
       @ listed (jf_shaded facts) ''jar-shaded-class-namespace'' SevLow ''JAR contains shaded or relocated class namespaces: ''
       @ listed (jf_resources facts) ''jar-resource-entry'' SevLow ''JAR contains embedded resource files: ''
       @ (if jf_signature_files facts \<noteq> [] \<or> jf_signature_blocks facts \<noteq> []
          then if jf_manifest_present facts \<and> verified_aliases \<noteq> []
            then [flag root_dir container_path ''jar-signature-metadata'' SevLow
              (''JAR contains manifest plus '' @ show_nat (length verified_aliases) @ '' signature metadata entr''
                @ plural (length verified_aliases) ''y'' ''ies'' @ '': '' @ str_join '', '' verified_aliases)]
            else [flag root_dir container_path ''jar-signature-metadata-incomplete'' SevMedium
              ''JAR contains partial signature metadata without a complete manifest-plus-signature-file-plus-block set'']
          else []))"

definition scan_zip_container :: "scan_lib \<Rightarrow> string \<Rightarrow> string \<Rightarrow> string \<Rightarrow> ScanLimits \<Rightarrow> scan_state \<Rightarrow> scan_state" where
  "scan_zip_container lib root_dir container_path bytes limits st =
     (case sl_zip lib bytes of
        None \<Rightarrow> st
      | Some items \<Rightarrow>
          (case scan_zip_entries lib root_dir container_path limits items no_jar_facts st of
             (facts, st1) \<Rightarrow> if is_java_archive container_path then push (jar_summary root_dir container_path facts) st1 else st1))"

section \<open>Directories\<close>

datatype fs_node = FsFile string | FsDir "(string \<times> fs_node) list" | FsLink bool | FsBroken string

definition symlink_flag :: "string \<Rightarrow> string \<Rightarrow> StaticIndicator" where
  "symlink_flag root_dir path = flag root_dir path ''symlink'' SevHigh ''symlink entries are rejected during archive extraction''"

definition oversized_flag :: "string \<Rightarrow> string \<Rightarrow> StaticIndicator" where
  "oversized_flag root_dir path = flag root_dir path ''oversized-file'' SevMedium ''file exceeds single-file scan limit''"

definition scan_file ::
  "scan_lib \<Rightarrow> string \<Rightarrow> ScanLimits \<Rightarrow> bool \<Rightarrow> string \<Rightarrow> string \<Rightarrow> scan_state \<Rightarrow> (string, scan_state) result" where
  "scan_file lib root_dir limits cargo_source_root path bytes st =
     (let st1 = st\<lparr>sc_file_count := sc_file_count st + 1\<rparr> in
      if sc_file_count st1 > max_file_count limits then Inl ''scan file count limit exceeded''
      else if length bytes > max_single_file_bytes limits
      then Inr (push (record_native_artifact_indicators root_dir path (take 64 bytes) cargo_source_root @ [oversized_flag root_dir path]) st1)
      else let st2 = push (record_native_artifact_indicators root_dir path bytes cargo_source_root)
                 (st1\<lparr>sc_digested := sc_digested st1 @ bytes\<rparr>)
        in if is_zip_container path then Inr (scan_zip_container lib root_dir path bytes limits st2)
           else Inr (push (scan_bytes lib root_dir path bytes) st2))"

fun scan_recursive ::
  "scan_lib \<Rightarrow> string \<Rightarrow> ScanLimits \<Rightarrow> bool \<Rightarrow> string \<Rightarrow> (string \<times> fs_node) list \<Rightarrow> scan_state \<Rightarrow> (string, scan_state) result" where
  "scan_recursive lib root_dir limits cargo_source_root current [] st = Inr st"
| "scan_recursive lib root_dir limits cargo_source_root current ((name, FsLink f) # entries) st =
     scan_recursive lib root_dir limits cargo_source_root current entries (push [symlink_flag root_dir (path_push current name)] st)"
| "scan_recursive lib root_dir limits cargo_source_root current ((name, FsBroken e) # entries) st = Inl e"
| "scan_recursive lib root_dir limits cargo_source_root current ((name, FsDir children) # entries) st =
     res_bind (scan_recursive lib root_dir limits cargo_source_root (path_push current name) children st)
       (scan_recursive lib root_dir limits cargo_source_root current entries)"
| "scan_recursive lib root_dir limits cargo_source_root current ((name, FsFile bytes) # entries) st =
     res_bind (scan_file lib root_dir limits cargo_source_root (path_push current name) bytes st)
       (scan_recursive lib root_dir limits cargo_source_root current entries)"

definition is_cargo_source_root :: "(string \<times> fs_node) list \<Rightarrow> bool" where
  "is_cargo_source_root entries =
     (case map_of entries ''Cargo.toml'' of Some (FsFile _) \<Rightarrow> True | Some (FsLink f) \<Rightarrow> f | _ \<Rightarrow> False)"

definition scan_start :: scan_state where
  "scan_start = \<lparr>sc_file_count = 0, sc_digested = [], sc_indicators = []\<rparr>"

definition scan_directory ::
  "scan_lib \<Rightarrow> (string \<Rightarrow> string) \<Rightarrow> string \<Rightarrow> string \<Rightarrow> (string \<times> fs_node) list \<Rightarrow> ScanLimits \<Rightarrow> (string, StaticEvidence) result" where
  "scan_directory lib hex_sha256 analyzer_version root_dir entries limits =
     res_bind (scan_recursive lib root_dir limits (is_cargo_source_root entries) root_dir entries scan_start) (\<lambda>st.
     res_bind (map_err (\<lambda>_. ''invalid digest'') (digest_sha256 (hex_sha256 (sc_digested st)))) (\<lambda>artifact_digest.
       Inr \<lparr>se_artifact_digest = artifact_digest, se_analyzer_version = analyzer_version,
         se_rule_set_version = ''mvp-static-rules-2026-05'', se_indicators = sc_indicators st\<rparr>))"

text \<open>The library that reads archives and, after unpacking, the directory.\<close>

record unpack_env =
  ue_io :: file_io
  ue_tar :: "string \<Rightarrow> (string, (string, tar_entry) result list) result"
  ue_zip :: "string \<Rightarrow> (string, (string, zip_entry) result list) result"
  ue_tree :: "fs_op list \<Rightarrow> (string \<times> fs_node) list"
  ue_hex_sha256 :: "string \<Rightarrow> string"
  ue_analyzer_version :: string

definition scan_artifact_package ::
  "scan_lib \<Rightarrow> unpack_env \<Rightarrow> string \<Rightarrow> (string, string) result \<Rightarrow> string \<Rightarrow> ScanLimits
     \<Rightarrow> (string, StaticEvidence \<times> ArtifactFileManifestEntry list) result \<times> fs_op list" where
  "scan_artifact_package lib env artifact_path artifact unpack_root limits =
     (case do_io (ue_io env) (CreateDirs (path_components unpack_root)) [] of
        (Some e, ops) \<Rightarrow> (Inl e, ops)
      | (None, ops) \<Rightarrow>
          (case res_bind artifact (\<lambda>bytes. map_err (\<lambda>_. ''invalid digest'') (res_map (\<lambda>d. (bytes, d)) (digest_sha256 (ue_hex_sha256 env bytes)))) of
             Inl e \<Rightarrow> (Inl e, ops)
           | Inr (bytes, artifact_digest) \<Rightarrow>
               (let io = (\<lambda>later. ue_io env (ops @ later));
                    (unpacked, later) =
                      (if is_tar_gz_artifact artifact_path then unpack_tar_gz_bytes (ue_hex_sha256 env) io (ue_tar env) bytes unpack_root limits
                       else if is_zip_artifact artifact_path then unpack_zip_bytes (ue_hex_sha256 env) io (ue_zip env) bytes unpack_root limits
                       else (Inl (''unsupported artifact format: '' @ from_utf8_lossy artifact_path), []))
                in (res_bind unpacked (\<lambda>manifest.
                      res_map (\<lambda>evidence. (evidence\<lparr>se_artifact_digest := artifact_digest\<rparr>, manifest))
                        (scan_directory lib (ue_hex_sha256 env) (ue_analyzer_version env) unpack_root (ue_tree env (ops @ later)) limits)),
                    ops @ later))))"

section \<open>The recursion as a pass over a list\<close>

datatype scan_item = ItemFile string string | ItemLink string | ItemBroken string

fun scan_items :: "string \<Rightarrow> (string \<times> fs_node) list \<Rightarrow> scan_item list" where
  "scan_items current [] = []"
| "scan_items current ((name, FsLink f) # entries) = ItemLink (path_push current name) # scan_items current entries"
| "scan_items current ((name, FsBroken e) # entries) = ItemBroken e # scan_items current entries"
| "scan_items current ((name, FsDir children) # entries) = scan_items (path_push current name) children @ scan_items current entries"
| "scan_items current ((name, FsFile bytes) # entries) = ItemFile (path_push current name) bytes # scan_items current entries"

fun scan_one :: "scan_lib \<Rightarrow> string \<Rightarrow> ScanLimits \<Rightarrow> bool \<Rightarrow> scan_item \<Rightarrow> scan_state \<Rightarrow> (string, scan_state) result" where
  "scan_one lib root_dir limits cargo (ItemFile path bytes) st = scan_file lib root_dir limits cargo path bytes st"
| "scan_one lib root_dir limits cargo (ItemLink path) st = Inr (push [symlink_flag root_dir path] st)"
| "scan_one lib root_dir limits cargo (ItemBroken e) st = Inl e"

fun scan_list :: "scan_lib \<Rightarrow> string \<Rightarrow> ScanLimits \<Rightarrow> bool \<Rightarrow> scan_item list \<Rightarrow> scan_state \<Rightarrow> (string, scan_state) result" where
  "scan_list lib root_dir limits cargo [] st = Inr st"
| "scan_list lib root_dir limits cargo (item # items) st =
     res_bind (scan_one lib root_dir limits cargo item st) (scan_list lib root_dir limits cargo items)"

lemma scan_list_append: "scan_list lib root_dir limits cargo (xs @ ys) st =
    res_bind (scan_list lib root_dir limits cargo xs st) (scan_list lib root_dir limits cargo ys)"
proof (induction xs arbitrary: st)
  case (Cons x xs)
  then show ?case by (cases "scan_one lib root_dir limits cargo x st") simp_all
qed simp

lemma scan_recursive_list:
  "scan_recursive lib root_dir limits cargo current entries st = scan_list lib root_dir limits cargo (scan_items current entries) st"
proof (induction lib root_dir limits cargo current entries st rule: scan_recursive.induct)
  case (4 lib root_dir limits cargo current name children entries st)
  then show ?case
    by (cases "scan_list lib root_dir limits cargo (scan_items (path_push current name) children) st") (simp_all add: scan_list_append)
next
  case (5 lib root_dir limits cargo current name bytes entries st)
  then show ?case by (cases "scan_file lib root_dir limits cargo (path_push current name) bytes st") simp_all
qed simp_all

section \<open>Nothing is skipped\<close>

lemma push_simps [simp]:
  "sc_indicators (push found st) = sc_indicators st @ found" "sc_file_count (push found st) = sc_file_count st"
  "sc_digested (push found st) = sc_digested st"
  by (simp_all add: push_def)

definition grows :: "scan_state \<Rightarrow> scan_state \<Rightarrow> bool" where
  "grows st st' \<longleftrightarrow> prefix (sc_indicators st) (sc_indicators st') \<and> sc_file_count st \<le> sc_file_count st' \<and> sc_digested st' = sc_digested st"

lemma grows_refl [simp]: "grows st st"
  by (simp add: grows_def)

lemma grows_trans: "grows st st1 \<Longrightarrow> grows st1 st2 \<Longrightarrow> grows st st2"
  using prefix_order.trans by (fastforce simp: grows_def)

lemma grows_push: "grows st (push found st)" "grows st (st\<lparr>sc_file_count := sc_file_count st + 1\<rparr>)"
  by (simp_all add: grows_def)

lemmas grows_via = grows_trans [OF grows_push(1)] grows_trans [OF grows_push(2)] grows_trans [OF grows_push(2) grows_trans [OF grows_push(1)]]

lemma scan_zip_entries_mono: "grows st (snd (scan_zip_entries lib root_dir path limits items facts st))"
proof (induction lib root_dir path limits items facts st rule: scan_zip_entries.induct)
  case (3 lib root_dir path limits entry items facts st)
  let ?st1 = "st\<lparr>sc_file_count := sc_file_count st + 1\<rparr>"
  note IH = "3.IH" [OF refl]
  consider "ends_with ''/'' (ze_name entry)"
    | "\<not> ends_with ''/'' (ze_name entry)" "str_contains ''../'' (ze_name entry) \<or> starts_with ''/'' (ze_name entry)"
    | "\<not> ends_with ''/'' (ze_name entry)" "\<not> (str_contains ''../'' (ze_name entry) \<or> starts_with ''/'' (ze_name entry))"
    by blast
  then show ?case
  proof cases
    case 1
    then show ?thesis using IH(1) by simp
  next
    case 2
    then show ?thesis using grows_via(1) [OF IH(2) [OF 2]] by simp
  next
    case seen: 3
    show ?thesis
    proof (cases "sc_file_count ?st1 > max_file_count limits")
      case True
      then show ?thesis using seen grows_push(2) [of st] by (simp add: Let_def)
    next
      case few: False
      show ?thesis
      proof (cases "ze_size entry > max_single_file_bytes limits")
        case True
        then show ?thesis using seen few grows_via(2) [OF IH(3) [OF seen refl few True]] by (simp add: Let_def)
      next
        case small: False
        show ?thesis
        proof (cases "read_to_end (ze_reads entry)")
          case None
          then show ?thesis using seen few small grows_via(2) [OF IH(4) [OF seen refl few small None]] by (simp add: Let_def)
        next
          case (Some entry_bytes)
          then show ?thesis
            using seen few small grows_via(3) [OF IH(5) [OF seen refl few small Some refl]] by (simp add: Let_def)
        qed
      qed
    qed
  qed
qed simp_all

lemma scan_zip_container_mono: "grows st (scan_zip_container lib root_dir path bytes limits st)"
proof (cases "sl_zip lib bytes")
  case (Some items)
  have "grows st (snd (scan_zip_entries lib root_dir path limits items no_jar_facts st))" by (rule scan_zip_entries_mono)
  then show ?thesis using Some
    by (auto simp: scan_zip_container_def split: prod.split intro: grows_trans grows_push)
qed (simp add: scan_zip_container_def)

text \<open>What one file must have contributed.\<close>

definition file_findings :: "scan_lib \<Rightarrow> string \<Rightarrow> ScanLimits \<Rightarrow> bool \<Rightarrow> string \<Rightarrow> string \<Rightarrow> StaticIndicator list" where
  "file_findings lib root_dir limits cargo path bytes =
     (if length bytes > max_single_file_bytes limits
      then record_native_artifact_indicators root_dir path (take 64 bytes) cargo @ [oversized_flag root_dir path]
      else record_native_artifact_indicators root_dir path bytes cargo
        @ (if is_zip_container path then [] else scan_bytes lib root_dir path bytes))"

fun item_findings :: "scan_lib \<Rightarrow> string \<Rightarrow> ScanLimits \<Rightarrow> bool \<Rightarrow> scan_item \<Rightarrow> StaticIndicator list" where
  "item_findings lib root_dir limits cargo (ItemFile path bytes) = file_findings lib root_dir limits cargo path bytes"
| "item_findings lib root_dir limits cargo (ItemLink path) = [symlink_flag root_dir path]"
| "item_findings lib root_dir limits cargo (ItemBroken e) = []"

fun item_digested :: "ScanLimits \<Rightarrow> scan_item \<Rightarrow> string" where
  "item_digested limits (ItemFile path bytes) = (if length bytes > max_single_file_bytes limits then [] else bytes)"
| "item_digested limits _ = []"

fun item_files :: "scan_item \<Rightarrow> nat" where
  "item_files (ItemFile path bytes) = 1"
| "item_files _ = 0"

lemma scan_one_effect:
  assumes "scan_one lib root_dir limits cargo item st = Inr st'"
  shows "prefix (sc_indicators st @ item_findings lib root_dir limits cargo item) (sc_indicators st')
    \<and> sc_digested st' = sc_digested st @ item_digested limits item
    \<and> sc_file_count st + item_files item \<le> sc_file_count st'
    \<and> (item_files item = 0 \<or> sc_file_count st + 1 \<le> max_file_count limits)"
proof (cases item)
  case (ItemFile path bytes)
  define st2 where "st2 = push (record_native_artifact_indicators root_dir path bytes cargo)
    (st\<lparr>sc_file_count := sc_file_count st + 1, sc_digested := sc_digested st @ bytes\<rparr>)"
  show ?thesis
  proof (cases "length bytes > max_single_file_bytes limits")
    case True
    with ItemFile assms show ?thesis by (auto simp: scan_file_def file_findings_def Let_def split: if_splits)
  next
    case small: False
    show ?thesis
    proof (cases "is_zip_container path")
      case True
      with small ItemFile assms have "st' = scan_zip_container lib root_dir path bytes limits st2" "sc_file_count st + 1 \<le> max_file_count limits"
        by (auto simp: scan_file_def st2_def Let_def split: if_splits)
      with True small ItemFile scan_zip_container_mono [of st2 lib root_dir path bytes limits] show ?thesis
        by (simp add: st2_def file_findings_def grows_def)
    next
      case False
      with small ItemFile assms show ?thesis by (auto simp: scan_file_def file_findings_def Let_def split: if_splits)
    qed
  qed
qed (use assms in auto)

lemma item_files_le [simp]: "item_files item \<le> 1"
  by (cases item) auto

lemma scan_list_effect:
  assumes "scan_list lib root_dir limits cargo items st = Inr st'"
  shows "prefix (sc_indicators st) (sc_indicators st')
    \<and> (\<forall>item \<in> set items. set (item_findings lib root_dir limits cargo item) \<subseteq> set (sc_indicators st'))
    \<and> sc_digested st' = sc_digested st @ concat (map (item_digested limits) items)
    \<and> (sum_list (map item_files items) = 0 \<or> sc_file_count st + sum_list (map item_files items) \<le> max_file_count limits)"
  using assms
proof (induction items arbitrary: st)
  case (Cons item items)
  then obtain st1 where st1: "scan_one lib root_dir limits cargo item st = Inr st1" "scan_list lib root_dir limits cargo items st1 = Inr st'"
    by (auto simp: res_bind_eq_Inr)
  note one = scan_one_effect [OF st1(1)] and rest = Cons.IH [OF st1(2)]
  have p: "prefix (sc_indicators st @ item_findings lib root_dir limits cargo item) (sc_indicators st')"
    using one rest prefix_order.trans by blast
  have "set (item_findings lib root_dir limits cargo item) \<subseteq> set (sc_indicators st')"
    using set_mono_prefix [OF p] by simp
  moreover have "prefix (sc_indicators st) (sc_indicators st')" using p by (rule append_prefixD)
  moreover have "sum_list (map item_files (item # items)) = 0 \<or> sc_file_count st + sum_list (map item_files (item # items)) \<le> max_file_count limits"
  proof (cases "sum_list (map item_files items) = 0")
    case True
    then show ?thesis using one item_files_le [of item] by (auto simp del: item_files_le sum_list_eq_0_iff)
  next
    case False
    then have "sc_file_count st1 + sum_list (map item_files items) \<le> max_file_count limits" using rest by (elim conjE disjE) simp_all
    moreover have "sc_file_count st + item_files item \<le> sc_file_count st1" using one by blast
    ultimately show ?thesis unfolding list.map sum_list.Cons by linarith
  qed
  ultimately show ?case using one rest by auto
qed simp

lemma scan_list_broken: "scan_list lib root_dir limits cargo items st = Inr st' \<Longrightarrow> ItemBroken e \<notin> set items"
  by (induction items arbitrary: st) (auto simp: res_bind_eq_Inr)

lemma scan_directory_Inr:
  "scan_directory lib hex_sha256 version root_dir entries limits = Inr evidence \<longleftrightarrow>
     (\<exists>st. scan_list lib root_dir limits (is_cargo_source_root entries) (scan_items root_dir entries) scan_start = Inr st
        \<and> digest_sha256 (hex_sha256 (sc_digested st)) = Inr (se_artifact_digest evidence)
        \<and> se_indicators evidence = sc_indicators st \<and> se_analyzer_version evidence = version
        \<and> se_rule_set_version evidence = ''mvp-static-rules-2026-05'')"
  by (cases evidence) (auto simp: scan_directory_def scan_recursive_list res_bind_eq_Inr map_err_Inr)


section \<open>Lifecycle hooks\<close>

lemma lifecycle_hook_in_manifest:
  assumes "sl_json lib content = Some v" "json_get ''scripts'' v = Some (JObject scripts)" "(name, JString cmd) \<in> set scripts"
    and "name \<in> set NPM_LIFECYCLE_HOOKS"
  shows "indicator root_dir path ''npm-lifecycle-hook'' SevCritical 1 1
      (''npm lifecycle hook `'' @ name @ ''` detected: executes automatically during installation'')
      (Some (payload_details (take_chars 200 cmd))) \<in> set (scan_package_json lib root_dir path content)"
proof -
  let ?i = "indicator root_dir path ''npm-lifecycle-hook'' SevCritical 1 1
      (''npm lifecycle hook `'' @ name @ ''` detected: executes automatically during installation'')
      (Some (payload_details (take_chars 200 cmd)))"
  have "?i \<in> set (scan_npm_script root_dir path (name, JString cmd))"
    using assms(4) by (simp add: scan_npm_script_def as_str_def Let_def)
  then have "?i \<in> set (concat (map (scan_npm_script root_dir path) scripts))" using assms(3) by auto
  then show ?thesis using assms(1,2) by (simp add: scan_package_json_def as_object_def Let_def)
qed

lemma package_json_in_text:
  "ends_as ''package.json'' (lower_path path) \<Longrightarrow> set (scan_package_json lib root_dir path content) \<subseteq> set (scan_text lib root_dir path content)"
  by (simp add: scan_text_def scan_manifests_def Let_def le_supI1)


section \<open>A concrete scan\<close>

definition demo_lib :: scan_lib where
  "demo_lib = \<lparr>sl_find_iter = (\<lambda>_ _. []), sl_capture = (\<lambda>_ _. None), sl_b64_decode = (\<lambda>_. None), sl_log2 = (\<lambda>x. x),
     sl_json = (\<lambda>_. Some (JObject [(''scripts'', JObject [(''postinstall'', JString ''node x.js'')])])),
     sl_toml = (\<lambda>_. None), sl_xml = (\<lambda>_. None), sl_js = (\<lambda>_ _. []), sl_python = (\<lambda>_. None), sl_class = (\<lambda>_. None),
     sl_zip = (\<lambda>_. None), sl_read_file = (\<lambda>_. None)\<rparr>"

definition demo_tree :: "(string \<times> fs_node) list" where
  "demo_tree = [(''link'', FsLink False), (''package'', FsDir [(''package.json'', FsFile ''{}'')])]"

lemma demo_scan: "\<exists>evidence. scan_directory demo_lib (\<lambda>_. replicate 64 CHR ''a'') ''1'' ''/w'' demo_tree default_scan_limits = Inr evidence"
proof -
  have "digest_sha256 (replicate 64 CHR ''a'') = Inr \<lparr>dg_algorithm = Sha256, dg_hex = replicate 64 CHR ''a''\<rparr>" by code_simp
  then show ?thesis
    by (auto simp: scan_directory_def demo_tree_def scan_file_def scan_start_def default_scan_limits_def Let_def map_err_def)
qed

lemma demo_items: "scan_items ''/w'' demo_tree = [ItemLink ''/w/link'', ItemFile ''/w/package/package.json'' ''{}'']"
  by code_simp



end
