(* ===== verification/Sbom_Documents.thy ===== *)
theory Sbom_Documents
  imports Core_Types
begin

text \<open>
  The documents of the SBOM service, \<^verbatim>\<open>services/sbom-service/src/lib.rs\<close>: the validation of generate
  requests against their package URLs, the CycloneDX and SPDX documents that are generated, the check of the
  NTIA minimum elements, and the names under which documents are downloaded. The time, the fresh identifier
  and the version of the crate are arguments of the generators. The order of the fields of an object is
  that of the source; nothing depends on it.
\<close>

section \<open>Requests\<close>

definition MAX_COMPONENT_COUNT :: nat where
  "MAX_COMPONENT_COUNT = 50000"

definition DEFAULT_SBOM_LIST_LIMIT :: nat where
  "DEFAULT_SBOM_LIST_LIMIT = 12"

definition MAX_SBOM_LIST_LIMIT :: nat where
  "MAX_SBOM_LIST_LIMIT = 50"

record SbomComponentInput =
  sc_purl :: string
  sc_name :: string
  sc_ecosystem :: PackageEcosystem
  sc_version :: "string option"
  sc_namespace :: "string option"
  sc_integrity :: "string option"
  sc_decision :: string
  sc_decision_timestamp :: "string option"

datatype SbomFormatSpec = CycloneDx17 | CycloneDx16 | Spdx23

fun format_db_value :: "SbomFormatSpec \<Rightarrow> string" where
  "format_db_value CycloneDx17 = ''cyclonedx-1.7-json''"
| "format_db_value CycloneDx16 = ''cyclonedx-1.6-json''"
| "format_db_value Spdx23 = ''spdx-2.3-json''"

record GenerateSbomRequest =
  gs_source :: string
  gs_format :: SbomFormatSpec
  gs_components :: "SbomComponentInput list"
  gs_analysis_job_id :: "uuid option"
  gs_tenant_id :: "uuid option"

record NtiaValidationResult =
  nv_valid :: bool
  nv_issues :: "string list"

datatype SbomApiError =
    SbomNotFound
  | InvalidRequest string
  | TooManyComponents nat
  | SbomJson
  | SbomStorage string
  | SbomDatabase

fun sbom_error_status :: "SbomApiError \<Rightarrow> nat" where
  "sbom_error_status SbomNotFound = 404"
| "sbom_error_status (InvalidRequest _) = 422"
| "sbom_error_status (TooManyComponents _) = 422"
| "sbom_error_status SbomJson = 500"
| "sbom_error_status (SbomStorage _) = 500"
| "sbom_error_status SbomDatabase = 503"

section \<open>Package URLs\<close>

record ParsedPurl =
  pp_ecosystem :: PackageEcosystem
  pp_namespace :: "string option"
  pp_name :: string
  pp_version :: "string option"

definition before_char :: "char \<Rightarrow> string \<Rightarrow> string" where
  "before_char c s = (case split_once c s of Some (main, _) \<Rightarrow> main | None \<Rightarrow> s)"

definition purl_path_version :: "string \<Rightarrow> (string, string \<times> string option) result" where
  "purl_path_version remainder =
     (case rsplit_once CHR ''@'' remainder of
        Some (path, version) \<Rightarrow>
          if str_trim version = [] then Inl ''must not include an empty version'' else Inr (path, Some version)
      | None \<Rightarrow> Inr (remainder, None))"

definition parse_component_purl :: "string \<Rightarrow> (string, ParsedPurl) result" where
  "parse_component_purl p =
     res_bind (ok_or ''must start with pkg:'' (strip_prefix ''pkg:'' (str_trim p))) (\<lambda>raw.
     res_bind (ok_or ''must include a package type and package path'' (split_once CHR ''/'' raw)) (\<lambda>(package_type, remainder).
     res_bind (map_err (\<lambda>_. ''contains unsupported package type '' @ package_type) (ecosystem_from_str package_type)) (\<lambda>ecosystem.
     res_bind (purl_path_version (before_char CHR ''?'' (before_char CHR ''#'' remainder))) (\<lambda>(path_part, version).
       let path_segments = filter (\<lambda>segment. segment \<noteq> []) (split_on CHR ''/'' path_part) in
       if path_segments = [] then Inl ''must include a package name''
       else Inr \<lparr>pp_ecosystem = ecosystem,
         pp_namespace = (if butlast path_segments = [] then None else Some (str_join ''/'' (butlast path_segments))),
         pp_name = last path_segments, pp_version = version\<rparr>))))"

definition or_else :: "'a option \<Rightarrow> 'a option \<Rightarrow> 'a option" where
  "or_else x y = (case x of Some a \<Rightarrow> Some a | None \<Rightarrow> y)"

definition resolved_component_namespace :: "SbomComponentInput \<Rightarrow> string option" where
  "resolved_component_namespace component =
     or_else (sc_namespace component) (Option.bind (res_ok (parse_component_purl (sc_purl component))) pp_namespace)"

definition resolved_component_version :: "SbomComponentInput \<Rightarrow> string option" where
  "resolved_component_version component =
     or_else (sc_version component) (Option.bind (res_ok (parse_component_purl (sc_purl component))) pp_version)"

section \<open>Validation of requests\<close>

definition blank :: "string \<Rightarrow> bool" where
  "blank s = (str_trim s = [])"

definition reject_if :: "bool \<Rightarrow> string \<Rightarrow> (SbomApiError, unit) result" where
  "reject_if b message = (if b then Inl (InvalidRequest message) else Inr ())"

definition component_field :: "nat \<Rightarrow> string \<Rightarrow> string" where
  "component_field index text = ''components['' @ show_nat index @ '']'' @ text"

definition validate_component_namespace :: "nat \<Rightarrow> ParsedPurl \<Rightarrow> string option \<Rightarrow> (SbomApiError, unit) result" where
  "validate_component_namespace index parsed namespace =
     (case namespace of
        None \<Rightarrow> Inr ()
      | Some ns \<Rightarrow>
          res_bind (reject_if (blank ns) (component_field index ''.namespace must not be blank when provided'')) (\<lambda>_.
            case pp_namespace parsed of
              Some purl_namespace \<Rightarrow> reject_if (ns \<noteq> purl_namespace)
                (component_field index (''.namespace must match purl namespace '' @ purl_namespace))
            | None \<Rightarrow> Inl (InvalidRequest
                (component_field index ''.namespace must not be set when purl has no namespace''))))"

definition validate_component_input :: "nat \<Rightarrow> SbomComponentInput \<Rightarrow> (SbomApiError, unit) result" where
  "validate_component_input index component =
     res_bind (reject_if (blank (sc_purl component)) (component_field index ''.purl must not be empty'')) (\<lambda>_.
     res_bind (reject_if (blank (sc_name component)) (component_field index ''.name must not be empty'')) (\<lambda>_.
     res_bind (map_err (\<lambda>error. InvalidRequest (component_field index (''.purl '' @ error)))
         (parse_component_purl (sc_purl component))) (\<lambda>parsed.
     res_bind (reject_if (pp_ecosystem parsed \<noteq> sc_ecosystem component)
         (component_field index (''.ecosystem must match purl ecosystem '' @ ecosystem_display (pp_ecosystem parsed)))) (\<lambda>_.
     res_bind (reject_if (pp_name parsed \<noteq> sc_name component)
         (component_field index (''.name must match purl name '' @ pp_name parsed))) (\<lambda>_.
     res_bind (reject_if (blank (sc_decision component)) (component_field index ''.decision must not be empty'')) (\<lambda>_.
     res_bind (reject_if (is_some_and blank (sc_version component))
         (component_field index ''.version must not be blank when provided'')) (\<lambda>_.
     res_bind (validate_component_namespace index parsed (sc_namespace component)) (\<lambda>_.
     res_bind (case (sc_version component, pp_version parsed) of
         (Some version, Some purl_version) \<Rightarrow> reject_if (version \<noteq> purl_version)
           (component_field index (''.version must match purl version '' @ purl_version))
       | _ \<Rightarrow> Inr ()) (\<lambda>_.
       reject_if (is_some_and blank (sc_decision_timestamp component))
         (component_field index ''.decision_timestamp must not be blank when provided''))))))))))"

fun validate_components_from :: "nat \<Rightarrow> SbomComponentInput list \<Rightarrow> (SbomApiError, unit) result" where
  "validate_components_from index [] = Inr ()"
| "validate_components_from index (component # rest) =
     res_bind (validate_component_input index component) (\<lambda>_. validate_components_from (Suc index) rest)"

definition validate_component_inputs :: "SbomComponentInput list \<Rightarrow> (SbomApiError, unit) result" where
  "validate_component_inputs components = validate_components_from 0 components"

definition validate_generate_request :: "GenerateSbomRequest \<Rightarrow> (SbomApiError, unit) result" where
  "validate_generate_request req =
     res_bind (reject_if (blank (gs_source req)) ''source must not be empty'') (\<lambda>_.
     res_bind (reject_if (gs_components req = [] \<and> gs_analysis_job_id req = None)
         ''components must not be empty when analysis_job_id is absent'') (\<lambda>_.
       validate_component_inputs (gs_components req)))"

definition resolve_sbom_list_limit :: "nat option \<Rightarrow> (SbomApiError, nat) result" where
  "resolve_sbom_list_limit requested_limit =
     (case requested_limit of
        None \<Rightarrow> Inr DEFAULT_SBOM_LIST_LIMIT
      | Some limit \<Rightarrow>
          if limit = 0 then Inl (InvalidRequest ''limit must be greater than zero'')
          else Inr (min limit MAX_SBOM_LIST_LIMIT))"

section \<open>Names and encodings\<close>

fun sanitize_loop :: "bool \<Rightarrow> string \<Rightarrow> string" where
  "sanitize_loop last_was_dash [] = []"
| "sanitize_loop last_was_dash (ch # rest) =
     (if is_ascii_alphanumeric ch then ascii_lower_char ch # sanitize_loop False rest
      else if \<not> last_was_dash then CHR ''-'' # sanitize_loop True rest
      else sanitize_loop last_was_dash rest)"

definition sanitize_filename_component :: "string \<Rightarrow> string" where
  "sanitize_filename_component value =
     (let trimmed = trim_matches CHR ''-'' (sanitize_loop False value) in
      if trimmed = [] then ''sbom'' else trimmed)"

definition sbom_download_filename :: "(uuid \<Rightarrow> string) \<Rightarrow> string \<Rightarrow> string \<Rightarrow> uuid \<Rightarrow> string" where
  "sbom_download_filename show_uuid source format i =
     sanitize_filename_component source @ ''-'' @ sanitize_filename_component format @ ''-'' @ show_uuid i @ ''.json''"

definition hex_digit_upper :: "nat \<Rightarrow> char" where
  "hex_digit_upper n = char_of (if n < 10 then 48 + n else 55 + n)"

definition is_unreserved :: "char \<Rightarrow> bool" where
  "is_unreserved c = (is_ascii_alphanumeric c \<or> c \<in> set ''-_.~'')"

definition urlenc_byte :: "char \<Rightarrow> string" where
  "urlenc_byte c =
     (if is_unreserved c then [c]
      else [CHR ''%'', hex_digit_upper (of_char c div 16), hex_digit_upper (of_char c mod 16)])"

definition urlenc :: "string \<Rightarrow> string" where
  "urlenc s = concat (map urlenc_byte s)"

section \<open>Documents\<close>

definition integrity_parts :: "string option \<Rightarrow> (string \<times> string) option" where
  "integrity_parts integrity = Option.bind integrity (split_once CHR '':'')"

definition integrity_to_cyclonedx_hash :: "string option \<Rightarrow> json option" where
  "integrity_to_cyclonedx_hash integrity =
     Option.bind (integrity_parts integrity) (\<lambda>(alg, hex).
       map_option (\<lambda>a. JObject [(''alg'', JString a), (''content'', JString hex)])
         (if alg = ''sha256'' \<or> alg = ''sha-256'' then Some ''SHA-256''
          else if alg = ''sha512'' \<or> alg = ''sha-512'' then Some ''SHA-512'' else None))"

definition integrity_to_spdx_checksum :: "string option \<Rightarrow> json option" where
  "integrity_to_spdx_checksum integrity =
     Option.bind (integrity_parts integrity) (\<lambda>(alg, hex).
       map_option (\<lambda>a. JObject [(''algorithm'', JString a), (''checksumValue'', JString hex)])
         (if alg = ''sha256'' \<or> alg = ''sha-256'' then Some ''SHA256''
          else if alg = ''sha512'' \<or> alg = ''sha-512'' then Some ''SHA512'' else None))"

definition named_property :: "string \<Rightarrow> string \<Rightarrow> json" where
  "named_property name value = JObject [(''name'', JString name), (''value'', JString value)]"

definition root_properties :: "string \<Rightarrow> string \<Rightarrow> PackageEcosystem option \<Rightarrow> json list" where
  "root_properties source generated_at ecosystem =
     [named_property ''aegiscudo:source'' source, named_property ''aegiscudo:generated_at'' generated_at]
     @ (case ecosystem of Some e \<Rightarrow> [named_property ''aegiscudo:ecosystem'' (ecosystem_display e)] | None \<Rightarrow> [])"

definition component_properties :: "SbomComponentInput \<Rightarrow> json list" where
  "component_properties component =
     [named_property ''aegiscudo:ecosystem'' (ecosystem_display (sc_ecosystem component)),
      named_property ''aegiscudo:decision'' (sc_decision component)]
     @ (case sc_decision_timestamp component of
          Some t \<Rightarrow> [named_property ''aegiscudo:decision_timestamp'' t]
        | None \<Rightarrow> [named_property ''aegiscudo:decision_timestamp_status'' ''unavailable''])
     @ (case sc_integrity component of Some i \<Rightarrow> [named_property ''aegiscudo:integrity'' i] | None \<Rightarrow> [])"

definition component_comment :: "SbomComponentInput \<Rightarrow> string" where
  "component_comment component =
     str_join ''; ''
       ([''ecosystem='' @ ecosystem_display (sc_ecosystem component), ''Aegiscudo decision='' @ sc_decision component]
        @ (case sc_decision_timestamp component of
             Some t \<Rightarrow> [''decision_timestamp='' @ t] | None \<Rightarrow> [''decision_timestamp=unavailable''])
        @ (case sc_integrity component of Some i \<Rightarrow> [''integrity='' @ i] | None \<Rightarrow> []))"

definition common_ecosystem :: "SbomComponentInput list \<Rightarrow> PackageEcosystem option" where
  "common_ecosystem components =
     (case components of
        [] \<Rightarrow> None
      | first # _ \<Rightarrow>
          if list_all (\<lambda>component. sc_ecosystem component = sc_ecosystem first) components
          then Some (sc_ecosystem first) else None)"

definition optional_field :: "string \<Rightarrow> json option \<Rightarrow> (string \<times> json) list" where
  "optional_field key value = (case value of Some v \<Rightarrow> [(key, v)] | None \<Rightarrow> [])"

definition no_assertion :: json where
  "no_assertion = JString ''NOASSERTION''"

definition cyclonedx_component :: "SbomComponentInput \<Rightarrow> json" where
  "cyclonedx_component c =
     JObject ([(''type'', JString ''library''), (''bom-ref'', JString (sc_purl c)), (''purl'', JString (sc_purl c)),
        (''name'', JString (sc_name c)), (''supplier'', JObject [(''name'', no_assertion)])]
       @ optional_field ''group'' (map_option JString (resolved_component_namespace c))
       @ optional_field ''version'' (map_option JString (resolved_component_version c))
       @ optional_field ''hashes'' (map_option (\<lambda>h. JArray [h]) (integrity_to_cyclonedx_hash (sc_integrity c)))
       @ [(''properties'', JArray (component_properties c))])"

definition generate_cyclonedx ::
  "string \<Rightarrow> string \<Rightarrow> string \<Rightarrow> string \<Rightarrow> string \<Rightarrow> SbomComponentInput list \<Rightarrow> json" where
  "generate_cyclonedx now fresh crate_version source spec_version components =
     (let root_ref = JString (''aegiscudo:sbom:'' @ source) in
      JObject [(''bomFormat'', JString ''CycloneDX''), (''specVersion'', JString spec_version),
        (''serialNumber'', JString (''urn:uuid:'' @ fresh)), (''version'', JNumber 1),
        (''metadata'', JObject [(''timestamp'', JString now),
           (''tools'', JArray [JObject [(''vendor'', JString ''Aegiscudo''), (''name'', JString ''sbom-service''),
              (''version'', JString crate_version)]]),
           (''component'', JObject [(''type'', JString ''application''), (''bom-ref'', root_ref), (''name'', JString source),
              (''supplier'', JObject [(''name'', no_assertion)]),
              (''properties'', JArray (root_properties source now (common_ecosystem components)))])]),
        (''components'', JArray (map cyclonedx_component components)),
        (''dependencies'', JArray (JObject [(''ref'', root_ref), (''dependsOn'', JArray (map (\<lambda>c. JString (sc_purl c)) components))]
           # map (\<lambda>c. JObject [(''ref'', JString (sc_purl c)), (''dependsOn'', JArray [])]) components))])"

definition spdx_id :: "nat \<Rightarrow> json" where
  "spdx_id i = JString (''SPDXRef-Package-'' @ show_nat (i + 1))"

definition spdx_package :: "nat \<Rightarrow> SbomComponentInput \<Rightarrow> json" where
  "spdx_package i c =
     JObject ([(''SPDXID'', spdx_id i), (''name'', JString (sc_name c)),
        (''versionInfo'', JString (unwrap_or ''NOASSERTION'' (resolved_component_version c))),
        (''downloadLocation'', no_assertion), (''filesAnalyzed'', JBool False), (''supplier'', no_assertion),
        (''licenseConcluded'', no_assertion), (''licenseDeclared'', no_assertion), (''copyrightText'', no_assertion),
        (''primaryPackagePurpose'', JString ''LIBRARY''), (''comment'', JString (component_comment c)),
        (''externalRefs'', JArray [JObject [(''referenceCategory'', JString ''PACKAGE-MANAGER''),
           (''referenceType'', JString ''purl''), (''referenceLocator'', JString (sc_purl c))]])]
       @ optional_field ''checksums'' (map_option (\<lambda>h. JArray [h]) (integrity_to_spdx_checksum (sc_integrity c))))"

definition spdx_relationship :: "json \<Rightarrow> string \<Rightarrow> json \<Rightarrow> json" where
  "spdx_relationship element kind related =
     JObject [(''spdxElementId'', element), (''relationshipType'', JString kind), (''relatedSpdxElement'', related)]"

definition spdx_root :: "string \<Rightarrow> json" where
  "spdx_root source =
     JObject [(''SPDXID'', JString ''SPDXRef-Root''), (''name'', JString source), (''versionInfo'', no_assertion),
       (''downloadLocation'', no_assertion), (''filesAnalyzed'', JBool False), (''supplier'', no_assertion),
       (''licenseConcluded'', no_assertion), (''licenseDeclared'', no_assertion), (''copyrightText'', no_assertion),
       (''primaryPackagePurpose'', JString ''APPLICATION''), (''comment'', JString (''Generated from '' @ source))]"

definition generate_spdx23 :: "string \<Rightarrow> string \<Rightarrow> string \<Rightarrow> string \<Rightarrow> SbomComponentInput list \<Rightarrow> json" where
  "generate_spdx23 now fresh crate_version source components =
     (let root_id = JString ''SPDXRef-Root''
      in JObject [(''SPDXID'', JString ''SPDXRef-DOCUMENT''), (''spdxVersion'', JString ''SPDX-2.3''),
        (''creationInfo'', JObject [(''created'', JString now),
           (''creators'', JArray [JString (''Tool: Aegiscudo sbom-service-'' @ crate_version)]),
           (''licenseListVersion'', JString ''3.22'')]),
        (''name'', JString source), (''dataLicense'', JString ''CC0-1.0''),
        (''documentNamespace'', JString (''https://aegiscudo.io/sbom/'' @ urlenc source @ ''/'' @ fresh)),
        (''packages'', JArray (spdx_root source # map (\<lambda>(i, c). spdx_package i c) (List.enumerate 0 components))),
        (''relationships'', JArray (spdx_relationship (JString ''SPDXRef-DOCUMENT'') ''DESCRIBES'' root_id
           # map (\<lambda>(i, c). spdx_relationship root_id ''DEPENDS_ON'' (spdx_id i)) (List.enumerate 0 components)))])"

section \<open>The NTIA minimum elements\<close>

text \<open>A JSON pointer through objects.\<close>

fun json_pointer :: "string list \<Rightarrow> json \<Rightarrow> json option" where
  "json_pointer [] v = Some v"
| "json_pointer (k # ks) v = Option.bind (json_get k v) (json_pointer ks)"

definition require_non_empty_string :: "json option \<Rightarrow> string \<Rightarrow> string list" where
  "require_non_empty_string value field =
     (case Option.bind value as_str of
        Some text \<Rightarrow> if \<not> blank text then [] else [''missing '' @ field]
      | None \<Rightarrow> [''missing '' @ field])"

definition require_non_empty_array :: "json option \<Rightarrow> string \<Rightarrow> string list" where
  "require_non_empty_array value issue =
     (if is_none_or (\<lambda>items. items = []) (Option.bind value as_array) then [issue] else [])"

definition has_named_property :: "json option \<Rightarrow> string \<Rightarrow> bool" where
  "has_named_property properties expected_name =
     is_some_and (list_ex (\<lambda>property. json_get ''name'' property = Some (JString expected_name)))
       (Option.bind properties as_array)"

definition has_spdx_purl_external_ref :: "json \<Rightarrow> bool" where
  "has_spdx_purl_external_ref package =
     is_some_and (list_ex (\<lambda>external_ref.
         json_get ''referenceCategory'' external_ref = Some (JString ''PACKAGE-MANAGER'')
         \<and> json_get ''referenceType'' external_ref = Some (JString ''purl'')))
       (get_array ''externalRefs'' package)"

definition cyclonedx_component_issues :: "nat \<Rightarrow> json \<Rightarrow> string list" where
  "cyclonedx_component_issues index component =
     require_non_empty_string (json_get ''name'' component) (component_field index ''.name'')
     @ require_non_empty_string (json_get ''version'' component) (component_field index ''.version'')
     @ require_non_empty_string (json_get ''purl'' component) (component_field index ''.purl'')
     @ require_non_empty_string (json_pointer [''supplier'', ''name''] component) (component_field index ''.supplier.name'')
     @ (if has_named_property (json_get ''properties'' component) ''aegiscudo:ecosystem'' then []
        else [component_field index '' is missing aegiscudo:ecosystem property''])"

definition validate_cyclonedx_ntia :: "json \<Rightarrow> string list" where
  "validate_cyclonedx_ntia document =
     require_non_empty_string (json_pointer [''metadata'', ''timestamp''] document) ''metadata.timestamp''
     @ require_non_empty_array (json_pointer [''metadata'', ''tools''] document) ''missing metadata.tools author metadata''
     @ require_non_empty_string (json_pointer [''metadata'', ''component'', ''name''] document) ''metadata.component.name''
     @ require_non_empty_string (json_pointer [''metadata'', ''component'', ''supplier'', ''name''] document)
         ''metadata.component.supplier.name''
     @ (case get_array ''components'' document of
          None \<Rightarrow> [''missing components array'']
        | Some components \<Rightarrow>
            concat (map (\<lambda>(index, component). cyclonedx_component_issues index component) (List.enumerate 0 components))
            @ require_non_empty_array (json_get ''dependencies'' document) ''missing dependency relationships'')"

definition spdx_package_issues :: "nat \<Rightarrow> json \<Rightarrow> string list" where
  "spdx_package_issues index package =
     (let field = (\<lambda>text. ''packages['' @ show_nat index @ '']'' @ text) in
      require_non_empty_string (json_get ''name'' package) (field ''.name'')
      @ require_non_empty_string (json_get ''supplier'' package) (field ''.supplier'')
      @ require_non_empty_string (json_get ''versionInfo'' package) (field ''.versionInfo'')
      @ (if index > 0 \<and> \<not> has_spdx_purl_external_ref package
         then [field '' is missing PACKAGE-MANAGER purl external reference''] else []))"

definition spdx_relationship_issues :: "json \<Rightarrow> string list" where
  "spdx_relationship_issues document =
     (case get_array ''relationships'' document of
        None \<Rightarrow> [''missing relationships array'']
      | Some relationships \<Rightarrow>
          if list_ex (\<lambda>relationship. json_get ''spdxElementId'' relationship = Some (JString ''SPDXRef-DOCUMENT'')
              \<and> json_get ''relationshipType'' relationship = Some (JString ''DESCRIBES'')
              \<and> json_get ''relatedSpdxElement'' relationship = Some (JString ''SPDXRef-Root'')) relationships
          then [] else [''missing document DESCRIBES root relationship''])"

definition validate_spdx_ntia :: "json \<Rightarrow> string list" where
  "validate_spdx_ntia document =
     require_non_empty_string (json_pointer [''creationInfo'', ''created''] document) ''creationInfo.created''
     @ require_non_empty_array (json_pointer [''creationInfo'', ''creators''] document)
         ''missing creationInfo.creators author metadata''
     @ (case get_array ''packages'' document of
          None \<Rightarrow> [''missing packages array'']
        | Some packages \<Rightarrow>
            if packages = [] then [''packages array is empty'']
            else concat (map (\<lambda>(index, package). spdx_package_issues index package) (List.enumerate 0 packages))
              @ spdx_relationship_issues document)"

definition validate_ntia_minimum_elements :: "string \<Rightarrow> json \<Rightarrow> NtiaValidationResult" where
  "validate_ntia_minimum_elements format document =
     (let issues =
        (if format = ''cyclonedx-1.7-json'' \<or> format = ''cyclonedx-1.6-json'' then validate_cyclonedx_ntia document
         else if format = ''spdx-2.3-json'' then validate_spdx_ntia document
         else [''unsupported SBOM format for NTIA validation: '' @ format])
      in \<lparr>nv_valid = (issues = []), nv_issues = issues\<rparr>)"

definition generate_document ::
  "string \<Rightarrow> string \<Rightarrow> string \<Rightarrow> SbomFormatSpec \<Rightarrow> string \<Rightarrow> SbomComponentInput list \<Rightarrow> json" where
  "generate_document now fresh crate_version format source components =
     (case format of
        CycloneDx17 \<Rightarrow> generate_cyclonedx now fresh crate_version source ''1.7'' components
      | CycloneDx16 \<Rightarrow> generate_cyclonedx now fresh crate_version source ''1.6'' components
      | Spdx23 \<Rightarrow> generate_spdx23 now fresh crate_version source components)"

section \<open>What accepted components satisfy\<close>

lemma reject_if_Inr [simp]: "reject_if b message = Inr () \<longleftrightarrow> \<not> b"
  by (simp add: reject_if_def)

declare map_err_Inr [simp]

text \<open>A component that agrees with its package URL.\<close>

definition component_ok :: "SbomComponentInput \<Rightarrow> bool" where
  "component_ok c =
     (\<not> blank (sc_name c) \<and> \<not> blank (sc_decision c)
      \<and> (case parse_component_purl (sc_purl c) of
           Inl _ \<Rightarrow> False
         | Inr parsed \<Rightarrow> pp_ecosystem parsed = sc_ecosystem c \<and> pp_name parsed = sc_name c
             \<and> is_none_or (\<lambda>ns. \<not> blank ns \<and> pp_namespace parsed = Some ns) (sc_namespace c)
             \<and> is_none_or (\<lambda>v. \<not> blank v \<and> is_none_or (\<lambda>w. v = w) (pp_version parsed)) (sc_version c))
      \<and> is_none_or (\<lambda>t. \<not> blank t) (sc_decision_timestamp c))"

lemma parse_component_purl_nonblank: "parse_component_purl p = Inr parsed \<Longrightarrow> \<not> blank p"
  by (auto simp: parse_component_purl_def blank_def res_bind_eq_Inr ok_or_def strip_prefix_Some split: option.splits)

lemma validate_component_input_iff: "validate_component_input index c = Inr () \<longleftrightarrow> component_ok c"
proof (cases "parse_component_purl (sc_purl c)")
  case (Inl e)
  then show ?thesis by (simp add: validate_component_input_def component_ok_def res_bind_eq_Inr)
next
  case (Inr parsed)
  then have "\<not> blank (sc_purl c)" by (rule parse_component_purl_nonblank)
  with Inr show ?thesis
    by (auto simp: validate_component_input_def component_ok_def res_bind_eq_Inr validate_component_namespace_def
        is_some_and_def is_none_or_def split: option.splits)
qed

lemma validate_component_inputs_iff: "validate_component_inputs cs = Inr () \<longleftrightarrow> list_all component_ok cs"
proof -
  have "validate_components_from i cs = Inr () \<longleftrightarrow> list_all component_ok cs" for i
    by (induction cs arbitrary: i) (simp_all add: res_bind_eq_Inr validate_component_input_iff)
  then show ?thesis by (simp add: validate_component_inputs_def)
qed

lemma purl_path_version_nonblank: "purl_path_version r = Inr (path, Some v) \<Longrightarrow> \<not> blank v"
  by (auto simp: purl_path_version_def blank_def split: option.splits if_splits)

lemma parsed_version_nonblank: "parse_component_purl p = Inr parsed \<Longrightarrow> pp_version parsed = Some v \<Longrightarrow> \<not> blank v"
  by (auto simp: parse_component_purl_def res_bind_eq_Inr Let_def split: if_splits dest: purl_path_version_nonblank)

lemma resolved_version_nonblank: "component_ok c \<Longrightarrow> resolved_component_version c = Some v \<Longrightarrow> \<not> blank v"
  by (auto simp: component_ok_def resolved_component_version_def or_else_def bind_eq_Some_conv is_none_or_def
      dest: parsed_version_nonblank split: option.splits sum.splits)

lemma component_ok_purl: "component_ok c \<Longrightarrow> \<not> blank (sc_purl c)"
  by (auto simp: component_ok_def split: sum.splits dest: parse_component_purl_nonblank)

section \<open>Generated documents\<close>

lemma require_string [simp]:
  "require_non_empty_string (Some (JString t)) field = (if blank t then [''missing '' @ field] else [])"
  "require_non_empty_string None field = [''missing '' @ field]"
  by (simp_all add: require_non_empty_string_def as_str_def)

lemma require_array [simp]:
  "require_non_empty_array (Some (JArray items)) issue = (if items = [] then [issue] else [])"
  by (simp add: require_non_empty_array_def as_array_def)

lemma blank_no_assertion: "\<not> blank ''NOASSERTION''"
  unfolding blank_def by (subst str_trim_id) (simp_all add: graphic_char_def)

lemma cyclonedx_component_issues_iff:
  assumes "component_ok c"
  shows "cyclonedx_component_issues i (cyclonedx_component c) = [] \<longleftrightarrow> resolved_component_version c \<noteq> None"
  using assms component_ok_purl [OF assms] resolved_version_nonblank [OF assms]
  by (auto simp: cyclonedx_component_issues_def cyclonedx_component_def json_get_def optional_field_def blank_no_assertion
      no_assertion_def has_named_property_def component_properties_def named_property_def as_array_def component_ok_def
      split: option.split)

lemma cyclonedx_ntia:
  assumes "list_all component_ok components" "\<not> blank source" "\<not> blank now"
  shows "validate_cyclonedx_ntia (generate_cyclonedx now fresh crate source spec components) = []
    \<longleftrightarrow> list_all (\<lambda>c. resolved_component_version c \<noteq> None) components"
proof -
  have "concat (map (\<lambda>(i, c). cyclonedx_component_issues i c) (List.enumerate n (map cyclonedx_component components))) = []
      \<longleftrightarrow> list_all (\<lambda>c. resolved_component_version c \<noteq> None) components" for n
    using assms(1) by (induction components arbitrary: n) (simp_all add: cyclonedx_component_issues_iff)
  with assms(2,3) show ?thesis
    by (simp add: validate_cyclonedx_ntia_def generate_cyclonedx_def Let_def json_get_def get_array_def as_array_def
        blank_no_assertion no_assertion_def)
qed

lemma spdx_package_issues_none:
  assumes "component_ok c"
  shows "spdx_package_issues i (spdx_package n c) = []"
  using assms resolved_version_nonblank [OF assms]
  by (auto simp: spdx_package_issues_def spdx_package_def json_get_def get_array_def as_array_def blank_no_assertion
      no_assertion_def has_spdx_purl_external_ref_def component_ok_def unwrap_or_def Let_def split: option.split)

lemma spdx_ntia:
  assumes "list_all component_ok components" "\<not> blank source" "\<not> blank now"
  shows "validate_spdx_ntia (generate_spdx23 now fresh crate source components) = []"
proof -
  have packages: "concat (map (\<lambda>(i, p). spdx_package_issues i p)
      (List.enumerate m (map (\<lambda>(i, c). spdx_package i c) (List.enumerate n components)))) = []" for m n
    using assms(1) by (induction components arbitrary: m n) (simp_all add: spdx_package_issues_none)
  have root: "spdx_package_issues 0 (spdx_root source) = []"
    using assms(2) by (simp add: spdx_package_issues_def spdx_root_def json_get_def blank_no_assertion no_assertion_def Let_def)
  show ?thesis
    using assms(3) packages root
    by (simp add: validate_spdx_ntia_def generate_spdx23_def Let_def json_get_def get_array_def as_array_def
        spdx_relationship_issues_def spdx_relationship_def)
qed

text \<open>C18: A document generated from components that pass validation satisfies the NTIA minimum elements
  exactly when it is an SPDX document or every component has a version, given by the field or by the package
  URL: a CycloneDX document omits the version of a component that has none, an SPDX document says NOASSERTION.\<close>

theorem generated_sbom_meets_ntia:
  assumes "validate_component_inputs components = Inr ()" "\<not> blank source" "\<not> blank now"
  shows "nv_valid (validate_ntia_minimum_elements (format_db_value format)
      (generate_document now fresh crate_version format source components))
    \<longleftrightarrow> format = Spdx23 \<or> list_all (\<lambda>c. resolved_component_version c \<noteq> None) components"
  using assms cyclonedx_ntia [OF _ assms(2,3)] spdx_ntia [OF _ assms(2,3)]
  by (cases format) (simp_all add: validate_ntia_minimum_elements_def generate_document_def validate_component_inputs_iff)

definition lodash_component :: SbomComponentInput where
  "lodash_component = \<lparr>sc_purl = ''pkg:npm/lodash'', sc_name = ''lodash'', sc_ecosystem = Npm, sc_version = None,
     sc_namespace = None, sc_integrity = None, sc_decision = ''allow'', sc_decision_timestamp = None\<rparr>"

lemma lodash_parsed:
  "parse_component_purl ''pkg:npm/lodash'' = Inr \<lparr>pp_ecosystem = Npm, pp_namespace = None, pp_name = ''lodash'', pp_version = None\<rparr>"
proof -
  have "str_trim ''pkg:npm/lodash'' = ''pkg:npm/lodash''" by (rule str_trim_id) (simp_all add: graphic_char_def)
  then show ?thesis
    by (simp add: parse_component_purl_def before_char_def purl_path_version_def rsplit_once_def ecosystem_from_str_def)
qed

lemma lodash_texts:
  "\<not> blank ''lodash''" "\<not> blank ''allow''" "\<not> blank ''app''" "\<not> blank ''2024-01-01T00:00:00Z''"
  unfolding blank_def by (subst str_trim_id; simp add: graphic_char_def)+

lemma lodash_accepted: "validate_component_inputs [lodash_component] = Inr ()"
  by (simp add: validate_component_inputs_iff component_ok_def lodash_component_def lodash_parsed lodash_texts is_none_or_def)

theorem generated_sbom_meets_ntia_witness:
  "\<not> nv_valid (validate_ntia_minimum_elements (format_db_value CycloneDx17)
      (generate_document ''2024-01-01T00:00:00Z'' ''id'' ''0.1.0'' CycloneDx17 ''app'' [lodash_component]))
   \<and> nv_valid (validate_ntia_minimum_elements (format_db_value Spdx23)
       (generate_document ''2024-01-01T00:00:00Z'' ''id'' ''0.1.0'' Spdx23 ''app'' [lodash_component]))"
proof -
  have "resolved_component_version lodash_component = None"
    by (simp add: resolved_component_version_def lodash_component_def lodash_parsed or_else_def)
  then show ?thesis
    using generated_sbom_meets_ntia [OF lodash_accepted lodash_texts(3,4)] by (simp del: format_db_value.simps)
qed

section \<open>Round trip of package URLs\<close>

lemma before_char_absent: "c \<notin> set s \<Longrightarrow> before_char c s = s"
  by (simp add: before_char_def split_once_None)

lemma slash_not_in_ecosystem: "CHR ''/'' \<notin> set (ecosystem_display e)"
  by (cases e) simp_all

text \<open>The part of the parser after the package type.\<close>

lemma parse_component_purl_path:
  assumes "str_trim rest = rest" "rest \<noteq> []" "graphic_char (last rest)" "set ''?#'' \<inter> set rest = {}"
  shows "parse_component_purl (''pkg:'' @ ecosystem_display e @ ''/'' @ rest) =
    res_bind (purl_path_version rest) (\<lambda>(path_part, version).
       let path_segments = filter (\<lambda>segment. segment \<noteq> []) (split_on CHR ''/'' path_part) in
       if path_segments = [] then Inl ''must include a package name''
       else Inr \<lparr>pp_ecosystem = e,
         pp_namespace = (if butlast path_segments = [] then None else Some (str_join ''/'' (butlast path_segments))),
         pp_name = last path_segments, pp_version = version\<rparr>)"
proof -
  have "str_trim (''pkg:'' @ ecosystem_display e @ ''/'' @ rest) = ''pkg:'' @ ecosystem_display e @ ''/'' @ rest"
    using assms(2,3) by (intro str_trim_id) (simp_all add: graphic_char_def)
  with assms(4) show ?thesis
    by (simp add: parse_component_purl_def split_once_append slash_not_in_ecosystem ecosystem_from_str_display
        before_char_absent)
qed

text \<open>Printable text without some separators.\<close>

definition free_of :: "string \<Rightarrow> string \<Rightarrow> bool" where
  "free_of separators s = list_all (\<lambda>x. graphic_char x \<and> x \<notin> set separators) s"

lemma free_of_Cons [simp]:
  "free_of separators []"
  "free_of separators (x # s) \<longleftrightarrow> graphic_char x \<and> x \<notin> set separators \<and> free_of separators s"
  by (simp_all add: free_of_def)

lemma free_of_append [simp]: "free_of separators (s @ t) \<longleftrightarrow> free_of separators s \<and> free_of separators t"
  by (simp add: free_of_def)

lemma free_of_subset: "free_of separators s \<Longrightarrow> set separators' \<subseteq> set separators \<Longrightarrow> free_of separators' s"
  by (auto simp: free_of_def list_all_iff)

lemma free_of_notin: "free_of separators s \<Longrightarrow> x \<in> set separators \<Longrightarrow> x \<notin> set s"
  by (auto simp: free_of_def list_all_iff)

lemma free_of_graphic: "free_of separators s \<Longrightarrow> list_all graphic_char s"
  by (auto simp: free_of_def list_all_iff)

text \<open>Coordinates whose parts do not contain the separators of a package URL; only the first character of a
  namespace may be an at sign, as in the scopes of npm.\<close>

definition purl_clean :: "PackageCoordinate \<Rightarrow> bool" where
  "purl_clean c =
     (pc_name c \<noteq> [] \<and> free_of ''/@?#'' (pc_name c)
      \<and> is_none_or (\<lambda>ns. free_of ''?#'' ns \<and> CHR ''@'' \<notin> set (tl ns) \<and> [] \<notin> set (split_on CHR ''/'' ns)) (pc_namespace c)
      \<and> is_none_or (\<lambda>v. v \<noteq> [] \<and> free_of ''@?#'' v) (pc_version c))"

definition scoped :: "PackageCoordinate \<Rightarrow> bool" where
  "scoped c = is_some_and (\<lambda>ns. take 1 ns = ''@'') (pc_namespace c)"

lemma graphic_trim: "s \<noteq> [] \<Longrightarrow> list_all graphic_char s \<Longrightarrow> str_trim s = s"
  by (rule str_trim_id) (simp_all add: list_all_iff)

lemma clean_name:
  assumes "purl_clean c"
  shows "pc_name c \<noteq> []" "free_of ''?#'' (pc_name c)" "CHR ''@'' \<notin> set (pc_name c)" "CHR ''/'' \<notin> set (pc_name c)"
  using assms free_of_subset [of "''/@?#''" "pc_name c" "''?#''"] free_of_notin [of "''/@?#''" "pc_name c"]
  by (simp_all add: purl_clean_def)

lemma clean_version:
  assumes "purl_clean c" "pc_version c = Some v"
  shows "v \<noteq> []" "free_of ''?#'' v" "CHR ''@'' \<notin> set v"
  using assms free_of_subset [of "''@?#''" v "''?#''"] free_of_notin [of "''@?#''" v]
  by (simp_all add: purl_clean_def is_none_or_def)

lemma clean_namespace:
  assumes "purl_clean c" "pc_namespace c = Some ns"
  shows "ns \<noteq> []" "free_of ''?#'' ns" "CHR ''@'' \<notin> set (tl ns)" "[] \<notin> set (split_on CHR ''/'' ns)"
  using assms by (auto simp: purl_clean_def is_none_or_def)

lemma clean_path:
  assumes "purl_clean c"
  shows "purl_package_path c \<noteq> []" and "free_of ''?#'' (purl_package_path c)"
    and "filter (\<lambda>segment. segment \<noteq> []) (split_on CHR ''/'' (purl_package_path c)) =
      (case pc_namespace c of None \<Rightarrow> [] | Some ns \<Rightarrow> split_on CHR ''/'' ns) @ [pc_name c]"
proof -
  note name = clean_name [OF assms] and namespace = clean_namespace [OF assms]
  show "purl_package_path c \<noteq> []" using name(1) by (simp add: purl_package_path_def split: option.split)
  show "free_of ''?#'' (purl_package_path c)"
    using name(2) namespace(2) by (simp add: purl_package_path_def graphic_char_def split: option.split)
  have filter_id: "filter (\<lambda>segment. segment \<noteq> []) segments = segments" if "[] \<notin> set segments" for segments :: "string list"
    using that by (intro filter_True) auto
  show "filter (\<lambda>segment. segment \<noteq> []) (split_on CHR ''/'' (purl_package_path c)) =
      (case pc_namespace c of None \<Rightarrow> [] | Some ns \<Rightarrow> split_on CHR ''/'' ns) @ [pc_name c]"
    using name(1,4) namespace(1,4)
    by (simp add: purl_package_path_def split_on_id split_on_append_split filter_id split: option.split)
qed

lemma clean_path_at:
  assumes "purl_clean c"
  shows "\<not> scoped c \<Longrightarrow> CHR ''@'' \<notin> set (purl_package_path c)"
    and "scoped c \<Longrightarrow> \<exists>rest. purl_package_path c = CHR ''@'' # rest \<and> CHR ''@'' \<notin> set rest \<and> rest \<noteq> []"
proof -
  note name = clean_name(1,3) [OF assms] and namespace = clean_namespace(1,3) [OF assms]
  show "CHR ''@'' \<notin> set (purl_package_path c)" if "\<not> scoped c"
  proof (cases "pc_namespace c")
    case None
    with name show ?thesis by (simp add: purl_package_path_def)
  next
    case (Some ns)
    with that name namespace [OF Some] show ?thesis
      by (cases ns) (auto simp: purl_package_path_def scoped_def is_some_and_def)
  qed
  show "\<exists>rest. purl_package_path c = CHR ''@'' # rest \<and> CHR ''@'' \<notin> set rest \<and> rest \<noteq> []" if "scoped c"
  proof (cases "pc_namespace c")
    case None
    with that show ?thesis by (simp add: scoped_def is_some_and_def)
  next
    case (Some ns)
    with that name namespace [OF Some] show ?thesis
      by (cases ns) (auto simp: purl_package_path_def scoped_def is_some_and_def)
  qed
qed

lemma purl_parses_back:
  assumes "purl_clean c"
  shows "parse_component_purl (purl c) =
    (if scoped c \<and> pc_version c = None then Inl ''must include a package name''
     else Inr \<lparr>pp_ecosystem = pc_ecosystem c, pp_namespace = pc_namespace c, pp_name = pc_name c,
            pp_version = pc_version c\<rparr>)"
proof -
  note path = clean_path [OF assms]
  define rest where "rest = purl_package_path c @ (case pc_version c of None \<Rightarrow> [] | Some v \<Rightarrow> CHR ''@'' # v)"
  have free: "free_of ''?#'' rest"
    using path(2) clean_version(2) [OF assms] by (simp add: rest_def graphic_char_def split: option.split)
  have rest: "rest \<noteq> []" "list_all graphic_char rest" "set ''?#'' \<inter> set rest = {}"
    using path(1) free_of_graphic [OF free] free_of_notin [OF free] by (auto simp: rest_def)
  have trim: "str_trim rest = rest" using rest by (simp add: graphic_trim)
  have last: "graphic_char (last rest)" using rest by (simp add: list_all_iff)
  have purl: "purl c = ''pkg:'' @ ecosystem_display (pc_ecosystem c) @ ''/'' @ rest"
    by (simp add: purl_def rest_def split: option.split)
  note step = parse_component_purl_path [OF trim rest(1) last rest(3), of "pc_ecosystem c", folded purl]
  show ?thesis
  proof (cases "pc_version c")
    case (Some v)
    note v = clean_version [OF assms Some]
    have "str_trim v = v" using v(1) free_of_graphic [OF v(2)] by (rule graphic_trim)
    with Some v have "purl_path_version rest = Inr (purl_package_path c, Some v)"
      by (simp add: rest_def purl_path_version_def rsplit_once_append)
    with Some step path(3) show ?thesis by (cases "pc_namespace c") (simp_all add: Let_def)
  next
    case None
    show ?thesis
    proof (cases "scoped c")
      case True
      from clean_path_at(2) [OF assms True] obtain t
        where t: "purl_package_path c = [] @ CHR ''@'' # t" "CHR ''@'' \<notin> set t" "t \<noteq> []" by auto
      with free_of_graphic [OF path(2)] have "str_trim t = t" by (simp add: graphic_trim)
      with t None have "purl_path_version rest = Inr ([], Some t)"
        by (simp add: rest_def purl_path_version_def rsplit_once_append [of _ _ "[]", simplified])
      with step True None show ?thesis by (simp add: Let_def)
    next
      case False
      from clean_path_at(1) [OF assms False] None have "purl_path_version rest = Inr (purl_package_path c, None)"
        by (simp add: rest_def purl_path_version_def rsplit_once_None)
      with False None step path(3) show ?thesis by (cases "pc_namespace c") (simp_all add: Let_def)
    qed
  qed
qed



end
