(* ===== verification/Sbom_Service.thy ===== *)
theory Sbom_Service
  imports Sbom_Documents
begin

text \<open>
  The handlers of the SBOM service, \<^verbatim>\<open>services/sbom-service/src/lib.rs\<close>: generation from components of the
  request or from the fragments that an analysis job stored, the store of the documents in files beside the
  table \<^verbatim>\<open>sbom_documents\<close>, and the download and list endpoints. The state holds the tables that the queries
  read and the files under their canonical paths. The formatters of uuids and times, JSON text, the digest and
  the resolution of paths are fields of an environment, as is whether the database and the file system answer.
\<close>

section \<open>State\<close>

record SbomDocumentRow =
  sd_id :: uuid
  sd_analysis_job_id :: "uuid option"
  sd_tenant_id :: "uuid option"
  sd_source :: string
  sd_format :: string
  sd_storage_uri :: string
  sd_storage_sha256 :: string
  sd_storage_size_bytes :: nat
  sd_component_count :: nat
  sd_created_at :: timestamp

record SbomFragmentRow =
  sf_id :: uuid
  sf_analysis_job_id :: uuid
  sf_artifact_id :: uuid
  sf_tenant_id :: uuid
  sf_fragment :: json
  sf_created_at :: timestamp

record SbomDecisionRow =
  dr_artifact_id :: "uuid option"
  dr_tenant_id :: uuid
  dr_decision :: string
  dr_decided_at :: timestamp

record SbomState =
  ss_documents :: "SbomDocumentRow list"
  ss_fragments :: "SbomFragmentRow list"
  ss_decisions :: "SbomDecisionRow list"
  ss_files :: "string \<rightharpoonup> string"

record sbom_env =
  sv_store_dir :: string
  sv_crate_version :: string
  sv_show_uuid :: "uuid \<Rightarrow> string"
  sv_rfc3339 :: "timestamp \<Rightarrow> string"
  sv_to_vec_pretty :: "json \<Rightarrow> string"
  sv_from_slice :: "string \<Rightarrow> json option"
  sv_decode_error :: "json \<Rightarrow> string"
  sv_hex_sha256 :: "string \<Rightarrow> string"
  sv_resolve :: "string \<Rightarrow> string"
  sv_query_ok :: bool
  sv_insert_ok :: "SbomDocumentRow \<Rightarrow> bool"
  sv_create_dir_ok :: "string \<Rightarrow> bool"
  sv_write_ok :: "string \<Rightarrow> bool"

record GenerateSbomResponse =
  gr_id :: uuid
  gr_format :: string
  gr_source :: string
  gr_component_count :: nat
  gr_storage_uri :: string
  gr_storage_sha256 :: string
  gr_storage_size_bytes :: nat
  gr_created_at :: timestamp
  gr_ntia_validation :: NtiaValidationResult
  gr_document :: json

record SbomMetadata =
  sm_row :: SbomDocumentRow
  sm_ntia_validation :: NtiaValidationResult

record ResolvedGenerateComponents =
  rg_tenant_id :: "uuid option"
  rg_components :: "SbomComponentInput list"

text \<open>Queries that fail are answered with a database error.\<close>

definition db_query :: "sbom_env \<Rightarrow> 'a \<Rightarrow> (SbomApiError, 'a) result" where
  "db_query env rows = (if sv_query_ok env then Inr rows else Inl SbomDatabase)"

section \<open>Stored fragments\<close>

text \<open>The derived deserializers: a struct is read from an object or from an array of all its fields, a unit
  variant from its name or from an object that maps its name to null.\<close>

fun struct_fields :: "string list \<Rightarrow> json \<Rightarrow> json option list option" where
  "struct_fields names (JObject kvs) = Some (map (map_of kvs) names)"
| "struct_fields names (JArray items) = (if length items = length names then Some (map Some items) else None)"
| "struct_fields names _ = None"

definition required_string :: "json option \<Rightarrow> string option" where
  "required_string v = Option.bind v as_str"

fun optional_string :: "json option \<Rightarrow> string option option" where
  "optional_string None = Some None"
| "optional_string (Some JNull) = Some None"
| "optional_string (Some (JString s)) = Some (Some s)"
| "optional_string (Some _) = None"

fun decode_ecosystem :: "json option \<Rightarrow> PackageEcosystem option" where
  "decode_ecosystem (Some (JString s)) = res_ok (ecosystem_from_str s)"
| "decode_ecosystem (Some (JObject [(s, JNull)])) = res_ok (ecosystem_from_str s)"
| "decode_ecosystem _ = None"

record StoredSbomFragmentComponent =
  fc_purl :: string
  fc_name :: string
  fc_ecosystem :: PackageEcosystem
  fc_version :: "string option"
  fc_namespace :: "string option"
  fc_integrity :: "string option"

definition decode_fragment_component :: "json \<Rightarrow> StoredSbomFragmentComponent option" where
  "decode_fragment_component v =
     (case struct_fields [''purl'', ''name'', ''ecosystem'', ''version'', ''namespace'', ''integrity''] v of
        Some [p, n, e, vs, ns, i] \<Rightarrow>
          Option.bind (required_string p) (\<lambda>purl. Option.bind (required_string n) (\<lambda>name.
          Option.bind (decode_ecosystem e) (\<lambda>ecosystem. Option.bind (optional_string vs) (\<lambda>version.
          Option.bind (optional_string ns) (\<lambda>namespace. map_option (\<lambda>integrity.
            \<lparr>fc_purl = purl, fc_name = name, fc_ecosystem = ecosystem, fc_version = version, fc_namespace = namespace,
             fc_integrity = integrity\<rparr>) (optional_string i))))))
      | _ \<Rightarrow> None)"

fun decode_all :: "('a \<Rightarrow> 'b option) \<Rightarrow> 'a list \<Rightarrow> 'b list option" where
  "decode_all f [] = Some []"
| "decode_all f (x # xs) = Option.bind (f x) (\<lambda>y. map_option (\<lambda>ys. y # ys) (decode_all f xs))"

definition decode_fragment :: "json \<Rightarrow> StoredSbomFragmentComponent list option" where
  "decode_fragment v =
     (case struct_fields [''components''] v of
        Some [Some (JArray items)] \<Rightarrow> decode_all decode_fragment_component items
      | _ \<Rightarrow> None)"

definition stored_fragment_components ::
  "sbom_env \<Rightarrow> json \<Rightarrow> string option \<Rightarrow> timestamp option \<Rightarrow> (SbomApiError, SbomComponentInput list) result" where
  "stored_fragment_components env fragment decision decided_at =
     res_map (map (\<lambda>c. \<lparr>sc_purl = fc_purl c, sc_name = fc_name c, sc_ecosystem = fc_ecosystem c,
         sc_version = fc_version c, sc_namespace = fc_namespace c, sc_integrity = fc_integrity c,
         sc_decision = unwrap_or ''unknown'' decision, sc_decision_timestamp = map_option (sv_rfc3339 env) decided_at\<rparr>))
       (ok_or (InvalidRequest (''stored SBOM fragment is invalid: '' @ sv_decode_error env fragment)) (decode_fragment fragment))"

section \<open>Components of a request\<close>

text \<open>The lateral join: the newest decision of the same tenant on the artifact of the fragment.\<close>

definition fragment_decision :: "SbomState \<Rightarrow> SbomFragmentRow \<Rightarrow> SbomDecisionRow option" where
  "fragment_decision s fragment =
     (case sort_key (\<lambda>d. - dr_decided_at d) (filter (\<lambda>d. dr_artifact_id d = Some (sf_artifact_id fragment)
         \<and> dr_tenant_id d = sf_tenant_id fragment) (ss_decisions s)) of
        [] \<Rightarrow> None
      | d # _ \<Rightarrow> Some d)"

definition job_fragments :: "SbomState \<Rightarrow> uuid \<Rightarrow> uuid option \<Rightarrow> SbomFragmentRow list" where
  "job_fragments s analysis_job_id tenant_id =
     sort_key sf_created_at (sort_key sf_id
       (filter (\<lambda>f. sf_analysis_job_id f = analysis_job_id \<and> is_none_or (\<lambda>t. sf_tenant_id f = t) tenant_id)
         (ss_fragments s)))"

fun collect_fragments :: "sbom_env \<Rightarrow> SbomState \<Rightarrow> SbomFragmentRow list \<Rightarrow> (SbomApiError, SbomComponentInput list) result" where
  "collect_fragments env s [] = Inr []"
| "collect_fragments env s (row # rows) =
     res_bind (stored_fragment_components env (sf_fragment row)
         (map_option dr_decision (fragment_decision s row)) (map_option dr_decided_at (fragment_decision s row))) (\<lambda>components.
       res_map (\<lambda>rest. components @ rest) (collect_fragments env s rows))"

definition load_analysis_job_components ::
  "sbom_env \<Rightarrow> SbomState \<Rightarrow> uuid \<Rightarrow> uuid option \<Rightarrow> (SbomApiError, ResolvedGenerateComponents) result" where
  "load_analysis_job_components env s analysis_job_id tenant_id =
     res_bind (db_query env (job_fragments s analysis_job_id tenant_id)) (\<lambda>rows.
       case rows of
         [] \<Rightarrow> Inl SbomNotFound
       | row # _ \<Rightarrow>
           res_map (\<lambda>components. \<lparr>rg_tenant_id = or_else tenant_id (Some (sf_tenant_id row)), rg_components = components\<rparr>)
             (collect_fragments env s rows))"

definition resolve_generate_components ::
  "sbom_env \<Rightarrow> SbomState \<Rightarrow> GenerateSbomRequest \<Rightarrow> (SbomApiError, ResolvedGenerateComponents) result" where
  "resolve_generate_components env s req =
     (if gs_components req \<noteq> [] then Inr \<lparr>rg_tenant_id = gs_tenant_id req, rg_components = gs_components req\<rparr>
      else res_bind (ok_or (InvalidRequest ''analysis_job_id is required when components are omitted'')
          (gs_analysis_job_id req)) (\<lambda>analysis_job_id.
        load_analysis_job_components env s analysis_job_id (gs_tenant_id req)))"

section \<open>Files\<close>

definition path_join :: "string \<Rightarrow> string \<Rightarrow> string" where
  "path_join dir component = (if dir = [] \<or> last dir = CHR ''/'' then dir @ component else dir @ ''/'' @ component)"

definition tenant_dir :: "sbom_env \<Rightarrow> uuid option \<Rightarrow> string" where
  "tenant_dir env tenant_id =
     path_join (sv_store_dir env) (case tenant_id of Some tid \<Rightarrow> sv_show_uuid env tid | None \<Rightarrow> ''untenanted'')"

definition sbom_path :: "sbom_env \<Rightarrow> uuid option \<Rightarrow> uuid \<Rightarrow> string" where
  "sbom_path env tenant_id i = path_join (tenant_dir env tenant_id) (sv_show_uuid env i @ ''.json'')"

definition file_storage_uri :: "sbom_env \<Rightarrow> SbomState \<Rightarrow> string \<Rightarrow> (SbomApiError, string) result" where
  "file_storage_uri env s path =
     (if ss_files s (sv_resolve env path) = None then Inl (SbomStorage ''canonicalize failed'')
      else Inr (''file://'' @ sv_resolve env path))"

definition write_sbom_to_store ::
  "sbom_env \<Rightarrow> uuid option \<Rightarrow> uuid \<Rightarrow> string \<Rightarrow> SbomState \<Rightarrow> (SbomApiError, string) result \<times> SbomState" where
  "write_sbom_to_store env tenant_id i bytes s =
     (if \<not> sv_create_dir_ok env (tenant_dir env tenant_id) then (Inl (SbomStorage ''create_dir_all failed''), s)
      else let file_path = sbom_path env tenant_id i in
        if \<not> sv_write_ok env file_path then (Inl (SbomStorage ''write failed''), s)
        else let s1 = s\<lparr>ss_files := (ss_files s)(sv_resolve env file_path \<mapsto> bytes)\<rparr> in
          (file_storage_uri env s1 file_path, s1))"

definition uri_to_path :: "string \<Rightarrow> (SbomApiError, string) result" where
  "uri_to_path uri = ok_or (SbomStorage ''unsupported URI scheme'') (strip_prefix ''file://'' uri)"

definition load_stored_sbom_bytes :: "sbom_env \<Rightarrow> SbomState \<Rightarrow> string \<Rightarrow> (SbomApiError, string) result" where
  "load_stored_sbom_bytes env s storage_uri =
     res_bind (uri_to_path storage_uri) (\<lambda>path. ok_or (SbomStorage ''read failed'') (ss_files s (sv_resolve env path)))"

definition load_stored_sbom_validation ::
  "sbom_env \<Rightarrow> SbomState \<Rightarrow> string \<Rightarrow> string \<Rightarrow> (SbomApiError, NtiaValidationResult) result" where
  "load_stored_sbom_validation env s format storage_uri =
     res_bind (load_stored_sbom_bytes env s storage_uri) (\<lambda>bytes.
     res_bind (ok_or SbomJson (sv_from_slice env bytes)) (\<lambda>document.
       Inr (validate_ntia_minimum_elements format document)))"

section \<open>Handlers\<close>

definition insert_document :: "sbom_env \<Rightarrow> SbomDocumentRow \<Rightarrow> SbomState \<Rightarrow> (SbomApiError, unit) result \<times> SbomState" where
  "insert_document env row s =
     (if \<not> sv_insert_ok env row \<or> sd_id row \<in> set (map sd_id (ss_documents s)) then (Inl SbomDatabase, s)
      else (Inr (), s\<lparr>ss_documents := ss_documents s @ [row]\<rparr>))"

text \<open>The identifiers drawn and the times read in one call: the identifier in the document and the time it
  carries, the identifier of the row and its time of creation.\<close>

record generate_draws =
  gd_document_id :: uuid
  gd_document_time :: timestamp
  gd_id :: uuid
  gd_now :: timestamp

definition checked_components :: "sbom_env \<Rightarrow> SbomState \<Rightarrow> GenerateSbomRequest \<Rightarrow> (SbomApiError, ResolvedGenerateComponents) result" where
  "checked_components env s req =
     res_bind (validate_generate_request req) (\<lambda>_.
     res_bind (resolve_generate_components env s req) (\<lambda>resolved.
     res_bind (validate_component_inputs (rg_components resolved)) (\<lambda>_.
       if length (rg_components resolved) > MAX_COMPONENT_COUNT
       then Inl (TooManyComponents (length (rg_components resolved))) else Inr resolved)))"

definition generate_sbom ::
  "sbom_env \<Rightarrow> generate_draws \<Rightarrow> GenerateSbomRequest \<Rightarrow> SbomState \<Rightarrow> (SbomApiError, GenerateSbomResponse) result \<times> SbomState" where
  "generate_sbom env draws req s =
     (case checked_components env s req of
        Inl e \<Rightarrow> (Inl e, s)
      | Inr resolved \<Rightarrow>
          let document = generate_document (sv_rfc3339 env (gd_document_time draws)) (sv_show_uuid env (gd_document_id draws))
                (sv_crate_version env) (gs_format req) (gs_source req) (rg_components resolved);
              ntia_validation = validate_ntia_minimum_elements (format_db_value (gs_format req)) document;
              bytes = sv_to_vec_pretty env document;
              sha256 = sv_hex_sha256 env bytes;
              component_count = length (rg_components resolved)
          in case write_sbom_to_store env (rg_tenant_id resolved) (gd_id draws) bytes s of
               (Inl e, s1) \<Rightarrow> (Inl e, s1)
             | (Inr storage_uri, s1) \<Rightarrow>
                 (case insert_document env \<lparr>sd_id = gd_id draws, sd_analysis_job_id = gs_analysis_job_id req,
                     sd_tenant_id = rg_tenant_id resolved, sd_source = gs_source req,
                     sd_format = format_db_value (gs_format req), sd_storage_uri = storage_uri, sd_storage_sha256 = sha256,
                     sd_storage_size_bytes = length bytes, sd_component_count = component_count,
                     sd_created_at = gd_now draws\<rparr> s1 of
                    (Inl e, s2) \<Rightarrow> (Inl e, s2)
                  | (Inr _, s2) \<Rightarrow>
                      (Inr \<lparr>gr_id = gd_id draws, gr_format = format_db_value (gs_format req), gr_source = gs_source req,
                         gr_component_count = component_count, gr_storage_uri = storage_uri, gr_storage_sha256 = sha256,
                         gr_storage_size_bytes = length bytes, gr_created_at = gd_now draws,
                         gr_ntia_validation = ntia_validation, gr_document = document\<rparr>, s2)))"

definition document_by_id :: "SbomState \<Rightarrow> uuid \<Rightarrow> SbomDocumentRow option" where
  "document_by_id s i = List.find (\<lambda>row. sd_id row = i) (ss_documents s)"

definition get_sbom :: "sbom_env \<Rightarrow> SbomState \<Rightarrow> uuid \<Rightarrow> (SbomApiError, string) result" where
  "get_sbom env s i =
     res_bind (db_query env (document_by_id s i)) (\<lambda>found.
     res_bind (ok_or SbomNotFound found) (\<lambda>row. load_stored_sbom_bytes env s (sd_storage_uri row)))"

definition unloadable :: NtiaValidationResult where
  "unloadable = \<lparr>nv_valid = False, nv_issues = [''stored SBOM document could not be loaded for NTIA validation'']\<rparr>"

definition ntia_validation_for_summary :: "sbom_env \<Rightarrow> SbomState \<Rightarrow> string \<Rightarrow> string \<Rightarrow> NtiaValidationResult" where
  "ntia_validation_for_summary env s format storage_uri =
     (case load_stored_sbom_validation env s format storage_uri of Inr validation \<Rightarrow> validation | Inl _ \<Rightarrow> unloadable)"

definition sbom_metadata_from_row :: "sbom_env \<Rightarrow> SbomState \<Rightarrow> SbomDocumentRow \<Rightarrow> SbomMetadata" where
  "sbom_metadata_from_row env s row =
     \<lparr>sm_row = row, sm_ntia_validation = ntia_validation_for_summary env s (sd_format row) (sd_storage_uri row)\<rparr>"

definition get_sbom_metadata :: "sbom_env \<Rightarrow> SbomState \<Rightarrow> uuid \<Rightarrow> (SbomApiError, SbomMetadata) result" where
  "get_sbom_metadata env s i =
     res_bind (db_query env (document_by_id s i)) (\<lambda>found.
       res_map (sbom_metadata_from_row env s) (ok_or SbomNotFound found))"

definition tenant_documents :: "SbomState \<Rightarrow> uuid \<Rightarrow> SbomDocumentRow list" where
  "tenant_documents s tenant_id =
     sort_key (\<lambda>row. - sd_created_at row) (filter (\<lambda>row. sd_tenant_id row = Some tenant_id) (ss_documents s))"

definition list_tenant_sboms :: "sbom_env \<Rightarrow> SbomState \<Rightarrow> uuid \<Rightarrow> nat option \<Rightarrow> (SbomApiError, SbomMetadata list) result" where
  "list_tenant_sboms env s tenant_id requested_limit =
     res_bind (resolve_sbom_list_limit requested_limit) (\<lambda>limit.
       res_map (map (sbom_metadata_from_row env s)) (db_query env (take limit (tenant_documents s tenant_id))))"

definition visible_ascii :: "char \<Rightarrow> bool" where
  "visible_ascii c = (32 \<le> (of_char c :: nat) \<and> (of_char c :: nat) < 127 \<or> (of_char c :: nat) = 9)"

definition get_tenant_sbom :: "sbom_env \<Rightarrow> SbomState \<Rightarrow> uuid \<Rightarrow> uuid \<Rightarrow> (SbomApiError, string \<times> string) result" where
  "get_tenant_sbom env s tenant_id i =
     res_bind (db_query env (List.find (\<lambda>row. sd_tenant_id row = Some tenant_id \<and> sd_id row = i) (ss_documents s))) (\<lambda>found.
     res_bind (ok_or SbomNotFound found) (\<lambda>row.
     res_bind (load_stored_sbom_bytes env s (sd_storage_uri row)) (\<lambda>bytes.
       let disposition = ''attachment; filename='' @ [CHR 0x22]
             @ sbom_download_filename (sv_show_uuid env) (sd_source row) (sd_format row) i @ [CHR 0x22]
       in if list_all visible_ascii disposition then Inr (disposition, bytes)
          else Inl (SbomStorage ''content disposition failed''))))"

section \<open>What is relied on\<close>

text \<open>Canonical paths resolve to themselves, the store holds no links between its files, and uuids are
  printed injectively, as visible characters without slash.\<close>

definition sane_env :: "sbom_env \<Rightarrow> bool" where
  "sane_env env \<longleftrightarrow>
     (\<forall>p. sv_resolve env (sv_resolve env p) = sv_resolve env p)
     \<and> (\<forall>t i t' i'. sv_resolve env (sbom_path env t i) = sv_resolve env (sbom_path env t' i')
          \<longrightarrow> sbom_path env t i = sbom_path env t' i')
     \<and> inj (sv_show_uuid env) \<and> (\<forall>u. CHR ''/'' \<notin> set (sv_show_uuid env u) \<and> list_all visible_ascii (sv_show_uuid env u))"

text \<open>The answers of the database and of the file system in one call.\<close>

definition with_answers ::
  "bool \<Rightarrow> (SbomDocumentRow \<Rightarrow> bool) \<Rightarrow> (string \<Rightarrow> bool) \<Rightarrow> (string \<Rightarrow> bool) \<Rightarrow> sbom_env \<Rightarrow> sbom_env" where
  "with_answers query accept create_dir write env =
     env\<lparr>sv_query_ok := query, sv_insert_ok := accept, sv_create_dir_ok := create_dir, sv_write_ok := write\<rparr>"

text \<open>Steps of the service beside those of the others: a call of generate, whatever database and file
  system answer, with an identifier that no row has, and a write of the other services to their tables.\<close>

inductive sbom_step :: "sbom_env \<Rightarrow> SbomState \<Rightarrow> SbomState \<Rightarrow> bool" for env where
  generate: "gd_id draws \<notin> set (map sd_id (ss_documents s)) \<Longrightarrow>
     sbom_step env s (snd (generate_sbom (with_answers q a d w env) draws req s))"
| others: "sbom_step env s (s\<lparr>ss_fragments := fragments, ss_decisions := decisions\<rparr>)"

definition row_ok :: "sbom_env \<Rightarrow> (string \<rightharpoonup> string) \<Rightarrow> SbomDocumentRow \<Rightarrow> bool" where
  "row_ok env files row =
     (let path = sv_resolve env (sbom_path env (sd_tenant_id row) (sd_id row)) in
      sd_storage_uri row = ''file://'' @ path \<and> sd_component_count row \<le> MAX_COMPONENT_COUNT
      \<and> is_some_and (\<lambda>bytes. sd_storage_sha256 row = sv_hex_sha256 env bytes
          \<and> sd_storage_size_bytes row = length bytes) (files path))"

definition store_ok :: "sbom_env \<Rightarrow> SbomState \<Rightarrow> bool" where
  "store_ok env s \<longleftrightarrow> distinct (map sd_id (ss_documents s)) \<and> list_all (row_ok env (ss_files s)) (ss_documents s)"

section \<open>The store\<close>

lemma last_segment: "CHR ''/'' \<notin> set x \<Longrightarrow> last (split_on CHR ''/'' (path_join dir x)) = x"
proof (cases "dir = []")
  case False
  assume "CHR ''/'' \<notin> set x"
  moreover from False obtain d e where "dir = d @ [e]" by (cases dir rule: rev_cases) auto
  ultimately show ?thesis
    using split_on_append_split [of "CHR ''/''" d x] split_on_append_split [of "CHR ''/''" dir x]
    by (simp add: path_join_def split_on_id)
qed (simp add: path_join_def split_on_id)

lemma sbom_path_inj:
  assumes "sane_env env" "sv_resolve env (sbom_path env t i) = sv_resolve env (sbom_path env t' i')"
  shows "i = i'"
proof -
  have "sbom_path env t i = sbom_path env t' i'" using assms by (simp add: sane_env_def)
  then have "last (split_on CHR ''/'' (sbom_path env t i)) = last (split_on CHR ''/'' (sbom_path env t' i'))" by simp
  moreover have "CHR ''/'' \<notin> set (sv_show_uuid env j @ ''.json'')" for j using assms(1) by (simp add: sane_env_def)
  ultimately have "sv_show_uuid env i = sv_show_uuid env i'" by (simp add: sbom_path_def last_segment)
  then show ?thesis using assms(1) by (simp add: sane_env_def inj_eq)
qed

lemma load_stored_uri: "load_stored_sbom_bytes env s (''file://'' @ p) = ok_or (SbomStorage ''read failed'') (ss_files s (sv_resolve env p))"
  by (simp add: load_stored_sbom_bytes_def uri_to_path_def)

text \<open>The document, the row and the response of a call that resolves its components.\<close>

definition drawn_document :: "sbom_env \<Rightarrow> generate_draws \<Rightarrow> GenerateSbomRequest \<Rightarrow> ResolvedGenerateComponents \<Rightarrow> json" where
  "drawn_document env draws req resolved =
     generate_document (sv_rfc3339 env (gd_document_time draws)) (sv_show_uuid env (gd_document_id draws))
       (sv_crate_version env) (gs_format req) (gs_source req) (rg_components resolved)"

definition drawn_path :: "sbom_env \<Rightarrow> generate_draws \<Rightarrow> ResolvedGenerateComponents \<Rightarrow> string" where
  "drawn_path env draws resolved = sv_resolve env (sbom_path env (rg_tenant_id resolved) (gd_id draws))"

definition drawn_row :: "sbom_env \<Rightarrow> generate_draws \<Rightarrow> GenerateSbomRequest \<Rightarrow> ResolvedGenerateComponents \<Rightarrow> SbomDocumentRow" where
  "drawn_row env draws req resolved =
     (let bytes = sv_to_vec_pretty env (drawn_document env draws req resolved) in
      \<lparr>sd_id = gd_id draws, sd_analysis_job_id = gs_analysis_job_id req, sd_tenant_id = rg_tenant_id resolved,
       sd_source = gs_source req, sd_format = format_db_value (gs_format req),
       sd_storage_uri = ''file://'' @ drawn_path env draws resolved, sd_storage_sha256 = sv_hex_sha256 env bytes,
       sd_storage_size_bytes = length bytes, sd_component_count = length (rg_components resolved),
       sd_created_at = gd_now draws\<rparr>)"

definition row_response :: "SbomDocumentRow \<Rightarrow> json \<Rightarrow> GenerateSbomResponse" where
  "row_response row document =
     \<lparr>gr_id = sd_id row, gr_format = sd_format row, gr_source = sd_source row, gr_component_count = sd_component_count row,
      gr_storage_uri = sd_storage_uri row, gr_storage_sha256 = sd_storage_sha256 row,
      gr_storage_size_bytes = sd_storage_size_bytes row, gr_created_at = sd_created_at row,
      gr_ntia_validation = validate_ntia_minimum_elements (sd_format row) document, gr_document = document\<rparr>"

definition with_file :: "string \<Rightarrow> string \<Rightarrow> SbomState \<Rightarrow> SbomState" where
  "with_file path bytes s = s\<lparr>ss_files := (ss_files s)(path \<mapsto> bytes)\<rparr>"

lemma with_file_simps [simp]:
  "ss_documents (with_file path bytes s) = ss_documents s" "ss_files (with_file path bytes s) = (ss_files s)(path \<mapsto> bytes)"
  by (simp_all add: with_file_def)

lemma generate_sbom_eq:
  "generate_sbom env draws req s =
     (case checked_components env s req of
        Inl e \<Rightarrow> (Inl e, s)
      | Inr resolved \<Rightarrow>
          let document = drawn_document env draws req resolved; row = drawn_row env draws req resolved;
              s1 = with_file (drawn_path env draws resolved) (sv_to_vec_pretty env document) s
          in if \<not> sv_create_dir_ok env (tenant_dir env (rg_tenant_id resolved)) then (Inl (SbomStorage ''create_dir_all failed''), s)
             else if \<not> sv_write_ok env (sbom_path env (rg_tenant_id resolved) (gd_id draws)) then (Inl (SbomStorage ''write failed''), s)
             else if \<not> sv_insert_ok env row \<or> gd_id draws \<in> set (map sd_id (ss_documents s)) then (Inl SbomDatabase, s1)
             else (Inr (row_response row document), s1\<lparr>ss_documents := ss_documents s @ [row]\<rparr>))"
  by (simp add: generate_sbom_def write_sbom_to_store_def insert_document_def file_storage_uri_def Let_def drawn_document_def
      drawn_path_def drawn_row_def row_response_def with_file_def split: sum.split)

text \<open>What one call of generate does to the state.\<close>

lemma generate_sbom_cases:
  assumes "generate_sbom env draws req s = (r, s')"
  obtains (unchanged) e where "r = Inl e" "s' = s"
  | (orphan) e resolved document where "r = Inl e"
      "s' = with_file (drawn_path env draws resolved) (sv_to_vec_pretty env document) s"
  | (stored) resolved document where "checked_components env s req = Inr resolved"
      "document = drawn_document env draws req resolved" "r = Inr (row_response (drawn_row env draws req resolved) document)"
      "gd_id draws \<notin> set (map sd_id (ss_documents s))"
      "s' = with_file (drawn_path env draws resolved) (sv_to_vec_pretty env document) s
         \<lparr>ss_documents := ss_documents s @ [drawn_row env draws req resolved]\<rparr>"
proof (cases "checked_components env s req")
  case (Inl e)
  with assms show thesis by (intro unchanged [of e]) (simp_all add: generate_sbom_eq)
next
  case (Inr resolved)
  let ?document = "drawn_document env draws req resolved" and ?row = "drawn_row env draws req resolved"
  note eq = assms [unfolded generate_sbom_eq Inr Let_def sum.case]
  consider (early) "\<not> sv_create_dir_ok env (tenant_dir env (rg_tenant_id resolved))
        \<or> \<not> sv_write_ok env (sbom_path env (rg_tenant_id resolved) (gd_id draws))"
    | (written) "sv_create_dir_ok env (tenant_dir env (rg_tenant_id resolved))"
        "sv_write_ok env (sbom_path env (rg_tenant_id resolved) (gd_id draws))"
    by blast
  then show thesis
  proof cases
    case early
    with eq have "s' = s" "\<exists>e. r = Inl e" by (auto split: if_splits)
    with unchanged show thesis by blast
  next
    case written
    show thesis
    proof (cases "\<not> sv_insert_ok env ?row \<or> gd_id draws \<in> set (map sd_id (ss_documents s))")
      case True
      with eq written show thesis by (intro orphan [of SbomDatabase resolved ?document]) (simp_all only: if_True if_False not_True_eq_False prod.inject)
    next
      case False
      with eq written Inr show thesis by (intro stored [of resolved ?document]) (simp_all only: if_True if_False not_True_eq_False prod.inject not_False_eq_True de_Morgan_disj not_not simp_thms)
    qed
  qed
qed

lemma drawn_row_simps [simp]: "sd_id (drawn_row env draws req resolved) = gd_id draws"
  "sd_tenant_id (drawn_row env draws req resolved) = rg_tenant_id resolved"
  by (simp_all add: drawn_row_def Let_def)

lemma checked_components_count: "checked_components env s req = Inr resolved \<Longrightarrow> length (rg_components resolved) \<le> MAX_COMPONENT_COUNT"
  by (auto simp: checked_components_def res_bind_eq_Inr split: if_splits)

text \<open>A file written under a fresh identifier leaves the rows of the others as they are.\<close>

lemma row_ok_other:
  assumes "sane_env env" "gd_id draws \<noteq> sd_id row" "row_ok env files row"
  shows "row_ok env (files(drawn_path env draws resolved \<mapsto> bytes)) row"
proof -
  have "sv_resolve env (sbom_path env (sd_tenant_id row) (sd_id row)) \<noteq> drawn_path env draws resolved"
    using sbom_path_inj [OF assms(1)] assms(2) unfolding drawn_path_def by metis
  with assms(3) show ?thesis by (simp add: row_ok_def Let_def)
qed

lemma rows_ok_other:
  assumes "sane_env env" "gd_id draws \<notin> set (map sd_id rows)" "list_all (row_ok env files) rows"
  shows "list_all (row_ok env (files(drawn_path env draws resolved \<mapsto> bytes))) rows"
  using assms(2,3) unfolding list_all_iff by (auto intro!: row_ok_other [OF assms(1)])

lemma generate_store_ok:
  assumes "sane_env env" "store_ok env s" "gd_id draws \<notin> set (map sd_id (ss_documents s))"
    and "generate_sbom env draws req s = (r, s')"
  shows "store_ok env s'"
proof -
  have rows: "list_all (row_ok env ((ss_files s)(drawn_path env draws resolved \<mapsto> bytes))) (ss_documents s)" for resolved bytes
    using assms(1-3) by (intro rows_ok_other) (simp_all add: store_ok_def)
  from assms(4) show ?thesis
  proof (cases rule: generate_sbom_cases)
    case (stored resolved document)
    then have "row_ok env (ss_files s') (drawn_row env draws req resolved)"
      using checked_components_count [OF stored(1)]
      by (simp add: row_ok_def drawn_row_def drawn_path_def Let_def is_some_and_def)
    with stored rows assms(2,3) show ?thesis by (simp add: store_ok_def)
  qed (use assms(2) rows in \<open>simp_all add: store_ok_def\<close>)
qed

lemma with_answers_simps [simp]:
  "sv_resolve (with_answers q a d w env) = sv_resolve env" "sbom_path (with_answers q a d w env) = sbom_path env"
  "sv_show_uuid (with_answers q a d w env) = sv_show_uuid env" "sv_hex_sha256 (with_answers q a d w env) = sv_hex_sha256 env"
  by (simp_all add: with_answers_def sbom_path_def tenant_dir_def fun_eq_iff split: option.split)

lemma with_answers_ok [simp]: "sane_env (with_answers q a d w env) = sane_env env"
  "row_ok (with_answers q a d w env) = row_ok env" "store_ok (with_answers q a d w env) = store_ok env"
proof -
  show "row_ok (with_answers q a d w env) = row_ok env" by (simp add: row_ok_def fun_eq_iff)
  then show "store_ok (with_answers q a d w env) = store_ok env" unfolding store_ok_def by metis
qed (simp add: sane_env_def)

lemma step_store_ok: "sbom_step env s s' \<Longrightarrow> sane_env env \<Longrightarrow> store_ok env s \<Longrightarrow> store_ok env s'"
proof (induction rule: sbom_step.induct)
  case (generate draws s q a d w req)
  then show ?case
    using generate_store_ok [of "with_answers q a d w env" s draws req] by (simp add: prod_eq_iff)
qed (simp add: store_ok_def)

lemma reach_store_ok: "(sbom_step env)\<^sup>*\<^sup>* s s' \<Longrightarrow> sane_env env \<Longrightarrow> store_ok env s \<Longrightarrow> store_ok env s'"
  by (induction rule: rtranclp_induct) (auto intro: step_store_ok)

section \<open>Downloads\<close>

lemma find_row:
  assumes "distinct (map sd_id rows)" "row \<in> set rows"
  shows "List.find (\<lambda>r. sd_id r = sd_id row) rows = Some row"
  using assms by (induction rows) force+

lemma find_new_row: "i \<notin> set (map sd_id rows) \<Longrightarrow> List.find (\<lambda>r. sd_id r = i) (rows @ [row]) = (if sd_id row = i then Some row else None)"
  by (induction rows) auto

text \<open>A call of generate that succeeds stores what it answers: the document can be fetched under its identifier,
  as the bytes that were printed, with the digest and the size of the response, and the metadata endpoint
  repeats the validation of the response when the printed document parses back.\<close>

lemma generate_then_fetch:
  assumes "generate_sbom env draws req s = (Inr resp, s')"
    and "\<forall>p. sv_resolve env (sv_resolve env p) = sv_resolve env p" "sv_query_ok env"
    and "sv_from_slice env (sv_to_vec_pretty env (gr_document resp)) = Some (gr_document resp)"
  shows "get_sbom env s' (gr_id resp) = Inr (sv_to_vec_pretty env (gr_document resp))
    \<and> gr_storage_sha256 resp = sv_hex_sha256 env (sv_to_vec_pretty env (gr_document resp))
    \<and> gr_storage_size_bytes resp = length (sv_to_vec_pretty env (gr_document resp))
    \<and> gr_component_count resp \<le> MAX_COMPONENT_COUNT
    \<and> res_map sm_ntia_validation (get_sbom_metadata env s' (gr_id resp)) = Inr (gr_ntia_validation resp)"
  using assms(1)
proof (cases rule: generate_sbom_cases)
  case (stored resolved document)
  let ?row = "drawn_row env draws req resolved"
  have resp: "resp = row_response ?row document" using stored(3) by simp
  have found: "document_by_id s' (gd_id draws) = Some ?row"
    using stored(4,5) by (simp add: document_by_id_def find_new_row)
  have bytes: "load_stored_sbom_bytes env s' (sd_storage_uri ?row) = Inr (sv_to_vec_pretty env document)"
    using stored(5) assms(2) by (simp add: drawn_row_def Let_def load_stored_uri [simplified] drawn_path_def)
  show ?thesis
    using found bytes assms(3,4) checked_components_count [OF stored(1)] stored(2)
    by (simp add: resp row_response_def get_sbom_def get_sbom_metadata_def db_query_def sbom_metadata_from_row_def
        ntia_validation_for_summary_def load_stored_sbom_validation_def)
      (simp add: drawn_row_def Let_def)
qed simp_all

text \<open>C17: From a store without documents, whatever calls are made and whatever the database and the file system
  answer to them, every document of the table can be fetched and has the digest and the size that the table records.\<close>

theorem stored_documents_intact:
  assumes "sane_env env" "ss_documents s0 = []" "(sbom_step env)\<^sup>*\<^sup>* s0 s" "row \<in> set (ss_documents s)" "sv_query_ok env"
  shows "case get_sbom env s (sd_id row) of
      Inl _ \<Rightarrow> False
    | Inr bytes \<Rightarrow> sv_hex_sha256 env bytes = sd_storage_sha256 row \<and> length bytes = sd_storage_size_bytes row"
proof -
  have ok: "store_ok env s" using reach_store_ok [OF assms(3,1)] assms(2) by (simp add: store_ok_def)
  then have "row_ok env (ss_files s) row" "document_by_id s (sd_id row) = Some row"
    using assms(4) by (auto simp: store_ok_def list_all_iff document_by_id_def find_row)
  with assms(1,5) show ?thesis
    by (auto simp: get_sbom_def db_query_def row_ok_def Let_def load_stored_uri [simplified] sane_env_def is_some_and_def
        split: option.splits)
qed

section \<open>Tenants\<close>

lemma find_filter: "List.find (\<lambda>x. P x \<and> Q x) xs = List.find Q (filter P xs)"
  by (induction xs) auto

text \<open>What a tenant can list and download does not depend on the documents of the other tenants nor on those
  without a tenant: states with the same files and the same documents of the tenant answer alike.\<close>

lemma tenant_endpoints_isolated:
  assumes "ss_files s' = ss_files s"
    and "filter (\<lambda>row. sd_tenant_id row = Some t) (ss_documents s') = filter (\<lambda>row. sd_tenant_id row = Some t) (ss_documents s)"
  shows "list_tenant_sboms env s' t limit = list_tenant_sboms env s t limit
    \<and> get_tenant_sbom env s' t i = get_tenant_sbom env s t i"
proof -
  have load: "load_stored_sbom_bytes env s' = load_stored_sbom_bytes env s"
    using assms(1) by (simp add: load_stored_sbom_bytes_def fun_eq_iff)
  have "sbom_metadata_from_row env s' = sbom_metadata_from_row env s"
    by (simp add: sbom_metadata_from_row_def ntia_validation_for_summary_def load_stored_sbom_validation_def load fun_eq_iff)
  moreover have "tenant_documents s' t = tenant_documents s t" using assms(2) by (simp add: tenant_documents_def)
  ultimately show ?thesis
    using assms(2) by (simp add: list_tenant_sboms_def get_tenant_sbom_def find_filter load)
qed

lemma sort_key_split:
  fixes f :: "'a \<Rightarrow> int"
  assumes "x \<in> set (take n (sort_key f xs))" "y \<in> set (drop n (sort_key f xs))"
  shows "f x \<le> f y"
proof -
  have "sorted (map f (take n (sort_key f xs) @ drop n (sort_key f xs)))" by simp
  then have "sorted (map f (take n (sort_key f xs)) @ map f (drop n (sort_key f xs)))" by (simp only: map_append)
  with assms show ?thesis by (auto simp: sorted_append)
qed

text \<open>The list endpoint refuses a limit of zero and answers otherwise with documents of the tenant only, newest
  first, at most fifty; with fewer than the limit nothing is left out, and what is left out is not newer than what is listed.\<close>

lemma list_tenant_sboms_newest:
  assumes "list_tenant_sboms env s t requested = Inr docs"
  shows "requested \<noteq> Some 0 \<and> length docs = min (min (case requested of None \<Rightarrow> 12 | Some n \<Rightarrow> n) 50) (length (tenant_documents s t))
    \<and> list_all (\<lambda>m. sm_row m \<in> set (ss_documents s) \<and> sd_tenant_id (sm_row m) = Some t) docs
    \<and> sorted (rev (map (\<lambda>m. sd_created_at (sm_row m)) docs))
    \<and> (\<forall>row m. row \<in> set (ss_documents s) \<longrightarrow> sd_tenant_id row = Some t \<longrightarrow> row \<notin> set (map sm_row docs) \<longrightarrow> m \<in> set docs
        \<longrightarrow> sd_created_at row \<le> sd_created_at (sm_row m))"
proof -
  obtain n where n: "resolve_sbom_list_limit requested = Inr n"
    and docs: "docs = map (sbom_metadata_from_row env s) (take n (tenant_documents s t))"
    using assms by (auto simp: list_tenant_sboms_def res_bind_eq_Inr db_query_def split: if_splits)
  have rows: "map sm_row docs = take n (tenant_documents s t)"
    by (simp add: docs o_def sbom_metadata_from_row_def)
  have limit: "requested \<noteq> Some 0" "n = min (case requested of None \<Rightarrow> 12 | Some n \<Rightarrow> n) 50"
    using n by (auto simp: resolve_sbom_list_limit_def DEFAULT_SBOM_LIST_LIMIT_def MAX_SBOM_LIST_LIMIT_def split: option.splits if_splits)
  have member: "row \<in> set (tenant_documents s t) \<longleftrightarrow> row \<in> set (ss_documents s) \<and> sd_tenant_id row = Some t" for row
    by (auto simp: tenant_documents_def)
  have listed: "sm_row m \<in> set (take n (tenant_documents s t))" if "m \<in> set docs" for m
    using that rows by (metis in_set_conv_nth length_map nth_map nth_mem)
  have sorted: "sorted (rev (map sd_created_at (map sm_row docs)))"
  proof -
    have "sorted (map (\<lambda>row. - sd_created_at row) (take n (tenant_documents s t)))"
      unfolding tenant_documents_def take_map [symmetric] by (intro sorted_wrt_take) simp
    then show ?thesis unfolding rows by (simp add: sorted_wrt_map sorted_wrt_rev)
  qed
  have omitted: "sd_created_at row \<le> sd_created_at (sm_row m)"
    if "row \<in> set (ss_documents s)" "sd_tenant_id row = Some t" "row \<notin> set (map sm_row docs)" "m \<in> set docs" for row m
  proof -
    have "row \<in> set (drop n (tenant_documents s t))"
      using that(1-3) member [of row] rows by (metis Un_iff append_take_drop_id set_append)
    with listed [OF that(4)] have "- sd_created_at (sm_row m) \<le> - sd_created_at row"
      unfolding tenant_documents_def by (rule sort_key_split)
    then show ?thesis by simp
  qed
  have all: "list_all (\<lambda>m. sm_row m \<in> set (ss_documents s) \<and> sd_tenant_id (sm_row m) = Some t) docs"
    using listed member by (auto simp: list_all_iff dest: in_set_takeD)
  have len: "length docs = min n (length (tenant_documents s t))" by (simp add: docs)
  show ?thesis using limit len all sorted omitted by (simp add: o_def)
qed

section \<open>Download names\<close>

lemma lower_visible: "is_ascii_alphanumeric c \<Longrightarrow> visible_ascii (ascii_lower_char c)"
  by (auto simp: is_ascii_alphanumeric_def is_ascii_uppercase_def is_ascii_lowercase_def is_ascii_digit_def visible_ascii_def of_char_lower)

lemma sanitize_visible: "list_all visible_ascii (sanitize_filename_component source)"
proof -
  have "list_all visible_ascii (sanitize_loop b source)" for b
    by (induction source arbitrary: b) (simp_all add: lower_visible visible_ascii_def [of "CHR ''-''"])
  then have "list_all visible_ascii (trim_matches CHR ''-'' (sanitize_loop False source))"
    using set_trim_matches unfolding list_all_iff by blast
  then show ?thesis by (simp add: sanitize_filename_component_def Let_def visible_ascii_def)
qed

lemma tenant_download_named:
  assumes "sane_env env" "sv_query_ok env"
  shows "get_tenant_sbom env s t i \<noteq> Inl (SbomStorage ''content disposition failed'')"
proof -
  have "list_all visible_ascii (''attachment; filename='' @ [CHR 0x22] @ sbom_download_filename (sv_show_uuid env) a b i @ [CHR 0x22])" for a b
    using assms(1) sanitize_visible by (simp add: sbom_download_filename_def sane_env_def) (simp add: visible_ascii_def)
  then show ?thesis
    by (auto simp: get_tenant_sbom_def Let_def load_stored_sbom_bytes_def uri_to_path_def ok_or_def db_query_def
        res_bind_def split: option.splits sum.splits if_splits)
qed

section \<open>Witnesses\<close>

definition demo_env :: sbom_env where
  "demo_env = \<lparr>sv_store_dir = ''/store'', sv_crate_version = ''0.1.0'', sv_show_uuid = (\<lambda>u. replicate (unat u) CHR ''a''),
     sv_rfc3339 = (\<lambda>_. ''2024-01-01T00:00:00Z''), sv_to_vec_pretty = (\<lambda>_. ''{}''), sv_from_slice = (\<lambda>_. None),
     sv_decode_error = (\<lambda>_. ''error''), sv_hex_sha256 = (\<lambda>_. ''digest''), sv_resolve = (\<lambda>p. p), sv_query_ok = True,
     sv_insert_ok = (\<lambda>_. True), sv_create_dir_ok = (\<lambda>_. True), sv_write_ok = (\<lambda>_. True)\<rparr>"

definition demo_request :: GenerateSbomRequest where
  "demo_request = \<lparr>gs_source = ''app'', gs_format = Spdx23, gs_components = [lodash_component], gs_analysis_job_id = None,
     gs_tenant_id = Some 7\<rparr>"

definition demo_draws :: generate_draws where
  "demo_draws = \<lparr>gd_document_id = 1, gd_document_time = 0, gd_id = 2, gd_now = 0\<rparr>"

definition demo_state :: SbomState where
  "demo_state = \<lparr>ss_documents = [], ss_fragments = [], ss_decisions = [], ss_files = Map.empty\<rparr>"

definition demo_resolved :: ResolvedGenerateComponents where
  "demo_resolved = \<lparr>rg_tenant_id = Some 7, rg_components = [lodash_component]\<rparr>"

text \<open>The environment with a reader that returns one document.\<close>

definition demo_reader :: sbom_env where
  "demo_reader = demo_env\<lparr>sv_from_slice := (\<lambda>_. Some (drawn_document demo_env demo_draws demo_request demo_resolved))\<rparr>"

lemma demo_sane: "sane_env demo_env"
  by (auto simp: sane_env_def demo_env_def inj_def visible_ascii_def list_all_iff)
    (metis length_replicate unsigned_word_eqI)

lemma demo_checked: "checked_components env s demo_request = Inr demo_resolved"
proof -
  have "\<not> blank ''app''" unfolding blank_def by (subst str_trim_id) (simp_all add: graphic_char_def)
  then show ?thesis
    using lodash_accepted
    by (simp add: checked_components_def demo_request_def demo_resolved_def validate_generate_request_def
        resolve_generate_components_def MAX_COMPONENT_COUNT_def reject_if_def)
qed

definition demo_stored :: SbomState where
  "demo_stored = snd (generate_sbom demo_env demo_draws demo_request demo_state)"

lemma demo_generate:
  "generate_sbom demo_env demo_draws demo_request demo_state
   = (Inr (row_response (drawn_row demo_env demo_draws demo_request demo_resolved)
        (drawn_document demo_env demo_draws demo_request demo_resolved)), demo_stored)"
  "ss_documents demo_stored = [drawn_row demo_env demo_draws demo_request demo_resolved]"
  by (simp_all add: demo_stored_def generate_sbom_eq demo_checked Let_def demo_env_def demo_state_def)

lemma demo_reach: "(sbom_step demo_env)\<^sup>*\<^sup>* demo_state demo_stored"
proof -
  have "with_answers True (\<lambda>_. True) (\<lambda>_. True) (\<lambda>_. True) demo_env = demo_env"
    by (simp add: with_answers_def demo_env_def)
  then have "sbom_step demo_env demo_state demo_stored"
    using sbom_step.generate [of demo_draws demo_state demo_env True "\<lambda>_. True" "\<lambda>_. True" "\<lambda>_. True" demo_request]
    by (simp add: demo_stored_def demo_state_def)
  then show ?thesis by blast
qed

theorem stored_documents_intact_witness:
  "get_sbom demo_env demo_stored 2 = Inr ''{}'' \<and>
   (case get_sbom demo_env demo_stored 2 of Inl _ \<Rightarrow> False | Inr bytes \<Rightarrow> length bytes = 2)"
proof -
  let ?row = "drawn_row demo_env demo_draws demo_request demo_resolved"
  have row: "sd_id ?row = 2" "sd_storage_size_bytes ?row = 2" "sd_storage_sha256 ?row = ''digest''"
    "sv_hex_sha256 demo_env bytes = ''digest''" for bytes
    by (simp_all add: drawn_row_def demo_draws_def demo_env_def Let_def)
  have "?row \<in> set (ss_documents demo_stored)" by (simp add: demo_generate)
  moreover have "sv_query_ok demo_env" "ss_documents demo_state = []" by (simp_all add: demo_env_def demo_state_def)
  ultimately have "case get_sbom demo_env demo_stored 2 of Inl _ \<Rightarrow> False | Inr bytes \<Rightarrow> length bytes = 2"
    using stored_documents_intact [OF demo_sane _ demo_reach, of ?row] by (simp only: row simp_thms)
  moreover have "get_sbom demo_env demo_stored 2 = Inr ''{}''"
    by (simp add: get_sbom_def db_query_def document_by_id_def demo_generate load_stored_sbom_bytes_def uri_to_path_def)
      (simp add: drawn_row_def demo_draws_def demo_env_def Let_def drawn_path_def demo_stored_def generate_sbom_eq demo_checked demo_state_def)
  ultimately show ?thesis by blast
qed

lemma generate_then_fetch_witness:
  "case generate_sbom demo_reader demo_draws demo_request demo_state of
     (Inl _, _) \<Rightarrow> False
   | (Inr resp, s') \<Rightarrow> get_sbom demo_reader s' (gr_id resp) = Inr ''{}'' \<and> gr_storage_size_bytes resp = 2"
proof -
  let ?document = "drawn_document demo_env demo_draws demo_request demo_resolved"
  have doc: "drawn_document demo_reader demo_draws demo_request demo_resolved = ?document"
    by (simp add: drawn_document_def demo_reader_def)
  obtain row s' where g: "generate_sbom demo_reader demo_draws demo_request demo_state = (Inr (row_response row ?document), s')"
    using doc by (simp add: generate_sbom_eq demo_checked Let_def demo_state_def) (simp add: demo_reader_def demo_env_def)
  have doc': "gr_document (row_response row ?document) = ?document" by (simp add: row_response_def)
  show ?thesis
    using generate_then_fetch [OF g] by (simp add: g doc') (simp add: demo_reader_def demo_env_def)
qed

definition demo_other :: SbomState where
  "demo_other = demo_stored\<lparr>ss_documents := ss_documents demo_stored
     @ [(drawn_row demo_env demo_draws demo_request demo_resolved)\<lparr>sd_id := 3, sd_tenant_id := Some 8\<rparr>]\<rparr>"

lemma tenant_endpoints_isolated_witness:
  "ss_documents demo_other \<noteq> ss_documents demo_stored
   \<and> list_tenant_sboms demo_env demo_other 7 None = list_tenant_sboms demo_env demo_stored 7 None
   \<and> get_tenant_sbom demo_env demo_other 7 3 = get_tenant_sbom demo_env demo_stored 7 3"
  using tenant_endpoints_isolated [of demo_other demo_stored 7 demo_env None 3] by (simp add: demo_other_def)

lemma list_tenant_sboms_newest_witness:
  "case list_tenant_sboms demo_env demo_stored 7 (Some 100) of
     Inl _ \<Rightarrow> False
   | Inr docs \<Rightarrow> length docs = 1 \<and> sorted (rev (map (\<lambda>m. sd_created_at (sm_row m)) docs))"
proof -
  have one: "tenant_documents demo_stored 7 = [drawn_row demo_env demo_draws demo_request demo_resolved]"
    by (simp add: tenant_documents_def demo_generate demo_resolved_def)
  obtain docs where "list_tenant_sboms demo_env demo_stored 7 (Some 100) = Inr docs"
    by (simp add: list_tenant_sboms_def resolve_sbom_list_limit_def db_query_def demo_env_def)
  then show ?thesis using list_tenant_sboms_newest [of demo_env demo_stored 7 "Some 100" docs] by (simp add: one)
qed

end
