(* ===== verification/Surgeon_Report.thy ===== *)
theory Surgeon_Report
  imports Directory_Scan Sbom_Service Registry_Config
begin

text \<open>
  What the Surgeon worker derives from a job and a report, the functions of \<^verbatim>\<open>services/surgeon/src/worker.rs\<close> without
  effects: the check of the source URL, the storage paths, the authorization header, the JSON of a report with its
  limit for storage in the table, the SBOM fragment of the package and the embedding of the indicators. Components of an embedding
  are sums of at most 512 signs and so exact in \<^verbatim>\<open>f32\<close>; they are integers here, and the library renders the quotient of
  each by the magnitude.
\<close>

section \<open>Data\<close>

definition MAX_INLINE_STATIC_REPORT_BYTES :: nat where
  "MAX_INLINE_STATIC_REPORT_BYTES = 64 * 1024"

definition STATIC_REPORT_EMBEDDING_DIMENSIONS :: nat where
  "STATIC_REPORT_EMBEDDING_DIMENSIONS = 1536"

definition STATIC_REPORT_EMBEDDING_MAX_TOKENS :: nat where
  "STATIC_REPORT_EMBEDDING_MAX_TOKENS = 512"

record ExternalizedStaticReport =
  xr_storage_uri :: string
  xr_sha256 :: string
  xr_size_bytes :: nat

record WorkerConfig =
  wc_database_url :: string
  wc_artifact_store_dir :: string
  wc_max_retries :: "16 word"
  wc_scan_limits :: ScanLimits
  wc_scan_timeout_secs :: nat

datatype RegistryAuthType = AuthNone | AuthBasic | AuthBearer | AuthMtls

record ClaimedJob =
  cj_job :: AnalysisJob
  cj_upstream_url :: string
  cj_auth_type :: RegistryAuthType
  cj_credential_env_var :: "string option"
  cj_verify_upstream_tls :: bool

text \<open>The libraries of the worker that compute.\<close>

record worker_lib =
  wl_parse_url :: "string \<Rightarrow> url option"
  wl_port_or_known_default :: "url \<Rightarrow> nat option"
  wl_path_segments :: "url \<Rightarrow> string list option"
  wl_from_file_path :: "string \<Rightarrow> string option"
  wl_env_var :: "string \<Rightarrow> string option"
  wl_base64 :: "string \<Rightarrow> string"
  wl_header_value :: "string \<Rightarrow> string option"
  wl_show_uuid :: "uuid \<Rightarrow> string"
  wl_sha256 :: "string \<Rightarrow> nat list"
  wl_hex :: "nat list \<Rightarrow> string"
  wl_to_vec :: "json \<Rightarrow> string option"
  wl_schema_errors :: "json \<Rightarrow> string list"
  wl_quotient :: "int \<Rightarrow> int \<Rightarrow> string"

definition hex_sha256 :: "worker_lib \<Rightarrow> string \<Rightarrow> string" where
  "hex_sha256 lib bytes = wl_hex lib (wl_sha256 lib bytes)"

section \<open>The source of an artifact\<close>

definition validate_source_url :: "worker_lib \<Rightarrow> string \<Rightarrow> string \<Rightarrow> (string, unit) result" where
  "validate_source_url lib upstream_url source_url =
     res_bind (ok_or ''invalid URL'' (wl_parse_url lib upstream_url)) (\<lambda>upstream.
     res_bind (ok_or ''invalid URL'' (wl_parse_url lib source_url)) (\<lambda>source.
       if url_scheme upstream \<noteq> url_scheme source \<or> url_host upstream \<noteq> url_host source
          \<or> wl_port_or_known_default lib upstream \<noteq> wl_port_or_known_default lib source
       then Inl ''analysis source URL escapes the configured upstream origin''
       else let upstream_path = trim_end_matches CHR ''/'' (url_path upstream) in
         if upstream_path \<noteq> [] \<and> upstream_path \<noteq> ''/''
            \<and> \<not> (url_path source = upstream_path \<or> starts_with (upstream_path @ ''/'') (url_path source))
         then Inl ''analysis source URL escapes the configured upstream path prefix''
         else Inr ()))"

definition registry_auth_type_from_db :: "string \<Rightarrow> (string, RegistryAuthType) result" where
  "registry_auth_type_from_db v =
     (if v = ''none'' then Inr AuthNone else if v = ''basic'' then Inr AuthBasic
      else if v = ''bearer'' then Inr AuthBearer else if v = ''mtls'' then Inr AuthMtls
      else Inl (''unsupported registry auth type '' @ v))"

definition upstream_authorization_value :: "worker_lib \<Rightarrow> ClaimedJob \<Rightarrow> (string, string option) result" where
  "upstream_authorization_value lib claimed =
     (case cj_credential_env_var claimed of
        None \<Rightarrow> Inr None
      | Some env_var \<Rightarrow>
          res_bind (ok_or (''missing configured credential environment variable '' @ env_var) (wl_env_var lib env_var)) (\<lambda>credential.
            case cj_auth_type claimed of
              AuthNone \<Rightarrow> Inr None
            | AuthBasic \<Rightarrow> res_map Some (ok_or ''invalid header value'' (wl_header_value lib (''Basic '' @ wl_base64 lib credential)))
            | AuthBearer \<Rightarrow> res_map Some (ok_or ''invalid header value'' (wl_header_value lib (''Bearer '' @ credential)))
            | AuthMtls \<Rightarrow> Inl ''mTLS upstream fetch is not yet supported by Surgeon''))"

definition source_file_name :: "worker_lib \<Rightarrow> url \<Rightarrow> string" where
  "source_file_name lib source =
     unwrap_or ''artifact.bin'' (Option.bind (wl_path_segments lib source)
       (\<lambda>segments. case rev (filter (\<lambda>segment. segment \<noteq> []) segments) of [] \<Rightarrow> None | segment # _ \<Rightarrow> Some segment))"

section \<open>Storage\<close>

definition artifact_storage_path :: "worker_lib \<Rightarrow> string \<Rightarrow> uuid \<Rightarrow> string \<Rightarrow> string \<Rightarrow> string" where
  "artifact_storage_path lib artifact_store_dir tenant_id digest file_name =
     (let extension = unwrap_or [] (map_option (\<lambda>ext. ''.'' @ ext) (extension_str file_name)) in
      path_push (path_push artifact_store_dir (wl_show_uuid lib tenant_id)) (digest @ extension))"

definition worker_storage_uri :: "worker_lib \<Rightarrow> string \<Rightarrow> (string, string) result" where
  "worker_storage_uri lib path = ok_or ''failed to convert artifact path to storage URI'' (wl_from_file_path lib path)"

definition static_report_storage_path :: "worker_lib \<Rightarrow> string \<Rightarrow> uuid \<Rightarrow> string \<Rightarrow> string" where
  "static_report_storage_path lib artifact_store_dir tenant_id digest =
     path_push (path_push (path_push artifact_store_dir (wl_show_uuid lib tenant_id)) ''static-reports'') (digest @ ''.json'')"

section \<open>The JSON of a report\<close>

definition severity_token :: "Severity \<Rightarrow> string" where
  "severity_token severity =
     (case severity of SevInfo \<Rightarrow> ''info'' | SevLow \<Rightarrow> ''low'' | SevMedium \<Rightarrow> ''medium'' | SevHigh \<Rightarrow> ''high'' | SevCritical \<Rightarrow> ''critical'')"

definition json_field_opt :: "string \<Rightarrow> string option \<Rightarrow> (string \<times> json) list" where
  "json_field_opt name v = (case v of None \<Rightarrow> [] | Some s \<Rightarrow> [(name, JString s)])"

definition indicator_details_json :: "IndicatorDetails \<Rightarrow> json" where
  "indicator_details_json d =
     JObject (json_field_opt ''destination'' (id_destination d) @ json_field_opt ''destination_encoding'' (id_destination_encoding d)
       @ json_field_opt ''destination_raw'' (id_destination_raw d) @ json_field_opt ''payload_hint'' (id_payload_hint d))"

definition static_indicator_json :: "StaticIndicator \<Rightarrow> json" where
  "static_indicator_json i =
     JObject ([(''indicator_type'', JString (si_indicator_type i)), (''severity'', JString (severity_token (si_severity i))),
       (''file_path'', JString (si_file_path i)), (''start_line'', JNumber (of_nat (unat (si_start_line i)))),
       (''end_line'', JNumber (of_nat (unat (si_end_line i)))), (''redacted'', JBool (si_redacted i)),
       (''summary'', JString (si_summary i))]
       @ (case si_details i of None \<Rightarrow> [] | Some d \<Rightarrow> [(''details'', indicator_details_json d)]))"

definition digest_json :: "ArtifactDigest \<Rightarrow> json" where
  "digest_json d = JObject [(''algorithm'', JString (case dg_algorithm d of Sha256 \<Rightarrow> ''sha256'')), (''hex'', JString (dg_hex d))]"

definition static_evidence_json :: "StaticEvidence \<Rightarrow> json" where
  "static_evidence_json e =
     JObject [(''artifact_digest'', digest_json (se_artifact_digest e)), (''analyzer_version'', JString (se_analyzer_version e)),
       (''rule_set_version'', JString (se_rule_set_version e)), (''indicators'', JArray (map static_indicator_json (se_indicators e)))]"

definition validated_static_report_json :: "worker_lib \<Rightarrow> StaticEvidence \<Rightarrow> (string, json) result" where
  "validated_static_report_json lib report =
     (let report_json = static_evidence_json report; messages = wl_schema_errors lib report_json in
      if messages = [] then Inr report_json
      else Inl (''static evidence report does not satisfy evidence.schema.json: '' @ str_join ''; '' messages))"

section \<open>The SBOM fragment\<close>

definition json_opt :: "string option \<Rightarrow> json" where
  "json_opt v = (case v of None \<Rightarrow> JNull | Some s \<Rightarrow> JString s)"

definition package_sbom_fragment_json :: "PackageCoordinate \<Rightarrow> ArtifactDigest \<Rightarrow> json" where
  "package_sbom_fragment_json coordinate artifact_digest =
     JObject [(''source'', JString ''surgeon-static-analysis''),
       (''components'', JArray [JObject [
          (''purl'', JString (purl coordinate)),
          (''name'', JString (pc_name coordinate)),
          (''ecosystem'', JString (ecosystem_display (pc_ecosystem coordinate))),
          (''version'', json_opt (pc_version coordinate)),
          (''namespace'', json_opt (pc_namespace coordinate)),
          (''integrity'', JString (''sha256:'' @ dg_hex artifact_digest))]]),
       (''dependency_edges'', JArray [])]"

section \<open>The embedding\<close>

text \<open>\<^verbatim>\<open>split\<close> at every character that is not an ASCII letter or digit. The bytes of other characters are split at one by one,
  which only adds empty tokens, and those are dropped.\<close>

fun split_tokens :: "string \<Rightarrow> string list" where
  "split_tokens [] = [[]]"
| "split_tokens (c # cs) =
     (if is_ascii_alphanumeric c then (case split_tokens cs of [] \<Rightarrow> [[c]] | t # ts \<Rightarrow> (c # t) # ts) else [] # split_tokens cs)"

definition embedding_tokens :: "string \<Rightarrow> string list" where
  "embedding_tokens text = filter (\<lambda>token. length token \<ge> 2) (map (\<lambda>raw. to_ascii_lowercase (str_trim raw)) (split_tokens text))"

definition static_indicator_embedding_tokens :: "StaticIndicator \<Rightarrow> string list" where
  "static_indicator_embedding_tokens i =
     embedding_tokens (si_indicator_type i) @ embedding_tokens (severity_token (si_severity i))
     @ embedding_tokens (si_file_path i) @ embedding_tokens (si_summary i) @ embedding_tokens (si_summary i)
     @ (case si_details i of
          None \<Rightarrow> []
        | Some d \<Rightarrow> concat (map embedding_tokens (List.map_filter id [id_destination d, id_destination_raw d, id_payload_hint d])))"

definition add_token :: "worker_lib \<Rightarrow> string \<Rightarrow> int list \<Rightarrow> int list" where
  "add_token lib token embedding =
     (let digest = wl_sha256 lib token;
          dimension = (256 * (digest ! 0) + digest ! 1) mod STATIC_REPORT_EMBEDDING_DIMENSIONS;
          sign = (if even (digest ! 2) then 1 else - 1)
      in embedding[dimension := embedding ! dimension + sign])"

text \<open>The inner and the outer loop, both of which end once the limit is reached.\<close>

fun add_tokens :: "worker_lib \<Rightarrow> string list \<Rightarrow> int list \<times> nat \<Rightarrow> int list \<times> nat" where
  "add_tokens lib [] acc = acc"
| "add_tokens lib (token # tokens) (embedding, token_count) =
     (let acc = (add_token lib token embedding, token_count + 1) in
      if snd acc \<ge> STATIC_REPORT_EMBEDDING_MAX_TOKENS then acc else add_tokens lib tokens acc)"

fun embed_indicators :: "worker_lib \<Rightarrow> StaticIndicator list \<Rightarrow> int list \<times> nat \<Rightarrow> int list \<times> nat" where
  "embed_indicators lib [] acc = acc"
| "embed_indicators lib (i # indicators) acc =
     (let acc1 = add_tokens lib (static_indicator_embedding_tokens i) acc in
      if snd acc1 \<ge> STATIC_REPORT_EMBEDDING_MAX_TOKENS then acc1 else embed_indicators lib indicators acc1)"

definition squared_magnitude :: "int list \<Rightarrow> int" where
  "squared_magnitude embedding = sum_list (map (\<lambda>v. v * v) embedding)"

definition vector_literal :: "string list \<Rightarrow> string" where
  "vector_literal components = ''['' @ str_join '','' components @ '']''"

definition static_report_embedding_literal :: "worker_lib \<Rightarrow> StaticEvidence \<Rightarrow> string option" where
  "static_report_embedding_literal lib report =
     (case embed_indicators lib (se_indicators report) (replicate STATIC_REPORT_EMBEDDING_DIMENSIONS 0, 0) of
        (embedding, token_count) \<Rightarrow>
          if token_count = 0 \<or> squared_magnitude embedding = 0 then None
          else Some (vector_literal (map (\<lambda>v. wl_quotient lib v (squared_magnitude embedding)) embedding)))"

section \<open>The source stays below the upstream\<close>

text \<open>The origin of the upstream and, segment by segment, its path.\<close>

definition below_upstream :: "worker_lib \<Rightarrow> url \<Rightarrow> url \<Rightarrow> bool" where
  "below_upstream lib upstream source =
     (url_scheme source = url_scheme upstream \<and> url_host source = url_host upstream
      \<and> wl_port_or_known_default lib source = wl_port_or_known_default lib upstream
      \<and> (let upstream_path = trim_end_matches CHR ''/'' (url_path upstream) in
         upstream_path = [] \<or> prefix (split_on CHR ''/'' upstream_path) (split_on CHR ''/'' (url_path source))))"

lemma split_prefix_iff:
  "prefix (split_on c p) (split_on c s) \<longleftrightarrow> s = p \<or> prefix (p @ [c]) s"
proof
  assume "prefix (split_on c p) (split_on c s)"
  then obtain rest where r: "split_on c s = split_on c p @ rest" by (auto simp: prefix_def)
  then have "s = str_join [c] (split_on c p @ rest)" by (metis join_split_on)
  moreover have "str_join [c] (xs @ rest) = str_join [c] xs @ c # str_join [c] rest" if "xs \<noteq> []" "rest \<noteq> []" for xs
    using that(1)
  proof (induction xs)
    case (Cons x xs)
    then show ?case using that(2) by (cases xs; cases rest) simp_all
  qed simp
  ultimately show "s = p \<or> prefix (p @ [c]) s"
    by (cases "rest = []") (auto simp: prefix_def)
next
  assume "s = p \<or> prefix (p @ [c]) s"
  then show "prefix (split_on c p) (split_on c s)"
    by (auto simp: prefix_def split_on_append_split)
qed

lemma validate_source_url_iff:
  "validate_source_url lib upstream_url source_url = Inr () \<longleftrightarrow>
     (\<exists>upstream source. wl_parse_url lib upstream_url = Some upstream \<and> wl_parse_url lib source_url = Some source
        \<and> below_upstream lib upstream source)"
proof -
  have "trim_end_matches CHR ''/'' p \<noteq> ''/''" for p using trim_end_matches_last [of "CHR ''/''" p] by auto
  then show ?thesis
    by (cases "wl_parse_url lib upstream_url"; cases "wl_parse_url lib source_url")
      (auto simp: validate_source_url_def below_upstream_def Let_def split_prefix_iff starts_with_iff)
qed

section \<open>The embedding stays small\<close>

lemma add_token_bounds:
  assumes "length embedding = STATIC_REPORT_EMBEDDING_DIMENSIONS"
  shows "length (add_token lib token embedding) = STATIC_REPORT_EMBEDDING_DIMENSIONS"
    and "sum_list (map abs (add_token lib token embedding)) \<le> sum_list (map abs embedding) + 1"
proof -
  have sum: "sum_list (map abs (xs[k := xs ! k + d])) \<le> sum_list (map abs xs) + abs d" if "k < length xs" for xs and k :: nat and d :: int
    using that by (induction xs arbitrary: k) (auto split: nat.splits)
  let ?d = "wl_sha256 lib token"
  let ?k = "(256 * (?d ! 0) + ?d ! 1) mod STATIC_REPORT_EMBEDDING_DIMENSIONS"
  have "?k < length embedding" using assms by (simp add: STATIC_REPORT_EMBEDDING_DIMENSIONS_def)
  from sum [OF this, of "if even (?d ! 2) then 1 else - 1"]
  show "sum_list (map abs (add_token lib token embedding)) \<le> sum_list (map abs embedding) + 1"
    by (simp add: add_token_def Let_def split: if_splits)
qed (use assms in \<open>simp add: add_token_def Let_def\<close>)

definition small_embedding :: "int list \<times> nat \<Rightarrow> bool" where
  "small_embedding acc \<longleftrightarrow> length (fst acc) = STATIC_REPORT_EMBEDDING_DIMENSIONS
     \<and> sum_list (map abs (fst acc)) \<le> int (snd acc) \<and> snd acc \<le> STATIC_REPORT_EMBEDDING_MAX_TOKENS"

lemma add_tokens_small:
  "small_embedding acc \<Longrightarrow> snd acc < STATIC_REPORT_EMBEDDING_MAX_TOKENS \<Longrightarrow> small_embedding (add_tokens lib tokens acc)"
proof (induction lib tokens acc rule: add_tokens.induct)
  case (2 lib token tokens embedding token_count)
  have "small_embedding (add_token lib token embedding, token_count + 1)"
    using 2(2,3) add_token_bounds [of embedding lib token] by (auto simp: small_embedding_def)
  then show ?case using 2(1) by (simp add: Let_def)
qed simp

lemma embed_indicators_small:
  "small_embedding acc \<Longrightarrow> snd acc < STATIC_REPORT_EMBEDDING_MAX_TOKENS \<Longrightarrow> small_embedding (embed_indicators lib indicators acc)"
proof (induction lib indicators acc rule: embed_indicators.induct)
  case (2 lib i indicators acc)
  have "small_embedding (add_tokens lib (static_indicator_embedding_tokens i) acc)" using 2(2,3) by (rule add_tokens_small)
  then show ?case using 2(1) by (simp add: Let_def)
qed simp

text \<open>C24: The embedding of a report that the worker stores has exactly the 1536 components of the database column, and each
  is the quotient of an integer by the magnitude, where the absolute values of the integers sum up to at most
  512, the limit on the tokens: sums and squares are exact in single precision, and there is no division by zero.\<close>

theorem embedding_bounds:
  assumes "static_report_embedding_literal lib report = Some literal"
  shows "\<exists>counts. literal = vector_literal (map (\<lambda>v. wl_quotient lib v (squared_magnitude counts)) counts)
    \<and> length counts = 1536 \<and> sum_list (map abs counts) \<le> 512 \<and> 0 < squared_magnitude counts \<and> squared_magnitude counts \<le> 512 * 512"
proof -
  obtain counts n where e: "embed_indicators lib (se_indicators report) (replicate STATIC_REPORT_EMBEDDING_DIMENSIONS 0, 0) = (counts, n)"
    by (metis surj_pair)
  have zero: "sum_list (map abs (replicate k (0::int))) = 0" for k by (induction k) simp_all
  have "small_embedding (replicate STATIC_REPORT_EMBEDDING_DIMENSIONS 0, 0)" by (simp add: small_embedding_def zero del: map_replicate)
  then have small: "small_embedding (counts, n)"
    using embed_indicators_small [of "(replicate STATIC_REPORT_EMBEDDING_DIMENSIONS 0, 0)" lib "se_indicators report"] e
    by (simp add: STATIC_REPORT_EMBEDDING_MAX_TOKENS_def)
  have nonneg: "0 \<le> sum_list (map abs xs)" for xs :: "int list" by (induction xs) auto
  have square: "0 \<le> squared_magnitude xs \<and> squared_magnitude xs \<le> sum_list (map abs xs) * sum_list (map abs xs)" for xs
  proof (induction xs)
    case (Cons x xs)
    have "x * x + squared_magnitude xs \<le> abs x * abs x + sum_list (map abs xs) * sum_list (map abs xs)" using Cons by (simp add: abs_mult_self_eq)
    also have "\<dots> \<le> (abs x + sum_list (map abs xs)) * (abs x + sum_list (map abs xs))"
      using nonneg [of xs] by (simp add: algebra_simps)
    finally show ?case using Cons by (simp add: squared_magnitude_def)
  qed (simp add: squared_magnitude_def)
  have bound: "sum_list (map abs counts) \<le> 512" "length counts = 1536"
    using small by (auto simp: small_embedding_def STATIC_REPORT_EMBEDDING_MAX_TOKENS_def STATIC_REPORT_EMBEDDING_DIMENSIONS_def)
  then have "sum_list (map abs counts) * sum_list (map abs counts) \<le> 512 * 512" using nonneg [of counts] by (intro mult_mono) auto
  with square [of counts] bound assms e show ?thesis
    by (intro exI [of _ counts]) (auto simp: static_report_embedding_literal_def split: if_splits)
qed

section \<open>The fragment is what the SBOM service reads\<close>

definition fragment_component :: "sbom_env \<Rightarrow> PackageCoordinate \<Rightarrow> ArtifactDigest \<Rightarrow> string option \<Rightarrow> timestamp option \<Rightarrow> SbomComponentInput" where
  "fragment_component env c d decision decided_at =
     \<lparr>sc_purl = purl c, sc_name = pc_name c, sc_ecosystem = pc_ecosystem c, sc_version = pc_version c, sc_namespace = pc_namespace c,
      sc_integrity = Some (''sha256:'' @ dg_hex d), sc_decision = unwrap_or ''unknown'' decision,
      sc_decision_timestamp = map_option (sv_rfc3339 env) decided_at\<rparr>"

lemma optional_string_json_opt [simp]: "optional_string (Some (json_opt v)) = Some v"
  by (cases v) (simp_all add: json_opt_def)

lemma stored_fragment_of_package:
  "stored_fragment_components env (package_sbom_fragment_json c d) decision decided_at = Inr [fragment_component env c d decision decided_at]"
  by (simp add: stored_fragment_components_def package_sbom_fragment_json_def decode_fragment_def decode_fragment_component_def
      required_string_def as_str_def ecosystem_from_str_display fragment_component_def)

lemma graphic_not_blank: "s \<noteq> [] \<Longrightarrow> list_all graphic_char s \<Longrightarrow> \<not> blank s"
  by (simp add: blank_def graphic_trim)

lemma fragment_component_ok:
  assumes "purl_clean c" "is_none_or (\<lambda>w. \<not> blank w) decision" "\<And>t. \<not> blank (sv_rfc3339 env t)"
  shows "component_ok (fragment_component env c d decision decided_at) \<longleftrightarrow> \<not> (scoped c \<and> pc_version c = None)"
proof (cases "scoped c \<and> pc_version c = None")
  case True
  then show ?thesis using purl_parses_back [OF assms(1)] by (simp add: component_ok_def fragment_component_def)
next
  case False
  have "\<not> blank (pc_name c)"
    using clean_name(1,2) [OF assms(1)] free_of_graphic graphic_not_blank by blast
  moreover have "is_none_or (\<lambda>ns. \<not> blank ns) (pc_namespace c)"
    using clean_namespace(1,2) [OF assms(1)] free_of_graphic graphic_not_blank by (cases "pc_namespace c") auto
  moreover have "is_none_or (\<lambda>v. \<not> blank v) (pc_version c)"
    using clean_version(1,2) [OF assms(1)] free_of_graphic graphic_not_blank by (cases "pc_version c") auto
  moreover have "\<not> blank ''unknown''"
    by (rule graphic_not_blank) (simp_all add: graphic_char_def)
  moreover have "parse_component_purl (purl c) = Inr \<lparr>pp_ecosystem = pc_ecosystem c, pp_namespace = pc_namespace c, pp_name = pc_name c,
            pp_version = pc_version c\<rparr>"
    using purl_parses_back [OF assms(1)] False by auto
  ultimately show ?thesis using False assms(2,3)
    by (cases decision; cases decided_at; cases "pc_namespace c"; cases "pc_version c") (simp_all add: component_ok_def fragment_component_def)
qed

section \<open>A concrete embedding\<close>

definition demo_url :: url where
  "demo_url = \<lparr>url_scheme = ''https'', url_username = [], url_password = None, url_host = Some ''r.example'', url_port = None,
     url_path = ''/lodash.tgz'', url_query = None, url_fragment = None\<rparr>"

definition demo_worker_lib :: worker_lib where
  "demo_worker_lib = \<lparr>wl_parse_url = (\<lambda>text. Some (if text = ''https://r.example'' then demo_url\<lparr>url_path := ''/''\<rparr> else demo_url)),
     wl_port_or_known_default = (\<lambda>_. Some 443), wl_path_segments = (\<lambda>u. Some (split_on CHR ''/'' (url_path u))), wl_from_file_path = (\<lambda>p. Some (''file://'' @ p)),
     wl_env_var = (\<lambda>_. None), wl_base64 = (\<lambda>x. x), wl_header_value = Some, wl_show_uuid = (\<lambda>_. ''u''), wl_sha256 = (\<lambda>_. [0, 0, 0]),
     wl_hex = (\<lambda>_. ''00''), wl_to_vec = (\<lambda>_. Some []), wl_schema_errors = (\<lambda>_. []), wl_quotient = (\<lambda>_ _. ''0'')\<rparr>"

definition demo_report :: StaticEvidence where
  "demo_report = \<lparr>se_artifact_digest = sample_digest, se_analyzer_version = ''1'', se_rule_set_version = ''1'',
     se_indicators = [\<lparr>si_indicator_type = [], si_severity = SevLow, si_file_path = [], si_start_line = 1, si_end_line = 1, si_redacted = True,
       si_summary = [], si_details = None\<rparr>]\<rparr>"

lemma squared_magnitude_Cons: "squared_magnitude (x # xs) = x * x + squared_magnitude xs"
  by (simp add: squared_magnitude_def)

lemma squared_magnitude_nonneg: "0 \<le> squared_magnitude xs"
  by (induction xs) (simp_all add: squared_magnitude_Cons, simp add: squared_magnitude_def)

lemma squared_magnitude_0: "squared_magnitude xs = 0 \<Longrightarrow> x \<in> set xs \<Longrightarrow> x = 0"
proof (induction xs)
  case (Cons y ys)
  have "0 \<le> y * y" by simp
  then have "y * y = 0 \<and> squared_magnitude ys = 0"
    using Cons.prems(1) squared_magnitude_nonneg [of ys] unfolding squared_magnitude_Cons by linarith
  then show ?case using Cons by auto
qed simp

lemma demo_tokens: "static_indicator_embedding_tokens (hd (se_indicators demo_report)) = [''low'']"
proof -
  have "str_trim ''low'' = ''low''" by (rule str_trim_id) (simp_all add: graphic_char_def)
  moreover have "split_tokens ''low'' = [''low'']" by code_simp
  moreover have "to_ascii_lowercase ''low'' = ''low''" by code_simp
  ultimately have "embedding_tokens ''low'' = [''low'']" by (simp add: embedding_tokens_def)
  moreover have "str_trim [] = []" by code_simp
  then have "embedding_tokens [] = []" by (simp add: embedding_tokens_def to_ascii_lowercase_def)
  ultimately show ?thesis by (simp add: static_indicator_embedding_tokens_def demo_report_def severity_token_def)
qed

theorem embedding_bounds_witness:
  "\<exists>counts literal. static_report_embedding_literal demo_worker_lib demo_report = Some literal
     \<and> length counts = 1536 \<and> sum_list (map abs counts) \<le> 512 \<and> 0 < squared_magnitude counts"
proof -
  let ?zero = "replicate STATIC_REPORT_EMBEDDING_DIMENSIONS (0 :: int)"
  have len: "0 < length ?zero" by (simp add: STATIC_REPORT_EMBEDDING_DIMENSIONS_def)
  have "add_token demo_worker_lib ''low'' ?zero = ?zero[0 := 1]"
    using len by (simp add: add_token_def demo_worker_lib_def Let_def)
  then have "embed_indicators demo_worker_lib (se_indicators demo_report) (?zero, 0) = (?zero[0 := 1], 1)"
    using demo_tokens by (simp add: demo_report_def STATIC_REPORT_EMBEDDING_MAX_TOKENS_def Let_def)
  moreover have "squared_magnitude (?zero[0 := 1]) \<noteq> 0"
    using squared_magnitude_0 [of "?zero[0 := 1]" 1] len set_update_memI [of 0 ?zero 1] by auto
  ultimately obtain literal where "static_report_embedding_literal demo_worker_lib demo_report = Some literal"
    by (simp add: static_report_embedding_literal_def)
  then show ?thesis using embedding_bounds [of demo_worker_lib demo_report literal] by blast
qed

end
