(* ===== verification/Surgeon_Worker.thy ===== *)
theory Surgeon_Worker
  imports Surgeon_Report
begin

text \<open>
  The analysis worker of the Surgeon, \<^verbatim>\<open>services/surgeon/src/worker.rs\<close>: a queued job is claimed, its artifact fetched, stored,
  scanned and reported, and the job handed to the sandbox, put back into the queue or given up. The state has the tables
  that the queries touch, the files of the artifact store, the requests sent and the number of statements so far. Each statement, by
  its number, is answered, refused, or executed although its answer is lost, so that every failure of the
  database in between is covered. A transaction that does not commit leaves the tables as they were.
\<close>

section \<open>Tables\<close>

record JobRow =
  jr_id :: uuid
  jr_tenant_id :: uuid
  jr_registry_config_id :: "uuid option"
  jr_policy_version_id :: uuid
  jr_ecosystem :: string
  jr_namespace :: "string option"
  jr_package_name :: string
  jr_package_version :: "string option"
  jr_artifact_sha256 :: string
  jr_source_url :: "string option"
  jr_state :: JobState
  jr_retry_count :: int
  jr_trace_id :: string
  jr_artifact_id :: "uuid option"
  jr_created_at :: timestamp
  jr_updated_at :: timestamp

record RegistryRow =
  rr_id :: uuid
  rr_tenant_id :: uuid
  rr_upstream_url :: string
  rr_auth_type :: string
  rr_verify_upstream_tls :: bool
  rr_credential_ref :: "uuid option"
  rr_enabled :: bool
  rr_deleted_at :: "timestamp option"

record CredentialRow =
  cr_id :: uuid
  cr_tenant_id :: uuid
  cr_name :: string

record ArtifactRow =
  ar_id :: uuid
  ar_tenant_id :: uuid
  ar_ecosystem :: string
  ar_namespace :: "string option"
  ar_package_name :: string
  ar_package_version :: "string option"
  ar_sha256 :: string
  ar_size_bytes :: nat
  ar_storage_uri :: string

record ArtifactFileRow =
  af_artifact_id :: uuid
  af_entry :: ArtifactFileManifestEntry

record StaticReportRow =
  sr_analysis_job_id :: uuid
  sr_artifact_id :: uuid
  sr_policy_version_id :: uuid
  sr_embedding :: "string option"
  sr_report :: json
  sr_external :: "ExternalizedStaticReport option"

record AuditRow =
  au_tenant_id :: uuid
  au_actor :: string
  au_action :: string
  au_resource :: string
  au_trace_id :: string
  au_metadata :: json

record worker_db =
  wd_jobs :: "JobRow list"
  wd_registries :: "RegistryRow list"
  wd_credentials :: "CredentialRow list"
  wd_artifacts :: "ArtifactRow list"
  wd_artifact_files :: "ArtifactFileRow list"
  wd_reports :: "StaticReportRow list"
  wd_fragments :: "SbomFragmentRow list"
  wd_audit :: "AuditRow list"

text \<open>A request has its URL, its authorization and whether invalid certificates are accepted.\<close>

record worker_state =
  ws_db :: worker_db
  ws_files :: "string \<rightharpoonup> string"
  ws_requests :: "(url \<times> string option \<times> bool) list"
  ws_statements :: nat

datatype db_answer = Answered | Refused | AnswerLost

datatype scan_end = ScanFinished | ScanPanicked | ScanElapsed

record worker_env =
  we_lib :: worker_lib
  we_answer :: "nat \<Rightarrow> db_answer"
  we_now :: "nat \<Rightarrow> timestamp"
  we_fresh :: "nat \<Rightarrow> uuid"
  we_locked :: "uuid \<Rightarrow> bool"
  we_http :: "url \<times> string option \<times> bool \<Rightarrow> (string, nat \<times> (string, string) result) result"
  we_create_dir_all :: "string \<Rightarrow> string option"
  we_write :: "string \<Rightarrow> string \<Rightarrow> (string \<times> nat) option"
  we_tempdir :: "(string, string) result"
  we_scan_lib :: scan_lib
  we_unpack_env :: unpack_env
  we_scan_end :: scan_end

section \<open>Steps\<close>

type_synonym 'a worker = "worker_state \<Rightarrow> (string, 'a) result \<times> worker_state"

definition wlift :: "(string, 'a) result \<Rightarrow> 'a worker" where
  "wlift r s = (r, s)"

definition wbind :: "'a worker \<Rightarrow> ('a \<Rightarrow> 'b worker) \<Rightarrow> 'b worker" where
  "wbind step f s = (case step s of (Inl e, s1) \<Rightarrow> (Inl e, s1) | (Inr a, s1) \<Rightarrow> f a s1)"

text \<open>One statement: what it does to the tables depends on its number through the clock and the identifiers drawn.\<close>

definition statement :: "worker_env \<Rightarrow> (nat \<Rightarrow> worker_db \<Rightarrow> (string, 'a \<times> worker_db) result) \<Rightarrow> 'a worker" where
  "statement env query s =
     (let n = ws_statements s; s1 = s\<lparr>ws_statements := n + 1\<rparr> in
      if we_answer env n = Refused then (Inl ''database error'', s1)
      else case query n (ws_db s) of
          Inl e \<Rightarrow> (Inl e, s1)
        | Inr (a, db) \<Rightarrow> ((if we_answer env n = AnswerLost then Inl ''database error'' else Inr a), s1\<lparr>ws_db := db\<rparr>))"

definition transaction :: "worker_env \<Rightarrow> 'a worker \<Rightarrow> 'a worker" where
  "transaction env body s =
     wbind (statement env (\<lambda>_ db. Inr ((), db))) (\<lambda>_ s0.
       case body s0 of
         (Inl e, s1) \<Rightarrow> (Inl e, s1\<lparr>ws_db := ws_db s0\<rparr>)
       | (Inr a, s1) \<Rightarrow>
           let n = ws_statements s1; s2 = s1\<lparr>ws_statements := n + 1\<rparr> in
           case we_answer env n of
             Answered \<Rightarrow> (Inr a, s2)
           | AnswerLost \<Rightarrow> (Inl ''database error'', s2)
           | Refused \<Rightarrow> (Inl ''database error'', s2\<lparr>ws_db := ws_db s0\<rparr>)) s"

text \<open>A file that cannot be written to its end keeps what was written.\<close>

definition write_file :: "worker_env \<Rightarrow> string \<Rightarrow> string \<Rightarrow> unit worker" where
  "write_file env path bytes s =
     (case we_write env path bytes of
        None \<Rightarrow> (Inr (), s\<lparr>ws_files := (ws_files s)(path \<mapsto> bytes)\<rparr>)
      | Some (e, done_bytes) \<Rightarrow> (Inl e, s\<lparr>ws_files := (ws_files s)(path \<mapsto> take done_bytes bytes)\<rparr>))"

definition create_parent :: "worker_env \<Rightarrow> string \<Rightarrow> unit worker" where
  "create_parent env path =
     wlift (case Option.bind (path_parent path) (we_create_dir_all env) of Some e \<Rightarrow> Inl e | None \<Rightarrow> Inr ())"

section \<open>Claiming\<close>

text \<open>The power is cast to a 32-bit integer before the minimum is taken.\<close>

definition backoff_secs :: "int \<Rightarrow> int option" where
  "backoff_secs retry_count =
     (let power = 2 ^ nat (max (retry_count - 1) 0) in if power \<ge> 2 ^ 31 then None else Some (min 300 power))"

definition claimable :: "worker_env \<Rightarrow> JobRow \<Rightarrow> bool" where
  "claimable env row =
     (jr_state row = Queued \<and> jr_registry_config_id row \<noteq> None \<and> jr_source_url row \<noteq> None \<and> \<not> we_locked env (jr_id row))"

definition due :: "timestamp \<Rightarrow> JobRow \<Rightarrow> bool" where
  "due now row =
     (jr_retry_count row = 0
      \<or> is_some_and (\<lambda>secs. jr_updated_at row \<le> now - secs * 1000000000) (backoff_secs (jr_retry_count row)))"

definition claim_query :: "worker_env \<Rightarrow> nat \<Rightarrow> worker_db \<Rightarrow> (string, JobRow option \<times> worker_db) result" where
  "claim_query env n db =
     (let candidates = filter (claimable env) (wd_jobs db) in
      if list_ex (\<lambda>row. jr_retry_count row \<noteq> 0 \<and> backoff_secs (jr_retry_count row) = None) candidates
      then Inl ''integer out of range''
      else case sort_key jr_created_at (filter (due (we_now env n)) candidates) of
          [] \<Rightarrow> Inr (None, db)
        | row # _ \<Rightarrow>
            let claim = (\<lambda>r. if jr_id r = jr_id row then r\<lparr>jr_state := Fetching, jr_updated_at := we_now env n\<rparr> else r)
            in Inr (Some (claim row), db\<lparr>wd_jobs := map claim (wd_jobs db)\<rparr>))"

definition registry_query :: "uuid \<Rightarrow> uuid \<Rightarrow> worker_db \<Rightarrow> (string, (RegistryRow \<times> string option) \<times> worker_db) result" where
  "registry_query tenant_id registry_config_id db =
     (case List.find (\<lambda>r. rr_tenant_id r = tenant_id \<and> rr_id r = registry_config_id \<and> rr_enabled r \<and> rr_deleted_at r = None) (wd_registries db) of
        None \<Rightarrow> Inl ''no rows returned by a query that expected to return at least one row''
      | Some r \<Rightarrow>
          Inr ((r, Option.bind (rr_credential_ref r)
                 (\<lambda>i. map_option cr_name (List.find (\<lambda>c. cr_tenant_id c = rr_tenant_id r \<and> cr_id c = i) (wd_credentials db)))), db))"

definition claim_next_job :: "worker_env \<Rightarrow> ClaimedJob option worker" where
  "claim_next_job env =
     wbind (statement env (claim_query env)) (\<lambda>claimed.
       case claimed of
         None \<Rightarrow> wlift (Inr None)
       | Some row \<Rightarrow>
           wbind (wlift (ok_or ''unexpected null'' (jr_registry_config_id row))) (\<lambda>registry_config_id.
           wbind (wlift (ok_or ''unexpected null'' (jr_source_url row))) (\<lambda>source_url.
           wbind (wlift (map_err (\<lambda>_. ''unknown ecosystem'') (ecosystem_from_str (jr_ecosystem row)))) (\<lambda>ecosystem.
           wbind (wlift (map_err (\<lambda>_. ''invalid digest'') (digest_sha256 (jr_artifact_sha256 row)))) (\<lambda>artifact_digest.
           wbind (statement env (\<lambda>_. registry_query (jr_tenant_id row) registry_config_id)) (\<lambda>(registry, credential_env_var).
           wbind (wlift (registry_auth_type_from_db (rr_auth_type registry))) (\<lambda>auth_type.
             wlift (Inr (Some
               \<lparr>cj_job = \<lparr>aj_id = jr_id row, aj_tenant_id = jr_tenant_id row, aj_registry_config_id = registry_config_id,
                  aj_coordinate = coordinate_new ecosystem (jr_package_name row) (jr_package_version row) (jr_namespace row),
                  aj_artifact_digest = artifact_digest, aj_source_url = source_url, aj_policy_snapshot_id = jr_policy_version_id row,
                  aj_state = Fetching, aj_retry_count = word_of_int (jr_retry_count row), aj_trace_id = jr_trace_id row,
                  aj_created_at = jr_created_at row, aj_updated_at = jr_updated_at row\<rparr>,
                cj_upstream_url = rr_upstream_url registry, cj_auth_type = auth_type, cj_credential_env_var = credential_env_var,
                cj_verify_upstream_tls = rr_verify_upstream_tls registry\<rparr>)))))))))"

section \<open>Updates\<close>

definition update_job :: "uuid \<Rightarrow> (JobRow \<Rightarrow> JobRow) \<Rightarrow> worker_db \<Rightarrow> worker_db" where
  "update_job job_id f db = db\<lparr>wd_jobs := map (\<lambda>r. if jr_id r = job_id then f r else r) (wd_jobs db)\<rparr>"

definition update_job_state :: "worker_env \<Rightarrow> uuid \<Rightarrow> JobState \<Rightarrow> unit worker" where
  "update_job_state env job_id state =
     statement env (\<lambda>n db. Inr ((), update_job job_id (\<lambda>r. r\<lparr>jr_state := state, jr_updated_at := we_now env n\<rparr>) db))"

definition mark_job_failure :: "worker_env \<Rightarrow> uuid \<Rightarrow> 16 word \<Rightarrow> unit worker" where
  "mark_job_failure env job_id max_retries =
     statement env (\<lambda>n db.
       if list_ex (\<lambda>r. jr_id r = job_id \<and> jr_retry_count r + 1 \<ge> 2 ^ 31) (wd_jobs db) then Inl ''integer out of range''
       else Inr ((), update_job job_id (\<lambda>r. r\<lparr>jr_retry_count := jr_retry_count r + 1,
         jr_state := (if jr_retry_count r + 1 \<ge> uint max_retries then Failed else Queued), jr_updated_at := we_now env n\<rparr>) db))"

definition emit_job_audit_event :: "worker_env \<Rightarrow> AnalysisJob \<Rightarrow> string \<Rightarrow> json \<Rightarrow> unit worker" where
  "emit_job_audit_event env job action metadata =
     statement env (\<lambda>n db. Inr ((), db\<lparr>wd_audit := wd_audit db @
       [\<lparr>au_tenant_id = aj_tenant_id job, au_actor = ''surgeon'', au_action = action,
         au_resource = ''analysis-job/'' @ wl_show_uuid (we_lib env) (aj_id job), au_trace_id = aj_trace_id job,
         au_metadata = metadata\<rparr>]\<rparr>))"

section \<open>Fetching\<close>

definition fetch_artifact_bytes :: "worker_env \<Rightarrow> ClaimedJob \<Rightarrow> (string \<times> string) worker" where
  "fetch_artifact_bytes env claimed =
     wbind (wlift (ok_or (''parsing analysis source URL '' @ aj_source_url (cj_job claimed))
         (wl_parse_url (we_lib env) (aj_source_url (cj_job claimed))))) (\<lambda>source.
     wbind (wlift (upstream_authorization_value (we_lib env) claimed)) (\<lambda>authorization s.
       let request = (source, authorization, \<not> cj_verify_upstream_tls claimed);
           s1 = s\<lparr>ws_requests := ws_requests s @ [request]\<rparr>
       in case we_http env request of
            Inl e \<Rightarrow> (Inl e, s1)
          | Inr (status, body) \<Rightarrow>
              if 400 \<le> status \<and> status < 600 then (Inl ''analysis fetch failed'', s1)
              else (res_map (\<lambda>bytes. (bytes, source_file_name (we_lib env) source)) body, s1)))"

section \<open>Persisting a report\<close>

definition maybe_externalize_static_report ::
  "worker_env \<Rightarrow> string \<Rightarrow> uuid \<Rightarrow> json \<Rightarrow> ExternalizedStaticReport option worker" where
  "maybe_externalize_static_report env artifact_store_dir tenant_id report_json =
     wbind (wlift (ok_or ''serializing static evidence bytes'' (wl_to_vec (we_lib env) report_json))) (\<lambda>report_bytes.
       if length report_bytes \<le> MAX_INLINE_STATIC_REPORT_BYTES then wlift (Inr None)
       else let digest = hex_sha256 (we_lib env) report_bytes;
                storage_path = static_report_storage_path (we_lib env) artifact_store_dir tenant_id digest
         in wbind (create_parent env storage_path) (\<lambda>_.
            wbind (write_file env storage_path report_bytes) (\<lambda>_.
            wbind (wlift (worker_storage_uri (we_lib env) storage_path)) (\<lambda>uri.
              wlift (Inr (Some \<lparr>xr_storage_uri = uri, xr_sha256 = digest, xr_size_bytes = length report_bytes\<rparr>))))))"

definition i64_from :: "string \<Rightarrow> nat \<Rightarrow> (string, nat) result" where
  "i64_from message n = (if n < 2 ^ 63 then Inr n else Inl message)"

definition upsert_artifact :: "uuid \<Rightarrow> AnalysisJob \<Rightarrow> nat \<Rightarrow> string \<Rightarrow> worker_db \<Rightarrow> uuid \<times> worker_db" where
  "upsert_artifact fresh job size_bytes storage_uri db =
     (let set_columns = (\<lambda>r. r\<lparr>ar_ecosystem := ecosystem_display (pc_ecosystem (aj_coordinate job)), ar_namespace := pc_namespace (aj_coordinate job),
            ar_package_name := pc_name (aj_coordinate job), ar_package_version := pc_version (aj_coordinate job),
            ar_size_bytes := size_bytes, ar_storage_uri := storage_uri\<rparr>);
          same = (\<lambda>r. ar_tenant_id r = aj_tenant_id job \<and> ar_sha256 r = dg_hex (aj_artifact_digest job))
      in case List.find same (wd_artifacts db) of
           Some row \<Rightarrow> (ar_id row, db\<lparr>wd_artifacts := map (\<lambda>r. if same r then set_columns r else r) (wd_artifacts db)\<rparr>)
         | None \<Rightarrow>
             (fresh, db\<lparr>wd_artifacts := wd_artifacts db @ [set_columns
               \<lparr>ar_id = fresh, ar_tenant_id = aj_tenant_id job, ar_ecosystem = [], ar_namespace = None, ar_package_name = [],
                ar_package_version = None, ar_sha256 = dg_hex (aj_artifact_digest job), ar_size_bytes = 0, ar_storage_uri = []\<rparr>]\<rparr>))"

fun insert_artifact_files :: "worker_env \<Rightarrow> uuid \<Rightarrow> ArtifactFileManifestEntry list \<Rightarrow> unit worker" where
  "insert_artifact_files env artifact_id [] = wlift (Inr ())"
| "insert_artifact_files env artifact_id (entry # manifest) =
     wbind (wlift (i64_from ''artifact file too large to persist'' (mf_size_bytes entry))) (\<lambda>_.
     wbind (statement env (\<lambda>_ db.
         if list_ex (\<lambda>r. af_artifact_id r = artifact_id \<and> mf_path (af_entry r) = mf_path entry) (wd_artifact_files db)
         then Inl ''duplicate key value violates unique constraint''
         else Inr ((), db\<lparr>wd_artifact_files := wd_artifact_files db @ [\<lparr>af_artifact_id = artifact_id, af_entry = entry\<rparr>]\<rparr>))) (\<lambda>_.
       insert_artifact_files env artifact_id manifest))"

definition upsert_fragment :: "uuid \<Rightarrow> timestamp \<Rightarrow> AnalysisJob \<Rightarrow> uuid \<Rightarrow> json \<Rightarrow> worker_db \<Rightarrow> worker_db" where
  "upsert_fragment fresh now job artifact_id fragment db =
     (let same = (\<lambda>f. sf_analysis_job_id f = aj_id job \<and> sf_artifact_id f = artifact_id) in
      if list_ex same (wd_fragments db)
      then db\<lparr>wd_fragments := map (\<lambda>f. if same f then f\<lparr>sf_tenant_id := aj_tenant_id job, sf_fragment := fragment\<rparr> else f) (wd_fragments db)\<rparr>
      else db\<lparr>wd_fragments := wd_fragments db @ [\<lparr>sf_id = fresh, sf_analysis_job_id = aj_id job, sf_artifact_id = artifact_id,
             sf_tenant_id = aj_tenant_id job, sf_fragment = fragment, sf_created_at = now\<rparr>]\<rparr>)"

definition persist_static_report ::
  "worker_env \<Rightarrow> ClaimedJob \<Rightarrow> string \<Rightarrow> string \<Rightarrow> nat \<Rightarrow> StaticEvidence \<Rightarrow> ArtifactFileManifestEntry list \<Rightarrow> unit worker" where
  "persist_static_report env claimed artifact_store_dir storage_uri size_bytes report manifest =
     (let job = cj_job claimed; lib = we_lib env in
      transaction env (
        wbind (wlift (validated_static_report_json lib report)) (\<lambda>report_json.
        wbind (maybe_externalize_static_report env artifact_store_dir (aj_tenant_id job) report_json) (\<lambda>externalized_report.
        wbind (wlift (i64_from ''artifact too large to persist'' size_bytes)) (\<lambda>size.
        wbind (statement env (\<lambda>n db. Inr (upsert_artifact (we_fresh env n) job size storage_uri db))) (\<lambda>artifact_id.
        wbind (statement env (\<lambda>_ db. Inr ((), db\<lparr>wd_artifact_files := filter (\<lambda>r. af_artifact_id r \<noteq> artifact_id) (wd_artifact_files db)\<rparr>))) (\<lambda>_.
        wbind (insert_artifact_files env artifact_id manifest) (\<lambda>_.
        wbind (case externalized_report of None \<Rightarrow> wlift (Inr 0)
               | Some x \<Rightarrow> wlift (i64_from ''static report too large to persist'' (xr_size_bytes x))) (\<lambda>_.
        wbind (statement env (\<lambda>_ db. Inr ((), db\<lparr>wd_reports := wd_reports db @
            [\<lparr>sr_analysis_job_id = aj_id job, sr_artifact_id = artifact_id, sr_policy_version_id = aj_policy_snapshot_id job,
              sr_embedding = static_report_embedding_literal lib report, sr_report = report_json, sr_external = externalized_report\<rparr>]\<rparr>))) (\<lambda>_.
        wbind (statement env (\<lambda>n db. Inr ((), upsert_fragment (we_fresh env n) (we_now env n) job artifact_id
            (package_sbom_fragment_json (aj_coordinate job) (aj_artifact_digest job)) db))) (\<lambda>_.
          statement env (\<lambda>n db. Inr ((), update_job (aj_id job)
            (\<lambda>r. r\<lparr>jr_artifact_id := Some artifact_id, jr_updated_at := we_now env n\<rparr>) db)))))))))))))"

section \<open>Processing\<close>

definition store_artifact :: "worker_env \<Rightarrow> WorkerConfig \<Rightarrow> ClaimedJob \<Rightarrow> string \<times> string \<Rightarrow> string worker" where
  "store_artifact env config claimed fetched =
     (let (artifact_bytes, file_name) = fetched; job = cj_job claimed in
      if hex_sha256 (we_lib env) artifact_bytes \<noteq> dg_hex (aj_artifact_digest job)
      then wlift (Inl ''artifact digest mismatch during analysis fetch'')
      else let storage_path = artifact_storage_path (we_lib env) (wc_artifact_store_dir config) (aj_tenant_id job)
                 (dg_hex (aj_artifact_digest job)) file_name
        in wbind (create_parent env storage_path) (\<lambda>_.
           wbind (write_file env storage_path artifact_bytes) (\<lambda>_.
             wlift (worker_storage_uri (we_lib env) storage_path))))"

definition scan_stored_artifact ::
  "worker_env \<Rightarrow> WorkerConfig \<Rightarrow> AnalysisJob \<Rightarrow> string \<times> string \<Rightarrow> (StaticEvidence \<times> ArtifactFileManifestEntry list) worker" where
  "scan_stored_artifact env config job fetched =
     (let (artifact_bytes, file_name) = fetched; shown = wl_show_uuid (we_lib env) (aj_id job) in
      wbind (wlift (we_tempdir env)) (\<lambda>unpack_dir.
        let scan_input_path = path_push unpack_dir file_name in
        wbind (wlift (case we_write env scan_input_path artifact_bytes of Some (e, _) \<Rightarrow> Inl e | None \<Rightarrow> Inr ())) (\<lambda>_.
          case we_scan_end env of
            ScanFinished \<Rightarrow> wlift (map_err (\<lambda>_. ''scanning artifact for analysis job '' @ shown)
              (fst (scan_artifact_package (we_scan_lib env) (we_unpack_env env) scan_input_path (Inr artifact_bytes) unpack_dir (wc_scan_limits config))))
          | ScanPanicked \<Rightarrow> wlift (Inl (''scan thread panicked for analysis job '' @ shown))
          | ScanElapsed \<Rightarrow>
              wbind (emit_job_audit_event env job ''analysis.job.scan_timeout''
                (JObject [(''state'', JString ''failed''), (''reason'', JString ''scan-timeout''),
                   (''timeout_secs'', JNumber (of_nat (wc_scan_timeout_secs config)))])) (\<lambda>_.
                wlift (Inl (''scan timed out after '' @ show_nat (wc_scan_timeout_secs config) @ '' seconds for analysis job '' @ shown))))))"

definition analyse_claimed_job ::
  "worker_env \<Rightarrow> WorkerConfig \<Rightarrow> ClaimedJob \<Rightarrow> (StaticEvidence \<times> ArtifactFileManifestEntry list) worker" where
  "analyse_claimed_job env config claimed =
     (let job = cj_job claimed in
      wbind (wlift (validate_source_url (we_lib env) (cj_upstream_url claimed) (aj_source_url job))) (\<lambda>_.
      wbind (fetch_artifact_bytes env claimed) (\<lambda>fetched.
      wbind (store_artifact env config claimed fetched) (\<lambda>storage_uri.
      wbind (update_job_state env (aj_id job) StaticRunning) (\<lambda>_.
      wbind (scan_stored_artifact env config job fetched) (\<lambda>(report, manifest).
      wbind (update_job_state env (aj_id job) Finalizing) (\<lambda>_.
      wbind (persist_static_report env claimed (wc_artifact_store_dir config) storage_uri (length (fst fetched)) report manifest) (\<lambda>_.
        wlift (Inr (report, manifest))))))))))"

definition process_claimed_job :: "worker_env \<Rightarrow> WorkerConfig \<Rightarrow> ClaimedJob \<Rightarrow> unit worker" where
  "process_claimed_job env config claimed =
     (let job = cj_job claimed in
      wbind (analyse_claimed_job env config claimed) (\<lambda>(report, manifest).
      wbind (update_job_state env (aj_id job) SandboxPending) (\<lambda>_.
        emit_job_audit_event env job ''analysis.job.sandbox_pending''
          (JObject [(''state'', JString ''sandbox-pending''), (''indicator_count'', JNumber (of_nat (length (se_indicators report)))),
            (''manifest_entries'', JNumber (of_nat (length manifest)))]))))"

definition saturating_succ :: "16 word \<Rightarrow> 16 word" where
  "saturating_succ w = (if w = - 1 then w else w + 1)"

definition finish_attempt :: "worker_env \<Rightarrow> WorkerConfig \<Rightarrow> AnalysisJob \<Rightarrow> (string, unit) result \<Rightarrow> AnalysisJob option worker" where
  "finish_attempt env config job outcome =
     (case outcome of
        Inr _ \<Rightarrow> wlift (Inr (Some job))
      | Inl e \<Rightarrow>
          wbind (mark_job_failure env (aj_id job) (wc_max_retries config)) (\<lambda>_.
            let next_retry_count = saturating_succ (aj_retry_count job); given_up = (wc_max_retries config \<le> next_retry_count)
            in wbind (emit_job_audit_event env job (if given_up then ''analysis.job.failed'' else ''analysis.job.requeued'')
                 (JObject [(''state'', JString (if given_up then ''failed'' else ''queued'')),
                   (''retry_count'', JNumber (of_nat (unat next_retry_count)))])) (\<lambda>_.
               wlift (Inl e))))"

definition fetching_event :: "worker_env \<Rightarrow> AnalysisJob \<Rightarrow> unit worker" where
  "fetching_event env job =
     emit_job_audit_event env job ''analysis.job.fetching''
       (JObject [(''state'', JString ''fetching''),
         (''source_host'', json_opt (Option.bind (wl_parse_url (we_lib env) (aj_source_url job)) url_host))])"

definition process_next_analysis_job_with_pool :: "worker_env \<Rightarrow> WorkerConfig \<Rightarrow> AnalysisJob option worker" where
  "process_next_analysis_job_with_pool env config =
     wbind (claim_next_job env) (\<lambda>claim.
       case claim of
         None \<Rightarrow> wlift (Inr None)
       | Some claimed \<Rightarrow>
           wbind (fetching_event env (cj_job claimed)) (\<lambda>_ s.
             case process_claimed_job env config claimed s of
               (outcome, s1) \<Rightarrow> finish_attempt env config (cj_job claimed) outcome s1))"

section \<open>Steps that succeed\<close>

lemma wlift_eq [simp]: "wlift r s = (r', s') \<longleftrightarrow> r' = r \<and> s' = s"
  by (auto simp: wlift_def)

lemma wbind_Inr: "wbind step f s = (Inr b, s') \<longleftrightarrow> (\<exists>a s1. step s = (Inr a, s1) \<and> f a s1 = (Inr b, s'))"
  by (auto simp: wbind_def split: prod.split sum.split)

lemma statement_Inr:
  "statement env query s = (Inr a, s') \<longleftrightarrow> we_answer env (ws_statements s) = Answered
     \<and> (\<exists>db. query (ws_statements s) (ws_db s) = Inr (a, db) \<and> s' = s\<lparr>ws_statements := ws_statements s + 1, ws_db := db\<rparr>)"
  by (cases "we_answer env (ws_statements s)") (auto simp: statement_def Let_def split: sum.split)

lemma transaction_Inr:
  "transaction env body s = (Inr a, s') \<longleftrightarrow> we_answer env (ws_statements s) = Answered
     \<and> (\<exists>s1. body (s\<lparr>ws_statements := ws_statements s + 1\<rparr>) = (Inr a, s1)
          \<and> we_answer env (ws_statements s1) = Answered \<and> s' = s1\<lparr>ws_statements := ws_statements s1 + 1\<rparr>)"
  by (auto simp: transaction_def wbind_Inr statement_Inr Let_def split: prod.split sum.split db_answer.split_asm)

lemma write_file_Inr:
  "write_file env path bytes s = (Inr a, s') \<longleftrightarrow> we_write env path bytes = None \<and> s' = s\<lparr>ws_files := (ws_files s)(path \<mapsto> bytes)\<rparr>"
  by (auto simp: write_file_def split: option.split)

lemmas worker_Inr = wbind_Inr statement_Inr transaction_Inr write_file_Inr

section \<open>Effects\<close>

text \<open>What a step may do: change the tables by \<open>D\<close> and send requests that satisfy \<open>P\<close>.\<close>

definition effects :: "(worker_db \<Rightarrow> worker_db \<Rightarrow> bool) \<Rightarrow> (url \<times> string option \<times> bool \<Rightarrow> bool) \<Rightarrow> worker_state \<Rightarrow> worker_state \<Rightarrow> bool" where
  "effects D P s s' \<longleftrightarrow> D (ws_db s) (ws_db s') \<and> (\<exists>sent. ws_requests s' = ws_requests s @ sent \<and> list_all P sent)"

definition keeps :: "(worker_db \<Rightarrow> worker_db \<Rightarrow> bool) \<Rightarrow> (url \<times> string option \<times> bool \<Rightarrow> bool) \<Rightarrow> 'a worker \<Rightarrow> bool" where
  "keeps D P step \<longleftrightarrow> (\<forall>s. effects D P s (snd (step s)))"

locale worker_effects =
  fixes D :: "worker_db \<Rightarrow> worker_db \<Rightarrow> bool" and P :: "url \<times> string option \<times> bool \<Rightarrow> bool"
  assumes D_refl: "D db db" and D_trans: "D db db1 \<Longrightarrow> D db1 db2 \<Longrightarrow> D db db2"
begin

lemma effects_refl [intro]: "effects D P s s"
  by (simp add: effects_def D_refl)

lemma effects_trans: "effects D P s s1 \<Longrightarrow> effects D P s1 s2 \<Longrightarrow> effects D P s s2"
  using D_trans by (fastforce simp: effects_def)

lemma keeps_wlift [intro]: "keeps D P (wlift r)"
  by (simp add: keeps_def wlift_def effects_refl)

lemma keeps_wbind [intro]:
  assumes "keeps D P step" "\<And>a. keeps D P (f a)"
  shows "keeps D P (wbind step f)"
  unfolding keeps_def
proof
  fix s
  obtain r s1 where step: "step s = (r, s1)" by fastforce
  then have one: "effects D P s s1" using assms(1) by (metis keeps_def snd_conv)
  show "effects D P s (snd (wbind step f s))"
  proof (cases r)
    case (Inr a)
    have "effects D P s1 (snd (f a s1))" using assms(2) by (simp add: keeps_def)
    then show ?thesis using one step Inr effects_trans by (simp add: wbind_def)
  qed (use one step in \<open>simp add: wbind_def\<close>)
qed

lemma keeps_statement:
  assumes "\<And>n db a db'. query n db = Inr (a, db') \<Longrightarrow> D db db'"
  shows "keeps D P (statement env query)"
  using assms by (auto simp: keeps_def effects_def statement_def Let_def D_refl split: sum.split)

lemma keeps_transaction:
  assumes "keeps D P body"
  shows "keeps D P (transaction env body)"
  unfolding transaction_def
proof (rule keeps_wbind)
  show "keeps D P (statement env (\<lambda>_ db. Inr ((), db)))" by (rule keeps_statement) (simp add: D_refl)
  show "keeps D P (\<lambda>s0. case body s0 of
         (Inl e, s1) \<Rightarrow> (Inl e, s1\<lparr>ws_db := ws_db s0\<rparr>)
       | (Inr a, s1) \<Rightarrow>
           let n = ws_statements s1; s2 = s1\<lparr>ws_statements := n + 1\<rparr> in
           case we_answer env n of
             Answered \<Rightarrow> (Inr a, s2)
           | AnswerLost \<Rightarrow> (Inl ''database error'', s2)
           | Refused \<Rightarrow> (Inl ''database error'', s2\<lparr>ws_db := ws_db s0\<rparr>))"
    unfolding keeps_def
  proof
    fix s0
    obtain r s1 where b: "body s0 = (r, s1)" by fastforce
    with assms have "effects D P s0 s1" by (metis keeps_def snd_conv)
    then show "effects D P s0 (snd (case body s0 of
         (Inl e, s1) \<Rightarrow> (Inl e, s1\<lparr>ws_db := ws_db s0\<rparr>)
       | (Inr a, s1) \<Rightarrow>
           let n = ws_statements s1; s2 = s1\<lparr>ws_statements := n + 1\<rparr> in
           case we_answer env n of
             Answered \<Rightarrow> (Inr a, s2)
           | AnswerLost \<Rightarrow> (Inl ''database error'', s2)
           | Refused \<Rightarrow> (Inl ''database error'', s2\<lparr>ws_db := ws_db s0\<rparr>)))"
      using b by (auto simp: effects_def Let_def D_refl split: sum.split db_answer.split)
  qed
qed

lemma keeps_if: "keeps D P step \<Longrightarrow> keeps D P step' \<Longrightarrow> keeps D P (if b then step else step')"
  by simp

lemma keeps_write_file [intro]: "keeps D P (write_file env path bytes)"
  by (auto simp: keeps_def write_file_def effects_def D_refl split: option.split)

lemma keeps_create_parent [intro]: "keeps D P (create_parent env path)"
  by (simp add: create_parent_def keeps_wlift)

lemma keeps_externalize: "keeps D P (maybe_externalize_static_report env dir tenant_id report_json)"
  unfolding maybe_externalize_static_report_def Let_def
  by (intro keeps_wbind keeps_wlift keeps_if keeps_write_file keeps_create_parent)

end

section \<open>What processing changes\<close>

text \<open>The work on a job changes no other job, and of its own neither the identifier nor the number of retries.\<close>

definition job_kept :: "uuid \<Rightarrow> JobRow \<Rightarrow> JobRow \<Rightarrow> bool" where
  "job_kept j r r' \<longleftrightarrow> jr_id r' = jr_id r \<and> jr_retry_count r' = jr_retry_count r \<and> (jr_id r \<noteq> j \<longrightarrow> r' = r)"

definition works_on :: "uuid \<Rightarrow> worker_db \<Rightarrow> worker_db \<Rightarrow> bool" where
  "works_on j db db' \<longleftrightarrow> list_all2 (job_kept j) (wd_jobs db) (wd_jobs db')
     \<and> wd_registries db' = wd_registries db \<and> wd_credentials db' = wd_credentials db"

lemma works_on_refl: "works_on j db db"
  by (simp add: works_on_def list_all2_same job_kept_def)

lemma works_on_trans: "works_on j db db1 \<Longrightarrow> works_on j db1 db2 \<Longrightarrow> works_on j db db2"
  using list_all2_trans [of "job_kept j" "job_kept j" "job_kept j"] by (auto simp: works_on_def job_kept_def)

lemma works_on_update:
  assumes "\<And>r. jr_id (f r) = jr_id r \<and> jr_retry_count (f r) = jr_retry_count r"
  shows "works_on j db (update_job j f db)"
  using assms by (simp add: works_on_def update_job_def list_all2_map2 list_all2_same job_kept_def)

interpretation work: worker_effects "works_on j" P for j P
  by unfold_locales (auto intro: works_on_refl works_on_trans)


lemma keeps_update_job_state: "keeps (works_on j) P (update_job_state env j state)"
  unfolding update_job_state_def by (rule work.keeps_statement) (auto simp: works_on_update)

lemma keeps_audit: "keeps (works_on j) P (emit_job_audit_event env job action metadata)"
  unfolding emit_job_audit_event_def by (rule work.keeps_statement) (auto simp: works_on_def list_all2_same job_kept_def)

lemma keeps_insert_artifact_files: "keeps (works_on j) P (insert_artifact_files env artifact_id manifest)"
proof (induction manifest)
  case (Cons entry manifest)
  show ?case unfolding insert_artifact_files.simps
    by (intro work.keeps_wbind work.keeps_wlift work.keeps_statement Cons)
      (auto simp: works_on_def list_all2_same job_kept_def split: if_splits)
qed (simp add: work.keeps_wlift)

lemma keeps_persist: "keeps (works_on (aj_id (cj_job claimed))) P (persist_static_report env claimed dir uri n report manifest)"
proof -
  have same: "upsert_artifact fresh job n uri db = (i, db') \<Longrightarrow> works_on j db db'" "works_on j db (upsert_fragment fresh now job i fragment db)"
    for j db db' fresh job n uri now i fragment
    by (auto simp: upsert_artifact_def upsert_fragment_def works_on_def list_all2_same job_kept_def Let_def split: option.splits)
  show ?thesis
    unfolding persist_static_report_def Let_def
    by (intro work.keeps_transaction work.keeps_wbind work.keeps_wlift work.keeps_externalize work.keeps_statement keeps_insert_artifact_files)
      (use same in \<open>auto simp: works_on_update works_on_def [of _ _ "_\<lparr>wd_artifact_files := _\<rparr>"] works_on_def [of _ _ "_\<lparr>wd_reports := _\<rparr>"]
         list_all2_same job_kept_def work.keeps_wlift split: option.split\<close>)
qed

lemma keeps_fetch:
  assumes "validate_source_url (we_lib env) (cj_upstream_url claimed) (aj_source_url (cj_job claimed)) = Inr ()"
  shows "keeps (works_on j) (\<lambda>(url, authorization, insecure).
      \<exists>upstream. wl_parse_url (we_lib env) (cj_upstream_url claimed) = Some upstream \<and> below_upstream (we_lib env) upstream url)
    (fetch_artifact_bytes env claimed)"
proof -
  obtain upstream source where u: "wl_parse_url (we_lib env) (cj_upstream_url claimed) = Some upstream"
      "wl_parse_url (we_lib env) (aj_source_url (cj_job claimed)) = Some source" "below_upstream (we_lib env) upstream source"
    using assms by (auto simp: validate_source_url_iff)
  show ?thesis
    unfolding fetch_artifact_bytes_def u(2) ok_or_simps
    by (auto simp: keeps_def wbind_def wlift_def effects_def works_on_refl u Let_def split: sum.split prod.split)
qed

definition sends_below :: "worker_env \<Rightarrow> ClaimedJob \<Rightarrow> url \<times> string option \<times> bool \<Rightarrow> bool" where
  "sends_below env claimed = (\<lambda>(url, authorization, insecure).
      \<exists>upstream. wl_parse_url (we_lib env) (cj_upstream_url claimed) = Some upstream \<and> below_upstream (we_lib env) upstream url)"

lemma keeps_analyse: "keeps (works_on (aj_id (cj_job claimed))) (sends_below env claimed) (analyse_claimed_job env config claimed)"
proof (cases "validate_source_url (we_lib env) (cj_upstream_url claimed) (aj_source_url (cj_job claimed))")
  case (Inl e)
  then show ?thesis by (simp add: analyse_claimed_job_def Let_def keeps_def wbind_def wlift_def effects_def works_on_refl)
next
  case (Inr u)
  have scan: "keeps (works_on j) P (scan_stored_artifact env config job fetched)" for j P job fetched
    unfolding scan_stored_artifact_def Let_def
    by (cases fetched; cases "we_scan_end env") (simp_all add: work.keeps_wbind work.keeps_wlift keeps_audit)
  have store: "keeps (works_on j) P (store_artifact env config claimed fetched)" for j P fetched
    unfolding store_artifact_def Let_def
    by (cases fetched) (simp add: work.keeps_wbind work.keeps_wlift work.keeps_create_parent work.keeps_write_file)
  show ?thesis
    unfolding analyse_claimed_job_def Let_def
    using Inr keeps_fetch [of env claimed] scan store keeps_persist
    by (auto intro!: work.keeps_wbind work.keeps_wlift keeps_update_job_state keeps_audit simp: sends_below_def)
qed

lemma keeps_process: "keeps (works_on (aj_id (cj_job claimed))) (sends_below env claimed) (process_claimed_job env config claimed)"
  unfolding process_claimed_job_def Let_def
  by (auto intro!: work.keeps_wbind keeps_analyse keeps_update_job_state keeps_audit)

end
