(* ===== verification/Worker_Lifecycle.thy ===== *)
theory Worker_Lifecycle
  imports Surgeon_Worker
begin

section \<open>Claims\<close>

text \<open>A claim moves one due job of the queue to fetching.\<close>

definition claims :: "JobRow \<Rightarrow> worker_db \<Rightarrow> worker_db \<Rightarrow> bool" where
  "claims row db db' \<longleftrightarrow> row \<in> set (wd_jobs db) \<and> jr_state row = Queued
     \<and> (\<exists>now. db' = update_job (jr_id row) (\<lambda>r. r\<lparr>jr_state := Fetching, jr_updated_at := now\<rparr>) db)"

lemma claim_query_Inr:
  assumes "claim_query env n db = Inr (found, db')"
  shows "(found = None \<and> db' = db) \<or>
    (\<exists>row. claims row db db' \<and> claimable env row \<and> found = Some (row\<lparr>jr_state := Fetching, jr_updated_at := we_now env n\<rparr>)
       \<and> db' = update_job (jr_id row) (\<lambda>r. r\<lparr>jr_state := Fetching, jr_updated_at := we_now env n\<rparr>) db)"
proof (cases "sort_key jr_created_at (filter (due (we_now env n)) (filter (claimable env) (wd_jobs db)))")
  case Nil
  with assms show ?thesis by (simp add: claim_query_def Let_def split: if_splits)
next
  case (Cons row rows)
  then have "row \<in> set (sort_key jr_created_at (filter (due (we_now env n)) (filter (claimable env) (wd_jobs db))))" by simp
  then have "row \<in> set (wd_jobs db)" "claimable env row" by auto
  with Cons assms show ?thesis
    by (auto simp: claim_query_def claims_def claimable_def update_job_def Let_def split: if_splits)
qed

lemma claimed_row_stored:
  assumes "claim_query env n db = Inr (Some row, db')"
  shows "jr_state row = Fetching" "row \<in> set (wd_jobs db')"
proof -
  obtain queued where q: "queued \<in> set (wd_jobs db)" "row = queued\<lparr>jr_state := Fetching, jr_updated_at := we_now env n\<rparr>"
      "db' = update_job (jr_id queued) (\<lambda>r. r\<lparr>jr_state := Fetching, jr_updated_at := we_now env n\<rparr>) db"
    using claim_query_Inr [OF assms] by (auto simp: claims_def)
  then show "jr_state row = Fetching" by simp
  from q(1) show "row \<in> set (wd_jobs db')" unfolding q(2,3) by (force simp: update_job_def)
qed

lemma claim_query_cases:
  assumes "snd (statement env (claim_query env) s) = s1"
  shows "ws_requests s1 = ws_requests s \<and> (ws_db s1 = ws_db s \<or> (\<exists>row. claims row (ws_db s) (ws_db s1)))"
  using assms claim_query_Inr
  by (auto simp: statement_def Let_def split: if_splits sum.splits) blast+

text \<open>After the claim only the registry configuration is read.\<close>

definition same_data :: "worker_state \<Rightarrow> worker_state \<Rightarrow> bool" where
  "same_data s s' \<longleftrightarrow> ws_db s' = ws_db s \<and> ws_requests s' = ws_requests s \<and> ws_files s' = ws_files s"

lemma registry_query_same: "same_data s (snd (statement env (\<lambda>_. registry_query t i) s))"
  by (auto simp: statement_def registry_query_def same_data_def Let_def split: option.split)

lemma claim_next_job_state: "same_data (snd (statement env (claim_query env) s)) (snd (claim_next_job env s))"
proof -
  obtain r s1 where c: "statement env (claim_query env) s = (r, s1)" by fastforce
  have "same_data s1 (snd (claim_next_job env s))"
  proof (cases "\<exists>row. r = Inr (Some row)")
    case False
    with c show ?thesis
      by (cases r) (auto simp: claim_next_job_def wbind_def wlift_def same_data_def split: option.split)
  next
    case True
    then obtain row where row: "r = Inr (Some row)" by blast
    show ?thesis
    proof (cases "jr_registry_config_id row = None \<or> jr_source_url row = None
        \<or> (\<exists>e. ecosystem_from_str (jr_ecosystem row) = Inl e) \<or> (\<exists>e. digest_sha256 (jr_artifact_sha256 row) = Inl e)")
      case True
      with c row show ?thesis
        by (cases "jr_registry_config_id row"; cases "jr_source_url row"; cases "ecosystem_from_str (jr_ecosystem row)";
            cases "digest_sha256 (jr_artifact_sha256 row)") (auto simp: claim_next_job_def wbind_def wlift_def same_data_def)
    next
      case False
      then obtain i u e d where parts: "jr_registry_config_id row = Some i" "jr_source_url row = Some u"
          "ecosystem_from_str (jr_ecosystem row) = Inr e" "digest_sha256 (jr_artifact_sha256 row) = Inr d"
        by (metis not_None_eq sumE)
      obtain q s2 where q: "statement env (\<lambda>_. registry_query (jr_tenant_id row) i) s1 = (q, s2)" by fastforce
      then have "same_data s1 s2" using registry_query_same [of s1 env "jr_tenant_id row" i] by simp
      with c row parts q show ?thesis
        by (cases q) (auto simp: claim_next_job_def wbind_def wlift_def split: sum.split prod.split)
    qed
  qed
  with c show ?thesis by simp
qed

lemma claim_next_job_Some:
  assumes "claim_next_job env s = (Inr (Some claimed), s1)"
  obtains row where "claims row (ws_db s) (ws_db s1)" "aj_id (cj_job claimed) = jr_id row" "ws_requests s1 = ws_requests s"
    "aj_retry_count (cj_job claimed) = word_of_int (jr_retry_count row)"
proof -
  obtain r s0 where c: "statement env (claim_query env) s = (r, s0)" by fastforce
  have same: "same_data s0 s1" using claim_next_job_state [of env s] assms c by simp
  from assms c obtain found where r: "r = Inr (Some found)" "aj_id (cj_job claimed) = jr_id found"
      "aj_retry_count (cj_job claimed) = word_of_int (jr_retry_count found)"
    by (auto simp: claim_next_job_def wbind_Inr split: option.splits)
  then obtain n where "claim_query env n (ws_db s) = Inr (Some found, ws_db s0)" "ws_requests s0 = ws_requests s"
    using c by (auto simp: statement_Inr)
  with claim_query_Inr [of env n "ws_db s" "Some found" "ws_db s0"] r that same show thesis
    by (auto simp: same_data_def)
qed

section \<open>Retries\<close>

text \<open>A job in the hands of the worker, from the queue to the scan, has failed less often than the limit.\<close>

definition with_worker :: "JobState \<Rightarrow> bool" where
  "with_worker state \<longleftrightarrow> state = Queued \<or> state = Fetching \<or> state = StaticRunning"

definition retry_open :: "16 word \<Rightarrow> JobRow \<Rightarrow> bool" where
  "retry_open M r \<longleftrightarrow> jr_retry_count r = 0 \<or> (0 < jr_retry_count r \<and> jr_retry_count r < uint M)"

definition job_ok :: "16 word \<Rightarrow> JobRow \<Rightarrow> bool" where
  "job_ok M r \<longleftrightarrow> 0 \<le> jr_retry_count r \<and> (with_worker (jr_state r) \<longrightarrow> retry_open M r)"

definition jobs_ok :: "16 word \<Rightarrow> worker_db \<Rightarrow> bool" where
  "jobs_ok M db \<longleftrightarrow> distinct (map jr_id (wd_jobs db)) \<and> (\<forall>r \<in> set (wd_jobs db). job_ok M r)"

lemma map_update_job [simp]: "(\<And>r. jr_id (f r) = jr_id r) \<Longrightarrow> map jr_id (wd_jobs (update_job j f db)) = map jr_id (wd_jobs db)"
  by (simp add: update_job_def)

lemma claims_jobs_ok:
  assumes "jobs_ok M db" "claims row db db'"
  shows "jobs_ok M db'" "\<forall>r \<in> set (wd_jobs db'). jr_id r = jr_id row \<longrightarrow> retry_open M r"
proof -
  obtain now where db': "db' = update_job (jr_id row) (\<lambda>r. r\<lparr>jr_state := Fetching, jr_updated_at := now\<rparr>) db"
    and row: "row \<in> set (wd_jobs db)" "jr_state row = Queued"
    using assms(2) by (auto simp: claims_def)
  have only: "r = row" if "r \<in> set (wd_jobs db)" "jr_id r = jr_id row" for r
    using that row(1) assms(1) by (auto simp: jobs_ok_def distinct_map inj_on_def)
  have "retry_open M row" using assms(1) row by (auto simp: jobs_ok_def job_ok_def with_worker_def)
  then have open_id: "retry_open M r" if "r \<in> set (wd_jobs db)" "jr_id r = jr_id row" for r using only [OF that] by simp
  have flag: "retry_open M (r\<lparr>jr_state := st, jr_updated_at := t\<rparr>) = retry_open M r" for r st t by (simp add: retry_open_def)
  show "\<forall>r \<in> set (wd_jobs db'). jr_id r = jr_id row \<longrightarrow> retry_open M r"
    using open_id by (auto simp: db' update_job_def flag)
  have "job_ok M r'" if "r' \<in> set (wd_jobs db')" for r'
    using that assms(1) open_id by (auto simp: db' update_job_def jobs_ok_def job_ok_def flag) (auto simp: retry_open_def)?
  then show "jobs_ok M db'" using assms(1) by (auto simp: jobs_ok_def db')
qed

lemma works_on_ids: "works_on j db db' \<Longrightarrow> map jr_id (wd_jobs db') = map jr_id (wd_jobs db)"
  unfolding works_on_def by (auto simp: list_all2_conv_all_nth job_kept_def intro: nth_equalityI)

lemma works_on_jobs_ok:
  assumes "works_on j db db'" "jobs_ok M db" "\<forall>r \<in> set (wd_jobs db). jr_id r = j \<longrightarrow> retry_open M r"
  shows "jobs_ok M db' \<and> (\<forall>r \<in> set (wd_jobs db'). jr_id r = j \<longrightarrow> retry_open M r)"
proof -
  have "job_ok M r' \<and> (jr_id r' = j \<longrightarrow> retry_open M r')" if member: "r' \<in> set (wd_jobs db')" for r'
  proof -
    obtain i where i: "i < length (wd_jobs db')" "wd_jobs db' ! i = r'" using member by (auto simp: in_set_conv_nth)
    define r where "r = wd_jobs db ! i"
    have r: "r \<in> set (wd_jobs db)" "job_kept j r r'"
      using assms(1) i by (auto simp: works_on_def list_all2_conv_all_nth r_def)
    show ?thesis
    proof (cases "jr_id r = j")
      case True
      with r assms(3) show ?thesis by (auto simp: job_kept_def job_ok_def retry_open_def)
    next
      case False
      with r assms(2) show ?thesis by (auto simp: job_kept_def jobs_ok_def)
    qed
  qed
  with assms(2) works_on_ids [OF assms(1)] show ?thesis by (auto simp: jobs_ok_def)
qed

lemma mark_failure_jobs_ok:
  assumes "jobs_ok M (ws_db s)" "\<forall>r \<in> set (wd_jobs (ws_db s)). jr_id r = j \<longrightarrow> retry_open M r"
  shows "jobs_ok M (ws_db (snd (mark_job_failure env j M s)))"
proof -
  let ?f = "\<lambda>now r. r\<lparr>jr_retry_count := jr_retry_count r + 1,
         jr_state := (if jr_retry_count r + 1 \<ge> uint M then Failed else Queued), jr_updated_at := now\<rparr>"
  have "job_ok M (?f now r)" if "retry_open M r" for now r
    using that by (auto simp: retry_open_def job_ok_def with_worker_def)
  then have "jobs_ok M (update_job j (?f now) (ws_db s))" for now
    using assms by (auto simp: jobs_ok_def) (auto simp: update_job_def)
  then show ?thesis using assms(1)
    by (auto simp: mark_job_failure_def statement_def Let_def split: if_splits)
qed

lemma audit_db: "wd_jobs (ws_db (snd (emit_job_audit_event env job action metadata s))) = wd_jobs (ws_db s)"
  by (simp add: emit_job_audit_event_def statement_def Let_def)

lemma jobs_ok_cong: "wd_jobs db' = wd_jobs db \<Longrightarrow> jobs_ok M db' = jobs_ok M db"
  by (simp add: jobs_ok_def)

lemma finish_attempt_jobs_ok:
  assumes "jobs_ok (wc_max_retries config) (ws_db s)" "\<forall>r \<in> set (wd_jobs (ws_db s)). jr_id r = aj_id job \<longrightarrow> retry_open (wc_max_retries config) r"
  shows "jobs_ok (wc_max_retries config) (ws_db (snd (finish_attempt env config job outcome s)))"
proof (cases outcome)
  case (Inl e)
  obtain m s1 where m: "mark_job_failure env (aj_id job) (wc_max_retries config) s = (m, s1)" by fastforce
  then have s1: "jobs_ok (wc_max_retries config) (ws_db s1)" using mark_failure_jobs_ok [OF assms, of env] by simp
  have audit: "jobs_ok (wc_max_retries config) (ws_db s2)"
    if "emit_job_audit_event env job action metadata s1 = (q, s2)" for action metadata q s2
    using that s1 jobs_ok_cong [OF audit_db] by (metis snd_conv)
  show ?thesis
    by (cases m) (simp_all add: finish_attempt_def Inl wbind_def m s1 Let_def wlift_def audit split: prod.split sum.split)
qed (use assms in \<open>simp add: finish_attempt_def wlift_def\<close>)

text \<open>What a call does, in stages.\<close>

lemma process_next_stages:
  obtains (idle) r s1 where "claim_next_job env s = (r, s1)" "\<And>claimed. r \<noteq> Inr (Some claimed)"
      "snd (process_next_analysis_job_with_pool env config s) = s1"
  | (silent) claimed s1 e s2 where "claim_next_job env s = (Inr (Some claimed), s1)" "fetching_event env (cj_job claimed) s1 = (Inl e, s2)"
      "process_next_analysis_job_with_pool env config s = (Inl e, s2)"
  | (tried) claimed s1 s2 outcome s3 where "claim_next_job env s = (Inr (Some claimed), s1)" "fetching_event env (cj_job claimed) s1 = (Inr (), s2)"
      "process_claimed_job env config claimed s2 = (outcome, s3)"
      "process_next_analysis_job_with_pool env config s = finish_attempt env config (cj_job claimed) outcome s3"
proof -
  obtain r s1 where c: "claim_next_job env s = (r, s1)" by fastforce
  show thesis
  proof (cases "\<exists>claimed. r = Inr (Some claimed)")
    case False
    have "snd (process_next_analysis_job_with_pool env config s) = s1"
      using False c by (cases r) (auto simp: process_next_analysis_job_with_pool_def wbind_def wlift_def split: option.split)
    with False c idle show thesis by blast
  next
    case True
    then obtain claimed where r: "r = Inr (Some claimed)" by blast
    obtain q s2 where a: "fetching_event env (cj_job claimed) s1 = (q, s2)" by fastforce
    obtain outcome s3 where p: "process_claimed_job env config claimed s2 = (outcome, s3)" by fastforce
    show thesis
    proof (cases q)
      case (Inl e)
      with c r a silent show thesis by (auto simp: process_next_analysis_job_with_pool_def wbind_def)
    next
      case (Inr u)
      with c r a p tried show thesis by (auto simp: process_next_analysis_job_with_pool_def wbind_def)
    qed
  qed
qed

lemma fetching_event_db: "fetching_event env job s = (q, s') \<Longrightarrow> wd_jobs (ws_db s') = wd_jobs (ws_db s) \<and> ws_requests s' = ws_requests s"
  by (auto simp: fetching_event_def emit_job_audit_event_def statement_def Let_def split: if_splits)

lemma process_effects:
  assumes "process_claimed_job env config claimed s = (outcome, s')"
  shows "effects (works_on (aj_id (cj_job claimed))) (sends_below env claimed) s s'"
  using keeps_process [of claimed env config] assms by (metis keeps_def snd_conv)

lemma claim_jobs_ok:
  assumes "claim_next_job env s = (r, s1)" "jobs_ok M (ws_db s)"
  shows "jobs_ok M (ws_db s1)"
  using claim_next_job_state [of env s] claim_query_cases [OF refl, of env s] assms claims_jobs_ok(1)
  by (auto simp: same_data_def)

lemma process_next_jobs_ok:
  assumes "jobs_ok (wc_max_retries config) (ws_db s)"
  shows "jobs_ok (wc_max_retries config) (ws_db (snd (process_next_analysis_job_with_pool env config s)))"
proof (cases rule: process_next_stages [of env s config])
  case (idle r s1)
  with assms claim_jobs_ok show ?thesis by metis
next
  case (silent claimed s1 e s2)
  with assms claim_jobs_ok fetching_event_db jobs_ok_cong show ?thesis by (metis snd_conv)
next
  case (tried claimed s1 s2 outcome s3)
  let ?M = "wc_max_retries config"
  obtain row where row: "claims row (ws_db s) (ws_db s1)" "aj_id (cj_job claimed) = jr_id row"
    using claim_next_job_Some [OF tried(1)] by metis
  have "works_on (aj_id (cj_job claimed)) (ws_db s2) (ws_db s3)" using process_effects [OF tried(3)] by (simp add: effects_def)
  moreover have jobs: "wd_jobs (ws_db s2) = wd_jobs (ws_db s1)" using fetching_event_db [OF tried(2)] by simp
  moreover have "jobs_ok ?M (ws_db s2)" using claim_jobs_ok [OF tried(1) assms] jobs_ok_cong [OF jobs] by simp
  ultimately have "jobs_ok ?M (ws_db s3) \<and> (\<forall>r \<in> set (wd_jobs (ws_db s3)). jr_id r = aj_id (cj_job claimed) \<longrightarrow> retry_open ?M r)"
    using claims_jobs_ok(2) [OF assms row(1)] row(2) by (intro works_on_jobs_ok [where db = "ws_db s2"]) simp_all
  then show ?thesis using tried(4) finish_attempt_jobs_ok by simp
qed

section \<open>All runs\<close>

text \<open>The histories of the tables: jobs are queued with fresh identifiers, the services behind the worker move jobs on and count their own
  failures, registry configurations and credentials change at will, and the worker runs, with any answers of the database and of
  its other surroundings; a crash is a run whose remaining statements are refused.\<close>

definition move_on :: "uuid \<Rightarrow> JobState \<Rightarrow> nat \<Rightarrow> JobRow \<Rightarrow> JobRow" where
  "move_on j state failures r =
     (if jr_id r = j \<and> \<not> with_worker (jr_state r) then r\<lparr>jr_state := state, jr_retry_count := jr_retry_count r + int failures\<rparr> else r)"

inductive worker_reachable :: "16 word \<Rightarrow> worker_state \<Rightarrow> bool" for M where
  start: "wd_jobs (ws_db s) = [] \<Longrightarrow> worker_reachable M s"
| enqueue: "worker_reachable M s \<Longrightarrow> jr_state row = Queued \<Longrightarrow> jr_retry_count row = 0 \<Longrightarrow> jr_id row \<notin> jr_id ` set (wd_jobs (ws_db s))
    \<Longrightarrow> worker_reachable M (s\<lparr>ws_db := (ws_db s)\<lparr>wd_jobs := wd_jobs (ws_db s) @ [row]\<rparr>\<rparr>)"
| later: "worker_reachable M s \<Longrightarrow> \<not> with_worker state
    \<Longrightarrow> worker_reachable M (s\<lparr>ws_db := (ws_db s)\<lparr>wd_jobs := map (move_on j state failures) (wd_jobs (ws_db s))\<rparr>\<rparr>)"
| configure: "worker_reachable M s
    \<Longrightarrow> worker_reachable M (s\<lparr>ws_db := (ws_db s)\<lparr>wd_registries := registries, wd_credentials := credentials\<rparr>\<rparr>)"
| run: "worker_reachable M s \<Longrightarrow> wc_max_retries config = M
    \<Longrightarrow> worker_reachable M (snd (process_next_analysis_job_with_pool env config s))"

lemma move_on_id: "jr_id \<circ> move_on j state failures = jr_id"
  by (auto simp: move_on_def)

lemma move_on_ok: "\<not> with_worker state \<Longrightarrow> job_ok M r \<Longrightarrow> job_ok M (move_on j state failures r)"
  by (auto simp: move_on_def job_ok_def)

lemma worker_reachable_jobs_ok: "worker_reachable M s \<Longrightarrow> jobs_ok M (ws_db s)"
proof (induction rule: worker_reachable.induct)
  case (run s config env)
  then show ?case using process_next_jobs_ok by blast
next
  case (later s state j failures)
  then show ?case by (auto simp: jobs_ok_def move_on_id move_on_ok)
qed (auto simp: jobs_ok_def job_ok_def retry_open_def)

text \<open>C25: In every history of the queue, whatever the database, the registries, the scans and the services behind the worker do and wherever a
  run of the worker breaks off, identifiers stay unique, counts of failures are never negative, and a job that the worker may still
  try, or has left unfinished, has failed less often than the limit allows.\<close>

theorem job_retries_bounded:
  assumes "worker_reachable M s" "row \<in> set (wd_jobs (ws_db s))"
  shows "distinct (map jr_id (wd_jobs (ws_db s))) \<and> 0 \<le> jr_retry_count row
    \<and> (with_worker (jr_state row) \<longrightarrow> jr_retry_count row = 0 \<or> jr_retry_count row < uint M)"
  using worker_reachable_jobs_ok [OF assms(1)] assms(2) by (auto simp: jobs_ok_def job_ok_def retry_open_def)

lemma claim_computable:
  assumes "worker_reachable M s" "uint M \<le> 32"
  shows "\<exists>found db. claim_query env n (ws_db s) = Inr (found, db)"
proof -
  have "backoff_secs (jr_retry_count r) \<noteq> None" if r: "r \<in> set (wd_jobs (ws_db s))" "claimable env r" for r
  proof -
    have "nat (max (jr_retry_count r - 1) 0) \<le> 30"
      using worker_reachable_jobs_ok [OF assms(1)] r assms(2)
      by (auto simp: jobs_ok_def job_ok_def retry_open_def claimable_def with_worker_def)
    then have "(2::int) ^ nat (max (jr_retry_count r - 1) 0) \<le> 2 ^ 30" by (intro power_increasing) auto
    then show ?thesis by (simp add: backoff_secs_def Let_def)
  qed
  then show ?thesis by (auto simp: claim_query_def Let_def list_ex_iff split: list.split)
qed

lemma claim_overflow:
  assumes "stuck \<in> set (wd_jobs db)" "claimable env stuck" "32 \<le> jr_retry_count stuck"
  shows "claim_query env n db = Inl ''integer out of range''"
proof -
  have "(2::int) ^ 31 \<le> 2 ^ nat (max (jr_retry_count stuck - 1) 0)" using assms(3) by (intro power_increasing) auto
  then have "backoff_secs (jr_retry_count stuck) = None" by (simp add: backoff_secs_def Let_def)
  with assms show ?thesis by (auto simp: claim_query_def Let_def list_ex_iff)
qed

text \<open>The delay before the next attempt can always be computed if the limit on retries is at most 32, so that the claim of a job then only
  fails when the database does. Beyond, one waiting job with 32 failures makes every claim fail, since the
  power of two is cast to a 32-bit integer before it is compared with 300.\<close>

lemma claim_delay_computable:
  "(worker_reachable M s \<and> uint M \<le> 32 \<longrightarrow> (\<exists>found db. claim_query env n (ws_db s) = Inr (found, db)))
   \<and> (stuck \<in> set (wd_jobs db) \<and> claimable env stuck \<and> 32 \<le> jr_retry_count stuck \<longrightarrow>
      claim_query env n db = Inl ''integer out of range'')"
  using claim_computable claim_overflow by blast

section \<open>The outcome of a call\<close>

definition handed_on :: "uuid \<Rightarrow> JobRow \<Rightarrow> JobRow \<Rightarrow> bool" where
  "handed_on j r r' \<longleftrightarrow> (if jr_id r = j then jr_id r' = j \<and> jr_state r' = SandboxPending \<and> jr_retry_count r' = jr_retry_count r else r' = r)"

definition counted_failure :: "16 word \<Rightarrow> uuid \<Rightarrow> JobRow \<Rightarrow> JobRow \<Rightarrow> bool" where
  "counted_failure M j r r' \<longleftrightarrow>
     (if jr_id r = j then jr_id r' = j \<and> jr_retry_count r' = jr_retry_count r + 1
        \<and> jr_state r' = (if uint M \<le> jr_retry_count r + 1 then Failed else Queued)
      else r' = r)"

lemma list_all2_update:
  assumes "list_all2 R xs ys" "\<And>x y. R x y \<Longrightarrow> Q x (f y)"
  shows "list_all2 Q xs (map f ys)"
  using assms by (auto simp: list_all2_map2 elim: list_all2_mono)

lemma process_claimed_success:
  assumes "process_claimed_job env config claimed s = (Inr u, s')"
  shows "list_all2 (handed_on (aj_id (cj_job claimed))) (wd_jobs (ws_db s)) (wd_jobs (ws_db s'))"
proof -
  let ?j = "aj_id (cj_job claimed)"
  from assms obtain x s1 where before: "analyse_claimed_job env config claimed s = (Inr x, s1)"
    and after: "wd_jobs (ws_db s') = map (\<lambda>r. if jr_id r = ?j then r\<lparr>jr_state := SandboxPending, jr_updated_at := we_now env (ws_statements s1)\<rparr> else r) (wd_jobs (ws_db s1))"
    by (force simp: process_claimed_job_def Let_def wbind_Inr update_job_state_def emit_job_audit_event_def statement_Inr update_job_def split: prod.splits)
  have "works_on ?j (ws_db s) (ws_db s1)"
    using keeps_analyse [of claimed env config] before by (metis effects_def keeps_def snd_conv)
  then show ?thesis
    unfolding after by (intro list_all2_update [of "job_kept ?j"]) (auto simp: works_on_def job_kept_def handed_on_def)
qed

lemma mark_failure_counts:
  assumes "list_all2 (job_kept j) jobs (wd_jobs (ws_db s))" "mark_job_failure env j M s = (Inr u, s')"
  shows "list_all2 (counted_failure M j) jobs (wd_jobs (ws_db s'))"
proof -
  from assms(2) have "wd_jobs (ws_db s') = map (\<lambda>r. if jr_id r = j then r\<lparr>jr_retry_count := jr_retry_count r + 1,
         jr_state := (if jr_retry_count r + 1 \<ge> uint M then Failed else Queued), jr_updated_at := we_now env (ws_statements s)\<rparr> else r) (wd_jobs (ws_db s))"
    by (auto simp: mark_job_failure_def statement_Inr update_job_def split: if_splits)
  with assms(1) show ?thesis
    by (simp only:) (rule list_all2_update, assumption, auto simp: job_kept_def counted_failure_def)
qed

text \<open>C26: A call that has claimed a job and reached the database throughout leaves the job in one of two conditions: the call succeeds, and the
  job waits for the sandbox with its count of failures unchanged; or the call returns the error, the count is one higher, and
  the job is back in the queue, or failed if the count has reached the limit. No other job changes.\<close>

theorem claimed_job_settled:
  assumes claim: "claim_next_job env s = (Inr (Some claimed), s1)"
    and answered: "\<And>n. we_answer env n = Answered"
    and counts: "\<And>r. r \<in> set (wd_jobs (ws_db s1)) \<Longrightarrow> jr_retry_count r < 2 ^ 31 - 1"
    and ended: "process_next_analysis_job_with_pool env config s = (outcome, s')"
  shows "(outcome = Inr (Some (cj_job claimed)) \<and> list_all2 (handed_on (aj_id (cj_job claimed))) (wd_jobs (ws_db s1)) (wd_jobs (ws_db s')))
    \<or> ((\<exists>e. outcome = Inl e) \<and> list_all2 (counted_failure (wc_max_retries config) (aj_id (cj_job claimed))) (wd_jobs (ws_db s1)) (wd_jobs (ws_db s')))"
proof (cases rule: process_next_stages [of env s config])
  case (silent claimed' s1' e s2)
  then show ?thesis using answered by (simp add: fetching_event_def emit_job_audit_event_def statement_def Let_def)
next
  case (tried claimed' s1' s2 result s3)
  let ?j = "aj_id (cj_job claimed)"
  have same: "claimed' = claimed" "s1' = s1" using tried(1) claim by auto
  have jobs: "wd_jobs (ws_db s2) = wd_jobs (ws_db s1)" using fetching_event_db [OF tried(2)] same by simp
  have call: "finish_attempt env config (cj_job claimed) result s3 = (outcome, s')" using tried(4) ended same by simp
  show ?thesis
  proof (cases result)
    case (Inr u)
    with call process_claimed_success [of env config claimed s2 u s3] tried(3) same jobs show ?thesis
      by (auto simp: finish_attempt_def)
  next
    case (Inl e)
    have kept: "list_all2 (job_kept ?j) (wd_jobs (ws_db s1)) (wd_jobs (ws_db s3))"
      using process_effects [OF tried(3)] same jobs by (simp add: effects_def works_on_def)
    have "jr_retry_count r < 2 ^ 31 - 1" if "r \<in> set (wd_jobs (ws_db s3))" for r
      using kept counts that by (fastforce simp: list_all2_conv_all_nth in_set_conv_nth job_kept_def)
    then obtain s4 where m: "mark_job_failure env ?j (wc_max_retries config) s3 = (Inr (), s4)"
      using answered by (fastforce simp: mark_job_failure_def statement_def Let_def list_ex_iff)
    obtain q s5 where a: "emit_job_audit_event env (cj_job claimed)
        (if wc_max_retries config \<le> saturating_succ (aj_retry_count (cj_job claimed)) then ''analysis.job.failed'' else ''analysis.job.requeued'')
        (JObject [(''state'', JString (if wc_max_retries config \<le> saturating_succ (aj_retry_count (cj_job claimed)) then ''failed'' else ''queued'')),
          (''retry_count'', JNumber (of_nat (unat (saturating_succ (aj_retry_count (cj_job claimed))))))]) s4 = (q, s5)" by fastforce
    have "s' = s5" "\<exists>e. outcome = Inl e"
      using call m a Inl by (auto simp: finish_attempt_def wbind_def Let_def split: sum.splits)
    with mark_failure_counts [OF kept m] a show ?thesis using audit_db by (metis snd_conv)
  qed
next
  case (idle r s1')
  from idle(1) claim have "r = Inr (Some claimed)" by simp
  with idle(2) show ?thesis by blast
qed

section \<open>Jobs that are lost\<close>

text \<open>A call leaves every job alone that is not in the queue.\<close>

lemma works_on_others: "works_on j db db' \<Longrightarrow> r \<in> set (wd_jobs db) \<Longrightarrow> jr_id r \<noteq> j \<Longrightarrow> r \<in> set (wd_jobs db')"
  by (auto simp: works_on_def list_all2_conv_all_nth in_set_conv_nth job_kept_def)

lemma finish_attempt_others:
  assumes "r \<in> set (wd_jobs (ws_db s))" "jr_id r \<noteq> aj_id job"
  shows "r \<in> set (wd_jobs (ws_db (snd (finish_attempt env config job outcome s))))"
proof (cases outcome)
  case (Inl e)
  obtain m s1 where m: "mark_job_failure env (aj_id job) (wc_max_retries config) s = (m, s1)" by fastforce
  have "r \<in> set (wd_jobs (ws_db (snd (mark_job_failure env (aj_id job) (wc_max_retries config) s))))"
    using assms by (auto simp: mark_job_failure_def statement_def update_job_def Let_def intro: rev_image_eqI)
  then have s1: "r \<in> set (wd_jobs (ws_db s1))" using m by simp
  have audit: "r \<in> set (wd_jobs (ws_db s2))"
    if "emit_job_audit_event env job action metadata s1 = (q, s2)" for action metadata q s2
    using that s1 audit_db [of env job action metadata s1] by simp
  show ?thesis
    by (cases m) (simp_all add: finish_attempt_def Inl wbind_def m s1 Let_def wlift_def audit split: prod.split sum.split)
qed (use assms in \<open>simp add: finish_attempt_def wlift_def\<close>)

lemma claims_others: "claims row db db' \<Longrightarrow> r \<in> set (wd_jobs db) \<Longrightarrow> jr_id r \<noteq> jr_id row \<Longrightarrow> r \<in> set (wd_jobs db')"
  by (auto simp: claims_def update_job_def intro: rev_image_eqI)

lemma unqueued_untouched:
  assumes "distinct (map jr_id (wd_jobs (ws_db s)))" "r \<in> set (wd_jobs (ws_db s))" "jr_state r \<noteq> Queued"
  shows "r \<in> set (wd_jobs (ws_db (snd (process_next_analysis_job_with_pool env config s))))"
proof -
  have other: "jr_id r \<noteq> jr_id row" if "claims row (ws_db s) db" for row db
    using that assms by (auto simp: claims_def distinct_map inj_on_def)
  have claimed: "r \<in> set (wd_jobs (ws_db s1))" if "claim_next_job env s = (q, s1)" for q s1
    using claim_next_job_state [of env s] claim_query_cases [OF refl, of env s] that assms(2) other claims_others
    by (fastforce simp: same_data_def)
  show ?thesis
  proof (cases rule: process_next_stages [of env s config])
    case (idle q s1)
    then show ?thesis using claimed by blast
  next
    case (silent claimed' s1 e s2)
    then show ?thesis using claimed [OF silent(1)] fetching_event_db [OF silent(2)] by simp
  next
    case (tried claimed' s1 s2 outcome s3)
    obtain row where row: "claims row (ws_db s) (ws_db s1)" "aj_id (cj_job claimed') = jr_id row"
      using claim_next_job_Some [OF tried(1)] by metis
    have "r \<in> set (wd_jobs (ws_db s2))" using claimed [OF tried(1)] fetching_event_db [OF tried(2)] by simp
    then have "r \<in> set (wd_jobs (ws_db s3))"
      using process_effects [OF tried(3)] other [OF row(1)] row(2) works_on_others by (auto simp: effects_def)
    then show ?thesis using tried(4) finish_attempt_others other [OF row(1)] row(2) by simp
  qed
qed

definition without_registry :: "worker_db \<Rightarrow> JobRow \<Rightarrow> bool" where
  "without_registry db row \<longleftrightarrow> \<not> list_ex (\<lambda>r. rr_tenant_id r = jr_tenant_id row \<and> Some (rr_id r) = jr_registry_config_id row
     \<and> rr_enabled r \<and> rr_deleted_at r = None) (wd_registries db)"

lemma registry_query_missing:
  assumes "without_registry db row" "jr_registry_config_id row = Some i" "wd_registries db' = wd_registries db"
  shows "\<exists>e. registry_query (jr_tenant_id row) i db' = Inl e"
proof -
  have "List.find (\<lambda>r. rr_tenant_id r = jr_tenant_id row \<and> rr_id r = i \<and> rr_enabled r \<and> rr_deleted_at r = None) (wd_registries db) = None"
    using assms(1,2) by (auto simp: without_registry_def find_None_iff list_ex_iff)
  then show ?thesis by (simp add: registry_query_def assms(3))
qed

lemma claim_fails_without_registry:
  assumes "claim_query env (ws_statements s) (ws_db s) = Inr (Some row, db)" "we_answer env (ws_statements s) = Answered"
    and "without_registry (ws_db s) row"
  shows "\<exists>e s1. claim_next_job env s = (Inl e, s1) \<and> ws_db s1 = db"
proof -
  let ?s1 = "s\<lparr>ws_statements := ws_statements s + 1, ws_db := db\<rparr>"
  have c: "statement env (claim_query env) s = (Inr (Some row), ?s1)" using assms(1,2) by (simp add: statement_Inr)
  have db: "ws_db (snd (claim_next_job env s)) = db"
    using claim_next_job_state [of env s] c by (simp add: same_data_def)
  have reg: "wd_registries db = wd_registries (ws_db s)"
    using claim_query_Inr [OF assms(1)] by (auto simp: claims_def update_job_def)
  have "\<exists>e. fst (statement env (\<lambda>_. registry_query (jr_tenant_id row) i) ?s1) = Inl e" if "jr_registry_config_id row = Some i" for i
    using registry_query_missing [OF assms(3) that, of db] reg by (auto simp: statement_def Let_def)
  then have "\<exists>e. fst (claim_next_job env s) = Inl e"
    using c by (auto simp: claim_next_job_def wbind_def wlift_def ok_or_def map_err_def split: option.split sum.split prod.split)
  with db show ?thesis by (metis prod.collapse)
qed

text \<open>A sequence of calls of the worker.\<close>

fun later_calls :: "(worker_env \<times> WorkerConfig) list \<Rightarrow> worker_state \<Rightarrow> worker_state" where
  "later_calls [] s = s"
| "later_calls ((env, config) # calls) s = later_calls calls (snd (process_next_analysis_job_with_pool env config s))"

lemma unqueued_stays:
  assumes "worker_reachable M s" "r \<in> set (wd_jobs (ws_db s))" "jr_state r \<noteq> Queued"
    and "list_all (\<lambda>(env, config). wc_max_retries config = M) calls"
  shows "r \<in> set (wd_jobs (ws_db (later_calls calls s)))"
  using assms
proof (induction calls s rule: later_calls.induct)
  case (2 env config calls s)
  have "distinct (map jr_id (wd_jobs (ws_db s)))" using worker_reachable_jobs_ok [OF 2(2)] by (simp add: jobs_ok_def)
  with 2 show ?case by (simp add: unqueued_untouched worker_reachable.run)
qed simp

text \<open>C27: A job whose registry configuration is missing, disabled or deleted is lost when it is claimed: the call fails after the job has been moved
  to fetching and before failures are counted, and no sequence of later calls of the worker, whatever the answers of the database, changes the
  job or counts a failure for it.\<close>

theorem job_lost_without_registry:
  assumes "worker_reachable M s" "wc_max_retries config = M"
    and lost: "claim_query env (ws_statements s) (ws_db s) = Inr (Some row, db)" "we_answer env (ws_statements s) = Answered" "without_registry (ws_db s) row"
  shows "\<exists>e s'. process_next_analysis_job_with_pool env config s = (Inl e, s') \<and> jr_state row = Fetching
    \<and> (\<forall>calls. list_all (\<lambda>(env, config). wc_max_retries config = M) calls \<longrightarrow> row \<in> set (wd_jobs (ws_db (later_calls calls s'))))"
proof -
  obtain e s1 where claim: "claim_next_job env s = (Inl e, s1)" "ws_db s1 = db" using claim_fails_without_registry [OF lost] by blast
  then have call: "process_next_analysis_job_with_pool env config s = (Inl e, s1)"
    by (simp add: process_next_analysis_job_with_pool_def wbind_def)
  then have "worker_reachable M s1" using worker_reachable.run [OF assms(1,2), of env] by simp
  moreover have "jr_state row = Fetching" "row \<in> set (wd_jobs (ws_db s1))"
    using claimed_row_stored [OF lost(1)] claim(2) by simp_all
  ultimately show ?thesis using call unqueued_stays by fastforce
qed

section \<open>Requests\<close>


section \<open>Concrete runs\<close>

definition demo_job_row :: JobRow where
  "demo_job_row = \<lparr>jr_id = 1, jr_tenant_id = 7, jr_registry_config_id = Some 3, jr_policy_version_id = 9, jr_ecosystem = ''npm'',
     jr_namespace = None, jr_package_name = ''lodash'', jr_package_version = Some ''4.17.21'', jr_artifact_sha256 = replicate 64 CHR ''a'',
     jr_source_url = Some ''https://r.example/lodash.tgz'', jr_state = Queued, jr_retry_count = 0, jr_trace_id = ''t'', jr_artifact_id = None,
     jr_created_at = 10, jr_updated_at = 10\<rparr>"

definition demo_registry_row :: RegistryRow where
  "demo_registry_row = \<lparr>rr_id = 3, rr_tenant_id = 7, rr_upstream_url = ''https://r.example'', rr_auth_type = ''none'', rr_verify_upstream_tls = True,
     rr_credential_ref = None, rr_enabled = True, rr_deleted_at = None\<rparr>"

definition demo_db :: "RegistryRow list \<Rightarrow> worker_state" where
  "demo_db registries = \<lparr>ws_db = \<lparr>wd_jobs = [demo_job_row], wd_registries = registries, wd_credentials = [], wd_artifacts = [], wd_artifact_files = [],
       wd_reports = [], wd_fragments = [], wd_audit = []\<rparr>, ws_files = Map.empty, ws_requests = [], ws_statements = 0\<rparr>"

definition refusing_env :: "worker_env" where
  "refusing_env = \<lparr>we_lib = demo_worker_lib, we_answer = (\<lambda>_. Answered), we_now = (\<lambda>n. 20), we_fresh = (\<lambda>n. of_nat n), we_locked = (\<lambda>_. False),
     we_http = (\<lambda>_. Inl ''connection refused''), we_create_dir_all = (\<lambda>_. None), we_write = (\<lambda>_ _. None), we_tempdir = Inr ''/tmp/x'',
     we_scan_lib = demo_lib, we_unpack_env = \<lparr>ue_io = (\<lambda>_ _. None), ue_tar = (\<lambda>_. Inr []), ue_zip = (\<lambda>_. Inr []), ue_tree = (\<lambda>_. []),
       ue_hex_sha256 = (\<lambda>_. replicate 64 CHR ''a''), ue_analyzer_version = ''1''\<rparr>, we_scan_end = ScanFinished\<rparr>"

definition demo_config :: WorkerConfig where
  "demo_config = \<lparr>wc_database_url = ''postgres'', wc_artifact_store_dir = ''/store'', wc_max_retries = 3, wc_scan_limits = default_scan_limits,
     wc_scan_timeout_secs = 300\<rparr>"

definition demo_claimed :: ClaimedJob where
  "demo_claimed = \<lparr>cj_job = \<lparr>aj_id = 1, aj_tenant_id = 7, aj_registry_config_id = 3,
       aj_coordinate = coordinate_new Npm ''lodash'' (Some ''4.17.21'') None, aj_artifact_digest = sample_digest,
       aj_source_url = ''https://r.example/lodash.tgz'', aj_policy_snapshot_id = 9, aj_state = Fetching, aj_retry_count = 0, aj_trace_id = ''t'',
       aj_created_at = 10, aj_updated_at = 20\<rparr>, cj_upstream_url = ''https://r.example'', cj_auth_type = AuthNone, cj_credential_env_var = None,
     cj_verify_upstream_tls = True\<rparr>"

definition demo_claimed_state :: worker_state where
  "demo_claimed_state = (demo_db [demo_registry_row])\<lparr>ws_statements := 2,
     ws_db := (ws_db (demo_db [demo_registry_row]))\<lparr>wd_jobs := [demo_job_row\<lparr>jr_state := Fetching, jr_updated_at := 20\<rparr>]\<rparr>\<rparr>"

lemma demo_claim: "claim_next_job refusing_env (demo_db [demo_registry_row]) = (Inr (Some demo_claimed), demo_claimed_state)"
proof -
  have "digest_sha256 (replicate 64 CHR ''a'') = Inr sample_digest" "ecosystem_from_str ''npm'' = Inr Npm" by code_simp+
  then show ?thesis
    by (simp add: claim_next_job_def wbind_def wlift_def statement_def claim_query_def claimable_def due_def refusing_env_def demo_db_def
        demo_job_row_def demo_registry_row_def registry_query_def registry_auth_type_from_db_def demo_claimed_def demo_claimed_state_def Let_def)
qed

lemma demo_reachable: "worker_reachable 3 (demo_db [demo_registry_row])"
proof -
  let ?s = "demo_db [demo_registry_row]"
  let ?s0 = "?s\<lparr>ws_db := (ws_db ?s)\<lparr>wd_jobs := []\<rparr>\<rparr>"
  have "worker_reachable 3 ?s0" by (rule worker_reachable.start) (simp add: demo_db_def)
  then have "worker_reachable 3 (?s0\<lparr>ws_db := (ws_db ?s0)\<lparr>wd_jobs := wd_jobs (ws_db ?s0) @ [demo_job_row]\<rparr>\<rparr>)"
    by (rule worker_reachable.enqueue) (simp_all add: demo_job_row_def demo_db_def)
  then show ?thesis by (simp add: demo_db_def)
qed

theorem job_retries_bounded_witness:
  "worker_reachable 3 (snd (process_next_analysis_job_with_pool refusing_env demo_config (demo_db [demo_registry_row])))
   \<and> distinct (map jr_id (wd_jobs (ws_db (demo_db [demo_registry_row])))) \<and> jr_retry_count demo_job_row < 3"
  using job_retries_bounded [OF demo_reachable, of demo_job_row] worker_reachable.run [OF demo_reachable, of demo_config refusing_env]
  by (simp add: demo_db_def demo_config_def) (simp add: demo_job_row_def with_worker_def)

lemma claim_delay_computable_witness:
  "(\<exists>found db. claim_query refusing_env 0 (ws_db (demo_db [demo_registry_row])) = Inr (found, db))
   \<and> claim_query refusing_env 0 ((ws_db (demo_db []))\<lparr>wd_jobs := [demo_job_row, demo_job_row\<lparr>jr_id := 2, jr_retry_count := 32\<rparr>]\<rparr>)
       = Inl ''integer out of range''"
  using claim_delay_computable [of 3 "demo_db [demo_registry_row]" refusing_env 0 "demo_job_row\<lparr>jr_id := 2, jr_retry_count := 32\<rparr>"
      "(ws_db (demo_db []))\<lparr>wd_jobs := [demo_job_row, demo_job_row\<lparr>jr_id := 2, jr_retry_count := 32\<rparr>]\<rparr>"] demo_reachable
  by (simp add: claimable_def refusing_env_def) (simp add: demo_job_row_def)

lemma demo_process:
  "process_claimed_job refusing_env demo_config demo_claimed s = (Inl ''connection refused'', s\<lparr>ws_requests := ws_requests s @ [(demo_url, None, False)]\<rparr>)"
proof -
  have lib: "we_lib refusing_env = demo_worker_lib" "we_http refusing_env r = Inl ''connection refused''" for r by (simp_all add: refusing_env_def)
  have "wl_parse_url demo_worker_lib ''https://r.example/lodash.tgz'' = Some demo_url" by (simp add: demo_worker_lib_def)
  then have "fetch_artifact_bytes refusing_env demo_claimed s = (Inl ''connection refused'', s\<lparr>ws_requests := ws_requests s @ [(demo_url, None, False)]\<rparr>)"
    by (simp add: fetch_artifact_bytes_def wbind_def wlift_def upstream_authorization_value_def lib demo_claimed_def Let_def)
  moreover have "validate_source_url demo_worker_lib ''https://r.example'' ''https://r.example/lodash.tgz'' = Inr ()" by code_simp
  moreover have "cj_upstream_url demo_claimed = ''https://r.example''" "aj_source_url (cj_job demo_claimed) = ''https://r.example/lodash.tgz''"
    by (simp_all add: demo_claimed_def)
  ultimately show ?thesis
    by (simp add: process_claimed_job_def analyse_claimed_job_def wbind_def wlift_def Let_def lib)
qed

lemma demo_state_simps [simp]:
  "we_answer refusing_env n = Answered" "ws_requests demo_claimed_state = []"
  by (simp_all add: refusing_env_def demo_claimed_state_def demo_db_def)

lemma demo_call:
  "\<exists>s1. process_next_analysis_job_with_pool refusing_env demo_config (demo_db [demo_registry_row]) =
     finish_attempt refusing_env demo_config (cj_job demo_claimed) (Inl ''connection refused'') s1 \<and> ws_requests s1 = [(demo_url, None, False)]"
proof -
  obtain s2 where "fetching_event refusing_env (cj_job demo_claimed) demo_claimed_state = (Inr (), s2)"
    by (simp add: fetching_event_def emit_job_audit_event_def statement_def Let_def)
  then show ?thesis
    using fetching_event_db [of refusing_env "cj_job demo_claimed" demo_claimed_state "Inr ()" s2]
    by (simp add: process_next_analysis_job_with_pool_def demo_claim wbind_def demo_process) fastforce
qed

theorem claimed_job_settled_witness:
  "\<exists>e s'. process_next_analysis_job_with_pool refusing_env demo_config (demo_db [demo_registry_row]) = (Inl e, s')
     \<and> list_all2 (counted_failure 3 1) [demo_job_row\<lparr>jr_state := Fetching, jr_updated_at := 20\<rparr>] (wd_jobs (ws_db s'))"
proof -
  obtain outcome s' where call: "process_next_analysis_job_with_pool refusing_env demo_config (demo_db [demo_registry_row]) = (outcome, s')"
    by fastforce
  have "\<exists>e. outcome = Inl e"
    using call demo_call
    by (auto simp: finish_attempt_def wbind_def wlift_def mark_job_failure_def emit_job_audit_event_def statement_def Let_def
        split: sum.splits prod.splits if_splits)
  with claimed_job_settled [OF demo_claim _ _ call] call show ?thesis
    by (auto simp: refusing_env_def demo_claimed_state_def demo_job_row_def demo_claimed_def demo_config_def)
qed


theorem job_lost_without_registry_witness:
  "\<exists>e s'. process_next_analysis_job_with_pool refusing_env demo_config (demo_db []) = (Inl e, s')
     \<and> demo_job_row\<lparr>jr_state := Fetching, jr_updated_at := 20\<rparr> \<in>
         set (wd_jobs (ws_db (later_calls [(refusing_env, demo_config), (refusing_env, demo_config)] s')))"
proof -
  let ?row = "demo_job_row\<lparr>jr_state := Fetching, jr_updated_at := 20\<rparr>"
  have q: "claim_query refusing_env (ws_statements (demo_db [])) (ws_db (demo_db [])) = Inr (Some ?row, (ws_db (demo_db []))\<lparr>wd_jobs := [?row]\<rparr>)"
    by (simp add: claim_query_def claimable_def due_def refusing_env_def demo_db_def demo_job_row_def Let_def)
  have "worker_reachable 3 ((demo_db [demo_registry_row])\<lparr>ws_db := (ws_db (demo_db [demo_registry_row]))\<lparr>wd_registries := [], wd_credentials := []\<rparr>\<rparr>)"
    by (rule worker_reachable.configure [OF demo_reachable])
  then have r: "worker_reachable 3 (demo_db [])" by (simp add: demo_db_def)
  have c: "wc_max_retries demo_config = 3" by (simp add: demo_config_def)
  have w: "we_answer refusing_env (ws_statements (demo_db [])) = Answered" "without_registry (ws_db (demo_db [])) ?row"
    by (simp_all add: without_registry_def demo_db_def)
  have l: "list_all (\<lambda>(env, config). wc_max_retries config = 3) [(refusing_env, demo_config), (refusing_env, demo_config)]"
    by (simp add: c)
  from job_lost_without_registry [OF r c q w] l show ?thesis by blast
qed

end
