(* ===== verification/Worker_Reports.thy ===== *)
theory Worker_Reports
  imports Worker_Lifecycle
begin

text \<open>
  What a successful analysis leaves behind: the artifact in the content-addressed store, its row, the report and the fragment of
  the package, and that the SBOM service generates a document from that fragment.
\<close>

section \<open>Storage paths\<close>

lemma extension_no_slash: "extension_str p = Some ext \<Longrightarrow> CHR ''/'' \<notin> set ext"
proof -
  assume e: "extension_str p = Some ext"
  then obtain name where name: "path_file_name p = Some name" "file_extension name = Some ext"
    by (cases "path_file_name p") (auto simp: extension_str_def opt_filter_def split: option.splits if_splits)
  have "Normal name \<in> set (path_components p)"
    using name(1) by (auto simp: path_file_name_def split: list.splits path_component.splits)
  then have "name \<in> set (split_on CHR ''/'' p)"
    by (auto simp: path_components_def segment_component_def split: if_splits)
  then have "CHR ''/'' \<notin> set name" by (rule split_on_no_sep)
  moreover have "set ext \<subseteq> set name"
    using name(2) by (auto simp: file_extension_def rsplit_once_def split: option.splits if_splits dest!: split_once_Some [THEN iffD1] arg_cong [of _ _ set])
  ultimately show ?thesis by blast
qed

lemma path_push_relative:
  "\<not> is_absolute t \<Longrightarrow> path_push base t = base @ (if base = [] \<or> last base = CHR ''/'' then [] else ''/'') @ t"
  by (simp add: path_push_def)

lemma no_slash_relative: "CHR ''/'' \<notin> set t \<Longrightarrow> \<not> is_absolute t"
  by (cases t) (auto simp: is_absolute_def)

lemma artifact_path_not_report_path:
  assumes "CHR ''/'' \<notin> set digest" "CHR ''/'' \<notin> set h"
  shows "artifact_storage_path lib dir tenant_id digest file_name \<noteq> static_report_storage_path lib dir tenant_id h"
proof
  define base where "base = path_push dir (wl_show_uuid lib tenant_id)"
  define tail where "tail = digest @ unwrap_or [] (map_option (\<lambda>ext. ''.'' @ ext) (extension_str file_name))"
  have tail: "CHR ''/'' \<notin> set tail"
    using assms(1) extension_no_slash [of file_name] by (cases "extension_str file_name") (auto simp: tail_def)
  have report: "path_push (path_push base ''static-reports'') (h @ ''.json'') = path_push base (''static-reports/'' @ h @ ''.json'')"
    using assms(2) no_slash_relative [of "h @ ''.json''"] by (simp add: path_push_relative is_absolute_def)
  assume "artifact_storage_path lib dir tenant_id digest file_name = static_report_storage_path lib dir tenant_id h"
  then have "path_push base tail = path_push base (''static-reports/'' @ h @ ''.json'')"
    unfolding artifact_storage_path_def static_report_storage_path_def Let_def base_def [symmetric] tail_def [symmetric] report .
  then have "tail = ''static-reports/'' @ h @ ''.json''"
    by (simp add: path_push_relative [OF no_slash_relative [OF tail]] path_push_relative is_absolute_def)
  with tail show False by simp
qed

section \<open>The steps\<close>

lemma externalize_Inr:
  assumes "maybe_externalize_static_report env dir tenant_id report_json s = (Inr x, s')"
  shows "ws_db s' = ws_db s \<and> (\<forall>p. ws_files s' p = ws_files s p
    \<or> (\<exists>bytes. p = static_report_storage_path (we_lib env) dir tenant_id (hex_sha256 (we_lib env) bytes)))"
  using assms
  by (auto simp: maybe_externalize_static_report_def create_parent_def Let_def worker_Inr split: if_splits)

lemma insert_files_Inr:
  "insert_artifact_files env i manifest s = (Inr u, s') \<Longrightarrow> ws_files s' = ws_files s
     \<and> (\<exists>rows. ws_db s' = (ws_db s)\<lparr>wd_artifact_files := rows\<rparr>)"
proof (induction manifest arbitrary: s)
  case Nil
  then have "s' = s" by simp
  moreover have "ws_db s = (ws_db s)\<lparr>wd_artifact_files := wd_artifact_files (ws_db s)\<rparr>" by simp
  ultimately show ?case by metis
next
  case (Cons entry manifest)
  let ?s1 = "s\<lparr>ws_statements := ws_statements s + 1, ws_db := (ws_db s)\<lparr>wd_artifact_files := wd_artifact_files (ws_db s)
    @ [\<lparr>af_artifact_id = i, af_entry = entry\<rparr>]\<rparr>\<rparr>"
  have "insert_artifact_files env i manifest ?s1 = (Inr u, s')"
    using Cons.prems by (auto simp: worker_Inr split: if_splits)
  from Cons.IH [OF this] show ?case by auto
qed

lemma upsert_artifact_row:
  assumes "upsert_artifact fresh job n uri db = (i, db')"
  shows "\<exists>row \<in> set (wd_artifacts db'). ar_id row = i \<and> ar_tenant_id row = aj_tenant_id job \<and> ar_sha256 row = dg_hex (aj_artifact_digest job)
      \<and> ar_size_bytes row = n \<and> ar_storage_uri row = uri"
    and "wd_reports db' = wd_reports db" "wd_fragments db' = wd_fragments db"
proof -
  let ?same = "\<lambda>r. ar_tenant_id r = aj_tenant_id job \<and> ar_sha256 r = dg_hex (aj_artifact_digest job)"
  have "(\<exists>row \<in> set (wd_artifacts db'). ar_id row = i \<and> ar_tenant_id row = aj_tenant_id job \<and> ar_sha256 row = dg_hex (aj_artifact_digest job)
      \<and> ar_size_bytes row = n \<and> ar_storage_uri row = uri) \<and> wd_reports db' = wd_reports db \<and> wd_fragments db' = wd_fragments db"
  proof (cases "List.find ?same (wd_artifacts db)")
    case None
    with assms show ?thesis by (auto simp: upsert_artifact_def Let_def)
  next
    case (Some row)
    then have row: "row \<in> set (wd_artifacts db)" "?same row" by (auto simp: find_Some_iff)
    define g where "g r = (if ?same r then r\<lparr>ar_ecosystem := ecosystem_display (pc_ecosystem (aj_coordinate job)), ar_namespace := pc_namespace (aj_coordinate job),
            ar_package_name := pc_name (aj_coordinate job), ar_package_version := pc_version (aj_coordinate job),
            ar_size_bytes := n, ar_storage_uri := uri\<rparr> else r)" for r :: ArtifactRow
    have "i = ar_id row" "db' = db\<lparr>wd_artifacts := map g (wd_artifacts db)\<rparr>"
      using assms Some by (auto simp: upsert_artifact_def Let_def g_def [abs_def])
    with row show ?thesis by (auto intro!: bexI [of _ "g row"] simp: g_def)
  qed
  then show "\<exists>row \<in> set (wd_artifacts db'). ar_id row = i \<and> ar_tenant_id row = aj_tenant_id job \<and> ar_sha256 row = dg_hex (aj_artifact_digest job)
      \<and> ar_size_bytes row = n \<and> ar_storage_uri row = uri"
    and "wd_reports db' = wd_reports db" "wd_fragments db' = wd_fragments db" by auto
qed

lemma upsert_fragment_row:
  shows "filter (\<lambda>f. sf_analysis_job_id f = aj_id job) (wd_fragments db) = [] \<Longrightarrow>
    \<exists>f. filter (\<lambda>f. sf_analysis_job_id f = aj_id job) (wd_fragments (upsert_fragment fresh now job i fragment db)) = [f]
      \<and> sf_analysis_job_id f = aj_id job \<and> sf_tenant_id f = aj_tenant_id job \<and> sf_fragment f = fragment \<and> sf_artifact_id f = i"
    and "wd_reports (upsert_fragment fresh now job i fragment db) = wd_reports db"
    and "wd_artifacts (upsert_fragment fresh now job i fragment db) = wd_artifacts db"
proof -
  assume none: "filter (\<lambda>f. sf_analysis_job_id f = aj_id job) (wd_fragments db) = []"
  then have "\<not> list_ex (\<lambda>f. sf_analysis_job_id f = aj_id job \<and> sf_artifact_id f = i) (wd_fragments db)" by (auto simp: list_ex_iff filter_empty_conv)
  with none show "\<exists>f. filter (\<lambda>f. sf_analysis_job_id f = aj_id job) (wd_fragments (upsert_fragment fresh now job i fragment db)) = [f]
      \<and> sf_analysis_job_id f = aj_id job \<and> sf_tenant_id f = aj_tenant_id job \<and> sf_fragment f = fragment \<and> sf_artifact_id f = i"
    by (simp add: upsert_fragment_def Let_def)
qed (simp_all add: upsert_fragment_def Let_def)

text \<open>The rows of a successful analysis.\<close>

lemma persist_rows:
  assumes "persist_static_report env claimed dir uri n report manifest s = (Inr u, s')"
  obtains i where "\<exists>row \<in> set (wd_artifacts (ws_db s')). ar_id row = i \<and> ar_tenant_id row = aj_tenant_id (cj_job claimed)
      \<and> ar_sha256 row = dg_hex (aj_artifact_digest (cj_job claimed)) \<and> ar_size_bytes row = n \<and> ar_storage_uri row = uri"
    and "\<exists>row. wd_reports (ws_db s') = wd_reports (ws_db s) @ [row] \<and> sr_analysis_job_id row = aj_id (cj_job claimed) \<and> sr_artifact_id row = i
      \<and> sr_policy_version_id row = aj_policy_snapshot_id (cj_job claimed) \<and> sr_report row = static_evidence_json report"
    and "filter (\<lambda>f. sf_analysis_job_id f = aj_id (cj_job claimed)) (wd_fragments (ws_db s)) = [] \<Longrightarrow>
      \<exists>f. filter (\<lambda>f. sf_analysis_job_id f = aj_id (cj_job claimed)) (wd_fragments (ws_db s')) = [f] \<and> sf_analysis_job_id f = aj_id (cj_job claimed)
        \<and> sf_tenant_id f = aj_tenant_id (cj_job claimed) \<and> sf_artifact_id f = i
        \<and> sf_fragment f = package_sbom_fragment_json (aj_coordinate (cj_job claimed)) (aj_artifact_digest (cj_job claimed))"
    and "\<forall>p. ws_files s' p = ws_files s p
      \<or> (\<exists>bytes. p = static_report_storage_path (we_lib env) dir (aj_tenant_id (cj_job claimed)) (hex_sha256 (we_lib env) bytes))"
proof -
  let ?job = "cj_job claimed"
  from assms obtain x s1 s2 i db2 s4 n2 n3 now where
    ext: "maybe_externalize_static_report env dir (aj_tenant_id ?job) (static_evidence_json report) (s\<lparr>ws_statements := ws_statements s + 1\<rparr>) = (Inr x, s1)"
    and up: "upsert_artifact (we_fresh env n2) ?job n uri (ws_db s1) = (i, db2)"
    and files: "insert_artifact_files env i manifest s2 = (Inr (), s4)"
      "ws_db s2 = db2\<lparr>wd_artifact_files := filter (\<lambda>r. af_artifact_id r \<noteq> i) (wd_artifact_files db2)\<rparr>" "ws_files s2 = ws_files s1"
    and final: "ws_db s' = update_job (aj_id ?job) (\<lambda>r. r\<lparr>jr_artifact_id := Some i, jr_updated_at := now\<rparr>)
        (upsert_fragment (we_fresh env n3) (we_now env n3) ?job i (package_sbom_fragment_json (aj_coordinate ?job) (aj_artifact_digest ?job))
          ((ws_db s4)\<lparr>wd_reports := wd_reports (ws_db s4) @ [\<lparr>sr_analysis_job_id = aj_id ?job, sr_artifact_id = i,
             sr_policy_version_id = aj_policy_snapshot_id ?job, sr_embedding = static_report_embedding_literal (we_lib env) report,
             sr_report = static_evidence_json report, sr_external = x\<rparr>]\<rparr>))" "ws_files s' = ws_files s4"
    by (auto simp: persist_static_report_def validated_static_report_json_def i64_from_def Let_def worker_Inr split: if_splits option.splits)
  from externalize_Inr [OF ext] have s1: "ws_db s1 = ws_db s" "\<forall>p. ws_files s1 p = ws_files s p
      \<or> (\<exists>bytes. p = static_report_storage_path (we_lib env) dir (aj_tenant_id ?job) (hex_sha256 (we_lib env) bytes))" by auto
  obtain rows where s4: "ws_files s4 = ws_files s1" "ws_db s4 = db2\<lparr>wd_artifact_files := rows\<rparr>"
    using insert_files_Inr [OF files(1)] files(2,3) by auto
  note row = upsert_artifact_row [OF up]
  show thesis
  proof (rule that [of i])
    show "\<forall>p. ws_files s' p = ws_files s p
      \<or> (\<exists>bytes. p = static_report_storage_path (we_lib env) dir (aj_tenant_id ?job) (hex_sha256 (we_lib env) bytes))"
      using s1(2) s4(1) final(2) by simp
    show "\<exists>f. filter (\<lambda>f. sf_analysis_job_id f = aj_id ?job) (wd_fragments (ws_db s')) = [f] \<and> sf_analysis_job_id f = aj_id ?job
        \<and> sf_tenant_id f = aj_tenant_id ?job \<and> sf_artifact_id f = i
        \<and> sf_fragment f = package_sbom_fragment_json (aj_coordinate ?job) (aj_artifact_digest ?job)"
      if "filter (\<lambda>f. sf_analysis_job_id f = aj_id ?job) (wd_fragments (ws_db s)) = []"
      unfolding final(1)
      using upsert_fragment_row(1) [of ?job "(ws_db s4)\<lparr>wd_reports := wd_reports (ws_db s4) @ [\<lparr>sr_analysis_job_id = aj_id ?job, sr_artifact_id = i,
             sr_policy_version_id = aj_policy_snapshot_id ?job, sr_embedding = static_report_embedding_literal (we_lib env) report,
             sr_report = static_evidence_json report, sr_external = x\<rparr>]\<rparr>"
          "we_fresh env n3" "we_now env n3" i "package_sbom_fragment_json (aj_coordinate ?job) (aj_artifact_digest ?job)"] that row s1(1) s4(2)
      by (auto simp: update_job_def)
  qed (use row s1(1) s4(2) final(1) in \<open>simp_all add: update_job_def upsert_fragment_row(2,3)\<close>)
qed

lemma fetch_keeps_db: "fetch_artifact_bytes env claimed s = (outcome, s') \<Longrightarrow> ws_db s' = ws_db s"
proof -
  have "ws_db (snd (fetch_artifact_bytes env claimed s)) = ws_db s"
    by (auto simp: fetch_artifact_bytes_def wbind_def wlift_def Let_def split: sum.split prod.split)
  then show "fetch_artifact_bytes env claimed s = (outcome, s') \<Longrightarrow> ws_db s' = ws_db s" by simp
qed

lemma store_Inr:
  assumes "store_artifact env config claimed (bytes, file_name) s = (Inr uri, s')"
  defines "path \<equiv> artifact_storage_path (we_lib env) (wc_artifact_store_dir config) (aj_tenant_id (cj_job claimed)) (dg_hex (aj_artifact_digest (cj_job claimed))) file_name"
  shows "hex_sha256 (we_lib env) bytes = dg_hex (aj_artifact_digest (cj_job claimed))" "ws_db s' = ws_db s" "ws_files s' path = Some bytes"
    "wl_from_file_path (we_lib env) path = Some uri"
  using assms
  by (auto simp: store_artifact_def create_parent_def worker_storage_uri_def ok_or_def Let_def worker_Inr split: if_splits option.splits)

lemma scan_Inr:
  assumes "scan_stored_artifact env config job (bytes, file_name) s = (Inr (report, manifest), s')"
  shows "s' = s \<and> (\<exists>scan_input unpack_dir.
    fst (scan_artifact_package (we_scan_lib env) (we_unpack_env env) scan_input (Inr bytes) unpack_dir (wc_scan_limits config)) = Inr (report, manifest))"
  using assms
  by (cases "we_scan_end env")
    (auto simp: scan_stored_artifact_def emit_job_audit_event_def map_err_Inr Let_def wbind_Inr split: option.splits dest!: sym [of "Inr _" "map_err _ _"], blast)

lemma analysis_stages:
  assumes "process_claimed_job env config claimed s = (Inr u, s')"
  obtains bytes file_name uri report manifest s1 s2 s4 s5 scan_input unpack_dir where
    "fetch_artifact_bytes env claimed s = (Inr (bytes, file_name), s1)" "store_artifact env config claimed (bytes, file_name) s1 = (Inr uri, s2)"
    "fst (scan_artifact_package (we_scan_lib env) (we_unpack_env env) scan_input (Inr bytes) unpack_dir (wc_scan_limits config)) = Inr (report, manifest)"
    "ws_files s4 = ws_files s2" "wd_reports (ws_db s4) = wd_reports (ws_db s)" "wd_fragments (ws_db s4) = wd_fragments (ws_db s)"
    "persist_static_report env claimed (wc_artifact_store_dir config) uri (length bytes) report manifest s4 = (Inr (), s5)"
    "ws_files s' = ws_files s5" "wd_reports (ws_db s') = wd_reports (ws_db s5)" "wd_fragments (ws_db s') = wd_fragments (ws_db s5)"
    "wd_artifacts (ws_db s') = wd_artifacts (ws_db s5)"
proof -
  from assms obtain x s5 where before: "analyse_claimed_job env config claimed s = (Inr x, s5)"
    and after: "ws_files s' = ws_files s5" "wd_reports (ws_db s') = wd_reports (ws_db s5)" "wd_fragments (ws_db s') = wd_fragments (ws_db s5)"
      "wd_artifacts (ws_db s') = wd_artifacts (ws_db s5)"
    by (force simp: process_claimed_job_def update_job_state_def emit_job_audit_event_def update_job_def Let_def wbind_Inr statement_Inr split: prod.splits)
  from before obtain bytes file_name s1 uri s2 s3 report manifest s3' s4 where
    stages: "fetch_artifact_bytes env claimed s = (Inr (bytes, file_name), s1)" "store_artifact env config claimed (bytes, file_name) s1 = (Inr uri, s2)"
      "update_job_state env (aj_id (cj_job claimed)) StaticRunning s2 = (Inr (), s3)"
      "scan_stored_artifact env config (cj_job claimed) (bytes, file_name) s3 = (Inr (report, manifest), s3')"
      "update_job_state env (aj_id (cj_job claimed)) Finalizing s3' = (Inr (), s4)"
      "persist_static_report env claimed (wc_artifact_store_dir config) uri (length bytes) report manifest s4 = (Inr (), s5)"
    by (auto simp: analyse_claimed_job_def Let_def wbind_Inr split: prod.splits)
  have updated: "ws_files t' = ws_files t \<and> wd_reports (ws_db t') = wd_reports (ws_db t) \<and> wd_fragments (ws_db t') = wd_fragments (ws_db t)"
    if "update_job_state env j state t = (Inr (), t')" for j state t t'
    using that by (auto simp: update_job_state_def statement_Inr update_job_def)
  obtain scan_input unpack_dir where scan: "s3' = s3"
      "fst (scan_artifact_package (we_scan_lib env) (we_unpack_env env) scan_input (Inr bytes) unpack_dir (wc_scan_limits config)) = Inr (report, manifest)"
    using scan_Inr [OF stages(4)] by blast
  show thesis
    by (rule that [OF stages(1,2) scan(2) _ _ _ stages(6) after])
      (use updated [OF stages(3)] updated [OF stages(5)] scan(1) fetch_keeps_db [OF stages(1)] store_Inr(2) [OF stages(2)] in simp_all)
qed

section \<open>After a success\<close>

text \<open>C29: After a successful analysis the artifact store holds, under the path of the tenant and of the digest that the job asked for, bytes with exactly
  that digest; the row of the artifact names this digest, the size of these bytes and the URI of this file; and exactly one report
  has been added, of the job and of this artifact, with the evidence of a scan of these bytes. No report is ever stored for
  bytes with another digest.\<close>

theorem report_describes_artifact:
  assumes processed: "process_claimed_job env config claimed s = (Inr (), s')"
    and digest: "digest_wf (aj_artifact_digest (cj_job claimed))"
    and hex: "\<And>digest. CHR ''/'' \<notin> set (wl_hex (we_lib env) digest)"
  shows "\<exists>bytes file_name report manifest path uri artifact row scan_input unpack_dir.
    hex_sha256 (we_lib env) bytes = dg_hex (aj_artifact_digest (cj_job claimed))
    \<and> path = artifact_storage_path (we_lib env) (wc_artifact_store_dir config) (aj_tenant_id (cj_job claimed)) (dg_hex (aj_artifact_digest (cj_job claimed))) file_name
    \<and> ws_files s' path = Some bytes \<and> wl_from_file_path (we_lib env) path = Some uri
    \<and> fst (scan_artifact_package (we_scan_lib env) (we_unpack_env env) scan_input (Inr bytes) unpack_dir (wc_scan_limits config)) = Inr (report, manifest)
    \<and> artifact \<in> set (wd_artifacts (ws_db s')) \<and> ar_tenant_id artifact = aj_tenant_id (cj_job claimed)
    \<and> ar_sha256 artifact = dg_hex (aj_artifact_digest (cj_job claimed)) \<and> ar_size_bytes artifact = length bytes \<and> ar_storage_uri artifact = uri
    \<and> wd_reports (ws_db s') = wd_reports (ws_db s) @ [row] \<and> sr_analysis_job_id row = aj_id (cj_job claimed)
    \<and> sr_artifact_id row = ar_id artifact \<and> sr_report row = static_evidence_json report"
proof -
  let ?job = "cj_job claimed"
  let ?digest = "dg_hex (aj_artifact_digest ?job)"
  obtain bytes file_name uri report manifest s1 s2 s4 s5 scan_input unpack_dir where stages:
    "fetch_artifact_bytes env claimed s = (Inr (bytes, file_name), s1)" "store_artifact env config claimed (bytes, file_name) s1 = (Inr uri, s2)"
    "fst (scan_artifact_package (we_scan_lib env) (we_unpack_env env) scan_input (Inr bytes) unpack_dir (wc_scan_limits config)) = Inr (report, manifest)"
    "ws_files s4 = ws_files s2" "wd_reports (ws_db s4) = wd_reports (ws_db s)"
    "persist_static_report env claimed (wc_artifact_store_dir config) uri (length bytes) report manifest s4 = (Inr (), s5)"
    "ws_files s' = ws_files s5" "wd_reports (ws_db s') = wd_reports (ws_db s5)" "wd_artifacts (ws_db s') = wd_artifacts (ws_db s5)"
    using analysis_stages [OF processed] by metis
  let ?path = "artifact_storage_path (we_lib env) (wc_artifact_store_dir config) (aj_tenant_id ?job) ?digest file_name"
  note stored = store_Inr [OF stages(2)]
  obtain i where rows: "\<exists>row \<in> set (wd_artifacts (ws_db s5)). ar_id row = i \<and> ar_tenant_id row = aj_tenant_id ?job
      \<and> ar_sha256 row = ?digest \<and> ar_size_bytes row = length bytes \<and> ar_storage_uri row = uri"
    "\<exists>row. wd_reports (ws_db s5) = wd_reports (ws_db s4) @ [row] \<and> sr_analysis_job_id row = aj_id ?job \<and> sr_artifact_id row = i
      \<and> sr_policy_version_id row = aj_policy_snapshot_id ?job \<and> sr_report row = static_evidence_json report"
    "\<forall>p. ws_files s5 p = ws_files s4 p
      \<or> (\<exists>bytes. p = static_report_storage_path (we_lib env) (wc_artifact_store_dir config) (aj_tenant_id ?job) (hex_sha256 (we_lib env) bytes))"
    using persist_rows [OF stages(6)] by metis
  have "\<not> is_ascii_hexdigit CHR ''/''" by code_simp
  then have "CHR ''/'' \<notin> set ?digest" using digest by (auto simp: digest_wf_def list_all_iff)
  then have "ws_files s5 ?path = ws_files s4 ?path"
    using rows(3) artifact_path_not_report_path hex by (metis hex_sha256_def)
  then have "ws_files s' ?path = Some bytes" using stages(4,7) stored(3) by simp
  with rows(1,2) stored(1,4) stages(3,5,8,9) show ?thesis by metis
qed


section \<open>A concrete analysis\<close>

definition serving_env :: worker_env where
  "serving_env = refusing_env\<lparr>we_http := (\<lambda>_. Inr (200, Inr ''bytes'')), we_lib := demo_worker_lib\<lparr>wl_hex := (\<lambda>_. replicate 64 CHR ''a'')\<rparr>\<rparr>"

definition demo_evidence :: StaticEvidence where
  "demo_evidence = \<lparr>se_artifact_digest = sample_digest, se_analyzer_version = ''1'', se_rule_set_version = ''mvp-static-rules-2026-05'', se_indicators = []\<rparr>"

lemma demo_scanned:
  "fst (scan_artifact_package demo_lib (we_unpack_env refusing_env) ''/tmp/x/lodash.tgz'' (Inr ''bytes'') ''/tmp/x'' default_scan_limits) = Inr (demo_evidence, [])"
proof -
  have "is_tar_gz_artifact ''/tmp/x/lodash.tgz''" by code_simp
  moreover have "digest_sha256 (replicate 64 CHR ''a'') = Inr sample_digest" by code_simp
  ultimately show ?thesis
    by (simp add: scan_artifact_package_def refusing_env_def do_io_def unpack_tar_gz_bytes_def scan_directory_def scan_start_def demo_evidence_def
        finish_unpack_def unpack_start_def Let_def)
qed

lemma serving_simps [simp]:
  "we_lib serving_env = demo_worker_lib\<lparr>wl_hex := (\<lambda>_. replicate 64 CHR ''a'')\<rparr>" "we_http serving_env r = Inr (200, Inr ''bytes'')"
  "we_answer serving_env n = Answered" "we_write serving_env p b = None" "we_create_dir_all serving_env p = None"
  "we_tempdir serving_env = Inr ''/tmp/x''" "we_scan_end serving_env = ScanFinished" "we_scan_lib serving_env = demo_lib"
  "we_unpack_env serving_env = we_unpack_env refusing_env"
  by (simp_all add: serving_env_def refusing_env_def)

lemma serving_files [simp]:
  "create_parent serving_env p s = (Inr (), s)" "write_file serving_env p b s = (Inr (), s\<lparr>ws_files := (ws_files s)(p \<mapsto> b)\<rparr>)"
  "hex_sha256 (demo_worker_lib\<lparr>wl_hex := f\<rparr>) b = f [0, 0, 0]" "wl_from_file_path demo_worker_lib p = Some (''file://'' @ p)"
  "wl_schema_errors demo_worker_lib j = []" "wl_to_vec demo_worker_lib j = Some []"
  by (simp_all add: create_parent_def write_file_def wlift_def hex_sha256_def demo_worker_lib_def Option.bind_eq_None_conv option.case_eq_if)

text \<open>Steps that succeed when every statement is answered.\<close>

definition succeeds :: "'a worker \<Rightarrow> bool" where
  "succeeds step \<longleftrightarrow> (\<forall>s. \<exists>a s'. step s = (Inr a, s'))"

lemma succeeds_intros:
  "succeeds (wlift (Inr a))"
  "succeeds step \<Longrightarrow> (\<And>a. succeeds (f a)) \<Longrightarrow> succeeds (wbind step f)"
  "(\<And>n db. \<exists>a db'. query n db = Inr (a, db')) \<Longrightarrow> succeeds (statement serving_env query)"
  by (simp_all add: succeeds_def wbind_Inr statement_Inr) metis

lemma succeeds_transaction: "succeeds body \<Longrightarrow> succeeds (transaction serving_env body)"
  by (simp add: succeeds_def transaction_Inr)

lemma wbind_wlift: "wbind (wlift (Inr a)) f = f a"
  by (rule ext) (simp add: wbind_def wlift_def)

lemma demo_inline: "wbind (maybe_externalize_static_report serving_env dir tenant_id report_json) f = f None"
  by (rule ext) (simp add: maybe_externalize_static_report_def wbind_def wlift_def)

lemma succeeds_events:
  "succeeds (update_job_state serving_env j state)" "succeeds (emit_job_audit_event serving_env job action metadata)"
  unfolding update_job_state_def emit_job_audit_event_def by (rule succeeds_intros(3); blast)+

lemma demo_persisted:
  assumes "n < 2 ^ 63"
  shows "succeeds (persist_static_report serving_env demo_claimed dir uri n demo_evidence [])"
proof -
  have size: "i64_from message n = Inr n" for message using assms by (simp add: i64_from_def)
  have report: "validated_static_report_json (we_lib serving_env) demo_evidence = Inr (static_evidence_json demo_evidence)"
    by (simp add: validated_static_report_json_def)
  show ?thesis
    unfolding persist_static_report_def Let_def report size insert_artifact_files.simps demo_inline wbind_wlift option.case
    by (intro succeeds_transaction succeeds_intros) auto
qed

lemma demo_success: "\<exists>s'. process_claimed_job serving_env demo_config demo_claimed demo_claimed_state = (Inr (), s')"
proof -
  let ?lib = "demo_worker_lib\<lparr>wl_hex := (\<lambda>_. replicate 64 CHR ''a'')\<rparr>"
  have "wl_parse_url ?lib ''https://r.example/lodash.tgz'' = Some demo_url" by (simp add: demo_worker_lib_def)
  moreover have "source_file_name ?lib demo_url = ''lodash.tgz''" by code_simp
  ultimately obtain s1 where s1: "fetch_artifact_bytes serving_env demo_claimed demo_claimed_state = (Inr (''bytes'', ''lodash.tgz''), s1)"
    by (simp add: fetch_artifact_bytes_def wbind_def wlift_def upstream_authorization_value_def demo_claimed_def Let_def)
  have digest: "dg_hex (aj_artifact_digest (cj_job demo_claimed)) = replicate 64 CHR ''a''" by (simp add: demo_claimed_def sample_digest_def)
  obtain uri s2 where s2: "store_artifact serving_env demo_config demo_claimed (''bytes'', ''lodash.tgz'') s1 = (Inr uri, s2)"
    by (simp add: store_artifact_def wbind_Inr worker_storage_uri_def digest Let_def)
  have scan: "scan_stored_artifact serving_env demo_config job (''bytes'', ''lodash.tgz'') s3 = (Inr (demo_evidence, []), s3)" for job s3
    using demo_scanned by (simp add: scan_stored_artifact_def wbind_def wlift_def demo_config_def path_push_def is_absolute_def Let_def)
  have valid: "validate_source_url ?lib ''https://r.example'' ''https://r.example/lodash.tgz'' = Inr ()" by code_simp
  have claimed: "cj_upstream_url demo_claimed = ''https://r.example''" "aj_source_url (cj_job demo_claimed) = ''https://r.example/lodash.tgz''"
    by (simp_all add: demo_claimed_def)
  have state: "\<exists>s'. update_job_state serving_env j state s = (Inr (), s')" "\<exists>s'. emit_job_audit_event serving_env job action metadata s = (Inr (), s')"
    for j state s job action metadata
    using succeeds_events [unfolded succeeds_def] by simp_all
  obtain s3 where s3: "update_job_state serving_env (aj_id (cj_job demo_claimed)) StaticRunning s2 = (Inr (), s3)" using state(1) by blast
  obtain s4 where s4: "update_job_state serving_env (aj_id (cj_job demo_claimed)) Finalizing s3 = (Inr (), s4)" using state(1) by blast
  obtain s5 where s5: "persist_static_report serving_env demo_claimed (wc_artifact_store_dir demo_config) uri (length ''bytes'') demo_evidence [] s4 = (Inr (), s5)"
    using demo_persisted [of "length ''bytes''", unfolded succeeds_def] by simp blast
  obtain s6 where s6: "update_job_state serving_env (aj_id (cj_job demo_claimed)) SandboxPending s5 = (Inr (), s6)" using state(1) by blast
  have "analyse_claimed_job serving_env demo_config demo_claimed demo_claimed_state = (Inr (demo_evidence, []), s5)"
    using s1 s2 s3 s4 s5 scan valid claimed by (simp add: analyse_claimed_job_def wbind_def wlift_def Let_def)
  with s6 state(2) show ?thesis by (simp add: process_claimed_job_def wbind_def Let_def)
qed

theorem report_describes_artifact_witness:
  "\<exists>s' path artifact. process_claimed_job serving_env demo_config demo_claimed demo_claimed_state = (Inr (), s')
     \<and> ws_files s' path \<noteq> None \<and> artifact \<in> set (wd_artifacts (ws_db s')) \<and> ar_sha256 artifact = replicate 64 CHR ''a''
     \<and> length (wd_reports (ws_db s')) = 1"
proof -
  obtain s' where s': "process_claimed_job serving_env demo_config demo_claimed demo_claimed_state = (Inr (), s')" using demo_success by blast
  have "digest_wf sample_digest" by code_simp
  then have d: "digest_wf (aj_artifact_digest (cj_job demo_claimed))" by (simp add: demo_claimed_def)
  have "wd_reports (ws_db demo_claimed_state) = []" by (simp add: demo_claimed_state_def demo_db_def)
  moreover have "dg_hex (aj_artifact_digest (cj_job demo_claimed)) = replicate 64 CHR ''a''" by (simp add: demo_claimed_def sample_digest_def)
  ultimately show ?thesis using report_describes_artifact [OF s' d] s' by auto
qed


end
