(* ===== verification/Feed_Parsing.thy ===== *)
theory Feed_Parsing
  imports Core_Types Byte_Text
begin

text \<open>
  The pure part of the feed harvester, \<^verbatim>\<open>services/feed-harvester/src/lib.rs\<close>: counting the records of a feed document, reading packages,
  dependency edges, Scorecard results and indicators of compromise out of it, and the identities of packages. Documents are JSON values
  whose objects have distinct keys; the order of keys is not observed. Whether a number counts as an unsigned integer, the reading of dates and the
  assembly of URLs are those of the libraries and fields of \<open>feed_lib\<close>; \<open>fl_url_segments\<close> parses a base and gives what is printed when a
  final empty segment has been removed and segments are appended, or nothing for a URL that cannot be a base.
\<close>

section \<open>Feeds\<close>

datatype FeedSource = Osv | Ghsa | OpenSsfMaliciousPackages | OpenSsfPackageAnalysis | CisaKev | FirstEpss | DepsDev | OpenSsfScorecard

definition FEEDS :: "FeedSource list" where
  "FEEDS = [Osv, Ghsa, OpenSsfMaliciousPackages, OpenSsfPackageAnalysis, CisaKev, FirstEpss, DepsDev, OpenSsfScorecard]"

fun feed_name :: "FeedSource \<Rightarrow> string" where
  "feed_name Osv = ''osv''"
| "feed_name Ghsa = ''ghsa''"
| "feed_name OpenSsfMaliciousPackages = ''openssf-malicious-packages''"
| "feed_name OpenSsfPackageAnalysis = ''openssf-package-analysis''"
| "feed_name CisaKev = ''cisa-kev''"
| "feed_name FirstEpss = ''first-epss''"
| "feed_name DepsDev = ''deps.dev''"
| "feed_name OpenSsfScorecard = ''openssf-scorecard''"

fun feed_file_name :: "FeedSource \<Rightarrow> string" where
  "feed_file_name Osv = ''osv.json''"
| "feed_file_name Ghsa = ''ghsa.json''"
| "feed_file_name OpenSsfMaliciousPackages = ''openssf-malicious-packages.json''"
| "feed_file_name OpenSsfPackageAnalysis = ''openssf-package-analysis.json''"
| "feed_file_name CisaKev = ''cisa-kev.json''"
| "feed_file_name FirstEpss = ''first-epss.csv''"
| "feed_file_name DepsDev = ''deps-dev.json''"
| "feed_file_name OpenSsfScorecard = ''openssf-scorecard.json''"

datatype HarvestError =
    FeedIo string
  | FeedHttp string
  | InvalidFeed string
  | FeedDigest DigestError
  | FeedDatabase string

text \<open>The status of the response to an error.\<close>

fun harvest_error_status :: "HarvestError \<Rightarrow> nat" where
  "harvest_error_status (InvalidFeed _) = 400"
| "harvest_error_status (FeedDigest _) = 400"
| "harvest_error_status (FeedIo _) = 503"
| "harvest_error_status (FeedHttp _) = 503"
| "harvest_error_status (FeedDatabase _) = 503"

record feed_lib =
  fl_from_slice :: "string \<Rightarrow> (string, json) result"
  fl_to_vec :: "json \<Rightarrow> (string, string) result"
  fl_as_u64 :: "json \<Rightarrow> nat option"
  fl_parse_date :: "string \<Rightarrow> int option"
  fl_hex_sha256 :: "string \<Rightarrow> string"
  fl_url_segments :: "string \<Rightarrow> (string, string list \<Rightarrow> string option) result"

section \<open>Shared readings of JSON\<close>

definition eq_ignore_ascii_case :: "string \<Rightarrow> string \<Rightarrow> bool" where
  "eq_ignore_ascii_case a b \<longleftrightarrow> to_ascii_lowercase a = to_ascii_lowercase b"

definition first_some :: "'a option \<Rightarrow> 'a option \<Rightarrow> 'a option" where
  "first_some a b = (case a of Some _ \<Rightarrow> a | None \<Rightarrow> b)"

definition as_f64 :: "json \<Rightarrow> f64 option" where
  "as_f64 v = (case v of JNumber r \<Rightarrow> Some r | _ \<Rightarrow> None)"

text \<open>The array under the first of the keys that is present, as \<^verbatim>\<open>get(a).first_some(|| get(b)).and_then(as_array)\<close>.\<close>

definition array_under :: "string list \<Rightarrow> (string \<times> json) list \<Rightarrow> json list option" where
  "array_under keys m = Option.bind (find_map (map_of m) keys) as_array"

definition items_under :: "string list \<Rightarrow> json \<Rightarrow> json list" where
  "items_under keys v =
     (case v of JArray items \<Rightarrow> items | JObject m \<Rightarrow> unwrap_or [] (array_under keys m) | _ \<Rightarrow> [])"

definition deps_dev_packages :: "json \<Rightarrow> json list" where
  "deps_dev_packages = items_under [''packages'', ''nodes'']"

definition scorecard_results :: "json \<Rightarrow> json list" where
  "scorecard_results = items_under [''results'']"

definition openssf_malicious_packages :: "json \<Rightarrow> json list" where
  "openssf_malicious_packages = items_under [''packages'']"

definition openssf_package_analysis_results :: "json \<Rightarrow> json list" where
  "openssf_package_analysis_results = items_under [''results'', ''packages'']"

text \<open>The elements with a key that has not been seen: a \<^verbatim>\<open>BTreeSet\<close> of keys whose \<^verbatim>\<open>insert\<close> guards a push.\<close>

fun unique_by :: "('a \<Rightarrow> 'k) \<Rightarrow> 'k list \<Rightarrow> 'a list \<Rightarrow> 'a list" where
  "unique_by key seen [] = []"
| "unique_by key seen (x # xs) =
     (if key x \<in> set seen then unique_by key seen xs else x # unique_by key (key x # seen) xs)"

section \<open>Package URLs and identities\<close>

record FeedPurl =
  pp_purl :: string
  pp_ecosystem :: string
  pp_namespace :: "string option"
  pp_name :: string
  pp_version :: "string option"

record DepsDevVersionKey =
  vk_system :: string
  vk_name :: string
  vk_version :: string

definition before_mark :: "char \<Rightarrow> string \<Rightarrow> string" where
  "before_mark c s = (case split_once c s of Some (main, _) \<Rightarrow> main | None \<Rightarrow> s)"

definition parse_purl :: "string \<Rightarrow> FeedPurl option" where
  "parse_purl purl_text =
     (case strip_prefix ''pkg:'' (str_trim purl_text) of None \<Rightarrow> None
      | Some raw \<Rightarrow>
          (case split_once CHR ''/'' raw of None \<Rightarrow> None
           | Some (ecosystem, remainder) \<Rightarrow>
               (let main = before_mark CHR ''?'' (before_mark CHR ''#'' remainder);
                    (path_part, version) =
                      (case rsplit_once CHR ''@'' main of
                         Some (path, version) \<Rightarrow> if str_trim version \<noteq> [] then (path, Some version) else (path, None)
                       | None \<Rightarrow> (main, None));
                    segments = filter (\<lambda>s. s \<noteq> []) (split_on CHR ''/'' path_part)
                in if segments = [] then None
                   else Some \<lparr>pp_purl = purl_text, pp_ecosystem = ecosystem,
                     pp_namespace = (if butlast segments = [] then None else Some (str_join ''/'' (butlast segments))),
                     pp_name = last segments, pp_version = version\<rparr>)))"

definition build_purl :: "string \<Rightarrow> string option \<Rightarrow> string \<Rightarrow> string option \<Rightarrow> string" where
  "build_purl ecosystem namespace name version =
     (let path = (case opt_filter (\<lambda>n. n \<noteq> []) namespace of Some n \<Rightarrow> n @ ''/'' @ name | None \<Rightarrow> name) in
      case opt_filter (\<lambda>v. v \<noteq> []) version of
        Some v \<Rightarrow> ''pkg:'' @ ecosystem @ ''/'' @ path @ ''@'' @ v
      | None \<Rightarrow> ''pkg:'' @ ecosystem @ ''/'' @ path)"

definition deps_dev_systems :: "(string \<times> string) list" where
  "deps_dev_systems = [(''GO'', ''golang''), (''RUBYGEMS'', ''gem''), (''NPM'', ''npm''), (''CARGO'', ''cargo''),
     (''MAVEN'', ''maven''), (''PYPI'', ''pypi''), (''NUGET'', ''nuget'')]"

definition deps_dev_system_to_purl_type :: "string \<Rightarrow> string option" where
  "deps_dev_system_to_purl_type system =
     map_option snd (find (\<lambda>(s, _). eq_ignore_ascii_case system s) deps_dev_systems)"

definition deps_dev_purl_type_to_system :: "string \<Rightarrow> string option" where
  "deps_dev_purl_type_to_system ecosystem =
     map_option fst (find (\<lambda>(_, t). eq_ignore_ascii_case ecosystem t) deps_dev_systems)"

definition split_deps_dev_name_for_purl :: "string \<Rightarrow> string \<Rightarrow> string option \<times> string" where
  "split_deps_dev_name_for_purl system raw_name =
     (let maven = (if eq_ignore_ascii_case system ''MAVEN'' then split_once CHR '':'' raw_name else None);
          slashed = (if eq_ignore_ascii_case system ''NPM'' \<or> eq_ignore_ascii_case system ''GO''
            then rsplit_once CHR ''/'' raw_name else None)
      in case first_some maven slashed of Some (namespace, name) \<Rightarrow> (Some namespace, name) | None \<Rightarrow> (None, raw_name))"

definition package_identity_from_version_key :: "json \<Rightarrow> FeedPurl option" where
  "package_identity_from_version_key v =
     Option.bind (get_str ''system'' v) (\<lambda>system.
     Option.bind (deps_dev_system_to_purl_type system) (\<lambda>ecosystem.
     Option.bind (get_str ''name'' v) (\<lambda>raw_name.
       let version = get_str ''version'' v; (namespace, name) = split_deps_dev_name_for_purl system raw_name
       in Some \<lparr>pp_purl = build_purl ecosystem namespace name version, pp_ecosystem = ecosystem,
            pp_namespace = namespace, pp_name = name, pp_version = version\<rparr>)))"

definition package_identity_from_value :: "json \<Rightarrow> FeedPurl option" where
  "package_identity_from_value v =
     (case get_str ''purl'' v of Some p \<Rightarrow> parse_purl p
      | None \<Rightarrow>
          (case json_get ''versionKey'' v of Some key \<Rightarrow> package_identity_from_version_key key
           | None \<Rightarrow>
               Option.bind (get_str ''ecosystem'' v) (\<lambda>ecosystem.
               Option.bind (get_str ''name'' v) (\<lambda>name.
                 let namespace = get_str ''namespace'' v; version = get_str ''version'' v
                 in Some \<lparr>pp_purl = build_purl ecosystem namespace name version, pp_ecosystem = ecosystem,
                      pp_namespace = namespace, pp_name = name, pp_version = version\<rparr>))))"

definition value_to_purl :: "json \<Rightarrow> string option" where
  "value_to_purl v =
     (case v of JString t \<Rightarrow> if starts_with ''pkg:'' t then Some t else None
      | JObject _ \<Rightarrow> map_option pp_purl (package_identity_from_value v)
      | _ \<Rightarrow> None)"

definition deps_dev_version_key_from_value :: "json \<Rightarrow> DepsDevVersionKey option" where
  "deps_dev_version_key_from_value v =
     (case json_get ''versionKey'' v of
        Some key \<Rightarrow>
          Option.bind (get_str ''system'' key) (\<lambda>system.
          Option.bind (get_str ''name'' key) (\<lambda>name.
          Option.bind (get_str ''version'' key) (\<lambda>version.
            Some \<lparr>vk_system = system, vk_name = name, vk_version = version\<rparr>)))
      | None \<Rightarrow>
          Option.bind (package_identity_from_value v) (\<lambda>parsed.
          Option.bind (pp_version parsed) (\<lambda>version.
          Option.bind (deps_dev_purl_type_to_system (pp_ecosystem parsed)) (\<lambda>system.
            let name = (case pp_namespace parsed of
                Some namespace \<Rightarrow>
                  if namespace \<noteq> [] \<and> eq_ignore_ascii_case system ''MAVEN'' then namespace @ '':'' @ pp_name parsed
                  else if namespace \<noteq> [] then namespace @ ''/'' @ pp_name parsed
                  else pp_name parsed
              | None \<Rightarrow> pp_name parsed)
            in Some \<lparr>vk_system = system, vk_name = name, vk_version = version\<rparr>))))"

definition deps_dev_dependencies_url :: "feed_lib \<Rightarrow> string \<Rightarrow> DepsDevVersionKey \<Rightarrow> (HarvestError, string) result" where
  "deps_dev_dependencies_url lib base key =
     (case fl_url_segments lib base of
        Inl e \<Rightarrow> Inl (FeedIo (''invalid deps.dev API base URL: '' @ e))
      | Inr extended \<Rightarrow>
          (case extended [''systems'', to_ascii_lowercase (vk_system key), ''packages'', vk_name key, ''versions'', vk_version key] of
             None \<Rightarrow> Inl (FeedIo ''deps.dev API base URL cannot be a base path'')
           | Some url_text \<Rightarrow> Inr (url_text @ '':dependencies'')))"

section \<open>Packages and edges of deps.dev\<close>

record HarvestedPackage =
  hp_purl :: string
  hp_ecosystem :: string
  hp_namespace :: "string option"
  hp_package_name :: string
  hp_package_version :: "string option"
  hp_licenses :: "string list"
  hp_dependency_count :: nat
  hp_project_links :: "json list"
  hp_raw_document :: json

record DepsDevDependencyEdgeRecord =
  de_package_purl :: string
  de_dependency_purl :: string
  de_relationship :: string
  de_details :: json

definition parse_deps_dev_package :: "feed_lib \<Rightarrow> json \<Rightarrow> HarvestedPackage option" where
  "parse_deps_dev_package lib v =
     Option.bind (package_identity_from_value v) (\<lambda>parsed.
       let dependency_count = unwrap_or 0 (Option.bind (json_get ''dependencyCount'' v) (fl_as_u64 lib));
           licenses = unwrap_or [] (map_option (List.map_filter as_str) (get_array ''licenses'' v));
           project_links = unwrap_or [] (get_array ''projectLinks'' v)
       in Some \<lparr>hp_purl = pp_purl parsed, hp_ecosystem = pp_ecosystem parsed, hp_namespace = pp_namespace parsed,
            hp_package_name = pp_name parsed, hp_package_version = pp_version parsed, hp_licenses = licenses,
            hp_dependency_count = dependency_count, hp_project_links = project_links, hp_raw_document = v\<rparr>)"

definition edge_key :: "DepsDevDependencyEdgeRecord \<Rightarrow> string \<times> string \<times> string" where
  "edge_key e = (de_package_purl e, de_dependency_purl e, de_relationship e)"

definition edge_relationship :: "json \<Rightarrow> string" where
  "edge_relationship edge = unwrap_or ''depends-on'' (get_str ''relationship'' edge)"

definition explicit_edge :: "json \<Rightarrow> DepsDevDependencyEdgeRecord option" where
  "explicit_edge edge =
     Option.bind (Option.bind (first_some (json_get ''fromPurl'' edge) (json_get ''from'' edge)) value_to_purl) (\<lambda>from_purl.
     Option.bind (Option.bind (first_some (json_get ''toPurl'' edge) (json_get ''to'' edge)) value_to_purl) (\<lambda>to_purl.
       Some \<lparr>de_package_purl = from_purl, de_dependency_purl = to_purl,
         de_relationship = edge_relationship edge, de_details = edge\<rparr>))"

definition explicit_deps_dev_edges :: "json \<Rightarrow> DepsDevDependencyEdgeRecord list" where
  "explicit_deps_dev_edges v =
     (let edge_values = (case v of
          JObject m \<Rightarrow> unwrap_or [] (Option.bind
            (first_some (Option.bind (map_of m ''dependencyGraph'') (json_get ''edges'')) (map_of m ''edges'')) as_array)
        | _ \<Rightarrow> [])
      in List.map_filter explicit_edge edge_values)"

text \<open>\<^verbatim>\<open>entry(key).or_insert_with(...)\<close> on an object.\<close>

definition or_insert :: "string \<Rightarrow> json \<Rightarrow> (string \<times> json) list \<Rightarrow> (string \<times> json) list" where
  "or_insert k v m = (if map_of m k = None then m @ [(k, v)] else m)"

definition or_insert_some :: "string \<Rightarrow> json option \<Rightarrow> (string \<times> json) list \<Rightarrow> (string \<times> json) list" where
  "or_insert_some k v m = (case v of None \<Rightarrow> m | Some x \<Rightarrow> or_insert k x m)"

definition list_get :: "'a list \<Rightarrow> nat \<Rightarrow> 'a option" where
  "list_get xs i = (if i < length xs then Some (xs ! i) else None)"

definition node_indexed_edge :: "feed_lib \<Rightarrow> json list \<Rightarrow> json \<Rightarrow> DepsDevDependencyEdgeRecord option" where
  "node_indexed_edge lib nodes edge =
     Option.bind (Option.bind (json_get ''fromNode'' edge) (fl_as_u64 lib)) (\<lambda>from_index.
     Option.bind (Option.bind (json_get ''toNode'' edge) (fl_as_u64 lib)) (\<lambda>to_index.
     Option.bind (list_get nodes from_index) (\<lambda>from_node.
     Option.bind (list_get nodes to_index) (\<lambda>to_node.
     Option.bind (value_to_purl from_node) (\<lambda>from_purl.
     Option.bind (value_to_purl to_node) (\<lambda>to_purl.
       let details = (case edge of
             JObject m \<Rightarrow> JObject (or_insert_some ''nodeErrors'' (json_get ''errors'' to_node)
               (or_insert_some ''bundled'' (json_get ''bundled'' to_node)
               (or_insert_some ''relation'' (json_get ''relation'' to_node) m)))
           | _ \<Rightarrow> edge)
       in Some \<lparr>de_package_purl = from_purl, de_dependency_purl = to_purl,
            de_relationship = edge_relationship edge, de_details = details\<rparr>))))))"

definition node_indexed_deps_dev_edges :: "feed_lib \<Rightarrow> json \<Rightarrow> DepsDevDependencyEdgeRecord list" where
  "node_indexed_deps_dev_edges lib v =
     (case v of
        JObject m \<Rightarrow>
          (let graph = map_of m ''dependencyGraph'';
               nodes = Option.bind (first_some (map_of m ''nodes'') (Option.bind graph (json_get ''nodes''))) as_array;
               edges = Option.bind (first_some (map_of m ''edges'') (Option.bind graph (json_get ''edges''))) as_array
           in case (nodes, edges) of
                (Some ns, Some es) \<Rightarrow> List.map_filter (node_indexed_edge lib ns) es
              | _ \<Rightarrow> [])
      | _ \<Rightarrow> [])"

definition top_level_deps_dev_edges :: "feed_lib \<Rightarrow> json \<Rightarrow> DepsDevDependencyEdgeRecord list" where
  "top_level_deps_dev_edges lib v = explicit_deps_dev_edges v @ node_indexed_deps_dev_edges lib v"

text \<open>The edges to the dependencies that a package lists.\<close>

definition listed_edges :: "json \<Rightarrow> DepsDevDependencyEdgeRecord list" where
  "listed_edges package =
     (case (package_identity_from_value package, get_array ''dependencies'' package) of
        (Some from_package, Some dependencies) \<Rightarrow>
          List.map_filter (\<lambda>dependency. map_option (\<lambda>to_purl. \<lparr>de_package_purl = pp_purl from_package, de_dependency_purl = to_purl,
            de_relationship = ''depends-on'', de_details = dependency\<rparr>) (value_to_purl dependency)) dependencies
      | _ \<Rightarrow> [])"

definition deps_dev_dependency_edges :: "feed_lib \<Rightarrow> json \<Rightarrow> DepsDevDependencyEdgeRecord list" where
  "deps_dev_dependency_edges lib v =
     unique_by edge_key [] (concat (map listed_edges (deps_dev_packages v)) @ top_level_deps_dev_edges lib v)"

definition should_enrich_deps_dev_payload :: "json \<Rightarrow> bool" where
  "should_enrich_deps_dev_payload v =
     (case v of
        JArray _ \<Rightarrow> True
      | JObject m \<Rightarrow> map_of m ''packages'' \<noteq> None \<and> map_of m ''nodes'' = None \<and> map_of m ''edges'' = None
          \<and> map_of m ''dependencyGraph'' = None
      | _ \<Rightarrow> False)"

definition identified_packages :: "json \<Rightarrow> (string \<times> json) list" where
  "identified_packages v =
     List.map_filter (\<lambda>p. map_option (\<lambda>parsed. (pp_purl parsed, p)) (package_identity_from_value p)) (deps_dev_packages v)"

definition extend_unique_deps_dev_packages :: "json \<Rightarrow> json list \<times> string list \<Rightarrow> json list \<times> string list" where
  "extend_unique_deps_dev_packages v found =
     (let added = unique_by fst (snd found) (identified_packages v)
      in (fst found @ map snd added, snd found @ map fst added))"

definition explicit_deps_dev_edge_document :: "DepsDevDependencyEdgeRecord \<Rightarrow> json" where
  "explicit_deps_dev_edge_document edge =
     (let object = [(''fromPurl'', JString (de_package_purl edge)), (''toPurl'', JString (de_dependency_purl edge)),
            (''relationship'', JString (de_relationship edge))]
      in JObject (case de_details edge of
           JObject details \<Rightarrow>
             foldl (\<lambda>m (key, v). if key = ''fromNode'' \<or> key = ''toNode'' then m else or_insert key v m) object details
         | _ \<Rightarrow> object))"

section \<open>Scorecard results\<close>

record ScorecardCheckRecord =
  ck_name :: string
  ck_score :: f64
  ck_reason :: "string option"
  ck_details :: json

record HarvestedScorecard =
  hs_observed_on :: "int option"
  hs_repo_name :: string
  hs_repo_commit :: "string option"
  hs_scorecard_version :: "string option"
  hs_scorecard_commit :: "string option"
  hs_score :: f64
  hs_checks :: "ScorecardCheckRecord list"
  hs_raw_document :: json

definition parse_scorecard_check :: "json \<Rightarrow> ScorecardCheckRecord option" where
  "parse_scorecard_check v =
     Option.bind (get_str ''name'' v) (\<lambda>name.
     Option.bind (Option.bind (json_get ''score'' v) as_f64) (\<lambda>score.
       Some \<lparr>ck_name = name, ck_score = score, ck_reason = get_str ''reason'' v,
         ck_details = unwrap_or (JArray []) (json_get ''details'' v)\<rparr>))"

definition nested_str :: "string \<Rightarrow> string \<Rightarrow> json \<Rightarrow> string option" where
  "nested_str outer inner v = Option.bind (json_get outer v) (get_str inner)"

definition parse_scorecard_result :: "feed_lib \<Rightarrow> json \<Rightarrow> HarvestedScorecard option" where
  "parse_scorecard_result lib v =
     Option.bind (nested_str ''repo'' ''name'' v) (\<lambda>repo_name.
     Option.bind (Option.bind (json_get ''score'' v) as_f64) (\<lambda>score.
       Some \<lparr>hs_observed_on = Option.bind (get_str ''date'' v) (fl_parse_date lib), hs_repo_name = repo_name,
         hs_repo_commit = nested_str ''repo'' ''commit'' v, hs_scorecard_version = nested_str ''scorecard'' ''version'' v,
         hs_scorecard_commit = nested_str ''scorecard'' ''commit'' v, hs_score = score,
         hs_checks = unwrap_or [] (map_option (List.map_filter parse_scorecard_check) (get_array ''checks'' v)),
         hs_raw_document = v\<rparr>))"

section \<open>Indicators of compromise\<close>

record FeedPackageIdentity =
  fi_ecosystem :: string
  fi_namespace :: "string option"
  fi_name :: string
  fi_version :: "string option"

record HarvestedIoc =
  io_ecosystem :: string
  io_namespace :: "string option"
  io_package_name :: string
  io_package_version :: "string option"
  io_indicator_type :: string
  io_indicator_value :: string
  io_details :: json

definition normalize_indicator_value :: "string \<Rightarrow> string" where
  "normalize_indicator_value v = to_ascii_lowercase (str_trim v)"

definition split_package_name_for_ecosystem :: "string \<Rightarrow> string \<Rightarrow> string option \<times> string" where
  "split_package_name_for_ecosystem ecosystem raw_name =
     (case (if ecosystem = ''npm'' then Option.bind (strip_prefix ''@'' raw_name) (split_once CHR ''/'') else None) of
        Some (namespace, name) \<Rightarrow> (Some namespace, name)
      | None \<Rightarrow> (None, raw_name))"

definition trimmed_str :: "string \<Rightarrow> json \<Rightarrow> string option" where
  "trimmed_str key v = opt_filter (\<lambda>s. s \<noteq> []) (map_option str_trim (get_str key v))"

definition feed_package_identity :: "json \<Rightarrow> FeedPackageIdentity option" where
  "feed_package_identity v =
     (let package = unwrap_or v (opt_filter (\<lambda>p. as_object p \<noteq> None) (json_get ''package'' v)) in
      Option.bind (get_str ''ecosystem'' package) (\<lambda>raw_ecosystem.
      Option.bind (get_str ''name'' package) (\<lambda>untrimmed_name.
        let ecosystem = to_ascii_lowercase (str_trim raw_ecosystem);
            raw_name = str_trim untrimmed_name;
            (namespace, name) = (case trimmed_str ''namespace'' package of
                Some namespace \<Rightarrow> (Some namespace, raw_name)
              | None \<Rightarrow> split_package_name_for_ecosystem ecosystem raw_name)
        in Some \<lparr>fi_ecosystem = ecosystem, fi_namespace = namespace, fi_name = name,
             fi_version = trimmed_str ''version'' package\<rparr>)))"

definition package_indicator_value :: "string option \<Rightarrow> string \<Rightarrow> string" where
  "package_indicator_value namespace name =
     (case namespace of
        Some n \<Rightarrow> normalize_indicator_value n @ ''/'' @ normalize_indicator_value name
      | None \<Rightarrow> normalize_indicator_value name)"

definition behavioral_fingerprint :: "json \<Rightarrow> string option" where
  "behavioral_fingerprint v =
     Option.bind (Option.bind (json_get ''analysis'' v) (get_array ''behaviors'')) (\<lambda>behaviors.
       let components = btree_set (List.map_filter (\<lambda>behavior. opt_filter (\<lambda>s. s \<noteq> [])
             (map_option normalize_indicator_value (first_some (get_str ''id'' behavior) (get_str ''description'' behavior)))) behaviors)
       in if components = [] then None else Some (str_join ''|'' components))"

definition stringish_keys :: "string list" where
  "stringish_keys = [''value'', ''id'', ''name'', ''email'', ''url'', ''domain'', ''ip'', ''handle'', ''login'']"

lemma json_field_smaller: "map_of m k = Some v \<Longrightarrow> size v < size (JObject m)"
proof -
  assume "map_of m k = Some v"
  then have "(k, v) \<in> set m" by (rule map_of_SomeD)
  then have "size v < size_list (size_prod (\<lambda>_. 0) size) m + 1" by (induction m) auto
  then show ?thesis by simp
qed

text \<open>The strings that \<^verbatim>\<open>collect_stringish_values\<close> inserts into the set.\<close>

function collect_stringish_values :: "json \<Rightarrow> string list" where
  "collect_stringish_values (JString s) = (let n = normalize_indicator_value s in if n = [] then [] else [n])"
| "collect_stringish_values (JArray items) = concat (map collect_stringish_values items)"
| "collect_stringish_values (JObject m) =
     (case find_map (map_of m) stringish_keys of None \<Rightarrow> [] | Some candidate \<Rightarrow> collect_stringish_values candidate)"
| "collect_stringish_values JNull = []"
| "collect_stringish_values (JBool b) = []"
| "collect_stringish_values (JNumber r) = []"
  by pat_completeness auto
termination
proof (relation "measure size")
  show "(candidate, JObject m) \<in> measure size" if "find_map (map_of m) stringish_keys = Some candidate" for m candidate
    using find_map_Some_in [OF that] json_field_smaller by (fastforce simp del: json.size)
qed (auto simp: size_list_estimation less_Suc_eq_le size_list_estimation')

definition indicator_values :: "json \<Rightarrow> string list \<Rightarrow> string list" where
  "indicator_values v field_names =
     (case v of
        JObject object \<Rightarrow> btree_set (concat (map collect_stringish_values (List.map_filter (map_of object) field_names)))
      | _ \<Rightarrow> [])"

definition ioc_record :: "FeedPackageIdentity \<Rightarrow> json \<Rightarrow> string \<times> string \<Rightarrow> HarvestedIoc" where
  "ioc_record identity details = (\<lambda>(indicator_type, indicator_value).
     \<lparr>io_ecosystem = fi_ecosystem identity, io_namespace = fi_namespace identity, io_package_name = fi_name identity,
       io_package_version = fi_version identity, io_indicator_type = indicator_type, io_indicator_value = indicator_value,
       io_details = details\<rparr>)"

definition malicious_package_indicators :: "FeedPackageIdentity \<Rightarrow> json \<Rightarrow> (string \<times> string) list" where
  "malicious_package_indicators identity package =
     (''package-name'', package_indicator_value (fi_namespace identity) (fi_name identity))
     # map (Pair ''maintainer-identity'') (indicator_values package [''maintainerIdentity'', ''maintainerIdentities'', ''maintainers''])
     @ map (Pair ''domain'') (indicator_values package [''domains'', ''domain''])
     @ map (Pair ''ip'') (indicator_values package [''ips'', ''ip''])
     @ map (Pair ''url'') (indicator_values package [''urls'', ''url''])"

definition malicious_package_records :: "json \<Rightarrow> HarvestedIoc list" where
  "malicious_package_records package =
     (case feed_package_identity package of None \<Rightarrow> []
      | Some identity \<Rightarrow> map (ioc_record identity package) (malicious_package_indicators identity package))"

definition package_analysis_records :: "json \<Rightarrow> HarvestedIoc list" where
  "package_analysis_records analysis =
     (case (feed_package_identity analysis, behavioral_fingerprint analysis) of
        (Some identity, Some fingerprint) \<Rightarrow> [ioc_record identity analysis (''behavioral-fingerprint'', fingerprint)]
      | _ \<Rightarrow> [])"

definition ioc_key :: "HarvestedIoc \<Rightarrow> string \<times> string option \<times> string \<times> string option \<times> string \<times> string" where
  "ioc_key r = (io_ecosystem r, io_namespace r, io_package_name r, io_package_version r, io_indicator_type r, io_indicator_value r)"

definition cross_ecosystem_ioc_records :: "FeedSource \<Rightarrow> json \<Rightarrow> HarvestedIoc list" where
  "cross_ecosystem_ioc_records feed v =
     (case feed of
        OpenSsfMaliciousPackages \<Rightarrow> unique_by ioc_key [] (concat (map malicious_package_records (openssf_malicious_packages v)))
      | OpenSsfPackageAnalysis \<Rightarrow> unique_by ioc_key [] (concat (map package_analysis_records (openssf_package_analysis_results v)))
      | _ \<Rightarrow> [])"

section \<open>Counting records\<close>

definition epss_row :: "string \<Rightarrow> bool" where
  "epss_row line \<longleftrightarrow> str_trim line \<noteq> [] \<and> \<not> starts_with ''#'' line \<and> \<not> starts_with ''cve,'' line"

definition advisory_count :: "json \<Rightarrow> nat" where
  "advisory_count v =
     (case v of
        JArray items \<Rightarrow> length items
      | JObject m \<Rightarrow> (case array_under [''vulns'', ''advisories'', ''packages''] m of Some items \<Rightarrow> length items | None \<Rightarrow> length m)
      | _ \<Rightarrow> 0)"

definition document_count :: "feed_lib \<Rightarrow> FeedSource \<Rightarrow> json \<Rightarrow> nat" where
  "document_count lib feed v =
     (case feed of
        CisaKev \<Rightarrow> length (unwrap_or [] (get_array ''vulnerabilities'' v))
      | DepsDev \<Rightarrow> (let package_count = length (deps_dev_packages v) in
          if package_count > 0 then package_count else length (deps_dev_dependency_edges lib v))
      | OpenSsfScorecard \<Rightarrow> length (scorecard_results v)
      | OpenSsfPackageAnalysis \<Rightarrow> length (openssf_package_analysis_results v)
      | _ \<Rightarrow> advisory_count v)"

definition read_document :: "feed_lib \<Rightarrow> string \<Rightarrow> (HarvestError, json) result" where
  "read_document lib bytes = map_err InvalidFeed (fl_from_slice lib bytes)"

definition normalized_record_count :: "feed_lib \<Rightarrow> FeedSource \<Rightarrow> string \<Rightarrow> (HarvestError, nat) result" where
  "normalized_record_count lib feed bytes =
     (if feed = FirstEpss then Inr (length (filter epss_row (lines (from_utf8_lossy bytes))))
      else res_map (document_count lib feed) (read_document lib bytes))"

section \<open>Lemmas\<close>

lemma unique_by_subset: "set (unique_by key seen xs) \<subseteq> set xs"
  by (induction key seen xs rule: unique_by.induct) auto

lemma unique_by_keys: "key ` set (unique_by key seen xs) = key ` set xs - set seen"
  by (induction key seen xs rule: unique_by.induct) auto

lemma unique_by_distinct: "distinct (map key (unique_by key seen xs))"
proof (induction key seen xs rule: unique_by.induct)
  case (2 key seen x xs)
  then show ?case using unique_by_keys [of key "key x # seen" xs] by auto
qed simp

text \<open>Of several elements with one key the first is kept.\<close>

lemma unique_by_find: "k \<notin> set seen \<Longrightarrow> find (\<lambda>x. key x = k) (unique_by key seen xs) = find (\<lambda>x. key x = k) xs"
  by (induction key seen xs rule: unique_by.induct) auto

lemma map_of_or_insert: "map_of (or_insert k v m) k' = (if map_of m k' = None \<and> k' = k then Some v else map_of m k')"
  by (auto simp: or_insert_def map_add_def split: option.split)

lemma or_insert_keeps: "map_of m k = Some v \<Longrightarrow> map_of (or_insert k' v' m) k = Some v"
  by (simp add: map_of_or_insert)

lemma foldl_or_insert_keeps:
  "map_of m k = Some v \<Longrightarrow>
     map_of (foldl (\<lambda>m (key, x). if key = ''fromNode'' \<or> key = ''toNode'' then m else or_insert key x m) m details) k = Some v"
  by (induction details arbitrary: m) (auto simp: or_insert_keeps)

lemma edge_document_fields:
  "json_get ''fromPurl'' (explicit_deps_dev_edge_document e) = Some (JString (de_package_purl e))"
  "json_get ''toPurl'' (explicit_deps_dev_edge_document e) = Some (JString (de_dependency_purl e))"
  "json_get ''relationship'' (explicit_deps_dev_edge_document e) = Some (JString (de_relationship e))"
  by (cases "de_details e"; simp add: explicit_deps_dev_edge_document_def json_get_def foldl_or_insert_keeps Let_def)+

text \<open>An edge that is written into a document and read back has the same ends and relationship, as long as both ends
  are written as package URLs without leading white space.\<close>

lemma edge_document_roundtrip:
  "explicit_edge (explicit_deps_dev_edge_document e) =
     (if starts_with ''pkg:'' (de_package_purl e) \<and> starts_with ''pkg:'' (de_dependency_purl e)
      then Some (e\<lparr>de_details := explicit_deps_dev_edge_document e\<rparr>) else None)"
  by (simp add: explicit_edge_def edge_document_fields first_some_def value_to_purl_def edge_relationship_def get_str_def as_str_def)

lemma build_purl_pkg: "starts_with ''pkg:'' (build_purl e ns n v)"
  by (simp add: build_purl_def Let_def starts_with_iff split: option.split)

lemma parse_purl_text: "parse_purl p = Some parsed \<Longrightarrow> pp_purl parsed = p \<and> starts_with ''pkg:'' (str_trim p)"
  by (auto simp: parse_purl_def starts_with_iff strip_prefix_Some Let_def split: option.splits prod.splits if_splits)

text \<open>Every identity has a package URL, up to leading and trailing white space of one that was given.\<close>

lemma identity_purl:
  assumes "package_identity_from_value v = Some parsed"
  shows "starts_with ''pkg:'' (pp_purl parsed) \<or> get_str ''purl'' v = Some (pp_purl parsed)"
  using assms build_purl_pkg
  by (auto simp: package_identity_from_value_def package_identity_from_version_key_def Let_def parse_purl_text
      split: option.splits prod.splits bind_splits)

lemma ioc_records_unique: "distinct (map ioc_key (cross_ecosystem_ioc_records feed v))"
  by (cases feed) (simp_all add: cross_ecosystem_ioc_records_def unique_by_distinct)

end
