(* ===== verification/Feed_Identity.thy ===== *)
theory Feed_Identity
  imports Feed_Parsing
begin

text \<open>
  Identities of packages in feeds against the coordinates of the core: the package URL under which the harvester stores
  what deps.dev says of a package is the one the Triage Counter looks up, whether the feed names the package by a package URL or by system and name.
\<close>

definition plain_char :: "char \<Rightarrow> bool" where
  "plain_char c \<longleftrightarrow> graphic_char c \<and> c \<notin> set ''/@#?:''"

definition plain_part :: "string \<Rightarrow> bool" where
  "plain_part s \<longleftrightarrow> s \<noteq> [] \<and> list_all plain_char s"

text \<open>A coordinate as the registries that deps.dev knows have them: a scope only for npm, a group only for Maven.\<close>

definition deps_dev_coordinate :: "PackageCoordinate \<Rightarrow> bool" where
  "deps_dev_coordinate c \<longleftrightarrow> plain_part (pc_name c) \<and> is_none_or plain_part (pc_version c)
     \<and> (case pc_ecosystem c of
          Npm \<Rightarrow> is_none_or (\<lambda>ns. \<exists>scope. ns = CHR ''@'' # scope \<and> plain_part scope) (pc_namespace c)
        | Maven \<Rightarrow> is_some_and plain_part (pc_namespace c)
        | Cargo \<Rightarrow> pc_namespace c = None
        | Pypi \<Rightarrow> pc_namespace c = None
        | _ \<Rightarrow> False)"

text \<open>How deps.dev names it.\<close>

fun deps_dev_system :: "PackageEcosystem \<Rightarrow> string" where
  "deps_dev_system Npm = ''NPM''"
| "deps_dev_system Pypi = ''PYPI''"
| "deps_dev_system Cargo = ''CARGO''"
| "deps_dev_system Maven = ''MAVEN''"
| "deps_dev_system _ = ''''"

definition version_key_document :: "PackageCoordinate \<Rightarrow> json" where
  "version_key_document c =
     JObject ([(''system'', JString (deps_dev_system (pc_ecosystem c))),
       (''name'', JString (case pc_namespace c of None \<Rightarrow> pc_name c
          | Some ns \<Rightarrow> ns @ (if pc_ecosystem c = Maven then '':'' else ''/'') @ pc_name c))]
       @ (case pc_version c of None \<Rightarrow> [] | Some v \<Rightarrow> [(''version'', JString v)]))"

definition purl_identity :: "PackageCoordinate \<Rightarrow> FeedPurl" where
  "purl_identity c = \<lparr>pp_purl = purl c, pp_ecosystem = ecosystem_display (pc_ecosystem c), pp_namespace = pc_namespace c,
     pp_name = pc_name c, pp_version = pc_version c\<rparr>"

section \<open>Names and scopes\<close>

lemma plain_part_free: "plain_part s \<Longrightarrow> CHR ''/'' \<notin> set s \<and> CHR ''@'' \<notin> set s \<and> CHR ''#'' \<notin> set s \<and> CHR ''?'' \<notin> set s \<and> CHR '':'' \<notin> set s \<and> s \<noteq> []"
  by (auto simp: plain_part_def list_all_iff plain_char_def)

lemma plain_part_graphic: "plain_part s \<Longrightarrow> list_all graphic_char s"
  by (auto simp: plain_part_def list_all_iff plain_char_def)

lemma deps_dev_systems_found:
  assumes "e \<in> {Npm, Pypi, Cargo, Maven}"
  shows "deps_dev_system_to_purl_type (deps_dev_system e) = Some (ecosystem_display e)"
    and "eq_ignore_ascii_case (deps_dev_system e) ''MAVEN'' \<longleftrightarrow> e = Maven"
    and "eq_ignore_ascii_case (deps_dev_system e) ''NPM'' \<longleftrightarrow> e = Npm" "\<not> eq_ignore_ascii_case (deps_dev_system e) ''GO''"
  using assms
  by (auto simp: deps_dev_system_to_purl_type_def deps_dev_systems_def eq_ignore_ascii_case_def to_ascii_lowercase_def
      ascii_lower_char_def is_ascii_uppercase_def)

lemma deps_dev_coordinate_cases:
  assumes "deps_dev_coordinate c"
  obtains (npm) "pc_ecosystem c = Npm" "pc_namespace c = None"
  | (scoped) scope where "pc_ecosystem c = Npm" "pc_namespace c = Some (CHR ''@'' # scope)" "plain_part scope"
  | (maven) group where "pc_ecosystem c = Maven" "pc_namespace c = Some group" "plain_part group"
  | (cargo) "pc_ecosystem c = Cargo" "pc_namespace c = None"
  | (pypi) "pc_ecosystem c = Pypi" "pc_namespace c = None"
  using assms by (auto simp: deps_dev_coordinate_def is_none_or_def is_some_and_def split: PackageEcosystem.splits option.splits)

lemma version_key_identity:
  assumes "deps_dev_coordinate c"
  shows "package_identity_from_version_key (version_key_document c) = Some (purl_identity c)"
proof -
  have n: "plain_part (pc_name c)" and v: "is_none_or plain_part (pc_version c)" using assms by (auto simp: deps_dev_coordinate_def)
  have vs: "get_str ''version'' (version_key_document c) = pc_version c" "get_str ''system'' (version_key_document c) = Some (deps_dev_system (pc_ecosystem c))"
    "get_str ''name'' (version_key_document c) = Some (case pc_namespace c of None \<Rightarrow> pc_name c
          | Some ns \<Rightarrow> ns @ (if pc_ecosystem c = Maven then '':'' else ''/'') @ pc_name c)"
    by (auto simp: version_key_document_def get_str_def json_get_def as_str_def split: option.split)
  have eco: "pc_ecosystem c \<in> {Npm, Pypi, Cargo, Maven}" using assms by (cases rule: deps_dev_coordinate_cases) auto
  have split: "split_deps_dev_name_for_purl (deps_dev_system (pc_ecosystem c)) (case pc_namespace c of None \<Rightarrow> pc_name c
          | Some ns \<Rightarrow> ns @ (if pc_ecosystem c = Maven then '':'' else ''/'') @ pc_name c) = (pc_namespace c, pc_name c)"
  using assms
  proof (cases rule: deps_dev_coordinate_cases)
    case (scoped scope)
    have "rsplit_once CHR ''/'' (CHR ''@'' # scope @ CHR ''/'' # pc_name c) = Some (CHR ''@'' # scope, pc_name c)"
      using rsplit_once_append [of "CHR ''/''" "pc_name c" "CHR ''@'' # scope"] plain_part_free [OF n] by simp
    then show ?thesis using scoped deps_dev_systems_found(2-4) [OF eco] by (simp add: split_deps_dev_name_for_purl_def first_some_def)
  next
    case (maven group)
    have "split_once CHR '':'' (group @ CHR '':'' # pc_name c) = Some (group, pc_name c)"
      using plain_part_free [OF maven(3)] by (intro split_once_append) simp
    then show ?thesis using maven deps_dev_systems_found(2-4) [OF eco] by (simp add: split_deps_dev_name_for_purl_def first_some_def Let_def)
  qed (use plain_part_free [OF n] deps_dev_systems_found(2-4) [OF eco] in
      \<open>simp_all add: split_deps_dev_name_for_purl_def first_some_def rsplit_once_None\<close>)
  have ns: "opt_filter (\<lambda>x. x \<noteq> []) (pc_namespace c) = pc_namespace c"
    using assms by (cases rule: deps_dev_coordinate_cases) (auto dest: plain_part_free)
  have vv: "opt_filter (\<lambda>x. x \<noteq> []) (pc_version c) = pc_version c"
    using v by (cases "pc_version c") (auto dest: plain_part_free)
  have "build_purl (ecosystem_display (pc_ecosystem c)) (pc_namespace c) (pc_name c) (pc_version c) = purl c"
    using assms by (cases rule: deps_dev_coordinate_cases)
      (auto simp: build_purl_def ns vv purl_def purl_package_path_def Let_def split: option.split dest: plain_part_free)
  then show ?thesis
    by (simp add: package_identity_from_version_key_def vs deps_dev_systems_found(1) [OF eco] split purl_identity_def)
qed

section \<open>Printed package URLs\<close>

lemma before_mark_free: "c \<notin> set s \<Longrightarrow> before_mark c s = s"
  by (simp add: before_mark_def split_once_None)

lemma parse_printed_purl:
  assumes "plain_part eco" "path \<noteq> []" "list_all graphic_char path" "CHR ''#'' \<notin> set path" "CHR ''?'' \<notin> set path"
    and v: "case version of None \<Rightarrow> True | Some v \<Rightarrow> plain_part v"
  defines "text_of \<equiv> ''pkg:'' @ eco @ ''/'' @ path @ (case version of None \<Rightarrow> '''' | Some v \<Rightarrow> ''@'' @ v)"
  shows "parse_purl text_of =
    (let (path_part, ver) = (case version of Some v \<Rightarrow> (path, Some v) | None \<Rightarrow>
           (case rsplit_once CHR ''@'' path of Some (p, w) \<Rightarrow> if str_trim w \<noteq> [] then (p, Some w) else (p, None) | None \<Rightarrow> (path, None)));
         segments = filter (\<lambda>s. s \<noteq> []) (split_on CHR ''/'' path_part)
     in if segments = [] then None
        else Some \<lparr>pp_purl = text_of, pp_ecosystem = eco,
          pp_namespace = (if butlast segments = [] then None else Some (str_join ''/'' (butlast segments))),
          pp_name = last segments, pp_version = ver\<rparr>)"
proof -
  let ?main = "path @ (case version of None \<Rightarrow> '''' | Some v \<Rightarrow> ''@'' @ v)"
  have vg: "list_all graphic_char (case version of None \<Rightarrow> '''' | Some v \<Rightarrow> ''@'' @ v)"
    using v by (auto split: option.splits simp: graphic_char_def dest: plain_part_graphic)
  have "list_all graphic_char text_of"
    using assms(3) vg plain_part_graphic [OF assms(1)] by (simp add: text_of_def graphic_char_def)
  moreover have "text_of \<noteq> []" by (simp add: text_of_def)
  ultimately have t: "str_trim text_of = text_of" by (intro str_trim_id) (simp_all add: list_all_iff)
  have f: "CHR ''#'' \<notin> set ?main" "CHR ''?'' \<notin> set ?main"
    using assms(4,5) v by (auto split: option.splits dest: plain_part_free)
  have s: "split_once CHR ''/'' (eco @ ''/'' @ ?main) = Some (eco, ?main)"
    using split_once_append [of "CHR ''/''" eco ?main] plain_part_free [OF assms(1)] by simp
  have r: "rsplit_once CHR ''@'' (path @ ''@'' @ w) = Some (path, w) \<and> str_trim w = w" if "version = Some w" for w
    using v that rsplit_once_append [of "CHR ''@''" w path] plain_part_free [of w] plain_part_graphic [of w]
    by (auto intro!: str_trim_id simp: list_all_iff)
  have p: "strip_prefix ''pkg:'' text_of = Some (eco @ ''/'' @ ?main)" unfolding text_of_def by (simp add: strip_prefix_Some)
  show ?thesis
    unfolding parse_purl_def t p option.case s prod.case Let_def before_mark_free [OF f(1)] before_mark_free [OF f(2)]
    using v r by (cases version) (auto dest: plain_part_free cong: option.case_cong)
qed

lemma ecosystem_plain: "e \<in> {Npm, Pypi, Cargo, Maven} \<Longrightarrow> plain_part (ecosystem_display e)"
  by (auto simp: plain_part_def plain_char_def graphic_char_def)

lemma split_path:
  assumes "plain_part name"
  shows "filter (\<lambda>s. s \<noteq> []) (split_on CHR ''/'' name) = [name]"
    and "CHR ''/'' \<notin> set ns \<Longrightarrow> ns \<noteq> [] \<Longrightarrow> filter (\<lambda>s. s \<noteq> []) (split_on CHR ''/'' (ns @ ''/'' @ name)) = [ns, name]"
  using plain_part_free [OF assms] split_on_append [of "CHR ''/''" ns name] by (simp_all add: split_on_id)

text \<open>C32: What deps.dev says of a package is stored under the package URL by which the Triage Counter asks: for a package of npm, PyPI, Cargo or
  Maven the identity that the harvester derives from a system and a name has the package URL of the core, and reading this package URL back
  gives the same identity; except for an npm package with a scope and without a version, whose package URL is not read at all.\<close>

theorem feed_identity_agrees:
  assumes "deps_dev_coordinate c"
  shows "package_identity_from_version_key (version_key_document c) = Some (purl_identity c)
    \<and> parse_purl (purl c) =
        (if pc_ecosystem c = Npm \<and> pc_namespace c \<noteq> None \<and> pc_version c = None then None else Some (purl_identity c))"
proof
  show "package_identity_from_version_key (version_key_document c) = Some (purl_identity c)" by (rule version_key_identity [OF assms])
  have n: "plain_part (pc_name c)" and v: "case pc_version c of None \<Rightarrow> True | Some v \<Rightarrow> plain_part v"
    using assms by (auto simp: deps_dev_coordinate_def split: option.split)
  have eco: "pc_ecosystem c \<in> {Npm, Pypi, Cargo, Maven}" using assms by (cases rule: deps_dev_coordinate_cases) auto
  have "purl_package_path c \<noteq> [] \<and> list_all graphic_char (purl_package_path c) \<and> CHR ''#'' \<notin> set (purl_package_path c) \<and> CHR ''?'' \<notin> set (purl_package_path c)"
    using assms plain_part_free [OF n] plain_part_graphic [OF n]
    by (cases rule: deps_dev_coordinate_cases)
      (auto simp: purl_package_path_def graphic_char_def list_all_iff dest: plain_part_free plain_part_graphic)
  then have path: "purl_package_path c \<noteq> []" "list_all graphic_char (purl_package_path c)" "CHR ''#'' \<notin> set (purl_package_path c)"
      "CHR ''?'' \<notin> set (purl_package_path c)" by simp_all
  have text_of: "purl c = ''pkg:'' @ ecosystem_display (pc_ecosystem c) @ ''/'' @ purl_package_path c @ (case pc_version c of None \<Rightarrow> '''' | Some v \<Rightarrow> ''@'' @ v)"
    by (simp add: purl_def split: option.split)
  note parsed = parse_printed_purl [OF ecosystem_plain [OF eco] path v, folded text_of]
  note names = plain_part_free [OF n]
  show "parse_purl (purl c) =
        (if pc_ecosystem c = Npm \<and> pc_namespace c \<noteq> None \<and> pc_version c = None then None else Some (purl_identity c))"
  using assms
  proof (cases rule: deps_dev_coordinate_cases)
    case (scoped scope)
    have free: "CHR ''/'' \<notin> set (CHR ''@'' # scope)" "CHR ''@'' # scope \<noteq> []" using plain_part_free [OF scoped(3)] by auto
    have "rsplit_once CHR ''@'' ([] @ CHR ''@'' # scope @ ''/'' @ pc_name c) = Some ([], scope @ ''/'' @ pc_name c)"
      using plain_part_free [OF scoped(3)] names by (intro rsplit_once_append) simp
    then show ?thesis using scoped parsed split_path(2) [OF n free]
      by (auto simp: purl_package_path_def purl_identity_def split: option.split)
  next
    case (maven group)
    have free: "CHR ''/'' \<notin> set group" "group \<noteq> []" using plain_part_free [OF maven(3)] by auto
    have "rsplit_once CHR ''@'' (group @ ''/'' @ pc_name c) = None"
      using plain_part_free [OF maven(3)] names by (intro rsplit_once_None) simp
    then show ?thesis using maven parsed split_path(2) [OF n free] free
      by (auto simp: purl_package_path_def purl_identity_def split: option.split)
  qed (use parsed names split_path(1) [OF n] in \<open>auto simp: purl_package_path_def purl_identity_def rsplit_once_None split: option.split\<close>)
qed

definition demo_scoped :: PackageCoordinate where
  "demo_scoped = coordinate_new Npm ''node'' (Some ''20.1.0'') (Some ''@types'')"

theorem feed_identity_agrees_witness: "parse_purl ''pkg:npm/@types/node@20.1.0'' = Some (purl_identity demo_scoped)"
proof -
  have "deps_dev_coordinate demo_scoped"
    by (simp add: demo_scoped_def coordinate_new_def deps_dev_coordinate_def plain_part_def plain_char_def graphic_char_def)
  moreover have "purl demo_scoped = ''pkg:npm/@types/node@20.1.0''"
    by (simp add: demo_scoped_def coordinate_new_def purl_def purl_package_path_def)
  ultimately show ?thesis using feed_identity_agrees [of demo_scoped] by (simp add: demo_scoped_def coordinate_new_def)
qed

end
