(* ===== verification/Feed_Enrichment.thy ===== *)
theory Feed_Enrichment
  imports Feed_Parsing "HOL-Library.AList"
begin

text \<open>
  The enrichment of a deps.dev payload by the feed harvester (\<^verbatim>\<open>enrich_live_deps_dev_payload\<close> of
  \<^verbatim>\<open>services/feed-harvester/src/lib.rs\<close>): for each package of the payload its dependency graph is fetched, and packages and
  edges are merged into one document. The answer to a request may depend on its number; the URLs requested are kept.
\<close>

type_synonym feed_http = "nat \<Rightarrow> string \<Rightarrow> (string, string) result"
type_synonym 'a fetcher = "string list \<Rightarrow> (HarvestError, 'a) result \<times> string list"

definition fetch_live_feed_bytes :: "feed_http \<Rightarrow> string \<Rightarrow> string fetcher" where
  "fetch_live_feed_bytes http url_text requests = (map_err FeedHttp (http (length requests) url_text), requests @ [url_text])"

record enrichment =
  en_packages :: "json list"
  en_seen_packages :: "string list"
  en_edges :: "json list"
  en_seen_edges :: "(string \<times> string \<times> string) list"
  en_fetches :: nat

text \<open>One graph: its packages, then its edges.\<close>

definition merge_graph :: "feed_lib \<Rightarrow> json \<Rightarrow> enrichment \<Rightarrow> enrichment" where
  "merge_graph lib graph st =
     (let (packages, seen) = extend_unique_deps_dev_packages graph (en_packages st, en_seen_packages st);
          added = unique_by edge_key (en_seen_edges st) (deps_dev_dependency_edges lib graph)
      in \<lparr>en_packages = packages, en_seen_packages = seen,
           en_edges = en_edges st @ map explicit_deps_dev_edge_document added,
           en_seen_edges = en_seen_edges st @ map edge_key added, en_fetches = en_fetches st + 1\<rparr>)"

fun enrich_packages :: "feed_lib \<Rightarrow> feed_http \<Rightarrow> string \<Rightarrow> json list \<Rightarrow> enrichment \<Rightarrow> enrichment fetcher" where
  "enrich_packages lib http base [] st requests = (Inr st, requests)"
| "enrich_packages lib http base (package # packages) st requests =
     (case deps_dev_version_key_from_value package of
        None \<Rightarrow> enrich_packages lib http base packages st requests
      | Some key \<Rightarrow>
          (case deps_dev_dependencies_url lib base key of
             Inl e \<Rightarrow> (Inl e, requests)
           | Inr graph_url \<Rightarrow>
               (case fetch_live_feed_bytes http graph_url requests of
                  (Inl e, requests1) \<Rightarrow> (Inl e, requests1)
                | (Inr graph_bytes, requests1) \<Rightarrow>
                    (case read_document lib graph_bytes of
                       Inl e \<Rightarrow> (Inl e, requests1)
                     | Inr graph \<Rightarrow> enrich_packages lib http base packages (merge_graph lib graph st) requests1))))"

definition enrichment_start :: "json \<Rightarrow> enrichment" where
  "enrichment_start v =
     (let (packages, seen) = extend_unique_deps_dev_packages v ([], [])
      in \<lparr>en_packages = packages, en_seen_packages = seen, en_edges = [], en_seen_edges = [], en_fetches = 0\<rparr>)"

definition enriched_document :: "json \<Rightarrow> enrichment \<Rightarrow> json" where
  "enriched_document v st =
     (case v of
        JObject m \<Rightarrow> JObject (AList.update ''edges'' (JArray (en_edges st)) (AList.update ''packages'' (JArray (en_packages st)) m))
      | _ \<Rightarrow> JObject [(''packages'', JArray (en_packages st)), (''edges'', JArray (en_edges st))])"

definition enrich_live_deps_dev_payload :: "feed_lib \<Rightarrow> feed_http \<Rightarrow> string \<Rightarrow> json \<Rightarrow> json fetcher" where
  "enrich_live_deps_dev_payload lib http base v requests =
     (if \<not> should_enrich_deps_dev_payload v then (Inr v, requests)
      else case enrich_packages lib http base (deps_dev_packages v) (enrichment_start v) requests of
             (Inl e, requests1) \<Rightarrow> (Inl e, requests1)
           | (Inr st, requests1) \<Rightarrow> (Inr (if en_fetches st = 0 then v else enriched_document v st), requests1))"

definition fetch_live_deps_dev_bytes :: "feed_lib \<Rightarrow> feed_http \<Rightarrow> string \<Rightarrow> string \<Rightarrow> string fetcher" where
  "fetch_live_deps_dev_bytes lib http metadata_url base requests =
     (case fetch_live_feed_bytes http metadata_url requests of
        (Inl e, requests1) \<Rightarrow> (Inl e, requests1)
      | (Inr bytes, requests1) \<Rightarrow>
          (case read_document lib bytes of
             Inl e \<Rightarrow> (Inl e, requests1)
           | Inr v \<Rightarrow>
               (case enrich_live_deps_dev_payload lib http base v requests1 of
                  (Inl e, requests2) \<Rightarrow> (Inl e, requests2)
                | (Inr enriched, requests2) \<Rightarrow> (map_err InvalidFeed (fl_to_vec lib enriched), requests2))))"

section \<open>What the loop fetches\<close>

text \<open>The documents answered to a sequence of requests.\<close>

definition answered_graphs :: "feed_lib \<Rightarrow> feed_http \<Rightarrow> string list \<Rightarrow> string list \<Rightarrow> json list \<Rightarrow> bool" where
  "answered_graphs lib http requests urls graphs \<longleftrightarrow> length graphs = length urls
     \<and> (\<forall>i < length urls. \<exists>bytes. http (length requests + i) (urls ! i) = Inr bytes \<and> fl_from_slice lib bytes = Inr (graphs ! i))"

lemma answered_graphs_Nil: "answered_graphs lib http requests [] []"
  by (simp add: answered_graphs_def)

lemma answered_graphs_Cons:
  assumes "http (length requests) u = Inr bytes" "fl_from_slice lib bytes = Inr graph" "answered_graphs lib http (requests @ [u]) urls graphs"
  shows "answered_graphs lib http requests (u # urls) (graph # graphs)"
  using assms by (auto simp: answered_graphs_def nth_Cons split: nat.split)

lemma enrich_packages_folds:
  assumes "enrich_packages lib http base packages st requests = (Inr st', requests')"
  shows "\<exists>urls graphs. requests' = requests @ urls \<and> answered_graphs lib http requests urls graphs \<and> st' = fold (merge_graph lib) graphs st"
  using assms
proof (induction lib http base packages st requests rule: enrich_packages.induct)
  case (1 lib http base st requests)
  then show ?case by (auto intro: answered_graphs_Nil)
next
  case (2 lib http base package packages st requests)
  show ?case
  proof (cases "deps_dev_version_key_from_value package")
    case None
    then show ?thesis using 2(1) 2(3) by simp
  next
    case (Some key)
    from 2(3) Some obtain u bytes graph where step: "deps_dev_dependencies_url lib base key = Inr u" "http (length requests) u = Inr bytes"
        "fl_from_slice lib bytes = Inr graph" "enrich_packages lib http base packages (merge_graph lib graph st) (requests @ [u]) = (Inr st', requests')"
      by (auto simp: fetch_live_feed_bytes_def read_document_def map_err_def split: sum.splits)
    from 2(2) [OF Some step(1) _ refl _ step(4)] step(2,3)
    obtain urls graphs where "requests' = (requests @ [u]) @ urls" "answered_graphs lib http (requests @ [u]) urls graphs"
        "st' = fold (merge_graph lib) graphs (merge_graph lib graph st)"
      by (auto simp: fetch_live_feed_bytes_def read_document_def)
    then show ?thesis using answered_graphs_Cons [of http requests u bytes, OF step(2,3)]
      by (intro exI [of _ "u # urls"] exI [of _ "graph # graphs"]) simp
  qed
qed

section \<open>What is merged\<close>

definition package_purls :: "json \<Rightarrow> string set" where
  "package_purls v = fst ` set (identified_packages v)"

definition edge_keys :: "feed_lib \<Rightarrow> json \<Rightarrow> (string \<times> string \<times> string) set" where
  "edge_keys lib v = edge_key ` set (deps_dev_dependency_edges lib v)"

definition merged_ok :: "feed_lib \<Rightarrow> json list \<Rightarrow> json list \<Rightarrow> enrichment \<Rightarrow> bool" where
  "merged_ok lib documents graphs st \<longleftrightarrow>
     map (\<lambda>p. map_option pp_purl (package_identity_from_value p)) (en_packages st) = map Some (en_seen_packages st)
     \<and> distinct (en_seen_packages st) \<and> set (en_seen_packages st) = (\<Union>v \<in> set documents. package_purls v)
     \<and> set (en_packages st) \<subseteq> (\<Union>v \<in> set documents. set (deps_dev_packages v))
     \<and> (\<exists>edges. en_edges st = map explicit_deps_dev_edge_document edges \<and> en_seen_edges st = map edge_key edges)
     \<and> set (en_seen_edges st) = (\<Union>v \<in> set graphs. edge_keys lib v)"

lemma identified_identity: "(p, v) \<in> set (identified_packages d) \<Longrightarrow> map_option pp_purl (package_identity_from_value v) = Some p \<and> v \<in> set (deps_dev_packages d)"
  by (auto simp: identified_packages_def List.map_filter_def)

lemma map_filter_identified:
  "set new \<subseteq> set (identified_packages d) \<Longrightarrow>
     map (\<lambda>p. map_option pp_purl (package_identity_from_value p)) (map snd new) = map Some (map fst new)"
  by (induction new) (auto dest: identified_identity)

lemma extend_unique_ok:
  fixes found :: "json list \<times> string list"
  assumes "extend_unique_deps_dev_packages v found = (packages, seen)"
    and "map (\<lambda>p. map_option pp_purl (package_identity_from_value p)) (fst found) = map Some (snd found)" "distinct (snd found)"
  shows "map (\<lambda>p. map_option pp_purl (package_identity_from_value p)) packages = map Some seen"
    and "distinct seen" "set seen = set (snd found) \<union> package_purls v" "set packages \<subseteq> set (fst found) \<union> set (deps_dev_packages v)"
proof -
  let ?new = "unique_by fst (snd found) (identified_packages v)"
  have e: "packages = fst found @ map snd ?new" "seen = snd found @ map fst ?new"
    using assms(1) by (simp_all add: extend_unique_deps_dev_packages_def Let_def)
  have s: "set ?new \<subseteq> set (identified_packages v)" by (rule unique_by_subset)
  have k: "fst ` set ?new = package_purls v - set (snd found)" by (simp add: unique_by_keys package_purls_def)
  show "map (\<lambda>p. map_option pp_purl (package_identity_from_value p)) packages = map Some seen"
    unfolding e map_append assms(2) map_filter_identified [OF s] ..
  show "distinct seen" unfolding e using assms(3) k by (auto simp: unique_by_distinct)
  show "set seen = set (snd found) \<union> package_purls v" unfolding e using k by auto
  show "set packages \<subseteq> set (fst found) \<union> set (deps_dev_packages v)" unfolding e using s by (fastforce dest: identified_identity)
qed

lemma merge_graph_ok:
  assumes "merged_ok lib documents graphs st"
  shows "merged_ok lib (documents @ [graph]) (graphs @ [graph]) (merge_graph lib graph st)"
proof -
  obtain packages seen where x: "extend_unique_deps_dev_packages graph (en_packages st, en_seen_packages st) = (packages, seen)" by fastforce
  obtain edges where edges: "en_edges st = map explicit_deps_dev_edge_document edges" "en_seen_edges st = map edge_key edges"
    using assms by (auto simp: merged_ok_def)
  let ?added = "unique_by edge_key (en_seen_edges st) (deps_dev_dependency_edges lib graph)"
  have m: "en_packages (merge_graph lib graph st) = packages" "en_seen_packages (merge_graph lib graph st) = seen"
    "en_edges (merge_graph lib graph st) = map explicit_deps_dev_edge_document (edges @ ?added)"
    "en_seen_edges (merge_graph lib graph st) = map edge_key (edges @ ?added)"
    by (simp_all add: merge_graph_def x edges Let_def)
  have "set (map edge_key (edges @ ?added)) = set (en_seen_edges st) \<union> edge_keys lib graph"
    using unique_by_keys [of edge_key "en_seen_edges st" "deps_dev_dependency_edges lib graph"] edges by (auto simp: edge_keys_def)
  then show ?thesis
    using assms extend_unique_ok [OF x] unfolding merged_ok_def m by (auto simp del: map_append)
qed

lemma fold_merge_ok:
  "merged_ok lib documents gs st \<Longrightarrow> merged_ok lib (documents @ graphs) (gs @ graphs) (fold (merge_graph lib) graphs st)"
proof (induction graphs arbitrary: documents gs st)
  case (Cons graph graphs)
  then show ?case using Cons.IH [OF merge_graph_ok [OF Cons.prems], of graph] by simp
qed simp

lemma enrichment_start_ok: "merged_ok lib [v] [] (enrichment_start v)"
proof -
  obtain packages seen where x: "extend_unique_deps_dev_packages v ([], []) = (packages, seen)" by fastforce
  then have "enrichment_start v = \<lparr>en_packages = packages, en_seen_packages = seen, en_edges = [], en_seen_edges = [], en_fetches = 0\<rparr>"
    by (simp add: enrichment_start_def)
  then show ?thesis using extend_unique_ok [OF x] by (simp add: merged_ok_def)
qed

lemma fold_merge_fetches: "en_fetches (fold (merge_graph lib) graphs st) = en_fetches st + length graphs"
  by (induction graphs arbitrary: st) (simp_all add: merge_graph_def Let_def split: prod.split)

section \<open>The merged document\<close>

lemma edge_keys_eq:
  "edge_keys lib v = (\<Union>p \<in> set (deps_dev_packages v). edge_key ` set (listed_edges p)) \<union> edge_key ` set (top_level_deps_dev_edges lib v)"
  by (auto simp: edge_keys_def deps_dev_dependency_edges_def unique_by_keys)

lemma enriched_document_fields:
  assumes "should_enrich_deps_dev_payload v"
  shows "deps_dev_packages (enriched_document v st) = en_packages st"
    and "top_level_deps_dev_edges lib (enriched_document v st) = List.map_filter explicit_edge (en_edges st)"
  using assms
  by (auto simp: enriched_document_def should_enrich_deps_dev_payload_def deps_dev_packages_def items_under_def array_under_def
      as_array_def top_level_deps_dev_edges_def explicit_deps_dev_edges_def node_indexed_deps_dev_edges_def first_some_def update_conv'
      split: json.split)

definition written_plainly :: "string \<times> string \<times> string \<Rightarrow> bool" where
  "written_plainly = (\<lambda>(from_purl, to_purl, _). starts_with ''pkg:'' from_purl \<and> starts_with ''pkg:'' to_purl)"

lemma reread_edges:
  "edge_key ` set (List.map_filter explicit_edge (map explicit_deps_dev_edge_document edges)) = {k \<in> edge_key ` set edges. written_plainly k}"
  by (induction edges) (auto simp: List.map_filter_def edge_document_roundtrip written_plainly_def edge_key_def)

lemma identified_purls:
  "map (\<lambda>p. map_option pp_purl (package_identity_from_value p)) ps = map Some purls \<Longrightarrow>
     map fst (List.map_filter (\<lambda>p. map_option (\<lambda>parsed. (pp_purl parsed, p)) (package_identity_from_value p)) ps) = purls"
  by (induction ps arbitrary: purls) (auto simp: List.map_filter_def)


section \<open>A concrete payload\<close>

definition demo_version_key :: "string \<Rightarrow> json" where
  "demo_version_key name = JObject [(''versionKey'', JObject [(''system'', JString ''NPM''), (''name'', JString name), (''version'', JString ''1'')])]"

definition demo_graph :: json where
  "demo_graph = JObject [(''nodes'', JArray [demo_version_key ''a'', demo_version_key ''@s/b'']),
     (''edges'', JArray [JObject [(''fromNode'', JNumber 0), (''toNode'', JNumber 1)]])]"

definition demo_feed_lib :: feed_lib where
  "demo_feed_lib = \<lparr>fl_from_slice = (\<lambda>t. if t = ''payload'' then Inr (JArray [demo_version_key ''a'']) else if t = ''graph'' then Inr demo_graph else Inl ''syntax''),
     fl_to_vec = (\<lambda>_. Inr ''document''),
     fl_as_u64 = (\<lambda>v. if v = JNumber 0 then Some 0 else if v = JNumber 1 then Some 1 else None),
     fl_parse_date = (\<lambda>_. None), fl_hex_sha256 = (\<lambda>_. replicate 64 CHR ''a''),
     fl_url_segments = (\<lambda>base. Inr (\<lambda>segments. Some (base @ ''/'' @ str_join ''/'' segments)))\<rparr>"

definition demo_feed_http :: feed_http where
  "demo_feed_http n u = (if u = ''https://feed'' then Inr ''payload'' else Inr ''graph'')"

lemma demo_key_identity:
  "package_identity_from_value (demo_version_key ''a'') = Some \<lparr>pp_purl = ''pkg:npm/a@1'', pp_ecosystem = ''npm'', pp_namespace = None,
     pp_name = ''a'', pp_version = Some ''1''\<rparr>"
  "package_identity_from_value (demo_version_key ''@s/b'') = Some \<lparr>pp_purl = ''pkg:npm/@s/b@1'', pp_ecosystem = ''npm'', pp_namespace = Some ''@s'',
     pp_name = ''b'', pp_version = Some ''1''\<rparr>"
  by (simp_all add: package_identity_from_value_def demo_version_key_def json_get_def get_str_def as_str_def package_identity_from_version_key_def
    deps_dev_system_to_purl_type_def deps_dev_systems_def eq_ignore_ascii_case_def to_ascii_lowercase_def ascii_lower_char_def is_ascii_uppercase_def
    split_deps_dev_name_for_purl_def rsplit_once_def first_some_def build_purl_def)

lemma demo_packages:
  "deps_dev_packages (JArray [demo_version_key ''a'']) = [demo_version_key ''a'']"
  "deps_dev_packages demo_graph = [demo_version_key ''a'', demo_version_key ''@s/b'']"
  by (simp_all add: deps_dev_packages_def items_under_def demo_graph_def array_under_def as_array_def)

lemma demo_purls: "package_purls (JArray [demo_version_key ''a'']) = {''pkg:npm/a@1''}" "package_purls demo_graph = {''pkg:npm/a@1'', ''pkg:npm/@s/b@1''}"
  by (auto simp: package_purls_def identified_packages_def demo_packages List.map_filter_def demo_key_identity)

lemma demo_edge: "edge_keys demo_feed_lib demo_graph = {(''pkg:npm/a@1'', ''pkg:npm/@s/b@1'', ''depends-on'')}"
proof -
  have "get_array ''dependencies'' (demo_version_key name) = None" for name
    by (simp add: demo_version_key_def get_array_def json_get_def)
  then have "listed_edges (demo_version_key name) = []" for name by (simp add: listed_edges_def split: option.split)
  moreover have "value_to_purl (demo_version_key name) = map_option pp_purl (package_identity_from_value (demo_version_key name))" for name
    by (simp add: value_to_purl_def demo_version_key_def)
  ultimately show ?thesis
    by (simp add: edge_keys_eq demo_packages demo_key_identity demo_feed_lib_def)
      (simp add: demo_graph_def demo_key_identity top_level_deps_dev_edges_def explicit_deps_dev_edges_def explicit_edge_def
        node_indexed_deps_dev_edges_def node_indexed_edge_def json_get_def first_some_def as_array_def List.map_filter_def list_get_def
        edge_relationship_def get_str_def edge_key_def)
qed

lemma demo_enriched:
  "\<exists>out. enrich_live_deps_dev_payload demo_feed_lib demo_feed_http ''https://api'' (JArray [demo_version_key ''a'']) [] =
     (Inr out, [''https://api/systems/npm/packages/a/versions/1:dependencies''])"
proof -
  have "deps_dev_version_key_from_value (demo_version_key ''a'') = Some \<lparr>vk_system = ''NPM'', vk_name = ''a'', vk_version = ''1''\<rparr>"
    by (simp add: deps_dev_version_key_from_value_def demo_version_key_def json_get_def get_str_def as_str_def)
  moreover have "to_ascii_lowercase ''NPM'' = ''npm''" by code_simp
  ultimately show ?thesis
    by (simp add: enrich_live_deps_dev_payload_def should_enrich_deps_dev_payload_def demo_packages deps_dev_dependencies_url_def
        demo_feed_lib_def fetch_live_feed_bytes_def demo_feed_http_def read_document_def)
qed


end
