(* ===== verification/Feed_Harvester.thy ===== *)
theory Feed_Harvester
  imports Feed_Enrichment
begin

text \<open>
  The stateful part of the feed harvester, \<^verbatim>\<open>services/feed-harvester/src/lib.rs\<close>: which document becomes a snapshot, the transaction that
  stores it with its records, the refresh of all feeds and the status of feeds. The state has the tables, the URLs requested, the number of
  statements so far and the observations of metrics. Each statement, by its number, is executed, rejected, or executed although its reply is
  lost; a transaction that fails leaves the tables as they were. The constraints of the tables on values (digests, counts) hold of what is inserted.
\<close>

section \<open>State\<close>

record SnapshotRow =
  sn_id :: uuid
  sn_tenant_id :: "uuid option"
  sn_feed_name :: string
  sn_state :: FeedState
  sn_record_count :: nat
  sn_digest :: ArtifactDigest
  sn_last_success_at :: "timestamp option"
  sn_created_at :: timestamp

record ScorecardRow =
  sx_id :: uuid
  sx_snapshot_id :: uuid
  sx_result :: HarvestedScorecard

text \<open>The other rows: the row they belong to and the record.\<close>

record feed_db =
  fd_snapshots :: "SnapshotRow list"
  fd_packages :: "(uuid \<times> HarvestedPackage) list"
  fd_edges :: "(uuid \<times> DepsDevDependencyEdgeRecord) list"
  fd_scorecards :: "ScorecardRow list"
  fd_checks :: "(uuid \<times> ScorecardCheckRecord) list"
  fd_iocs :: "(uuid \<times> HarvestedIoc) list"

datatype HarvestObservation =
    RecordCountObserved string FeedState nat
  | LastSuccessObserved string timestamp
  | RefreshObserved

record harvest_state =
  hv_db :: feed_db
  hv_requests :: "string list"
  hv_statements :: nat
  hv_observations :: "HarvestObservation list"

record LiveFeedSources =
  lf_deps_dev_url :: "string option"
  lf_deps_dev_api_base_url :: "string option"
  lf_openssf_scorecard_url :: "string option"

definition url_for :: "LiveFeedSources \<Rightarrow> FeedSource \<Rightarrow> string option" where
  "url_for sources feed =
     (case feed of DepsDev \<Rightarrow> lf_deps_dev_url sources | OpenSsfScorecard \<Rightarrow> lf_openssf_scorecard_url sources | _ \<Rightarrow> None)"

definition deps_dev_api_base_url :: "LiveFeedSources \<Rightarrow> string" where
  "deps_dev_api_base_url sources = unwrap_or ''https://api.deps.dev/v3'' (lf_deps_dev_api_base_url sources)"

datatype statement_answer = Executed | Rejected | ReplyLost

datatype fixture_answer = FixtureRead string | FixtureMissing | FixtureFailed string

record feed_env =
  fe_lib :: feed_lib
  fe_http :: feed_http
  fe_fixture :: "string \<Rightarrow> fixture_answer"
  fe_sources :: LiveFeedSources
  fe_answer :: "nat \<Rightarrow> statement_answer"
  fe_now :: "nat \<Rightarrow> timestamp"
  fe_fresh :: "nat \<Rightarrow> uuid"

section \<open>Steps\<close>

type_synonym 'a harvest = "harvest_state \<Rightarrow> (HarvestError, 'a) result \<times> harvest_state"

definition hlift :: "(HarvestError, 'a) result \<Rightarrow> 'a harvest" where
  "hlift r s = (r, s)"

definition hbind :: "'a harvest \<Rightarrow> ('a \<Rightarrow> 'b harvest) \<Rightarrow> 'b harvest" where
  "hbind step f s = (case step s of (Inl e, s1) \<Rightarrow> (Inl e, s1) | (Inr a, s1) \<Rightarrow> f a s1)"

fun for_each :: "('a \<Rightarrow> unit harvest) \<Rightarrow> 'a list \<Rightarrow> unit harvest" where
  "for_each step [] = hlift (Inr ())"
| "for_each step (x # xs) = hbind (step x) (\<lambda>_. for_each step xs)"

definition database_error :: HarvestError where
  "database_error = FeedDatabase ''feed snapshot repository is unavailable''"

definition feed_statement :: "feed_env \<Rightarrow> (nat \<Rightarrow> feed_db \<Rightarrow> 'a \<times> feed_db) \<Rightarrow> 'a harvest" where
  "feed_statement env query s =
     (let n = hv_statements s; s1 = s\<lparr>hv_statements := n + 1\<rparr> in
      case fe_answer env n of
        Rejected \<Rightarrow> (Inl database_error, s1)
      | ReplyLost \<Rightarrow> (Inl database_error, s1\<lparr>hv_db := snd (query n (hv_db s))\<rparr>)
      | Executed \<Rightarrow> (Inr (fst (query n (hv_db s))), s1\<lparr>hv_db := snd (query n (hv_db s))\<rparr>))"

definition feed_transaction :: "feed_env \<Rightarrow> 'a harvest \<Rightarrow> 'a harvest" where
  "feed_transaction env body s =
     (case feed_statement env (\<lambda>_ db. ((), db)) s of
        (Inl e, s1) \<Rightarrow> (Inl e, s1)
      | (Inr _, s1) \<Rightarrow>
          (case body s1 of
             (Inl e, s2) \<Rightarrow> (Inl e, s2\<lparr>hv_db := hv_db s\<rparr>)
           | (Inr a, s2) \<Rightarrow>
               (let s3 = s2\<lparr>hv_statements := hv_statements s2 + 1\<rparr> in
                case fe_answer env (hv_statements s2) of
                  Executed \<Rightarrow> (Inr a, s3)
                | Rejected \<Rightarrow> (Inl database_error, s3\<lparr>hv_db := hv_db s\<rparr>)
                | ReplyLost \<Rightarrow> (Inl database_error, s3))))"

section \<open>Loading a document\<close>

definition read_fixture_bytes :: "feed_env \<Rightarrow> FeedSource \<Rightarrow> (HarvestError, string option) result" where
  "read_fixture_bytes env feed =
     (case fe_fixture env (feed_file_name feed) of
        FixtureRead bytes \<Rightarrow> Inr (Some bytes)
      | FixtureMissing \<Rightarrow> Inr None
      | FixtureFailed e \<Rightarrow> Inl (FeedIo e))"

definition fetching :: "(string list \<Rightarrow> 'a \<times> string list) \<Rightarrow> harvest_state \<Rightarrow> 'a \<times> harvest_state" where
  "fetching fetch s = (case fetch (hv_requests s) of (r, requests) \<Rightarrow> (r, s\<lparr>hv_requests := requests\<rparr>))"

definition live_fetch :: "feed_env \<Rightarrow> FeedSource \<Rightarrow> string \<Rightarrow> string list \<Rightarrow> (HarvestError, string) result \<times> string list" where
  "live_fetch env feed url_text =
     (if feed = DepsDev
      then fetch_live_deps_dev_bytes (fe_lib env) (fe_http env) url_text (deps_dev_api_base_url (fe_sources env))
      else fetch_live_feed_bytes (fe_http env) url_text)"

definition fixture_snapshot :: "feed_env \<Rightarrow> FeedSource \<Rightarrow> FeedState \<Rightarrow> (HarvestError, FeedState \<times> string option) result" where
  "fixture_snapshot env feed state_if_read =
     res_map (\<lambda>bytes. case bytes of Some b \<Rightarrow> (state_if_read, Some b) | None \<Rightarrow> (FeedState.Unavailable, None)) (read_fixture_bytes env feed)"

definition load_feed_snapshot_bytes :: "feed_env \<Rightarrow> FeedSource \<Rightarrow> (FeedState \<times> string option) harvest" where
  "load_feed_snapshot_bytes env feed s =
     (case url_for (fe_sources env) feed of
        None \<Rightarrow> (fixture_snapshot env feed Fresh, s)
      | Some url_text \<Rightarrow>
          (case fetching (live_fetch env feed url_text) s of
             (Inr bytes, s1) \<Rightarrow>
               (case normalized_record_count (fe_lib env) feed bytes of
                  Inr _ \<Rightarrow> (Inr (Fresh, Some bytes), s1)
                | Inl _ \<Rightarrow> (fixture_snapshot env feed Degraded, s1))
           | (Inl _, s1) \<Rightarrow> (fixture_snapshot env feed Degraded, s1)))"

section \<open>Storing records\<close>

definition I32_MAX :: nat where "I32_MAX = 2 ^ 31 - 1"

text \<open>\<^verbatim>\<open>ON CONFLICT (snapshot_id, purl) DO NOTHING\<close> and the like: a row is inserted unless one with its key is there.\<close>

definition insert_unless :: "('r \<Rightarrow> bool) \<Rightarrow> 'r \<Rightarrow> 'r list \<Rightarrow> 'r list" where
  "insert_unless conflict row rows = (if list_ex conflict rows then rows else rows @ [row])"

definition insert_package :: "feed_env \<Rightarrow> uuid \<Rightarrow> json \<Rightarrow> unit harvest" where
  "insert_package env snapshot package =
     (case parse_deps_dev_package (fe_lib env) package of
        None \<Rightarrow> hlift (Inr ())
      | Some r \<Rightarrow>
          if hp_dependency_count r > I32_MAX then hlift (Inl (InvalidFeed ''deps.dev dependencyCount exceeds integer bounds''))
          else feed_statement env (\<lambda>_ db. ((), db\<lparr>fd_packages :=
            insert_unless (\<lambda>(i, x). i = snapshot \<and> hp_purl x = hp_purl r) (snapshot, r) (fd_packages db)\<rparr>)))"

definition insert_edge :: "feed_env \<Rightarrow> uuid \<Rightarrow> DepsDevDependencyEdgeRecord \<Rightarrow> unit harvest" where
  "insert_edge env snapshot edge = feed_statement env (\<lambda>_ db. ((), db\<lparr>fd_edges :=
     insert_unless (\<lambda>(i, x). i = snapshot \<and> edge_key x = edge_key edge) (snapshot, edge) (fd_edges db)\<rparr>))"

definition persist_deps_dev_records :: "feed_env \<Rightarrow> uuid \<Rightarrow> string \<Rightarrow> unit harvest" where
  "persist_deps_dev_records env snapshot bytes =
     hbind (hlift (read_document (fe_lib env) bytes)) (\<lambda>v.
     hbind (for_each (insert_package env snapshot) (deps_dev_packages v)) (\<lambda>_.
       for_each (insert_edge env snapshot) (deps_dev_dependency_edges (fe_lib env) v)))"

definition insert_ioc :: "feed_env \<Rightarrow> uuid \<Rightarrow> HarvestedIoc \<Rightarrow> unit harvest" where
  "insert_ioc env snapshot r = feed_statement env (\<lambda>_ db. ((), db\<lparr>fd_iocs := fd_iocs db @ [(snapshot, r)]\<rparr>))"

definition persist_cross_ecosystem_ioc_records :: "feed_env \<Rightarrow> uuid \<Rightarrow> FeedSource \<Rightarrow> string \<Rightarrow> unit harvest" where
  "persist_cross_ecosystem_ioc_records env snapshot feed bytes =
     hbind (hlift (read_document (fe_lib env) bytes)) (\<lambda>v. for_each (insert_ioc env snapshot) (cross_ecosystem_ioc_records feed v))"

text \<open>The upsert of a result: an existing row keeps its identifier.\<close>

definition same_repo :: "uuid \<Rightarrow> string \<Rightarrow> ScorecardRow \<Rightarrow> bool" where
  "same_repo snapshot repo row \<longleftrightarrow> sx_snapshot_id row = snapshot \<and> hs_repo_name (sx_result row) = repo"

definition upsert_scorecard :: "feed_env \<Rightarrow> uuid \<Rightarrow> HarvestedScorecard \<Rightarrow> uuid harvest" where
  "upsert_scorecard env snapshot r = feed_statement env (\<lambda>n db.
     case find (same_repo snapshot (hs_repo_name r)) (fd_scorecards db) of
       Some row \<Rightarrow> (sx_id row, db\<lparr>fd_scorecards :=
         map (\<lambda>x. if same_repo snapshot (hs_repo_name r) x then x\<lparr>sx_result := r\<rparr> else x) (fd_scorecards db)\<rparr>)
     | None \<Rightarrow> (fe_fresh env n, db\<lparr>fd_scorecards := fd_scorecards db @ [\<lparr>sx_id = fe_fresh env n, sx_snapshot_id = snapshot, sx_result = r\<rparr>]\<rparr>))"

definition delete_checks :: "feed_env \<Rightarrow> uuid \<Rightarrow> unit harvest" where
  "delete_checks env result_id = feed_statement env (\<lambda>_ db. ((), db\<lparr>fd_checks := filter (\<lambda>(i, _). i \<noteq> result_id) (fd_checks db)\<rparr>))"

definition upsert_check :: "feed_env \<Rightarrow> uuid \<Rightarrow> ScorecardCheckRecord \<Rightarrow> unit harvest" where
  "upsert_check env result_id c = feed_statement env (\<lambda>_ db. ((), db\<lparr>fd_checks :=
     (let same = (\<lambda>(i, x). i = result_id \<and> ck_name x = ck_name c) in
      if list_ex same (fd_checks db) then map (\<lambda>row. if same row then (result_id, c) else row) (fd_checks db)
      else fd_checks db @ [(result_id, c)])\<rparr>))"

definition insert_scorecard :: "feed_env \<Rightarrow> uuid \<Rightarrow> json \<Rightarrow> unit harvest" where
  "insert_scorecard env snapshot v =
     (case parse_scorecard_result (fe_lib env) v of
        None \<Rightarrow> hlift (Inr ())
      | Some r \<Rightarrow>
          hbind (upsert_scorecard env snapshot r) (\<lambda>result_id.
          hbind (delete_checks env result_id) (\<lambda>_.
            for_each (upsert_check env result_id) (hs_checks r))))"

definition persist_scorecard_records :: "feed_env \<Rightarrow> uuid \<Rightarrow> string \<Rightarrow> unit harvest" where
  "persist_scorecard_records env snapshot bytes =
     hbind (hlift (read_document (fe_lib env) bytes)) (\<lambda>v. for_each (insert_scorecard env snapshot) (scorecard_results v))"

definition persist_feed_records :: "feed_env \<Rightarrow> uuid \<Rightarrow> FeedSource \<Rightarrow> string \<Rightarrow> unit harvest" where
  "persist_feed_records env snapshot feed bytes =
     (case feed of
        DepsDev \<Rightarrow> persist_deps_dev_records env snapshot bytes
      | OpenSsfScorecard \<Rightarrow> persist_scorecard_records env snapshot bytes
      | OpenSsfMaliciousPackages \<Rightarrow> persist_cross_ecosystem_ioc_records env snapshot feed bytes
      | OpenSsfPackageAnalysis \<Rightarrow> persist_cross_ecosystem_ioc_records env snapshot feed bytes
      | _ \<Rightarrow> hlift (Inr ()))"

section \<open>Ingesting feeds\<close>

definition feed_sha256_digest :: "feed_lib \<Rightarrow> string \<Rightarrow> (HarvestError, ArtifactDigest) result" where
  "feed_sha256_digest lib bytes = map_err FeedDigest (digest_sha256 (fl_hex_sha256 lib bytes))"

definition snapshot_values ::
  "feed_lib \<Rightarrow> FeedSource \<Rightarrow> timestamp \<Rightarrow> FeedState \<Rightarrow> string option \<Rightarrow> (HarvestError, nat \<times> ArtifactDigest \<times> timestamp option) result" where
  "snapshot_values lib feed now state maybe_bytes =
     (case maybe_bytes of
        Some bytes \<Rightarrow>
          res_bind (normalized_record_count lib feed bytes) (\<lambda>record_count.
          res_bind (feed_sha256_digest lib bytes) (\<lambda>digest.
            Inr (record_count, digest, if state = Fresh then Some now else None)))
      | None \<Rightarrow> res_bind (feed_sha256_digest lib (feed_name feed)) (\<lambda>digest. Inr (0, digest, None)))"

definition insert_snapshot ::
  "feed_env \<Rightarrow> FeedSource \<Rightarrow> FeedState \<Rightarrow> nat \<times> ArtifactDigest \<times> timestamp option \<Rightarrow> SnapshotRow harvest" where
  "insert_snapshot env feed state = (\<lambda>(record_count, digest, last_success_at). feed_statement env (\<lambda>n db.
     let row = \<lparr>sn_id = fe_fresh env n, sn_tenant_id = None, sn_feed_name = feed_name feed, sn_state = state, sn_record_count = record_count,
           sn_digest = digest, sn_last_success_at = last_success_at, sn_created_at = fe_now env n\<rparr>
     in (row, db\<lparr>fd_snapshots := fd_snapshots db @ [row]\<rparr>)))"

definition store_snapshot ::
  "feed_env \<Rightarrow> FeedSource \<Rightarrow> FeedState \<Rightarrow> string option \<Rightarrow> nat \<times> ArtifactDigest \<times> timestamp option \<Rightarrow> SnapshotRow harvest" where
  "store_snapshot env feed state maybe_bytes vals =
     hbind (insert_snapshot env feed state vals) (\<lambda>row.
     hbind (case maybe_bytes of None \<Rightarrow> hlift (Inr ()) | Some bytes \<Rightarrow> persist_feed_records env (sn_id row) feed bytes) (\<lambda>_.
       hlift (Inr row)))"

definition ingest_feed_fixture :: "feed_env \<Rightarrow> FeedSource \<Rightarrow> SnapshotRow harvest" where
  "ingest_feed_fixture env feed s =
     (let now = fe_now env (hv_statements s) in
      hbind (load_feed_snapshot_bytes env feed) (\<lambda>(state, maybe_bytes).
      hbind (hlift (snapshot_values (fe_lib env) feed now state maybe_bytes)) (\<lambda>vals.
        feed_transaction env (store_snapshot env feed state maybe_bytes vals))) s)"

fun refresh_each :: "feed_env \<Rightarrow> FeedSource list \<Rightarrow> SnapshotRow list harvest" where
  "refresh_each env [] = hlift (Inr [])"
| "refresh_each env (feed # feeds) =
     hbind (ingest_feed_fixture env feed) (\<lambda>row. hbind (refresh_each env feeds) (\<lambda>rows. hlift (Inr (row # rows))))"

definition refresh_fixture_feeds :: "feed_env \<Rightarrow> SnapshotRow list harvest" where
  "refresh_fixture_feeds env = refresh_each env FEEDS"

definition observe_snapshot :: "SnapshotRow \<Rightarrow> HarvestObservation list" where
  "observe_snapshot row =
     RecordCountObserved (sn_feed_name row) (sn_state row) (sn_record_count row)
     # (case sn_last_success_at row of Some t \<Rightarrow> [LastSuccessObserved (sn_feed_name row) t] | None \<Rightarrow> [])"

definition refresh_feeds :: "feed_env \<Rightarrow> SnapshotRow list harvest" where
  "refresh_feeds env =
     hbind (refresh_fixture_feeds env) (\<lambda>rows s.
       (Inr rows, s\<lparr>hv_observations := hv_observations s @ concat (map observe_snapshot rows) @ [RefreshObserved]\<rparr>))"

text \<open>\<^verbatim>\<open>SELECT DISTINCT ON (feed_name) ... ORDER BY feed_name, created_at DESC\<close>; of two snapshots of one time the later inserted is taken.\<close>

fun newest_snapshot :: "SnapshotRow list \<Rightarrow> SnapshotRow option" where
  "newest_snapshot [] = None"
| "newest_snapshot (row # rows) =
     (case newest_snapshot rows of None \<Rightarrow> Some row
      | Some r \<Rightarrow> if sn_created_at row \<le> sn_created_at r then Some r else Some row)"

definition latest_snapshots :: "string list \<Rightarrow> SnapshotRow list \<Rightarrow> SnapshotRow list" where
  "latest_snapshots names rows =
     List.map_filter (\<lambda>name. newest_snapshot (filter (\<lambda>row. sn_feed_name row = name) rows)) (btree_set names)"

definition feed_status :: "feed_env \<Rightarrow> SnapshotRow list harvest" where
  "feed_status env = feed_statement env (\<lambda>_ db. (latest_snapshots (map feed_name FEEDS) (fd_snapshots db), db))"

end
