(* ===== verification/Feed_Snapshots.thy ===== *)
theory Feed_Snapshots
  imports Feed_Harvester
begin

text \<open>
  What the feed harvester leaves in its tables: each ingested document appends one snapshot with exactly the records of the document, or
  nothing; of several Scorecard results for a repository the last one counts.
\<close>

section \<open>Effects of steps\<close>

lemma feed_statement_Inr:
  assumes "feed_statement env query s = (Inr a, s')"
  shows "a = fst (query (hv_statements s) (hv_db s)) \<and> s' = s\<lparr>hv_statements := hv_statements s + 1, hv_db := snd (query (hv_statements s) (hv_db s))\<rparr>"
  using assms by (auto simp: feed_statement_def Let_def split: statement_answer.splits)

lemma hbind_Inr: "hbind step f s = (Inr b, s') \<longleftrightarrow> (\<exists>a s1. step s = (Inr a, s1) \<and> f a s1 = (Inr b, s'))"
  by (auto simp: hbind_def split: prod.splits sum.splits)

lemma hbind_Inl: "hbind step f s = (Inl e, s') \<longleftrightarrow> step s = (Inl e, s') \<or> (\<exists>a s1. step s = (Inr a, s1) \<and> f a s1 = (Inl e, s'))"
  by (auto simp: hbind_def split: prod.splits sum.splits)

lemma hlift_simp: "hlift r s = (q, s') \<longleftrightarrow> r = q \<and> s' = s"
  by (auto simp: hlift_def)

lemmas harvest_steps = hbind_Inr hbind_Inl hlift_simp

lemma for_each_fold:
  assumes "\<And>x s s'. step x s = (Inr (), s') \<Longrightarrow> hv_db s' = f x (hv_db s)"
  shows "for_each step xs s = (Inr (), s') \<Longrightarrow> hv_db s' = fold f xs (hv_db s)"
proof (induction xs arbitrary: s)
  case (Cons x xs)
  then show ?case using assms by (auto simp: harvest_steps)
qed (simp add: harvest_steps)

section \<open>Rows with unique keys\<close>

lemma unique_by_cong: "set seen = set seen' \<Longrightarrow> unique_by key seen xs = unique_by key seen' xs"
proof (induction xs arbitrary: seen seen')
  case (Cons x xs)
  have "unique_by key seen xs = unique_by key seen' xs" "unique_by key (key x # seen) xs = unique_by key (key x # seen') xs"
    using Cons.prems by (auto intro!: Cons.IH)
  then show ?case using Cons.prems by simp
qed simp

lemma unique_by_id: "distinct (map key xs) \<Longrightarrow> key ` set xs \<inter> set seen = {} \<Longrightarrow> unique_by key seen xs = xs"
  by (induction key seen xs rule: unique_by.induct) auto

lemma fold_insert_unless:
  assumes "\<forall>row \<in> set old. fst row \<noteq> i"
  shows "fold (\<lambda>x. insert_unless (\<lambda>(j, y). j = i \<and> key y = key x) (i, x)) xs (old @ map (Pair i) new)
    = old @ map (Pair i) (new @ unique_by key (map key new) xs)"
proof (induction xs arbitrary: new)
  case (Cons x xs)
  have c: "list_ex (\<lambda>(j, y). j = i \<and> key y = key x) (old @ map (Pair i) new) \<longleftrightarrow> key x \<in> set (map key new)"
    using assms by (auto simp: list_ex_iff) (metis image_eqI)
  show ?case
  proof (cases "key x \<in> set (map key new)")
    case True
    then show ?thesis using Cons.IH [of new] c by (simp add: insert_unless_def)
  next
    case False
    have "unique_by key (map key (new @ [x])) xs = unique_by key (key x # map key new) xs" by (rule unique_by_cong) auto
    then show ?thesis using Cons.IH [of "new @ [x]"] c False by (simp add: insert_unless_def)
  qed
qed simp

lemma fold_map_filter: "fold (\<lambda>x. case f x of None \<Rightarrow> id | Some y \<Rightarrow> g y) xs = fold g (List.map_filter f xs)"
proof (induction xs)
  case (Cons x xs)
  then show ?case by (cases "f x") (simp_all add: List.map_filter_def)
qed (simp add: List.map_filter_def)

section \<open>The records of a document\<close>

definition document_of :: "feed_lib \<Rightarrow> FeedSource \<Rightarrow> FeedSource list \<Rightarrow> string option \<Rightarrow> json option" where
  "document_of lib feed feeds maybe_bytes = (if feed \<in> set feeds then Option.bind maybe_bytes (\<lambda>b. res_ok (fl_from_slice lib b)) else None)"

definition snapshot_packages :: "feed_lib \<Rightarrow> FeedSource \<Rightarrow> string option \<Rightarrow> HarvestedPackage list" where
  "snapshot_packages lib feed maybe_bytes =
     (case document_of lib feed [DepsDev] maybe_bytes of None \<Rightarrow> []
      | Some v \<Rightarrow> unique_by hp_purl [] (List.map_filter (parse_deps_dev_package lib) (deps_dev_packages v)))"

definition snapshot_edges :: "feed_lib \<Rightarrow> FeedSource \<Rightarrow> string option \<Rightarrow> DepsDevDependencyEdgeRecord list" where
  "snapshot_edges lib feed maybe_bytes =
     (case document_of lib feed [DepsDev] maybe_bytes of None \<Rightarrow> [] | Some v \<Rightarrow> deps_dev_dependency_edges lib v)"

definition snapshot_iocs :: "feed_lib \<Rightarrow> FeedSource \<Rightarrow> string option \<Rightarrow> HarvestedIoc list" where
  "snapshot_iocs lib feed maybe_bytes =
     (case document_of lib feed [OpenSsfMaliciousPackages, OpenSsfPackageAnalysis] maybe_bytes of None \<Rightarrow> []
      | Some v \<Rightarrow> cross_ecosystem_ioc_records feed v)"

text \<open>No row refers to the identifier.\<close>

definition unreferenced :: "uuid \<Rightarrow> feed_db \<Rightarrow> bool" where
  "unreferenced i db \<longleftrightarrow> i \<notin> sn_id ` set (fd_snapshots db) \<and> i \<notin> fst ` set (fd_packages db) \<and> i \<notin> fst ` set (fd_edges db)
     \<and> i \<notin> sx_snapshot_id ` set (fd_scorecards db)"

definition add_records ::
  "uuid \<Rightarrow> HarvestedPackage list \<Rightarrow> DepsDevDependencyEdgeRecord list \<Rightarrow> HarvestedIoc list \<Rightarrow> feed_db \<Rightarrow> feed_db" where
  "add_records i packages edges iocs db = db\<lparr>fd_packages := fd_packages db @ map (Pair i) packages,
     fd_edges := fd_edges db @ map (Pair i) edges, fd_iocs := fd_iocs db @ map (Pair i) iocs\<rparr>"

lemma fold_update:
  assumes "\<And>x db. f x db = upd (g x (get db)) db" "\<And>a db. get (upd a db) = a" "\<And>a b db. upd a (upd b db) = upd a db" "\<And>db. upd (get db) db = db"
  shows "fold f xs db = upd (fold g xs (get db)) db"
  by (induction xs arbitrary: db) (simp_all add: assms)

lemma packages_stored:
  assumes "for_each (insert_package env i) ps s = (Inr (), s')" "\<forall>row \<in> set (fd_packages (hv_db s)). fst row \<noteq> i"
  shows "hv_db s' = (hv_db s)\<lparr>fd_packages := fd_packages (hv_db s)
    @ map (Pair i) (unique_by hp_purl [] (List.map_filter (parse_deps_dev_package (fe_lib env)) ps))\<rparr>"
proof -
  let ?g = "\<lambda>r. insert_unless (\<lambda>(j, x). j = i \<and> hp_purl x = hp_purl r) (i, r)"
  let ?f = "\<lambda>p db. case parse_deps_dev_package (fe_lib env) p of None \<Rightarrow> db | Some r \<Rightarrow> db\<lparr>fd_packages := ?g r (fd_packages db)\<rparr>"
  have "hv_db s' = fold ?f ps (hv_db s)"
    using _ assms(1)
  proof (rule for_each_fold)
    show "hv_db s' = ?f p (hv_db s)" if "insert_package env i p s = (Inr (), s')" for p s s'
      using that by (auto simp: insert_package_def harvest_steps split: option.splits if_splits dest: feed_statement_Inr)
  qed
  also have "\<dots> = (hv_db s)\<lparr>fd_packages :=
      fold (\<lambda>p. case parse_deps_dev_package (fe_lib env) p of None \<Rightarrow> id | Some r \<Rightarrow> ?g r) ps (fd_packages (hv_db s))\<rparr>"
    by (rule fold_update [where upd = "\<lambda>a db. db\<lparr>fd_packages := a\<rparr>"]) (auto split: option.split)
  finally show ?thesis using fold_insert_unless [OF assms(2), of hp_purl _ "[]"] by (simp add: fold_map_filter)
qed

lemma edges_stored:
  assumes "for_each (insert_edge env i) es s = (Inr (), s')" "\<forall>row \<in> set (fd_edges (hv_db s)). fst row \<noteq> i"
  shows "hv_db s' = (hv_db s)\<lparr>fd_edges := fd_edges (hv_db s) @ map (Pair i) (unique_by edge_key [] es)\<rparr>"
proof -
  let ?g = "\<lambda>e. insert_unless (\<lambda>(j, x). j = i \<and> edge_key x = edge_key e) (i, e)"
  have "hv_db s' = fold (\<lambda>e db. db\<lparr>fd_edges := ?g e (fd_edges db)\<rparr>) es (hv_db s)"
    using _ assms(1)
  proof (rule for_each_fold)
    show "hv_db s' = (hv_db s)\<lparr>fd_edges := ?g e (fd_edges (hv_db s))\<rparr>" if "insert_edge env i e s = (Inr (), s')" for e s s'
      using feed_statement_Inr [OF that [unfolded insert_edge_def]] by simp
  qed
  also have "\<dots> = (hv_db s)\<lparr>fd_edges := fold ?g es (fd_edges (hv_db s))\<rparr>"
    by (rule fold_update [where upd = "\<lambda>a db. db\<lparr>fd_edges := a\<rparr>"]) auto
  finally show ?thesis using fold_insert_unless [OF assms(2), of edge_key _ "[]"] by simp
qed

lemma iocs_stored:
  assumes "for_each (insert_ioc env i) rs s = (Inr (), s')"
  shows "hv_db s' = (hv_db s)\<lparr>fd_iocs := fd_iocs (hv_db s) @ map (Pair i) rs\<rparr>"
proof -
  have "hv_db s' = fold (\<lambda>r db. db\<lparr>fd_iocs := fd_iocs db @ [(i, r)]\<rparr>) rs (hv_db s)"
    using _ assms
  proof (rule for_each_fold)
    show "hv_db s' = (hv_db s)\<lparr>fd_iocs := fd_iocs (hv_db s) @ [(i, r)]\<rparr>" if "insert_ioc env i r s = (Inr (), s')" for r s s'
      using feed_statement_Inr [OF that [unfolded insert_ioc_def]] by simp
  qed
  also have "\<dots> = (hv_db s)\<lparr>fd_iocs := fold (\<lambda>r rows. rows @ [(i, r)]) rs (fd_iocs (hv_db s))\<rparr>"
    by (rule fold_update [where upd = "\<lambda>a db. db\<lparr>fd_iocs := a\<rparr>"]) auto
  also have "fold (\<lambda>r rows. rows @ [(i, r)]) rs rows = rows @ map (Pair i) rs" for rows
    by (induction rs arbitrary: rows) simp_all
  finally show ?thesis .
qed

lemma for_each_invariant:
  assumes "\<And>x s s'. x \<in> set xs \<Longrightarrow> P s \<Longrightarrow> step x s = (Inr (), s') \<Longrightarrow> P s'"
  shows "P s \<Longrightarrow> for_each step xs s = (Inr (), s') \<Longrightarrow> P s'"
  using assms
proof (induction xs arbitrary: s)
  case (Cons x xs)
  from Cons.prems(2) obtain s1 where s1: "step x s = (Inr (), s1)" "for_each step xs s1 = (Inr (), s')"
    by (auto simp: harvest_steps)
  have "P s1" using Cons.prems(3) [OF _ Cons.prems(1) s1(1)] by simp
  then show ?case by (rule Cons.IH [OF _ s1(2)]) (rule Cons.prems(3), simp_all)
qed (simp add: harvest_steps)

text \<open>The tables apart from those of the Scorecard.\<close>

definition other_tables :: "feed_db \<Rightarrow> feed_db" where
  "other_tables db = db\<lparr>fd_scorecards := [], fd_checks := []\<rparr>"

lemma insert_scorecard_others:
  assumes "insert_scorecard env i v s = (Inr (), s')"
  shows "other_tables (hv_db s') = other_tables (hv_db s)"
proof (cases "parse_scorecard_result (fe_lib env) v")
  case None
  then show ?thesis using assms by (simp add: insert_scorecard_def harvest_steps)
next
  case (Some r)
  then obtain j s1 s2 where u: "upsert_scorecard env i r s = (Inr j, s1)" "delete_checks env j s1 = (Inr (), s2)"
      "for_each (upsert_check env j) (hs_checks r) s2 = (Inr (), s')"
    using assms by (auto simp: insert_scorecard_def harvest_steps)
  have "other_tables (hv_db s2) = other_tables (hv_db s)"
    using feed_statement_Inr [OF u(1) [unfolded upsert_scorecard_def]] feed_statement_Inr [OF u(2) [unfolded delete_checks_def]]
    by (auto simp: other_tables_def split: option.split)
  moreover have "other_tables (hv_db s') = other_tables (hv_db s2)"
  proof (rule for_each_invariant [OF _ _ u(3), where P = "\<lambda>s. other_tables (hv_db s) = other_tables (hv_db s2)"])
    fix c t t' assume "other_tables (hv_db t) = other_tables (hv_db s2)" "upsert_check env j c t = (Inr (), t')"
    then show "other_tables (hv_db t') = other_tables (hv_db s2)"
      using feed_statement_Inr [of env _ t "()" t'] by (auto simp: upsert_check_def other_tables_def dest!: feed_statement_Inr)
  qed simp
  ultimately show ?thesis by simp
qed

lemma records_stored:
  assumes "persist_feed_records env i feed bytes s = (Inr (), s')"
    and "i \<notin> fst ` set (fd_packages (hv_db s))" "i \<notin> fst ` set (fd_edges (hv_db s))"
  shows "other_tables (hv_db s') = other_tables (add_records i (snapshot_packages (fe_lib env) feed (Some bytes))
      (snapshot_edges (fe_lib env) feed (Some bytes)) (snapshot_iocs (fe_lib env) feed (Some bytes)) (hv_db s))"
proof -
  have ioc: ?thesis if "feed \<in> {OpenSsfMaliciousPackages, OpenSsfPackageAnalysis}"
  proof -
    from that assms(1) obtain v where v: "fl_from_slice (fe_lib env) bytes = Inr v" "for_each (insert_ioc env i) (cross_ecosystem_ioc_records feed v) s = (Inr (), s')"
      by (auto simp: persist_feed_records_def persist_cross_ecosystem_ioc_records_def harvest_steps read_document_def map_err_Inr)
    then show ?thesis using iocs_stored [OF v(2)] that
      by (auto simp: snapshot_packages_def snapshot_edges_def snapshot_iocs_def document_of_def other_tables_def add_records_def)
  qed
  show ?thesis
  proof (cases feed)
    case DepsDev
    then obtain v s1 where v: "fl_from_slice (fe_lib env) bytes = Inr v"
        "for_each (insert_package env i) (deps_dev_packages v) s = (Inr (), s1)"
        "for_each (insert_edge env i) (deps_dev_dependency_edges (fe_lib env) v) s1 = (Inr (), s')"
      using assms(1) by (auto simp: persist_feed_records_def persist_deps_dev_records_def harvest_steps read_document_def map_err_Inr)
    have p: "\<forall>row \<in> set (fd_packages (hv_db s)). fst row \<noteq> i" "\<forall>row \<in> set (fd_edges (hv_db s)). fst row \<noteq> i"
      using assms(2,3) by auto
    have one: "hv_db s1 = (hv_db s)\<lparr>fd_packages := fd_packages (hv_db s) @ map (Pair i) (snapshot_packages (fe_lib env) feed (Some bytes))\<rparr>"
      using packages_stored [OF v(2) p(1)] v(1) DepsDev by (simp add: snapshot_packages_def document_of_def)
    have "unique_by edge_key [] (deps_dev_dependency_edges (fe_lib env) v) = deps_dev_dependency_edges (fe_lib env) v"
      by (rule unique_by_id) (simp_all add: deps_dev_dependency_edges_def unique_by_distinct)
    then have "hv_db s' = (hv_db s1)\<lparr>fd_edges := fd_edges (hv_db s) @ map (Pair i) (snapshot_edges (fe_lib env) feed (Some bytes))\<rparr>"
      using edges_stored [OF v(3), unfolded one] p(2) v(1) DepsDev one by (simp add: snapshot_edges_def document_of_def)
    then show ?thesis using one DepsDev by (simp add: add_records_def snapshot_iocs_def document_of_def)
  next
    case OpenSsfScorecard
    then obtain v where v: "for_each (insert_scorecard env i) (scorecard_results v) s = (Inr (), s')"
      using assms(1) by (auto simp: persist_feed_records_def persist_scorecard_records_def harvest_steps read_document_def map_err_Inr)
    have "other_tables (hv_db s') = other_tables (hv_db s)"
      by (rule for_each_invariant [OF _ _ v, where P = "\<lambda>t. other_tables (hv_db t) = other_tables (hv_db s)"])
        (auto dest: insert_scorecard_others)
    then show ?thesis using OpenSsfScorecard
      by (simp add: add_records_def snapshot_packages_def snapshot_edges_def snapshot_iocs_def document_of_def)
  next
    case Osv
    then have "s' = s" using assms(1) by (simp add: persist_feed_records_def harvest_steps)
    then show ?thesis using Osv
      by (simp add: add_records_def snapshot_packages_def snapshot_edges_def snapshot_iocs_def document_of_def)
  next
    case Ghsa
    then have "s' = s" using assms(1) by (simp add: persist_feed_records_def harvest_steps)
    then show ?thesis using Ghsa
      by (simp add: add_records_def snapshot_packages_def snapshot_edges_def snapshot_iocs_def document_of_def)
  next
    case CisaKev
    then have "s' = s" using assms(1) by (simp add: persist_feed_records_def harvest_steps)
    then show ?thesis using CisaKev
      by (simp add: add_records_def snapshot_packages_def snapshot_edges_def snapshot_iocs_def document_of_def)
  next
    case FirstEpss
    then have "s' = s" using assms(1) by (simp add: persist_feed_records_def harvest_steps)
    then show ?thesis using FirstEpss
      by (simp add: add_records_def snapshot_packages_def snapshot_edges_def snapshot_iocs_def document_of_def)
  qed (use ioc in simp_all)
qed

section \<open>One document, one snapshot\<close>

lemma load_keeps_tables:
  "load_feed_snapshot_bytes env feed s = (loaded, s1) \<Longrightarrow> hv_db s1 = hv_db s \<and> hv_statements s1 = hv_statements s"
  by (auto simp: load_feed_snapshot_bytes_def fetching_def split: option.splits prod.splits sum.splits)

lemma loaded_states:
  assumes "load_feed_snapshot_bytes env feed s = (Inr (state, maybe_bytes), s1)"
  shows "(state = FeedState.Unavailable \<longleftrightarrow> maybe_bytes = None) \<and> (state = Degraded \<longrightarrow> url_for (fe_sources env) feed \<noteq> None) \<and> state \<noteq> Stale"
  using assms
  by (auto simp: load_feed_snapshot_bytes_def fixture_snapshot_def res_map_def split: option.splits prod.splits sum.splits)

lemma feed_transaction_cases:
  assumes "feed_transaction env body s = (outcome, s')"
  obtains (failed) e where "outcome = Inl e" "hv_db s' = hv_db s"
  | (lost) e a s1 s2 where "outcome = Inl e" "hv_db s1 = hv_db s \<and> hv_statements s1 = hv_statements s + 1" "body s1 = (Inr a, s2)"
      "hv_db s' = hv_db s2" "\<exists>n. fe_answer env n = ReplyLost"
  | (committed) a s1 s2 where "outcome = Inr a" "hv_db s1 = hv_db s \<and> hv_statements s1 = hv_statements s + 1" "body s1 = (Inr a, s2)"
      "hv_db s' = hv_db s2" "hv_statements s' = hv_statements s2 + 1"
proof -
  obtain b s1 where b: "feed_statement env (\<lambda>_ db. ((), db)) s = (b, s1)" by fastforce
  then have db: "hv_db s1 = hv_db s \<and> hv_statements s1 = hv_statements s + 1" by (auto simp: feed_statement_def Let_def split: statement_answer.splits)
  show thesis
  proof (cases b)
    case (Inl e)
    then have "outcome = Inl e" "hv_db s' = hv_db s" using assms b db by (auto simp: feed_transaction_def)
    then show thesis by (rule failed)
  next
    case (Inr u)
    obtain r s2 where r: "body s1 = (r, s2)" by fastforce
    have finish: "outcome = Inl e \<and> hv_db s' = hv_db s" if "r = Inl e" for e
      using that assms b Inr r by (auto simp: feed_transaction_def)
    have commit: "case fe_answer env (hv_statements s2) of Executed \<Rightarrow> outcome = Inr a \<and> hv_db s' = hv_db s2 \<and> hv_statements s' = hv_statements s2 + 1
        | Rejected \<Rightarrow> outcome = Inl database_error \<and> hv_db s' = hv_db s | ReplyLost \<Rightarrow> outcome = Inl database_error \<and> hv_db s' = hv_db s2"
      if "r = Inr a" for a
      using that assms b Inr r by (auto simp: feed_transaction_def Let_def split: statement_answer.splits)
    show thesis
    proof (cases r)
      case (Inl e)
      then show thesis using finish failed by blast
    next
      case (Inr a)
      then show thesis using commit [OF Inr] failed lost [OF _ db] committed [OF _ db] r
        by (cases "fe_answer env (hv_statements s2)") auto
    qed
  qed
qed

text \<open>What a stored snapshot looks like, relative to the tables before.\<close>

definition snapshot_added :: "feed_env \<Rightarrow> FeedSource \<Rightarrow> timestamp \<Rightarrow> FeedState \<Rightarrow> string option \<Rightarrow> feed_db \<Rightarrow> SnapshotRow \<Rightarrow> feed_db \<Rightarrow> bool" where
  "snapshot_added env feed now state maybe_bytes db row db' \<longleftrightarrow>
     snapshot_values (fe_lib env) feed now state maybe_bytes = Inr (sn_record_count row, sn_digest row, sn_last_success_at row)
     \<and> sn_feed_name row = feed_name feed \<and> sn_state row = state
     \<and> other_tables db' = other_tables (add_records (sn_id row) (snapshot_packages (fe_lib env) feed maybe_bytes)
         (snapshot_edges (fe_lib env) feed maybe_bytes) (snapshot_iocs (fe_lib env) feed maybe_bytes)
         (db\<lparr>fd_snapshots := fd_snapshots db @ [row]\<rparr>))"

lemma store_snapshot_Inr:
  assumes "store_snapshot env feed state maybe_bytes vals s = (Inr row, s')" "unreferenced (fe_fresh env (hv_statements s)) (hv_db s)"
    and "snapshot_values (fe_lib env) feed now state maybe_bytes = Inr vals"
  shows "snapshot_added env feed now state maybe_bytes (hv_db s) row (hv_db s')"
    and "sn_id row = fe_fresh env (hv_statements s)" "sn_created_at row = fe_now env (hv_statements s)" "sn_tenant_id row = None"
proof -
  obtain record_count digest last where vals: "vals = (record_count, digest, last)" by (cases vals)
  obtain s1 where s1: "insert_snapshot env feed state vals s = (Inr row, s1)"
      "(case maybe_bytes of None \<Rightarrow> hlift (Inr ()) | Some bytes \<Rightarrow> persist_feed_records env (sn_id row) feed bytes) s1 = (Inr (), s')"
    using assms(1) by (auto simp: store_snapshot_def harvest_steps)
  show "sn_id row = fe_fresh env (hv_statements s)" "sn_created_at row = fe_now env (hv_statements s)" "sn_tenant_id row = None"
    using feed_statement_Inr [OF s1(1) [unfolded insert_snapshot_def vals prod.case]] by (simp_all add: Let_def vals)
  have row: "sn_id row = fe_fresh env (hv_statements s)" "sn_feed_name row = feed_name feed" "sn_state row = state"
      "vals = (sn_record_count row, sn_digest row, sn_last_success_at row)"
      "hv_db s1 = (hv_db s)\<lparr>fd_snapshots := fd_snapshots (hv_db s) @ [row]\<rparr>"
    using feed_statement_Inr [OF s1(1) [unfolded insert_snapshot_def vals prod.case]] by (simp_all add: Let_def vals)
  have "other_tables (hv_db s') = other_tables (add_records (sn_id row) (snapshot_packages (fe_lib env) feed maybe_bytes)
         (snapshot_edges (fe_lib env) feed maybe_bytes) (snapshot_iocs (fe_lib env) feed maybe_bytes) (hv_db s1))"
  proof (cases maybe_bytes)
    case None
    then show ?thesis using s1(2)
      by (simp add: harvest_steps add_records_def snapshot_packages_def snapshot_edges_def snapshot_iocs_def document_of_def)
  next
    case (Some bytes)
    then show ?thesis using records_stored [of env "sn_id row" feed bytes s1 s'] s1(2) assms(2) row(1,5) by (auto simp: unreferenced_def)
  qed
  then show "snapshot_added env feed now state maybe_bytes (hv_db s) row (hv_db s')" using row assms(3) by (simp add: snapshot_added_def)
qed


end
