(* ===== verification/Feed_Status.thy ===== *)
theory Feed_Status
  imports Feed_Snapshots Signals
begin

text \<open>
  What a refresh of the feeds means for decisions: the Triage Counter reads the newest snapshot of each feed from the table that
  the feed harvester writes (\<^verbatim>\<open>load_feed_snapshot_status\<close> of \<^verbatim>\<open>triage-counter/src/repository.rs\<close> over \<^verbatim>\<open>feed_snapshots\<close>).
\<close>

section \<open>A refresh appends its snapshots\<close>

definition appended :: "SnapshotRow list \<Rightarrow> nat \<Rightarrow> harvest_state \<Rightarrow> bool" where
  "appended rows n s \<longleftrightarrow> fd_snapshots (hv_db s) = rows \<and> n \<le> hv_statements s"

lemma feed_statement_keeps:
  assumes "\<And>n db. fd_snapshots (snd (query n db)) = fd_snapshots db" "feed_statement env query s = (Inr a, s')" "appended rows n s"
  shows "appended rows n s'"
  using feed_statement_Inr [OF assms(2)] assms(1,3) by (auto simp: appended_def)

lemma for_each_appended:
  assumes "for_each step xs t = (Inr (), t')" "appended rows n t" "\<And>x u u'. step x u = (Inr (), u') \<Longrightarrow> appended rows n u \<Longrightarrow> appended rows n u'"
  shows "appended rows n t'"
  using assms(3) by (rule for_each_invariant [where P = "appended rows n", OF _ assms(2,1)])

lemma persist_keeps_snapshots:
  assumes "persist_feed_records env i feed bytes s = (Inr (), s')" "appended rows n s"
  shows "appended rows n s'"
proof -
  have package: "appended rows n t'" if "insert_package env i p t = (Inr (), t')" "appended rows n t" for p t t'
    using that by (auto simp: insert_package_def harvest_steps split: option.splits if_splits elim!: feed_statement_keeps [rotated])
  have edge: "appended rows n t'" if "insert_edge env i e t = (Inr (), t')" "appended rows n t" for e t t'
    using feed_statement_keeps [OF _ that(1) [unfolded insert_edge_def] that(2)] by simp
  have ioc: "appended rows n t'" if "insert_ioc env i r t = (Inr (), t')" "appended rows n t" for r t t'
    using feed_statement_keeps [OF _ that(1) [unfolded insert_ioc_def] that(2)] by simp
  have check: "appended rows n t'" if "upsert_check env j c t = (Inr (), t')" "appended rows n t" for j c t t'
    using feed_statement_keeps [OF _ that(1) [unfolded upsert_check_def] that(2)] by (simp add: Let_def)
  have scorecard: "appended rows n t'" if "insert_scorecard env i v t = (Inr (), t')" "appended rows n t" for v t t'
  proof (cases "parse_scorecard_result (fe_lib env) v")
    case (Some r)
    with that(1) obtain j t1 t2 where u: "upsert_scorecard env i r t = (Inr j, t1)" "delete_checks env j t1 = (Inr (), t2)"
        "for_each (upsert_check env j) (hs_checks r) t2 = (Inr (), t')"
      by (auto simp: insert_scorecard_def harvest_steps)
    have "appended rows n t1"
      using feed_statement_keeps [OF _ u(1) [unfolded upsert_scorecard_def] that(2)] by (simp split: option.split)
    then have t2: "appended rows n t2"
      using feed_statement_keeps [OF _ u(2) [unfolded delete_checks_def]] by simp
    show ?thesis by (rule for_each_appended [OF u(3) t2]) (rule check)
  qed (use that in \<open>simp add: insert_scorecard_def harvest_steps\<close>)
  show ?thesis
  proof (cases feed)
    case DepsDev
    then obtain v t where run: "for_each (insert_package env i) (deps_dev_packages v) s = (Inr (), t)"
        "for_each (insert_edge env i) (deps_dev_dependency_edges (fe_lib env) v) t = (Inr (), s')"
      using assms(1) by (auto simp: persist_feed_records_def persist_deps_dev_records_def harvest_steps)
    have t: "appended rows n t" by (rule for_each_appended [OF run(1) assms(2)]) (rule package)
    show ?thesis by (rule for_each_appended [OF run(2) t]) (rule edge)
  next
    case OpenSsfScorecard
    then obtain v where run: "for_each (insert_scorecard env i) (scorecard_results v) s = (Inr (), s')"
      using assms(1) by (auto simp: persist_feed_records_def persist_scorecard_records_def harvest_steps)
    show ?thesis by (rule for_each_appended [OF run assms(2)]) (rule scorecard)
  next
    case OpenSsfMaliciousPackages
    then obtain v where run: "for_each (insert_ioc env i) (cross_ecosystem_ioc_records feed v) s = (Inr (), s')"
      using assms(1) by (auto simp: persist_feed_records_def persist_cross_ecosystem_ioc_records_def harvest_steps)
    show ?thesis by (rule for_each_appended [OF run assms(2)]) (rule ioc)
  next
    case OpenSsfPackageAnalysis
    then obtain v where run: "for_each (insert_ioc env i) (cross_ecosystem_ioc_records feed v) s = (Inr (), s')"
      using assms(1) by (auto simp: persist_feed_records_def persist_cross_ecosystem_ioc_records_def harvest_steps)
    show ?thesis by (rule for_each_appended [OF run assms(2)]) (rule ioc)
  qed (use assms in \<open>simp_all add: persist_feed_records_def harvest_steps\<close>)
qed

lemma ingest_appends:
  assumes "ingest_feed_fixture env feed s = (Inr row, s')"
  shows "fd_snapshots (hv_db s') = fd_snapshots (hv_db s) @ [row] \<and> sn_feed_name row = feed_name feed \<and> sn_tenant_id row = None
    \<and> sn_created_at row = fe_now env (hv_statements s + 1) \<and> hv_statements s + 2 \<le> hv_statements s'
    \<and> (sn_last_success_at row = None \<or> sn_last_success_at row = Some (fe_now env (hv_statements s)))
    \<and> (sn_state row = Fresh \<longrightarrow> sn_last_success_at row \<noteq> None)"
proof -
  let ?now = "fe_now env (hv_statements s)"
  obtain state maybe_bytes vals s1 where run: "load_feed_snapshot_bytes env feed s = (Inr (state, maybe_bytes), s1)"
      "snapshot_values (fe_lib env) feed ?now state maybe_bytes = Inr vals"
      "feed_transaction env (store_snapshot env feed state maybe_bytes vals) s1 = (Inr row, s')"
    using assms by (auto simp: ingest_feed_fixture_def Let_def harvest_steps)
  from run(3) obtain s2 s3 where c: "hv_db s2 = hv_db s1 \<and> hv_statements s2 = hv_statements s1 + 1"
      "store_snapshot env feed state maybe_bytes vals s2 = (Inr row, s3)" "hv_db s' = hv_db s3" "hv_statements s' = hv_statements s3 + 1"
    by (cases rule: feed_transaction_cases) auto
  note l = load_keeps_tables [OF run(1)] loaded_states [OF run(1)]
  obtain record_count digest last where vals: "vals = (record_count, digest, last)" by (cases vals)
  obtain s4 where s4: "insert_snapshot env feed state vals s2 = (Inr row, s4)"
      "(case maybe_bytes of None \<Rightarrow> hlift (Inr ()) | Some bytes \<Rightarrow> persist_feed_records env (sn_id row) feed bytes) s4 = (Inr (), s3)"
    using c(2) by (auto simp: store_snapshot_def harvest_steps)
  have row: "sn_feed_name row = feed_name feed" "sn_created_at row = fe_now env (hv_statements s + 1)" "sn_tenant_id row = None" "sn_state row = state"
      "sn_last_success_at row = last" "appended (fd_snapshots (hv_db s) @ [row]) (hv_statements s + 2) s4"
    using feed_statement_Inr [OF s4(1) [unfolded insert_snapshot_def vals prod.case]] c(1) l(1) by (simp_all add: Let_def appended_def)
  have "appended (fd_snapshots (hv_db s) @ [row]) (hv_statements s + 2) s3"
    using s4(2) row(6) persist_keeps_snapshots by (cases maybe_bytes) (auto simp: harvest_steps)
  moreover have "last = None \<or> last = Some ?now" "state = Fresh \<longrightarrow> last \<noteq> None"
    using run(2) vals l(2) by (auto simp: snapshot_values_def res_bind_eq_Inr split: option.splits if_splits)
  ultimately show ?thesis using row c(3,4) by (auto simp: appended_def)
qed

lemma refresh_appends:
  assumes "refresh_each env feeds s = (Inr rows, s')"
  shows "fd_snapshots (hv_db s') = fd_snapshots (hv_db s) @ rows \<and> map sn_feed_name rows = map feed_name feeds
    \<and> (\<forall>row \<in> set rows. sn_tenant_id row = None \<and> (\<exists>n \<ge> hv_statements s. sn_created_at row = fe_now env n)
         \<and> (sn_last_success_at row = None \<or> (\<exists>n \<ge> hv_statements s. n \<le> hv_statements s' \<and> sn_last_success_at row = Some (fe_now env n)))
         \<and> (sn_state row = Fresh \<longrightarrow> sn_last_success_at row \<noteq> None))
    \<and> hv_statements s \<le> hv_statements s'"
  using assms
proof (induction env feeds arbitrary: s rows rule: refresh_each.induct)
  case (2 env feed feeds)
  then obtain row rest s1 where run: "ingest_feed_fixture env feed s = (Inr row, s1)" "refresh_each env feeds s1 = (Inr rest, s')" "rows = row # rest"
    by (auto simp: harvest_steps)
  note first = ingest_appends [OF run(1)]
  note later = "2.IH" [OF run(2)]
  have n: "hv_statements s + 2 \<le> hv_statements s1" "hv_statements s1 \<le> hv_statements s'" using first later by simp_all
  have "sn_created_at row = fe_now env (hv_statements s + 1)" using first by simp
  then have "\<exists>n \<ge> hv_statements s. sn_created_at row = fe_now env n" by (intro exI [of _ "hv_statements s + 1"]) simp
  moreover have "sn_last_success_at row = None
      \<or> (\<exists>n \<ge> hv_statements s. n \<le> hv_statements s' \<and> sn_last_success_at row = Some (fe_now env n))"
    using first n by (cases "sn_last_success_at row") (auto intro!: exI [of _ "hv_statements s"])
  moreover have "\<forall>row \<in> set rest. (\<exists>n \<ge> hv_statements s. sn_created_at row = fe_now env n)
      \<and> (sn_last_success_at row = None \<or> (\<exists>n \<ge> hv_statements s. n \<le> hv_statements s' \<and> sn_last_success_at row = Some (fe_now env n)))"
    using later n(1) by (meson add_leD1 order_trans)
  ultimately show ?case using first later n run(3) by auto
qed (simp add: harvest_steps)

section \<open>The status that the Triage Counter reads\<close>

definition snapshot_record :: "SnapshotRow \<Rightarrow> FeedSnapshotRecord" where
  "snapshot_record row = \<lparr>fr_feed_name = sn_feed_name row, fr_state = sn_state row, fr_last_success_at = sn_last_success_at row,
     fr_created_at = sn_created_at row\<rparr>"

definition postgres_feed_records :: "uuid \<Rightarrow> SnapshotRow list \<Rightarrow> FeedSnapshotRecord list" where
  "postgres_feed_records tenant rows =
     map snapshot_record (latest_snapshots MVP_FEED_NAMES (filter (\<lambda>row. sn_tenant_id row = None \<or> sn_tenant_id row = Some tenant) rows))"

definition postgres_load_feed_snapshot_status :: "uuid \<Rightarrow> timestamp \<Rightarrow> feed_db \<Rightarrow> FeedSnapshotStatus" where
  "postgres_load_feed_snapshot_status tenant now db = feed_snapshot_status_from_records (postgres_feed_records tenant (fd_snapshots db)) now"

lemma newest_snapshot_in: "newest_snapshot rows = Some row \<Longrightarrow> row \<in> set rows"
  by (induction rows arbitrary: row) (auto split: option.splits if_splits)

lemma newest_snapshot_snoc:
  assumes "\<And>row. row \<in> set rows \<Longrightarrow> sn_created_at row \<le> sn_created_at r"
  shows "newest_snapshot (rows @ [r]) = Some r"
  using assms by (induction rows) auto

lemma feed_names: "map feed_name FEEDS = MVP_FEED_NAMES" "distinct MVP_FEED_NAMES"
  by (simp_all add: FEEDS_def MVP_FEED_NAMES_def)

lemma one_row_of_name:
  assumes "distinct (map sn_feed_name rows)" "row \<in> set rows"
  shows "filter (\<lambda>r. sn_feed_name r = sn_feed_name row) rows = [row]"
  using assms
proof (induction rows)
  case (Cons r rows)
  show ?case
  proof (cases "r = row")
    case True
    then have "filter (\<lambda>r. sn_feed_name r = sn_feed_name row) rows = []" using Cons.prems(1) by (auto simp: filter_empty_conv image_iff)
    then show ?thesis using True by simp
  next
    case False
    then have "row \<in> set rows" "sn_feed_name r \<noteq> sn_feed_name row" using Cons.prems by auto
    then show ?thesis using Cons by simp
  qed
qed simp

lemma newest_of_refresh:
  assumes "map sn_feed_name rows = MVP_FEED_NAMES"
    and "\<And>old row. old \<in> set olds \<Longrightarrow> row \<in> set rows \<Longrightarrow> sn_created_at old \<le> sn_created_at row" "row \<in> set rows"
  shows "newest_snapshot (filter (\<lambda>r. sn_feed_name r = sn_feed_name row) (olds @ rows)) = Some row"
  unfolding filter_append one_row_of_name [OF feed_names(2) [folded assms(1)] assms(3)]
  using assms(2,3) by (intro newest_snapshot_snoc) auto

lemma latest_of_refresh:
  assumes "map sn_feed_name rows = MVP_FEED_NAMES"
    and "\<And>old row. old \<in> set olds \<Longrightarrow> row \<in> set rows \<Longrightarrow> sn_created_at old \<le> sn_created_at row"
  shows "set (latest_snapshots MVP_FEED_NAMES (olds @ rows)) = set rows" "length (latest_snapshots MVP_FEED_NAMES (olds @ rows)) = length rows"
proof -
  let ?row = "\<lambda>name. the (newest_snapshot (filter (\<lambda>r. sn_feed_name r = name) (olds @ rows)))"
  have "newest_snapshot (filter (\<lambda>r. sn_feed_name r = name) (olds @ rows)) \<noteq> None" if "name \<in> set MVP_FEED_NAMES" for name
    using newest_of_refresh [OF assms] that by (auto simp flip: assms(1))
  then have e: "latest_snapshots MVP_FEED_NAMES (olds @ rows) = map ?row (btree_set MVP_FEED_NAMES)"
    unfolding latest_snapshots_def List.map_filter_def by (simp add: comp_def filter_id_conv)
  have "?row (sn_feed_name row) = row" if "row \<in> set rows" for row using newest_of_refresh [OF assms that] by simp
  then have "?row ` set MVP_FEED_NAMES = set rows" unfolding assms(1) [symmetric] by (auto simp: image_image)
  then show "set (latest_snapshots MVP_FEED_NAMES (olds @ rows)) = set rows" unfolding e by simp
  have "length (btree_set MVP_FEED_NAMES) = length MVP_FEED_NAMES" by (simp add: btree_set_def feed_names(2) distinct_remdups_id)
  then show "length (latest_snapshots MVP_FEED_NAMES (olds @ rows)) = length rows"
    unfolding e by (simp flip: assms(1))
qed

lemma loop_of_fresh:
  assumes "\<And>r. r \<in> set rs \<Longrightarrow> feed_record_age now r \<le> FRESH_FEED_MAX_AGE_SECONDS" "length rs = length MVP_FEED_NAMES"
  shows "fs_state (feed_snapshot_status_from_records rs now) = Fresh \<longleftrightarrow> (\<forall>r \<in> set rs. fr_state r = Fresh)"
    and "fs_state (feed_snapshot_status_from_records rs now) = FeedState.Unavailable \<longleftrightarrow> (\<exists>r \<in> set rs. fr_state r = FeedState.Unavailable)"
proof -
  obtain state age where l: "feed_loop rs now Fresh 0 = (state, age)" by fastforce
  have "age \<le> FRESH_FEED_MAX_AGE_SECONDS"
    using feed_loop_eq(2) [of rs now Fresh 0] l assms(1) by (simp add: fold_max_le)
  then have st: "fs_state (feed_snapshot_status_from_records rs now) = state"
    using l assms(2) by (simp add: feed_snapshot_status_from_records_def)
  have rank: "feed_rank state = fold max (map (feed_rank \<circ> fr_state) rs) 0" using feed_loop_eq(1) [of rs now Fresh 0] l by simp
  have r0: "x = Fresh \<longleftrightarrow> feed_rank x = 0" and r3: "x = FeedState.Unavailable \<longleftrightarrow> \<not> feed_rank x \<le> 2" for x by (cases x; simp)+
  show "fs_state (feed_snapshot_status_from_records rs now) = Fresh \<longleftrightarrow> (\<forall>r \<in> set rs. fr_state r = Fresh)"
    unfolding st r0 rank fold_max_eq_0 by auto
  show "fs_state (feed_snapshot_status_from_records rs now) = FeedState.Unavailable \<longleftrightarrow> (\<exists>r \<in> set rs. fr_state r = FeedState.Unavailable)"
    unfolding st r3 rank fold_max_le by auto
qed

text \<open>C34: A refresh decides what the Triage Counter takes the feeds for: after a successful refresh, and until 24 hours after its
  start, the state that it reads for any tenant is fresh exactly when every snapshot of the refresh is, and unavailable exactly
  when one of them is; the snapshots of earlier refreshes have no influence.\<close>

theorem triage_reads_refresh:
  assumes refreshed: "refresh_feeds env s = (Inr rows, s')"
    and clock: "\<And>m n. m \<le> n \<Longrightarrow> fe_now env m \<le> fe_now env n"
    and past: "\<And>row n. row \<in> set (fd_snapshots (hv_db s)) \<Longrightarrow> sn_created_at row \<le> fe_now env (hv_statements s)"
    and now: "now \<le> fe_now env (hv_statements s) + 24 * 60 * 60 * 1000000000"
  shows "(fs_state (postgres_load_feed_snapshot_status tenant now (hv_db s')) = Fresh \<longleftrightarrow> (\<forall>row \<in> set rows. sn_state row = Fresh))
    \<and> (fs_state (postgres_load_feed_snapshot_status tenant now (hv_db s')) = FeedState.Unavailable \<longleftrightarrow> (\<exists>row \<in> set rows. sn_state row = FeedState.Unavailable))"
proof -
  obtain s1 where run: "refresh_each env FEEDS s = (Inr rows, s1)" "hv_db s' = hv_db s1"
    using refreshed by (auto simp: refresh_feeds_def refresh_fixture_feeds_def hbind_def split: prod.splits sum.splits)
  note new = refresh_appends [OF run(1)]
  let ?mine = "filter (\<lambda>row. sn_tenant_id row = None \<or> sn_tenant_id row = Some tenant)"
  let ?rs = "postgres_feed_records tenant (fd_snapshots (hv_db s'))"
  have rows: "map sn_feed_name rows = MVP_FEED_NAMES" "?mine rows = rows" "?mine (fd_snapshots (hv_db s')) = ?mine (fd_snapshots (hv_db s)) @ rows"
    using new run(2) by (simp_all add: feed_names filter_id_conv)
  have times: "sn_created_at old \<le> sn_created_at row" if "old \<in> set (?mine (fd_snapshots (hv_db s)))" "row \<in> set rows" for old row
  proof -
    obtain n where "hv_statements s \<le> n" "sn_created_at row = fe_now env n" using new \<open>row \<in> set rows\<close> by blast
    then show ?thesis using past [of old] clock [of "hv_statements s" n] that(1) by auto
  qed
  let ?latest = "latest_snapshots MVP_FEED_NAMES (?mine (fd_snapshots (hv_db s)) @ rows)"
  have latest: "set ?latest = set rows" "length ?latest = length rows"
    by (rule latest_of_refresh [OF rows(1)], rule times, assumption+)+
  have "length rows = length MVP_FEED_NAMES" using arg_cong [OF rows(1), of length] by (simp only: length_map)
  then have rs: "set ?rs = snapshot_record ` set rows" "length ?rs = length MVP_FEED_NAMES"
    unfolding postgres_feed_records_def rows(3) set_map length_map latest by blast+
  have age: "feed_record_age now (snapshot_record row) \<le> FRESH_FEED_MAX_AGE_SECONDS" if "row \<in> set rows" for row
  proof -
    have row: "\<exists>n \<ge> hv_statements s. sn_created_at row = fe_now env n"
        "sn_last_success_at row = None \<or> (\<exists>n \<ge> hv_statements s. sn_last_success_at row = Some (fe_now env n))"
      using new that by blast+
    have "\<exists>n \<ge> hv_statements s. unwrap_or (sn_created_at row) (sn_last_success_at row) = fe_now env n"
      using row by (cases "sn_last_success_at row") auto
    then have "fe_now env (hv_statements s) \<le> unwrap_or (sn_created_at row) (sn_last_success_at row)" using clock by metis
    then have "now - unwrap_or (sn_created_at row) (sn_last_success_at row) \<le> 24 * 60 * 60 * 1000000000" using now by linarith
    then have "elapsed_seconds now (unwrap_or (sn_created_at row) (sn_last_success_at row)) \<le> 24 * 60 * 60"
      by (auto simp: elapsed_seconds_def signed_divide_int_def sgn_if)
    then show ?thesis by (simp add: feed_record_age_def snapshot_record_def FRESH_FEED_MAX_AGE_SECONDS_def)
  qed
  have st: "fr_state (snapshot_record row) = sn_state row" for row by (simp add: snapshot_record_def)
  have ages: "feed_record_age now r \<le> FRESH_FEED_MAX_AGE_SECONDS" if "r \<in> set ?rs" for r using that age rs(1) by auto
  show ?thesis
    using loop_of_fresh [OF ages rs(2)] by (simp add: postgres_load_feed_snapshot_status_def rs(1) st)
qed

section \<open>A concrete refresh\<close>

definition fixture_env :: feed_env where
  "fixture_env = \<lparr>fe_lib = demo_feed_lib\<lparr>fl_from_slice := (\<lambda>_. Inr (JArray []))\<rparr>, fe_http = (\<lambda>_ _. Inl ''offline''),
     fe_fixture = (\<lambda>file. if file = ''osv.json'' then FixtureMissing else FixtureRead ''[]''),
     fe_sources = \<lparr>lf_deps_dev_url = Some ''https://feed'', lf_deps_dev_api_base_url = None, lf_openssf_scorecard_url = None\<rparr>,
     fe_answer = (\<lambda>_. Executed), fe_now = int, fe_fresh = of_nat\<rparr>"

definition empty_harvest :: harvest_state where
  "empty_harvest = \<lparr>hv_db = \<lparr>fd_snapshots = [], fd_packages = [], fd_edges = [], fd_scorecards = [], fd_checks = [], fd_iocs = []\<rparr>,
     hv_requests = [], hv_statements = 0, hv_observations = []\<rparr>"

lemma fixture_digest: "\<exists>dg. digest_sha256 (fl_hex_sha256 (fe_lib fixture_env) bytes) = Inr dg"
proof -
  have "list_all is_ascii_hexdigit (to_ascii_lowercase (replicate 64 CHR ''a''))"
    by (simp add: to_ascii_lowercase_def ascii_lower_char_def is_ascii_uppercase_def list_all_iff is_ascii_hexdigit_def is_ascii_digit_def)
  then show ?thesis by (simp add: fixture_env_def demo_feed_lib_def digest_sha256_def digest_new_def to_ascii_lowercase_def)
qed

lemma fixture_ingest:
  "\<exists>row s'. ingest_feed_fixture fixture_env feed s = (Inr row, s') \<and>
     sn_state row = (if feed = Osv then FeedState.Unavailable else if feed = DepsDev then Degraded else Fresh)"
proof -
  let ?state = "if feed = Osv then FeedState.Unavailable else if feed = DepsDev then Degraded else Fresh"
  let ?bytes = "if feed = Osv then None else Some ''[]''"
  obtain s1 where l: "load_feed_snapshot_bytes fixture_env feed s = (Inr (?state, ?bytes), s1)"
    by (cases feed) (simp_all add: load_feed_snapshot_bytes_def fixture_env_def url_for_def fixture_snapshot_def read_fixture_bytes_def
        fetching_def live_fetch_def fetch_live_deps_dev_bytes_def fetch_live_feed_bytes_def)
  have "\<exists>c. normalized_record_count (fe_lib fixture_env) feed ''[]'' = Inr c"
    by (simp add: normalized_record_count_def read_document_def fixture_env_def)
  then obtain vals where v: "snapshot_values (fe_lib fixture_env) feed (fe_now fixture_env (hv_statements s)) ?state ?bytes = Inr vals"
    using fixture_digest [of "''[]''"] fixture_digest [of "feed_name feed"]
    by (cases "feed = Osv") (auto simp: snapshot_values_def feed_sha256_digest_def)
  have e: "fe_answer fixture_env n = Executed" for n by (simp add: fixture_env_def)
  obtain record_count digest last where vals: "vals = (record_count, digest, last)" by (cases vals)
  obtain row s2 where i: "insert_snapshot fixture_env feed ?state vals (s1\<lparr>hv_statements := hv_statements s1 + 1\<rparr>) = (Inr row, s2)" "sn_state row = ?state"
    unfolding vals by (simp add: insert_snapshot_def feed_statement_def Let_def e)
  have doc: "read_document (fe_lib fixture_env) bytes = Inr (JArray [])" for bytes by (simp add: read_document_def fixture_env_def)
  have p: "persist_feed_records fixture_env j feed bytes t = (Inr (), t)" for j bytes t
    by (cases feed) (simp_all add: persist_feed_records_def persist_deps_dev_records_def persist_scorecard_records_def
        persist_cross_ecosystem_ioc_records_def doc hbind_def hlift_def deps_dev_packages_def items_under_def scorecard_results_def
        deps_dev_dependency_edges_def top_level_deps_dev_edges_def explicit_deps_dev_edges_def node_indexed_deps_dev_edges_def
        cross_ecosystem_ioc_records_def openssf_malicious_packages_def openssf_package_analysis_results_def List.map_filter_def)
  have "\<exists>s3. store_snapshot fixture_env feed ?state ?bytes vals (s1\<lparr>hv_statements := hv_statements s1 + 1\<rparr>) = (Inr row, s3)"
    using i(1) p by (auto simp: store_snapshot_def hbind_def hlift_def)
  then have "\<exists>s3. feed_transaction fixture_env (store_snapshot fixture_env feed ?state ?bytes vals) s1 = (Inr row, s3)"
    by (auto simp: feed_transaction_def feed_statement_def e Let_def)
  then show ?thesis using l v i(2) by (auto simp: ingest_feed_fixture_def hbind_def hlift_def Let_def)
qed

lemma fixture_refresh:
  "\<exists>rows s'. refresh_each fixture_env feeds s = (Inr rows, s') \<and>
     map sn_state rows = map (\<lambda>feed. if feed = Osv then FeedState.Unavailable else if feed = DepsDev then Degraded else Fresh) feeds"
proof (induction feeds arbitrary: s)
  case (Cons feed feeds)
  obtain row s1 where "ingest_feed_fixture fixture_env feed s = (Inr row, s1)"
      "sn_state row = (if feed = Osv then FeedState.Unavailable else if feed = DepsDev then Degraded else Fresh)"
    using fixture_ingest by blast
  then show ?case using Cons [of s1] by (fastforce simp: hbind_def hlift_def)
qed (simp add: hlift_def)

theorem triage_reads_refresh_witness:
  "\<exists>rows s'. refresh_feeds fixture_env empty_harvest = (Inr rows, s')
     \<and> fs_state (postgres_load_feed_snapshot_status 7 1000 (hv_db s')) = FeedState.Unavailable"
proof -
  obtain rows s1 where r: "refresh_each fixture_env FEEDS empty_harvest = (Inr rows, s1)"
      "map sn_state rows = map (\<lambda>feed. if feed = Osv then FeedState.Unavailable else if feed = DepsDev then Degraded else Fresh) FEEDS"
    using fixture_refresh by blast
  then obtain s' where refreshed: "refresh_feeds fixture_env empty_harvest = (Inr rows, s')"
    by (simp add: refresh_feeds_def refresh_fixture_feeds_def hbind_def)
  have "FeedState.Unavailable \<in> set (map sn_state rows)" unfolding r(2) by (simp add: FEEDS_def)
  then have "\<exists>row \<in> set rows. sn_state row = FeedState.Unavailable" by (metis imageE list.set_map)
  moreover have "fe_now fixture_env m \<le> fe_now fixture_env n" if "m \<le> n" for m n using that by (simp add: fixture_env_def)
  moreover have "hv_db empty_harvest = \<lparr>fd_snapshots = [], fd_packages = [], fd_edges = [], fd_scorecards = [], fd_checks = [], fd_iocs = []\<rparr>"
    "fe_now fixture_env 0 = 0" "hv_statements empty_harvest = 0" by (simp_all add: empty_harvest_def fixture_env_def)
  ultimately show ?thesis using triage_reads_refresh [OF refreshed, of 1000 7] refreshed by auto
qed

end
