(* ===== verification/Feed_Scorecards.thy ===== *)
theory Feed_Scorecards
  imports Feed_Snapshots
begin

text \<open>
  Scorecard results in the tables of the feed harvester: of several results for a repository in one document the last one is
  stored, with its checks only, and of several checks of one name the last.
\<close>

section \<open>Checks of a result\<close>

definition checks_of :: "uuid \<Rightarrow> feed_db \<Rightarrow> ScorecardCheckRecord list" where
  "checks_of j db = map snd (filter (\<lambda>(k, _). k = j) (fd_checks db))"

definition check_named :: "string \<Rightarrow> ScorecardCheckRecord list \<Rightarrow> ScorecardCheckRecord option" where
  "check_named name = find (\<lambda>c. ck_name c = name)"

definition put_check :: "ScorecardCheckRecord \<Rightarrow> ScorecardCheckRecord list \<Rightarrow> ScorecardCheckRecord list" where
  "put_check c cs = (if check_named (ck_name c) cs = None then cs @ [c] else map (\<lambda>x. if ck_name x = ck_name c then c else x) cs)"

lemma check_named_append: "check_named name (xs @ ys) = first_some (check_named name xs) (check_named name ys)"
  by (induction xs) (auto simp: check_named_def first_some_def)

lemma check_named_put: "check_named name (put_check c cs) = (if name = ck_name c then Some c else check_named name cs)"
proof (cases "check_named (ck_name c) cs = None")
  case True
  then show ?thesis by (auto simp: put_check_def check_named_append first_some_def) (auto simp: check_named_def split: option.split)
next
  case False
  have "check_named name (map (\<lambda>x. if ck_name x = ck_name c then c else x) cs)
      = (if name = ck_name c then if check_named (ck_name c) cs = None then None else Some c else check_named name cs)"
    by (induction cs) (auto simp: check_named_def)
  then show ?thesis using False by (cases "name = ck_name c") (auto simp: put_check_def)
qed

lemma upsert_check_effect:
  assumes "upsert_check env j c s = (Inr (), s')"
  shows "checks_of j (hv_db s') = put_check c (checks_of j (hv_db s))" "k \<noteq> j \<Longrightarrow> checks_of k (hv_db s') = checks_of k (hv_db s)"
    and "fd_scorecards (hv_db s') = fd_scorecards (hv_db s)" "hv_statements s \<le> hv_statements s'"
proof -
  let ?rows = "fd_checks (hv_db s)" and ?same = "\<lambda>(i, x). i = j \<and> ck_name x = ck_name c"
  have s': "fd_checks (hv_db s') = (if list_ex ?same ?rows then map (\<lambda>row. if ?same row then (j, c) else row) ?rows else ?rows @ [(j, c)])"
      "fd_scorecards (hv_db s') = fd_scorecards (hv_db s)" "hv_statements s \<le> hv_statements s'"
    using feed_statement_Inr [OF assms [unfolded upsert_check_def]] by (auto simp: Let_def)
  then show "fd_scorecards (hv_db s') = fd_scorecards (hv_db s)" "hv_statements s \<le> hv_statements s'" by simp_all
  have ex: "list_ex ?same ?rows \<longleftrightarrow> check_named (ck_name c) (checks_of j (hv_db s)) \<noteq> None"
    by (auto simp: checks_of_def check_named_def find_None_iff list_ex_iff)
  have "map snd (filter (\<lambda>(k, _). k = i) (map (\<lambda>row. if ?same row then (j, c) else row) rows))
      = (if i = j then map (\<lambda>x. if ck_name x = ck_name c then c else x) (map snd (filter (\<lambda>(k, _). k = j) rows))
         else map snd (filter (\<lambda>(k, _). k = i) rows))" for i rows
    by (induction rows) auto
  then show "checks_of j (hv_db s') = put_check c (checks_of j (hv_db s))"
    and "k \<noteq> j \<Longrightarrow> checks_of k (hv_db s') = checks_of k (hv_db s)"
    using s'(1) ex by (auto simp: put_check_def checks_of_def split: if_splits)
qed

lemma upsert_checks_effect:
  assumes "for_each (upsert_check env j) cs s = (Inr (), s')"
  shows "(\<forall>name. check_named name (checks_of j (hv_db s')) = first_some (check_named name (rev cs)) (check_named name (checks_of j (hv_db s))))
    \<and> (\<forall>k. k \<noteq> j \<longrightarrow> checks_of k (hv_db s') = checks_of k (hv_db s))
    \<and> fd_scorecards (hv_db s') = fd_scorecards (hv_db s) \<and> hv_statements s \<le> hv_statements s'"
  using assms
proof (induction cs arbitrary: s)
  case (Cons c cs)
  then obtain s1 where s1: "upsert_check env j c s = (Inr (), s1)" "for_each (upsert_check env j) cs s1 = (Inr (), s')"
    by (auto simp: harvest_steps)
  have one: "check_named name [c] = (if name = ck_name c then Some c else None)" for name by (simp add: check_named_def)
  have assoc: "first_some (first_some a b) d = first_some a (first_some b d)" for a b d :: "ScorecardCheckRecord option"
    by (auto simp: first_some_def split: option.split)
  have "check_named name (checks_of j (hv_db s')) = first_some (check_named name (rev (c # cs))) (check_named name (checks_of j (hv_db s)))" for name
    using Cons.IH [OF s1(2)] upsert_check_effect(1) [OF s1(1)]
    by (simp add: check_named_put check_named_append assoc one) (simp add: first_some_def split: option.split)
  then show ?case using Cons.IH [OF s1(2)] upsert_check_effect(2-4) [OF s1(1)] by auto
qed (simp add: harvest_steps first_some_def check_named_def)

section \<open>Results of a document\<close>

definition result_of :: "string \<Rightarrow> HarvestedScorecard list \<Rightarrow> HarvestedScorecard option" where
  "result_of repo results = find (\<lambda>r. hs_repo_name r = repo) (rev results)"

definition holds_result :: "uuid \<Rightarrow> feed_db \<Rightarrow> string \<Rightarrow> HarvestedScorecard option \<Rightarrow> bool" where
  "holds_result i db repo expected \<longleftrightarrow>
     (case expected of
        None \<Rightarrow> find (same_repo i repo) (fd_scorecards db) = None
      | Some r \<Rightarrow> \<exists>row. find (same_repo i repo) (fd_scorecards db) = Some row \<and> sx_result row = r
          \<and> (\<forall>name. check_named name (checks_of (sx_id row) db) = check_named name (rev (hs_checks r))))"

text \<open>Identifiers drawn by the statements up to a number are new.\<close>

definition draws_new :: "feed_env \<Rightarrow> nat \<Rightarrow> harvest_state \<Rightarrow> bool" where
  "draws_new env N s \<longleftrightarrow> (\<forall>n. hv_statements s \<le> n \<and> n < N \<longrightarrow> fe_fresh env n \<notin> sx_id ` set (fd_scorecards (hv_db s)))"

definition scorecards_ok :: "feed_env \<Rightarrow> nat \<Rightarrow> uuid \<Rightarrow> HarvestedScorecard list \<Rightarrow> harvest_state \<Rightarrow> bool" where
  "scorecards_ok env N i results s \<longleftrightarrow>
     (\<forall>repo. holds_result i (hv_db s) repo (result_of repo results)) \<and> distinct (map sx_id (fd_scorecards (hv_db s)))
     \<and> draws_new env N s"

lemma find_map_update:
  assumes "\<And>x. P (f x) = P x"
  shows "find P (map f xs) = map_option f (find P xs)"
  by (induction xs) (auto simp: assms)

lemma found_row: "find P xs = Some x \<Longrightarrow> x \<in> set xs \<and> P x"
  by (induction xs) (auto split: if_splits)

lemma find_append: "find P (xs @ ys) = (case find P xs of Some x \<Rightarrow> Some x | None \<Rightarrow> find P ys)"
  by (induction xs) auto

lemma upsert_scorecard_effect:
  assumes "upsert_scorecard env i r s = (Inr j, s1)"
    and "distinct (map sx_id (fd_scorecards (hv_db s)))" "draws_new env N s"
    and "inj_on (fe_fresh env) {..<N}" "hv_statements s1 \<le> N"
  shows "\<exists>row. find (same_repo i (hs_repo_name r)) (fd_scorecards (hv_db s1)) = Some row \<and> sx_result row = r \<and> sx_id row = j"
    and "repo \<noteq> hs_repo_name r \<Longrightarrow> find (same_repo i repo) (fd_scorecards (hv_db s1)) = find (same_repo i repo) (fd_scorecards (hv_db s))"
    and "repo \<noteq> hs_repo_name r \<Longrightarrow> find (same_repo i repo) (fd_scorecards (hv_db s1)) = Some row \<Longrightarrow> sx_id row \<noteq> j"
    and "distinct (map sx_id (fd_scorecards (hv_db s1)))" "draws_new env N s1" "hv_statements s < hv_statements s1"
    and "fd_checks (hv_db s1) = fd_checks (hv_db s)"
proof -
  let ?rows = "fd_scorecards (hv_db s)" and ?P = "same_repo i (hs_repo_name r)"
  note e = feed_statement_Inr [OF assms(1) [unfolded upsert_scorecard_def]]
  show "fd_checks (hv_db s1) = fd_checks (hv_db s)" using e by (simp split: option.splits)
  let ?goal = "(\<exists>row. find ?P (fd_scorecards (hv_db s1)) = Some row \<and> sx_result row = r \<and> sx_id row = j)
    \<and> (\<forall>repo. repo \<noteq> hs_repo_name r \<longrightarrow> find (same_repo i repo) (fd_scorecards (hv_db s1)) = find (same_repo i repo) ?rows
        \<and> (\<forall>row. find (same_repo i repo) ?rows = Some row \<longrightarrow> sx_id row \<noteq> j))
    \<and> distinct (map sx_id (fd_scorecards (hv_db s1))) \<and> draws_new env N s1"
  have later: "hv_statements s1 = hv_statements s + 1" using e by simp
  then show "hv_statements s < hv_statements s1" by simp
  have ?goal
  proof (cases "find ?P ?rows")
    case None
    then have s1: "fd_scorecards (hv_db s1) = ?rows @ [\<lparr>sx_id = j, sx_snapshot_id = i, sx_result = r\<rparr>]" "j = fe_fresh env (hv_statements s)"
        "hv_statements s1 = hv_statements s + 1" using e by auto
    have "fe_fresh env n \<noteq> j" if "hv_statements s1 \<le> n" "n < N" for n
      using that s1(2,3) inj_onD [OF assms(4), of n "hv_statements s"] by auto
    moreover have "j \<notin> sx_id ` set ?rows" using assms(3,5) s1(2) later by (simp add: draws_new_def)
    moreover have "row \<in> set ?rows" if "find (same_repo i repo) ?rows = Some row" for repo row
      using that by (simp add: found_row)
    ultimately show ?thesis using None assms(2,3) s1(1,3) by (auto simp: find_append same_repo_def draws_new_def split: option.split)
  next
    case (Some row)
    let ?f = "\<lambda>x. if ?P x then x\<lparr>sx_result := r\<rparr> else x"
    have s1: "fd_scorecards (hv_db s1) = map ?f ?rows" "j = sx_id row" "hv_statements s1 = hv_statements s + 1" using e Some by auto
    have ids: "map sx_id (map ?f ?rows) = map sx_id ?rows" by simp
    have own: "find ?P (map ?f ?rows) = Some (row\<lparr>sx_result := r\<rparr>)"
      using find_map_update [of ?P ?f ?rows] Some found_row [OF Some] by (simp add: same_repo_def)
    have other: "find (same_repo i repo) (map ?f ?rows) = find (same_repo i repo) ?rows" if "repo \<noteq> hs_repo_name r" for repo
    proof -
      have "find (same_repo i repo) (map ?f ?rows) = map_option ?f (find (same_repo i repo) ?rows)"
        using that by (intro find_map_update) (auto simp: same_repo_def)
      moreover have "?f x = x" if "find (same_repo i repo) ?rows = Some x" for x
        using found_row [OF that] \<open>repo \<noteq> hs_repo_name r\<close> by (simp add: same_repo_def)
      ultimately show ?thesis by (cases "find (same_repo i repo) ?rows") auto
    qed
    have apart: "sx_id x \<noteq> sx_id row" if "find (same_repo i repo) ?rows = Some x" "repo \<noteq> hs_repo_name r" for x repo
    proof -
      have "x \<in> set ?rows" "row \<in> set ?rows" "x \<noteq> row" using found_row [OF that(1)] found_row [OF Some] that(2) by (auto simp: same_repo_def)
      then show ?thesis using assms(2) by (auto simp: distinct_map inj_on_def)
    qed
    have idset: "sx_id ` set (map ?f ?rows) = sx_id ` set ?rows" using arg_cong [OF ids, of set] by (simp only: set_map)
    show ?thesis
      unfolding s1(1,2) draws_new_def idset
    proof (intro conjI allI impI)
      show "\<exists>row'. find ?P (map ?f ?rows) = Some row' \<and> sx_result row' = r \<and> sx_id row' = sx_id row" using own by simp
      show "distinct (map sx_id (map ?f ?rows))" unfolding ids by (rule assms(2))
      show "fe_fresh env n \<notin> sx_id ` set ?rows" if "hv_statements s1 \<le> n \<and> n < N" for n
        using that assms(3) s1(3) by (simp add: draws_new_def)
    qed (use other apart in blast)+
  qed
  then show "\<exists>row. find ?P (fd_scorecards (hv_db s1)) = Some row \<and> sx_result row = r \<and> sx_id row = j"
    and "repo \<noteq> hs_repo_name r \<Longrightarrow> find (same_repo i repo) (fd_scorecards (hv_db s1)) = find (same_repo i repo) (fd_scorecards (hv_db s))"
    and "repo \<noteq> hs_repo_name r \<Longrightarrow> find (same_repo i repo) (fd_scorecards (hv_db s1)) = Some row \<Longrightarrow> sx_id row \<noteq> j"
    and "distinct (map sx_id (fd_scorecards (hv_db s1)))" "draws_new env N s1"
    by auto
qed

lemma insert_scorecard_ok:
  assumes ok: "scorecards_ok env N i results s" and step: "insert_scorecard env i v s = (Inr (), s')"
    and fresh: "inj_on (fe_fresh env) {..<N}" "hv_statements s' \<le> N"
  shows "scorecards_ok env N i (results @ (case parse_scorecard_result (fe_lib env) v of None \<Rightarrow> [] | Some r \<Rightarrow> [r])) s'"
proof (cases "parse_scorecard_result (fe_lib env) v")
  case None
  then show ?thesis using ok step by (simp add: insert_scorecard_def harvest_steps)
next
  case (Some r)
  with step obtain j s1 s2 where u: "upsert_scorecard env i r s = (Inr j, s1)" "delete_checks env j s1 = (Inr (), s2)"
      "for_each (upsert_check env j) (hs_checks r) s2 = (Inr (), s')"
    by (auto simp: insert_scorecard_def harvest_steps)
  note checks = upsert_checks_effect [OF u(3)]
  have del: "fd_scorecards (hv_db s2) = fd_scorecards (hv_db s1)" "hv_statements s1 \<le> hv_statements s2" "checks_of j (hv_db s2) = []"
      "\<And>k. k \<noteq> j \<Longrightarrow> checks_of k (hv_db s2) = checks_of k (hv_db s1)"
    using feed_statement_Inr [OF u(2) [unfolded delete_checks_def]]
    by (auto simp: checks_of_def filter_empty_conv intro!: arg_cong [of _ _ "map snd"] filter_cong)
  have rows: "fd_scorecards (hv_db s') = fd_scorecards (hv_db s1)" "hv_statements s1 \<le> hv_statements s'" using checks del(1,2) by auto
  have ids: "distinct (map sx_id (fd_scorecards (hv_db s)))" "draws_new env N s" "hv_statements s1 \<le> N"
    using ok rows(2) fresh(2) by (simp_all add: scorecards_ok_def)
  note up = upsert_scorecard_effect [OF u(1) ids(1,2) fresh(1) ids(3)]
  have own: "check_named name (checks_of j (hv_db s')) = check_named name (rev (hs_checks r))" for name
    using checks del(3) by (simp add: first_some_def check_named_def split: option.split)
  have others: "checks_of k (hv_db s') = checks_of k (hv_db s)" if "k \<noteq> j" for k
    using checks del(4) [OF that] that up(7) by (simp add: checks_of_def)
  have "holds_result i (hv_db s') repo (result_of repo (results @ [r]))" for repo
  proof (cases "repo = hs_repo_name r")
    case True
    then show ?thesis using up(1) rows(1) own by (auto simp: holds_result_def result_of_def)
  next
    case False
    have "holds_result i (hv_db s) repo (result_of repo results)" using ok by (simp add: scorecards_ok_def)
    then show ?thesis using False up(2,3) [OF False] rows(1) others
      by (auto simp: holds_result_def result_of_def split: option.splits)
  qed
  then show ?thesis using Some up(4,5) rows by (auto simp: scorecards_ok_def draws_new_def)
qed

lemma insert_scorecard_counts:
  assumes "insert_scorecard env i v s = (Inr (), s')"
  shows "hv_statements s \<le> hv_statements s'"
  using assms upsert_checks_effect
  by (fastforce simp: insert_scorecard_def harvest_steps upsert_scorecard_def delete_checks_def
      dest!: feed_statement_Inr split: option.splits)

lemma insert_scorecards_count: "for_each (insert_scorecard env i) vs s = (Inr (), s') \<Longrightarrow> hv_statements s \<le> hv_statements s'"
  by (induction vs arbitrary: s) (fastforce simp: harvest_steps dest: insert_scorecard_counts)+

lemma insert_scorecards_ok:
  assumes "scorecards_ok env N i results s" "for_each (insert_scorecard env i) vs s = (Inr (), s')"
    and "inj_on (fe_fresh env) {..<N}" "hv_statements s' \<le> N"
  shows "scorecards_ok env N i (results @ List.map_filter (parse_scorecard_result (fe_lib env)) vs) s'"
  using assms(1,2)
proof (induction vs arbitrary: s results)
  case (Cons v vs)
  then obtain s1 where s1: "insert_scorecard env i v s = (Inr (), s1)" "for_each (insert_scorecard env i) vs s1 = (Inr (), s')"
    by (auto simp: harvest_steps)
  have "hv_statements s1 \<le> N" using insert_scorecards_count [OF s1(2)] assms(4) by simp
  from Cons.IH [OF insert_scorecard_ok [OF Cons.prems(1) s1(1) assms(3) this] s1(2)] show ?case
    by (cases "parse_scorecard_result (fe_lib env) v") (simp_all add: List.map_filter_def)
qed (simp add: harvest_steps List.map_filter_def)

text \<open>When the Scorecard results of a document have been stored under a new snapshot, the row of a repository holds the last result of
  the document for it, with its checks and no others, of each name the last; a repository without a result has no row.\<close>

lemma last_scorecard_wins:
  assumes stored: "persist_scorecard_records env i bytes s = (Inr (), s')" and document: "fl_from_slice (fe_lib env) bytes = Inr v"
    and drawn: "inj_on (fe_fresh env) {..<hv_statements s'}" "\<And>n. n < hv_statements s' \<Longrightarrow> fe_fresh env n \<notin> sx_id ` set (fd_scorecards (hv_db s))"
    and "i \<notin> sx_snapshot_id ` set (fd_scorecards (hv_db s))"
    and "distinct (map sx_id (fd_scorecards (hv_db s)))"
  shows "case result_of repo (List.map_filter (parse_scorecard_result (fe_lib env)) (scorecard_results v)) of
      None \<Rightarrow> find (same_repo i repo) (fd_scorecards (hv_db s')) = None
    | Some r \<Rightarrow> \<exists>row. find (same_repo i repo) (fd_scorecards (hv_db s')) = Some row \<and> sx_result row = r
        \<and> (\<forall>name. check_named name (checks_of (sx_id row) (hv_db s')) = check_named name (rev (hs_checks r)))"
proof -
  have "find (same_repo i repo) (fd_scorecards (hv_db s)) = None" for repo
    using assms(5) by (auto simp: find_None_iff same_repo_def)
  then have "scorecards_ok env (hv_statements s') i [] s"
    using assms(6) drawn(2) by (simp add: scorecards_ok_def result_of_def holds_result_def draws_new_def)
  moreover have "for_each (insert_scorecard env i) (scorecard_results v) s = (Inr (), s')"
    using stored document by (auto simp: persist_scorecard_records_def harvest_steps read_document_def)
  ultimately have "scorecards_ok env (hv_statements s') i ([] @ List.map_filter (parse_scorecard_result (fe_lib env)) (scorecard_results v)) s'"
    by (rule insert_scorecards_ok) (rule drawn(1), simp)
  then show ?thesis by (simp add: scorecards_ok_def holds_result_def)
qed

end
