(* ===== verification/Feed_Examples.thy ===== *)
theory Feed_Examples
  imports Feed_Status Feed_Scorecards
begin


definition demo_result :: "rat \<Rightarrow> string \<Rightarrow> json" where
  "demo_result score check = JObject [(''repo'', JObject [(''name'', JString ''github.com/o/r'')]), (''score'', JNumber score),
     (''checks'', JArray [JObject [(''name'', JString check), (''score'', JNumber 1)]])]"

definition scorecard_env :: feed_env where
  "scorecard_env = fixture_env\<lparr>fe_lib := (fe_lib fixture_env)\<lparr>fl_from_slice := (\<lambda>_. Inr (JArray [demo_result 3 ''A'', demo_result 7 ''B'']))\<rparr>,
     fe_fresh := (\<lambda>n. of_nat n)\<rparr>"

lemma scorecard_statement:
  "\<exists>s'. feed_statement scorecard_env query s = (Inr (fst (query (hv_statements s) (hv_db s))), s') \<and> hv_statements s' = hv_statements s + 1"
  by (simp add: feed_statement_def scorecard_env_def fixture_env_def Let_def)

lemma scorecard_update:
  "\<exists>s'. feed_statement scorecard_env (\<lambda>n db. ((), f n db)) s = (Inr (), s') \<and> hv_statements s' = hv_statements s + 1"
  using scorecard_statement [of "\<lambda>n db. ((), f n db)" s] by simp

lemma demo_scorecard_parsed:
  "parse_scorecard_result lib (demo_result score check) = Some \<lparr>hs_observed_on = None, hs_repo_name = ''github.com/o/r'', hs_repo_commit = None,
     hs_scorecard_version = None, hs_scorecard_commit = None, hs_score = score,
     hs_checks = [\<lparr>ck_name = check, ck_score = 1, ck_reason = None, ck_details = JArray []\<rparr>], hs_raw_document = demo_result score check\<rparr>"
  by (simp add: parse_scorecard_result_def demo_result_def nested_str_def json_get_def get_str_def get_array_def as_str_def as_f64_def as_array_def
      parse_scorecard_check_def List.map_filter_def)

lemma demo_insert:
  "\<exists>s'. insert_scorecard scorecard_env 1 (demo_result score check) s = (Inr (), s') \<and> hv_statements s' = hv_statements s + 3"
proof -
  let ?c = "\<lparr>ck_name = check, ck_score = 1, ck_reason = None, ck_details = JArray []\<rparr>"
  obtain r where r: "parse_scorecard_result (fe_lib scorecard_env) (demo_result score check) = Some r" "hs_checks r = [?c]"
    by (simp add: demo_scorecard_parsed)
  obtain j s1 where u: "upsert_scorecard scorecard_env 1 r s = (Inr j, s1)" "hv_statements s1 = hv_statements s + 1"
    unfolding upsert_scorecard_def using scorecard_statement by blast
  have deletes: "\<exists>s2. delete_checks scorecard_env j s1 = (Inr (), s2) \<and> hv_statements s2 = hv_statements s1 + 1"
    unfolding delete_checks_def by (rule scorecard_update)
  then obtain s2 where d: "delete_checks scorecard_env j s1 = (Inr (), s2)" "hv_statements s2 = hv_statements s1 + 1" by blast
  have "\<exists>s3. upsert_check scorecard_env j ?c s2 = (Inr (), s3) \<and> hv_statements s3 = hv_statements s2 + 1"
    unfolding upsert_check_def by (rule scorecard_update)
  then show ?thesis using r u d by (auto simp: insert_scorecard_def hbind_def hlift_def)
qed

lemma demo_scorecards_persist:
  "\<exists>s'. persist_scorecard_records scorecard_env 1 ''document'' empty_harvest = (Inr (), s') \<and> hv_statements s' = 6"
proof -
  have r: "scorecard_results (JArray [demo_result 3 ''A'', demo_result 7 ''B'']) = [demo_result 3 ''A'', demo_result 7 ''B'']"
    by (simp add: scorecard_results_def items_under_def)
  obtain s1 where s1: "insert_scorecard scorecard_env 1 (demo_result 3 ''A'') empty_harvest = (Inr (), s1)" "hv_statements s1 = 3"
    using demo_insert [of 3 "''A''" empty_harvest] by (auto simp: empty_harvest_def)
  obtain s2 where s2: "insert_scorecard scorecard_env 1 (demo_result 7 ''B'') s1 = (Inr (), s2)" "hv_statements s2 = 6"
    using demo_insert [of 7 "''B''" s1] s1(2) by auto
  have "read_document (fe_lib scorecard_env) ''document'' = Inr (JArray [demo_result 3 ''A'', demo_result 7 ''B''])"
    by (simp add: read_document_def scorecard_env_def)
  then show ?thesis using s1 s2 by (simp add: persist_scorecard_records_def hbind_def hlift_def r)
qed

theorem last_scorecard_wins_witness:
  "\<exists>s' row. persist_scorecard_records scorecard_env 1 ''document'' empty_harvest = (Inr (), s')
     \<and> find (same_repo 1 ''github.com/o/r'') (fd_scorecards (hv_db s')) = Some row \<and> hs_score (sx_result row) = 7
     \<and> check_named ''A'' (checks_of (sx_id row) (hv_db s')) = None"
proof -
  obtain s' where p: "persist_scorecard_records scorecard_env 1 ''document'' empty_harvest = (Inr (), s')" "hv_statements s' = 6"
    using demo_scorecards_persist by blast
  have d: "fl_from_slice (fe_lib scorecard_env) ''document'' = Inr (JArray [demo_result 3 ''A'', demo_result 7 ''B''])"
    by (simp add: scorecard_env_def)
  have "inj_on (fe_fresh scorecard_env) {..<hv_statements s'}"
    unfolding p(2) by (rule inj_on_inverseI [where g = unat]) (simp add: scorecard_env_def unat_of_nat)
  moreover have "fd_scorecards (hv_db empty_harvest) = []" by (simp add: empty_harvest_def)
  moreover have "result_of ''github.com/o/r'' (List.map_filter (parse_scorecard_result (fe_lib scorecard_env))
      (scorecard_results (JArray [demo_result 3 ''A'', demo_result 7 ''B'']))) = Some \<lparr>hs_observed_on = None, hs_repo_name = ''github.com/o/r'',
      hs_repo_commit = None, hs_scorecard_version = None, hs_scorecard_commit = None, hs_score = 7,
      hs_checks = [\<lparr>ck_name = ''B'', ck_score = 1, ck_reason = None, ck_details = JArray []\<rparr>], hs_raw_document = demo_result 7 ''B''\<rparr>"
    by (simp add: result_of_def scorecard_results_def items_under_def demo_scorecard_parsed List.map_filter_def)
  ultimately show ?thesis
    using last_scorecard_wins [OF p(1) d, of "''github.com/o/r''"] p(1) by (auto simp: check_named_def)
qed

end
