(* ===== verification/Control_Plane.thy ===== *)
theory Control_Plane
  imports Redaction Registry_Config "HOL-Library.AList"
begin

text \<open>
  The management API, \<^verbatim>\<open>services/aegiscudo-api/src/lib.rs\<close>: its state and effects, the rights of actors, audit events, and the handlers of
  overrides, registry configurations and credentials. The state has the tables, the number of statements and of reload
  notifications so far. Each statement, by its number, is served, refused, or served although its reply is lost; outside
  a transaction each is committed by itself. The constraints of the tables are those of \<^verbatim>\<open>migrations\<close>. Clocks are readings by number: \<open>ge_now\<close>
  of the database in a statement, \<open>ge_clock\<close> of the service before it.
\<close>

section \<open>Errors\<close>

datatype AuthMode = MockOidc | Oidc | Saml

datatype SqlError = UniqueViolation | ForeignKeyViolation | CheckViolation | SqlUnavailable

datatype DecisionClientError = DecisionInvalid | DecisionNotFound | DecisionUnavailable

datatype SbomServiceClientError = SbomClientInvalid | SbomClientNotFound | SbomClientUnavailable

datatype ManagementError =
    MissingActor
  | Forbidden
  | NotFound
  | Conflict
  | UnsupportedAuthMode AuthMode
  | InvalidManagementRequest string
  | DecisionClient DecisionClientError
  | SbomClient SbomServiceClientError
  | ManagementDatabase SqlError
  | Reload

fun management_error_status :: "ManagementError \<Rightarrow> nat" where
  "management_error_status MissingActor = 401"
| "management_error_status Forbidden = 403"
| "management_error_status NotFound = 404"
| "management_error_status Conflict = 409"
| "management_error_status (UnsupportedAuthMode _) = 409"
| "management_error_status (InvalidManagementRequest _) = 400"
| "management_error_status (DecisionClient DecisionInvalid) = 400"
| "management_error_status (DecisionClient DecisionNotFound) = 404"
| "management_error_status (DecisionClient DecisionUnavailable) = 503"
| "management_error_status (SbomClient SbomClientInvalid) = 400"
| "management_error_status (SbomClient SbomClientNotFound) = 404"
| "management_error_status (SbomClient SbomClientUnavailable) = 503"
| "management_error_status (ManagementDatabase _) = 503"
| "management_error_status Reload = 503"

definition map_sql_conflict :: "SqlError \<Rightarrow> ManagementError" where
  "map_sql_conflict e =
     (if e = UniqueViolation \<or> e = ForeignKeyViolation \<or> e = CheckViolation then Conflict else ManagementDatabase e)"

section \<open>Tables\<close>

record OverrideRow =
  ov_id :: uuid
  ov_tenant_id :: uuid
  ov_scope :: json
  ov_reason :: string
  ov_requested_by :: "uuid option"
  ov_approved_by :: "uuid option"
  ov_status :: string
  ov_expires_at :: timestamp
  ov_created_at :: timestamp

record RegistryConfigRow =
  gc_id :: uuid
  gc_tenant_id :: uuid
  gc_name :: string
  gc_description :: string
  gc_adapter :: string
  gc_upstream_url :: string
  gc_cargo_allowed_download_origins :: "string list"
  gc_mount_path :: string
  gc_auth_type :: string
  gc_credential_ref :: "uuid option"
  gc_mode :: string
  gc_policy_profile_id :: uuid
  gc_cache_ttl_seconds :: int
  gc_verify_upstream_tls :: bool
  gc_enabled :: bool
  gc_deleted_at :: "timestamp option"
  gc_created_at :: timestamp
  gc_updated_at :: timestamp

record IntegrationCredentialRow =
  ic_id :: uuid
  ic_tenant_id :: uuid
  ic_name :: string
  ic_credential_type :: string
  ic_source :: string
  ic_ciphertext :: "string option"
  ic_key_id :: "string option"
  ic_configured :: bool
  ic_created_at :: timestamp
  ic_updated_at :: timestamp

record ManagementAuditRow =
  ma_id :: uuid
  ma_tenant_id :: uuid
  ma_actor :: string
  ma_action :: string
  ma_resource :: string
  ma_trace_id :: string
  ma_occurred_at :: timestamp
  ma_metadata :: metadata

record UserRow =
  us_id :: uuid
  us_tenant_id :: uuid
  us_email :: string
  us_display_name :: string

text \<open>A role has its identifier, tenant and name; a package request its tenant, configuration and time. Of AI providers only the
  reference to a credential matters here.\<close>

record management_db =
  gd_users :: "UserRow list"
  gd_roles :: "(uuid \<times> uuid \<times> string) list"
  gd_user_roles :: "(uuid \<times> uuid) list"
  gd_policy_profiles :: "(uuid \<times> uuid) list"
  gd_overrides :: "OverrideRow list"
  gd_registries :: "RegistryConfigRow list"
  gd_credentials :: "IntegrationCredentialRow list"
  gd_package_requests :: "(uuid \<times> uuid \<times> timestamp) list"
  gd_provider_credentials :: "uuid list"
  gd_audit_events :: "ManagementAuditRow list"

record management_state =
  gs_db :: management_db
  gs_statements :: nat
  gs_reloads :: nat

datatype sql_answer = Served | Unserved | ReplyDropped

text \<open>\<open>ge_reload\<close>: without a reload client \<^verbatim>\<open>None\<close>, else whether the notification by its number succeeds.\<close>

record management_env =
  ge_lower :: "string \<Rightarrow> string"
  ge_parse_uuid :: "string \<Rightarrow> uuid option"
  ge_show_uuid :: "uuid \<Rightarrow> string"
  ge_show_time :: "timestamp \<Rightarrow> string"
  ge_parse_url :: "string \<Rightarrow> url option"
  ge_answer :: "nat \<Rightarrow> sql_answer"
  ge_now :: "nat \<Rightarrow> timestamp"
  ge_clock :: "nat \<Rightarrow> timestamp"
  ge_fresh :: "nat \<Rightarrow> uuid"
  ge_trace :: "nat \<Rightarrow> uuid"
  ge_reload :: "(nat \<Rightarrow> bool) option"

section \<open>Steps\<close>

type_synonym 'a managing = "management_state \<Rightarrow> (ManagementError, 'a) result \<times> management_state"

definition glift :: "(ManagementError, 'a) result \<Rightarrow> 'a managing" where
  "glift r s = (r, s)"

definition gbind :: "'a managing \<Rightarrow> ('a \<Rightarrow> 'b managing) \<Rightarrow> 'b managing" where
  "gbind step f s = (case step s of (Inl e, s1) \<Rightarrow> (Inl e, s1) | (Inr a, s1) \<Rightarrow> f a s1)"

text \<open>A step that reads the number of the next statement, for clocks and fresh identifiers.\<close>

definition numbered :: "(nat \<Rightarrow> 'a managing) \<Rightarrow> 'a managing" where
  "numbered f s = f (gs_statements s) s"

definition sql_with ::
  "(SqlError \<Rightarrow> ManagementError) \<Rightarrow> management_env \<Rightarrow> (nat \<Rightarrow> management_db \<Rightarrow> (SqlError, 'a \<times> management_db) result) \<Rightarrow> 'a managing" where
  "sql_with on_error env query s =
     (let n = gs_statements s; s1 = s\<lparr>gs_statements := n + 1\<rparr> in
      if ge_answer env n = Unserved then (Inl (on_error SqlUnavailable), s1)
      else case query n (gs_db s) of
          Inl e \<Rightarrow> (Inl (on_error e), s1)
        | Inr (a, db) \<Rightarrow>
            ((if ge_answer env n = ReplyDropped then Inl (on_error SqlUnavailable) else Inr a), s1\<lparr>gs_db := db\<rparr>))"

definition sql :: "management_env \<Rightarrow> (nat \<Rightarrow> management_db \<Rightarrow> (SqlError, 'a \<times> management_db) result) \<Rightarrow> 'a managing" where
  "sql = sql_with ManagementDatabase"

definition sql_read :: "management_env \<Rightarrow> (nat \<Rightarrow> management_db \<Rightarrow> 'a) \<Rightarrow> 'a managing" where
  "sql_read env query = sql env (\<lambda>n db. Inr (query n db, db))"

fun gfor :: "('a \<Rightarrow> unit managing) \<Rightarrow> 'a list \<Rightarrow> unit managing" where
  "gfor step [] = glift (Inr ())"
| "gfor step (x # xs) = gbind (step x) (\<lambda>_. gfor step xs)"

section \<open>Actors\<close>

text \<open>The two headers the handlers read, as bytes.\<close>

record request_headers =
  rh_actor :: "string option"
  rh_trace :: "string option"

definition header_to_str :: "string \<Rightarrow> string option" where
  "header_to_str v =
     (if list_all (\<lambda>c. (32 \<le> (of_char c :: nat) \<and> (of_char c :: nat) < 127) \<or> (of_char c :: nat) = 9) v then Some v else None)"

definition actor_id_from_headers :: "management_env \<Rightarrow> request_headers \<Rightarrow> uuid option" where
  "actor_id_from_headers env headers = Option.bind (Option.bind (rh_actor headers) header_to_str) (ge_parse_uuid env)"

definition management_trace_id :: "management_env \<Rightarrow> request_headers \<Rightarrow> nat \<Rightarrow> string" where
  "management_trace_id env headers n =
     unwrap_or (''api-'' @ ge_show_uuid env (ge_trace env n))
       (opt_filter (\<lambda>v. str_trim v \<noteq> []) (Option.bind (rh_trace headers) header_to_str))"

definition actor_label :: "management_env \<Rightarrow> uuid \<Rightarrow> string" where
  "actor_label env actor_id = ''user/'' @ ge_show_uuid env actor_id"

definition actor_user_id_from_label :: "management_env \<Rightarrow> string \<Rightarrow> uuid option" where
  "actor_user_id_from_label env actor = Option.bind (strip_prefix ''user/'' actor) (ge_parse_uuid env)"

definition request_actor :: "management_env \<Rightarrow> uuid option \<Rightarrow> request_headers \<Rightarrow> (ManagementError, uuid) result" where
  "request_actor env stated headers =
     ok_or MissingActor (case stated of Some actor_id \<Rightarrow> Some actor_id | None \<Rightarrow> actor_id_from_headers env headers)"

definition role_can_manage_control_plane :: "string \<Rightarrow> bool" where
  "role_can_manage_control_plane role =
     (to_ascii_lowercase (str_trim role) \<in> {''admin'', ''security-admin'', ''security-specialist'', ''platform-admin''})"

definition role_can_view_llm_usage :: "string \<Rightarrow> bool" where
  "role_can_view_llm_usage role = (to_ascii_lowercase (str_trim role) \<in> {''admin'', ''platform-admin''})"

definition roles_of_actor :: "uuid \<Rightarrow> uuid \<Rightarrow> management_db \<Rightarrow> string list" where
  "roles_of_actor tenant_id actor_id db =
     concat (map (\<lambda>(user_id, role_id). if user_id = actor_id
                    then map (snd \<circ> snd) (filter (\<lambda>(i, t, _). i = role_id \<and> t = tenant_id) (gd_roles db)) else [])
               (gd_user_roles db))"

definition ensure_tenant_user :: "management_env \<Rightarrow> uuid \<Rightarrow> uuid \<Rightarrow> unit managing" where
  "ensure_tenant_user env tenant_id actor_id =
     gbind (sql_read env (\<lambda>_ db. list_ex (\<lambda>u. us_tenant_id u = tenant_id \<and> us_id u = actor_id) (gd_users db)))
       (\<lambda>found. glift (if found then Inr () else Inl Forbidden))"

definition ensure_override_manager :: "management_env \<Rightarrow> uuid \<Rightarrow> uuid \<Rightarrow> unit managing" where
  "ensure_override_manager env tenant_id actor_id =
     gbind (sql_read env (\<lambda>_. roles_of_actor tenant_id actor_id))
       (\<lambda>roles. glift (if list_ex role_can_manage_control_plane roles then Inr () else Inl Forbidden))"

definition ensure_llm_usage_reader :: "management_env \<Rightarrow> uuid \<Rightarrow> uuid \<Rightarrow> unit managing" where
  "ensure_llm_usage_reader env tenant_id actor_id =
     gbind (sql_read env (\<lambda>_. roles_of_actor tenant_id actor_id))
       (\<lambda>roles. glift (if list_ex role_can_view_llm_usage roles then Inr () else Inl Forbidden))"

text \<open>The handlers for managers begin with the actor of the header and the check of its rights.\<close>

definition as_manager :: "management_env \<Rightarrow> uuid \<Rightarrow> uuid option \<Rightarrow> request_headers \<Rightarrow> (uuid \<Rightarrow> 'a managing) \<Rightarrow> 'a managing" where
  "as_manager env tenant_id stated headers handler =
     gbind (glift (request_actor env stated headers)) (\<lambda>actor_id.
     gbind (ensure_override_manager env tenant_id actor_id) (\<lambda>_. handler actor_id))"

section \<open>Audit events\<close>

definition management_audit_event ::
  "management_env \<Rightarrow> nat \<Rightarrow> uuid \<Rightarrow> string \<Rightarrow> string \<Rightarrow> string \<Rightarrow> string \<Rightarrow> metadata \<Rightarrow> (ManagementError, ManagementAuditRow) result" where
  "management_audit_event env n tenant_id actor action resource trace metadata =
     res_bind (map_err InvalidManagementRequest (validate_audit_metadata (ge_lower env) metadata)) (\<lambda>_.
       Inr \<lparr>ma_id = ge_fresh env n, ma_tenant_id = tenant_id, ma_actor = actor, ma_action = action, ma_resource = resource,
            ma_trace_id = trace, ma_occurred_at = ge_clock env n, ma_metadata = metadata\<rparr>)"

definition insert_audit_event :: "management_env \<Rightarrow> ManagementAuditRow \<Rightarrow> unit managing" where
  "insert_audit_event env event = sql env (\<lambda>_ db. Inr ((), db\<lparr>gd_audit_events := gd_audit_events db @ [event]\<rparr>))"

definition management_audit ::
  "management_env \<Rightarrow> uuid \<Rightarrow> string \<Rightarrow> string \<Rightarrow> string \<Rightarrow> string \<Rightarrow> metadata \<Rightarrow> unit managing" where
  "management_audit env tenant_id actor action resource trace metadata =
     numbered (\<lambda>n. gbind (glift (management_audit_event env n tenant_id actor action resource trace metadata)) (insert_audit_event env))"

section \<open>Overrides\<close>

record CreateOverrideRequest =
  cor_scope :: json
  cor_reason :: string
  cor_requested_by :: "uuid option"
  cor_expires_at :: timestamp

record OverrideActionRequest =
  oar_reason :: string
  oar_actor_id :: "uuid option"

record CreateEmergencyBypassRequest =
  ceb_scope :: json
  ceb_reason :: string
  ceb_expires_at :: timestamp
  ceb_actor_id :: "uuid option"

definition validate_override_reason :: "string \<Rightarrow> (ManagementError, unit) result" where
  "validate_override_reason reason =
     (if length (str_trim reason) < 8
      then Inl (InvalidManagementRequest ''override reason must contain at least 8 non-whitespace characters'') else Inr ())"

definition validate_override_expiry :: "timestamp \<Rightarrow> timestamp \<Rightarrow> (ManagementError, unit) result" where
  "validate_override_expiry now expires_at =
     (if expires_at \<le> now then Inl (InvalidManagementRequest ''override expiry must be in the future'') else Inr ())"

definition override_scope_keys :: "string list" where
  "override_scope_keys = [''ecosystem'', ''name'', ''namespace'', ''version'', ''digest'', ''kind'', ''effect'']"

definition validate_override_scope :: "json \<Rightarrow> (ManagementError, unit) result" where
  "validate_override_scope scope =
     (case as_object scope of
        None \<Rightarrow> Inl (InvalidManagementRequest ''override scope must be a JSON object'')
      | Some entries \<Rightarrow>
          (case find (\<lambda>key. key \<notin> set override_scope_keys) (map fst entries) of
             Some key \<Rightarrow> Inl (InvalidManagementRequest (''override scope key `'' @ key @ ''` is not supported''))
           | None \<Rightarrow>
               if \<not> is_none_or (\<lambda>effect. effect \<in> {''allow'', ''emergency-bypass''}) (get_str ''effect'' scope)
               then Inl (InvalidManagementRequest ''override scope effect must be allow or emergency-bypass'')
               else if \<not> is_none_or (\<lambda>kind. kind \<in> {''metadata'', ''artifact''}) (get_str ''kind'' scope)
               then Inl (InvalidManagementRequest ''override scope kind must be metadata or artifact'')
               else Inr ()))"

definition override_metadata :: "management_env \<Rightarrow> OverrideRow \<Rightarrow> metadata" where
  "override_metadata env row = [(''expires_at'', JString (ge_show_time env (ov_expires_at row))), (''scope'', ov_scope row)]"

definition override_resource :: "management_env \<Rightarrow> OverrideRow \<Rightarrow> string" where
  "override_resource env row = ''override/'' @ ge_show_uuid env (ov_id row)"

definition override_due :: "uuid \<Rightarrow> timestamp \<Rightarrow> OverrideRow \<Rightarrow> bool" where
  "override_due tenant_id now row \<longleftrightarrow>
     ov_tenant_id row = tenant_id \<and> (ov_status row = ''pending'' \<or> ov_status row = ''approved'') \<and> ov_expires_at row \<le> now"

definition expire_row :: "uuid \<Rightarrow> timestamp \<Rightarrow> OverrideRow \<Rightarrow> OverrideRow" where
  "expire_row tenant_id now row = (if override_due tenant_id now row then row\<lparr>ov_status := ''expired''\<rparr> else row)"

definition expire_overrides :: "management_env \<Rightarrow> uuid \<Rightarrow> string \<Rightarrow> string \<Rightarrow> unit managing" where
  "expire_overrides env tenant_id actor trace =
     gbind (sql env (\<lambda>n db. Inr (filter (override_due tenant_id (ge_now env n)) (gd_overrides db),
         db\<lparr>gd_overrides := map (expire_row tenant_id (ge_now env n)) (gd_overrides db)\<rparr>)))
       (gfor (\<lambda>row. management_audit env tenant_id actor ''override.expired'' (override_resource env row) trace (override_metadata env row)))"

text \<open>Every operation first expires what is due in the tenant's name.\<close>

definition expire_for :: "management_env \<Rightarrow> uuid \<Rightarrow> uuid \<Rightarrow> request_headers \<Rightarrow> unit managing" where
  "expire_for env tenant_id actor_id headers =
     numbered (\<lambda>n. expire_overrides env tenant_id (actor_label env actor_id) (management_trace_id env headers n))"

definition insert_override :: "management_env \<Rightarrow> OverrideRow \<Rightarrow> OverrideRow managing" where
  "insert_override env values = sql env (\<lambda>n db.
     let row = values\<lparr>ov_id := ge_fresh env n, ov_created_at := ge_now env n\<rparr> in
     if list_ex (\<lambda>r. ov_id r = ov_id row) (gd_overrides db) then Inl UniqueViolation
     else if list_all (\<lambda>who. is_none_or (\<lambda>user. list_ex (\<lambda>u. us_id u = user) (gd_users db)) who) [ov_requested_by row, ov_approved_by row]
     then Inr (row, db\<lparr>gd_overrides := gd_overrides db @ [row]\<rparr>) else Inl ForeignKeyViolation)"

definition audit_override_action ::
  "management_env \<Rightarrow> uuid \<Rightarrow> uuid \<Rightarrow> string \<Rightarrow> OverrideRow \<Rightarrow> request_headers \<Rightarrow> unit managing" where
  "audit_override_action env tenant_id actor_id action row headers =
     numbered (\<lambda>n. management_audit env tenant_id (actor_label env actor_id) action (override_resource env row)
       (management_trace_id env headers n) (override_metadata env row @ [(''status'', JString (ov_status row))]))"

definition create_override ::
  "management_env \<Rightarrow> uuid \<Rightarrow> request_headers \<Rightarrow> CreateOverrideRequest \<Rightarrow> OverrideRow managing" where
  "create_override env tenant_id headers request =
     gbind (glift (request_actor env (cor_requested_by request) headers)) (\<lambda>actor_id.
     gbind (ensure_tenant_user env tenant_id actor_id) (\<lambda>_.
     gbind (expire_for env tenant_id actor_id headers) (\<lambda>_.
     gbind (glift (validate_override_reason (cor_reason request))) (\<lambda>_.
     gbind (numbered (\<lambda>n. glift (validate_override_expiry (ge_clock env n) (cor_expires_at request)))) (\<lambda>_.
     gbind (glift (validate_override_scope (cor_scope request))) (\<lambda>_.
     gbind (insert_override env \<lparr>ov_id = 0, ov_tenant_id = tenant_id, ov_scope = cor_scope request, ov_reason = cor_reason request,
         ov_requested_by = Some actor_id, ov_approved_by = None, ov_status = ''pending'',
         ov_expires_at = cor_expires_at request, ov_created_at = 0\<rparr>) (\<lambda>row.
     gbind (audit_override_action env tenant_id actor_id ''override.request.created'' row headers) (\<lambda>_.
       glift (Inr row)))))))))"

definition with_effect :: "json \<Rightarrow> json" where
  "with_effect scope =
     (case as_object scope of
        Some entries \<Rightarrow> JObject (AList.update ''effect'' (JString ''emergency-bypass'') entries)
      | None \<Rightarrow> scope)"

definition create_emergency_bypass ::
  "management_env \<Rightarrow> uuid \<Rightarrow> request_headers \<Rightarrow> CreateEmergencyBypassRequest \<Rightarrow> OverrideRow managing" where
  "create_emergency_bypass env tenant_id headers request =
     as_manager env tenant_id (ceb_actor_id request) headers (\<lambda>actor_id.
     gbind (expire_for env tenant_id actor_id headers) (\<lambda>_.
     gbind (glift (validate_override_reason (ceb_reason request))) (\<lambda>_.
     gbind (numbered (\<lambda>n. glift (validate_override_expiry (ge_clock env n) (ceb_expires_at request)))) (\<lambda>_.
     gbind (glift (validate_override_scope (ceb_scope request))) (\<lambda>_.
     gbind (insert_override env \<lparr>ov_id = 0, ov_tenant_id = tenant_id, ov_scope = with_effect (ceb_scope request),
         ov_reason = ceb_reason request, ov_requested_by = Some actor_id, ov_approved_by = Some actor_id,
         ov_status = ''approved'', ov_expires_at = ceb_expires_at request, ov_created_at = 0\<rparr>) (\<lambda>row.
     gbind (numbered (\<lambda>n. management_audit env tenant_id (actor_label env actor_id) ''override.emergency-bypass.approved''
         (override_resource env row) (management_trace_id env headers n) (override_metadata env row))) (\<lambda>_.
       glift (Inr row))))))))"

text \<open>The update of a pending override; a row that does not match is not found.\<close>

definition update_override ::
  "management_env \<Rightarrow> (nat \<Rightarrow> OverrideRow \<Rightarrow> bool) \<Rightarrow> uuid \<Rightarrow> (OverrideRow \<Rightarrow> OverrideRow) \<Rightarrow> OverrideRow managing" where
  "update_override env selected actor_id change =
     gbind (sql env (\<lambda>n db.
       case find (selected n) (gd_overrides db) of
         None \<Rightarrow> Inr (None, db)
       | Some row \<Rightarrow>
           if list_ex (\<lambda>u. us_id u = actor_id) (gd_users db)
           then Inr (Some (change row), db\<lparr>gd_overrides := map (\<lambda>r. if selected n r then change r else r) (gd_overrides db)\<rparr>)
           else Inl ForeignKeyViolation)) (\<lambda>found. glift (ok_or NotFound found))"

definition newline :: string where "newline = [CHR 10]"

definition approve_override ::
  "management_env \<Rightarrow> uuid \<Rightarrow> uuid \<Rightarrow> request_headers \<Rightarrow> OverrideActionRequest \<Rightarrow> OverrideRow managing" where
  "approve_override env tenant_id override_id headers request =
     as_manager env tenant_id (oar_actor_id request) headers (\<lambda>actor_id.
     gbind (expire_for env tenant_id actor_id headers) (\<lambda>_.
     gbind (glift (validate_override_reason (oar_reason request))) (\<lambda>_.
     gbind (update_override env (\<lambda>n r. ov_tenant_id r = tenant_id \<and> ov_id r = override_id \<and> ov_status r = ''pending''
           \<and> ov_expires_at r > ge_now env n) actor_id
         (\<lambda>r. r\<lparr>ov_status := ''approved'', ov_approved_by := Some actor_id,
            ov_reason := ov_reason r @ newline @ ''approval: '' @ oar_reason request\<rparr>)) (\<lambda>row.
     gbind (audit_override_action env tenant_id actor_id ''override.request.approved'' row headers) (\<lambda>_.
       glift (Inr row))))))"

definition deny_override ::
  "management_env \<Rightarrow> uuid \<Rightarrow> uuid \<Rightarrow> request_headers \<Rightarrow> OverrideActionRequest \<Rightarrow> OverrideRow managing" where
  "deny_override env tenant_id override_id headers request =
     as_manager env tenant_id (oar_actor_id request) headers (\<lambda>actor_id.
     gbind (expire_for env tenant_id actor_id headers) (\<lambda>_.
     gbind (glift (validate_override_reason (oar_reason request))) (\<lambda>_.
     gbind (update_override env (\<lambda>_ r. ov_tenant_id r = tenant_id \<and> ov_id r = override_id \<and> ov_status r = ''pending'') actor_id
         (\<lambda>r. r\<lparr>ov_status := ''denied'', ov_approved_by := Some actor_id,
            ov_reason := ov_reason r @ newline @ ''denial: '' @ oar_reason request\<rparr>)) (\<lambda>row.
     gbind (audit_override_action env tenant_id actor_id ''override.request.denied'' row headers) (\<lambda>_.
       glift (Inr row))))))"

text \<open>The queue of overrides: live pending ones first, then live approved ones, then the rest, the newest first in each group.\<close>

definition shown_status :: "timestamp \<Rightarrow> OverrideRow \<Rightarrow> string" where
  "shown_status now row =
     (if (ov_status row = ''pending'' \<or> ov_status row = ''approved'') \<and> ov_expires_at row \<le> now then ''expired'' else ov_status row)"

definition queue_rank :: "timestamp \<Rightarrow> OverrideRow \<Rightarrow> nat" where
  "queue_rank now row =
     (if ov_status row = ''pending'' \<and> ov_expires_at row > now then 0
      else if ov_status row = ''approved'' \<and> ov_expires_at row > now then 1 else 2)"

definition display_name_of :: "management_db \<Rightarrow> uuid option \<Rightarrow> string option" where
  "display_name_of db who =
     Option.bind who (\<lambda>user. map_option us_display_name (find (\<lambda>u. us_id u = user) (gd_users db)))"

definition list_overrides ::
  "management_env \<Rightarrow> uuid \<Rightarrow> (OverrideRow \<times> string option \<times> string option) list managing" where
  "list_overrides env tenant_id = sql_read env (\<lambda>n db.
     let now = ge_now env n;
         newest_first = sort_key (\<lambda>r. - int (unat (ov_id r)))
           (filter (\<lambda>r. ov_tenant_id r = tenant_id) (gd_overrides db))
     in map (\<lambda>r. (r\<lparr>ov_status := shown_status now r\<rparr>, display_name_of db (ov_requested_by r), display_name_of db (ov_approved_by r)))
          (sort_key (queue_rank now) (sort_key (\<lambda>r. - ov_created_at r) newest_first)))"

end
