(* ===== verification/Registry_Control.thy ===== *)
theory Registry_Control
  imports Control_Plane "HOL-Library.List_Lexorder"
begin

text \<open>
  Registry configurations and credentials in the management API: validation, the constraints of their tables, and the handlers.
  Enumerations are text in the tables, as in the statements that cast them. Times are in nanoseconds.
\<close>

section \<open>Values of the database\<close>

fun adapter_as_db :: "RegistryAdapter \<Rightarrow> string" where
  "adapter_as_db AdapterNpm = ''npm''"
| "adapter_as_db AdapterPypi = ''pypi''"
| "adapter_as_db AdapterCargo = ''cargo''"
| "adapter_as_db AdapterMaven = ''maven''"
| "adapter_as_db AdapterDockerOci = ''docker-oci''"
| "adapter_as_db AdapterGenericHttp = ''generic-http''"

fun auth_type_as_db :: "CredentialAuthType \<Rightarrow> string" where
  "auth_type_as_db AuthNone = ''none''"
| "auth_type_as_db AuthBasic = ''basic''"
| "auth_type_as_db AuthBearer = ''bearer''"
| "auth_type_as_db AuthMtls = ''mtls''"

fun policy_mode_db_value :: "PolicyMode \<Rightarrow> string" where
  "policy_mode_db_value ModeShadow = ''shadow''"
| "policy_mode_db_value ModeWarn = ''warn''"
| "policy_mode_db_value ModeEnforce = ''enforce''"

definition phase_1a_supported :: "RegistryAdapter \<Rightarrow> bool" where
  "phase_1a_supported adapter \<longleftrightarrow> adapter = AdapterNpm \<or> adapter = AdapterPypi"

fun adapter_from_ecosystem :: "PackageEcosystem \<Rightarrow> (ManagementError, RegistryAdapter) result" where
  "adapter_from_ecosystem Npm = Inr AdapterNpm"
| "adapter_from_ecosystem Pypi = Inr AdapterPypi"
| "adapter_from_ecosystem Cargo = Inr AdapterCargo"
| "adapter_from_ecosystem Maven = Inr AdapterMaven"
| "adapter_from_ecosystem DockerOci = Inr AdapterDockerOci"
| "adapter_from_ecosystem GenericHttp = Inr AdapterGenericHttp"
| "adapter_from_ecosystem GithubActions =
     Inl (InvalidManagementRequest ''githubactions packages do not map to a registry adapter'')"
| "adapter_from_ecosystem VscodeExtension =
     Inl (InvalidManagementRequest ''vscode-extension packages do not map to a registry adapter'')"

definition registry_adapter_from_db :: "string \<Rightarrow> (ManagementError, RegistryAdapter) result" where
  "registry_adapter_from_db value = map_err (\<lambda>_. InvalidManagementRequest ''invalid registry adapter'') (adapter_from_db value)"

definition management_auth_type_from_db :: "string \<Rightarrow> (ManagementError, CredentialAuthType) result" where
  "management_auth_type_from_db value =
     map_err (\<lambda>_. InvalidManagementRequest ''invalid credential auth type'') (auth_type_from_db value)"

definition management_mode_from_db :: "string \<Rightarrow> (ManagementError, PolicyMode) result" where
  "management_mode_from_db value = map_err (\<lambda>_. InvalidManagementRequest ''invalid policy mode'') (mode_from_db value)"

section \<open>Requests and responses\<close>

record CreateRegistryConfigRequest =
  crr_name :: string
  crr_description :: string
  crr_adapter :: RegistryAdapter
  crr_upstream_url :: string
  crr_mount_path :: string
  crr_auth_type :: CredentialAuthType
  crr_credential_ref :: "uuid option"
  crr_mode :: PolicyMode
  crr_policy_profile_id :: uuid
  crr_cache_ttl_seconds :: int
  crr_verify_upstream_tls :: bool
  crr_enabled :: bool

record UpdateRegistryConfigRequest =
  urr_name :: "string option"
  urr_description :: "string option"
  urr_upstream_url :: "string option"
  urr_auth_type :: "CredentialAuthType option"
  urr_credential_ref :: "uuid option option"
  urr_mode :: "PolicyMode option"
  urr_policy_profile_id :: "uuid option"
  urr_cache_ttl_seconds :: "int option"
  urr_verify_upstream_tls :: "bool option"
  urr_enabled :: "bool option"

record RegistryConfigResponse =
  gr_id :: uuid
  gr_tenant_id :: uuid
  gr_name :: string
  gr_description :: string
  gr_adapter :: RegistryAdapter
  gr_upstream_url :: string
  gr_mount_path :: string
  gr_auth_type :: CredentialAuthType
  gr_credential_ref :: "uuid option"
  gr_mode :: PolicyMode
  gr_policy_profile_id :: uuid
  gr_cache_ttl_seconds :: int
  gr_verify_upstream_tls :: bool
  gr_enabled :: bool
  gr_deleted_at :: "timestamp option"
  gr_created_at :: timestamp
  gr_updated_at :: timestamp

definition registry_config_response_from_row :: "RegistryConfigRow \<Rightarrow> (ManagementError, RegistryConfigResponse) result" where
  "registry_config_response_from_row row =
     res_bind (registry_adapter_from_db (gc_adapter row)) (\<lambda>adapter.
     res_bind (management_auth_type_from_db (gc_auth_type row)) (\<lambda>auth_type.
     res_bind (management_mode_from_db (gc_mode row)) (\<lambda>mode.
       Inr \<lparr>gr_id = gc_id row, gr_tenant_id = gc_tenant_id row, gr_name = gc_name row, gr_description = gc_description row,
            gr_adapter = adapter, gr_upstream_url = gc_upstream_url row, gr_mount_path = gc_mount_path row,
            gr_auth_type = auth_type, gr_credential_ref = gc_credential_ref row, gr_mode = mode,
            gr_policy_profile_id = gc_policy_profile_id row, gr_cache_ttl_seconds = gc_cache_ttl_seconds row,
            gr_verify_upstream_tls = gc_verify_upstream_tls row, gr_enabled = gc_enabled row, gr_deleted_at = gc_deleted_at row,
            gr_created_at = gc_created_at row, gr_updated_at = gc_updated_at row\<rparr>)))"

section \<open>Validation\<close>

definition validate_non_empty :: "string \<Rightarrow> string \<Rightarrow> (ManagementError, unit) result" where
  "validate_non_empty label_text value =
     (if str_trim value = [] then Inl (InvalidManagementRequest (label_text @ '' must not be empty'')) else Inr ())"

definition validate_mount_path :: "string \<Rightarrow> (ManagementError, unit) result" where
  "validate_mount_path mount_path =
     (let trimmed = str_trim mount_path in
      if \<not> starts_with ''/proxy/'' trimmed \<or> ends_with ''/'' trimmed \<or> str_contains ''//'' trimmed
         \<or> list_ex (\<lambda>segment. segment = [] \<or> \<not> list_all mount_char segment) (split_on CHR ''/'' (trim_start_any [''/proxy/''] trimmed))
      then Inl (InvalidManagementRequest ''mount path must be canonical /proxy/<segment>[/segment]'')
      else Inr ())"

definition validate_adapter_phase :: "RegistryAdapter \<Rightarrow> (ManagementError, unit) result" where
  "validate_adapter_phase adapter =
     (if phase_1a_supported adapter then Inr ()
      else Inl (InvalidManagementRequest ''only npm and PyPI registry adapters are enabled in Phase 1A''))"

definition management_validate_upstream_url ::
  "(string \<Rightarrow> url option) \<Rightarrow> string \<Rightarrow> CredentialAuthType \<Rightarrow> (ManagementError, unit) result" where
  "management_validate_upstream_url parse_url upstream_url auth_type =
     (case parse_url (str_trim upstream_url) of
        None \<Rightarrow> Inl (InvalidManagementRequest ''upstream URL must be an absolute http(s) URL'')
      | Some parsed \<Rightarrow>
          if \<not> (url_scheme parsed = ''http'' \<or> url_scheme parsed = ''https'')
             \<or> url_username parsed \<noteq> [] \<or> url_password parsed \<noteq> None
          then Inl (InvalidManagementRequest ''upstream URL must be http(s) and must not include credentials'')
          else if url_scheme parsed = ''http'' \<and> auth_type \<noteq> AuthNone
          then Inl (InvalidManagementRequest ''authenticated upstream registries must use https'')
          else Inr ())"

definition management_validate_credentials :: "CredentialAuthType \<Rightarrow> uuid option \<Rightarrow> (ManagementError, unit) result" where
  "management_validate_credentials auth_type credential_ref =
     (case (auth_type, credential_ref) of
        (AuthNone, None) \<Rightarrow> Inr ()
      | (AuthBasic, Some _) \<Rightarrow> Inr ()
      | (AuthBearer, Some _) \<Rightarrow> Inr ()
      | (AuthMtls, Some _) \<Rightarrow> Inr ()
      | _ \<Rightarrow> Inl (InvalidManagementRequest ''auth type and credential reference are inconsistent''))"

definition validate_cache_ttl :: "int \<Rightarrow> (ManagementError, unit) result" where
  "validate_cache_ttl cache_ttl_seconds =
     (if cache_ttl_seconds < 0 then Inl (InvalidManagementRequest ''cache TTL must be zero or positive'') else Inr ())"

definition validate_registry_create_request ::
  "(string \<Rightarrow> url option) \<Rightarrow> CreateRegistryConfigRequest \<Rightarrow> (ManagementError, unit) result" where
  "validate_registry_create_request parse_url request =
     res_bind (validate_non_empty ''registry config name'' (crr_name request)) (\<lambda>_.
     res_bind (validate_mount_path (crr_mount_path request)) (\<lambda>_.
     res_bind (validate_adapter_phase (crr_adapter request)) (\<lambda>_.
     res_bind (management_validate_upstream_url parse_url (crr_upstream_url request) (crr_auth_type request)) (\<lambda>_.
     res_bind (management_validate_credentials (crr_auth_type request) (crr_credential_ref request)) (\<lambda>_.
       validate_cache_ttl (crr_cache_ttl_seconds request))))))"

definition validate_registry_update_response ::
  "(string \<Rightarrow> url option) \<Rightarrow> RegistryConfigResponse \<Rightarrow> (ManagementError, unit) result" where
  "validate_registry_update_response parse_url request =
     res_bind (validate_non_empty ''registry config name'' (gr_name request)) (\<lambda>_.
     res_bind (validate_adapter_phase (gr_adapter request)) (\<lambda>_.
     res_bind (management_validate_upstream_url parse_url (gr_upstream_url request) (gr_auth_type request)) (\<lambda>_.
     res_bind (management_validate_credentials (gr_auth_type request) (gr_credential_ref request)) (\<lambda>_.
       validate_cache_ttl (gr_cache_ttl_seconds request)))))"

definition merge_registry_update ::
  "(string \<Rightarrow> url option) \<Rightarrow> RegistryConfigResponse \<Rightarrow> UpdateRegistryConfigRequest \<Rightarrow> (ManagementError, RegistryConfigResponse) result" where
  "merge_registry_update parse_url current patch =
     (let merged = current\<lparr>gr_name := unwrap_or (gr_name current) (urr_name patch),
            gr_description := unwrap_or (gr_description current) (urr_description patch),
            gr_upstream_url := unwrap_or (gr_upstream_url current) (urr_upstream_url patch),
            gr_auth_type := unwrap_or (gr_auth_type current) (urr_auth_type patch),
            gr_credential_ref := unwrap_or (gr_credential_ref current) (urr_credential_ref patch),
            gr_mode := unwrap_or (gr_mode current) (urr_mode patch),
            gr_policy_profile_id := unwrap_or (gr_policy_profile_id current) (urr_policy_profile_id patch),
            gr_cache_ttl_seconds := unwrap_or (gr_cache_ttl_seconds current) (urr_cache_ttl_seconds patch),
            gr_verify_upstream_tls := unwrap_or (gr_verify_upstream_tls current) (urr_verify_upstream_tls patch),
            gr_enabled := unwrap_or (gr_enabled current) (urr_enabled patch)\<rparr>
      in res_bind (validate_registry_update_response parse_url merged) (\<lambda>_. Inr merged))"

section \<open>Constraints of the table\<close>

text \<open>The checks of \<^verbatim>\<open>registry_configs\<close>: the upstream URL begins with \<^verbatim>\<open>http://\<close> or \<^verbatim>\<open>https://\<close> and has no user before an \<^verbatim>\<open>@\<close> in its
  authority, the mount is canonical, the time to live is not negative, and the credential goes with the kind of authentication.\<close>

definition after_http :: "string \<Rightarrow> string option" where
  "after_http s = (case strip_prefix ''http://'' s of Some rest \<Rightarrow> Some rest | None \<Rightarrow> strip_prefix ''https://'' s)"

definition names_user :: "string \<Rightarrow> bool" where
  "names_user rest = (let user = takeWhile (\<lambda>c. c \<noteq> CHR ''/'' \<and> c \<noteq> CHR ''@'') rest in
     user \<noteq> [] \<and> starts_with ''@'' (drop (length user) rest))"

definition canonical_mount :: "string \<Rightarrow> bool" where
  "canonical_mount s =
     (case strip_prefix ''/proxy/'' s of
        None \<Rightarrow> False
      | Some rest \<Rightarrow> list_all (\<lambda>segment. segment \<noteq> [] \<and> list_all mount_char segment) (split_on CHR ''/'' rest))"

definition registry_row_checks :: "RegistryConfigRow \<Rightarrow> bool" where
  "registry_row_checks row \<longleftrightarrow>
     (case after_http (gc_upstream_url row) of None \<Rightarrow> False | Some rest \<Rightarrow> \<not> names_user rest)
     \<and> canonical_mount (gc_mount_path row) \<and> gc_cache_ttl_seconds row \<ge> 0
     \<and> (gc_auth_type row = ''none'' \<longleftrightarrow> gc_credential_ref row = None)"

text \<open>A mount is unique within a tenant, and among the configurations that are not deleted.\<close>

definition same_mount :: "RegistryConfigRow \<Rightarrow> RegistryConfigRow \<Rightarrow> bool" where
  "same_mount row r \<longleftrightarrow> gc_id r \<noteq> gc_id row \<and> gc_mount_path r = gc_mount_path row
     \<and> (gc_tenant_id r = gc_tenant_id row \<or> (gc_deleted_at r = None \<and> gc_deleted_at row = None))"

definition registry_row_allowed :: "management_db \<Rightarrow> RegistryConfigRow \<Rightarrow> (SqlError, unit) result" where
  "registry_row_allowed db row =
     (if \<not> registry_row_checks row then Inl CheckViolation
      else if list_ex (same_mount row) (gd_registries db) then Inl UniqueViolation
      else if (gc_tenant_id row, gc_policy_profile_id row) \<notin> set (gd_policy_profiles db)
           \<or> \<not> is_none_or (\<lambda>i. list_ex (\<lambda>c. ic_tenant_id c = gc_tenant_id row \<and> ic_id c = i) (gd_credentials db)) (gc_credential_ref row)
      then Inl ForeignKeyViolation
      else Inr ())"

section \<open>Handlers of registry configurations\<close>

definition live_config :: "uuid \<Rightarrow> uuid \<Rightarrow> RegistryConfigRow \<Rightarrow> bool" where
  "live_config tenant_id config_id row \<longleftrightarrow> gc_tenant_id row = tenant_id \<and> gc_id row = config_id \<and> gc_deleted_at row = None"

definition find_config :: "management_env \<Rightarrow> uuid \<Rightarrow> uuid \<Rightarrow> RegistryConfigResponse managing" where
  "find_config env tenant_id config_id =
     gbind (sql_read env (\<lambda>_ db. find (live_config tenant_id config_id) (gd_registries db))) (\<lambda>found.
     gbind (glift (ok_or NotFound found)) (\<lambda>row. glift (registry_config_response_from_row row)))"

definition list_registry_configs :: "management_env \<Rightarrow> uuid \<Rightarrow> request_headers \<Rightarrow> RegistryConfigResponse list managing" where
  "list_registry_configs env tenant_id headers =
     as_manager env tenant_id None headers (\<lambda>_.
     gbind (sql_read env (\<lambda>_ db. sort_key gc_mount_path
         (filter (\<lambda>r. gc_tenant_id r = tenant_id \<and> gc_deleted_at r = None) (gd_registries db))))
       (\<lambda>rows. glift (res_collect registry_config_response_from_row rows)))"

definition get_registry_config :: "management_env \<Rightarrow> uuid \<Rightarrow> uuid \<Rightarrow> request_headers \<Rightarrow> RegistryConfigResponse managing" where
  "get_registry_config env tenant_id config_id headers =
     as_manager env tenant_id None headers (\<lambda>_. find_config env tenant_id config_id)"

definition audit_registry_config_action ::
  "management_env \<Rightarrow> uuid \<Rightarrow> uuid \<Rightarrow> string \<Rightarrow> RegistryConfigResponse \<Rightarrow> request_headers \<Rightarrow> unit managing" where
  "audit_registry_config_action env tenant_id actor_id action config headers =
     numbered (\<lambda>n. management_audit env tenant_id (actor_label env actor_id) action (''registry-config/'' @ ge_show_uuid env (gr_id config))
       (management_trace_id env headers n)
       [(''adapter'', JString (adapter_as_db (gr_adapter config))),
        (''credential_ref'', (case gr_credential_ref config of None \<Rightarrow> JNull | Some i \<Rightarrow> JString (ge_show_uuid env i))),
        (''enabled'', JBool (gr_enabled config)),
        (''mount_path'', JString (gr_mount_path config))])"

definition notify_reload :: "management_env \<Rightarrow> unit managing" where
  "notify_reload env s =
     (case ge_reload env of
        None \<Rightarrow> (Inr (), s)
      | Some answered \<Rightarrow> ((if answered (gs_reloads s) then Inr () else Inl Reload), s\<lparr>gs_reloads := gs_reloads s + 1\<rparr>))"

text \<open>What every change of a configuration ends with: the row is read, the event recorded, the proxy told.\<close>

definition announce_config ::
  "management_env \<Rightarrow> uuid \<Rightarrow> uuid \<Rightarrow> string \<Rightarrow> RegistryConfigRow \<Rightarrow> request_headers \<Rightarrow> RegistryConfigResponse managing" where
  "announce_config env tenant_id actor_id action row headers =
     gbind (glift (registry_config_response_from_row row)) (\<lambda>config.
     gbind (audit_registry_config_action env tenant_id actor_id action config headers) (\<lambda>_.
     gbind (notify_reload env) (\<lambda>_. glift (Inr config))))"

definition new_registry_row :: "management_env \<Rightarrow> uuid \<Rightarrow> CreateRegistryConfigRequest \<Rightarrow> nat \<Rightarrow> RegistryConfigRow" where
  "new_registry_row env tenant_id request n =
     \<lparr>gc_id = ge_fresh env n, gc_tenant_id = tenant_id, gc_name = str_trim (crr_name request),
      gc_description = str_trim (crr_description request), gc_adapter = adapter_as_db (crr_adapter request),
      gc_upstream_url = str_trim (crr_upstream_url request), gc_cargo_allowed_download_origins = [],
      gc_mount_path = str_trim (crr_mount_path request), gc_auth_type = auth_type_as_db (crr_auth_type request),
      gc_credential_ref = crr_credential_ref request, gc_mode = policy_mode_db_value (crr_mode request),
      gc_policy_profile_id = crr_policy_profile_id request, gc_cache_ttl_seconds = crr_cache_ttl_seconds request,
      gc_verify_upstream_tls = crr_verify_upstream_tls request, gc_enabled = crr_enabled request, gc_deleted_at = None,
      gc_created_at = ge_now env n, gc_updated_at = ge_now env n\<rparr>"

definition insert_registry :: "management_env \<Rightarrow> uuid \<Rightarrow> CreateRegistryConfigRequest \<Rightarrow> RegistryConfigRow managing" where
  "insert_registry env tenant_id request = sql_with map_sql_conflict env (\<lambda>n db.
     let row = new_registry_row env tenant_id request n in
     if list_ex (\<lambda>r. gc_id r = gc_id row) (gd_registries db) then Inl UniqueViolation
     else res_bind (registry_row_allowed db row) (\<lambda>_. Inr (row, db\<lparr>gd_registries := gd_registries db @ [row]\<rparr>)))"

definition create_registry_config ::
  "management_env \<Rightarrow> uuid \<Rightarrow> request_headers \<Rightarrow> CreateRegistryConfigRequest \<Rightarrow> RegistryConfigResponse managing" where
  "create_registry_config env tenant_id headers request =
     as_manager env tenant_id None headers (\<lambda>actor_id.
     gbind (glift (validate_registry_create_request (ge_parse_url env) request)) (\<lambda>_.
     gbind (insert_registry env tenant_id request) (\<lambda>row.
       announce_config env tenant_id actor_id ''registry-config.created'' row headers)))"

definition store_merged :: "RegistryConfigResponse \<Rightarrow> timestamp \<Rightarrow> RegistryConfigRow \<Rightarrow> RegistryConfigRow" where
  "store_merged merged now row =
     row\<lparr>gc_name := gr_name merged, gc_description := gr_description merged, gc_upstream_url := gr_upstream_url merged,
         gc_auth_type := auth_type_as_db (gr_auth_type merged), gc_credential_ref := gr_credential_ref merged,
         gc_mode := policy_mode_db_value (gr_mode merged), gc_policy_profile_id := gr_policy_profile_id merged,
         gc_cache_ttl_seconds := gr_cache_ttl_seconds merged, gc_verify_upstream_tls := gr_verify_upstream_tls merged,
         gc_enabled := gr_enabled merged, gc_updated_at := now\<rparr>"

text \<open>\<^verbatim>\<open>UPDATE ... RETURNING\<close> of the live configuration; no row is an error of the driver.\<close>

definition update_config ::
  "(SqlError \<Rightarrow> ManagementError) \<Rightarrow> management_env \<Rightarrow> uuid \<Rightarrow> uuid \<Rightarrow> (nat \<Rightarrow> RegistryConfigRow \<Rightarrow> RegistryConfigRow) \<Rightarrow> RegistryConfigRow option managing" where
  "update_config on_error env tenant_id config_id change = sql_with on_error env (\<lambda>n db.
     case find (live_config tenant_id config_id) (gd_registries db) of
       None \<Rightarrow> Inr (None, db)
     | Some row \<Rightarrow> res_bind (registry_row_allowed db (change n row)) (\<lambda>_.
         Inr (Some (change n row),
           db\<lparr>gd_registries := map (\<lambda>r. if live_config tenant_id config_id r then change n r else r) (gd_registries db)\<rparr>)))"

definition update_registry_config ::
  "management_env \<Rightarrow> uuid \<Rightarrow> uuid \<Rightarrow> request_headers \<Rightarrow> UpdateRegistryConfigRequest \<Rightarrow> RegistryConfigResponse managing" where
  "update_registry_config env tenant_id config_id headers request =
     as_manager env tenant_id None headers (\<lambda>actor_id.
     gbind (find_config env tenant_id config_id) (\<lambda>current.
     gbind (glift (merge_registry_update (ge_parse_url env) current request)) (\<lambda>merged.
     gbind (update_config map_sql_conflict env tenant_id config_id (\<lambda>n. store_merged merged (ge_now env n))) (\<lambda>found.
     gbind (glift (ok_or (ManagementDatabase SqlUnavailable) found)) (\<lambda>row.
       announce_config env tenant_id actor_id ''registry-config.updated'' row headers)))))"

definition one_minute :: timestamp where "one_minute = 60 * 1000000000"

definition delete_registry_config :: "management_env \<Rightarrow> uuid \<Rightarrow> uuid \<Rightarrow> request_headers \<Rightarrow> unit managing" where
  "delete_registry_config env tenant_id config_id headers =
     as_manager env tenant_id None headers (\<lambda>actor_id.
     gbind (sql_read env (\<lambda>n db. length (filter (\<lambda>(t, c, requested_at). t = tenant_id \<and> c = config_id
         \<and> requested_at > ge_now env n - one_minute) (gd_package_requests db)))) (\<lambda>recent_request_count.
     gbind (glift (if recent_request_count > 0 then Inl Conflict else Inr ())) (\<lambda>_.
     gbind (update_config ManagementDatabase env tenant_id config_id (\<lambda>n r. r\<lparr>gc_enabled := False,
         gc_deleted_at := Some (ge_now env n), gc_updated_at := ge_now env n\<rparr>)) (\<lambda>found.
     gbind (glift (ok_or NotFound found)) (\<lambda>row.
     gbind (announce_config env tenant_id actor_id ''registry-config.deleted'' row headers) (\<lambda>_. glift (Inr ())))))))"

section \<open>Handlers of credentials\<close>

record CreateCredentialRequest =
  ccr_name :: string
  ccr_credential_type :: string
  ccr_source :: string
  ccr_ciphertext :: "string option"
  ccr_key_id :: "string option"
  ccr_configured :: bool

record RotateCredentialRequest =
  rcr_ciphertext :: "string option"
  rcr_key_id :: "string option"
  rcr_configured :: "bool option"

record CredentialStatusResponse =
  cs_id :: uuid
  cs_tenant_id :: uuid
  cs_name :: string
  cs_credential_type :: string
  cs_source :: string
  cs_key_id :: "string option"
  cs_configured :: bool
  cs_created_at :: timestamp
  cs_updated_at :: timestamp

text \<open>What is returned of a credential; its ciphertext is not.\<close>

definition credential_response_from_row :: "IntegrationCredentialRow \<Rightarrow> CredentialStatusResponse" where
  "credential_response_from_row row =
     \<lparr>cs_id = ic_id row, cs_tenant_id = ic_tenant_id row, cs_name = ic_name row, cs_credential_type = ic_credential_type row,
      cs_source = ic_source row, cs_key_id = ic_key_id row, cs_configured = ic_configured row, cs_created_at = ic_created_at row,
      cs_updated_at = ic_updated_at row\<rparr>"

definition validate_credential_request :: "string \<Rightarrow> string \<Rightarrow> string \<Rightarrow> (ManagementError, unit) result" where
  "validate_credential_request name credential_type source =
     res_bind (validate_non_empty ''credential name'' name) (\<lambda>_.
     res_bind (validate_non_empty ''credential type'' credential_type) (\<lambda>_.
       if source = ''environment'' \<or> source = ''database-runtime-override'' then Inr ()
       else Inl (InvalidManagementRequest ''credential source must be environment or database-runtime-override'')))"

definition audit_credential_action ::
  "management_env \<Rightarrow> uuid \<Rightarrow> uuid \<Rightarrow> string \<Rightarrow> CredentialStatusResponse \<Rightarrow> request_headers \<Rightarrow> unit managing" where
  "audit_credential_action env tenant_id actor_id action response headers =
     numbered (\<lambda>n. management_audit env tenant_id (actor_label env actor_id) action (''credential/'' @ ge_show_uuid env (cs_id response))
       (management_trace_id env headers n)
       [(''configured'', JBool (cs_configured response)), (''credential_id'', JString (ge_show_uuid env (cs_id response))),
        (''credential_type'', JString (cs_credential_type response)), (''source'', JString (cs_source response))])"

definition list_credentials :: "management_env \<Rightarrow> uuid \<Rightarrow> request_headers \<Rightarrow> CredentialStatusResponse list managing" where
  "list_credentials env tenant_id headers =
     as_manager env tenant_id None headers (\<lambda>_.
       sql_read env (\<lambda>_ db. map credential_response_from_row
         (sort_key ic_name (filter (\<lambda>c. ic_tenant_id c = tenant_id) (gd_credentials db)))))"

definition insert_credential :: "management_env \<Rightarrow> uuid \<Rightarrow> CreateCredentialRequest \<Rightarrow> IntegrationCredentialRow managing" where
  "insert_credential env tenant_id request = sql_with map_sql_conflict env (\<lambda>n db.
     let row = \<lparr>ic_id = ge_fresh env n, ic_tenant_id = tenant_id, ic_name = str_trim (ccr_name request),
           ic_credential_type = str_trim (ccr_credential_type request), ic_source = str_trim (ccr_source request),
           ic_ciphertext = ccr_ciphertext request, ic_key_id = ccr_key_id request,
           ic_configured = (ccr_configured request \<or> ccr_ciphertext request \<noteq> None),
           ic_created_at = ge_now env n, ic_updated_at = ge_now env n\<rparr>
     in if \<not> (ic_source row = ''environment'' \<or> ic_source row = ''database-runtime-override'') then Inl CheckViolation
        else if list_ex (\<lambda>c. ic_id c = ic_id row \<or> ic_tenant_id c = tenant_id \<and> ic_name c = ic_name row) (gd_credentials db) then Inl UniqueViolation
        else Inr (row, db\<lparr>gd_credentials := gd_credentials db @ [row]\<rparr>))"

definition create_credential ::
  "management_env \<Rightarrow> uuid \<Rightarrow> request_headers \<Rightarrow> CreateCredentialRequest \<Rightarrow> CredentialStatusResponse managing" where
  "create_credential env tenant_id headers request =
     as_manager env tenant_id None headers (\<lambda>actor_id.
     gbind (glift (validate_credential_request (ccr_name request) (ccr_credential_type request) (ccr_source request))) (\<lambda>_.
     gbind (insert_credential env tenant_id request) (\<lambda>row.
     gbind (audit_credential_action env tenant_id actor_id ''credential.created'' (credential_response_from_row row) headers)
       (\<lambda>_. glift (Inr (credential_response_from_row row))))))"

text \<open>\<^verbatim>\<open>COALESCE($3, column)\<close>: what the request does not give stays.\<close>

definition coalesce :: "'a option \<Rightarrow> 'a option \<Rightarrow> 'a option" where
  "coalesce given kept = (case given of Some a \<Rightarrow> Some a | None \<Rightarrow> kept)"

definition rotated :: "RotateCredentialRequest \<Rightarrow> timestamp \<Rightarrow> IntegrationCredentialRow \<Rightarrow> IntegrationCredentialRow" where
  "rotated request now row =
     row\<lparr>ic_ciphertext := coalesce (rcr_ciphertext request) (ic_ciphertext row), ic_key_id := coalesce (rcr_key_id request) (ic_key_id row),
         ic_configured := unwrap_or (rcr_ciphertext request \<noteq> None) (rcr_configured request), ic_updated_at := now\<rparr>"

definition own_credential :: "uuid \<Rightarrow> uuid \<Rightarrow> IntegrationCredentialRow \<Rightarrow> bool" where
  "own_credential tenant_id credential_id c \<longleftrightarrow> ic_tenant_id c = tenant_id \<and> ic_id c = credential_id"

definition rotate_credential ::
  "management_env \<Rightarrow> uuid \<Rightarrow> uuid \<Rightarrow> request_headers \<Rightarrow> RotateCredentialRequest \<Rightarrow> CredentialStatusResponse managing" where
  "rotate_credential env tenant_id credential_id headers request =
     as_manager env tenant_id None headers (\<lambda>actor_id.
     gbind (sql env (\<lambda>n db. Inr (map_option (rotated request (ge_now env n)) (find (own_credential tenant_id credential_id) (gd_credentials db)),
         db\<lparr>gd_credentials := map (\<lambda>c. if own_credential tenant_id credential_id c then rotated request (ge_now env n) c else c)
              (gd_credentials db)\<rparr>))) (\<lambda>found.
     gbind (glift (ok_or NotFound found)) (\<lambda>row.
     gbind (audit_credential_action env tenant_id actor_id ''credential.rotated'' (credential_response_from_row row) headers)
       (\<lambda>_. glift (Inr (credential_response_from_row row))))))"

text \<open>The references to a credential that the database guards are those of all configurations, deleted or not, and of AI providers.\<close>

definition credential_referenced :: "uuid \<Rightarrow> management_db \<Rightarrow> bool" where
  "credential_referenced credential_id db \<longleftrightarrow>
     list_ex (\<lambda>r. gc_credential_ref r = Some credential_id) (gd_registries db) \<or> credential_id \<in> set (gd_provider_credentials db)"

definition remove_credential :: "management_env \<Rightarrow> uuid \<Rightarrow> uuid \<Rightarrow> uuid option managing" where
  "remove_credential env tenant_id credential_id = sql env (\<lambda>_ db.
     if \<not> list_ex (own_credential tenant_id credential_id) (gd_credentials db) then Inr (None, db)
     else if credential_referenced credential_id db then Inl ForeignKeyViolation
     else Inr (Some credential_id, db\<lparr>gd_credentials := filter (\<lambda>c. \<not> own_credential tenant_id credential_id c) (gd_credentials db)\<rparr>))"

definition delete_credential :: "management_env \<Rightarrow> uuid \<Rightarrow> uuid \<Rightarrow> request_headers \<Rightarrow> unit managing" where
  "delete_credential env tenant_id credential_id headers =
     as_manager env tenant_id None headers (\<lambda>actor_id.
     gbind (sql_read env (\<lambda>_ db. length (filter (\<lambda>r. gc_tenant_id r = tenant_id \<and> gc_credential_ref r = Some credential_id
         \<and> gc_deleted_at r = None) (gd_registries db)))) (\<lambda>referenced_count.
     gbind (glift (if referenced_count > 0 then Inl Conflict else Inr ())) (\<lambda>_.
     gbind (remove_credential env tenant_id credential_id) (\<lambda>deleted.
     gbind (glift (if deleted = None then Inl NotFound else Inr ())) (\<lambda>_.
       numbered (\<lambda>n. management_audit env tenant_id (actor_label env actor_id) ''credential.deleted''
         (''credential/'' @ ge_show_uuid env credential_id) (management_trace_id env headers n)
         [(''credential_id'', JString (ge_show_uuid env credential_id))]))))))"

definition test_credential_connection :: "management_env \<Rightarrow> uuid \<Rightarrow> uuid \<Rightarrow> request_headers \<Rightarrow> (uuid \<times> bool \<times> string) managing" where
  "test_credential_connection env tenant_id credential_id headers =
     as_manager env tenant_id None headers (\<lambda>_.
     gbind (sql_read env (\<lambda>_ db. map_option ic_configured (find (own_credential tenant_id credential_id) (gd_credentials db)))) (\<lambda>found.
     gbind (glift (ok_or NotFound found)) (\<lambda>configured.
       glift (Inr (credential_id, configured, if configured then ''credential metadata is configured''
         else ''credential metadata is present but no encrypted value is configured'')))))"

end
