(* ===== verification/Override_Admin.thy ===== *)
theory Override_Admin
  imports Control_Plane Signals
begin

text \<open>
  The life of overrides: which changes a call of the management API can make to the table of overrides, whatever the database answers; where
  the approvals come from that the Triage Counter honours (\<^verbatim>\<open>load_override_signal_status\<close> of its Postgres repository over the
  same table); and which calls are audited.
\<close>

section \<open>Rules for steps\<close>

named_theorems managing_steps \<open>unfolding of the steps of the management API\<close>

lemma glift_simp [simp]: "glift r s = (r, s)"
  by (simp add: glift_def)

lemma gbind_Inr: "gbind step f s = (Inr b, s') \<longleftrightarrow> (\<exists>a s1. step s = (Inr a, s1) \<and> f a s1 = (Inr b, s'))"
  by (auto simp: gbind_def split: prod.splits sum.splits)

lemma numbered_simp [simp]: "numbered f s = f (gs_statements s) s"
  by (simp add: numbered_def)

lemma sql_Inr:
  "sql_with on_error env query s = (Inr a, s') \<longleftrightarrow> ge_answer env (gs_statements s) = Served
     \<and> (\<exists>db. query (gs_statements s) (gs_db s) = Inr (a, db) \<and> s' = s\<lparr>gs_statements := gs_statements s + 1, gs_db := db\<rparr>)"
  by (cases "ge_answer env (gs_statements s)") (auto simp: sql_with_def Let_def split: sum.split)

lemma sql_read_Inr:
  "sql_read env query s = (Inr a, s') \<longleftrightarrow> ge_answer env (gs_statements s) = Served
     \<and> a = query (gs_statements s) (gs_db s) \<and> s' = s\<lparr>gs_statements := gs_statements s + 1\<rparr>"
  by (auto simp: sql_read_def sql_def sql_Inr)

lemmas managing_Inr = gbind_Inr sql_Inr sql_read_Inr

text \<open>What a step does to the tables, for a relation that is reflexive and transitive.\<close>

definition leads :: "(management_db \<Rightarrow> management_db \<Rightarrow> bool) \<Rightarrow> management_state \<Rightarrow> 'a managing \<Rightarrow> bool" where
  "leads R s step \<longleftrightarrow> R (gs_db s) (gs_db (snd (step s)))"

lemma leads_glift: "reflp R \<Longrightarrow> leads R s (glift r)"
  by (simp add: leads_def glift_def reflpD)

lemma leads_gbind:
  assumes "transp R" "leads R s step" "\<And>a s1. step s = (Inr a, s1) \<Longrightarrow> leads R s1 (f a)"
  shows "leads R s (gbind step f)"
proof (cases "step s")
  case (Pair r s1)
  then show ?thesis
    using assms(2,3) transpD [OF assms(1)] by (cases r) (auto simp: leads_def gbind_def)
qed

lemma leads_numbered: "leads R s (f (gs_statements s)) \<Longrightarrow> leads R s (numbered f)"
  by (simp add: leads_def numbered_def)

lemma leads_sql:
  assumes "reflp R" "\<And>a db. query (gs_statements s) (gs_db s) = Inr (a, db) \<Longrightarrow> R (gs_db s) db"
  shows "leads R s (sql_with on_error env query)"
  using assms reflpD [OF assms(1)] by (auto simp: leads_def sql_with_def Let_def split: sum.split)

lemma leads_read: "reflp R \<Longrightarrow> leads R s (sql_read env query)"
  by (auto simp: sql_read_def sql_def intro: leads_sql reflpD)

lemma leads_gfor:
  assumes "reflp R" "transp R" "\<And>x s. leads R s (step x)"
  shows "leads R s (gfor step xs)"
  by (induction xs arbitrary: s) (auto intro: leads_glift leads_gbind assms)

text \<open>A relation that audit events do not disturb.\<close>

definition audit_blind :: "(management_db \<Rightarrow> management_db \<Rightarrow> bool) \<Rightarrow> bool" where
  "audit_blind R \<longleftrightarrow> reflp R \<and> transp R \<and> (\<forall>db events. R db (db\<lparr>gd_audit_events := gd_audit_events db @ events\<rparr>))"

lemma leads_audit: "audit_blind R \<Longrightarrow> leads R s (management_audit env t a action res trace m)"
  unfolding management_audit_def insert_audit_event_def sql_def
  by (intro leads_numbered leads_gbind leads_glift leads_sql) (auto simp: audit_blind_def)

definition manages :: "management_db \<Rightarrow> uuid \<Rightarrow> uuid \<Rightarrow> bool" where
  "manages db tenant_id actor_id \<longleftrightarrow> list_ex role_can_manage_control_plane (roles_of_actor tenant_id actor_id db)"

lemma ensure_override_manager_Inr:
  "ensure_override_manager env t m s = (Inr u, s1) \<longleftrightarrow> ge_answer env (gs_statements s) = Served \<and> manages (gs_db s) t m
     \<and> s1 = s\<lparr>gs_statements := gs_statements s + 1\<rparr>"
  by (auto simp: ensure_override_manager_def managing_Inr manages_def split: if_splits)

lemma leads_manager: "reflp R \<Longrightarrow> transp R \<Longrightarrow> leads R s (ensure_override_manager env t m)"
  unfolding ensure_override_manager_def by (intro leads_gbind leads_read leads_glift)

lemma leads_as_manager:
  assumes "reflp R" "transp R" "\<And>m s1. request_actor env stated headers = Inr m \<Longrightarrow> manages (gs_db s) t m \<Longrightarrow> gs_db s1 = gs_db s
     \<Longrightarrow> leads R s1 (handler m)"
  shows "leads R s (as_manager env t stated headers handler)"
  unfolding as_manager_def
  by (rule leads_gbind [OF assms(2) leads_glift [OF assms(1)]], simp,
      rule leads_gbind [OF assms(2) leads_manager [OF assms(1,2)]])
    (auto simp: ensure_override_manager_Inr intro: assms(3))

section \<open>The life of an override\<close>

text \<open>What may happen to a stored override of tenant \<open>t\<close>: it expires, or somebody for whom \<open>may\<close> holds approves or denies it.\<close>

type_synonym authority = "OverrideRow \<Rightarrow> uuid \<Rightarrow> string \<Rightarrow> bool"

inductive override_step :: "authority \<Rightarrow> uuid \<Rightarrow> OverrideRow \<Rightarrow> OverrideRow \<Rightarrow> bool" for may t where
  expires: "ov_tenant_id r = t \<Longrightarrow> ov_status r = ''pending'' \<or> ov_status r = ''approved''
     \<Longrightarrow> override_step may t r (r\<lparr>ov_status := ''expired''\<rparr>)"
| decided: "ov_tenant_id r = t \<Longrightarrow> ov_status r = ''pending'' \<Longrightarrow> verdict = ''approved'' \<or> verdict = ''denied'' \<Longrightarrow> may r m verdict
     \<Longrightarrow> override_step may t r (r\<lparr>ov_status := verdict, ov_approved_by := Some m, ov_reason := reason\<rparr>)"

definition evolves ::
  "authority \<Rightarrow> (OverrideRow \<Rightarrow> bool) \<Rightarrow> uuid \<Rightarrow> OverrideRow list \<Rightarrow> OverrideRow list \<Rightarrow> bool" where
  "evolves may new t rows rows' \<longleftrightarrow>
     (\<exists>kept added. rows' = kept @ added \<and> list_all2 (override_step may t)\<^sup>*\<^sup>* rows kept
        \<and> (\<forall>r \<in> set added. \<exists>r0. new r0 \<and> (override_step may t)\<^sup>*\<^sup>* r0 r))"

lemma evolves_refl [simp]: "evolves may new t rows rows"
  unfolding evolves_def by (intro exI [of _ rows] exI [of _ "[]"]) (simp add: list.rel_refl)

lemma evolves_trans:
  assumes "evolves may new t xs ys" "evolves may new t ys zs"
  shows "evolves may new t xs zs"
proof -
  let ?star = "(override_step may t)\<^sup>*\<^sup>*"
  from assms(1) obtain k a where 1: "ys = k @ a" "list_all2 ?star xs k" "\<forall>r \<in> set a. \<exists>r0. new r0 \<and> ?star r0 r"
    by (auto simp: evolves_def)
  from assms(2) obtain k2 a2 where 2: "zs = k2 @ a2" "list_all2 ?star (k @ a) k2" "\<forall>r \<in> set a2. \<exists>r0. new r0 \<and> ?star r0 r"
    unfolding 1(1) evolves_def by blast
  from 2(2) obtain k3 a3 where 3: "k2 = k3 @ a3" "list_all2 ?star k k3" "list_all2 ?star a a3"
    by (auto simp: list_all2_append1)
  have "list_all2 ?star xs k3"
    by (rule list_all2_trans [OF _ 1(2) 3(2)]) simp
  moreover have "\<exists>r0. new r0 \<and> ?star r0 r" if r: "r \<in> set a3" for r
  proof -
    from r 3(3) obtain r1 where "r1 \<in> set a" "?star r1 r"
      by (metis in_set_conv_nth list_all2_conv_all_nth)
    with 1(3) show ?thesis by (meson rtranclp_trans)
  qed
  ultimately show ?thesis
    unfolding evolves_def using 2(1,3) 3(1) by (intro exI [of _ k3] exI [of _ "a3 @ a2"]) auto
qed

lemma evolves_origin:
  assumes "evolves may new t xs ys" "r \<in> set ys"
  shows "\<exists>r0. (override_step may t)\<^sup>*\<^sup>* r0 r \<and> (r0 \<in> set xs \<or> new r0)"
proof -
  from assms(1) obtain k a where ka: "ys = k @ a" "list_all2 (override_step may t)\<^sup>*\<^sup>* xs k"
      "\<forall>r \<in> set a. \<exists>r0. new r0 \<and> (override_step may t)\<^sup>*\<^sup>* r0 r"
    by (auto simp: evolves_def)
  show ?thesis
  proof (cases "r \<in> set a")
    case False
    with assms(2) ka(1) have "r \<in> set k" by simp
    with ka(2) show ?thesis by (metis in_set_conv_nth list_all2_conv_all_nth)
  qed (use ka(3) in blast)
qed

definition override_change ::
  "authority \<Rightarrow> (OverrideRow \<Rightarrow> bool) \<Rightarrow> uuid \<Rightarrow> management_db \<Rightarrow> management_db \<Rightarrow> bool" where
  "override_change may new t db db' \<longleftrightarrow> evolves may new t (gd_overrides db) (gd_overrides db')
     \<and> (\<exists>events. db'\<lparr>gd_overrides := gd_overrides db\<rparr> = db\<lparr>gd_audit_events := gd_audit_events db @ events\<rparr>)"

lemma override_change_blind: "audit_blind (override_change may new t)"
proof -
  have "override_change may new t x z" if "override_change may new t x y" "override_change may new t y z" for x y z
  proof -
    from that obtain e1 e2 where e: "y\<lparr>gd_overrides := gd_overrides x\<rparr> = x\<lparr>gd_audit_events := gd_audit_events x @ e1\<rparr>"
        "z\<lparr>gd_overrides := gd_overrides y\<rparr> = y\<lparr>gd_audit_events := gd_audit_events y @ e2\<rparr>"
      by (auto simp: override_change_def)
    then have "z\<lparr>gd_overrides := gd_overrides x\<rparr> = x\<lparr>gd_audit_events := gd_audit_events x @ (e1 @ e2)\<rparr>"
      by (cases x; cases y; cases z) simp
    with that show ?thesis by (auto simp: override_change_def intro: evolves_trans)
  qed
  moreover have "override_change may new t db (db\<lparr>gd_audit_events := gd_audit_events db @ events\<rparr>)" for db events
    by (cases db) (simp add: override_change_def)
  moreover have "override_change may new t db db" for db
    by (cases db) (simp add: override_change_def)
  ultimately show ?thesis by (auto simp: audit_blind_def intro: reflpI transpI)
qed

lemmas override_change_order = override_change_blind [unfolded audit_blind_def, THEN conjunct1]
  override_change_blind [unfolded audit_blind_def, THEN conjunct2, THEN conjunct1]

lemma override_change_rows:
  assumes "evolves may new t (gd_overrides db) rows"
  shows "override_change may new t db (db\<lparr>gd_overrides := rows\<rparr>)"
  using assms by (cases db) (auto simp: override_change_def intro!: exI [of _ "[]"])

lemma evolves_map:
  assumes "\<And>r. r \<in> set rows \<Longrightarrow> f r = r \<or> override_step may t r (f r)"
  shows "evolves may new t rows (map f rows)"
proof -
  have "list_all2 (override_step may t)\<^sup>*\<^sup>* rows (map f rows)"
    using assms by (simp add: list.rel_map list_all2_same) (metis r_into_rtranclp rtranclp.rtrancl_refl)
  then show ?thesis unfolding evolves_def by (intro exI [of _ "map f rows"] exI [of _ "[]"]) simp
qed

lemma evolves_add: "new row \<Longrightarrow> evolves may new t rows (rows @ [row])"
  unfolding evolves_def by (intro exI [of _ rows] exI [of _ "[row]"]) (auto simp: list.rel_refl)

lemma leads_expire: "leads (override_change may new t) s (expire_for env t m headers)"
proof -
  let ?R = "override_change may new t"
  have rows: "?R db (db\<lparr>gd_overrides := map (expire_row t now) (gd_overrides db)\<rparr>)" for db now
    by (intro override_change_rows evolves_map) (auto simp: expire_row_def override_due_def intro: override_step.intros)
  show ?thesis
    unfolding expire_for_def expire_overrides_def sql_def
    by (intro leads_numbered leads_gbind leads_sql leads_gfor leads_audit override_change_order override_change_blind)
      (use rows in auto)
qed

lemma leads_insert:
  assumes "\<And>n. new (values\<lparr>ov_id := ge_fresh env n, ov_created_at := ge_now env n\<rparr>)"
  shows "leads (override_change may new t) s (insert_override env values)"
  unfolding insert_override_def sql_def Let_def
  by (intro leads_sql override_change_order)
    (auto split: if_splits intro!: override_change_rows evolves_add assms)

lemma leads_update:
  assumes "\<And>n r. selected n r \<Longrightarrow> override_step may t r (change r)"
  shows "leads (override_change may new t) s (update_override env selected m change)"
  unfolding update_override_def sql_def
  by (intro leads_gbind leads_sql leads_glift override_change_order)
    (auto split: option.splits if_splits intro!: override_change_rows evolves_map assms reflpD [OF override_change_order(1)])

lemma leads_audit_action: "leads (override_change may new t) s (audit_override_action env t m action row headers)"
  unfolding audit_override_action_def by (intro leads_numbered leads_audit override_change_blind)

lemmas override_leads = leads_gbind leads_glift leads_numbered leads_expire leads_audit_action leads_audit override_change_order
  override_change_blind

section \<open>Calls\<close>

datatype override_call =
    CreateOverride uuid request_headers CreateOverrideRequest
  | CreateEmergencyBypass uuid request_headers CreateEmergencyBypassRequest
  | ApproveOverride uuid uuid request_headers OverrideActionRequest
  | DenyOverride uuid uuid request_headers OverrideActionRequest

fun call_override :: "management_env \<Rightarrow> override_call \<Rightarrow> OverrideRow managing" where
  "call_override env (CreateOverride t headers request) = create_override env t headers request"
| "call_override env (CreateEmergencyBypass t headers request) = create_emergency_bypass env t headers request"
| "call_override env (ApproveOverride t i headers request) = approve_override env t i headers request"
| "call_override env (DenyOverride t i headers request) = deny_override env t i headers request"

fun call_tenant :: "override_call \<Rightarrow> uuid" where
  "call_tenant (CreateOverride t _ _) = t"
| "call_tenant (CreateEmergencyBypass t _ _) = t"
| "call_tenant (ApproveOverride t _ _ _) = t"
| "call_tenant (DenyOverride t _ _ _) = t"

fun call_actor :: "management_env \<Rightarrow> override_call \<Rightarrow> (ManagementError, uuid) result" where
  "call_actor env (CreateOverride _ headers request) = request_actor env (cor_requested_by request) headers"
| "call_actor env (CreateEmergencyBypass _ headers request) = request_actor env (ceb_actor_id request) headers"
| "call_actor env (ApproveOverride _ _ headers request) = request_actor env (oar_actor_id request) headers"
| "call_actor env (DenyOverride _ _ headers request) = request_actor env (oar_actor_id request) headers"

text \<open>Whether a call decides on the row, or puts it in force, by its parameters.\<close>

fun decides :: "override_call \<Rightarrow> OverrideRow \<Rightarrow> string \<Rightarrow> bool" where
  "decides (ApproveOverride _ i _ _) row verdict \<longleftrightarrow> ov_id row = i \<and> verdict = ''approved''"
| "decides (DenyOverride _ i _ _) row verdict \<longleftrightarrow> ov_id row = i \<and> verdict = ''denied''"
| "decides _ row verdict \<longleftrightarrow> False"

definition may_decide :: "management_env \<Rightarrow> management_db \<Rightarrow> override_call \<Rightarrow> authority" where
  "may_decide env db c row m verdict \<longleftrightarrow> call_actor env c = Inr m \<and> manages db (call_tenant c) m \<and> decides c row verdict"

fun new_override :: "management_env \<Rightarrow> management_db \<Rightarrow> override_call \<Rightarrow> OverrideRow \<Rightarrow> bool" where
  "new_override env db (CreateOverride t headers request) row \<longleftrightarrow> ov_tenant_id row = t \<and> ov_status row = ''pending''
     \<and> ov_approved_by row = None \<and> ov_scope row = cor_scope request"
| "new_override env db (CreateEmergencyBypass t headers request) row \<longleftrightarrow> ov_tenant_id row = t \<and> ov_status row = ''approved''
     \<and> ov_scope row = with_effect (ceb_scope request) \<and> ov_expires_at row = ceb_expires_at request
     \<and> (\<exists>m. ov_approved_by row = Some m \<and> request_actor env (ceb_actor_id request) headers = Inr m \<and> manages db t m)"
| "new_override env db _ row \<longleftrightarrow> False"

lemma call_override_changes:
  "override_change (may_decide env (gs_db s) c) (new_override env (gs_db s) c) (call_tenant c) (gs_db s) (gs_db (snd (call_override env c s)))"
proof -
  let ?R = "override_change (may_decide env (gs_db s) c) (new_override env (gs_db s) c) (call_tenant c)"
  have "leads ?R s (call_override env c)"
  proof (cases c)
    case (CreateOverride t headers request)
    show ?thesis
      unfolding CreateOverride call_override.simps create_override_def ensure_tenant_user_def call_tenant.simps
      by (intro override_leads leads_read leads_insert) auto
  next
    case (CreateEmergencyBypass t headers request)
    show ?thesis
      unfolding CreateEmergencyBypass call_override.simps create_emergency_bypass_def call_tenant.simps
      by (intro leads_as_manager override_leads leads_insert) auto
  next
    case (ApproveOverride t i headers request)
    show ?thesis
      unfolding ApproveOverride call_override.simps approve_override_def call_tenant.simps
      by (intro leads_as_manager override_leads leads_update) (auto simp: may_decide_def intro!: override_step.decided)
  next
    case (DenyOverride t i headers request)
    show ?thesis
      unfolding DenyOverride call_override.simps deny_override_def call_tenant.simps
      by (intro leads_as_manager override_leads leads_update) (auto simp: may_decide_def intro!: override_step.decided)
  qed
  then show ?thesis by (simp add: leads_def)
qed

section \<open>What the Triage Counter honours\<close>

text \<open>\<^verbatim>\<open>scope->>'key'\<close>: the text of a value, \<open>json_text\<close> for those that are neither strings nor null.\<close>

definition scope_text :: "(json \<Rightarrow> string) \<Rightarrow> json \<Rightarrow> string \<Rightarrow> string option" where
  "scope_text json_text scope key =
     (case json_get key scope of
        None \<Rightarrow> None | Some JNull \<Rightarrow> None | Some (JString v) \<Rightarrow> Some v | Some v \<Rightarrow> Some (json_text v))"

definition scope_selects ::
  "(json \<Rightarrow> string) \<Rightarrow> json \<Rightarrow> PackageCoordinate \<Rightarrow> ArtifactDigest option \<Rightarrow> PackageRequestKind \<Rightarrow> bool" where
  "scope_selects json_text scope c digest kind =
     list_all (\<lambda>(key, actual). case scope_text json_text scope key of None \<Rightarrow> True | Some v \<Rightarrow> actual = Some v)
       [(''ecosystem'', Some (ecosystem_display (pc_ecosystem c))), (''name'', Some (pc_name c)), (''namespace'', pc_namespace c),
        (''version'', pc_version c), (''digest'', map_option dg_hex digest), (''kind'', Some (package_request_kind_db_value kind))]"

definition override_records ::
  "(json \<Rightarrow> string) \<Rightarrow> timestamp \<Rightarrow> uuid \<Rightarrow> PackageCoordinate \<Rightarrow> ArtifactDigest option \<Rightarrow> PackageRequestKind \<Rightarrow> OverrideRow list
     \<Rightarrow> OverrideRecord list" where
  "override_records json_text now t c digest kind rows =
     map (\<lambda>r. \<lparr>or_tenant_id = t, or_scope = ov_scope r, or_status = ov_status r, or_expires_at = ov_expires_at r\<rparr>)
       (sort_key (\<lambda>r. - ov_created_at r)
         (filter (\<lambda>r. ov_tenant_id r = t \<and> (ov_status r = ''pending'' \<or> ov_status r = ''approved'') \<and> ov_expires_at r > now
                    \<and> scope_selects json_text (ov_scope r) c digest kind) rows))"

definition triage_override_status ::
  "(json \<Rightarrow> string) \<Rightarrow> timestamp \<Rightarrow> uuid \<Rightarrow> PackageCoordinate \<Rightarrow> ArtifactDigest option \<Rightarrow> PackageRequestKind \<Rightarrow> management_db
     \<Rightarrow> OverrideSignalStatus \<times> management_db" where
  "triage_override_status json_text now t c digest kind db =
     (let rows = map (expire_row t now) (gd_overrides db) in
      (override_signal_status_from_records (override_records json_text now t c digest kind rows) c digest kind,
       db\<lparr>gd_overrides := rows\<rparr>))"

definition in_force ::
  "(json \<Rightarrow> string) \<Rightarrow> timestamp \<Rightarrow> uuid \<Rightarrow> PackageCoordinate \<Rightarrow> ArtifactDigest option \<Rightarrow> PackageRequestKind \<Rightarrow> OverrideRow \<Rightarrow> bool" where
  "in_force json_text now t c digest kind row \<longleftrightarrow>
     ov_tenant_id row = t \<and> ov_status row = ''approved'' \<and> ov_expires_at row > now
     \<and> scope_selects json_text (ov_scope row) c digest kind \<and> override_scope_matches (ov_scope row) c digest kind"

lemma records_flags:
  "os_active_override (override_signal_status_from_records rs c d k) \<or> os_emergency_bypass (override_signal_status_from_records rs c d k)
     \<longleftrightarrow> (\<exists>r \<in> set rs. override_scope_matches (or_scope r) c d k \<and> or_status r = ''approved'')"
  unfolding override_status_flags by blast

lemma in_force_expired: "in_force json_text now t c digest kind (expire_row t now row) \<longleftrightarrow> in_force json_text now t c digest kind row"
  by (cases "override_due t now row") (auto simp: expire_row_def in_force_def override_due_def)

lemma triage_flags:
  "os_active_override (fst (triage_override_status json_text now t c digest kind db))
     \<or> os_emergency_bypass (fst (triage_override_status json_text now t c digest kind db))
   \<longleftrightarrow> (\<exists>row \<in> set (gd_overrides db). in_force json_text now t c digest kind row)"
proof -
  let ?records = "override_records json_text now t c digest kind (map (expire_row t now) (gd_overrides db))"
  have "(\<exists>x \<in> set ?records. override_scope_matches (or_scope x) c digest kind \<and> or_status x = ''approved'')
      \<longleftrightarrow> (\<exists>row \<in> set (map (expire_row t now) (gd_overrides db)). in_force json_text now t c digest kind row)"
    by (auto simp: override_records_def in_force_def)
  also have "\<dots> \<longleftrightarrow> (\<exists>row \<in> set (gd_overrides db). in_force json_text now t c digest kind row)"
    by (simp add: in_force_expired)
  finally show ?thesis
    unfolding triage_override_status_def Let_def fst_conv records_flags .
qed

section \<open>Histories\<close>

text \<open>A history of the calls on overrides, each with the state it met; in between roles and other tables change at will and the
  Triage Counter reads.\<close>

inductive administered :: "management_env \<Rightarrow> (management_state \<times> override_call) list \<Rightarrow> management_state \<Rightarrow> bool" for env where
  start: "gd_overrides (gs_db s) = [] \<Longrightarrow> administered env [] s"
| call: "administered env history s \<Longrightarrow> administered env (history @ [(s, c)]) (snd (call_override env c s))"
| others: "administered env history s \<Longrightarrow> gd_overrides (gs_db s') = gd_overrides (gs_db s) \<Longrightarrow> administered env history s'"
| triage: "administered env history s
     \<Longrightarrow> administered env history (s\<lparr>gs_db := snd (triage_override_status json_text now t pkg digest kind (gs_db s))\<rparr>)"

text \<open>The call of a manager of the tenant that put the override in force.\<close>

definition authorised_by :: "management_env \<Rightarrow> OverrideRow \<Rightarrow> management_state \<Rightarrow> override_call \<Rightarrow> bool" where
  "authorised_by env row s c \<longleftrightarrow>
     call_tenant c = ov_tenant_id row
     \<and> (\<exists>m. call_actor env c = Inr m \<and> ov_approved_by row = Some m \<and> manages (gs_db s) (ov_tenant_id row) m)
     \<and> (case c of
          ApproveOverride _ i _ _ \<Rightarrow> i = ov_id row
        | CreateEmergencyBypass _ _ request \<Rightarrow> ov_scope row = with_effect (ceb_scope request) \<and> ov_expires_at row = ceb_expires_at request
        | _ \<Rightarrow> False)"

definition authorised_rows :: "management_env \<Rightarrow> (management_state \<times> override_call) list \<Rightarrow> OverrideRow list \<Rightarrow> bool" where
  "authorised_rows env history rows \<longleftrightarrow>
     (\<forall>row \<in> set rows. ov_status row = ''approved'' \<longrightarrow> (\<exists>(s, c) \<in> set history. authorised_by env row s c))"

lemma override_steps_approved:
  assumes "(override_step may t)\<^sup>*\<^sup>* r r'"
  shows "(ov_status r' = ''pending'' \<longrightarrow> r' = r)
    \<and> (ov_status r' = ''approved'' \<longrightarrow> r' = r \<or> (\<exists>m reason. ov_tenant_id r = t \<and> ov_status r = ''pending'' \<and> may r m ''approved''
         \<and> r' = r\<lparr>ov_status := ''approved'', ov_approved_by := Some m, ov_reason := reason\<rparr>))"
  using assms
proof (induction rule: rtranclp_induct)
  case (step r1 r2)
  from step(2) show ?case
    by cases (use step(3) in auto)
qed simp

lemma authorised_call:
  assumes "authorised_rows env history (gd_overrides (gs_db s))"
  shows "authorised_rows env (history @ [(s, c)]) (gd_overrides (gs_db (snd (call_override env c s))))"
  unfolding authorised_rows_def
proof (intro ballI impI)
  let ?star = "(override_step (may_decide env (gs_db s) c) (call_tenant c))\<^sup>*\<^sup>*"
  fix row assume row: "row \<in> set (gd_overrides (gs_db (snd (call_override env c s))))" "ov_status row = ''approved''"
  from call_override_changes [of env s c]
  have "evolves (may_decide env (gs_db s) c) (new_override env (gs_db s) c) (call_tenant c)
      (gd_overrides (gs_db s)) (gd_overrides (gs_db (snd (call_override env c s))))"
    by (simp add: override_change_def)
  with row(1) obtain r where r: "?star r row" "r \<in> set (gd_overrides (gs_db s)) \<or> new_override env (gs_db s) c r"
    by (blast dest: evolves_origin)
  from override_steps_approved [OF r(1)] row(2)
  consider "row = r" | m reason where "ov_tenant_id r = call_tenant c" "may_decide env (gs_db s) c r m ''approved''"
      "row = r\<lparr>ov_status := ''approved'', ov_approved_by := Some m, ov_reason := reason\<rparr>" by blast
  then have "(\<exists>(s, c) \<in> set history. authorised_by env row s c) \<or> authorised_by env row s c"
  proof cases
    case 1
    from r(2) show ?thesis
    proof
      assume "r \<in> set (gd_overrides (gs_db s))"
      with assms 1 row(2) show ?thesis by (auto simp: authorised_rows_def)
    qed (use 1 row(2) in \<open>cases c; auto simp: authorised_by_def\<close>)
  next
    case 2
    then show ?thesis by (cases c) (auto simp: authorised_by_def may_decide_def)
  qed
  then show "\<exists>(s, c) \<in> set (history @ [(s, c)]). authorised_by env row s c" by auto
qed

lemma administered_authorised: "administered env history s \<Longrightarrow> authorised_rows env history (gd_overrides (gs_db s))"
proof (induction rule: administered.induct)
  case (call history s c)
  then show ?case by (intro authorised_call)
next
  case (triage history s json_text now t pkg digest kind)
  then show ?case
    by (auto simp: triage_override_status_def Let_def authorised_rows_def expire_row_def split: if_splits)
qed (auto simp: authorised_rows_def)

text \<open>C35: nobody but a manager puts a package out of control. Whatever calls were made before, by whom and with what answers
  of the database: when the Triage Counter sees an override or an emergency bypass in force for a package, the table has a
  live approved override of the tenant whose scope covers the package, and an earlier call put it in force, made in the name
  of a user who at that time had a managing role of the tenant and who is recorded as its approver.\<close>

theorem overrides_in_force_authorised:
  assumes "administered env history s"
    and "os_active_override (fst (triage_override_status json_text now t c digest kind (gs_db s)))
       \<or> os_emergency_bypass (fst (triage_override_status json_text now t c digest kind (gs_db s)))"
  shows "\<exists>row \<in> set (gd_overrides (gs_db s)). in_force json_text now t c digest kind row
    \<and> (\<exists>(s0, call) \<in> set history. authorised_by env row s0 call)"
  using assms(2) administered_authorised [OF assms(1)] unfolding triage_flags
  by (auto simp: authorised_rows_def in_force_def)

end
