(* ===== verification/Registry_Admin.thy ===== *)
theory Registry_Admin
  imports Registry_Control Override_Admin
begin

text \<open>
  What the management API stores as registry configurations, against what the proxy loads (\<open>Registry_Config\<close>): an invariant of the table under
  every call, with which loading can only fail for one reason, and the call that brings this about.
\<close>

section \<open>Mounts\<close>

lemma split_on_chars: "x \<in> set s \<Longrightarrow> x \<noteq> c \<Longrightarrow> \<exists>segment \<in> set (split_on c s). x \<in> set segment"
  by (induction s) (auto split: list.split)

definition mount_segments :: "string \<Rightarrow> bool" where
  "mount_segments rest \<longleftrightarrow> list_all (\<lambda>segment. segment \<noteq> [] \<and> list_all mount_char segment) (split_on CHR ''/'' rest)"

lemma mount_segments_facts:
  assumes "mount_segments rest"
  shows "rest \<noteq> []" "last rest \<noteq> CHR ''/''" "graphic_char (last rest)" "hd rest \<noteq> CHR ''/''" "\<not> str_contains ''//'' (CHR ''/'' # rest)"
proof -
  have split: "segment \<noteq> [] \<and> list_all mount_char segment" if "segment \<in> set (split_on CHR ''/'' rest)" for segment
    using assms that by (auto simp: mount_segments_def list_all_iff)
  show ne: "rest \<noteq> []" using split by auto
  show last: "last rest \<noteq> CHR ''/''"
  proof
    assume "last rest = CHR ''/''"
    with ne have "rest = butlast rest @ CHR ''/'' # []" by (metis append_butlast_last_id)
    then have "[] \<in> set (split_on CHR ''/'' rest)"
      using split_on_append_split [of "CHR ''/''" "butlast rest" "[]"] by simp
    with split show False by blast
  qed
  have "mount_char (last rest)"
    using split_on_chars [OF last_in_set [OF ne] last] split by (auto simp: list_all_iff)
  then show "graphic_char (last rest)"
    by (auto simp: mount_char_def graphic_char_def is_ascii_alphanumeric_def is_ascii_lowercase_def is_ascii_uppercase_def is_ascii_digit_def)
  show hd: "hd rest \<noteq> CHR ''/''"
  proof
    assume "hd rest = CHR ''/''"
    with ne have "[] \<in> set (split_on CHR ''/'' rest)" by (cases rest) auto
    with split show False by blast
  qed
  show "\<not> str_contains ''//'' (CHR ''/'' # rest)"
  proof
    assume "str_contains ''//'' (CHR ''/'' # rest)"
    then obtain a b where ab: "CHR ''/'' # rest = a @ ''//'' @ b" unfolding str_contains_iff sublist_def by blast
    show False
    proof (cases a)
      case Nil
      with ab hd show False by auto
    next
      case (Cons x xs)
      with ab have "rest = xs @ CHR ''/'' # CHR ''/'' # b" by simp
      then have "[] \<in> set (split_on CHR ''/'' rest)"
        using split_on_append_split [of "CHR ''/''" xs "CHR ''/'' # b"] by simp
      with split show False by blast
    qed
  qed
qed

lemma canonical_mount_iff: "canonical_mount p \<longleftrightarrow> (\<exists>rest. p = ''/proxy/'' @ rest \<and> mount_segments rest)"
  by (auto simp: canonical_mount_def mount_segments_def strip_prefix_Some strip_prefix_append split: option.splits)

lemma proxy_slashes:
  assumes "hd rest \<noteq> CHR ''/''" "rest \<noteq> []"
  shows "str_contains ''//'' (''/proxy/'' @ rest) \<longleftrightarrow> str_contains ''//'' (CHR ''/'' # rest)"
  using assms by (auto simp: starts_with_Cons)

lemma no_trailing_slash:
  assumes "rest \<noteq> []" "last rest \<noteq> CHR ''/''"
  shows "\<not> ends_with ''/'' (a @ rest)"
proof
  assume "ends_with ''/'' (a @ rest)"
  then obtain zs where "a @ rest = zs @ ''/''" unfolding ends_with_iff suffix_def by blast
  then have "last (a @ rest) = CHR ''/''" by simp
  with assms show False by simp
qed

lemma canonical_trim: "canonical_mount p \<Longrightarrow> str_trim p = p"
proof -
  assume "canonical_mount p"
  then obtain rest where "p = ''/proxy/'' @ rest" "rest \<noteq> []" "graphic_char (last rest)"
    by (auto simp: canonical_mount_iff dest: mount_segments_facts)
  then show ?thesis by (intro str_trim_id) (auto simp: graphic_char_def)
qed

lemma canonical_normalized:
  assumes "mount_segments rest"
  shows "normalized_mount (''/proxy/'' @ rest) = Inr rest"
proof -
  note facts = mount_segments_facts [OF assms]
  have "canonical_mount (''/proxy/'' @ rest)" using assms by (auto simp: canonical_mount_iff)
  then have trim: "str_trim (''/proxy/'' @ rest) = ''/proxy/'' @ rest" by (rule canonical_trim)
  have slashes: "\<not> str_contains ''//'' (''/proxy/'' @ rest)" using facts(1,4,5) proxy_slashes by blast
  have last: "\<not> ends_with ''/'' (''/proxy/'' @ rest)" using facts(1,2) by (rule no_trailing_slash)
  have "trim_start_matches CHR ''/'' (''/proxy/'' @ rest) = ''proxy/'' @ rest" by (simp add: trim_start_matches_def)
  then show ?thesis
    using facts(1) assms slashes last unfolding normalized_mount_def trim Let_def
    by (simp add: starts_with_def strip_prefix_append [of "''proxy/''" rest, simplified] mount_segments_def list_all_iff list_ex_iff)
qed

text \<open>The check of the service on a mount is that of the table on the trimmed mount.\<close>

lemma validate_mount_path_canonical: "validate_mount_path p = Inr () \<longleftrightarrow> canonical_mount (str_trim p)"
proof
  assume ok: "validate_mount_path p = Inr ()"
  then have "starts_with ''/proxy/'' (str_trim p)" by (simp add: validate_mount_path_def Let_def split: if_splits)
  then obtain rest where p: "str_trim p = ''/proxy/'' @ rest" unfolding starts_with_iff prefix_def by blast
  with ok have slashes: "\<not> str_contains ''//'' (''/proxy/'' @ rest)"
    and segments: "\<not> list_ex (\<lambda>segment. segment = [] \<or> \<not> list_all mount_char segment)
        (split_on CHR ''/'' (trim_start_any [''/proxy/''] (''/proxy/'' @ rest)))"
    by (auto simp: validate_mount_path_def Let_def split: if_splits)
  have "hd rest \<noteq> CHR ''/''" if "rest \<noteq> []"
  proof
    assume "hd rest = CHR ''/''"
    with that have "''/proxy/'' @ rest = ''/proxy'' @ ''//'' @ tl rest" by (cases rest) auto
    then have "sublist ''//'' (''/proxy/'' @ rest)" unfolding sublist_def by metis
    with slashes show False unfolding str_contains_iff by contradiction
  qed
  then have "strip_prefix ''/proxy/'' rest = None" by (cases rest) auto
  then have "trim_start_any [''/proxy/''] (''/proxy/'' @ rest) = rest"
    using strip_prefix_append [of "''/proxy/''" rest] by (simp add: trim_start_any.simps)
  with segments p show "canonical_mount (str_trim p)"
    by (auto simp: canonical_mount_iff mount_segments_def list_all_iff list_ex_iff)
next
  assume "canonical_mount (str_trim p)"
  then obtain rest where p: "str_trim p = ''/proxy/'' @ rest" and segments: "mount_segments rest" by (auto simp: canonical_mount_iff)
  note facts = mount_segments_facts [OF segments]
  have "strip_prefix ''/proxy/'' rest = None" using facts(4) by (cases rest) auto
  then have "trim_start_any [''/proxy/''] (''/proxy/'' @ rest) = rest"
    using strip_prefix_append [of "''/proxy/''" rest] by (simp add: trim_start_any.simps)
  moreover have "\<not> str_contains ''//'' (''/proxy/'' @ rest)" using facts(1,4,5) proxy_slashes by blast
  moreover have "\<not> ends_with ''/'' (''/proxy/'' @ rest)" using facts(1,2) by (rule no_trailing_slash)
  ultimately show "validate_mount_path p = Inr ()"
    using segments by (simp add: validate_mount_path_def p Let_def starts_with_def mount_segments_def list_all_iff list_ex_iff
        strip_prefix_append [of "''/proxy/''" rest, simplified])
qed

section \<open>An invariant of the table\<close>

definition registry_row_ok :: "(string \<Rightarrow> url option) \<Rightarrow> RegistryConfigRow \<Rightarrow> bool" where
  "registry_row_ok parse_url row \<longleftrightarrow> registry_row_checks row \<and> gc_cargo_allowed_download_origins row = []
     \<and> (\<exists>adapter auth_type mode. gc_adapter row = adapter_as_db adapter \<and> phase_1a_supported adapter
          \<and> gc_auth_type row = auth_type_as_db auth_type \<and> gc_mode row = policy_mode_db_value mode
          \<and> management_validate_upstream_url parse_url (gc_upstream_url row) auth_type = Inr ())"

definition registries_ok :: "(string \<Rightarrow> url option) \<Rightarrow> RegistryConfigRow list \<Rightarrow> bool" where
  "registries_ok parse_url rows \<longleftrightarrow> (\<forall>r \<in> set rows. registry_row_ok parse_url r \<and> \<not> list_ex (same_mount r) rows) \<and> distinct (map gc_id rows)"

lemma same_mount_sym: "same_mount a b \<longleftrightarrow> same_mount b a"
  by (auto simp: same_mount_def)

lemma registries_ok_insert:
  assumes "registries_ok parse_url rows" "registry_row_ok parse_url row" "\<not> list_ex (\<lambda>r. gc_id r = gc_id row) rows" "\<not> list_ex (same_mount row) rows"
  shows "registries_ok parse_url (rows @ [row])"
proof -
  have old: "\<not> same_mount r row" if "r \<in> set rows" for r
    using assms(4) that by (subst same_mount_sym) (simp add: list_ex_iff)
  have self: "\<not> same_mount row row" by (simp add: same_mount_def)
  have ids: "gc_id row \<notin> gc_id ` set rows" using assms(3) by (auto simp: list_ex_iff)
  show ?thesis using assms(1,2,4) old self ids by (simp add: registries_ok_def)
qed

lemma registries_ok_update:
  assumes ok: "registries_ok parse_url rows"
    and keeps: "\<And>r. selected r \<Longrightarrow> gc_id (change r) = gc_id r \<and> gc_tenant_id (change r) = gc_tenant_id r \<and> gc_mount_path (change r) = gc_mount_path r
      \<and> (gc_deleted_at (change r) = None \<longrightarrow> gc_deleted_at r = None)"
    and good: "\<And>r. r \<in> set rows \<Longrightarrow> selected r \<Longrightarrow> registry_row_ok parse_url (change r)"
  shows "registries_ok parse_url (map (\<lambda>r. if selected r then change r else r) rows)"
proof -
  let ?f = "\<lambda>r. if selected r then change r else r"
  have ids: "map gc_id (map ?f rows) = map gc_id rows" using keeps by auto
  have mounts: "same_mount (?f a) (?f b) \<Longrightarrow> same_mount a b" for a b
    using keeps [of a] keeps [of b] by (cases "selected a"; cases "selected b") (simp_all add: same_mount_def, metis+)
  have "\<not> list_ex (same_mount (?f r)) (map ?f rows)" if "r \<in> set rows" for r
    using ok that mounts [of r] unfolding registries_ok_def list_ex_iff set_map by blast
  moreover have "registry_row_ok parse_url (?f r)" if "r \<in> set rows" for r
    using ok that good by (auto simp: registries_ok_def)
  ultimately show ?thesis using ok unfolding registries_ok_def ids set_map by blast
qed

definition keeps_registries :: "(string \<Rightarrow> url option) \<Rightarrow> management_db \<Rightarrow> management_db \<Rightarrow> bool" where
  "keeps_registries parse_url db db' \<longleftrightarrow> (registries_ok parse_url (gd_registries db) \<longrightarrow> registries_ok parse_url (gd_registries db'))"

lemma keeps_registries_blind: "audit_blind (keeps_registries parse_url)"
  by (auto simp: audit_blind_def keeps_registries_def intro: reflpI transpI)

lemmas keeps_registries_order = keeps_registries_blind [unfolded audit_blind_def, THEN conjunct1]
  keeps_registries_blind [unfolded audit_blind_def, THEN conjunct2, THEN conjunct1]

lemma leads_find_config: "reflp R \<Longrightarrow> transp R \<Longrightarrow> leads R s (find_config env t i)"
  unfolding find_config_def by (intro leads_gbind leads_read leads_glift)

lemma leads_reload: "reflp R \<Longrightarrow> leads R s (notify_reload env)"
  by (auto simp: leads_def notify_reload_def split: option.split dest: reflpD)

lemma leads_announce: "audit_blind R \<Longrightarrow> leads R s (announce_config env t m action row headers)"
  unfolding announce_config_def audit_registry_config_action_def
  by (intro leads_gbind leads_glift leads_numbered leads_audit leads_reload) (auto simp: audit_blind_def)

lemma allowed_row: "registry_row_allowed db row = Inr u \<Longrightarrow> registry_row_checks row \<and> \<not> list_ex (same_mount row) (gd_registries db)"
  by (auto simp: registry_row_allowed_def split: if_splits)

lemma leads_insert_registry:
  assumes "validate_registry_create_request (ge_parse_url env) request = Inr ()"
  shows "leads (keeps_registries (ge_parse_url env)) s (insert_registry env t request)"
proof -
  from assms have url: "management_validate_upstream_url (ge_parse_url env) (crr_upstream_url request) (crr_auth_type request) = Inr ()"
    and phase: "phase_1a_supported (crr_adapter request)"
    by (auto simp: validate_registry_create_request_def res_bind_eq_Inr validate_adapter_phase_def split: if_splits)
  let ?db = "gs_db s" and ?row = "new_registry_row env t request (gs_statements s)"
  have "keeps_registries (ge_parse_url env) ?db (?db\<lparr>gd_registries := gd_registries ?db @ [?row]\<rparr>)"
    if "registry_row_allowed ?db ?row = Inr ()" "\<not> list_ex (\<lambda>r. gc_id r = gc_id ?row) (gd_registries ?db)"
  proof -
    have "registry_row_ok (ge_parse_url env) ?row"
      using allowed_row [OF that(1)] phase url
      by (auto simp: registry_row_ok_def management_validate_upstream_url_def str_trim_idem new_registry_row_def)
    then show ?thesis
      using that(2) allowed_row [OF that(1)] by (auto simp: keeps_registries_def intro: registries_ok_insert)
  qed
  then show ?thesis
    unfolding insert_registry_def
    by (intro leads_sql keeps_registries_order) (auto simp: Let_def res_bind_eq_Inr split: if_splits)
qed

lemma leads_update_config:
  assumes "\<And>n r. gc_id (change n r) = gc_id r \<and> gc_tenant_id (change n r) = gc_tenant_id r \<and> gc_mount_path (change n r) = gc_mount_path r
      \<and> (gc_deleted_at (change n r) = None \<longrightarrow> gc_deleted_at r = None)"
    and "\<And>n r. registry_row_ok parse_url r \<Longrightarrow> registry_row_checks (change n r) \<Longrightarrow> registry_row_ok parse_url (change n r)"
  shows "leads (keeps_registries parse_url) s (update_config on_error env t i change)"
  unfolding update_config_def
proof (rule leads_sql [OF keeps_registries_order(1)])
  fix found db
  let ?db = "gs_db s" and ?n = "gs_statements s"
  assume q: "(case find (live_config t i) (gd_registries ?db) of None \<Rightarrow> Inr (None, ?db)
     | Some row \<Rightarrow> res_bind (registry_row_allowed ?db (change ?n row)) (\<lambda>_. Inr (Some (change ?n row),
         ?db\<lparr>gd_registries := map (\<lambda>r. if live_config t i r then change ?n r else r) (gd_registries ?db)\<rparr>))) = Inr (found, db)"
  show "keeps_registries parse_url ?db db"
    unfolding keeps_registries_def
  proof
    assume ok: "registries_ok parse_url (gd_registries ?db)"
    show "registries_ok parse_url (gd_registries db)"
    proof (cases "find (live_config t i) (gd_registries ?db)")
      case (Some row)
      with q have checks: "registry_row_checks (change ?n row)"
        and db: "gd_registries db = map (\<lambda>r. if live_config t i r then change ?n r else r) (gd_registries ?db)"
        by (auto simp: res_bind_eq_Inr dest: allowed_row)
      have row: "row \<in> set (gd_registries ?db)" "live_config t i row"
        using Some by (auto simp: find_Some_iff)
      have "r = row" if "r \<in> set (gd_registries ?db)" "live_config t i r" for r
        using ok that row by (auto simp: registries_ok_def live_config_def distinct_map inj_on_def)
      then show ?thesis
        unfolding db using ok checks assms by (intro registries_ok_update) (auto simp: registries_ok_def)
    qed (use ok q in simp)
  qed
qed

section \<open>Calls\<close>

datatype registry_call =
    CreateRegistry uuid request_headers CreateRegistryConfigRequest
  | UpdateRegistry uuid uuid request_headers UpdateRegistryConfigRequest
  | DeleteRegistry uuid uuid request_headers

fun call_registry :: "management_env \<Rightarrow> registry_call \<Rightarrow> management_state \<Rightarrow> management_state" where
  "call_registry env (CreateRegistry t headers request) s = snd (create_registry_config env t headers request s)"
| "call_registry env (UpdateRegistry t i headers request) s = snd (update_registry_config env t i headers request s)"
| "call_registry env (DeleteRegistry t i headers) s = snd (delete_registry_config env t i headers s)"

lemmas registry_leads = leads_gbind leads_glift leads_numbered leads_read leads_find_config leads_announce keeps_registries_order
  keeps_registries_blind

lemma store_merged_keeps:
  "gc_id (store_merged merged now r) = gc_id r" "gc_tenant_id (store_merged merged now r) = gc_tenant_id r"
  "gc_mount_path (store_merged merged now r) = gc_mount_path r" "gc_deleted_at (store_merged merged now r) = gc_deleted_at r"
  by (simp_all add: store_merged_def)

lemma store_merged_ok:
  assumes "validate_registry_update_response parse_url merged = Inr ()" "registry_row_ok parse_url r" "registry_row_checks (store_merged merged now r)"
  shows "registry_row_ok parse_url (store_merged merged now r)"
  using assms by (auto simp: registry_row_ok_def store_merged_def validate_registry_update_response_def res_bind_eq_Inr)

lemma call_registry_ok:
  assumes "registries_ok (ge_parse_url env) (gd_registries (gs_db s))"
  shows "registries_ok (ge_parse_url env) (gd_registries (gs_db (call_registry env c s)))"
proof -
  let ?R = "keeps_registries (ge_parse_url env)"
  have "?R (gs_db s) (gs_db (call_registry env c s))"
  proof (cases c)
    case (CreateRegistry t headers request)
    have "leads ?R s (create_registry_config env t headers request)"
      unfolding create_registry_config_def
      by (intro leads_as_manager registry_leads leads_insert_registry) auto
    then show ?thesis by (simp add: CreateRegistry leads_def)
  next
    case (UpdateRegistry t i headers request)
    have merged: "validate_registry_update_response (ge_parse_url env) merged = Inr ()"
      if "merge_registry_update (ge_parse_url env) current request = Inr merged" for current merged
      using that by (auto simp: merge_registry_update_def Let_def res_bind_eq_Inr)
    have "leads ?R s (update_registry_config env t i headers request)"
      unfolding update_registry_config_def
      by (intro leads_as_manager registry_leads leads_update_config)
        (auto simp: store_merged_keeps dest!: merged intro: store_merged_ok)
    then show ?thesis by (simp add: UpdateRegistry leads_def)
  next
    case (DeleteRegistry t i headers)
    have "leads ?R s (delete_registry_config env t i headers)"
      unfolding delete_registry_config_def
      by (intro leads_as_manager registry_leads leads_update_config) (auto simp: registry_row_ok_def)
    then show ?thesis by (simp add: DeleteRegistry leads_def)
  qed
  with assms show ?thesis by (simp add: keeps_registries_def)
qed

text \<open>The table under the calls of the API, while everything else in the database changes at will.\<close>

inductive configured :: "management_env \<Rightarrow> management_state \<Rightarrow> bool" for env where
  start: "gd_registries (gs_db s) = [] \<Longrightarrow> configured env s"
| call: "configured env s \<Longrightarrow> configured env (call_registry env c s)"
| others: "configured env s \<Longrightarrow> gd_registries (gs_db s') = gd_registries (gs_db s) \<Longrightarrow> configured env s'"

lemma configured_ok: "configured env s \<Longrightarrow> registries_ok (ge_parse_url env) (gd_registries (gs_db s))"
  by (induction rule: configured.induct) (auto simp: call_registry_ok, simp add: registries_ok_def)

end
