(* ===== verification/Registry_Loading.thy ===== *)
theory Registry_Loading
  imports Registry_Admin
begin

text \<open>
  The proxy loads what the management API has stored: the query of \<^verbatim>\<open>mosquito-net/src/registry_config.rs\<close> over the table of the API. Under the
  invariant of the table loading can only fail because of an upstream URL, and one update can bring this about for everybody.
\<close>

section \<open>The query of the proxy\<close>

definition serving_configs :: "RegistryConfigRow list \<Rightarrow> RegistryConfigRow list" where
  "serving_configs rows = filter (\<lambda>r. gc_enabled r \<and> gc_deleted_at r = None) rows"

definition registry_query_row :: "IntegrationCredentialRow list \<Rightarrow> RegistryConfigRow \<Rightarrow> registry_row" where
  "registry_query_row credentials r =
     \<lparr>row_id = gc_id r, row_tenant_id = gc_tenant_id r, row_name = gc_name r, row_adapter = gc_adapter r, row_upstream_url = gc_upstream_url r,
      row_cargo_allowed_download_origins = gc_cargo_allowed_download_origins r, row_mount_path = gc_mount_path r,
      row_auth_type = gc_auth_type r, row_credential_ref = gc_credential_ref r,
      row_credential_env_var = Option.bind (gc_credential_ref r) (\<lambda>i. map_option ic_name (find (own_credential (gc_tenant_id r) i) credentials)),
      row_mode = gc_mode r, row_policy_profile_id = gc_policy_profile_id r, row_cache_ttl_seconds = gc_cache_ttl_seconds r,
      row_verify_upstream_tls = gc_verify_upstream_tls r\<rparr>"

definition enabled_registry_rows :: "management_db \<Rightarrow> registry_row list" where
  "enabled_registry_rows db =
     map (registry_query_row (gd_credentials db))
       (sort_key (\<lambda>r. - int (length (gc_mount_path r))) (sort_key gc_mount_path (serving_configs (gd_registries db))))"

section \<open>When loading succeeds\<close>

lemma normalize_keeps_mount: "normalize_registry_config p c = Inr c' \<Longrightarrow> rg_mount_path c' = rg_mount_path c"
  by (auto simp: normalize_registry_config_def res_bind_eq_Inr)

lemma validate_configs_iff:
  "(\<exists>v. validate_configs p cs seen = Inr v) \<longleftrightarrow>
     (\<forall>c \<in> set cs. (\<exists>c'. normalize_registry_config p c = Inr c') \<and> (\<exists>m. normalized_mount (rg_mount_path c) = Inr m))
     \<and> distinct (map mount_of cs) \<and> set (map mount_of cs) \<inter> seen = {}"
proof (induction cs arbitrary: seen)
  case (Cons c cs)
  show ?case
  proof (cases "(\<exists>c'. normalize_registry_config p c = Inr c') \<and> (\<exists>m. normalized_mount (rg_mount_path c) = Inr m)")
    case True
    then obtain c' m where c: "normalize_registry_config p c = Inr c'" "normalized_mount (rg_mount_path c) = Inr m" by blast
    have "mount_of c = m" using c(2) by (simp add: mount_of_def)
    moreover have "(\<exists>v. validate_configs p (c # cs) seen = Inr v) \<longleftrightarrow> m \<notin> seen \<and> (\<exists>v. validate_configs p cs (insert m seen) = Inr v)"
      using c normalize_keeps_mount [OF c(1)] by (auto simp: res_bind_eq_Inr)
    ultimately show ?thesis using True by (auto simp: Cons.IH [of "insert m seen"])
  next
    case False
    have "\<nexists>v. validate_configs p (c # cs) seen = Inr v"
      using False normalize_keeps_mount [of p c] by (auto simp: res_bind_eq_Inr)
    with False show ?thesis by auto
  qed
qed simp

lemma validate_and_sort_ids:
  assumes "validate_and_sort_configs p cs = Inr store"
  shows "mset (map rg_id store) = mset (map rg_id cs)"
proof -
  have ids: "map rg_id v = map rg_id cs" if "validate_configs p cs seen = Inr v" for seen v
    using that by (induction p cs seen arbitrary: v rule: validate_configs.induct)
      (auto simp: res_bind_eq_Inr normalize_registry_config_def split: if_splits)
  from assms obtain v where v: "validate_configs p cs {} = Inr v" and store: "store = sort_key (\<lambda>c. - int (mount_length c)) v"
    by (auto simp: validate_and_sort_configs_def res_bind_eq_Inr)
  have "mset (map rg_id store) = mset (map rg_id v)" by (simp add: store)
  then show ?thesis using ids [OF v] by simp
qed

definition row_config :: "IntegrationCredentialRow list \<Rightarrow> RegistryConfigRow \<Rightarrow> RegistryAdapter \<Rightarrow> CredentialAuthType \<Rightarrow> PolicyMode \<Rightarrow> RegistryConfig" where
  "row_config credentials r adapter auth_type mode =
     (let q = registry_query_row credentials r in
      \<lparr>rg_id = row_id q, rg_tenant_id = row_tenant_id q, rg_name = row_name q, rg_adapter = adapter, rg_upstream_url = row_upstream_url q,
       rg_cargo_allowed_download_origins = row_cargo_allowed_download_origins q, rg_mount_path = row_mount_path q,
       rg_auth_type = auth_type, rg_credential_ref = row_credential_ref q, rg_credential_env_var = row_credential_env_var q,
       rg_mode = mode, rg_policy_profile_id = row_policy_profile_id q, rg_cache_ttl_seconds = row_cache_ttl_seconds q,
       rg_verify_upstream_tls = row_verify_upstream_tls q\<rparr>)"

lemma adapter_roundtrip [simp]: "adapter_from_db (adapter_as_db adapter) = Inr adapter"
  by (cases adapter) (simp_all add: adapter_from_db_def)

lemma auth_type_roundtrip [simp]: "auth_type_from_db (auth_type_as_db auth_type) = Inr auth_type"
  by (cases auth_type) (simp_all add: auth_type_from_db_def)

lemma mode_roundtrip [simp]: "mode_from_db (policy_mode_db_value mode) = Inr mode"
  by (cases mode) (simp_all add: mode_from_db_def)

lemma auth_type_as_db_inj [simp]: "auth_type_as_db a = auth_type_as_db b \<longleftrightarrow> a = b"
  by (metis auth_type_roundtrip sum.inject(2))

lemma query_row_config:
  assumes "gc_adapter r = adapter_as_db adapter" "gc_auth_type r = auth_type_as_db auth_type" "gc_mode r = policy_mode_db_value mode"
  shows "registry_config_from_row (registry_query_row credentials r) = Inr (row_config credentials r adapter auth_type mode)"
  using assms by (simp add: registry_config_from_row_def registry_query_row_def row_config_def Let_def)

lemma res_collect_Inr:
  assumes "\<And>x. x \<in> set xs \<Longrightarrow> f x = Inr (g x)"
  shows "res_collect f xs = Inr (map g xs)"
  using assms by (induction xs) auto

text \<open>What the proxy makes of a row that satisfies the invariant.\<close>

definition config_of_row :: "IntegrationCredentialRow list \<Rightarrow> RegistryConfigRow \<Rightarrow> RegistryConfig" where
  "config_of_row credentials r =
     (case registry_config_from_row (registry_query_row credentials r) of Inr c \<Rightarrow> c | Inl _ \<Rightarrow> undefined)"

definition upstream_accepted :: "(string \<Rightarrow> url option) \<Rightarrow> RegistryConfigRow \<Rightarrow> bool" where
  "upstream_accepted parse_url r \<longleftrightarrow>
     (\<exists>auth_type. auth_type_from_db (gc_auth_type r) = Inr auth_type \<and> validate_upstream_url parse_url (gc_upstream_url r) auth_type = Inr ())"

lemma row_ok_config:
  assumes "registry_row_ok parse_url r"
  shows "registry_config_from_row (registry_query_row credentials r) = Inr (config_of_row credentials r)"
    and "rg_mount_path (config_of_row credentials r) = gc_mount_path r" "rg_id (config_of_row credentials r) = gc_id r"
    and "(\<exists>c'. normalize_registry_config parse_url (config_of_row credentials r) = Inr c') \<longleftrightarrow> upstream_accepted parse_url r"
    and "\<exists>m. normalized_mount (gc_mount_path r) = Inr m \<and> gc_mount_path r = ''/proxy/'' @ m"
proof -
  from assms obtain adapter auth_type mode where v: "gc_adapter r = adapter_as_db adapter" "gc_auth_type r = auth_type_as_db auth_type"
      "gc_mode r = policy_mode_db_value mode" and checks: "registry_row_checks r" and origins: "gc_cargo_allowed_download_origins r = []"
    by (auto simp: registry_row_ok_def)
  note row = query_row_config [OF v, of credentials]
  then have c: "config_of_row credentials r = row_config credentials r adapter auth_type mode" by (simp add: config_of_row_def)
  show "registry_config_from_row (registry_query_row credentials r) = Inr (config_of_row credentials r)" using row c by simp
  show "rg_mount_path (config_of_row credentials r) = gc_mount_path r" "rg_id (config_of_row credentials r) = gc_id r"
    by (simp_all add: c row_config_def registry_query_row_def Let_def)
  have "auth_type = AuthNone \<longleftrightarrow> gc_credential_ref r = None"
    using checks v(2) by (cases auth_type) (auto simp: registry_row_checks_def)
  then have "validate_credential_configuration auth_type (gc_credential_ref r) = Inr ()"
    by (cases auth_type; cases "gc_credential_ref r") (simp_all add: validate_credential_configuration_def)
  then show "(\<exists>c'. normalize_registry_config parse_url (config_of_row credentials r) = Inr c') \<longleftrightarrow> upstream_accepted parse_url r"
    using origins v(2)
    by (auto simp: normalize_registry_config_def res_bind_eq_Inr c row_config_def registry_query_row_def Let_def upstream_accepted_def)
  from checks obtain m where "gc_mount_path r = ''/proxy/'' @ m" "mount_segments m"
    by (auto simp: registry_row_checks_def canonical_mount_iff)
  then show "\<exists>m. normalized_mount (gc_mount_path r) = Inr m \<and> gc_mount_path r = ''/proxy/'' @ m"
    using canonical_normalized [of m] by simp
qed

lemma loaded_configs:
  assumes "registries_ok parse_url (gd_registries db)"
  shows "load_enabled_configs (Inr (enabled_registry_rows db)) = Inr (map (config_of_row (gd_credentials db))
      (sort_key (\<lambda>r. - int (length (gc_mount_path r))) (sort_key gc_mount_path (serving_configs (gd_registries db)))))"
proof -
  have "res_collect registry_config_from_row (map (registry_query_row (gd_credentials db)) rows) = Inr (map (config_of_row (gd_credentials db)) rows)"
    if "set rows \<subseteq> set (gd_registries db)" for rows
    using that
  proof (induction rows)
    case (Cons r rows)
    with assms have "registry_row_ok parse_url r" by (auto simp: registries_ok_def)
    from row_ok_config(1) [OF this] Cons show ?case by simp
  qed simp
  then show ?thesis
    by (simp add: load_enabled_configs_def enabled_registry_rows_def map_err_def serving_configs_def)
qed

lemma serving_mounts_distinct:
  assumes "registries_ok parse_url rows"
  shows "distinct (map gc_mount_path (serving_configs rows))"
proof -
  have ids: "distinct (map gc_id (serving_configs rows))"
    using assms by (simp add: registries_ok_def serving_configs_def distinct_map_filter)
  moreover have "gc_id a = gc_id b"
    if "a \<in> set (serving_configs rows)" "b \<in> set (serving_configs rows)" "gc_mount_path a = gc_mount_path b" for a b
  proof -
    have "\<not> same_mount a b" using assms that(1,2) by (auto simp: registries_ok_def serving_configs_def list_ex_iff)
    then show ?thesis using that by (auto simp: same_mount_def serving_configs_def)
  qed
  ultimately show ?thesis unfolding distinct_map inj_on_def by blast
qed

lemma load_iff:
  assumes ok: "registries_ok parse_url (gd_registries db)"
  shows "(\<exists>v. validate_and_sort_configs parse_url (map (config_of_row (gd_credentials db))
        (sort_key (\<lambda>r. - int (length (gc_mount_path r))) (sort_key gc_mount_path (serving_configs (gd_registries db))))) = Inr v)
    \<longleftrightarrow> (\<forall>r \<in> set (serving_configs (gd_registries db)). upstream_accepted parse_url r)"
proof -
  let ?rows = "sort_key (\<lambda>r. - int (length (gc_mount_path r))) (sort_key gc_mount_path (serving_configs (gd_registries db)))"
  let ?cs = "map (config_of_row (gd_credentials db)) ?rows"
  have row: "registry_row_ok parse_url r" if "r \<in> set (serving_configs (gd_registries db))" for r
    using ok that by (auto simp: registries_ok_def serving_configs_def)
  have mount: "gc_mount_path r = ''/proxy/'' @ mount_of (config_of_row (gd_credentials db) r)"
    if "r \<in> set (serving_configs (gd_registries db))" for r
    using row_ok_config(2,5) [OF row [OF that]] by (auto simp: mount_of_def)
  have mounted: "\<exists>m. normalized_mount (gc_mount_path r) = Inr m" if "r \<in> set (serving_configs (gd_registries db))" for r
    using row_ok_config(5) [OF row [OF that]] by blast
  have "map gc_mount_path ?rows = map (\<lambda>m. ''/proxy/'' @ m) (map mount_of ?cs)"
    using mount by simp
  moreover have "distinct (map gc_mount_path ?rows)"
    using serving_mounts_distinct [OF ok] by (simp only: distinct_map set_sort distinct_sort)
  ultimately have "distinct (map (\<lambda>m. ''/proxy/'' @ m) (map mount_of ?cs))" by (simp only:)
  then have distinct: "distinct (map mount_of ?cs)"
    unfolding distinct_map [of "\<lambda>m. ''/proxy/'' @ m" "map mount_of ?cs"] by blast
  have configs: "set ?cs = config_of_row (gd_credentials db) ` set (serving_configs (gd_registries db))" by simp
  have "(\<exists>v. validate_configs parse_url ?cs {} = Inr v) \<longleftrightarrow> (\<forall>r \<in> set (serving_configs (gd_registries db)). upstream_accepted parse_url r)"
    unfolding validate_configs_iff configs ball_simps(9) using distinct row_ok_config(2,4) [OF row] mounted by simp
  then show ?thesis by (auto simp: validate_and_sort_configs_def res_bind_eq_Inr)
qed

lemma management_url_trimmed: "management_validate_upstream_url p u a = Inr () \<longleftrightarrow> validate_upstream_url p (str_trim u) a = Inr ()"
  by (simp add: management_validate_upstream_url_def validate_upstream_url_def split: option.split)

lemma found_in: "find P xs = Some x \<Longrightarrow> x \<in> set xs \<and> P x"
  by (auto simp: find_Some_iff)

text \<open>C37: what administrators store can be loaded, up to one thing. Whatever configurations were created, changed and
  deleted through the API, by whom and with what answers of the database: the proxy loads the enabled ones, all of them and
  nothing else, exactly if it accepts the stored upstream URL of each. Mounts, kinds of authentication and their
  credentials, adapters and modes can never stand in the way, and of every upstream URL the trimmed text has been accepted by the API.\<close>

theorem administered_configs_load:
  assumes "configured env s"
  shows "(case load_enabled (ge_parse_url env) (Inr (enabled_registry_rows (gs_db s))) of
       Inr store \<Rightarrow> (\<forall>r \<in> set (serving_configs (gd_registries (gs_db s))). upstream_accepted (ge_parse_url env) r)
         \<and> mset (map rg_id store) = mset (map gc_id (serving_configs (gd_registries (gs_db s))))
     | Inl _ \<Rightarrow> (\<exists>r \<in> set (serving_configs (gd_registries (gs_db s))). \<not> upstream_accepted (ge_parse_url env) r))
   \<and> (\<forall>r \<in> set (gd_registries (gs_db s)). \<exists>auth_type. auth_type_from_db (gc_auth_type r) = Inr auth_type
        \<and> validate_upstream_url (ge_parse_url env) (str_trim (gc_upstream_url r)) auth_type = Inr ())"
proof -
  let ?p = "ge_parse_url env" and ?db = "gs_db s"
  let ?rows = "sort_key (\<lambda>r. - int (length (gc_mount_path r))) (sort_key gc_mount_path (serving_configs (gd_registries ?db)))"
  let ?cs = "map (config_of_row (gd_credentials ?db)) ?rows"
  note ok = configured_ok [OF assms]
  have load: "load_enabled ?p (Inr (enabled_registry_rows ?db)) = validate_and_sort_configs ?p ?cs"
    by (simp add: load_enabled_def loaded_configs [OF ok] store_new_def)
  have "mset (map rg_id store) = mset (map gc_id (serving_configs (gd_registries ?db)))"
    if "validate_and_sort_configs ?p ?cs = Inr store" for store
  proof -
    have "mset (map rg_id store) = mset (map rg_id ?cs)" using that by (rule validate_and_sort_ids)
    also have "map rg_id ?cs = map gc_id ?rows"
      using row_ok_config(3) ok by (auto simp: registries_ok_def serving_configs_def)
    finally show ?thesis by simp
  qed
  moreover have "\<exists>auth_type. auth_type_from_db (gc_auth_type r) = Inr auth_type
      \<and> validate_upstream_url ?p (str_trim (gc_upstream_url r)) auth_type = Inr ()" if "r \<in> set (gd_registries ?db)" for r
    using ok that by (auto simp: registries_ok_def registry_row_ok_def management_url_trimmed)
  ultimately show ?thesis
    using load_iff [OF ok] unfolding load by (cases "validate_and_sort_configs ?p ?cs") auto
qed

text \<open>An update that is accepted is stored as it was sent.\<close>

lemma update_stores_url:
  assumes "update_registry_config env t i headers request s = (Inr config, s')" "urr_upstream_url request = Some u"
  shows "\<exists>r \<in> set (gd_registries (gs_db s')). gc_id r = i \<and> gc_upstream_url r = u \<and> gc_enabled r = gr_enabled config \<and> gc_deleted_at r = None"
proof -
  from assms(1) obtain m s1 current merged found row s3 where steps:
      "merge_registry_update (ge_parse_url env) current request = Inr merged"
      "update_config map_sql_conflict env t i (\<lambda>n. store_merged merged (ge_now env n)) s1 = (Inr found, s3)" "found = Some row"
      "announce_config env t m ''registry-config.updated'' row headers s3 = (Inr config, s')"
    by (auto simp: update_registry_config_def as_manager_def gbind_Inr ok_or_def split: option.splits)
  have url: "gr_upstream_url merged = u" using steps(1) assms(2) by (auto simp: merge_registry_update_def Let_def res_bind_eq_Inr)
  let ?change = "store_merged merged (ge_now env (gs_statements s1))"
  from steps(2,3) obtain r where find: "find (live_config t i) (gd_registries (gs_db s1)) = Some r" and row_is: "row = ?change r"
      and rows: "gd_registries (gs_db s3) = map (\<lambda>r. if live_config t i r then ?change r else r) (gd_registries (gs_db s1))"
    by (auto simp: update_config_def sql_Inr res_bind_eq_Inr split: option.splits)
  have r: "live_config t i r" "row = ?change r" "row \<in> set (gd_registries (gs_db s3))"
    using found_in [OF find] row_is rows by auto
  have row: "gc_id row = i" "gc_upstream_url row = u" "gc_deleted_at row = None"
    using r(1,2) url by (simp_all add: live_config_def store_merged_def)
  have "gd_registries (gs_db s') = gd_registries (gs_db s3)" "gc_enabled row = gr_enabled config"
  proof -
    from steps(4) obtain s4 where c: "registry_config_response_from_row row = Inr config"
        "audit_registry_config_action env t m ''registry-config.updated'' config headers s3 = (Inr (), s4)" "notify_reload env s4 = (Inr (), s')"
      by (auto simp: announce_config_def gbind_Inr)
    show "gc_enabled row = gr_enabled config" using c(1) by (auto simp: registry_config_response_from_row_def res_bind_eq_Inr)
    show "gd_registries (gs_db s') = gd_registries (gs_db s3)"
      using c(2,3) by (auto simp: audit_registry_config_action_def management_audit_def gbind_Inr insert_audit_event_def sql_def sql_Inr notify_reload_def
          split: option.splits if_splits)
  qed
  with r(3) row show ?thesis by auto
qed


end
