(* ===== verification/Override_Audit.thy ===== *)
theory Override_Audit
  imports Override_Admin
begin

text \<open>
  What the audit trail tells of overrides: a call that is answered has recorded its event, but a call can take effect, be reported as invalid and
  leave no event. The example runs such a call.
\<close>

section \<open>Answered calls\<close>

lemma management_audit_Inr:
  assumes "management_audit env t actor action res trace m s = (Inr u, s')"
  shows "\<exists>event. gs_db s' = (gs_db s)\<lparr>gd_audit_events := gd_audit_events (gs_db s) @ [event]\<rparr> \<and> ma_tenant_id event = t
    \<and> ma_actor event = actor \<and> ma_action event = action \<and> ma_resource event = res \<and> ma_metadata event = m"
  using assms
  by (auto simp: management_audit_def managing_Inr insert_audit_event_def sql_def management_audit_event_def res_bind_eq_Inr)

fun call_action :: "override_call \<Rightarrow> string" where
  "call_action (CreateOverride _ _ _) = ''override.request.created''"
| "call_action (CreateEmergencyBypass _ _ _) = ''override.emergency-bypass.approved''"
| "call_action (ApproveOverride _ _ _ _) = ''override.request.approved''"
| "call_action (DenyOverride _ _ _ _) = ''override.request.denied''"

text \<open>A call that answers with an override has recorded who did what with which override and scope, as the last event.\<close>

lemma answered_calls_audited:
  assumes "call_override env c s = (Inr row, s')"
  shows "\<exists>m earlier event. call_actor env c = Inr m \<and> gd_audit_events (gs_db s') = earlier @ [event]
    \<and> ma_tenant_id event = call_tenant c \<and> ma_actor event = actor_label env m \<and> ma_action event = call_action c
    \<and> ma_resource event = override_resource env row \<and> map_of (ma_metadata event) ''scope'' = Some (ov_scope row)"
  using assms
  by (cases c)
    (auto simp: create_override_def create_emergency_bypass_def approve_override_def deny_override_def as_manager_def managing_Inr
      audit_override_action_def override_metadata_def dest!: management_audit_Inr)

section \<open>Calls that leave no trace\<close>

definition serves :: "management_env \<Rightarrow> nat \<Rightarrow> nat \<Rightarrow> bool" where
  "serves env n k \<longleftrightarrow> (\<forall>i < k. ge_answer env (n + i) = Served)"

lemma expire_nothing:
  assumes "ge_answer env (gs_statements s) = Served"
    and "\<forall>r \<in> set (gd_overrides (gs_db s)). \<not> override_due t (ge_now env (gs_statements s)) r"
  shows "expire_for env t m headers s = (Inr (), s\<lparr>gs_statements := gs_statements s + 1\<rparr>)"
proof -
  have "map (expire_row t (ge_now env (gs_statements s))) (gd_overrides (gs_db s)) = gd_overrides (gs_db s)"
    by (rule map_idI) (use assms(2) in \<open>simp add: expire_row_def\<close>)
  moreover have "filter (override_due t (ge_now env (gs_statements s))) (gd_overrides (gs_db s)) = []"
    using assms(2) by (simp add: filter_empty_conv)
  ultimately show ?thesis
    using assms(1) by (simp add: expire_for_def expire_overrides_def sql_def sql_with_def Let_def gbind_def)
qed

lemma as_manager_served:
  assumes "request_actor env stated headers = Inr m" "manages (gs_db s) t m" "ge_answer env (gs_statements s) = Served"
  shows "as_manager env t stated headers handler s = handler m (s\<lparr>gs_statements := gs_statements s + 1\<rparr>)"
proof -
  have "ensure_override_manager env t m s = (Inr (), s\<lparr>gs_statements := gs_statements s + 1\<rparr>)"
    using assms(2,3) by (simp add: ensure_override_manager_Inr)
  then show ?thesis by (simp add: as_manager_def gbind_def assms(1))
qed

lemma sensitive_scope_rejected:
  assumes "k \<in> set (value_keys (ov_scope row))" "is_sensitive_metadata_key (ge_lower env) k"
  shows "\<exists>e. audit_override_action env t m action row headers s = (Inl (InvalidManagementRequest e), s)"
proof -
  have "validate_audit_metadata (ge_lower env) (override_metadata env row @ [(''status'', JString (ov_status row))]) \<noteq> Inr ()"
    using assms by (subst audit_metadata_accepted_iff [THEN conjunct1]) (auto simp: override_metadata_def)
  then obtain e where "validate_audit_metadata (ge_lower env) (override_metadata env row @ [(''status'', JString (ov_status row))]) = Inl e"
    by (cases "validate_audit_metadata (ge_lower env) (override_metadata env row @ [(''status'', JString (ov_status row))])") auto
  then show ?thesis
    by (simp add: audit_override_action_def management_audit_def management_audit_event_def gbind_def)
qed

definition approved_row :: "uuid \<Rightarrow> OverrideActionRequest \<Rightarrow> OverrideRow \<Rightarrow> OverrideRow" where
  "approved_row m request r = r\<lparr>ov_status := ''approved'', ov_approved_by := Some m,
     ov_reason := ov_reason r @ newline @ ''approval: '' @ oar_reason request\<rparr>"

lemma approve_pending:
  assumes "request_actor env (oar_actor_id request) headers = Inr m" "manages (gs_db s) t m"
    and "list_ex (\<lambda>u. us_id u = m) (gd_users (gs_db s))" "serves env (gs_statements s) 3" "8 \<le> length (str_trim (oar_reason request))"
    and "\<forall>r \<in> set (gd_overrides (gs_db s)). \<not> override_due t (ge_now env (gs_statements s + 1)) r"
    and "row \<in> set (gd_overrides (gs_db s))" "\<forall>r \<in> set (gd_overrides (gs_db s)). ov_id r = ov_id row \<longrightarrow> r = row"
    and "ov_tenant_id row = t" "ov_status row = ''pending''" "ov_expires_at row > ge_now env (gs_statements s + 2)"
  shows "\<exists>s'. approve_override env t (ov_id row) headers request s
      = gbind (audit_override_action env t m ''override.request.approved'' (approved_row m request row) headers)
          (\<lambda>_. glift (Inr (approved_row m request row))) s'
    \<and> gd_audit_events (gs_db s') = gd_audit_events (gs_db s) \<and> approved_row m request row \<in> set (gd_overrides (gs_db s'))"
proof -
  let ?n = "gs_statements s"
  have served: "ge_answer env (?n + i) = Served" if "i < 3" for i
    using assms(4) that by (simp add: serves_def)
  define selected :: "nat \<Rightarrow> OverrideRow \<Rightarrow> bool" where "selected n r \<longleftrightarrow> ov_tenant_id r = t \<and> ov_id r = ov_id row \<and> ov_status r = ''pending''
      \<and> ov_expires_at r > ge_now env n" for n r
  define s2 where "s2 = s\<lparr>gs_statements := ?n + 2\<rparr>"
  define s3 where "s3 = s\<lparr>gs_statements := ?n + 3, gs_db := (gs_db s)\<lparr>gd_overrides :=
      map (\<lambda>r. if selected (?n + 2) r then approved_row m request r else r) (gd_overrides (gs_db s))\<rparr>\<rparr>"
  have row: "selected (?n + 2) row" using assms(9-11) by (simp add: selected_def)
  have "find (selected (?n + 2)) (gd_overrides (gs_db s)) = Some row"
  proof (cases "find (selected (?n + 2)) (gd_overrides (gs_db s))")
    case None
    with assms(7) row show ?thesis by (auto simp: find_None_iff)
  next
    case (Some r)
    then have "r \<in> set (gd_overrides (gs_db s))" "selected (?n + 2) r" by (auto simp: find_Some_iff)
    with assms(8) have "r = row" by (simp add: selected_def)
    with Some show ?thesis by simp
  qed
  then have update: "update_override env selected m (approved_row m request) s2 = (Inr (approved_row m request row), s3)"
    using served [of 2] assms(3) by (simp add: update_override_def gbind_def sql_def sql_with_def s2_def s3_def ok_or_def numeral_3_eq_3)
  have reason: "validate_override_reason (oar_reason request) = Inr ()" using assms(5) by (simp add: validate_override_reason_def)
  have "expire_for env t m headers (s\<lparr>gs_statements := ?n + 1\<rparr>) = (Inr (), s2)"
    using expire_nothing [of env "s\<lparr>gs_statements := ?n + 1\<rparr>"] served [of 1] assms(6) by (simp add: s2_def)
  then have "approve_override env t (ov_id row) headers request s
      = gbind (audit_override_action env t m ''override.request.approved'' (approved_row m request row) headers)
          (\<lambda>_. glift (Inr (approved_row m request row))) s3"
    using update reason served [of 0]
    unfolding approve_override_def as_manager_served [where s = s, OF assms(1,2) served [of 0, simplified]]
    by (simp add: gbind_def approved_row_def [abs_def] selected_def [abs_def])
  moreover have "approved_row m request row \<in> set (gd_overrides (gs_db s3))" using assms(7) row by (auto simp: s3_def)
  ultimately show ?thesis by (intro exI [of _ s3]) (simp add: s3_def)
qed

text \<open>C36: an approval can take effect without a trace. The scope of an override is checked by its top-level keys only, the
  audit event is built after the update has been committed, and its validation refuses sensitive keys at any depth. So when a
  manager approves a pending override whose scope has a sensitive key somewhere inside a value, the answer is that
  the request was invalid, but the override is approved, the Triage Counter honours it for every package it covers until it expires, and no audit event
  has been recorded.\<close>

theorem approval_without_trace:
  assumes "request_actor env (oar_actor_id request) headers = Inr m" "manages (gs_db s) t m"
    and "list_ex (\<lambda>u. us_id u = m) (gd_users (gs_db s))" "serves env (gs_statements s) 3" "8 \<le> length (str_trim (oar_reason request))"
    and "\<forall>r \<in> set (gd_overrides (gs_db s)). \<not> override_due t (ge_now env (gs_statements s + 1)) r"
    and "row \<in> set (gd_overrides (gs_db s))" "\<forall>r \<in> set (gd_overrides (gs_db s)). ov_id r = ov_id row \<longrightarrow> r = row"
    and "ov_tenant_id row = t" "ov_status row = ''pending''" "ov_expires_at row > ge_now env (gs_statements s + 2)"
    and "k \<in> set (value_keys (ov_scope row))" "is_sensitive_metadata_key (ge_lower env) k"
  shows "\<exists>e s'. approve_override env t (ov_id row) headers request s = (Inl (InvalidManagementRequest e), s')
    \<and> gd_audit_events (gs_db s') = gd_audit_events (gs_db s)
    \<and> (\<forall>json_text now c digest kind. now < ov_expires_at row \<longrightarrow> scope_selects json_text (ov_scope row) c digest kind
         \<longrightarrow> override_scope_matches (ov_scope row) c digest kind
         \<longrightarrow> os_active_override (fst (triage_override_status json_text now t c digest kind (gs_db s')))
           \<or> os_emergency_bypass (fst (triage_override_status json_text now t c digest kind (gs_db s'))))"
proof -
  obtain s' where run: "approve_override env t (ov_id row) headers request s
      = gbind (audit_override_action env t m ''override.request.approved'' (approved_row m request row) headers)
          (\<lambda>_. glift (Inr (approved_row m request row))) s'"
    and s': "gd_audit_events (gs_db s') = gd_audit_events (gs_db s)" "approved_row m request row \<in> set (gd_overrides (gs_db s'))"
    using approve_pending [OF assms(1-11)] by blast
  have scope: "ov_scope (approved_row m request row) = ov_scope row" by (simp add: approved_row_def)
  obtain e where "audit_override_action env t m ''override.request.approved'' (approved_row m request row) headers s'
      = (Inl (InvalidManagementRequest e), s')"
    using sensitive_scope_rejected [of k "approved_row m request row" env t m "''override.request.approved''" headers s'] assms(12,13) scope
    by auto
  with run have "approve_override env t (ov_id row) headers request s = (Inl (InvalidManagementRequest e), s')"
    by (simp add: gbind_def)
  moreover have "\<exists>x \<in> set (gd_overrides (gs_db s')). in_force json_text now t c digest kind x"
    if "now < ov_expires_at row" "scope_selects json_text (ov_scope row) c digest kind" "override_scope_matches (ov_scope row) c digest kind"
    for json_text now c digest kind
    by (rule bexI [OF _ s'(2)]) (use that assms(9) in \<open>simp add: in_force_def approved_row_def\<close>)
  ultimately show ?thesis unfolding triage_flags using s'(1) by blast
qed

section \<open>An example\<close>

definition audit_env :: management_env where
  "audit_env = \<lparr>ge_lower = to_ascii_lowercase, ge_parse_uuid = (\<lambda>_. None), ge_show_uuid = (\<lambda>u. show_nat (unat u)), ge_show_time = (\<lambda>_. []),
     ge_parse_url = (\<lambda>_. None), ge_answer = (\<lambda>_. Served), ge_now = (\<lambda>n. int n), ge_clock = (\<lambda>n. int n),
     ge_fresh = of_nat, ge_trace = of_nat, ge_reload = None\<rparr>"

definition audit_db :: "OverrideRow list \<Rightarrow> management_db" where
  "audit_db rows = \<lparr>gd_users = [\<lparr>us_id = 1, us_tenant_id = 5, us_email = ''a'', us_display_name = ''A''\<rparr>], gd_roles = [(10, 5, ''Admin'')],
     gd_user_roles = [(1, 10)], gd_policy_profiles = [], gd_overrides = rows, gd_registries = [], gd_credentials = [],
     gd_package_requests = [], gd_provider_credentials = [], gd_audit_events = []\<rparr>"

definition no_headers :: request_headers where
  "no_headers = \<lparr>rh_actor = None, rh_trace = None\<rparr>"

definition hidden_scope :: json where
  "hidden_scope = JObject [(''name'', JString ''left-pad''), (''effect'', JObject [(''token'', JNull)])]"

definition hidden_row :: OverrideRow where
  "hidden_row = \<lparr>ov_id = 2, ov_tenant_id = 5, ov_scope = hidden_scope, ov_reason = ''needed now'', ov_requested_by = Some 1,
     ov_approved_by = None, ov_status = ''pending'', ov_expires_at = 1000, ov_created_at = 2\<rparr>"

definition hidden_request :: OverrideActionRequest where
  "hidden_request = \<lparr>oar_reason = ''fine with me'', oar_actor_id = Some 1\<rparr>"

definition hidden_state :: management_state where
  "hidden_state = \<lparr>gs_db = audit_db [hidden_row], gs_statements = 3, gs_reloads = 0\<rparr>"

definition left_pad :: PackageCoordinate where
  "left_pad = \<lparr>pc_ecosystem = Npm, pc_name = ''left-pad'', pc_version = None, pc_namespace = None\<rparr>"

lemma trimmed_reason: "str_trim ''fine with me'' = ''fine with me''" "str_trim ''needed now'' = ''needed now''"
  by (rule str_trim_id; simp add: graphic_char_def)+

lemma token_sensitive: "is_sensitive_metadata_key to_ascii_lowercase ''token''"
  by code_simp

lemma admin_manages: "role_can_manage_control_plane ''Admin''"
  by code_simp

text \<open>The request for the override is reported as invalid, too, yet stored.\<close>

lemma hidden_created:
  "\<exists>e. create_override audit_env 5 no_headers \<lparr>cor_scope = hidden_scope, cor_reason = ''needed now'', cor_requested_by = Some 1,
       cor_expires_at = 1000\<rparr> \<lparr>gs_db = audit_db [], gs_statements = 0, gs_reloads = 0\<rparr>
     = (Inl (InvalidManagementRequest e), hidden_state)"
proof -
  obtain e where e: "audit_override_action audit_env 5 1 ''override.request.created'' hidden_row no_headers hidden_state
      = (Inl (InvalidManagementRequest e), hidden_state)"
    using sensitive_scope_rejected [of "''token''" hidden_row audit_env 5 1 "''override.request.created''" no_headers hidden_state] token_sensitive
    by (auto simp: hidden_row_def hidden_scope_def audit_env_def)
  have actor: "ensure_tenant_user audit_env 5 1 \<lparr>gs_db = audit_db [], gs_statements = 0, gs_reloads = 0\<rparr>
      = (Inr (), \<lparr>gs_db = audit_db [], gs_statements = 1, gs_reloads = 0\<rparr>)"
    by (simp add: ensure_tenant_user_def gbind_def sql_read_def sql_def sql_with_def Let_def audit_env_def audit_db_def)
  have expire: "expire_for audit_env 5 1 no_headers \<lparr>gs_db = audit_db [], gs_statements = 1, gs_reloads = 0\<rparr>
      = (Inr (), \<lparr>gs_db = audit_db [], gs_statements = 2, gs_reloads = 0\<rparr>)"
    by (subst expire_nothing) (simp_all add: audit_env_def audit_db_def)
  have clock: "ge_clock audit_env 2 = 2" by (simp add: audit_env_def)
  have scope: "validate_override_scope hidden_scope = Inr ()"
    by (simp add: validate_override_scope_def hidden_scope_def as_object_def override_scope_keys_def get_str_def json_get_def as_str_def)
  have "insert_override audit_env \<lparr>ov_id = 0, ov_tenant_id = 5, ov_scope = hidden_scope, ov_reason = ''needed now'',
      ov_requested_by = Some 1, ov_approved_by = None, ov_status = ''pending'', ov_expires_at = 1000, ov_created_at = 0\<rparr>
      \<lparr>gs_db = audit_db [], gs_statements = 2, gs_reloads = 0\<rparr> = (Inr hidden_row, hidden_state)"
    by (simp add: insert_override_def sql_def sql_with_def Let_def audit_env_def audit_db_def hidden_row_def hidden_state_def)
  then show ?thesis
    using e
    by (simp add: create_override_def gbind_def request_actor_def ok_or_def actor expire scope validate_override_reason_def trimmed_reason
        validate_override_expiry_def clock del: One_nat_def)
qed

lemma hidden_facts:
  "manages (gs_db hidden_state) 5 1" "serves audit_env 3 3" "is_sensitive_metadata_key (ge_lower audit_env) ''token''"
  "scope_selects (\<lambda>_. []) (ov_scope hidden_row) left_pad None KindArtifact" "override_scope_matches (ov_scope hidden_row) left_pad None KindArtifact"
  "8 \<le> length (str_trim (oar_reason hidden_request))" "request_actor audit_env (oar_actor_id hidden_request) no_headers = Inr 1"
  "list_ex (\<lambda>u. us_id u = 1) (gd_users (gs_db hidden_state))" "gd_overrides (gs_db hidden_state) = [hidden_row]"
  "\<not> override_due 5 (ge_now audit_env 4) hidden_row" "ge_now audit_env 5 < ov_expires_at hidden_row" "gs_statements hidden_state = 3"
  "ov_id hidden_row = 2" "ov_tenant_id hidden_row = 5" "ov_status hidden_row = ''pending''" "''token'' \<in> set (value_keys (ov_scope hidden_row))"
  "gd_audit_events (gs_db hidden_state) = []" "500 < ov_expires_at hidden_row"
  using admin_manages token_sensitive
  by (simp_all add: manages_def roles_of_actor_def hidden_state_def audit_db_def serves_def audit_env_def scope_selects_def scope_text_def
      hidden_row_def hidden_scope_def left_pad_def json_get_def override_scope_matches_def scope_matches_def scope_str_def get_str_def as_str_def
      hidden_request_def trimmed_reason request_actor_def ok_or_def override_due_def)

theorem approval_without_trace_witness:
  "\<exists>e s'. approve_override audit_env 5 2 no_headers hidden_request hidden_state = (Inl (InvalidManagementRequest e), s')
    \<and> gd_audit_events (gs_db s') = []
    \<and> (os_active_override (fst (triage_override_status (\<lambda>_. []) 500 5 left_pad None KindArtifact (gs_db s')))
         \<or> os_emergency_bypass (fst (triage_override_status (\<lambda>_. []) 500 5 left_pad None KindArtifact (gs_db s'))))"
proof -
  have "ge_now audit_env (3 + 2) < ov_expires_at hidden_row" "\<not> override_due 5 (ge_now audit_env (3 + 1)) hidden_row"
    using hidden_facts by simp_all
  then show ?thesis
    using approval_without_trace [of audit_env hidden_request no_headers 1 hidden_state 5 hidden_row "''token''"] hidden_facts by simp blast
qed

text \<open>The same run as a history.\<close>

theorem overrides_in_force_authorised_witness:
  "\<exists>history s row. administered audit_env history s \<and> row \<in> set (gd_overrides (gs_db s))
     \<and> in_force (\<lambda>_. []) 500 5 left_pad None KindArtifact row
     \<and> (\<exists>s0 call. (s0, call) \<in> set history \<and> authorised_by audit_env row s0 call)"
proof -
  let ?start = "\<lparr>gs_db = audit_db [], gs_statements = 0, gs_reloads = 0\<rparr> :: management_state"
  let ?create = "CreateOverride 5 no_headers \<lparr>cor_scope = hidden_scope, cor_reason = ''needed now'', cor_requested_by = Some 1, cor_expires_at = 1000\<rparr>"
  let ?approve = "ApproveOverride 5 2 no_headers hidden_request"
  have "administered audit_env [] ?start" by (rule administered.start) (simp add: audit_db_def)
  from administered.call [OF this, of ?create] hidden_created have "administered audit_env [(?start, ?create)] hidden_state" by auto
  from administered.call [OF this, of ?approve]
  have reached: "administered audit_env [(?start, ?create), (hidden_state, ?approve)]
      (snd (approve_override audit_env 5 2 no_headers hidden_request hidden_state))" by simp
  let ?row = "approved_row 1 hidden_request hidden_row"
  have times: "ge_now audit_env (3 + 2) < ov_expires_at hidden_row" "\<not> override_due 5 (ge_now audit_env (3 + 1)) hidden_row"
    using hidden_facts by simp_all
  obtain s' where run: "approve_override audit_env 5 2 no_headers hidden_request hidden_state
      = gbind (audit_override_action audit_env 5 1 ''override.request.approved'' ?row no_headers) (\<lambda>_. glift (Inr ?row)) s'"
    and row: "?row \<in> set (gd_overrides (gs_db s'))"
    using approve_pending [of audit_env hidden_request no_headers 1 hidden_state 5 hidden_row] hidden_facts times by auto
  obtain e where "audit_override_action audit_env 5 1 ''override.request.approved'' ?row no_headers s' = (Inl (InvalidManagementRequest e), s')"
    using sensitive_scope_rejected [of "''token''" ?row audit_env 5 1 "''override.request.approved''" no_headers s'] hidden_facts(3,16)
    by (auto simp: approved_row_def)
  with run reached have "administered audit_env [(?start, ?create), (hidden_state, ?approve)] s'" by (simp add: gbind_def)
  moreover have "in_force (\<lambda>_. []) 500 5 left_pad None KindArtifact ?row"
    using hidden_facts(4,5,14,18) by (simp add: in_force_def approved_row_def)
  then have "os_active_override (fst (triage_override_status (\<lambda>_. []) 500 5 left_pad None KindArtifact (gs_db s')))
      \<or> os_emergency_bypass (fst (triage_override_status (\<lambda>_. []) 500 5 left_pad None KindArtifact (gs_db s')))"
    unfolding triage_flags using row by blast
  ultimately show ?thesis using overrides_in_force_authorised by blast
qed

end
