(* ===== verification/Credential_Admin.thy ===== *)
theory Credential_Admin
  imports Registry_Loading Override_Audit
begin

text \<open>
  Credentials in the management API: how their creation and rotation is answered, and when one can be deleted.
\<close>

section \<open>Creation and rotation\<close>

lemma credential_type_sensitive: "is_sensitive_metadata_key (\<lambda>k. k) ''credential_type''"
  by code_simp

lemma credential_key_lower: "lower k = k \<Longrightarrow> is_sensitive_metadata_key lower k \<longleftrightarrow> is_sensitive_metadata_key (\<lambda>k. k) k"
  by (simp add: is_sensitive_metadata_key_def)

lemma audit_rejects:
  assumes "k \<in> set (field_keys metadata)" "is_sensitive_metadata_key (ge_lower env) k"
  shows "\<exists>e. management_audit env t actor action res trace metadata s = (Inl (InvalidManagementRequest e), s)"
proof -
  have "validate_audit_metadata (ge_lower env) metadata \<noteq> Inr ()"
    using assms by (subst audit_metadata_accepted_iff [THEN conjunct1]) auto
  then obtain e where "validate_audit_metadata (ge_lower env) metadata = Inl e"
    by (cases "validate_audit_metadata (ge_lower env) metadata") auto
  then show ?thesis by (simp add: management_audit_def management_audit_event_def gbind_def)
qed

lemma audit_accepts:
  assumes "\<forall>k \<in> set (field_keys metadata). \<not> is_sensitive_metadata_key (ge_lower env) k" "ge_answer env (gs_statements s) = Served"
  shows "\<exists>event. management_audit env t actor action res trace metadata s
    = (Inr (), s\<lparr>gs_statements := gs_statements s + 1, gs_db := (gs_db s)\<lparr>gd_audit_events := gd_audit_events (gs_db s) @ [event]\<rparr>\<rparr>)"
proof -
  have "validate_audit_metadata (ge_lower env) metadata = Inr ()"
    using assms(1) by (subst audit_metadata_accepted_iff [THEN conjunct1])
  then show ?thesis
    using assms(2) by (auto simp: management_audit_def management_audit_event_def gbind_def insert_audit_event_def sql_def sql_with_def Let_def)
qed

lemma credential_audit_rejected:
  assumes "ge_lower env ''credential_type'' = ''credential_type''"
  shows "\<exists>e. audit_credential_action env t m action row headers s = (Inl (InvalidManagementRequest e), s)"
  unfolding audit_credential_action_def numbered_simp
  by (rule audit_rejects [of "''credential_type''"])
    (use credential_key_lower [of "ge_lower env" "''credential_type''", OF assms] credential_type_sensitive in auto)

text \<open>A step that ends by recording an event on a credential ends with its rejection.\<close>

lemma rejected_end:
  assumes "ge_lower env ''credential_type'' = ''credential_type''"
  shows "\<exists>e. gbind (audit_credential_action env t m action row headers) f s = (Inl (InvalidManagementRequest e), s)"
  using credential_audit_rejected [OF assms, of t m action row headers s] by (auto simp: gbind_def)

definition same_events :: "management_db \<Rightarrow> management_db \<Rightarrow> bool" where
  "same_events db db' \<longleftrightarrow> gd_audit_events db' = gd_audit_events db"

lemma same_events_order: "reflp same_events" "transp same_events"
  by (auto simp: same_events_def intro: reflpI transpI)

lemma leads_rejected_end:
  assumes "ge_lower env ''credential_type'' = ''credential_type''"
  shows "leads same_events s (gbind (audit_credential_action env t m action row headers) f)"
  using rejected_end [OF assms, of t m action row headers f s] by (auto simp: leads_def same_events_def)

lemma created_never_answered:
  assumes "ge_lower env ''credential_type'' = ''credential_type''"
  shows "\<exists>e. fst (create_credential env t headers request s) = Inl e" "\<exists>e. fst (rotate_credential env t i headers change s) = Inl e"
proof -
  have no: "audit_credential_action env t m action row headers s1 \<noteq> (Inr u, s2)" for m action row s1 u s2
    using credential_audit_rejected [OF assms, of t m action row headers s1] by auto
  have "create_credential env t headers request s \<noteq> (Inr row, s')" for row s'
    using no by (auto simp: create_credential_def as_manager_def gbind_Inr)
  then show "\<exists>e. fst (create_credential env t headers request s) = Inl e" by (metis old.sum.exhaust prod.collapse)
  have "rotate_credential env t i headers change s \<noteq> (Inr row, s')" for row s'
    using no by (auto simp: rotate_credential_def as_manager_def gbind_Inr)
  then show "\<exists>e. fst (rotate_credential env t i headers change s) = Inl e" by (metis old.sum.exhaust prod.collapse)
qed


section \<open>Deletion\<close>



text \<open>The configurations that the handler itself takes for references.\<close>

definition live_reference :: "uuid \<Rightarrow> uuid \<Rightarrow> management_db \<Rightarrow> bool" where
  "live_reference t i db \<longleftrightarrow> list_ex (\<lambda>r. gc_tenant_id r = t \<and> gc_credential_ref r = Some i \<and> gc_deleted_at r = None) (gd_registries db)"

lemma credential_id_safe: "\<not> is_sensitive_metadata_key (\<lambda>k. k) ''credential_id''"
  by code_simp

text \<open>C40: when a credential can be deleted. For a manager and with a database that answers: a credential that a live configuration of
  the tenant uses is a conflict; one that does not exist is not found; one that only a deleted configuration or an AI provider still
  refers to cannot be deleted, and the answer is that the database is unavailable; any other is deleted. A deleted
  configuration keeps its reference, so a credential that was once used stays for good.\<close>

theorem credential_deletion_outcome:
  assumes "request_actor env None headers = Inr m" "manages (gs_db s) t m" "serves env (gs_statements s) 4"
    and "ge_lower env ''credential_id'' = ''credential_id''"
  shows "fst (delete_credential env t i headers s) =
      (if live_reference t i (gs_db s) then Inl Conflict
       else if \<not> list_ex (own_credential t i) (gd_credentials (gs_db s)) then Inl NotFound
       else if credential_referenced i (gs_db s) then Inl (ManagementDatabase ForeignKeyViolation)
       else Inr ())
    \<and> gd_credentials (gs_db (snd (delete_credential env t i headers s))) =
      (if fst (delete_credential env t i headers s) = Inr () then filter (\<lambda>c. \<not> own_credential t i c) (gd_credentials (gs_db s))
       else gd_credentials (gs_db s))"
proof -
  let ?n = "gs_statements s"
  let ?s2 = "s\<lparr>gs_statements := ?n + 2\<rparr>"
  have served: "ge_answer env (?n + k) = Served" if "k < 4" for k
    using assms(3) that by (simp add: serves_def)
  note served0 = served [of 0, simplified] and served1 = served [of 1, simplified] and served2 = served [of 2, simplified]
    and served3 = served [of 3, simplified]
  have count: "length (filter (\<lambda>r. gc_tenant_id r = t \<and> gc_credential_ref r = Some i \<and> gc_deleted_at r = None) (gd_registries (gs_db s))) > 0
      \<longleftrightarrow> live_reference t i (gs_db s)"
    by (auto simp: live_reference_def list_ex_iff filter_empty_conv)
  have audit: "\<exists>event. management_audit env t actor action res trace [(''credential_id'', v)] s1 = (Inr (), s1\<lparr>gs_statements := gs_statements s1 + 1,
      gs_db := (gs_db s1)\<lparr>gd_audit_events := gd_audit_events (gs_db s1) @ [event]\<rparr>\<rparr>)"
    if "gs_statements s1 = ?n + 3" "v = JString text_value" for s1 actor action res trace v text_value
    by (rule audit_accepts)
      (use that served3 credential_key_lower [of "ge_lower env" "''credential_id''"] assms(4) credential_id_safe in auto)
  have run: "delete_credential env t i headers s =
      (if live_reference t i (gs_db s) then (Inl Conflict, ?s2)
       else gbind (remove_credential env t i) (\<lambda>deleted. gbind (glift (if deleted = None then Inl NotFound else Inr ())) (\<lambda>_.
         numbered (\<lambda>n. management_audit env t (actor_label env m) ''credential.deleted''
           (''credential/'' @ ge_show_uuid env i) (management_trace_id env headers n) [(''credential_id'', JString (ge_show_uuid env i))]))) ?s2)"
  proof -
    let ?count = "\<lambda>db. length (filter (\<lambda>r. gc_tenant_id r = t \<and> gc_credential_ref r = Some i \<and> gc_deleted_at r = None) (gd_registries db))"
    have "sql_read env (\<lambda>_. ?count) (s\<lparr>gs_statements := ?n + 1\<rparr>) = (Inr (?count (gs_db s)), ?s2)"
      using served1 by (simp add: sql_read_Inr)
    then have count_read: "gbind (sql_read env (\<lambda>_. ?count)) f (s\<lparr>gs_statements := ?n + 1\<rparr>) = f (?count (gs_db s)) ?s2" for f :: "nat \<Rightarrow> unit managing"
      by (simp add: gbind_def)
    show ?thesis
      unfolding delete_credential_def as_manager_served [where s = s, OF assms(1,2) served0] count_read
      by (cases "live_reference t i (gs_db s)") (use count in \<open>simp_all add: gbind_def\<close>)
  qed
  show ?thesis
  proof (cases "live_reference t i (gs_db s)")
    case False
    consider "\<not> list_ex (own_credential t i) (gd_credentials (gs_db s))"
      | "list_ex (own_credential t i) (gd_credentials (gs_db s))" "credential_referenced i (gs_db s)"
      | "list_ex (own_credential t i) (gd_credentials (gs_db s))" "\<not> credential_referenced i (gs_db s)" by blast
    then show ?thesis
    proof cases
      case 3
      let ?s3 = "?s2\<lparr>gs_statements := ?n + 3, gs_db := (gs_db s)\<lparr>gd_credentials := filter (\<lambda>c. \<not> own_credential t i c) (gd_credentials (gs_db s))\<rparr>\<rparr>"
      have "remove_credential env t i ?s2 = (Inr (Some i), ?s3)"
        using 3 served2 by (simp add: remove_credential_def sql_def sql_with_def numeral_3_eq_3 numeral_2_eq_2)
      then show ?thesis
        using False 3 audit [of ?s3 "JString (ge_show_uuid env i)" "ge_show_uuid env i"
            "actor_label env m" "''credential.deleted''" "''credential/'' @ ge_show_uuid env i" "management_trace_id env headers (?n + 3)"]
        by (auto simp: run gbind_def)
    qed (use False served2 in \<open>simp_all add: run remove_credential_def sql_def sql_with_def gbind_def\<close>)
  qed (simp add: run)
qed

end
