(* ===== verification/Management_Examples.thy ===== *)
theory Management_Examples
  imports Credential_Admin
begin

text \<open>Concrete runs of the management API on which its properties of configurations and credentials apply.\<close>

section \<open>A gateway with one manager\<close>

definition npm_url :: string where "npm_url = ''https://r''"

text \<open>The URL with a no-break space behind it.\<close>

definition spaced_url :: string where "spaced_url = npm_url @ [char_of (194::nat), char_of (160::nat)]"

definition gateway_env :: management_env where
  "gateway_env = audit_env\<lparr>ge_parse_uuid := (\<lambda>s. if s = ''1'' then Some 1 else None),
     ge_parse_url := (\<lambda>s. if s = npm_url then sample_url s else None)\<rparr>"

definition gateway_headers :: request_headers where
  "gateway_headers = \<lparr>rh_actor = Some ''1'', rh_trace = None\<rparr>"

definition gateway_db :: management_db where
  "gateway_db = (audit_db [])\<lparr>gd_policy_profiles := [(5, 2)]\<rparr>"

definition gateway_start :: management_state where
  "gateway_start = \<lparr>gs_db = gateway_db, gs_statements = 0, gs_reloads = 0\<rparr>"

definition npm_request :: CreateRegistryConfigRequest where
  "npm_request = \<lparr>crr_name = ''npm'', crr_description = [], crr_adapter = AdapterNpm, crr_upstream_url = npm_url, crr_mount_path = ''/proxy/npm'',
     crr_auth_type = AuthNone, crr_credential_ref = None, crr_mode = ModeEnforce, crr_policy_profile_id = 2, crr_cache_ttl_seconds = 60,
     crr_verify_upstream_tls = True, crr_enabled = True\<rparr>"

definition url_request :: "string \<Rightarrow> UpdateRegistryConfigRequest" where
  "url_request u = \<lparr>urr_name = None, urr_description = None, urr_upstream_url = Some u, urr_auth_type = None, urr_credential_ref = None,
     urr_mode = None, urr_policy_profile_id = None, urr_cache_ttl_seconds = None, urr_verify_upstream_tls = None, urr_enabled = None\<rparr>"

lemma gateway_texts:
  "str_trim ''npm'' = ''npm''" "str_trim npm_url = npm_url" "str_trim ''/proxy/npm'' = ''/proxy/npm''"
  by (rule str_trim_id; simp add: graphic_char_def npm_url_def)+

lemma no_text [simp]: "str_trim [] = []"
  by code_simp

lemma spaced_trim: "str_trim spaced_url = npm_url" "spaced_url \<noteq> npm_url"
  unfolding spaced_url_def npm_url_def by code_simp+

lemma gateway_simps [simp]:
  "ge_answer gateway_env n = Served" "ge_fresh gateway_env n = of_nat n" "ge_reload gateway_env = None"
  "ge_lower gateway_env = to_ascii_lowercase" "ge_parse_url gateway_env s = (if s = npm_url then sample_url s else None)"
  by (simp_all add: gateway_env_def audit_env_def)

lemma gateway_actor [simp]: "request_actor gateway_env None gateway_headers = Inr 1"
  by (simp add: request_actor_def actor_id_from_headers_def gateway_headers_def header_to_str_def gateway_env_def ok_or_def)

lemma gateway_manages:
  "gd_roles db = gd_roles gateway_db \<Longrightarrow> gd_user_roles db = gd_user_roles gateway_db \<Longrightarrow> manages db 5 1"
  using admin_manages by (simp add: manages_def roles_of_actor_def gateway_db_def audit_db_def)

lemma registry_keys_safe:
  "\<not> is_sensitive_metadata_key to_ascii_lowercase ''adapter''" "\<not> is_sensitive_metadata_key to_ascii_lowercase ''credential_ref''"
  "\<not> is_sensitive_metadata_key to_ascii_lowercase ''enabled''" "\<not> is_sensitive_metadata_key to_ascii_lowercase ''mount_path''"
  by code_simp+

lemma announced:
  assumes "registry_config_response_from_row row = Inr config"
  shows "\<exists>s'. announce_config gateway_env t m action row headers s = (Inr config, s')
    \<and> gd_registries (gs_db s') = gd_registries (gs_db s) \<and> gd_roles (gs_db s') = gd_roles (gs_db s) \<and> gd_user_roles (gs_db s') = gd_user_roles (gs_db s)
    \<and> gd_policy_profiles (gs_db s') = gd_policy_profiles (gs_db s)"
proof -
  obtain event where "audit_registry_config_action gateway_env t m action config headers s
      = (Inr (), s\<lparr>gs_statements := gs_statements s + 1, gs_db := (gs_db s)\<lparr>gd_audit_events := gd_audit_events (gs_db s) @ [event]\<rparr>\<rparr>)"
    using audit_accepts [of _ gateway_env s] registry_keys_safe unfolding audit_registry_config_action_def numbered_simp
    by (cases "gr_credential_ref config") fastforce+
  then show ?thesis by (auto simp: announce_config_def gbind_def assms notify_reload_def)
qed

definition npm_row :: RegistryConfigRow where
  "npm_row = new_registry_row gateway_env 5 npm_request 1"

lemma npm_row_fields:
  "gc_id npm_row = 1" "gc_tenant_id npm_row = 5" "gc_deleted_at npm_row = None" "gc_mount_path npm_row = ''/proxy/npm''"
  "gc_upstream_url npm_row = npm_url" "gc_auth_type npm_row = ''none''" "gc_credential_ref npm_row = None" "gc_enabled npm_row"
  "gc_adapter npm_row = ''npm''" "gc_mode npm_row = ''enforce''" "gc_policy_profile_id npm_row = 2" "gc_cache_ttl_seconds npm_row = 60"
  "gc_name npm_row = ''npm''"
  by (simp_all add: npm_row_def new_registry_row_def npm_request_def gateway_texts)

lemma npm_allowed:
  assumes "gd_registries db = [] \<or> gd_registries db = [npm_row]" "gd_policy_profiles db = [(5, 2)]"
    and "row = npm_row\<lparr>gc_upstream_url := u\<rparr> \<or> (\<exists>merged now. row = store_merged merged now npm_row \<and> gr_upstream_url merged = u
      \<and> gr_auth_type merged = AuthNone \<and> gr_credential_ref merged = None \<and> gr_policy_profile_id merged = 2 \<and> gr_cache_ttl_seconds merged = 60)"
    and "u = npm_url \<or> u = spaced_url"
  shows "registry_row_allowed db row = Inr ()"
proof -
  have "canonical_mount ''/proxy/npm''" by code_simp
  moreover have "case after_http u of None \<Rightarrow> False | Some rest \<Rightarrow> \<not> names_user rest"
    using assms(4) unfolding npm_url_def spaced_url_def by (elim disjE; simp only:; code_simp)
  ultimately have "registry_row_checks row"
    using assms(3) by (auto simp: registry_row_checks_def npm_row_fields store_merged_def)
  then show ?thesis
    using assms(1-3) by (auto simp: registry_row_allowed_def npm_row_fields store_merged_def same_mount_def)
qed

definition npm_config :: RegistryConfigResponse where
  "npm_config = \<lparr>gr_id = 1, gr_tenant_id = 5, gr_name = ''npm'', gr_description = [], gr_adapter = AdapterNpm, gr_upstream_url = npm_url,
     gr_mount_path = ''/proxy/npm'', gr_auth_type = AuthNone, gr_credential_ref = None, gr_mode = ModeEnforce, gr_policy_profile_id = 2,
     gr_cache_ttl_seconds = 60, gr_verify_upstream_tls = True, gr_enabled = True, gr_deleted_at = None, gr_created_at = 1, gr_updated_at = 1\<rparr>"

lemma db_values:
  "registry_adapter_from_db (adapter_as_db adapter) = Inr adapter" "management_auth_type_from_db (auth_type_as_db auth_type) = Inr auth_type"
  "management_mode_from_db (policy_mode_db_value mode) = Inr mode"
  by (simp_all add: registry_adapter_from_db_def management_auth_type_from_db_def management_mode_from_db_def map_err_def)

lemma npm_shown: "registry_config_response_from_row npm_row = Inr npm_config"
  using db_values(1) [of AdapterNpm] db_values(2) [of AuthNone] db_values(3) [of ModeEnforce]
  by (simp add: registry_config_response_from_row_def npm_row_def new_registry_row_def npm_request_def gateway_texts npm_config_def gateway_env_def
      audit_env_def)

lemma npm_url_ok: "management_validate_upstream_url (ge_parse_url gateway_env) u AuthNone = Inr ()" if "str_trim u = npm_url"
  using that by (simp add: management_validate_upstream_url_def sample_url_def)

definition npm_state :: management_state where
  "npm_state = \<lparr>gs_db = gateway_db\<lparr>gd_registries := [npm_row]\<rparr>, gs_statements = 2, gs_reloads = 0\<rparr>"

lemma npm_created:
  "\<exists>s'. create_registry_config gateway_env 5 gateway_headers npm_request gateway_start = (Inr npm_config, s') \<and> gd_registries (gs_db s') = [npm_row]
    \<and> gd_roles (gs_db s') = gd_roles gateway_db \<and> gd_user_roles (gs_db s') = gd_user_roles gateway_db \<and> gd_policy_profiles (gs_db s') = [(5, 2)]"
proof -
  have mount: "validate_mount_path ''/proxy/npm'' = Inr ()"
    unfolding validate_mount_path_canonical gateway_texts by code_simp
  have valid: "validate_registry_create_request (ge_parse_url gateway_env) npm_request = Inr ()"
    using npm_url_ok [OF gateway_texts(2)]
    by (simp add: validate_registry_create_request_def npm_request_def validate_non_empty_def gateway_texts mount validate_adapter_phase_def
        phase_1a_supported_def management_validate_credentials_def validate_cache_ttl_def)
  let ?s1 = "\<lparr>gs_db = gateway_db, gs_statements = 1, gs_reloads = 0\<rparr> :: management_state"
  have manager: "manages gateway_db 5 1" by (rule gateway_manages) simp_all
  have "npm_row = npm_row\<lparr>gc_upstream_url := npm_url\<rparr>" using npm_row_fields(5) by (metis RegistryConfigRow.surjective RegistryConfigRow.update_convs(6))
  then have "registry_row_allowed gateway_db npm_row = Inr ()"
    by (intro npm_allowed [of _ _ npm_url]) (simp_all add: gateway_db_def audit_db_def)
  then have insert: "insert_registry gateway_env 5 npm_request ?s1 = (Inr npm_row, npm_state)"
    by (simp add: insert_registry_def sql_with_def Let_def gateway_start_def npm_row_def gateway_db_def audit_db_def numeral_2_eq_2 npm_state_def)
  have "create_registry_config gateway_env 5 gateway_headers npm_request gateway_start
      = announce_config gateway_env 5 1 ''registry-config.created'' npm_row gateway_headers npm_state"
    unfolding create_registry_config_def
    by (subst as_manager_served) (simp_all add: gateway_manages manager gateway_start_def gbind_def valid insert del: One_nat_def)
  with announced [OF npm_shown, of 5 1 "''registry-config.created''" gateway_headers npm_state] show ?thesis
    by (auto simp: npm_state_def gateway_db_def audit_db_def)
qed

text \<open>The configuration is loaded.\<close>

definition npm_created_state :: management_state where
  "npm_created_state = snd (create_registry_config gateway_env 5 gateway_headers npm_request gateway_start)"

lemma npm_created_facts:
  "gd_registries (gs_db npm_created_state) = [npm_row]" "manages (gs_db npm_created_state) 5 1"
  "gd_policy_profiles (gs_db npm_created_state) = [(5, 2)]" "configured gateway_env npm_created_state"
proof -
  show "gd_registries (gs_db npm_created_state) = [npm_row]" "manages (gs_db npm_created_state) 5 1"
    "gd_policy_profiles (gs_db npm_created_state) = [(5, 2)]"
    using npm_created gateway_manages by (auto simp: npm_created_state_def)
  have "configured gateway_env gateway_start"
    by (rule configured.start) (simp add: gateway_start_def gateway_db_def audit_db_def)
  from configured.call [OF this, of "CreateRegistry 5 gateway_headers npm_request"]
  show "configured gateway_env npm_created_state" by (simp add: npm_created_state_def)
qed

theorem administered_configs_load_witness:
  "\<exists>store. load_enabled (ge_parse_url gateway_env) (Inr (enabled_registry_rows (gs_db npm_created_state))) = Inr store
     \<and> mset (map rg_id store) = {#1#}"
proof -
  have serving: "serving_configs (gd_registries (gs_db npm_created_state)) = [npm_row]"
    by (simp add: serving_configs_def npm_created_facts npm_row_fields)
  have "upstream_accepted (ge_parse_url gateway_env) npm_row"
    by (auto simp: upstream_accepted_def npm_row_fields validate_upstream_url_def sample_url_def auth_type_from_db_def intro!: exI [of _ AuthNone])
  then show ?thesis
    using administered_configs_load [OF npm_created_facts(4)]
    by (auto simp: serving npm_row_fields split: sum.splits)
qed

section \<open>The same configuration with another URL\<close>

definition spaced_config :: RegistryConfigResponse where
  "spaced_config = npm_config\<lparr>gr_upstream_url := spaced_url\<rparr>"

lemma spaced_merged: "merge_registry_update (ge_parse_url gateway_env) npm_config (url_request spaced_url) = Inr spaced_config"
  using npm_url_ok [OF spaced_trim(1)]
  by (simp add: merge_registry_update_def url_request_def spaced_config_def npm_config_def validate_registry_update_response_def validate_non_empty_def
      gateway_texts validate_adapter_phase_def phase_1a_supported_def management_validate_credentials_def validate_cache_ttl_def)

lemma spaced_shown: "\<exists>config. registry_config_response_from_row (store_merged spaced_config now npm_row) = Inr config \<and> gr_enabled config"
  using db_values(1) [of AdapterNpm] db_values(2) [of AuthNone] db_values(3) [of ModeEnforce]
  by (simp add: registry_config_response_from_row_def store_merged_def spaced_config_def npm_config_def npm_row_fields)

lemma spaced_updated:
  "\<exists>config s'. update_registry_config gateway_env 5 1 gateway_headers (url_request spaced_url) npm_created_state = (Inr config, s') \<and> gr_enabled config"
proof -
  let ?s = npm_created_state
  let ?n = "gs_statements ?s"
  have manager: "as_manager gateway_env 5 None gateway_headers handler ?s = handler 1 (?s\<lparr>gs_statements := Suc ?n\<rparr>)" for handler :: "uuid \<Rightarrow> 'a managing"
    by (subst as_manager_served) (simp_all add: npm_created_facts)
  have live: "find (live_config 5 1) (gd_registries (gs_db ?s)) = Some npm_row"
    by (simp add: npm_created_facts live_config_def npm_row_fields)
  have found: "find_config gateway_env 5 1 (?s\<lparr>gs_statements := Suc ?n\<rparr>) = (Inr npm_config, ?s\<lparr>gs_statements := Suc (Suc ?n)\<rparr>)"
    by (simp add: find_config_def gbind_def sql_read_def sql_def sql_with_def Let_def live npm_shown ok_or_def)
  let ?row = "store_merged spaced_config (ge_now gateway_env (Suc (Suc ?n))) npm_row"
  have "registry_row_allowed (gs_db ?s) ?row = Inr ()"
    by (rule npm_allowed [of _ _ spaced_url]) (auto simp: npm_created_facts spaced_config_def npm_config_def)
  then obtain s3 where stored: "update_config map_sql_conflict gateway_env 5 1 (\<lambda>n. store_merged spaced_config (ge_now gateway_env n))
      (?s\<lparr>gs_statements := Suc (Suc ?n)\<rparr>) = (Inr (Some ?row), s3)"
    by (simp add: update_config_def sql_with_def Let_def live)
  obtain config where config: "registry_config_response_from_row ?row = Inr config" "gr_enabled config" using spaced_shown by blast
  then show ?thesis
    using announced [OF config(1), of 5 1 "''registry-config.updated''" gateway_headers s3]
    by (auto simp: update_registry_config_def manager gbind_def found spaced_merged stored ok_or_def)
qed


section \<open>A credential\<close>

definition token_request :: CreateCredentialRequest where
  "token_request = \<lparr>ccr_name = ''npm'', ccr_credential_type = ''npm'', ccr_source = ''environment'', ccr_ciphertext = None, ccr_key_id = None,
     ccr_configured = True\<rparr>"

definition token_change :: RotateCredentialRequest where
  "token_change = \<lparr>rcr_ciphertext = None, rcr_key_id = None, rcr_configured = None\<rparr>"

lemma credential_keys_lower:
  "ge_lower gateway_env ''credential_type'' = ''credential_type''" "ge_lower gateway_env ''credential_id'' = ''credential_id''"
  unfolding gateway_simps by code_simp+

lemma gateway_serves: "serves gateway_env n k"
  by (simp add: serves_def)


text \<open>The credential in a table with a deleted configuration that used it.\<close>

definition deleted_row :: RegistryConfigRow where
  "deleted_row = npm_row\<lparr>gc_auth_type := ''bearer'', gc_credential_ref := Some 7, gc_enabled := False, gc_deleted_at := Some 3\<rparr>"

definition token_row :: IntegrationCredentialRow where
  "token_row = \<lparr>ic_id = 7, ic_tenant_id = 5, ic_name = ''npm'', ic_credential_type = ''npm'', ic_source = ''environment'', ic_ciphertext = None,
     ic_key_id = None, ic_configured = True, ic_created_at = 1, ic_updated_at = 1\<rparr>"

definition used_state :: management_state where
  "used_state = \<lparr>gs_db = gateway_db\<lparr>gd_registries := [deleted_row], gd_credentials := [token_row]\<rparr>, gs_statements = 4, gs_reloads = 0\<rparr>"

theorem credential_deletion_outcome_witness:
  "fst (delete_credential gateway_env 5 7 gateway_headers used_state) = Inl (ManagementDatabase ForeignKeyViolation)
   \<and> gd_credentials (gs_db (snd (delete_credential gateway_env 5 7 gateway_headers used_state))) = [token_row]"
proof -
  have "manages (gs_db used_state) 5 1" by (rule gateway_manages) (simp_all add: used_state_def)
  then show ?thesis
    using credential_deletion_outcome [of gateway_env gateway_headers 1 used_state 5 7] gateway_serves credential_keys_lower(2)
    by (simp add: live_reference_def credential_referenced_def own_credential_def used_state_def deleted_row_def token_row_def)
qed

end
