(* ===== verification/Spec2Isabelle.thy ===== *)
theory Spec2Isabelle
  imports Redaction Triage_Service Proxy_Gateway Worker_Reports Feed_Identity Feed_Examples Management_Examples
begin

text \<open>
  A verification of Aegiscudo, a gateway that stands between package clients and public registries and
  decides by policy what may be downloaded.

  \<^bold>\<open>The program and its parts.\<close> Mosquito Net (\<^verbatim>\<open>services/mosquito-net\<close>) is the proxy: it resolves the path of a
  request to a registry configuration, limits the rate, derives a normalised package request from the path,
  fetches the artifact if the path names one, asks the Triage Counter for a decision and then blocks, or
  hands out the artifact or rewritten metadata. The Triage Counter (\<^verbatim>\<open>services/triage-counter\<close>) binds a
  decision request to the policy profile and to the signals stored for the package, runs the decision
  engine (\<^verbatim>\<open>crates/aegiscudo-policy\<close>), records the decision and queues an analysis job for a quarantine.
  The Surgeon (\<^verbatim>\<open>services/surgeon\<close>) claims such jobs, fetches and unpacks the artifact, scans it without running it and
  stores a report, together with a component for bills of materials.
  The SBOM service (\<^verbatim>\<open>services/sbom-service\<close>) generates and stores bills of materials from components that are
  given or were found by analysis jobs. The feed harvester (\<^verbatim>\<open>services/feed-harvester\<close>) loads the public feeds on
  vulnerabilities, malware and dependencies into the tables that the Triage Counter reads. The management API
  (\<^verbatim>\<open>services/aegiscudo-api\<close>) is where administrators request and approve overrides, which the Triage Counter honours, and
  maintain the registry configurations and credentials, which the proxy loads.
  Shared data types are in \<^verbatim>\<open>crates/aegiscudo-core\<close> and \<^verbatim>\<open>crates/aegiscudo-protocol\<close>, the redaction of logged values in \<^verbatim>\<open>crates/aegiscudo-telemetry\<close>.

  \<^bold>\<open>Theories and sources.\<close>
  \<^item> \<open>Rust_Prelude\<close>: results, options, strings, JSON and identifiers as the code uses them of the standard
    library; \<open>Byte_Text\<close>: UTF-8, lines and words. Strings are lists of bytes.
  \<^item> \<open>Core_Types\<close>, \<open>Redaction\<close>, \<open>Protocol_Names\<close>: ecosystems, coordinates, digests, decisions, evidence and its
    validation; the guard of audit metadata and the redaction; requests, responses and name normalisation.
  \<^item> \<open>Policy_Engine\<close>: \<^verbatim>\<open>DecisionEngine::evaluate\<close> with the Scorecard pass.
  \<^item> \<open>Signals\<close>, \<open>Policy_Repository\<close>, \<open>Request_Binding\<close>: \<^verbatim>\<open>triage-counter/src/repository.rs\<close>: what records mean, the
    in-memory store with every loader and mutation, and the binding of a request over the store's interface.
  \<^item> \<open>Triage_Service\<close>: \<^verbatim>\<open>triage-counter/src/lib.rs\<close>: the decision cache, evaluate, simulate and query, and the
    service as a state machine.
  \<^item> \<open>Expiring_Store\<close>: the contract of a cache with deadlines, as a locale that the cache of the Triage Counter
    and the caches of Mosquito Net interpret.
  \<^item> \<open>Rate_Limit\<close>, \<open>Registry_Config\<close>, \<open>Triage_Client\<close>: the files of the same names of \<^verbatim>\<open>mosquito-net/src\<close>.
  \<^item> \<open>Adapter_Paths\<close>, \<open>Upstream_Urls\<close>, \<open>Metadata_Rewrite\<close>: the pure part of \<^verbatim>\<open>mosquito-net/src/lib.rs\<close>: what a path
    asks for, where upstream requests go, how metadata is rewritten.
  \<^item> \<open>Proxy_State\<close>, \<open>Proxy_Logic\<close>, \<open>Artifact_Fetch\<close>, \<open>Candidate_Filter\<close>, \<open>Proxy_Gateway\<close>: its stateful part: the
    application state with caches and audit events, the rules by which its computations are reasoned about,
    artifact fetches, the filter of candidates, and the handlers as a state machine.
  \<^item> \<open>Sbom_Documents\<close>, \<open>Sbom_Service\<close>: \<^verbatim>\<open>sbom-service/src/lib.rs\<close>: validation, package URLs, the CycloneDX and SPDX
    documents and the NTIA check; the store of documents in table and files, and the endpoints.
  \<^item> \<open>Rust_Paths\<close>: paths and their components as in the standard library; \<open>Artifact_Archive\<close>: \<^verbatim>\<open>surgeon/src/artifact.rs\<close>,
    the unpacking of archives with the trace of its effects on the file system.
  \<^item> \<open>Scan_Support\<close>, \<open>Text_Scan\<close>, \<open>Directory_Scan\<close>: \<^verbatim>\<open>surgeon/src/lib.rs\<close>: kinds of files, class files, strings of binaries,
    payloads and severities; the rules on the text of a file; the walk over a directory and over nested containers.
    \<open>Manifest_Scan\<close>: \<^verbatim>\<open>manifest.rs\<close>; \<open>Ast_Scan\<close>: \<^verbatim>\<open>js_ast.rs\<close> and \<^verbatim>\<open>py_ast.rs\<close>.
  \<^item> \<open>Surgeon_Report\<close>, \<open>Surgeon_Worker\<close>: \<^verbatim>\<open>surgeon/src/worker.rs\<close>: artifact URLs, storage names, embeddings; the tables, the
    claim, the analysis and the persistence of a report. \<open>Worker_Lifecycle\<close> has the theorems on jobs and requests,
    \<open>Worker_Reports\<close> those on reports and on what the SBOM service makes of them.
  \<^item> \<open>Feed_Parsing\<close>, \<open>Feed_Enrichment\<close>, \<open>Feed_Harvester\<close>: \<^verbatim>\<open>feed-harvester/src/lib.rs\<close>: what is read out of the documents of the
    feeds; the merging of deps.dev graphs; the choice between live feed and fixture, the transaction that stores
    a snapshot with its records, and the refresh. \<open>Feed_Identity\<close> compares the identities of feeds with the package
    URLs of the core, \<open>Feed_Snapshots\<close> and \<open>Feed_Scorecards\<close> have the theorems on what is stored, \<open>Feed_Status\<close> those on
    what the Triage Counter then reads; \<open>Feed_Examples\<close> runs the harvester on concrete feeds.
  \<^item> \<open>Control_Plane\<close>, \<open>Registry_Control\<close>: \<^verbatim>\<open>aegiscudo-api/src/lib.rs\<close>: tables and statements, roles and actors, audit events and the
    handlers of overrides; validation, table constraints and the handlers of registry configurations and credentials.
    \<open>Override_Admin\<close> has histories of the calls on overrides and the reading of the Triage Counter, \<open>Override_Audit\<close> what the audit
    trail tells of them; \<open>Registry_Admin\<close> the invariant of the table of configurations, \<open>Registry_Loading\<close> what the proxy loads of it;
    \<open>Credential_Admin\<close> the outcome of calls on credentials. \<open>Management_Examples\<close> runs the handlers on concrete tables.
  \<^item> This theory: a property that spans the Triage Counter and the engine.

  \<^bold>\<open>State and effects.\<close> The Triage Counter passes its state explicitly; Mosquito Net's handlers are computations of
  the state monad over \<open>ProxyAppState\<close>. A request is one step: handlers are taken to be atomic, so races between
  concurrent requests on the caches are not described. Errors are values of sum types with the constructors of
  the code. Clocks are arguments: the time at each place of use in the Triage Counter, the sequence of monotonic
  readings in nanoseconds in Mosquito Net. What comes over the network, the answers of upstreams and
  of the Triage Counter as seen by the proxy, is an arbitrary function of the request and its number. Metrics are
  the list of observations. The SBOM service's database and file system may refuse any call; a file that was written
  stays when the insertion of its row fails. The same holds of the Surgeon's worker, for which moreover each statement may be carried out
  although its answer is lost; its transactions and the order of its statements are those of the code. In the feed harvester each
  statement of a transaction, by its number, is executed or rejected, and a commit may take effect although its answer is lost.
  In the management API each statement is committed by itself and may be served, refused, or served although its reply is lost. Of archives the model sees the
  sequence of entries that the tar and zip libraries deliver, with declared size and the chunks read, and of a directory the
  sequence of entries of the walk. Regular expressions, JSON, TOML and XML texts and syntax trees are results of arbitrary parsers
  (fields of \<open>scan_lib\<close>), over whose values the scans are written out. Third-party libraries (URL parsing, hashes, MACs, base64, semantic versions, JSON
  text, header values) are the fields of \<open>proxy_lib\<close>; a property that needs something of them says so as a hypothesis,
  and its witness instantiates it. No loop needs fuel: the retries of the triage client, the redirects of Cargo
  downloads and the popping of rate-limit windows have measures, and the loops that strip directory prefixes are
  counted by the length of the text, which they shorten.

  \<^bold>\<open>What the lemmas show.\<close> For the engine: its rules in order, the consistency of its responses. For the store
  and the binding: exactly which signals reach the engine, isolation of tenants, equality of the two binding
  paths, errors. For the service: effects of evaluations and cache hits, and that responses match their
  requests in every reachable state. For the proxy: that in enforce mode nothing is handed out which the Triage
  Counter did not let pass under the digest of the very bytes, that the caches hold only what was decided or
  hashed, that indexes list approved candidates only, that every answer is audited with its status, where
  downloads may go, and the pieces these rest on. For the SBOM service: which documents meet the NTIA minimum
  elements, the round trip of package URLs, that stored documents stay intact in every reachable state, what
  tenants see. For the Surgeon: that unpacking stays within its directory and its limits, that a successful scan has missed no file
  and no installation hook, that jobs are tried no more often than allowed and how each call leaves them, where requests go, that reports describe the
  bytes that were asked for, and that the SBOM service can read what the worker stored. For the feed harvester: that enrichment
  neither loses nor invents packages and edges, that a feed is stored with all its records or not at all, which of
  repeated results survives, and that the Triage Counter sees the state of the last refresh. For the management API: that an override in force goes back
  to a call in the name of a manager, that what it stores as configurations can be loaded, and what becomes of credentials. Some theorems state behaviour that is a defect; they
  say so.

  \<^bold>\<open>Not modelled.\<close> The Postgres store of the Triage Counter and the loading of configurations are SQL and row
  decoding (the rows themselves are modelled for registry configurations). Serde derives are taken as the
  obvious renaming. Telemetry set-up, metric rendering, start-up and health routes are glue. Of the management API the read-only listings and dashboards,
  policy simulation, OpenVEX import, the endpoints for the command-line client, sessions and the HTTP clients are not modelled, and neither is the command-line client itself; the Python services and the web application are outside the Rust code.
\<close>

section \<open>From stored signals to decisions\<close>

text \<open>A live approval that covers the request.\<close>

definition live_override ::
  "timestamp \<Rightarrow> InMemoryPolicyRepository \<Rightarrow> uuid \<Rightarrow> PackageCoordinate \<Rightarrow> ArtifactDigest option
     \<Rightarrow> PackageRequestKind \<Rightarrow> bool" where
  "live_override now r t c d k =
     (\<exists>x \<in> set (mr_override_records r). or_tenant_id x = t \<and> or_expires_at x > now
        \<and> override_scope_matches (or_scope x) c d k \<and> or_status x = ''approved'')"

lemma override_flags_live:
  "os_active_override (projr (load_override_signal_status (\<lambda>_. now) r t c d k))
     \<or> os_emergency_bypass (projr (load_override_signal_status (\<lambda>_. now) r t c d k))
   \<longleftrightarrow> live_override now r t c d k"
  unfolding load_override_signal_status_def live_override_def override_is_live_def sum.sel override_status_flags
  by auto

lemma bound_known_malicious:
  assumes "mr_profiles r (rq_tenant_id q, rq_policy_profile_id q) = Some profile"
  shows "pi_known_malicious (bound_input (\<lambda>_. now) r q) \<longleftrightarrow>
    malicious_signal now r (rq_tenant_id q) (nr_coordinate (rq_request q)) (nr_requested_digest (rq_request q))"
proof -
  let ?p = "pg_scorecard (lp_signal_configuration profile)"
  let ?load = "load_package_signal_status (\<lambda>_. now) r (rq_tenant_id q) (nr_coordinate (rq_request q))
      (nr_requested_digest (rq_request q)) ?p"
  obtain status where s: "?load = Inr status"
    using loaders_total(3) by (metis sum.collapse(2))
  show ?thesis
    unfolding bound_signals_memory(1) [OF assms] s sum.sel load_known_malicious_match_const
      load_package_signal_status_malicious [OF s] malicious_signal_def by blast
qed

text \<open>C1: a package is blocked as known malicious exactly when it should be. For every request that
  binds, the decision is the known-malicious block if and only if a live known-malicious signal
  of the tenant stands on the package (for that artifact or for all), or on a package that its
  newest dependency snapshot makes it depend on, directly or transitively, and no live approved
  override of the tenant covers the request.\<close>

theorem known_malicious_blocked_iff:
  assumes "bind_request_with_context (in_memory_ops (\<lambda>_. now) r) q b = Inr ctx"
  shows "rs_decision (evaluate (bc_policy_input ctx)) = BlockKnownMalicious \<longleftrightarrow>
    malicious_signal now r (rq_tenant_id q) (nr_coordinate (rq_request q)) (nr_requested_digest (rq_request q))
    \<and> \<not> live_override now r (rq_tenant_id q) (nr_coordinate (rq_request q))
          (nr_requested_digest (rq_request q)) (nr_kind (rq_request q))"
proof -
  from bind_request_with_context_memory(3) [OF assms] obtain profile
    where p: "mr_profiles r (rq_tenant_id q, rq_policy_profile_id q) = Some profile" by auto
  from bind_request_with_context_memory(4) [OF assms] have c: "ctx = bound_context (\<lambda>_. now) r q" by simp
  have "pi_active_override (bc_policy_input ctx) \<or> pi_emergency_bypass (bc_policy_input ctx) \<longleftrightarrow>
      live_override now r (rq_tenant_id q) (nr_coordinate (rq_request q))
          (nr_requested_digest (rq_request q)) (nr_kind (rq_request q))"
    unfolding c bound_signals_memory(2,3) [OF p] by (rule override_flags_live)
  moreover have "pi_known_malicious (bc_policy_input ctx) \<longleftrightarrow>
      malicious_signal now r (rq_tenant_id q) (nr_coordinate (rq_request q)) (nr_requested_digest (rq_request q))"
    unfolding c by (rule bound_known_malicious [OF p])
  moreover have "rs_decision (evaluate i) = BlockKnownMalicious \<longleftrightarrow>
      \<not> (pi_active_override i \<or> pi_emergency_bypass i) \<and> pi_known_malicious i" for i
    by (simp add: fst_engine_outcome decision_rules_def vulnerability_decision_def
        split: VulnerabilityPolicyAction.split)
  ultimately show ?thesis by blast
qed

definition malicious_repository :: InMemoryPolicyRepository where
  "malicious_repository = sample_repository\<lparr>mr_package_signal_records := [sample_signal],
     mr_deps_dev_dependency_snapshots := [sample_snapshot]\<rparr>"

theorem known_malicious_blocked_iff_witness:
  "\<exists>ctx. bind_request_with_context (in_memory_ops (\<lambda>_. 5) malicious_repository) sample_request False = Inr ctx
     \<and> rs_decision (evaluate (bc_policy_input ctx)) = BlockKnownMalicious"
proof -
  have p: "mr_profiles malicious_repository (rq_tenant_id sample_request, rq_policy_profile_id sample_request)
      = Some sample_profile" by (simp add: malicious_repository_def sample_repository_facts)
  obtain ctx where "bound_decision_context (in_memory_ops (\<lambda>_. 5) malicious_repository) sample_request = Inr ctx"
    using bound_decision_context_memory(1) [OF p] by blast
  moreover have "op_load_registry_policy_binding (in_memory_ops (\<lambda>_. 5) malicious_repository)
      = load_registry_policy_binding malicious_repository" by (simp add: in_memory_ops_def)
  ultimately have b: "bind_request_with_context (in_memory_ops (\<lambda>_. 5) malicious_repository) sample_request False = Inr ctx"
    by (simp add: bind_request_with_context_def load_registry_policy_binding_def sample_repository_facts
        sample_binding_def malicious_repository_def)
  have v: "pc_version sample_coordinate \<noteq> None" by (simp add: sample_coordinate_def coordinate_new_def)
  have f: "find (\<lambda>s. purl sample_coordinate \<in> set (dn_package_purls s)
       \<or> map_of (dn_dependency_edges s) (purl sample_coordinate) \<noteq> None)
      (rev (mr_deps_dev_dependency_snapshots malicious_repository)) = Some sample_snapshot"
    using sample_snapshot_found by (simp add: malicious_repository_def)
  have name: "sg_signal sample_signal = ''known-malicious''" by (simp add: sample_signal_def)
  have mem: "sample_signal \<in> {s \<in> set (mr_package_signal_records malicious_repository). sg_tenant_id s = 1
        \<and> sg_artifact_digest s = None \<and> is_none_or (\<lambda>e. e > 5) (sg_expires_at s)
        \<and> (purl sample_coordinate, purl (sg_coordinate s)) \<in> (dependency_edge (dn_dependency_edges sample_snapshot))\<^sup>+}"
    using sample_dependency_reached by (simp add: malicious_repository_def sample_signal_def)
  have "''known-malicious'' \<in> set (load_transitive_dependency_signals (\<lambda>_. 5) malicious_repository 1 sample_coordinate)"
    unfolding load_transitive_dependency_signals_eq [OF v f]
    using imageI [OF mem, of sg_signal, unfolded name] by simp
  then have "malicious_signal 5 malicious_repository (rq_tenant_id sample_request)
      (nr_coordinate (rq_request sample_request)) (nr_requested_digest (rq_request sample_request))"
    by (simp add: malicious_signal_def sample_request_def)
  moreover have "\<not> live_override 5 malicious_repository t c d k" for t c d k
    by (simp add: live_override_def malicious_repository_def sample_repository_def upsert_registry_binding_def
        upsert_profile_def empty_repository_def)
  ultimately show ?thesis using known_malicious_blocked_iff [OF b] b by blast
qed

end
